(* ===== verification/Prelude.thy ===== *)
theory Prelude imports Main "HOL-Library.AList" begin

text \<open>
  What every other theory of the development shares: the errors of the modelled Python code
  and the result type that carries them, the sequencing of fallible steps, dictionaries that
  keep insertion order (association lists, as Python's \<open>dict\<close> does), and the generic
  lemmas about them.  The collection \<open>res_simps\<close> holds the equations that take a
  successful result apart.
\<close>

section \<open>Errors and results\<close>

named_theorems res_simps \<open>taking results apart\<close>

text \<open>
  \<open>SysExit\<close> is a call of \<open>sys.exit\<close>, \<open>exit\<close> or \<open>errorMsg\<close> (which ends with \<open>exit(1)\<close>);
  the other constructors are the Python exceptions the modelled code raises.
\<close>

datatype py_err =
    SysExit
  | KeyError string
  | AttributeError
  | ValueError
  | IndexError
  | TypeError
  | AssertionError
  | UnboundLocalError
  | OverflowError
  | RecursionError
  | RaisedException

type_synonym 'a res = "py_err + 'a"

fun rbind :: "'a res \<Rightarrow> ('a \<Rightarrow> 'b res) \<Rightarrow> 'b res" where
  "rbind (Inl e) f = Inl e"
| "rbind (Inr x) f = f x"

definition rmap :: "('a \<Rightarrow> 'b) \<Rightarrow> 'a res \<Rightarrow> 'b res" where
  "rmap f m = rbind m (\<lambda>x. Inr (f x))"

text \<open>The elements of a list display or of an argument list are evaluated left to right.\<close>

fun seq_res :: "'a res list \<Rightarrow> 'a list res" where
  "seq_res [] = Inr []"
| "seq_res (m # ms) = rbind m (\<lambda>x. rbind (seq_res ms) (\<lambda>xs. Inr (x # xs)))"

text \<open>A \<open>for\<close> loop over a list whose body may stop with an error.\<close>

fun foldr_res :: "('a \<Rightarrow> 's \<Rightarrow> 's res) \<Rightarrow> 'a list \<Rightarrow> 's \<Rightarrow> 's res" where
  "foldr_res f [] s = Inr s"
| "foldr_res f (x # xs) s = rbind (f x s) (foldr_res f xs)"

definition guard :: "bool \<Rightarrow> py_err \<Rightarrow> unit res" where
  "guard b e = (if b then Inr () else Inl e)"

lemma rbind_Inr_iff [res_simps]:
  "rbind m f = Inr y \<longleftrightarrow> (\<exists>x. m = Inr x \<and> f x = Inr y)"
  by (cases m) auto

lemma rbind_assoc: "rbind (rbind m f) g = rbind m (\<lambda>x. rbind (f x) g)"
  by (cases m) auto

lemma rbind_Inl_iff:
  "rbind m f = Inl e \<longleftrightarrow> m = Inl e \<or> (\<exists>x. m = Inr x \<and> f x = Inl e)"
  by (cases m) auto

lemma rmap_simps [simp]: "rmap f (Inl e) = Inl e" "rmap f (Inr x) = Inr (f x)"
  by (simp_all add: rmap_def)

lemma rmap_Inr_iff [res_simps]: "rmap f m = Inr y \<longleftrightarrow> (\<exists>x. m = Inr x \<and> y = f x)"
  by (cases m) auto

lemma guard_Inr_iff [res_simps]: "guard b e = Inr u \<longleftrightarrow> b"
  by (simp add: guard_def)

lemma guard_simps [simp]: "guard True e = Inr ()" "guard False e = Inl e"
  by (simp_all add: guard_def)

lemma seq_res_Nil_iff [res_simps]: "seq_res [] = Inr ys \<longleftrightarrow> ys = []"
  by auto

lemma seq_res_Cons_iff [res_simps]:
  "seq_res (m # ms) = Inr ys \<longleftrightarrow> (\<exists>x xs. m = Inr x \<and> seq_res ms = Inr xs \<and> ys = x # xs)"
  by (auto simp: rbind_Inr_iff)

declare seq_res.simps [simp del]

lemma seq_res_map_nth:
  "seq_res (map f xs) = Inr ys \<Longrightarrow> length ys = length xs \<and> (\<forall>i<length xs. f (xs ! i) = Inr (ys ! i))"
  by (induction xs arbitrary: ys) (auto simp: res_simps nth_Cons split: nat.splits)

lemma seq_res_map_Inr [simp]: "seq_res (map Inr xs) = Inr xs"
  by (induction xs) (auto simp: seq_res.simps)

lemma foldr_res_append:
  "foldr_res f (xs @ ys) s = rbind (foldr_res f xs s) (foldr_res f ys)"
proof (induction xs arbitrary: s)
  case (Cons x xs)
  then show ?case by (cases "f x s") simp_all
qed simp

text \<open>An invariant kept by every iteration that returns holds after the loop.\<close>

lemma foldr_res_invariant:
  assumes "foldr_res f xs s = Inr s'" and "P s"
    and "\<And>x s s'. x \<in> set xs \<Longrightarrow> P s \<Longrightarrow> f x s = Inr s' \<Longrightarrow> P s'"
  shows "P s'"
  using assms
proof (induction xs arbitrary: s)
  case (Cons x xs)
  then obtain s1 where s1: "f x s = Inr s1" "foldr_res f xs s1 = Inr s'"
    by (auto simp: rbind_Inr_iff)
  have "P s1" using Cons.prems(2,3) s1(1) by auto
  then show ?case using Cons.IH s1(2) Cons.prems(3) by auto
qed simp

section \<open>Dictionaries that keep insertion order\<close>

type_synonym ('k, 'v) dict = "('k \<times> 'v) list"

definition dict_get :: "('k, 'v) dict \<Rightarrow> 'k \<Rightarrow> py_err \<Rightarrow> 'v res" where
  "dict_get d k e = (case map_of d k of None \<Rightarrow> Inl e | Some v \<Rightarrow> Inr v)"

definition dict_set :: "'k \<Rightarrow> 'v \<Rightarrow> ('k, 'v) dict \<Rightarrow> ('k, 'v) dict" where
  "dict_set k v d = AList.update k v d"

definition dict_del :: "'k \<Rightarrow> ('k, 'v) dict \<Rightarrow> ('k, 'v) dict" where
  "dict_del k d = AList.delete k d"

definition in_dict :: "'k \<Rightarrow> ('k, 'v) dict \<Rightarrow> bool" where
  "in_dict k d = (k \<in> set (map fst d))"

definition wf_dict :: "('k, 'v) dict \<Rightarrow> bool" where
  "wf_dict d = distinct (map fst d)"

lemma dict_get_Inr_iff [res_simps]: "dict_get d k e = Inr v \<longleftrightarrow> map_of d k = Some v"
  by (simp add: dict_get_def split: option.splits)

lemma in_dict_iff: "in_dict k d \<longleftrightarrow> map_of d k \<noteq> None"
  by (simp add: in_dict_def map_of_eq_None_iff)

lemma in_dict_get: "in_dict k d \<longleftrightarrow> (\<exists>v. dict_get d k e = Inr v)"
  by (auto simp: in_dict_iff dict_get_Inr_iff)

lemma map_of_dict_set [simp]: "map_of (dict_set k v d) = (map_of d)(k \<mapsto> v)"
  by (rule ext) (simp add: dict_set_def update_conv')

lemma map_of_dict_del [simp]: "map_of (dict_del k d) = (map_of d)(k := None)"
  by (rule ext) (simp add: dict_del_def delete_conv')

lemma dict_get_set [simp]:
  "dict_get (dict_set k v d) k' e = (if k' = k then Inr v else dict_get d k' e)"
  by (simp add: dict_get_def)

lemma keys_dict_set: "set (map fst (dict_set k v d)) = insert k (set (map fst d))"
proof -
  have "dom (map_of (dict_set k v d)) = insert k (dom (map_of d))" by simp
  then show ?thesis by (simp only: dom_map_of_conv_image_fst set_map)
qed

lemma in_dict_set [simp]: "in_dict k' (dict_set k v d) \<longleftrightarrow> k' = k \<or> in_dict k' d"
  by (auto simp: in_dict_iff)

lemma wf_dict_Nil [simp]: "wf_dict []"
  by (simp add: wf_dict_def)

lemma wf_dict_set [simp]: "wf_dict d \<Longrightarrow> wf_dict (dict_set k v d)"
  by (simp add: wf_dict_def dict_set_def distinct_update)

lemma wf_dict_del [simp]: "wf_dict d \<Longrightarrow> wf_dict (dict_del k d)"
  by (simp add: wf_dict_def dict_del_def distinct_delete)

text \<open>A check of every entry of a table holds for every looked-up value.\<close>

lemma map_of_list_all:
  assumes "list_all (\<lambda>(k, v). P k v) d" and "map_of d k = Some v"
  shows "P k v"
  using map_of_SomeD [OF assms(2)] assms(1) by (auto simp: list_all_iff)

text \<open>\<open>{**a, **b}\<close>: the entries of \<open>b\<close> are stored into a copy of \<open>a\<close>.\<close>

definition dict_merge :: "('k, 'v) dict \<Rightarrow> ('k, 'v) dict \<Rightarrow> ('k, 'v) dict" where
  "dict_merge a b = foldl (\<lambda>d e. dict_set (fst e) (snd e) d) a b"

lemma keys_dict_set_image: "fst ` set (dict_set k v d) = insert k (fst ` set d)"
  using keys_dict_set [of k v d] by simp

lemma keys_dict_merge: "fst ` set (dict_merge a b) = fst ` set a \<union> fst ` set b"
proof (induction b rule: rev_induct)
  case (snoc e b)
  then show ?case by (simp add: dict_merge_def keys_dict_set_image)
qed (simp add: dict_merge_def)

lemma map_of_dict_merge: "map_of (dict_merge a b) k = Some v \<Longrightarrow> map_of a k = Some v \<or> (k, v) \<in> set b"
proof (induction b rule: rev_induct)
  case (snoc e b)
  then show ?case by (cases e) (auto simp: dict_merge_def split: if_splits)
qed (simp add: dict_merge_def)

lemma map_of_dict_merges:
  "map_of (foldl dict_merge [] ds) k = Some v \<Longrightarrow> \<exists>d\<in>set ds. (k, v) \<in> set d"
proof (induction ds rule: rev_induct)
  case (snoc d ds)
  then show ?case by (auto dest: map_of_dict_merge)
qed simp

lemma map_of_merges_list_all:
  assumes "list_all (list_all (\<lambda>(k, v). P k v)) ds" and "map_of (foldl dict_merge [] ds) k = Some v"
  shows "P k v"
  using map_of_dict_merges [OF assms(2)] assms(1) by (fastforce simp: list_all_iff)

lemma ex_Suc_less: "(\<exists>i<Suc n. P i) \<longleftrightarrow> P 0 \<or> (\<exists>i<n. P (Suc i))"
  by (metis less_Suc_eq_0_disj)

end
