(* ===== verification/Py_Str.thy ===== *)
theory Py_Str imports Prelude begin

text \<open>
  The Python string and integer operations the modelled code calls: \<open>split\<close>, \<open>strip\<close>,
  \<open>rstrip\<close>, \<open>replace\<close>, \<open>int\<close>, \<open>str\<close> and the binary format of an integer.  Strings are
  lists of bytes, which is what the assembly sources hold.  Python's integers are unbounded:
  they are \<open>int\<close>.
\<close>

section \<open>Splitting and replacing\<close>

definition is_space :: "char \<Rightarrow> bool" where
  "is_space c = (c \<in> {CHR '' '', CHR 0x09, CHR 0x0A, CHR 0x0B, CHR 0x0C, CHR 0x0D,
                      CHR 0x1C, CHR 0x1D, CHR 0x1E, CHR 0x1F})"

text \<open>\<open>s.split()\<close>: maximal runs of characters that are not white space.\<close>

function split_ws :: "string \<Rightarrow> string list" where
  "split_ws [] = []"
| "split_ws (c # cs) =
     (if is_space c then split_ws cs
      else (c # takeWhile (\<lambda>x. \<not> is_space x) cs)
             # split_ws (dropWhile (\<lambda>x. \<not> is_space x) cs))"
  by pat_completeness auto
termination
  by (relation "measure length") (auto simp: length_dropWhile_le less_Suc_eq_le)

text \<open>\<open>s.split(d)\<close> for a one-character separator: never the empty list.\<close>

fun split_on :: "char \<Rightarrow> string \<Rightarrow> string list" where
  "split_on d [] = [[]]"
| "split_on d (c # cs) =
     (if c = d then [] # split_on d cs
      else (case split_on d cs of [] \<Rightarrow> [[c]] | w # ws \<Rightarrow> (c # w) # ws))"

definition lstrip :: "string \<Rightarrow> string" where
  "lstrip s = dropWhile is_space s"

definition rstrip_of :: "(char \<Rightarrow> bool) \<Rightarrow> string \<Rightarrow> string" where
  "rstrip_of p s = rev (dropWhile p (rev s))"

definition strip :: "string \<Rightarrow> string" where
  "strip s = rstrip_of is_space (lstrip s)"

definition starts_with :: "string \<Rightarrow> string \<Rightarrow> bool" where
  "starts_with p s = (take (length p) s = p)"

text \<open>\<open>old in s\<close>\<close>

fun contains_str :: "string \<Rightarrow> string \<Rightarrow> bool" where
  "contains_str old [] = (old = [])"
| "contains_str old (c # cs) = (starts_with old (c # cs) \<or> contains_str old cs)"

text \<open>\<open>s.replace(old, new, 1)\<close>\<close>

fun replace_first :: "string \<Rightarrow> string \<Rightarrow> string \<Rightarrow> string" where
  "replace_first old new [] = (if old = [] then new else [])"
| "replace_first old new (c # cs) =
     (if starts_with old (c # cs) then new @ drop (length old) (c # cs)
      else c # replace_first old new cs)"

text \<open>\<open>s.replace(c, d)\<close> for single characters\<close>

definition replace_char :: "char \<Rightarrow> char \<Rightarrow> string \<Rightarrow> string" where
  "replace_char c d s = map (\<lambda>x. if x = c then d else x) s"

lemma length_replace_char [simp]: "length (replace_char c d s) = length s"
  by (simp add: replace_char_def)

lemma split_on_nonempty [simp]: "split_on d s \<noteq> []"
  by (induction s) (auto split: list.splits)

section \<open>Integers and their decimal spelling\<close>

definition is_digit :: "char \<Rightarrow> bool" where
  "is_digit c = (48 \<le> (of_char c :: nat) \<and> (of_char c :: nat) \<le> 57)"

definition digit_val :: "char \<Rightarrow> nat" where
  "digit_val c = of_char c - 48"

definition digit_chr :: "nat \<Rightarrow> char" where
  "digit_chr d = char_of (d + 48)"

text \<open>The digits after the first one; a single underscore may stand between two digits.\<close>

fun digits_from :: "nat \<Rightarrow> string \<Rightarrow> nat option" where
  "digits_from n [] = Some n"
| "digits_from n (c # cs) =
     (if is_digit c then digits_from (10 * n + digit_val c) cs
      else if c = CHR ''_'' then
        (case cs of [] \<Rightarrow> None
         | d # ds \<Rightarrow> if is_digit d then digits_from (10 * n + digit_val d) ds else None)
      else None)"

definition parse_nat :: "string \<Rightarrow> nat option" where
  "parse_nat s = (case s of [] \<Rightarrow> None
                  | c # cs \<Rightarrow> if is_digit c then digits_from (digit_val c) cs else None)"

text \<open>\<open>int(s)\<close> on a string; a spelling it does not accept raises \<open>ValueError\<close>.\<close>

definition py_int :: "string \<Rightarrow> int res" where
  "py_int s =
     (let t = strip s;
          r = (case t of
                 [] \<Rightarrow> None
               | c # cs \<Rightarrow>
                   if c = CHR ''-'' then map_option (\<lambda>n. - int n) (parse_nat cs)
                   else if c = CHR ''+'' then map_option int (parse_nat cs)
                   else map_option int (parse_nat t))
      in case r of None \<Rightarrow> Inl ValueError | Some i \<Rightarrow> Inr i)"

fun nat_str :: "nat \<Rightarrow> string" where
  "nat_str n = (if n < 10 then [digit_chr n] else nat_str (n div 10) @ [digit_chr (n mod 10)])"

declare nat_str.simps [simp del]

text \<open>\<open>str(i)\<close>\<close>

definition py_str :: "int \<Rightarrow> string" where
  "py_str i = (if i < 0 then CHR ''-'' # nat_str (nat (- i)) else nat_str (nat i))"

lemma of_char_digit_chr: "d < 10 \<Longrightarrow> (of_char (digit_chr d) :: nat) = d + 48"
  by (simp add: digit_chr_def of_char_of)

lemma is_digit_chr [simp]: "d < 10 \<Longrightarrow> is_digit (digit_chr d)"
  by (simp add: is_digit_def of_char_digit_chr)

lemma digit_val_chr [simp]: "d < 10 \<Longrightarrow> digit_val (digit_chr d) = d"
  by (simp add: digit_val_def of_char_digit_chr)

lemma nat_str_nonempty [simp]: "nat_str n \<noteq> []"
  by (subst nat_str.simps) simp

lemma nat_str_digits: "list_all is_digit (nat_str n)"
proof (induction n rule: nat_str.induct)
  case (1 n)
  then show ?case by (subst nat_str.simps) (auto simp: list_all_iff)
qed

lemma digits_from_digits:
  "list_all is_digit s \<Longrightarrow> is_digit c \<Longrightarrow>
   digits_from n (s @ [c]) = map_option (\<lambda>m. 10 * m + digit_val c) (digits_from n s)"
  by (induction s arbitrary: n) auto

lemma parse_nat_snoc:
  assumes "s \<noteq> []" and "list_all is_digit s" and "is_digit c"
  shows "parse_nat (s @ [c]) = map_option (\<lambda>m. 10 * m + digit_val c) (parse_nat s)"
  using assms by (cases s) (auto simp: parse_nat_def digits_from_digits)

lemma parse_nat_str: "parse_nat (nat_str n) = Some n"
proof (induction n rule: nat_str.induct)
  case (1 n)
  show ?case
  proof (cases "n < 10")
    case True
    then show ?thesis by (subst nat_str.simps) (simp add: parse_nat_def)
  next
    case False
    with 1 have "parse_nat (nat_str (n div 10)) = Some (n div 10)" by simp
    with False show ?thesis
      by (subst nat_str.simps) (simp add: parse_nat_snoc nat_str_digits)
  qed
qed

lemma digit_not_space: "is_digit c \<Longrightarrow> \<not> is_space c"
  by (auto simp: is_digit_def is_space_def)

lemma digit_not_sign: "is_digit c \<Longrightarrow> c \<noteq> CHR ''-'' \<and> c \<noteq> CHR ''+''"
  by (auto simp: is_digit_def)

lemma strip_no_space:
  assumes "s = [] \<or> \<not> is_space (hd s)" and "s = [] \<or> \<not> is_space (last s)"
  shows "strip s = s"
proof -
  have "dropWhile is_space s = s" using assms(1) by (simp add: dropWhile_eq_self_iff)
  moreover have "dropWhile is_space (rev s) = rev s"
    using assms(2) by (simp add: dropWhile_eq_self_iff hd_rev)
  ultimately show ?thesis by (simp add: strip_def lstrip_def rstrip_of_def)
qed

text \<open>Printing an integer and reading it back gives the integer.\<close>

lemma py_int_str: "py_int (py_str i) = Inr i"
proof -
  obtain c cs where c: "nat_str (nat \<bar>i\<bar>) = c # cs"
    by (cases "nat_str (nat \<bar>i\<bar>)") auto
  have d: "is_digit c" and l: "is_digit (last (c # cs))"
    using nat_str_digits [of "nat \<bar>i\<bar>"] c by (auto simp: list_all_iff)
  have p: "parse_nat (c # cs) = Some (nat \<bar>i\<bar>)" using c parse_nat_str [of "nat \<bar>i\<bar>"] by simp
  have s: "strip (py_str i) = py_str i"
    using c d l by (intro strip_no_space) (auto simp: py_str_def digit_not_space is_space_def [of "CHR ''-''"])
  show ?thesis
    unfolding py_int_def s Let_def
    using c p digit_not_sign [OF d] by (auto simp: py_str_def)
qed

section \<open>Binary digits\<close>

definition bit_chr :: "nat \<Rightarrow> char" where
  "bit_chr b = (if b = 0 then CHR ''0'' else CHR ''1'')"

text \<open>\<open>format(n, 'b')\<close> for a non-negative integer\<close>

fun bin_str :: "nat \<Rightarrow> string" where
  "bin_str n = (if n < 2 then [bit_chr n] else bin_str (n div 2) @ [bit_chr (n mod 2)])"

declare bin_str.simps [simp del]

text \<open>The width of a format specification pads with blanks on the left.\<close>

definition pad_left :: "nat \<Rightarrow> char \<Rightarrow> string \<Rightarrow> string" where
  "pad_left w c s = replicate (w - length s) c @ s"

definition is_bits :: "string \<Rightarrow> bool" where
  "is_bits s = list_all (\<lambda>c. c = CHR ''0'' \<or> c = CHR ''1'') s"

text \<open>The number a string of binary digits spells, most significant digit first.\<close>

definition bits_val :: "string \<Rightarrow> nat" where
  "bits_val s = foldl (\<lambda>n c. 2 * n + (if c = CHR ''1'' then 1 else 0)) 0 s"

text \<open>\<open>int(s, 2)\<close> for the strings the assembler builds\<close>

definition py_int2 :: "string \<Rightarrow> int res" where
  "py_int2 s = (if s \<noteq> [] \<and> is_bits s then Inr (int (bits_val s)) else Inl ValueError)"

fun to_bits :: "nat \<Rightarrow> nat \<Rightarrow> string" where
  "to_bits 0 n = []"
| "to_bits (Suc w) n = to_bits w (n div 2) @ [bit_chr (n mod 2)]"

lemma to_bits_num:
  "to_bits (numeral k) n = to_bits (pred_numeral k) (n div 2) @ [bit_chr (n mod 2)]"
  by (simp add: numeral_eq_Suc)

lemma is_bits_simps [simp]:
  "is_bits []" "is_bits (c # s) \<longleftrightarrow> (c = CHR ''0'' \<or> c = CHR ''1'') \<and> is_bits s"
  "is_bits (s @ t) \<longleftrightarrow> is_bits s \<and> is_bits t"
  by (simp_all add: is_bits_def)

lemma is_bits_bit_chr [simp]: "bit_chr b = CHR ''0'' \<or> bit_chr b = CHR ''1''"
  by (simp add: bit_chr_def)

lemma length_to_bits [simp]: "length (to_bits w n) = w"
  by (induction w arbitrary: n) auto

lemma is_bits_to_bits [simp]: "is_bits (to_bits w n)"
  by (induction w arbitrary: n) auto

lemma bits_val_Nil [simp]: "bits_val [] = 0"
  by (simp add: bits_val_def)

lemma bits_val_snoc [simp]:
  "bits_val (s @ [c]) = 2 * bits_val s + (if c = CHR ''1'' then 1 else 0)"
  by (simp add: bits_val_def)

lemma bits_val_append: "bits_val (s @ t) = bits_val s * 2 ^ length t + bits_val t"
proof (induction t rule: rev_induct)
  case (snoc c t)
  have "bits_val (s @ t @ [c]) = 2 * bits_val (s @ t) + (if c = CHR ''1'' then 1 else 0)"
    using bits_val_snoc [of "s @ t" c] by simp
  with snoc show ?case by simp
qed simp

lemma bits_val_less: "bits_val s < 2 ^ length s"
proof (induction s rule: rev_induct)
  case (snoc c s)
  then show ?case by auto
qed simp

lemma bits_val_to_bits [simp]: "bits_val (to_bits w n) = n mod 2 ^ w"
proof (induction w arbitrary: n)
  case (Suc w)
  have "n mod 2 ^ Suc w = 2 * (n div 2 mod 2 ^ w) + n mod 2"
    by (simp add: mod_mult2_eq mult.commute)
  with Suc show ?case by (auto simp: bit_chr_def)
qed simp

lemma to_bits_eq_zeros: "n < 2 ^ k \<Longrightarrow> to_bits (m + k) n = replicate m CHR ''0'' @ to_bits k n"
proof (induction k arbitrary: n)
  case 0
  then show ?case
  proof (induction m)
    case (Suc m)
    then show ?case
      by (simp add: bit_chr_def replicate_append_same)
  qed simp
next
  case (Suc k)
  then have "n div 2 < 2 ^ k" by (simp add: less_mult_imp_div_less mult.commute)
  with Suc.IH [of "n div 2"] show ?case by simp
qed

lemma bin_str_to_bits: "bin_str n = to_bits (length (bin_str n)) n \<and> n < 2 ^ length (bin_str n)"
proof (induction n rule: bin_str.induct)
  case (1 n)
  show ?case
  proof (cases "n < 2")
    case True
    then show ?thesis by (auto simp: bin_str.simps [of n] bit_chr_def)
  next
    case False
    with 1 have IH: "bin_str (n div 2) = to_bits (length (bin_str (n div 2))) (n div 2)"
      and lt: "n div 2 < 2 ^ length (bin_str (n div 2))" by auto
    have "n < 2 * 2 ^ length (bin_str (n div 2))" using lt by linarith
    with False IH show ?thesis by (simp add: bin_str.simps [of n])
  qed
qed

lemma length_bin_str_le: "n < 2 ^ w \<Longrightarrow> 0 < w \<Longrightarrow> length (bin_str n) \<le> w"
proof (induction n arbitrary: w rule: bin_str.induct)
  case (1 n)
  show ?case
  proof (cases "n < 2")
    case True
    with 1 show ?thesis by (simp add: bin_str.simps [of n])
  next
    case False
    obtain v where w: "w = Suc v" using "1.prems"(2) by (cases w) auto
    with False "1.prems"(1) have "0 < v" by (cases v) auto
    note w = w this
    then have "n div 2 < 2 ^ v" using "1.prems" by (simp add: less_mult_imp_div_less mult.commute)
    with 1 False w show ?thesis by (simp add: bin_str.simps [of n])
  qed
qed

text \<open>Padding with zeros to a width the number fits in gives its bits at that width.\<close>

lemma pad_bin_str:
  assumes "n < 2 ^ w" and "0 < w"
  shows "pad_left w CHR ''0'' (bin_str n) = to_bits w n"
proof -
  let ?k = "length (bin_str n)"
  have k: "?k \<le> w" using assms by (rule length_bin_str_le)
  have "to_bits w n = to_bits ((w - ?k) + ?k) n" using k by simp
  also have "\<dots> = replicate (w - ?k) CHR ''0'' @ to_bits ?k n"
    using bin_str_to_bits [of n] by (intro to_bits_eq_zeros) simp
  finally show ?thesis using bin_str_to_bits [of n] by (simp add: pad_left_def)
qed

lemma is_bits_bin_str [simp]: "is_bits (bin_str n)"
  using bin_str_to_bits [of n] is_bits_to_bits by metis

lemma bin_str_nonempty [simp]: "bin_str n \<noteq> []"
  by (subst bin_str.simps) simp

lemma replace_blank_pad:
  "replace_char CHR '' '' CHR ''0'' (pad_left w CHR '' '' (bin_str n)) =
   pad_left w CHR ''0'' (bin_str n)"
proof -
  have "is_bits s \<Longrightarrow> map (\<lambda>x. if x = CHR '' '' then CHR ''0'' else x) s = s" for s
    by (induction s) auto
  from this [OF is_bits_bin_str] show ?thesis by (simp add: replace_char_def pad_left_def)
qed

text \<open>A field of a concatenation: the digits between two cuts.\<close>

lemma bits_val_field:
  "bits_val (s @ t @ u) div 2 ^ length u mod 2 ^ length t = bits_val t"
proof -
  have "bits_val (s @ t @ u) div 2 ^ length u = bits_val (s @ t)"
    using bits_val_less [of u] bits_val_append [of "s @ t" u] by simp
  then show ?thesis
    using bits_val_less [of t] by (simp add: bits_val_append)
qed

end
