(* ===== verification/Isa_Encodings.thy ===== *)
theory Isa_Encodings imports Py_Str begin

text \<open>
  The instruction-set tables of \<open>src/updown/udbasim/assembler/isa_encodings.py\<close>: the codes of
  transition types, state properties, registers, precisions and function codes, the opcodes of
  every instruction format and the bit fields from which the simulator's decoder is generated.
  A Python dictionary is the list of its entries in insertion order.  The second half checks
  the tables against each other, entry by entry, and states each check for every looked-up
  entry: codes have the width of their field, the fields of an instruction fill its word,
  and the tables that map codes back to names invert the tables that encode them.
\<close>

text \<open>A field of an instruction: its width, its kind, its name and its place in a listing.\<close>

datatype ftype = FOp | FFc | FR5 | FR4 | FSi | FUi | FB16 | FNa | FTy

type_synonym field = "nat \<times> ftype \<times> string \<times> nat"

definition NUM_TRANSITION_TYPES :: int where
  "NUM_TRANSITION_TYPES = 16"

section \<open>Transition types and state properties\<close>

definition transition_type_enc :: "(string, string) dict" where
  "transition_type_enc = [
    (''eventCarry'', ''0000''), (''event'', ''0001''), (''refill'', ''0010''),
    (''majorityCarry'', ''0011''), (''defaultCarry'', ''0100''), (''flagCarry'', ''0101''),
    (''commonCarry'', ''0110''), (''epsilonCarry_with_action'', ''0111''),
    (''flagmajorityCarry'', ''1000''), (''flagdefaultCarry'', ''1001''),
    (''basic_with_action'', ''1010''), (''refill_with_action'', ''1011''),
    (''flagCarry_with_action'', ''1100''), (''commonCarry_with_action'', ''1101''),
    (''basic'', ''1110''), (''epsilonCarry'', ''1111'')]"

definition transition_type_enc_rev :: "(int, string) dict" where
  "transition_type_enc_rev = [
    (0, ''eventCarry''), (1, ''event''), (2, ''refillCarry''), (3, ''majorityCarry''),
    (4, ''defaultCarry''), (5, ''flagCarry''), (6, ''commonCarry''),
    (7, ''epsilonCarry_with_action''), (8, ''flagmajorityCarry''), (9, ''flagdefaultCarry''),
    (10, ''basic_with_action''), (11, ''refillCarry_with_action''),
    (12, ''flagCarry_with_action''), (13, ''commonCarry_with_action''), (14, ''basic''),
    (15, ''epsilonCarry'')]"

definition NUM_STATE_PROPERTIES :: int where
  "NUM_STATE_PROPERTIES = 12"

definition state_property_enc :: "(string, int) dict" where
  "state_property_enc = [
    (''EVENT'', 0), (''DEFAULT'', 1), (''COMMON'', 2), (''MAJORITY'', 3), (''FLAG'', 4),
    (''PERSIST'', 5), (''FLAG_MAJORITY'', 6), (''FLAG_DEFAULT'', 7), (''REFILL'', 8),
    (''EPSILON'', 9), (''NUL'', 10), (''BASIC'', 11)]"

definition state_property_enc_rev :: "(int, string) dict" where
  "state_property_enc_rev = [
    (0, ''EVENT''), (1, ''DEFAULT''), (2, ''COMMON''), (3, ''MAJORITY''), (4, ''FLAG''),
    (5, ''PERSIST''), (6, ''FLAG_MAJORITY''), (7, ''FLAG_DEFAULT''), (8, ''REFILL''),
    (9, ''EPSILON''), (10, ''NUL''), (11, ''BASIC'')]"

definition NUM_REGISTERS :: int where
  "NUM_REGISTERS = 32"

section \<open>Registers\<close>

definition register_enc :: "(string, string) dict" where
  "register_enc = [
    (''X0'', ''00000''), (''X1'', ''00001''), (''X2'', ''00010''), (''X3'', ''00011''),
    (''X4'', ''00100''), (''X5'', ''00101''), (''X6'', ''00110''), (''X7'', ''00111''),
    (''X8'', ''01000''), (''X9'', ''01001''), (''X10'', ''01010''), (''X11'', ''01011''),
    (''X12'', ''01100''), (''X13'', ''01101''), (''X14'', ''01110''), (''X15'', ''01111''),
    (''X16'', ''10000''), (''X17'', ''10001''), (''X18'', ''10010''), (''X19'', ''10011''),
    (''X20'', ''10100''), (''X21'', ''10101''), (''X22'', ''10110''), (''X23'', ''10111''),
    (''X24'', ''11000''), (''X25'', ''11001''), (''X26'', ''11010''), (''X27'', ''11011''),
    (''X28'', ''11100''), (''X29'', ''11101''), (''X30'', ''11110''), (''X31'', ''11111''),
    (''NWID'', ''00000''), (''Cont'', ''00001''), (''EQT'', ''00010''), (''FSCR'', ''00100''),
    (''state_property'', ''00110''), (''LMBase'', ''00111''), (''OB_0'', ''01000''),
    (''OB_1'', ''01001''), (''OB_2'', ''01010''), (''OB_3'', ''01011''), (''OB_4'', ''01100''),
    (''OB_5'', ''01101''), (''OB_6'', ''01110''), (''OB_7'', ''01111''),
    (''UDPR_0'', ''10000''), (''UDPR_1'', ''10001''), (''UDPR_2'', ''10010''),
    (''UDPR_3'', ''10011''), (''UDPR_4'', ''10100''), (''UDPR_5'', ''10101''),
    (''UDPR_6'', ''10110''), (''UDPR_7'', ''10111''), (''UDPR_8'', ''11000''),
    (''UDPR_9'', ''11001''), (''UDPR_10'', ''11010''), (''UDPR_11'', ''11011''),
    (''UDPR_12'', ''11100''), (''UDPR_13'', ''11101''), (''UDPR_14'', ''11110''),
    (''UDPR_15'', ''11111'')]"

definition register_enc_rev :: "(int, string) dict" where
  "register_enc_rev = [
    (0, ''X0''), (1, ''X1''), (2, ''X2''), (3, ''X3''), (4, ''X4''), (5, ''X5''), (6, ''X6''),
    (7, ''X7''), (8, ''X8''), (9, ''X9''), (10, ''X10''), (11, ''X11''), (12, ''X12''),
    (13, ''X13''), (14, ''X14''), (15, ''X15''), (16, ''X16''), (17, ''X17''), (18, ''X18''),
    (19, ''X19''), (20, ''X20''), (21, ''X21''), (22, ''X22''), (23, ''X23''), (24, ''X24''),
    (25, ''X25''), (26, ''X26''), (27, ''X27''), (28, ''X28''), (29, ''X29''), (30, ''X30''),
    (31, ''X31'')]"

section \<open>Precisions and function codes\<close>

definition precision_enc :: "(string, string) dict" where
  "precision_enc = [
    (''64'', ''001''), (''32'', ''010''), (''b16'', ''011''), (''i32'', ''111''),
    (''i64'', ''110''), (''FP64'', ''001''), (''FP32'', ''010''), (''BF16'', ''011''),
    (''I32'', ''111''), (''I64'', ''110''), (''UNUSED'', ''000'')]"

definition func_enc :: "(string, string) dict" where
  "func_enc = [
    (''0'', ''000''), (''1'', ''001''), (''2'', ''010''), (''3'', ''011''), (''4'', ''100''),
    (''5'', ''101''), (''6'', ''110''), (''7'', '''')]"

definition name_func_mapping :: "(string, string) dict" where
  "name_func_mapping = [
    (''bne'', ''0''), (''beq'', ''1''), (''bgt'', ''2''), (''ble'', ''3''), (''bneu'', ''0''),
    (''bequ'', ''1''), (''bgtu'', ''2''), (''bleu'', ''3''), (''bnei'', ''0''),
    (''beqi'', ''1''), (''bgti'', ''2''), (''blei'', ''3''), (''blti'', ''4''),
    (''bgei'', ''5''), (''bneiu'', ''0''), (''beqiu'', ''1''), (''bgtiu'', ''2''),
    (''bleiu'', ''3''), (''bltiu'', ''4''), (''bgeiu'', ''5''), (''add'', ''0''),
    (''sub'', ''1''), (''mul'', ''2''), (''div'', ''3''), (''mod'', ''4''), (''and'', ''0''),
    (''or'', ''1''), (''xor'', ''2''), (''clt'', ''0''), (''cgt'', ''1''), (''ceq'', ''2''),
    (''cstr'', ''3''), (''sr'', ''0''), (''sl'', ''1''), (''sar'', ''2''), (''bcpyll'', ''0''),
    (''movrr'', ''0''), (''movwlr'', ''0''), (''movwrl'', ''0''), (''bcpyol'', ''0''),
    (''fmadd.64'', ''0''), (''fadd.64'', ''1''), (''fsub.64'', ''2''), (''fmul.64'', ''3''),
    (''fdiv.64'', ''4''), (''fsqrt.64'', ''5''), (''fexp.64'', ''6''), (''fmadd.32'', ''0''),
    (''fadd.32'', ''1''), (''fsub.32'', ''2''), (''fmul.32'', ''3''), (''fdiv.32'', ''4''),
    (''fsqrt.32'', ''5''), (''fexp.32'', ''6''), (''fmadd.b16'', ''0''), (''fadd.b16'', ''1''),
    (''fsub.b16'', ''2''), (''fmul.b16'', ''3''), (''fdiv.b16'', ''4''),
    (''fsqrt.b16'', ''5''), (''fexp.b16'', ''6''), (''fcnvt.64.i64'', ''6''),
    (''fcnvt.32.i32'', ''7''), (''fcnvt.i64.64'', ''1''), (''fcnvt.i32.32'', ''2''),
    (''fcnvt.64.32'', ''2''), (''fcnvt.64.b16'', ''3''), (''fcnvt.32.64'', ''1''),
    (''fcnvt.32.b16'', ''3''), (''fcnvt.b16.64'', ''1''), (''fcnvt.b16.32'', ''2''),
    (''vmadd.32'', ''0''), (''vadd.32'', ''1''), (''vsub.32'', ''2''), (''vmul.32'', ''3''),
    (''vdiv.32'', ''4''), (''vsqrt.32'', ''5''), (''vexp.32'', ''6''), (''vmadd.b16'', ''0''),
    (''vadd.b16'', ''1''), (''vsub.b16'', ''2''), (''vmul.b16'', ''3''), (''vdiv.b16'', ''4''),
    (''vsqrt.b16'', ''5''), (''vexp.b16'', ''6''), (''vmadd.i32'', ''0''),
    (''vadd.i32'', ''1''), (''vsub.i32'', ''2''), (''vmul.i32'', ''3''), (''vdiv.i32'', ''4''),
    (''vsqrt.i32'', ''5''), (''vexp.i32'', ''6''), (''vgt.32'', ''0''), (''vgt.b16'', ''0''),
    (''vgt.i32'', ''0''), (''print'', ''0''), (''perflog'', ''1'')]"

section \<open>Opcodes by instruction format\<close>

definition I_opcode_enc :: "(string, string) dict" where
  "I_opcode_enc = [
    (''addi'', ''0001001''), (''subi'', ''0001010''), (''muli'', ''0001011''),
    (''divi'', ''0001100''), (''modi'', ''1111100''), (''clti'', ''0000011''),
    (''cgti'', ''0000100''), (''ceqi'', ''0000101''), (''andi'', ''0000110''),
    (''ori'', ''0000111''), (''xori'', ''1111011''), (''movil2'', ''0001110''),
    (''movil1'', ''0001111''), (''yield'', ''0000001''), (''yieldt'', ''0000010''),
    (''lastact'', ''1111101''), (''sli'', ''1010000''), (''sri'', ''1010001''),
    (''slori'', ''1010010''), (''srori'', ''1010011''), (''slandi'', ''1010100''),
    (''srandi'', ''1010101''), (''sari'', ''1010110''), (''hashsb32'', ''1010111''),
    (''hashsb64'', ''1011000''), (''hashl64'', ''1011001''), (''hash'', ''1011010''),
    (''hashl'', ''1011011''), (''bcpylli'', ''1011100''), (''movsbr'', ''1011101''),
    (''movipr'', ''1011110''), (''movlsb'', ''1011111''), (''siw'', ''1111001''),
    (''refill'', ''1111010''), (''ssprop'', ''1111000'')]"

definition LI_opcode_enc :: "(string, string) dict" where
  "LI_opcode_enc = [
    (''evlb'', ''1000010''), (''movir'', ''0001000'')]"

definition S_opcode_enc :: "(string, string) dict" where
  "S_opcode_enc = [
    (''sladdii'', ''0100010''), (''slsubii'', ''0100011''), (''sraddii'', ''0101000''),
    (''srsubii'', ''0101111''), (''slorii'', ''0100101''), (''srorii'', ''0100110''),
    (''slandii'', ''0100111''), (''srandii'', ''0101001''), (''movbil'', ''0101010''),
    (''movblr'', ''0101011''), (''fstate'', ''0101100''), (''cswpi'', ''0101101''),
    (''movlr'', ''0100000''), (''movrl'', ''0100001''), (''swiz'', ''0101110''),
    (''bcpyoli'', ''0100100'')]"

definition R_opcode_enc :: "(string, string) dict" where
  "R_opcode_enc = [
    (''add'', ''0110011''), (''sub'', ''0110011''), (''mul'', ''0110011''),
    (''div'', ''0110011''), (''mod'', ''0110011''), (''and'', ''0110100''),
    (''or'', ''0110100''), (''xor'', ''0110100''), (''clt'', ''0110101''),
    (''cgt'', ''0110101''), (''ceq'', ''0110101''), (''cstr'', ''0110101''),
    (''sr'', ''0110110''), (''sl'', ''0110110''), (''sar'', ''0110110''),
    (''bcpyll'', ''0110111''), (''movrr'', ''0111000''), (''movwlr'', ''0110001''),
    (''movwrl'', ''0110010''), (''bcpyol'', ''0110000''), (''fmadd.64'', ''1100000''),
    (''fadd.64'', ''1100000''), (''fsub.64'', ''1100000''), (''fmul.64'', ''1100000''),
    (''fdiv.64'', ''1100000''), (''fsqrt.64'', ''1100000''), (''fexp.64'', ''1100000''),
    (''fmadd.32'', ''1100000''), (''fadd.32'', ''1100000''), (''fsub.32'', ''1100000''),
    (''fmul.32'', ''1100000''), (''fdiv.32'', ''1100000''), (''fsqrt.32'', ''1100000''),
    (''fexp.32'', ''1100000''), (''fmadd.b16'', ''1100000''), (''fadd.b16'', ''1100000''),
    (''fsub.b16'', ''1100000''), (''fmul.b16'', ''1100000''), (''fdiv.b16'', ''1100000''),
    (''fsqrt.b16'', ''1100000''), (''fexp.b16'', ''1100000''), (''fcnvt.64.i64'', ''1100001''),
    (''fcnvt.32.i32'', ''1100001''), (''fcnvt.i64.64'', ''1100001''),
    (''fcnvt.i32.32'', ''1100001''), (''fcnvt.64.32'', ''1100001''),
    (''fcnvt.64.b16'', ''1100001''), (''fcnvt.32.64'', ''1100001''),
    (''fcnvt.32.b16'', ''1100001''), (''fcnvt.b16.64'', ''1100001''),
    (''fcnvt.b16.32'', ''1100001''), (''vmadd.32'', ''1100010''), (''vadd.32'', ''1100010''),
    (''vsub.32'', ''1100010''), (''vmul.32'', ''1100010''), (''vdiv.32'', ''1100010''),
    (''vsqrt.32'', ''1100010''), (''vexp.32'', ''1100010''), (''vmadd.b16'', ''1100010''),
    (''vadd.b16'', ''1100010''), (''vsub.b16'', ''1100010''), (''vmul.b16'', ''1100010''),
    (''vdiv.b16'', ''1100010''), (''vsqrt.b16'', ''1100010''), (''vexp.b16'', ''1100010''),
    (''vmadd.i32'', ''1100010''), (''vadd.i32'', ''1100010''), (''vsub.i32'', ''1100010''),
    (''vmul.i32'', ''1100010''), (''vdiv.i32'', ''1100010''), (''vsqrt.i32'', ''1100010''),
    (''vexp.i32'', ''1100010''), (''vgt.32'', ''1100011''), (''vgt.b16'', ''1100011''),
    (''vgt.i32'', ''1100011'')]"

definition B_opcode_enc :: "(string, string) dict" where
  "B_opcode_enc = [
    (''bne'', ''1000100''), (''beq'', ''1000100''), (''bgt'', ''1000100''),
    (''ble'', ''1000100''), (''bneu'', ''1001000''), (''bequ'', ''1001000''),
    (''bgtu'', ''1001000''), (''bleu'', ''1001000''), (''bnei'', ''1000011''),
    (''beqi'', ''1000011''), (''bgti'', ''1000011''), (''blei'', ''1000011''),
    (''blti'', ''1000011''), (''bgei'', ''1000011''), (''bneiu'', ''1000101''),
    (''beqiu'', ''1000101''), (''bgtiu'', ''1000101''), (''bleiu'', ''1000101''),
    (''bltiu'', ''1000101''), (''bgeiu'', ''1000101'')]"

definition J_opcode_enc :: "(string, string) dict" where
  "J_opcode_enc = [
    (''jmp'', ''1000110'')]"

definition M1_opcode_enc :: "(string, string) dict" where
  "M1_opcode_enc = [
    (''send'', ''0010000''), (''sendb'', ''0010101'')]"

definition M2_opcode_enc :: "(string, string) dict" where
  "M2_opcode_enc = [
    (''sendm'', ''0010001''), (''sendmb'', ''0010010''), (''instrans'', ''0011010'')]"

definition M3_opcode_enc :: "(string, string) dict" where
  "M3_opcode_enc = [
    (''sendr'', ''0010011''), (''sendr3'', ''0010111''), (''sendmr'', ''0010100''),
    (''sendmr2'', ''0011001'')]"

definition M4_opcode_enc :: "(string, string) dict" where
  "M4_opcode_enc = [
    (''sendops'', ''0010110''), (''sendmops'', ''0011000'')]"

definition E_opcode_enc :: "(string, string) dict" where
  "E_opcode_enc = [
    (''evi'', ''1000000''), (''evii'', ''1000001'')]"

definition R4_opcode_enc :: "(string, string) dict" where
  "R4_opcode_enc = [
    (''ev'', ''1110000''), (''cswp'', ''1110001'')]"

definition VF_opcode_enc :: "(string, string) dict" where
  "VF_opcode_enc = [
    (''vfill.32'', ''1100100''), (''vfill.i32'', ''1100100''), (''vfill.b16'', ''1100100'')]"

definition P_opcode_enc :: "(string, string) dict" where
  "P_opcode_enc = [
    (''print'', ''1111111''), (''perflog'', ''1111111'')]"

definition all_opcode_enc :: "(string, string) dict" where
  "all_opcode_enc = foldl dict_merge [] [
    I_opcode_enc, LI_opcode_enc, P_opcode_enc,
    S_opcode_enc, R_opcode_enc, B_opcode_enc, J_opcode_enc, M1_opcode_enc,
    M2_opcode_enc, M3_opcode_enc, M4_opcode_enc, E_opcode_enc, R4_opcode_enc, VF_opcode_enc]"

section \<open>The bit fields of every instruction\<close>

definition I_bitfields :: "(string, field list) dict" where
  "I_bitfields = [
    (''ITYPE'', [(7, FOp, ''opcode'', 0), (5, FR5, ''Xs'', 1), (4, FR4, ''Xd'', 2), (16, FUi, ''imm16'', 3)]),
    (''addi'', [(7, FOp, ''opcode'', 0), (5, FR5, ''Xs'', 1), (4, FR4, ''Xd'', 2), (16, FSi, ''imm'', 3)]),
    (''subi'', [(7, FOp, ''opcode'', 0), (5, FR5, ''Xs'', 1), (4, FR4, ''Xd'', 2), (16, FSi, ''imm'', 3)]),
    (''muli'', [(7, FOp, ''opcode'', 0), (5, FR5, ''Xs'', 1), (4, FR4, ''Xd'', 2), (16, FSi, ''imm'', 3)]),
    (''divi'', [(7, FOp, ''opcode'', 0), (5, FR5, ''Xs'', 1), (4, FR4, ''Xd'', 2), (16, FSi, ''imm'', 3)]),
    (''modi'', [(7, FOp, ''opcode'', 0), (5, FR5, ''Xs'', 1), (4, FR4, ''Xd'', 2), (16, FSi, ''imm'', 3)]),
    (''clti'', [(7, FOp, ''opcode'', 0), (5, FR5, ''Xs'', 1), (4, FR4, ''Xd'', 2), (16, FSi, ''imm'', 3)]),
    (''cgti'', [(7, FOp, ''opcode'', 0), (5, FR5, ''Xs'', 1), (4, FR4, ''Xd'', 2), (16, FSi, ''imm'', 3)]),
    (''ceqi'', [(7, FOp, ''opcode'', 0), (5, FR5, ''Xs'', 1), (4, FR4, ''Xd'', 2), (16, FSi, ''imm'', 3)]),
    (''andi'', [(7, FOp, ''opcode'', 0), (5, FR5, ''Xs'', 1), (4, FR4, ''Xd'', 2), (16, FUi, ''imm'', 3)]),
    (''ori'', [(7, FOp, ''opcode'', 0), (5, FR5, ''Xs'', 1), (4, FR4, ''Xd'', 2), (16, FUi, ''imm'', 3)]),
    (''xori'', [(7, FOp, ''opcode'', 0), (5, FR5, ''Xs'', 1), (4, FR4, ''Xd'', 2), (16, FUi, ''imm'', 3)]),
    (''movil2'', [(7, FOp, ''opcode'', 0), (5, FR5, ''Xs'', 1), (4, FNa, ''NA'', 0), (16, FUi, ''imm'', 2)]),
    (''movil1'', [(7, FOp, ''opcode'', 0), (5, FR5, ''Xs'', 1), (4, FNa, ''NA'', 0), (8, FUi, ''imm'', 2), (8, FNa, ''NA'', 0)]),
    (''yield'', [(7, FOp, ''opcode'', 0), (5, FNa, ''NA'', 0), (4, FNa, ''NA'', 0), (16, FNa, ''NA'', 0)]),
    (''yieldt'', [(7, FOp, ''opcode'', 0), (5, FNa, ''NA'', 0), (4, FNa, ''NA'', 0), (16, FNa, ''NA'', 0)]),
    (''lastact'', [(7, FOp, ''opcode'', 0), (5, FNa, ''NA'', 0), (4, FNa, ''NA'', 0), (16, FNa, ''NA'', 0)]),
    (''sli'', [(7, FOp, ''opcode'', 0), (5, FR5, ''Xs'', 1), (4, FR4, ''Xd'', 2), (6, FUi, ''shift'', 3), (10, FNa, ''NA'', 0)]),
    (''sri'', [(7, FOp, ''opcode'', 0), (5, FR5, ''Xs'', 1), (4, FR4, ''Xd'', 2), (6, FUi, ''shift'', 3), (10, FNa, ''NA'', 0)]),
    (''slori'', [(7, FOp, ''opcode'', 0), (5, FR5, ''Xs'', 1), (4, FR4, ''Xd'', 2), (6, FUi, ''shift'', 3), (10, FNa, ''NA'', 0)]),
    (''srori'', [(7, FOp, ''opcode'', 0), (5, FR5, ''Xs'', 1), (4, FR4, ''Xd'', 2), (6, FUi, ''shift'', 3), (10, FNa, ''NA'', 0)]),
    (''slandi'', [(7, FOp, ''opcode'', 0), (5, FR5, ''Xs'', 1), (4, FR4, ''Xd'', 2), (6, FUi, ''shift'', 3), (10, FNa, ''NA'', 0)]),
    (''srandi'', [(7, FOp, ''opcode'', 0), (5, FR5, ''Xs'', 1), (4, FR4, ''Xd'', 2), (6, FUi, ''shift'', 3), (10, FNa, ''NA'', 0)]),
    (''sari'', [(7, FOp, ''opcode'', 0), (5, FR5, ''Xs'', 1), (4, FR4, ''Xd'', 2), (6, FUi, ''shift'', 3), (10, FNa, ''NA'', 0)]),
    (''hashsb32'', [(7, FOp, ''opcode'', 0), (5, FNa, ''NA'', 0), (4, FR4, ''Xd'', 1), (16, FUi, ''htbase'', 2)]),
    (''hashsb64'', [(7, FOp, ''opcode'', 0), (5, FR5, ''Xs'', 1), (4, FR4, ''Xd'', 2), (16, FNa, ''NA'', 0)]),
    (''hashl64'', [(7, FOp, ''opcode'', 0), (5, FR5, ''Xs'', 1), (4, FR4, ''Xd'', 2), (16, FNa, ''NA'', 0)]),
    (''hash'', [(7, FOp, ''opcode'', 0), (5, FR5, ''Xe'', 1), (4, FR4, ''Xd'', 2), (16, FNa, ''NA'', 0)]),
    (''hashl'', [(7, FOp, ''opcode'', 0), (5, FR5, ''Xe'', 1), (4, FR4, ''Xd'', 2), (3, FUi, ''lenw'', 3), (13, FNa, ''NA'', 0)]),
    (''bcpylli'', [(7, FOp, ''opcode'', 0), (5, FR5, ''Xs'', 1), (4, FR4, ''Xd'', 2), (16, FUi, ''len'', 3)]),
    (''movsbr'', [(7, FOp, ''opcode'', 0), (5, FNa, ''NA'', 0), (4, FR4, ''Xd'', 1), (16, FNa, ''NA'', 0)]),
    (''movipr'', [(7, FOp, ''opcode'', 0), (5, FNa, ''NA'', 0), (4, FR4, ''Xd'', 1), (16, FNa, ''NA'', 0)]),
    (''movlsb'', [(7, FOp, ''opcode'', 0), (5, FR5, ''Xs'', 1), (4, FNa, ''NA'', 0), (16, FNa, ''NA'', 0)]),
    (''siw'', [(7, FOp, ''opcode'', 0), (5, FNa, ''NA'', 0), (4, FNa, ''NA'', 0), (4, FUi, ''width'', 1)]),
    (''refill'', [(7, FOp, ''opcode'', 0), (5, FNa, ''NA'', 0), (4, FNa, ''NA'', 0), (16, FUi, ''imm'', 1)]),
    (''ssprop'', [(7, FOp, ''opcode'', 0), (5, FNa, ''NA'', 0), (4, FNa, ''NA'', 0), (4, FUi, ''type'', 1), (12, FUi, ''value'', 2)])]"

definition LI_bitfields :: "(string, field list) dict" where
  "LI_bitfields = [
    (''LITYPE'', [(7, FOp, ''opcode'', 0), (4, FR4, ''Xd'', 1), (21, FUi, ''imm'', 2)]),
    (''movir'', [(7, FOp, ''opcode'', 0), (4, FR4, ''Xd'', 1), (21, FSi, ''imm'', 2)]),
    (''evlb'', [(7, FOp, ''opcode'', 0), (4, FR4, ''Xd'', 1), (21, FUi, ''label'', 2)])]"

definition P_bitfields :: "(string, field list) dict" where
  "P_bitfields = [
    (''PTYPE'', [(7, FOp, ''opcode'', 0), (19, FNa, ''NA'', 1), (3, FFc, ''func'', 2), (3, FNa, ''NA'', 3)]),
    (''print'', [(7, FOp, ''opcode'', 0), (19, FUi, ''offset'', 1), (3, FFc, ''func'', 2), (3, FNa, ''NA'', 3)]),
    (''perflog'', [(7, FOp, ''opcode'', 0), (19, FUi, ''offset'', 1), (3, FFc, ''func'', 2), (3, FNa, ''NA'', 3)])]"

definition S_bitfields :: "(string, field list) dict" where
  "S_bitfields = [
    (''STYPE'', [(7, FOp, ''opcode'', 0), (5, FR5, ''Xs'', 1), (4, FR4, ''Xd'', 2), (4, FUi, ''imm4'', 3), (12, FUi, ''imm12'', 4)]),
    (''sladdii'', [(7, FOp, ''opcode'', 0), (5, FR5, ''Xs'', 1), (4, FR4, ''Xd'', 2), (4, FUi, ''shift'', 3), (12, FUi, ''imm'', 4)]),
    (''slsubii'', [(7, FOp, ''opcode'', 0), (5, FR5, ''Xs'', 1), (4, FR4, ''Xd'', 2), (4, FUi, ''shift'', 3), (12, FUi, ''imm'', 4)]),
    (''sraddii'', [(7, FOp, ''opcode'', 0), (5, FR5, ''Xs'', 1), (4, FR4, ''Xd'', 2), (4, FUi, ''shift'', 3), (12, FUi, ''imm'', 4)]),
    (''srsubii'', [(7, FOp, ''opcode'', 0), (5, FR5, ''Xs'', 1), (4, FR4, ''Xd'', 2), (4, FUi, ''shift'', 3), (12, FUi, ''imm'', 4)]),
    (''slorii'', [(7, FOp, ''opcode'', 0), (5, FR5, ''Xs'', 1), (4, FR4, ''Xd'', 2), (4, FUi, ''shift'', 3), (12, FUi, ''imm'', 4)]),
    (''srorii'', [(7, FOp, ''opcode'', 0), (5, FR5, ''Xs'', 1), (4, FR4, ''Xd'', 2), (4, FUi, ''shift'', 3), (12, FUi, ''imm'', 4)]),
    (''slandii'', [(7, FOp, ''opcode'', 0), (5, FR5, ''Xs'', 1), (4, FR4, ''Xd'', 2), (4, FUi, ''shift'', 3), (12, FUi, ''imm'', 4)]),
    (''srandii'', [(7, FOp, ''opcode'', 0), (5, FR5, ''Xs'', 1), (4, FR4, ''Xd'', 2), (4, FUi, ''shift'', 3), (12, FUi, ''imm'', 4)]),
    (''movbil'', [(7, FOp, ''opcode'', 0), (5, FR5, ''Xs'', 1), (4, FNa, ''NA'', 0), (3, FUi, ''lenb'', 2), (1, FNa, ''NA'', 0), (8, FUi, ''bits'', 3), (4, FNa, ''NA'', 0)]),
    (''movblr'', [(7, FOp, ''opcode'', 0), (5, FR5, ''Xs'', 1), (4, FR4, ''Xd'', 2), (3, FUi, ''lenb'', 3), (1, FNa, ''NA'', 0), (12, FNa, ''NA'', 0)]),
    (''fstate'', [(7, FOp, ''opcode'', 0), (5, FNa, ''NA'', 0), (4, FNa, ''NA'', 0), (4, FUi, ''prop'', 1), (12, FNa, ''stateident'', 2)]),
    (''cswpi'', [(7, FOp, ''opcode'', 0), (5, FR5, ''X1'', 1), (4, FR4, ''X2'', 2), (4, FSi, ''imm1'', 3), (4, FSi, ''imm2'', 4), (8, FNa, ''NA'', 0)]),
    (''movlr'', [(7, FOp, ''opcode'', 0), (5, FR5, ''Xs'', 2), (4, FR4, ''Xd'', 3), (3, FUi, ''lenb'', 5), (1, FUi, ''inc'', 4), (12, FSi, ''imm'', 1)]),
    (''movrl'', [(7, FOp, ''opcode'', 0), (5, FR5, ''Xs'', 1), (4, FR4, ''Xd'', 3), (3, FUi, ''lenb'', 5), (1, FUi, ''inc'', 4), (12, FSi, ''imm'', 2)]),
    (''swiz'', [(7, FOp, ''opcode'', 0), (5, FR5, ''Xs'', 1), (4, FR4, ''Xd'', 2), (4, FNa, ''NA'', 0), (12, FNa, ''NA'', 0)]),
    (''bcpyoli'', [(7, FOp, ''opcode'', 0), (5, FR5, ''Xop'', 1), (4, FR4, ''Xd'', 2), (4, FUi, ''lenw'', 3), (12, FNa, ''NA'', 0)])]"

definition R_bitfields :: "(string, field list) dict" where
  "R_bitfields = [
    (''RTYPE'', [(7, FOp, ''opcode'', 0), (5, FR5, ''Xs1'', 1), (5, FR5, ''Xd'', 3), (5, FR5, ''Xs2'', 2), (4, FUi, ''imm4'', 4), (3, FFc, ''func'', 0), (3, FUi, ''precision'', 0)]),
    (''add'', [(7, FOp, ''opcode'', 0), (5, FR5, ''Xs'', 1), (5, FR5, ''Xd'', 3), (5, FR5, ''Xt'', 2), (4, FNa, ''NA'', 0), (3, FFc, ''func'', 0), (3, FNa, ''NA'', 0)]),
    (''sub'', [(7, FOp, ''opcode'', 0), (5, FR5, ''Xs'', 1), (5, FR5, ''Xd'', 3), (5, FR5, ''Xt'', 2), (4, FNa, ''NA'', 0), (3, FFc, ''func'', 0), (3, FNa, ''NA'', 0)]),
    (''mul'', [(7, FOp, ''opcode'', 0), (5, FR5, ''Xs'', 1), (5, FR5, ''Xd'', 3), (5, FR5, ''Xt'', 2), (4, FNa, ''NA'', 0), (3, FFc, ''func'', 0), (3, FNa, ''NA'', 0)]),
    (''div'', [(7, FOp, ''opcode'', 0), (5, FR5, ''Xs'', 1), (5, FR5, ''Xd'', 3), (5, FR5, ''Xt'', 2), (4, FNa, ''NA'', 0), (3, FFc, ''func'', 0), (3, FNa, ''NA'', 0)]),
    (''mod'', [(7, FOp, ''opcode'', 0), (5, FR5, ''Xs'', 1), (5, FR5, ''Xd'', 3), (5, FR5, ''Xt'', 2), (4, FNa, ''NA'', 0), (3, FFc, ''func'', 0), (3, FNa, ''NA'', 0)]),
    (''and'', [(7, FOp, ''opcode'', 0), (5, FR5, ''Xs'', 1), (5, FR5, ''Xd'', 3), (5, FR5, ''Xt'', 2), (4, FNa, ''NA'', 0), (3, FFc, ''func'', 0), (3, FNa, ''NA'', 0)]),
    (''or'', [(7, FOp, ''opcode'', 0), (5, FR5, ''Xs'', 1), (5, FR5, ''Xd'', 3), (5, FR5, ''Xt'', 2), (4, FNa, ''NA'', 0), (3, FFc, ''func'', 0), (3, FNa, ''NA'', 0)]),
    (''xor'', [(7, FOp, ''opcode'', 0), (5, FR5, ''Xs'', 1), (5, FR5, ''Xd'', 3), (5, FR5, ''Xt'', 2), (4, FNa, ''NA'', 0), (3, FFc, ''func'', 0), (3, FNa, ''NA'', 0)]),
    (''clt'', [(7, FOp, ''opcode'', 0), (5, FR5, ''Xs'', 1), (5, FR5, ''Xd'', 3), (5, FR5, ''Xt'', 2), (4, FNa, ''NA'', 0), (3, FFc, ''func'', 0), (3, FNa, ''NA'', 0)]),
    (''cgt'', [(7, FOp, ''opcode'', 0), (5, FR5, ''Xs'', 1), (5, FR5, ''Xd'', 3), (5, FR5, ''Xt'', 2), (4, FNa, ''NA'', 0), (3, FFc, ''func'', 0), (3, FNa, ''NA'', 0)]),
    (''ceq'', [(7, FOp, ''opcode'', 0), (5, FR5, ''Xs'', 1), (5, FR5, ''Xd'', 3), (5, FR5, ''Xt'', 2), (4, FNa, ''NA'', 0), (3, FFc, ''func'', 0), (3, FNa, ''NA'', 0)]),
    (''cstr'', [(7, FOp, ''opcode'', 0), (5, FR5, ''Xs'', 1), (5, FR5, ''Xd'', 3), (5, FR5, ''Xt'', 2), (4, FNa, ''NA'', 0), (3, FFc, ''func'', 0), (3, FNa, ''NA'', 0)]),
    (''sr'', [(7, FOp, ''opcode'', 0), (5, FR5, ''Xs'', 1), (5, FR5, ''Xd'', 3), (5, FR5, ''Xt'', 2), (4, FNa, ''NA'', 0), (3, FFc, ''func'', 0), (3, FNa, ''NA'', 0)]),
    (''sl'', [(7, FOp, ''opcode'', 0), (5, FR5, ''Xs'', 1), (5, FR5, ''Xd'', 3), (5, FR5, ''Xt'', 2), (4, FNa, ''NA'', 0), (3, FFc, ''func'', 0), (3, FNa, ''NA'', 0)]),
    (''sar'', [(7, FOp, ''opcode'', 0), (5, FR5, ''Xs'', 1), (5, FR5, ''Xd'', 3), (5, FR5, ''Xt'', 2), (4, FNa, ''NA'', 0), (3, FFc, ''func'', 0), (3, FNa, ''NA'', 0)]),
    (''bcpyll'', [(7, FOp, ''opcode'', 0), (5, FR5, ''Xs'', 1), (5, FR5, ''Xd'', 3), (5, FR5, ''Xt'', 2), (4, FNa, ''NA'', 0), (3, FNa, ''NA'', 0), (3, FNa, ''NA'', 0)]),
    (''movrr'', [(7, FOp, ''opcode'', 0), (5, FR5, ''Xs'', 1), (5, FR5, ''Xd'', 3), (5, FNa, ''NA'', 0), (4, FNa, ''NA'', 0), (3, FNa, ''NA'', 0), (3, FNa, ''NA'', 0)]),
    (''movwlr'', [(7, FOp, ''opcode'', 0), (5, FR5, ''Xs'', 2), (5, FR5, ''Xd'', 5), (5, FR5, ''Xb'', 1), (3, FUi, ''scale'', 4), (1, FUi, ''inc'', 3), (3, FNa, ''NA'', 0), (3, FNa, ''NA'', 0)]),
    (''movwrl'', [(7, FOp, ''opcode'', 0), (5, FR5, ''Xs'', 1), (5, FR5, ''Xd'', 3), (5, FR5, ''Xb'', 2), (3, FUi, ''scale'', 5), (1, FUi, ''inc'', 4), (3, FNa, ''NA'', 0), (3, FNa, ''NA'', 0)]),
    (''bcpyol'', [(7, FOp, ''opcode'', 0), (5, FR5, ''Xop'', 1), (5, FR5, ''Xd'', 2), (5, FR5, ''Xlenw'', 3), (4, FNa, ''NA'', 0), (3, FNa, ''NA'', 0), (3, FNa, ''NA'', 0)]),
    (''fmadd.64'', [(7, FOp, ''opcode'', 0), (5, FR5, ''Xs'', 1), (5, FR5, ''Xd'', 3), (5, FR5, ''Xt'', 2), (4, FNa, ''NA'', 0), (3, FFc, ''func'', 0), (3, FUi, ''precision'', 0)]),
    (''fadd.64'', [(7, FOp, ''opcode'', 0), (5, FR5, ''Xs'', 1), (5, FR5, ''Xd'', 3), (5, FR5, ''Xt'', 2), (4, FNa, ''NA'', 0), (3, FFc, ''func'', 0), (3, FUi, ''precision'', 0)]),
    (''fsub.64'', [(7, FOp, ''opcode'', 0), (5, FR5, ''Xs'', 1), (5, FR5, ''Xd'', 3), (5, FR5, ''Xt'', 2), (4, FNa, ''NA'', 0), (3, FFc, ''func'', 0), (3, FUi, ''precision'', 0)]),
    (''fmul.64'', [(7, FOp, ''opcode'', 0), (5, FR5, ''Xs'', 1), (5, FR5, ''Xd'', 3), (5, FR5, ''Xt'', 2), (4, FNa, ''NA'', 0), (3, FFc, ''func'', 0), (3, FUi, ''precision'', 0)]),
    (''fdiv.64'', [(7, FOp, ''opcode'', 0), (5, FR5, ''Xs'', 1), (5, FR5, ''Xd'', 3), (5, FR5, ''Xt'', 2), (4, FNa, ''NA'', 0), (3, FFc, ''func'', 0), (3, FUi, ''precision'', 0)]),
    (''fsqrt.64'', [(7, FOp, ''opcode'', 0), (5, FR5, ''Xs'', 1), (5, FR5, ''Xd'', 3), (5, FR5, ''Xt'', 2), (4, FNa, ''NA'', 0), (3, FFc, ''func'', 0), (3, FUi, ''precision'', 0)]),
    (''fexp.64'', [(7, FOp, ''opcode'', 0), (5, FR5, ''Xs'', 1), (5, FR5, ''Xd'', 3), (5, FR5, ''Xt'', 2), (4, FNa, ''NA'', 0), (3, FFc, ''func'', 0), (3, FUi, ''precision'', 0)]),
    (''fmadd.32'', [(7, FOp, ''opcode'', 0), (5, FR5, ''Xs'', 1), (5, FR5, ''Xd'', 3), (5, FR5, ''Xt'', 2), (4, FNa, ''NA'', 0), (3, FFc, ''func'', 0), (3, FUi, ''precision'', 0)]),
    (''fadd.32'', [(7, FOp, ''opcode'', 0), (5, FR5, ''Xs'', 1), (5, FR5, ''Xd'', 3), (5, FR5, ''Xt'', 2), (4, FNa, ''NA'', 0), (3, FFc, ''func'', 0), (3, FUi, ''precision'', 0)]),
    (''fsub.32'', [(7, FOp, ''opcode'', 0), (5, FR5, ''Xs'', 1), (5, FR5, ''Xd'', 3), (5, FR5, ''Xt'', 2), (4, FNa, ''NA'', 0), (3, FFc, ''func'', 0), (3, FUi, ''precision'', 0)]),
    (''fmul.32'', [(7, FOp, ''opcode'', 0), (5, FR5, ''Xs'', 1), (5, FR5, ''Xd'', 3), (5, FR5, ''Xt'', 2), (4, FNa, ''NA'', 0), (3, FFc, ''func'', 0), (3, FUi, ''precision'', 0)]),
    (''fdiv.32'', [(7, FOp, ''opcode'', 0), (5, FR5, ''Xs'', 1), (5, FR5, ''Xd'', 3), (5, FR5, ''Xt'', 2), (4, FNa, ''NA'', 0), (3, FFc, ''func'', 0), (3, FUi, ''precision'', 0)]),
    (''fsqrt.32'', [(7, FOp, ''opcode'', 0), (5, FR5, ''Xs'', 1), (5, FR5, ''Xd'', 3), (5, FR5, ''Xt'', 2), (4, FNa, ''NA'', 0), (3, FFc, ''func'', 0), (3, FUi, ''precision'', 0)]),
    (''fexp.32'', [(7, FOp, ''opcode'', 0), (5, FR5, ''Xs'', 1), (5, FR5, ''Xd'', 3), (5, FR5, ''Xt'', 2), (4, FNa, ''NA'', 0), (3, FFc, ''func'', 0), (3, FUi, ''precision'', 0)]),
    (''fmadd.b16'', [(7, FOp, ''opcode'', 0), (5, FR5, ''Xs'', 1), (5, FR5, ''Xd'', 3), (5, FR5, ''Xt'', 2), (4, FNa, ''NA'', 0), (3, FFc, ''func'', 0), (3, FUi, ''precision'', 0)]),
    (''fadd.b16'', [(7, FOp, ''opcode'', 0), (5, FR5, ''Xs'', 1), (5, FR5, ''Xd'', 3), (5, FR5, ''Xt'', 2), (4, FNa, ''NA'', 0), (3, FFc, ''func'', 0), (3, FUi, ''precision'', 0)]),
    (''fsub.b16'', [(7, FOp, ''opcode'', 0), (5, FR5, ''Xs'', 1), (5, FR5, ''Xd'', 3), (5, FR5, ''Xt'', 2), (4, FNa, ''NA'', 0), (3, FFc, ''func'', 0), (3, FUi, ''precision'', 0)]),
    (''fmul.b16'', [(7, FOp, ''opcode'', 0), (5, FR5, ''Xs'', 1), (5, FR5, ''Xd'', 3), (5, FR5, ''Xt'', 2), (4, FNa, ''NA'', 0), (3, FFc, ''func'', 0), (3, FUi, ''precision'', 0)]),
    (''fdiv.b16'', [(7, FOp, ''opcode'', 0), (5, FR5, ''Xs'', 1), (5, FR5, ''Xd'', 3), (5, FR5, ''Xt'', 2), (4, FNa, ''NA'', 0), (3, FFc, ''func'', 0), (3, FUi, ''precision'', 0)]),
    (''fsqrt.b16'', [(7, FOp, ''opcode'', 0), (5, FR5, ''Xs'', 1), (5, FR5, ''Xd'', 3), (5, FR5, ''Xt'', 2), (4, FNa, ''NA'', 0), (3, FFc, ''func'', 0), (3, FUi, ''precision'', 0)]),
    (''fexp.b16'', [(7, FOp, ''opcode'', 0), (5, FR5, ''Xs'', 1), (5, FR5, ''Xd'', 3), (5, FR5, ''Xt'', 2), (4, FNa, ''NA'', 0), (3, FFc, ''func'', 0), (3, FUi, ''precision'', 0)]),
    (''fcnvt.64.i64'', [(7, FOp, ''opcode'', 0), (5, FR5, ''Xs'', 1), (5, FR5, ''Xd'', 3), (9, FNa, ''NA'', 0), (3, FFc, ''func'', 0), (3, FUi, ''precision'', 0)]),
    (''fcnvt.32.i32'', [(7, FOp, ''opcode'', 0), (5, FR5, ''Xs'', 1), (5, FR5, ''Xd'', 3), (9, FNa, ''NA'', 0), (3, FFc, ''func'', 0), (3, FUi, ''precision'', 0)]),
    (''fcnvt.i64.64'', [(7, FOp, ''opcode'', 0), (5, FR5, ''Xs'', 1), (5, FR5, ''Xd'', 3), (9, FNa, ''NA'', 0), (3, FFc, ''func'', 0), (3, FUi, ''precision'', 0)]),
    (''fcnvt.i32.32'', [(7, FOp, ''opcode'', 0), (5, FR5, ''Xs'', 1), (5, FR5, ''Xd'', 3), (9, FNa, ''NA'', 0), (3, FFc, ''func'', 0), (3, FUi, ''precision'', 0)]),
    (''fcnvt.64.32'', [(7, FOp, ''opcode'', 0), (5, FR5, ''Xs'', 1), (5, FR5, ''Xd'', 3), (9, FNa, ''NA'', 0), (3, FFc, ''func'', 0), (3, FUi, ''precision'', 0)]),
    (''fcnvt.64.b16'', [(7, FOp, ''opcode'', 0), (5, FR5, ''Xs'', 1), (5, FR5, ''Xd'', 3), (9, FNa, ''NA'', 0), (3, FFc, ''func'', 0), (3, FUi, ''precision'', 0)]),
    (''fcnvt.32.64'', [(7, FOp, ''opcode'', 0), (5, FR5, ''Xs'', 1), (5, FR5, ''Xd'', 3), (9, FNa, ''NA'', 0), (3, FFc, ''func'', 0), (3, FUi, ''precision'', 0)]),
    (''fcnvt.32.b16'', [(7, FOp, ''opcode'', 0), (5, FR5, ''Xs'', 1), (5, FR5, ''Xd'', 3), (9, FNa, ''NA'', 0), (3, FFc, ''func'', 0), (3, FUi, ''precision'', 0)]),
    (''fcnvt.b16.64'', [(7, FOp, ''opcode'', 0), (5, FR5, ''Xs'', 1), (5, FR5, ''Xd'', 3), (9, FNa, ''NA'', 0), (3, FFc, ''func'', 0), (3, FUi, ''precision'', 0)]),
    (''fcnvt.b16.32'', [(7, FOp, ''opcode'', 0), (5, FR5, ''Xs'', 1), (5, FR5, ''Xd'', 3), (9, FNa, ''NA'', 0), (3, FFc, ''func'', 0), (3, FUi, ''precision'', 0)]),
    (''vmadd.32'', [(7, FOp, ''opcode'', 0), (5, FR5, ''Xs'', 1), (5, FR5, ''Xd'', 3), (5, FR5, ''Xt'', 2), (4, FUi, ''mask'', 4), (3, FFc, ''func'', 0), (3, FUi, ''precision'', 0)]),
    (''vadd.32'', [(7, FOp, ''opcode'', 0), (5, FR5, ''Xs'', 1), (5, FR5, ''Xd'', 3), (5, FR5, ''Xt'', 2), (4, FUi, ''mask'', 4), (3, FFc, ''func'', 0), (3, FUi, ''precision'', 0)]),
    (''vsub.32'', [(7, FOp, ''opcode'', 0), (5, FR5, ''Xs'', 1), (5, FR5, ''Xd'', 3), (5, FR5, ''Xt'', 2), (4, FUi, ''mask'', 4), (3, FFc, ''func'', 0), (3, FUi, ''precision'', 0)]),
    (''vmul.32'', [(7, FOp, ''opcode'', 0), (5, FR5, ''Xs'', 1), (5, FR5, ''Xd'', 3), (5, FR5, ''Xt'', 2), (4, FUi, ''mask'', 4), (3, FFc, ''func'', 0), (3, FUi, ''precision'', 0)]),
    (''vdiv.32'', [(7, FOp, ''opcode'', 0), (5, FR5, ''Xs'', 1), (5, FR5, ''Xd'', 3), (5, FR5, ''Xt'', 2), (4, FUi, ''mask'', 4), (3, FFc, ''func'', 0), (3, FUi, ''precision'', 0)]),
    (''vsqrt.32'', [(7, FOp, ''opcode'', 0), (5, FR5, ''Xs'', 1), (5, FR5, ''Xd'', 3), (5, FR5, ''Xt'', 2), (4, FUi, ''mask'', 4), (3, FFc, ''func'', 0), (3, FUi, ''precision'', 0)]),
    (''vexp.32'', [(7, FOp, ''opcode'', 0), (5, FR5, ''Xs'', 1), (5, FR5, ''Xd'', 3), (5, FR5, ''Xt'', 2), (4, FUi, ''mask'', 4), (3, FFc, ''func'', 0), (3, FUi, ''precision'', 0)]),
    (''vmadd.b16'', [(7, FOp, ''opcode'', 0), (5, FR5, ''Xs'', 1), (5, FR5, ''Xd'', 3), (5, FR5, ''Xt'', 2), (4, FUi, ''mask'', 4), (3, FFc, ''func'', 0), (3, FUi, ''precision'', 0)]),
    (''vadd.b16'', [(7, FOp, ''opcode'', 0), (5, FR5, ''Xs'', 1), (5, FR5, ''Xd'', 3), (5, FR5, ''Xt'', 2), (4, FUi, ''mask'', 4), (3, FFc, ''func'', 0), (3, FUi, ''precision'', 0)]),
    (''vsub.b16'', [(7, FOp, ''opcode'', 0), (5, FR5, ''Xs'', 1), (5, FR5, ''Xd'', 3), (5, FR5, ''Xt'', 2), (4, FUi, ''mask'', 4), (3, FFc, ''func'', 0), (3, FUi, ''precision'', 0)]),
    (''vmul.b16'', [(7, FOp, ''opcode'', 0), (5, FR5, ''Xs'', 1), (5, FR5, ''Xd'', 3), (5, FR5, ''Xt'', 2), (4, FUi, ''mask'', 4), (3, FFc, ''func'', 0), (3, FUi, ''precision'', 0)]),
    (''vdiv.b16'', [(7, FOp, ''opcode'', 0), (5, FR5, ''Xs'', 1), (5, FR5, ''Xd'', 3), (5, FR5, ''Xt'', 2), (4, FUi, ''mask'', 4), (3, FFc, ''func'', 0), (3, FUi, ''precision'', 0)]),
    (''vsqrt.b16'', [(7, FOp, ''opcode'', 0), (5, FR5, ''Xs'', 1), (5, FR5, ''Xd'', 3), (5, FR5, ''Xt'', 2), (4, FUi, ''mask'', 4), (3, FFc, ''func'', 0), (3, FUi, ''precision'', 0)]),
    (''vexp.b16'', [(7, FOp, ''opcode'', 0), (5, FR5, ''Xs'', 1), (5, FR5, ''Xd'', 3), (5, FR5, ''Xt'', 2), (4, FUi, ''mask'', 4), (3, FFc, ''func'', 0), (3, FUi, ''precision'', 0)]),
    (''vmadd.i32'', [(7, FOp, ''opcode'', 0), (5, FR5, ''Xs'', 1), (5, FR5, ''Xd'', 3), (5, FR5, ''Xt'', 2), (4, FUi, ''mask'', 4), (3, FFc, ''func'', 0), (3, FUi, ''precision'', 0)]),
    (''vadd.i32'', [(7, FOp, ''opcode'', 0), (5, FR5, ''Xs'', 1), (5, FR5, ''Xd'', 3), (5, FR5, ''Xt'', 2), (4, FUi, ''mask'', 4), (3, FFc, ''func'', 0), (3, FUi, ''precision'', 0)]),
    (''vsub.i32'', [(7, FOp, ''opcode'', 0), (5, FR5, ''Xs'', 1), (5, FR5, ''Xd'', 3), (5, FR5, ''Xt'', 2), (4, FUi, ''mask'', 4), (3, FFc, ''func'', 0), (3, FUi, ''precision'', 0)]),
    (''vmul.i32'', [(7, FOp, ''opcode'', 0), (5, FR5, ''Xs'', 1), (5, FR5, ''Xd'', 3), (5, FR5, ''Xt'', 2), (4, FUi, ''mask'', 4), (3, FFc, ''func'', 0), (3, FUi, ''precision'', 0)]),
    (''vdiv.i32'', [(7, FOp, ''opcode'', 0), (5, FR5, ''Xs'', 1), (5, FR5, ''Xd'', 3), (5, FR5, ''Xt'', 2), (4, FUi, ''mask'', 4), (3, FFc, ''func'', 0), (3, FUi, ''precision'', 0)]),
    (''vsqrt.i32'', [(7, FOp, ''opcode'', 0), (5, FR5, ''Xs'', 1), (5, FR5, ''Xd'', 3), (5, FR5, ''Xt'', 2), (4, FUi, ''mask'', 4), (3, FFc, ''func'', 0), (3, FUi, ''precision'', 0)]),
    (''vexp.i32'', [(7, FOp, ''opcode'', 0), (5, FR5, ''Xs'', 1), (5, FR5, ''Xd'', 3), (5, FR5, ''Xt'', 2), (4, FUi, ''mask'', 4), (3, FFc, ''func'', 0), (3, FUi, ''precision'', 0)]),
    (''vgt.32'', [(7, FOp, ''opcode'', 0), (5, FR5, ''Xs'', 1), (5, FR5, ''Xd'', 3), (5, FR5, ''Xt'', 2), (4, FUi, ''mask'', 4), (3, FNa, ''NA'', 0), (3, FUi, ''precision'', 0)]),
    (''vgt.b16'', [(7, FOp, ''opcode'', 0), (5, FR5, ''Xs'', 1), (5, FR5, ''Xd'', 3), (5, FR5, ''Xt'', 2), (4, FUi, ''mask'', 4), (3, FNa, ''NA'', 0), (3, FUi, ''precision'', 0)]),
    (''vgt.i32'', [(7, FOp, ''opcode'', 0), (5, FR5, ''Xs'', 1), (5, FR5, ''Xd'', 3), (5, FR5, ''Xt'', 2), (4, FUi, ''mask'', 4), (3, FNa, ''NA'', 0), (3, FUi, ''precision'', 0)])]"

definition B_bitfields :: "(string, field list) dict" where
  "B_bitfields = [
    (''BTYPE'', [(7, FOp, ''opcode'', 0), (5, FR5, ''Xs1'', 1), (5, FR5, ''Xs2'', 2), (9, FUi, ''imm12a'', 3), (3, FFc, ''func'', 0), (3, FSi, ''imm12b'', 4)]),
    (''bne'', [(7, FOp, ''opcode'', 0), (5, FR5, ''X1'', 1), (5, FR5, ''X2'', 2), (9, FUi, ''targeta'', 3), (3, FFc, ''func'', 0), (3, FSi, ''targetb'', 4)]),
    (''beq'', [(7, FOp, ''opcode'', 0), (5, FR5, ''X1'', 1), (5, FR5, ''X2'', 2), (9, FUi, ''targeta'', 3), (3, FFc, ''func'', 0), (3, FSi, ''targetb'', 4)]),
    (''bgt'', [(7, FOp, ''opcode'', 0), (5, FR5, ''X1'', 1), (5, FR5, ''X2'', 2), (9, FUi, ''targeta'', 3), (3, FFc, ''func'', 0), (3, FSi, ''targetb'', 4)]),
    (''ble'', [(7, FOp, ''opcode'', 0), (5, FR5, ''X1'', 1), (5, FR5, ''X2'', 2), (9, FUi, ''targeta'', 3), (3, FFc, ''func'', 0), (3, FSi, ''targetb'', 4)]),
    (''bneu'', [(7, FOp, ''opcode'', 0), (5, FR5, ''X1'', 1), (5, FR5, ''X2'', 2), (9, FUi, ''targeta'', 3), (3, FFc, ''func'', 0), (3, FSi, ''targetb'', 4)]),
    (''bequ'', [(7, FOp, ''opcode'', 0), (5, FR5, ''X1'', 1), (5, FR5, ''X2'', 2), (9, FUi, ''targeta'', 3), (3, FFc, ''func'', 0), (3, FSi, ''targetb'', 4)]),
    (''bgtu'', [(7, FOp, ''opcode'', 0), (5, FR5, ''X1'', 1), (5, FR5, ''X2'', 2), (9, FUi, ''targeta'', 3), (3, FFc, ''func'', 0), (3, FSi, ''targetb'', 4)]),
    (''bleu'', [(7, FOp, ''opcode'', 0), (5, FR5, ''X1'', 1), (5, FR5, ''X2'', 2), (9, FUi, ''targeta'', 3), (3, FFc, ''func'', 0), (3, FSi, ''targetb'', 4)]),
    (''bnei'', [(7, FOp, ''opcode'', 0), (5, FR5, ''X1'', 1), (5, FSi, ''imm'', 2), (9, FUi, ''targeta'', 3), (3, FFc, ''func'', 0), (3, FSi, ''targetb'', 4)]),
    (''beqi'', [(7, FOp, ''opcode'', 0), (5, FR5, ''X1'', 1), (5, FSi, ''imm'', 2), (9, FUi, ''targeta'', 3), (3, FFc, ''func'', 0), (3, FSi, ''targetb'', 4)]),
    (''bgti'', [(7, FOp, ''opcode'', 0), (5, FR5, ''X1'', 1), (5, FSi, ''imm'', 2), (9, FUi, ''targeta'', 3), (3, FFc, ''func'', 0), (3, FSi, ''targetb'', 4)]),
    (''blei'', [(7, FOp, ''opcode'', 0), (5, FR5, ''X1'', 1), (5, FSi, ''imm'', 2), (9, FUi, ''targeta'', 3), (3, FFc, ''func'', 0), (3, FSi, ''targetb'', 4)]),
    (''blti'', [(7, FOp, ''opcode'', 0), (5, FR5, ''X1'', 1), (5, FSi, ''imm'', 2), (9, FUi, ''targeta'', 3), (3, FFc, ''func'', 0), (3, FSi, ''targetb'', 4)]),
    (''bgei'', [(7, FOp, ''opcode'', 0), (5, FR5, ''X1'', 1), (5, FSi, ''imm'', 2), (9, FUi, ''targeta'', 3), (3, FFc, ''func'', 0), (3, FSi, ''targetb'', 4)]),
    (''bneiu'', [(7, FOp, ''opcode'', 0), (5, FR5, ''X1'', 1), (5, FUi, ''imm'', 2), (9, FUi, ''targeta'', 3), (3, FFc, ''func'', 0), (3, FSi, ''targetb'', 4)]),
    (''beqiu'', [(7, FOp, ''opcode'', 0), (5, FR5, ''X1'', 1), (5, FUi, ''imm'', 2), (9, FUi, ''targeta'', 3), (3, FFc, ''func'', 0), (3, FSi, ''targetb'', 4)]),
    (''bgtiu'', [(7, FOp, ''opcode'', 0), (5, FR5, ''X1'', 1), (5, FUi, ''imm'', 2), (9, FUi, ''targeta'', 3), (3, FFc, ''func'', 0), (3, FSi, ''targetb'', 4)]),
    (''bleiu'', [(7, FOp, ''opcode'', 0), (5, FR5, ''X1'', 1), (5, FUi, ''imm'', 2), (9, FUi, ''targeta'', 3), (3, FFc, ''func'', 0), (3, FSi, ''targetb'', 4)]),
    (''bltiu'', [(7, FOp, ''opcode'', 0), (5, FR5, ''X1'', 1), (5, FUi, ''imm'', 2), (9, FUi, ''targeta'', 3), (3, FFc, ''func'', 0), (3, FSi, ''targetb'', 4)]),
    (''bgeiu'', [(7, FOp, ''opcode'', 0), (5, FR5, ''X1'', 1), (5, FUi, ''imm'', 2), (9, FUi, ''targeta'', 3), (3, FFc, ''func'', 0), (3, FSi, ''targetb'', 4)])]"

definition J_bitfields :: "(string, field list) dict" where
  "J_bitfields = [
    (''JTYPE'', [(7, FOp, ''opcode'', 0), (25, FSi, ''imm25'', 1)]),
    (''jmp'', [(7, FOp, ''opcode'', 0), (25, FSi, ''imm'', 1)])]"

definition M1_bitfields :: "(string, field list) dict" where
  "M1_bitfields = [
    (''M1TYPE'', [(7, FOp, ''opcode'', 0), (5, FR5, ''Xe'', 1), (5, FR5, ''Xc'', 2), (5, FR5, ''Xptr'', 3), (3, FUi, ''imm3'', 4), (1, FNa, ''NA'', 0), (1, FUi, ''imm1'', 5), (5, FNa, ''NA'', 0)]),
    (''send'', [(7, FOp, ''opcode'', 0), (5, FR5, ''Xe'', 1), (5, FR5, ''Xc'', 2), (5, FR5, ''Xptr'', 3), (3, FUi, ''lenw'', 4), (1, FNa, ''NA'', 0), (1, FUi, ''mode'', 5), (5, FNa, ''NA'', 0)]),
    (''sendb'', [(7, FOp, ''opcode'', 0), (5, FR5, ''Xe'', 1), (5, FR5, ''Xc'', 2), (5, FR5, ''Xptr'', 3), (3, FUi, ''lenw'', 4), (1, FNa, ''NA'', 0), (1, FUi, ''mode'', 5), (5, FNa, ''NA'', 0)])]"

definition M2_bitfields :: "(string, field list) dict" where
  "M2_bitfields = [
    (''M2TYPE'', [(7, FOp, ''opcode'', 0), (5, FR5, ''Xe'', 1), (5, FR5, ''Xc'', 3), (5, FR5, ''Xptr'', 4), (3, FUi, ''imm3'', 5), (2, FUi, ''imm2'', 6), (5, FR5, ''Xd'', 2)]),
    (''sendm'', [(7, FOp, ''opcode'', 0), (5, FNa, ''NA'', 0), (5, FR5, ''Xc'', 2), (5, FR5, ''Xptr'', 3), (3, FUi, ''lenw'', 4), (2, FUi, ''mode'', 5), (5, FR5, ''Xd'', 1)]),
    (''sendmb'', [(7, FOp, ''opcode'', 0), (5, FNa, ''NA'', 0), (5, FR5, ''Xc'', 2), (5, FR5, ''Xptr'', 3), (3, FUi, ''lenw'', 4), (2, FUi, ''mode'', 5), (5, FR5, ''Xd'', 1)]),
    (''instrans'', [(7, FOp, ''opcode'', 0), (5, FR5, ''X1'', 1), (5, FR5, ''X2'', 3), (5, FR5, ''X3'', 4), (3, FUi, ''perm'', 5), (2, FUi, ''mode'', 6), (5, FR5, ''X4'', 2)])]"

definition M3_bitfields :: "(string, field list) dict" where
  "M3_bitfields = [
    (''M3TYPE'', [(7, FOp, ''opcode'', 0), (5, FR5, ''Xe'', 1), (5, FR5, ''Xc'', 3), (5, FR5, ''X1'', 4), (5, FR5, ''X2'', 5), (5, FR5, ''Xd'', 2)]),
    (''sendr'', [(7, FOp, ''opcode'', 0), (5, FR5, ''Xe'', 1), (5, FR5, ''Xc'', 2), (5, FR5, ''X1'', 3), (5, FR5, ''X2'', 4), (5, FNa, ''NA'', 0)]),
    (''sendr3'', [(7, FOp, ''opcode'', 0), (5, FR5, ''Xe'', 1), (5, FR5, ''Xc'', 2), (5, FR5, ''X1'', 3), (5, FR5, ''X2'', 4), (5, FR5, ''X3'', 5)]),
    (''sendmr'', [(7, FOp, ''opcode'', 0), (5, FNa, ''NA'', 0), (5, FR5, ''Xc'', 2), (5, FR5, ''X1'', 3), (5, FNa, ''NA'', 0), (5, FR5, ''Xd'', 1)]),
    (''sendmr2'', [(7, FOp, ''opcode'', 0), (5, FNa, ''NA'', 0), (5, FR5, ''Xc'', 2), (5, FR5, ''X1'', 3), (5, FR5, ''X2'', 4), (5, FR5, ''Xd'', 1)])]"

definition M4_bitfields :: "(string, field list) dict" where
  "M4_bitfields = [
    (''M4TYPE'', [(7, FOp, ''opcode'', 0), (5, FR5, ''Xe'', 1), (5, FR5, ''Xc'', 3), (5, FR5, ''Xop'', 4), (3, FUi, ''imm3'', 5), (1, FNa, ''NA'', 0), (1, FUi, ''imm1'', 6), (5, FR5, ''Xd'', 2)]),
    (''sendops'', [(7, FOp, ''opcode'', 0), (5, FR5, ''Xe'', 1), (5, FR5, ''Xc'', 3), (5, FR5, ''Xop'', 4), (3, FUi, ''lenw'', 5), (1, FNa, ''NA'', 0), (1, FUi, ''mode'', 6), (5, FNa, ''NA'', 0)]),
    (''sendmops'', [(7, FOp, ''opcode'', 0), (5, FR5, ''Xe'', 1), (5, FR5, ''Xc'', 3), (5, FR5, ''Xop'', 4), (3, FUi, ''lenw'', 5), (1, FNa, ''NA'', 0), (1, FUi, ''mode'', 6), (5, FR5, ''Xd'', 2)])]"

definition E_bitfields :: "(string, field list) dict" where
  "E_bitfields = [
    (''ETYPE'', [(7, FOp, ''opcode'', 0), (5, FR5, ''Xs'', 1), (4, FR4, ''Xd'', 2), (4, FUi, ''sel'', 4), (12, FUi, ''imm12'', 3)]),
    (''evi'', [(7, FOp, ''opcode'', 0), (5, FR5, ''Xs'', 1), (4, FR4, ''Xd'', 2), (4, FUi, ''sel'', 4), (12, FUi, ''imm'', 3)]),
    (''evii'', [(7, FOp, ''opcode'', 0), (5, FUi, ''imm1'', 2), (4, FR4, ''Xd'', 1), (4, FUi, ''sel'', 4), (12, FUi, ''imm2'', 3)])]"

definition R4_bitfields :: "(string, field list) dict" where
  "R4_bitfields = [
    (''R4TYPE'', [(7, FOp, ''opcode'', 0), (5, FR5, ''Xs'', 1), (4, FR4, ''Xd'', 2), (4, FUi, ''sel'', 5), (5, FR5, ''Xop1'', 3), (5, FR5, ''Xop2'', 4), (2, FNa, ''NA'', 0)]),
    (''ev'', [(7, FOp, ''opcode'', 0), (5, FR5, ''Xs'', 1), (4, FR4, ''Xd'', 2), (4, FUi, ''sel'', 5), (5, FR5, ''Xop1'', 3), (5, FR5, ''Xop2'', 4), (2, FNa, ''NA'', 0)]),
    (''cswp'', [(7, FOp, ''opcode'', 0), (5, FR5, ''X1'', 1), (4, FR4, ''X2'', 2), (4, FNa, ''NA'', 0), (5, FR5, ''X3'', 3), (5, FR5, ''X4'', 4), (2, FNa, ''NA'', 0)])]"

definition VF_bitfields :: "(string, field list) dict" where
  "VF_bitfields = [
    (''VFTYPE'', [(7, FOp, ''opcode'', 0), (4, FUi, ''imma'', 1), (1, FNa, ''NA'', 0), (4, FR4, ''Xd'', 2), (1, FNa, ''NA'', 0), (12, FUi, ''immb'', 5), (3, FUi, ''precision'', 0)]),
    (''vfill.32'', [(7, FOp, ''opcode'', 0), (4, FUi, ''imma'', 1), (1, FNa, ''NA'', 0), (4, FR4, ''Xd'', 2), (1, FNa, ''NA'', 0), (12, FUi, ''immb'', 5), (3, FUi, ''precision'', 0)]),
    (''vfill.i32'', [(7, FOp, ''opcode'', 0), (4, FSi, ''imma'', 1), (1, FNa, ''NA'', 0), (4, FR4, ''Xd'', 2), (1, FNa, ''NA'', 0), (12, FUi, ''immb'', 5), (3, FUi, ''precision'', 0)]),
    (''vfill.b16'', [(7, FOp, ''opcode'', 0), (4, FUi, ''imma'', 1), (1, FNa, ''NA'', 0), (4, FR4, ''Xd'', 2), (1, FNa, ''NA'', 0), (12, FUi, ''immb'', 5), (3, FUi, ''precision'', 0)])]"

section \<open>The bit fields of transition words\<close>

definition EventTr_bitfields :: "(string, field list) dict" where
  "EventTr_bitfields = [
    (''EventTr'', [(8, FSi, ''attach'', 2), (4, FTy, ''type'', 1), (20, FSi, ''target'', 3)]),
    (''eventTX'', [(8, FSi, ''attach'', 2), (4, FTy, ''type'', 1), (20, FSi, ''target'', 3)])]"

definition EFATr_bitfields :: "(string, field list) dict" where
  "EFATr_bitfields = [
    (''EFATr'', [(8, FSi, ''attach'', 1), (4, FTy, ''type'', 0), (12, FSi, ''target'', 2), (8, FUi, ''signature'', 3)]),
    (''basicTX'', [(8, FSi, ''attach'', 1), (4, FTy, ''type'', 0), (12, FSi, ''target'', 2), (8, FUi, ''signature'', 3)]),
    (''majorityTX'', [(8, FSi, ''attach'', 1), (4, FTy, ''type'', 0), (12, FSi, ''target'', 2), (8, FUi, ''signature'', 3)]),
    (''defaultTX'', [(8, FSi, ''attach'', 1), (4, FTy, ''type'', 0), (12, FSi, ''target'', 2), (8, FUi, ''signature'', 3)]),
    (''epsilonTX'', [(8, FSi, ''attach'', 1), (4, FTy, ''type'', 0), (12, FSi, ''target'', 2), (8, FUi, ''signature'', 3)]),
    (''commonTX'', [(8, FSi, ''attach'', 1), (4, FTy, ''type'', 0), (12, FSi, ''target'', 2), (8, FUi, ''signature'', 3)]),
    (''flaggedTX'', [(8, FSi, ''attach'', 1), (4, FTy, ''type'', 0), (12, FSi, ''target'', 2), (8, FUi, ''signature'', 3)]),
    (''refillTX'', [(8, FSi, ''attach'', 1), (4, FTy, ''type'', 0), (12, FSi, ''target'', 2), (8, FUi, ''signature'', 3)])]"

definition all_bitfields :: "(string, field list) dict" where
  "all_bitfields = foldl dict_merge [] [
    I_bitfields, LI_bitfields, P_bitfields,
    S_bitfields, R_bitfields, B_bitfields, J_bitfields, M1_bitfields,
    M2_bitfields, M3_bitfields, M4_bitfields, E_bitfields, R4_bitfields, VF_bitfields]"

definition all_trans_bitfields :: "(string, field list) dict" where
  "all_trans_bitfields = foldl dict_merge [] [
    EventTr_bitfields, EFATr_bitfields]"

section \<open>The tables agree\<close>

definition code_width :: "nat \<Rightarrow> string \<Rightarrow> bool" where
  "code_width w s = (length s = w \<and> is_bits s)"

lemmas opcode_tables =
  I_opcode_enc_def LI_opcode_enc_def P_opcode_enc_def S_opcode_enc_def R_opcode_enc_def
  B_opcode_enc_def J_opcode_enc_def M1_opcode_enc_def M2_opcode_enc_def M3_opcode_enc_def
  M4_opcode_enc_def E_opcode_enc_def R4_opcode_enc_def VF_opcode_enc_def

lemmas bitfield_tables =
  I_bitfields_def LI_bitfields_def P_bitfields_def S_bitfields_def R_bitfields_def
  B_bitfields_def J_bitfields_def M1_bitfields_def M2_bitfields_def M3_bitfields_def
  M4_bitfields_def E_bitfields_def R4_bitfields_def VF_bitfields_def

lemma opcode_widths:
  "list_all (list_all (\<lambda>(i, ob). code_width 7 ob))
     [I_opcode_enc, LI_opcode_enc, P_opcode_enc, S_opcode_enc, R_opcode_enc, B_opcode_enc,
      J_opcode_enc, M1_opcode_enc, M2_opcode_enc, M3_opcode_enc, M4_opcode_enc, E_opcode_enc,
      R4_opcode_enc, VF_opcode_enc]"
  by (simp add: opcode_tables code_width_def)

lemma register_widths: "list_all (\<lambda>(r, c). code_width 5 c) register_enc"
  by (simp add: register_enc_def code_width_def)

lemma precision_widths: "list_all (\<lambda>(p, c). code_width 3 c) precision_enc"
  by (simp add: precision_enc_def code_width_def)

lemma transition_widths: "list_all (\<lambda>(t, c). code_width 4 c) transition_type_enc"
  by (simp add: transition_type_enc_def code_width_def)

text \<open>Function code 7 has no digits.\<close>

lemma func_widths: "list_all (\<lambda>(f, c). code_width (if f = ''7'' then 0 else 3) c) func_enc"
  by (simp add: func_enc_def code_width_def)

lemma bitfield_widths:
  "list_all (list_all (\<lambda>(i, fs). sum_list (map fst fs) = (if i = ''siw'' then 20 else 32) \<and>
       hd fs = (7, FOp, ''opcode'', 0)))
     [I_bitfields, LI_bitfields, P_bitfields, S_bitfields, R_bitfields, B_bitfields,
      J_bitfields, M1_bitfields, M2_bitfields, M3_bitfields, M4_bitfields, E_bitfields,
      R4_bitfields, VF_bitfields]"
  by (simp add: bitfield_tables)

text \<open>The decoder's tables name the same instructions, format by format.\<close>

lemma bitfield_names:
  "map fst I_bitfields = ''ITYPE'' # map fst I_opcode_enc"
  "map fst S_bitfields = ''STYPE'' # map fst S_opcode_enc"
  "map fst R_bitfields = ''RTYPE'' # map fst R_opcode_enc"
  "map fst B_bitfields = ''BTYPE'' # map fst B_opcode_enc"
  by (simp_all add: opcode_tables bitfield_tables)

lemma opcode_width:
  "map_of I_opcode_enc i = Some ob \<Longrightarrow> code_width 7 ob"
  "map_of LI_opcode_enc i = Some ob \<Longrightarrow> code_width 7 ob"
  "map_of P_opcode_enc i = Some ob \<Longrightarrow> code_width 7 ob"
  "map_of S_opcode_enc i = Some ob \<Longrightarrow> code_width 7 ob"
  "map_of R_opcode_enc i = Some ob \<Longrightarrow> code_width 7 ob"
  "map_of B_opcode_enc i = Some ob \<Longrightarrow> code_width 7 ob"
  "map_of J_opcode_enc i = Some ob \<Longrightarrow> code_width 7 ob"
  "map_of M1_opcode_enc i = Some ob \<Longrightarrow> code_width 7 ob"
  "map_of M2_opcode_enc i = Some ob \<Longrightarrow> code_width 7 ob"
  "map_of M3_opcode_enc i = Some ob \<Longrightarrow> code_width 7 ob"
  "map_of M4_opcode_enc i = Some ob \<Longrightarrow> code_width 7 ob"
  "map_of E_opcode_enc i = Some ob \<Longrightarrow> code_width 7 ob"
  "map_of R4_opcode_enc i = Some ob \<Longrightarrow> code_width 7 ob"
  "map_of VF_opcode_enc i = Some ob \<Longrightarrow> code_width 7 ob"
  using opcode_widths by (auto intro: map_of_list_all [where P = "\<lambda>i. code_width 7"])

lemma register_width: "map_of register_enc r = Some c \<Longrightarrow> code_width 5 c"
  using register_widths by (rule map_of_list_all [where P = "\<lambda>i. code_width 5"])

lemma precision_width: "map_of precision_enc r = Some c \<Longrightarrow> code_width 3 c"
  using precision_widths by (rule map_of_list_all [where P = "\<lambda>i. code_width 3"])

lemma transition_width: "map_of transition_type_enc r = Some c \<Longrightarrow> code_width 4 c"
  using transition_widths by (rule map_of_list_all [where P = "\<lambda>i. code_width 4"])

lemma func_width: "map_of func_enc f = Some c \<Longrightarrow> f \<noteq> ''7'' \<Longrightarrow> code_width 3 c"
  using map_of_list_all [OF func_widths, where k = f and v = c] by simp

lemma bitfield_width:
  assumes "map_of all_bitfields i = Some fs"
  shows "sum_list (map fst fs) = (if i = ''siw'' then 20 else 32) \<and>
         hd fs = (7, FOp, ''opcode'', 0)"
  using bitfield_widths assms unfolding all_bitfields_def by (rule map_of_merges_list_all)

lemma all_opcode_width: "map_of all_opcode_enc i = Some ob \<Longrightarrow> code_width 7 ob"
  using opcode_widths unfolding all_opcode_enc_def
  by (rule map_of_merges_list_all [where P = "\<lambda>i. code_width 7"])

lemma register_rev: "list_all (\<lambda>(n, r). map_of register_enc r = Some (to_bits 5 (nat n))) register_enc_rev"
  by (simp add: register_enc_rev_def register_enc_def to_bits_num bit_chr_def)

lemma state_property_rev:
  "list_all (\<lambda>(n, p). map_of state_property_enc p = Some n) state_property_enc_rev"
  "list_all (\<lambda>(p, n). map_of state_property_enc_rev n = Some p) state_property_enc"
  by (simp_all add: state_property_enc_rev_def state_property_enc_def)

text \<open>
  Two names differ: the reverse table writes \<open>refillCarry\<close> where the encoder writes \<open>refill\<close>.
\<close>

definition refill_name :: "string \<Rightarrow> string" where
  "refill_name t = (if t = ''refillCarry'' then ''refill''
                    else if t = ''refillCarry_with_action'' then ''refill_with_action'' else t)"

lemma transition_type_rev:
  "list_all (\<lambda>(n, t). map_of transition_type_enc (refill_name t) = Some (to_bits 4 (nat n)))
     transition_type_enc_rev"
  by (simp add: transition_type_enc_rev_def transition_type_enc_def refill_name_def
      to_bits_num bit_chr_def)

section \<open>Properties\<close>

lemma jmp_fields: "\<exists>fs. map_of all_bitfields ''jmp'' = Some fs"
proof -
  have "''jmp'' \<in> fst ` set all_bitfields"
    by (simp add: all_bitfields_def keys_dict_merge J_bitfields_def)
  then show ?thesis by (metis map_of_eq_None_iff not_Some_eq)
qed

text \<open>the bit fields that \<open>isa_encodings.py\<close> lists for an instruction fill the 32-bit word and begin with the seven bits of the opcode, except those of \<open>siw\<close>, which have 20 bits only.\<close>

theorem instruction_fields_fill_word:
  assumes "map_of all_bitfields i = Some fs"
  shows "sum_list (map fst fs) = (if i = ''siw'' then 20 else 32) \<and> hd fs = (7, FOp, ''opcode'', 0)"
  using bitfield_width [OF assms] .

theorem instruction_fields_fill_word_witness:
  "\<exists>fs. map_of all_bitfields ''jmp'' = Some fs \<and> sum_list (map fst fs) = 32 \<and> hd fs = (7, FOp, ''opcode'', 0)"
proof -
  obtain fs where fs: "map_of all_bitfields ''jmp'' = Some fs"
    using jmp_fields by blast
  from instruction_fields_fill_word [OF fs] fs show ?thesis by simp
qed

end
