(* ===== verification/Py_Value.thy ===== *)
theory Py_Value imports Py_Str begin

text \<open>
  The Python values an attribute of an assembler object can hold.  \<open>Absent\<close> is an attribute the
  object's class does not set: reading it raises \<open>AttributeError\<close>.  The conversions \<open>int(v)\<close> and
  \<open>str(v)\<close> and dictionary lookup by such a value follow Python, errors included.
\<close>

datatype pv = Absent | PNone | PStr string | PInt int | PStrs "string list" | PInts "int list"

definition attr :: "pv \<Rightarrow> pv res" where
  "attr v = (if v = Absent then Inl AttributeError else Inr v)"

text \<open>\<open>int(o.x)\<close>\<close>

fun pv_int :: "pv \<Rightarrow> int res" where
  "pv_int Absent = Inl AttributeError"
| "pv_int (PStr s) = py_int s"
| "pv_int (PInt i) = Inr i"
| "pv_int _ = Inl TypeError"

text \<open>\<open>d[o.x]\<close> for a dictionary with string keys\<close>

fun pv_get :: "(string, 'v) dict \<Rightarrow> pv \<Rightarrow> 'v res" where
  "pv_get d Absent = Inl AttributeError"
| "pv_get d (PStr s) = dict_get d s (KeyError s)"
| "pv_get d PNone = Inl (KeyError ''None'')"
| "pv_get d (PInt i) = Inl (KeyError (py_str i))"
| "pv_get d _ = Inl TypeError"

text \<open>\<open>o.x in d\<close>\<close>

fun pv_in :: "pv \<Rightarrow> (string, 'v) dict \<Rightarrow> bool res" where
  "pv_in Absent d = Inl AttributeError"
| "pv_in (PStr s) d = Inr (in_dict s d)"
| "pv_in PNone d = Inr False"
| "pv_in (PInt i) d = Inr False"
| "pv_in _ d = Inl TypeError"

text \<open>\<open>o.x == "s"\<close>\<close>

definition pv_is :: "pv \<Rightarrow> string \<Rightarrow> bool res" where
  "pv_is v s = rmap (\<lambda>v. v = PStr s) (attr v)"

text \<open>\<open>d[o.x][1:]\<close> and other operations on a string taken from the object\<close>

fun pv_str :: "pv \<Rightarrow> string res" where
  "pv_str Absent = Inl AttributeError"
| "pv_str (PStr s) = Inr s"
| "pv_str _ = Inl TypeError"

text \<open>The text of a value inside an f-string; lists print with their brackets and quotes.\<close>

fun join :: "string \<Rightarrow> string list \<Rightarrow> string" where
  "join d [] = []"
| "join d [s] = s"
| "join d (s # ss) = s @ d @ join d ss"

fun pv_text :: "pv \<Rightarrow> string res" where
  "pv_text Absent = Inl AttributeError"
| "pv_text (PStr s) = Inr s"
| "pv_text PNone = Inr ''None''"
| "pv_text (PInt i) = Inr (py_str i)"
| "pv_text (PStrs ss) =
     Inr (''['' @ join '', '' (map (\<lambda>s. [CHR 0x27] @ s @ [CHR 0x27]) ss) @ '']'')"
| "pv_text (PInts xs) = Inr (''['' @ join '', '' (map py_str xs) @ '']'')"

lemma attr_Inr_iff [res_simps]: "attr v = Inr w \<longleftrightarrow> v \<noteq> Absent \<and> w = v"
  by (auto simp: attr_def)

lemma attr_simps [simp]:
  "attr Absent = Inl AttributeError" "attr PNone = Inr PNone" "attr (PStr s) = Inr (PStr s)"
  "attr (PInt i) = Inr (PInt i)" "attr (PStrs ss) = Inr (PStrs ss)"
  "attr (PInts is) = Inr (PInts is)"
  by (simp_all add: attr_def)

lemma pv_int_str [simp]: "pv_int (PStr (py_str i)) = Inr i"
  by (simp add: py_int_str)

lemma pv_get_Inr_iff [res_simps]:
  "pv_get d v = Inr x \<longleftrightarrow> (\<exists>s. v = PStr s \<and> map_of d s = Some x)"
  by (cases v) (auto simp: dict_get_Inr_iff)

lemma pv_is_simps [simp]:
  "pv_is (PStr s) t = Inr (s = t)" "pv_is PNone t = Inr False" "pv_is (PInt i) t = Inr False"
  by (simp_all add: pv_is_def)

end
