(* ===== verification/Asm_Bits.thy ===== *)
theory Asm_Bits imports Isa_Encodings Py_Value "HOL-Library.Word" begin

unbundle bit_operations_syntax

text \<open>
  The fixed-width fields of the assembler: \<open>inbinary2\<close> to \<open>inbinary25\<close> and the \<open>encode_*\<close>
  functions over them and over the instruction-set tables
  (\<open>src/updown/udbasim/assembler/UpDown_Assembler.py\<close>, lines 122 to 315).  What every field
  promises is the locale \<open>bit_field\<close>: a value that fits is written in exactly \<open>w\<close> binary
  digits, a larger one ends the program.  \<open>signed_field\<close> and \<open>unsigned_field\<close> extend it with
  what happens below zero.  Each \<open>inbinary\<close> function is an instance.
\<close>

section \<open>Integers in binary\<close>

text \<open>\<open>f'{val:5b}'\<close> with its blanks replaced by zeros, for a non-negative value\<close>

definition fmt_b :: "nat \<Rightarrow> int \<Rightarrow> string" where
  "fmt_b w val = replace_char CHR '' '' CHR ''0'' (pad_left w CHR '' '' (bin_str (nat val)))"

definition inbinary2 :: "int \<Rightarrow> string res" where
  "inbinary2 val =
     (if val < 0 then Inl SysExit
      else if val AND 0b11 \<noteq> val then Inl SysExit else Inr (fmt_b 2 val))"

definition inbinary3 :: "int \<Rightarrow> string res" where
  "inbinary3 val =
     (let val = (if val < 0 then (val AND 0b11) OR 0b100 else val)
      in if val AND 0b111 \<noteq> val then Inl SysExit else Inr (fmt_b 3 val))"

definition inbinary4 :: "int \<Rightarrow> string res" where
  "inbinary4 val =
     (let val = (if val < 0 then (val AND 0b111) OR 0b1000 else val)
      in if val AND 0b1111 \<noteq> val then Inl SysExit else Inr (fmt_b 4 val))"

definition inbinary5 :: "int \<Rightarrow> string res" where
  "inbinary5 val =
     (let val = (if val < 0 then (val AND 0b1111) OR 0b10000 else val)
      in if val AND 0b11111 \<noteq> val then Inl SysExit else Inr (fmt_b 5 val))"

definition inbinary8 :: "int \<Rightarrow> string res" where
  "inbinary8 val =
     (let val = (if val < 0 then (val AND 0b1111111) OR 0b10000000 else val)
      in if val AND 0b11111111 \<noteq> val then Inl SysExit else Inr (fmt_b 8 val))"

definition inbinary12 :: "int \<Rightarrow> string res" where
  "inbinary12 val =
     (let val = (if val < 0 then (val AND 0b11111111111) OR 0b100000000000 else val)
      in if val AND 0b111111111111 \<noteq> val then Inl SysExit else Inr (fmt_b 12 val))"

definition inbinary16 :: "int \<Rightarrow> string res" where
  "inbinary16 val =
     (let val = (if val < 0 then (val AND 0b111111111111111) OR 0b1000000000000000 else val)
      in if val AND 0b1111111111111111 \<noteq> val then Inl SysExit else Inr (fmt_b 16 val))"

definition inbinary19 :: "int \<Rightarrow> string res" where
  "inbinary19 val =
     (if val < 0 then Inl SysExit
      else if val AND 0b1111111111111111111 \<noteq> val then Inl SysExit else Inr (fmt_b 19 val))"

definition inbinary20 :: "int \<Rightarrow> string res" where
  "inbinary20 val =
     (if val < 0 then Inl SysExit
      else if val AND 0b11111111111111111111 \<noteq> val then Inl SysExit else Inr (fmt_b 20 val))"

definition inbinary21 :: "int \<Rightarrow> string res" where
  "inbinary21 val =
     (let val = (if val < 0 then (val AND 0b11111111111111111111) OR 0b100000000000000000000
                 else val)
      in if val AND 0b111111111111111111111 \<noteq> val then Inl SysExit else Inr (fmt_b 21 val))"

definition inbinary25 :: "int \<Rightarrow> string res" where
  "inbinary25 val =
     (let val = (if val < 0
                 then (val AND 0b111111111111111111111111) OR 0b1000000000000000000000000
                 else val)
      in if val AND 0b1111111111111111111111111 \<noteq> val then Inl SysExit
         else Inr (fmt_b 25 val))"

section \<open>The contract of a field\<close>

text \<open>The digits of \<open>w\<close> bits of a value, and the values the simulator reads back from them.\<close>

definition field_bits :: "nat \<Rightarrow> int \<Rightarrow> string" where
  "field_bits w v = to_bits w (nat (v mod 2 ^ w))"

definition unsigned_val :: "string \<Rightarrow> int" where
  "unsigned_val s = int (bits_val s)"

definition signed_val :: "string \<Rightarrow> int" where
  "signed_val s = (if 2 * int (bits_val s) < 2 ^ length s then int (bits_val s)
                   else int (bits_val s) - 2 ^ length s)"

locale bit_field =
  fixes enc :: "int \<Rightarrow> string res" and w :: nat
  assumes width_pos: "0 < w"
    and enc_fits: "0 \<le> v \<Longrightarrow> v < 2 ^ w \<Longrightarrow> enc v = Inr (to_bits w (nat v))"
    and enc_large: "2 ^ w \<le> v \<Longrightarrow> enc v = Inl SysExit"

locale signed_field = bit_field +
  assumes enc_neg: "v < 0 \<Longrightarrow> enc v = Inr (to_bits w (nat (2 ^ (w - 1) + v mod 2 ^ (w - 1))))"

locale unsigned_field = bit_field +
  assumes enc_neg_exit: "v < 0 \<Longrightarrow> enc v = Inl SysExit"

text \<open>The value that a signed field keeps: below the signed range only the low bits.\<close>

definition kept :: "nat \<Rightarrow> int \<Rightarrow> int" where
  "kept w v = (if v < - (2 ^ (w - 1)) then v mod 2 ^ (w - 1) - 2 ^ (w - 1) else v)"

lemma kept_id [simp]: "- (2 ^ (w - 1)) \<le> v \<Longrightarrow> kept w v = v"
  by (simp add: kept_def)

lemma kept_range: "- (2 ^ (w - 1)) \<le> kept w v"
  by (simp add: kept_def)

context bit_field begin

lemma enc_nonneg: "0 \<le> v \<Longrightarrow> enc v = (if v < 2 ^ w then Inr (to_bits w (nat v)) else Inl SysExit)"
  by (simp add: enc_fits enc_large)

lemma roundtrip_unsigned: "enc v = Inr s \<Longrightarrow> 0 \<le> v \<Longrightarrow> unsigned_val s = v"
  by (auto simp: enc_nonneg unsigned_val_def nat_less_iff split: if_splits)

end

context signed_field begin

lemma enc_ok: "(\<exists>s. enc v = Inr s) \<longleftrightarrow> v < 2 ^ w"
proof (cases "v < 0")
  case True
  then have "v < 2 ^ w" by (rule less_trans) simp
  with True show ?thesis by (simp add: enc_neg)
qed (simp add: enc_nonneg)

lemma enc_digits: "enc v = Inr s \<Longrightarrow> length s = w \<and> is_bits s"
  by (cases "v < 0") (auto simp: enc_neg enc_nonneg split: if_splits)

text \<open>In the range of the two's complement of the width, encoding is reduction modulo \<open>2 ^ w\<close>.\<close>

lemma enc_twos:
  assumes "- (2 ^ (w - 1)) \<le> v" and "v < 2 ^ w"
  shows "enc v = Inr (field_bits w v)"
proof (cases "v < 0")
  case True
  have w: "(2 :: int) ^ w = 2 * 2 ^ (w - 1)" using width_pos by (cases w) auto
  have lo: "0 \<le> v + 2 ^ (w - 1)" "v + 2 ^ (w - 1) < 2 ^ (w - 1)" using True assms(1) by auto
  have hi: "0 \<le> v + 2 ^ w" "v + 2 ^ w < 2 ^ w" using lo w True by auto
  have "v mod 2 ^ (w - 1) = (v + 2 ^ (w - 1)) mod 2 ^ (w - 1)" by simp
  also have "\<dots> = v + 2 ^ (w - 1)" using lo by (rule mod_pos_pos_trivial)
  finally have m1: "v mod 2 ^ (w - 1) = v + 2 ^ (w - 1)" .
  have "v mod 2 ^ w = (v + 2 ^ w) mod 2 ^ w" by simp
  also have "\<dots> = v + 2 ^ w" using hi by (rule mod_pos_pos_trivial)
  finally have "v mod 2 ^ w = v + 2 ^ w" .
  with m1 show ?thesis using True w by (simp add: enc_neg field_bits_def algebra_simps)
next
  case False
  then show ?thesis using assms(2) by (simp add: enc_nonneg field_bits_def)
qed

text \<open>A value of the signed range is read back as it was written.\<close>

lemma roundtrip_signed:
  assumes "- (2 ^ (w - 1)) \<le> v" and "v < 2 ^ (w - 1)" and "enc v = Inr s"
  shows "signed_val s = v"
proof -
  have w: "(2 :: int) ^ w = 2 * 2 ^ (w - 1)" using width_pos by (cases w) auto
  have ub: "v < 2 ^ w" using assms(2) w zero_le_power [of "2::int" "w - 1"] by linarith
  then have s: "s = to_bits w (nat (v mod 2 ^ w))"
    using enc_twos [OF assms(1)] assms(3) by (simp add: field_bits_def)
  have b: "int (bits_val s) = v mod 2 ^ w"
    by (simp add: s nat_mod_distrib nat_power_eq)
  show ?thesis
  proof (cases "v < 0")
    case True
    have hi: "0 \<le> v + 2 ^ w" "v + 2 ^ w < 2 ^ w" using w True assms(1) by auto
    have "v mod 2 ^ w = (v + 2 ^ w) mod 2 ^ w" by simp
    also have "\<dots> = v + 2 ^ w" using hi by (rule mod_pos_pos_trivial)
    finally show ?thesis using b w assms(1) by (simp add: signed_val_def s)
  next
    case False
    then show ?thesis using b ub w assms(2) by (simp add: signed_val_def s)
  qed
qed

text \<open>Below the signed range the field wraps around: only the low bits are kept.\<close>

lemma enc_kept: "enc (kept w v) = enc v"
proof (cases "v < - (2 ^ (w - 1))")
  case True
  have m: "(v mod 2 ^ (w - 1) - 2 ^ (w - 1)) mod 2 ^ (w - 1) = v mod 2 ^ (w - 1)" by simp
  have "v mod 2 ^ (w - 1) - 2 ^ (w - 1) < 0" using pos_mod_bound [of "2 ^ (w - 1)" v] by simp
  moreover have "v < 0" using True zero_le_power [of "2::int" "w - 1"] by linarith
  ultimately show ?thesis using True by (simp add: kept_def enc_neg m)
qed simp

lemma enc_wraps:
  assumes "v < 0" and "enc v = Inr s"
  shows "unsigned_val s = 2 ^ (w - 1) + v mod 2 ^ (w - 1)"
proof -
  let ?x = "2 ^ (w - 1) + v mod 2 ^ (w - 1)"
  have w: "(2 :: int) ^ w = 2 * 2 ^ (w - 1)" using width_pos by (cases w) auto
  have x: "0 \<le> ?x" "?x < 2 ^ w" using w pos_mod_bound [of "2 ^ (w - 1)" v] by simp_all
  have "nat ?x < 2 ^ w" using x by (simp add: nat_less_iff)
  moreover have "s = to_bits w (nat ?x)" using assms by (simp add: enc_neg)
  ultimately show ?thesis using x by (simp add: unsigned_val_def)
qed

end

context unsigned_field begin

lemma enc_ok: "(\<exists>s. enc v = Inr s) \<longleftrightarrow> 0 \<le> v \<and> v < 2 ^ w"
  by (cases "v < 0") (auto simp: enc_neg_exit enc_nonneg)

lemma enc_digits: "enc v = Inr s \<Longrightarrow> length s = w \<and> is_bits s"
  by (cases "v < 0") (auto simp: enc_neg_exit enc_nonneg split: if_splits)

end

section \<open>Every field keeps the contract\<close>

lemma and_mask_mod: "v AND mask n = v mod 2 ^ n" for v :: int
  by (simp flip: take_bit_eq_mask add: take_bit_eq_mod)

lemma or_top_bit: "(v AND mask n) OR 2 ^ n = 2 ^ n + v mod 2 ^ n" for v :: int
proof -
  have "(v AND mask n) AND 2 ^ n = 0"
    by (rule bit_eqI) (auto simp: bit_and_iff bit_mask_iff bit_exp_iff)
  then have "(v AND mask n) OR 2 ^ n = (v AND mask n) + 2 ^ n"
    by (simp add: disjunctive_add_eq_or)
  then show ?thesis by (simp add: and_mask_mod)
qed

lemma fmt_b_bits: "0 \<le> v \<Longrightarrow> v < 2 ^ w \<Longrightarrow> 0 < w \<Longrightarrow> fmt_b w v = to_bits w (nat v)"
  by (simp add: fmt_b_def replace_blank_pad pad_bin_str nat_less_iff)

lemma mod_neq_large: "2 ^ w \<le> v \<Longrightarrow> v mod 2 ^ w \<noteq> v" for v :: int
proof
  assume "2 ^ w \<le> v" and "v mod 2 ^ w = v"
  moreover have "v mod 2 ^ w < 2 ^ w" by simp
  ultimately show False by linarith
qed

lemma signed_fieldI:
  assumes "0 < w" and f: "\<And>val. f val =
    (let val = (if val < 0 then (val AND mask (w - 1)) OR 2 ^ (w - 1) else val)
     in if val AND mask w \<noteq> val then Inl SysExit else Inr (fmt_b w val))"
  shows "signed_field f w"
proof
  show "0 < w" by fact
next
  fix v :: int assume "0 \<le> v" "v < 2 ^ w"
  then show "f v = Inr (to_bits w (nat v))"
    using assms(1) by (simp add: f and_mask_mod fmt_b_bits)
next
  fix v :: int assume v: "2 ^ w \<le> v"
  then have "0 \<le> v" using zero_le_power [of "2::int" w] by linarith
  then show "f v = Inl SysExit" using mod_neq_large [OF v] by (simp add: f and_mask_mod)
next
  fix v :: int assume v: "v < 0"
  let ?x = "2 ^ (w - 1) + v mod 2 ^ (w - 1)"
  have w: "(2 :: int) ^ w = 2 * 2 ^ (w - 1)" using assms(1) by (cases w) auto
  have x: "0 \<le> ?x" "?x < 2 ^ w" using w pos_mod_bound [of "2 ^ (w - 1)" v] by simp_all
  show "f v = Inr (to_bits w (nat ?x))"
    using v x assms(1) by (simp only: f or_top_bit if_True Let_def)
      (simp add: and_mask_mod fmt_b_bits)
qed

lemma unsigned_fieldI:
  assumes "0 < w" and f: "\<And>val. f val =
    (if val < 0 then Inl SysExit
     else if val AND mask w \<noteq> val then Inl SysExit else Inr (fmt_b w val))"
  shows "unsigned_field f w"
proof
  show "0 < w" by fact
next
  fix v :: int assume "0 \<le> v" "v < 2 ^ w"
  then show "f v = Inr (to_bits w (nat v))"
    using assms(1) by (simp add: f and_mask_mod fmt_b_bits)
next
  fix v :: int assume v: "2 ^ w \<le> v"
  then have "0 \<le> v" using zero_le_power [of "2::int" w] by linarith
  then show "f v = Inl SysExit" using mod_neq_large [OF v] by (simp add: f and_mask_mod)
next
  fix v :: int assume "v < 0"
  then show "f v = Inl SysExit" by (simp add: f)
qed

interpretation b2: unsigned_field inbinary2 2
  by (rule unsigned_fieldI) (simp_all add: inbinary2_def mask_eq_exp_minus_1)

interpretation b3: signed_field inbinary3 3
  by (rule signed_fieldI) (simp_all add: inbinary3_def mask_eq_exp_minus_1)

interpretation b4: signed_field inbinary4 4
  by (rule signed_fieldI) (simp_all add: inbinary4_def mask_eq_exp_minus_1)

interpretation b5: signed_field inbinary5 5
  by (rule signed_fieldI) (simp_all add: inbinary5_def mask_eq_exp_minus_1)

interpretation b8: signed_field inbinary8 8
  by (rule signed_fieldI) (simp_all add: inbinary8_def mask_eq_exp_minus_1)

interpretation b12: signed_field inbinary12 12
  by (rule signed_fieldI) (simp_all add: inbinary12_def mask_eq_exp_minus_1)

interpretation b16: signed_field inbinary16 16
  by (rule signed_fieldI) (simp_all add: inbinary16_def mask_eq_exp_minus_1)

interpretation b19: unsigned_field inbinary19 19
  by (rule unsigned_fieldI) (simp_all add: inbinary19_def mask_eq_exp_minus_1)

interpretation b20: unsigned_field inbinary20 20
  by (rule unsigned_fieldI) (simp_all add: inbinary20_def mask_eq_exp_minus_1)

interpretation b21: signed_field inbinary21 21
  by (rule signed_fieldI) (simp_all add: inbinary21_def mask_eq_exp_minus_1)

interpretation b25: signed_field inbinary25 25
  by (rule signed_fieldI) (simp_all add: inbinary25_def mask_eq_exp_minus_1)

lemmas field_digits =
  b2.enc_digits b3.enc_digits b4.enc_digits b5.enc_digits b8.enc_digits b12.enc_digits
  b16.enc_digits b19.enc_digits b20.enc_digits b21.enc_digits b25.enc_digits

section \<open>Field encoders\<close>

definition encode_I_opcode :: "string \<Rightarrow> string res" where
  "encode_I_opcode name = dict_get I_opcode_enc name (KeyError name)"

definition encode_LI_opcode :: "string \<Rightarrow> string res" where
  "encode_LI_opcode name = dict_get LI_opcode_enc name (KeyError name)"

definition encode_VF_opcode :: "string \<Rightarrow> string res" where
  "encode_VF_opcode name = dict_get VF_opcode_enc name (KeyError name)"

definition encode_S_opcode :: "string \<Rightarrow> string res" where
  "encode_S_opcode name = dict_get S_opcode_enc name (KeyError name)"

definition encode_R_opcode :: "string \<Rightarrow> string res" where
  "encode_R_opcode name = dict_get R_opcode_enc name (KeyError name)"

definition encode_B_opcode :: "string \<Rightarrow> string res" where
  "encode_B_opcode name = dict_get B_opcode_enc name (KeyError name)"

definition encode_J_opcode :: "string \<Rightarrow> string res" where
  "encode_J_opcode name = dict_get J_opcode_enc name (KeyError name)"

definition encode_M1_opcode :: "string \<Rightarrow> string res" where
  "encode_M1_opcode name = dict_get M1_opcode_enc name (KeyError name)"

definition encode_M2_opcode :: "string \<Rightarrow> string res" where
  "encode_M2_opcode name = dict_get M2_opcode_enc name (KeyError name)"

definition encode_M3_opcode :: "string \<Rightarrow> string res" where
  "encode_M3_opcode name = dict_get M3_opcode_enc name (KeyError name)"

definition encode_M4_opcode :: "string \<Rightarrow> string res" where
  "encode_M4_opcode name = dict_get M4_opcode_enc name (KeyError name)"

definition encode_E_opcode :: "string \<Rightarrow> string res" where
  "encode_E_opcode name = dict_get E_opcode_enc name (KeyError name)"

definition encode_R4_opcode :: "string \<Rightarrow> string res" where
  "encode_R4_opcode name = dict_get R4_opcode_enc name (KeyError name)"

definition encode_P_opcode :: "string \<Rightarrow> string res" where
  "encode_P_opcode name = dict_get P_opcode_enc name (KeyError name)"

definition encode_register :: "pv \<Rightarrow> string res" where
  "encode_register name = pv_get register_enc name"

definition encode_transition_type :: "string \<Rightarrow> string res" where
  "encode_transition_type tr_type = dict_get transition_type_enc tr_type (KeyError tr_type)"

definition encode_event_target :: "int \<Rightarrow> string res" where
  "encode_event_target value = inbinary20 value"

definition encode_signature :: "int \<Rightarrow> string res" where
  "encode_signature value = inbinary8 value"

definition encode_EFA_tr_target :: "int \<Rightarrow> string res" where
  "encode_EFA_tr_target value = inbinary12 value"

definition encode_attach :: "int \<Rightarrow> string res" where
  "encode_attach value = inbinary8 value"

definition encode_attach_base :: "int \<Rightarrow> string res" where
  "encode_attach_base value = inbinary3 value"

definition encode_attach_scalar :: "int \<Rightarrow> string res" where
  "encode_attach_scalar value = inbinary3 value"

definition encode_attach_refill_base :: "int \<Rightarrow> string res" where
  "encode_attach_refill_base value = inbinary3 value"

definition encode_attach_refill_scalar :: "int \<Rightarrow> string res" where
  "encode_attach_refill_scalar value = inbinary2 value"

definition encode_attach_refill_refill :: "int \<Rightarrow> string res" where
  "encode_attach_refill_refill value = inbinary3 value"

definition encode_immediate16 :: "int \<Rightarrow> string res" where
  "encode_immediate16 value = inbinary16 value"

definition encode_immediate12 :: "int \<Rightarrow> string res" where
  "encode_immediate12 value = inbinary12 value"

definition encode_immediate4 :: "int \<Rightarrow> string res" where
  "encode_immediate4 value = inbinary4 value"

definition encode_immediate5 :: "int \<Rightarrow> string res" where
  "encode_immediate5 value = inbinary5 value"

definition encode_immediate_LI :: "int \<Rightarrow> string res" where
  "encode_immediate_LI value = inbinary21 value"

definition encode_immediate_jump :: "int \<Rightarrow> string res" where
  "encode_immediate_jump value = inbinary25 value"

definition encode_func :: "string \<Rightarrow> string res" where
  "encode_func name = dict_get func_enc name (KeyError name)"

definition encode_message_mode :: "pv \<Rightarrow> string res" where
  "encode_message_mode value = rbind (pv_int value) inbinary2"

definition encode_len :: "pv \<Rightarrow> string res" where
  "encode_len value = rbind (pv_int value) (\<lambda>v. inbinary3 (v - 1))"

definition encode_send_len :: "pv \<Rightarrow> string res" where
  "encode_send_len value = rbind (pv_int value) (\<lambda>v. inbinary3 (v - 2))"

definition encode_perm :: "pv \<Rightarrow> string res" where
  "encode_perm value = rbind (pv_int value) inbinary3"

definition encode_precision :: "pv \<Rightarrow> string res" where
  "encode_precision name = pv_get precision_enc name"

definition encode_mask :: "pv \<Rightarrow> string res" where
  "encode_mask value = rbind (pv_int value) inbinary4"

definition encode_P_offset :: "pv \<Rightarrow> string res" where
  "encode_P_offset offset =
     (case offset of Absent \<Rightarrow> Inl AttributeError | PInt i \<Rightarrow> inbinary19 i | _ \<Rightarrow> Inl TypeError)"

section \<open>The widths of the fields\<close>

named_theorems widths \<open>the number of binary digits an encoder returns\<close>

lemma code_width_append: "code_width v s \<Longrightarrow> code_width w t \<Longrightarrow> code_width (v + w) (s @ t)"
  by (simp add: code_width_def)

text \<open>The fields of an instruction: each has its width, so their concatenation has the sum.\<close>

definition res_width :: "nat \<Rightarrow> string res \<Rightarrow> bool" where
  "res_width w m = (\<forall>s. m = Inr s \<longrightarrow> code_width w s)"

lemma seq_res_widths:
  "seq_res ms = Inr fs \<Longrightarrow> list_all2 res_width ws ms \<Longrightarrow> list_all2 code_width ws fs"
proof (induction ws arbitrary: ms fs)
  case (Cons w ws)
  then obtain m ms' where ms: "ms = m # ms'" "res_width w m" "list_all2 res_width ws ms'"
    by (auto simp: list_all2_Cons1)
  with Cons.prems(1) obtain f fs' where f: "m = Inr f" "seq_res ms' = Inr fs'" "fs = f # fs'"
    by (auto simp: seq_res_Cons_iff)
  from f(1) ms(2) have "code_width w f" by (simp add: res_width_def)
  with Cons.IH [OF f(2) ms(3)] f(3) show ?case by simp
qed (simp add: seq_res_Nil_iff)

lemma concat_width: "list_all2 code_width ws fs \<Longrightarrow> code_width (sum_list ws) (concat fs)"
  by (induction rule: list_all2_induct) (auto simp: code_width_def)

lemma res_width_Inr [widths]: "code_width w s \<Longrightarrow> res_width w (Inr s)"
  by (simp add: res_width_def)

lemma res_width_bind: "(\<And>x. m = Inr x \<Longrightarrow> res_width w (f x)) \<Longrightarrow> res_width w (rbind m f)"
  by (auto simp: res_width_def rbind_Inr_iff)

lemma res_width_inbinary [widths]:
  "res_width 2 (inbinary2 v)" "res_width 3 (inbinary3 v)" "res_width 4 (inbinary4 v)"
  "res_width 5 (inbinary5 v)" "res_width 8 (inbinary8 v)" "res_width 12 (inbinary12 v)"
  "res_width 16 (inbinary16 v)" "res_width 19 (inbinary19 v)" "res_width 20 (inbinary20 v)"
  "res_width 21 (inbinary21 v)" "res_width 25 (inbinary25 v)"
  by (auto simp: res_width_def code_width_def dest: field_digits)

lemmas field_encoder_defs =
  encode_event_target_def encode_signature_def encode_EFA_tr_target_def encode_attach_def
  encode_attach_base_def encode_attach_scalar_def encode_attach_refill_base_def
  encode_attach_refill_scalar_def encode_attach_refill_refill_def encode_immediate16_def
  encode_immediate12_def encode_immediate4_def encode_immediate5_def encode_immediate_LI_def
  encode_immediate_jump_def

lemma res_width_encoders [widths]:
  "res_width 20 (encode_event_target v)" "res_width 8 (encode_signature v)"
  "res_width 12 (encode_EFA_tr_target v)" "res_width 8 (encode_attach v)"
  "res_width 3 (encode_attach_base v)" "res_width 3 (encode_attach_scalar v)"
  "res_width 3 (encode_attach_refill_base v)" "res_width 2 (encode_attach_refill_scalar v)"
  "res_width 3 (encode_attach_refill_refill v)" "res_width 16 (encode_immediate16 v)"
  "res_width 12 (encode_immediate12 v)" "res_width 4 (encode_immediate4 v)"
  "res_width 5 (encode_immediate5 v)" "res_width 21 (encode_immediate_LI v)"
  "res_width 25 (encode_immediate_jump v)"
  by (simp_all add: field_encoder_defs widths)

lemma res_width_values [widths]:
  "res_width 2 (encode_message_mode p)" "res_width 3 (encode_len p)"
  "res_width 3 (encode_send_len p)" "res_width 3 (encode_perm p)" "res_width 4 (encode_mask p)"
  by (simp_all add: encode_message_mode_def encode_len_def encode_send_len_def encode_perm_def
      encode_mask_def res_width_bind widths)

lemma res_width_P_offset [widths]: "res_width 19 (encode_P_offset p)"
  by (cases p) (simp_all add: encode_P_offset_def widths, simp_all add: res_width_def)

lemma res_width_dict:
  "(\<And>v. map_of d k = Some v \<Longrightarrow> code_width w v) \<Longrightarrow> res_width w (dict_get d k e)"
  by (simp add: res_width_def dict_get_Inr_iff)

lemma res_width_pv_get:
  "(\<And>k v. map_of d k = Some v \<Longrightarrow> code_width w v) \<Longrightarrow> res_width w (pv_get d p)"
  by (auto simp: res_width_def pv_get_Inr_iff)

lemma res_width_tables [widths]:
  "res_width 5 (encode_register p)" "res_width 4 (encode_transition_type t)"
  "res_width 3 (encode_precision p)"
  by (simp_all add: encode_register_def encode_transition_type_def encode_precision_def
      res_width_dict res_width_pv_get register_width transition_width precision_width)

lemma res_width_opcodes [widths]:
  "res_width 7 (encode_I_opcode i)" "res_width 7 (encode_LI_opcode i)"
  "res_width 7 (encode_VF_opcode i)" "res_width 7 (encode_S_opcode i)"
  "res_width 7 (encode_R_opcode i)" "res_width 7 (encode_B_opcode i)"
  "res_width 7 (encode_J_opcode i)" "res_width 7 (encode_M1_opcode i)"
  "res_width 7 (encode_M2_opcode i)" "res_width 7 (encode_M3_opcode i)"
  "res_width 7 (encode_M4_opcode i)" "res_width 7 (encode_E_opcode i)"
  "res_width 7 (encode_R4_opcode i)" "res_width 7 (encode_P_opcode i)"
  by (simp_all add: encode_I_opcode_def encode_LI_opcode_def encode_VF_opcode_def
      encode_S_opcode_def encode_R_opcode_def encode_B_opcode_def encode_J_opcode_def
      encode_M1_opcode_def encode_M2_opcode_def encode_M3_opcode_def encode_M4_opcode_def
      encode_E_opcode_def encode_R4_opcode_def encode_P_opcode_def res_width_dict opcode_width)

section \<open>Properties\<close>

text \<open>a 16-bit immediate reads back as the signed number it was when it is between -2^15 and 2^15, as the unsigned number it was when it is between 0 and 2^16, and stops the assembler above that.\<close>

theorem immediate16_range:
  "(- (2 ^ 15) \<le> v \<and> v < 2 ^ 15 \<longrightarrow> rmap signed_val (encode_immediate16 v) = Inr v) \<and>
   (0 \<le> v \<and> v < 2 ^ 16 \<longrightarrow> rmap unsigned_val (encode_immediate16 v) = Inr v) \<and>
   (2 ^ 16 \<le> v \<longrightarrow> encode_immediate16 v = Inl SysExit)"
proof (intro conjI impI)
  assume v: "- (2 ^ 15) \<le> v \<and> v < 2 ^ 15"
  then obtain s where "inbinary16 v = Inr s" using b16.enc_ok [of v] by auto
  with b16.roundtrip_signed [of v s] v show "rmap signed_val (encode_immediate16 v) = Inr v"
    by (simp add: encode_immediate16_def)
next
  assume v: "0 \<le> v \<and> v < 2 ^ 16"
  then obtain s where "inbinary16 v = Inr s" using b16.enc_ok [of v] by auto
  with b16.roundtrip_unsigned [of v s] v show "rmap unsigned_val (encode_immediate16 v) = Inr v"
    by (simp add: encode_immediate16_def)
next
  assume "2 ^ 16 \<le> v" then show "encode_immediate16 v = Inl SysExit"
    using b16.enc_large [of v] by (simp add: encode_immediate16_def)
qed

theorem immediate16_range_witness:
  "rmap signed_val (encode_immediate16 (- 7)) = Inr (- 7) \<and>
   rmap unsigned_val (encode_immediate16 65535) = Inr 65535 \<and>
   encode_immediate16 65536 = Inl SysExit"
  using immediate16_range [of "- 7"] immediate16_range [of 65535] immediate16_range [of 65536] by simp

text \<open>a negative 16-bit immediate is never refused: below -2^15 it wraps, the sign bit kept and the other 15 bits taken modulo 2^15.\<close>

theorem immediate16_wraps:
  assumes "v < 0"
  shows "rmap unsigned_val (encode_immediate16 v) = Inr (2 ^ 15 + v mod 2 ^ 15)"
proof -
  obtain s where s: "inbinary16 v = Inr s" using assms b16.enc_ok [of v] by auto
  with b16.enc_wraps [OF assms s] show ?thesis by (simp add: encode_immediate16_def)
qed

theorem immediate16_wraps_witness:
  "rmap unsigned_val (encode_immediate16 (- 32769)) = Inr 65535"
  using immediate16_wraps [of "- 32769"] by simp

text \<open>the register that the decoder names for a number is encoded as that number, in five bits.\<close>

theorem registers_decode:
  assumes "map_of register_enc_rev n = Some r"
  shows "encode_register (PStr r) = Inr (to_bits 5 (nat n))"
  using map_of_list_all [OF register_rev assms] by (simp add: encode_register_def dict_get_def)

theorem registers_decode_witness: "encode_register (PStr ''X17'') = Inr ''10001''"
proof -
  have "map_of register_enc_rev 17 = Some ''X17''" by (simp add: register_enc_rev_def)
  from registers_decode [OF this] show ?thesis by (simp add: to_bits_num bit_chr_def)
qed

text \<open>a transition type that the decoder names for a number is encoded as that number under its encoder name; the two names that differ, those of the refill types, are no key of the encoder table.\<close>

theorem transition_types_decode:
  assumes "map_of transition_type_enc_rev n = Some t"
  shows "encode_transition_type (refill_name t) = Inr (to_bits 4 (nat n)) \<and>
         (refill_name t \<noteq> t \<longrightarrow> encode_transition_type t = Inl (KeyError t))"
  using map_of_list_all [OF transition_type_rev assms]
  by (auto simp: encode_transition_type_def dict_get_def refill_name_def transition_type_enc_def)

theorem transition_types_decode_witness:
  "encode_transition_type ''refill'' = Inr ''0010'' \<and>
   encode_transition_type ''refillCarry'' = Inl (KeyError ''refillCarry'')"
proof -
  have "map_of transition_type_enc_rev 2 = Some ''refillCarry''"
    by (simp add: transition_type_enc_rev_def)
  from transition_types_decode [OF this] show ?thesis
    by (simp add: refill_name_def to_bits_num bit_chr_def)
qed

end
