(* ===== verification/Asm_Action.thy ===== *)
theory Asm_Action imports Py_Value begin

text \<open>
  Parsing one assembly instruction: \<open>ParseAction\<close> and its helpers
  (\<open>src/updown/udbasim/assembler/EfaUtil_v2.py\<close>) and \<open>GetAction\<close> with the constructors of the
  action classes (\<open>EFA_v2.py\<close>).  The \<open>Operand\<close> object is a record of the attributes its class
  declares (those no code of the assembler reads are left out); the action objects share one
  record, in which an attribute that the class of the action does not have is \<open>Absent\<close>.
  \<open>ParseAction\<close> is one chain of \<open>elif\<close> on the opcode; the chain is cut here into consecutive
  groups, each of which answers \<open>None\<close> when no condition of the group holds.
\<close>

section \<open>Registers\<close>

definition UNUSED_reg :: string where
  "UNUSED_reg = ''X0''"

definition UNUSED_imm :: string where
  "UNUSED_imm = ''0''"

text \<open>\<open>register_map(reg, mode)\<close>; the two modes differ in \<open>X4\<close> and \<open>X5\<close>.\<close>

definition regmap0 :: "(string, string) dict" where
  "regmap0 = [
    (''X0'', ''NWID''), (''X1'', ''X1''), (''X2'', ''EQT''), (''X3'', ''X3''), (''X4'', ''FSCR''),
    (''X5'', ''X5''), (''X6'', ''X6''), (''X7'', ''X7''), (''X8'', ''OB_0''), (''X9'', ''OB_1''),
    (''X10'', ''OB_2''), (''X11'', ''OB_3''), (''X12'', ''OB_4''), (''X13'', ''OB_5''),
    (''X14'', ''OB_6''), (''X15'', ''OB_7''), (''X16'', ''UDPR_0''), (''X17'', ''UDPR_1''),
    (''X18'', ''UDPR_2''), (''X19'', ''UDPR_3''), (''X20'', ''UDPR_4''), (''X21'', ''UDPR_5''),
    (''X22'', ''UDPR_6''), (''X23'', ''UDPR_7''), (''X24'', ''UDPR_8''), (''X25'', ''UDPR_9''),
    (''X26'', ''UDPR_10''), (''X27'', ''UDPR_11''), (''X28'', ''UDPR_12''), (''X29'', ''UDPR_13''),
    (''X30'', ''UDPR_14''), (''X31'', ''UDPR_15'')]"

definition regmap1 :: "(string, string) dict" where
  "regmap1 = [
    (''X0'', ''NWID''), (''X1'', ''X1''), (''X2'', ''EQT''), (''X3'', ''X3''), (''X4'', ''SBP''),
    (''X5'', ''SBCR''), (''X6'', ''X6''), (''X7'', ''X7''), (''X8'', ''OB_0''), (''X9'', ''OB_1''),
    (''X10'', ''OB_2''), (''X11'', ''OB_3''), (''X12'', ''OB_4''), (''X13'', ''OB_5''),
    (''X14'', ''OB_6''), (''X15'', ''OB_7''), (''X16'', ''UDPR_0''), (''X17'', ''UDPR_1''),
    (''X18'', ''UDPR_2''), (''X19'', ''UDPR_3''), (''X20'', ''UDPR_4''), (''X21'', ''UDPR_5''),
    (''X22'', ''UDPR_6''), (''X23'', ''UDPR_7''), (''X24'', ''UDPR_8''), (''X25'', ''UDPR_9''),
    (''X26'', ''UDPR_10''), (''X27'', ''UDPR_11''), (''X28'', ''UDPR_12''), (''X29'', ''UDPR_13''),
    (''X30'', ''UDPR_14''), (''X31'', ''UDPR_15'')]"

definition register_map :: "string \<Rightarrow> int \<Rightarrow> string res" where
  "register_map reg mode =
     (if mode = 0 then dict_get regmap0 reg (KeyError reg)
      else if mode = 1 then dict_get regmap1 reg (KeyError reg)
      else Inl SysExit)"

text \<open>\<open>str.find("_", index)\<close> and the position behind the \<open>pos\<close>-th underscore found that way\<close>

fun find_char :: "char \<Rightarrow> nat \<Rightarrow> string \<Rightarrow> nat option" where
  "find_char d i [] = None"
| "find_char d i (c # cs) = (if c = d then Some i else find_char d (Suc i) cs)"

fun find_underscore_from :: "nat \<Rightarrow> string \<Rightarrow> nat \<Rightarrow> nat" where
  "find_underscore_from index s 0 = index"
| "find_underscore_from index s (Suc n) =
     find_underscore_from (case find_char CHR ''_'' index (drop index s) of
                             None \<Rightarrow> 0 | Some i \<Rightarrow> i + 1) s n"

definition find_underscore :: "string \<Rightarrow> nat \<Rightarrow> nat" where
  "find_underscore s pos = find_underscore_from 0 s pos"

definition first_is :: "char \<Rightarrow> string \<Rightarrow> bool" where
  "first_is c s = (s \<noteq> [] \<and> hd s = c)"

definition count_char :: "char \<Rightarrow> string \<Rightarrow> nat" where
  "count_char c s = length (filter (\<lambda>x. x = c) s)"

text \<open>The largest \<open>UDPR\<close> and operand-buffer index among the registers of an instruction\<close>

definition max_step :: "string \<Rightarrow> int \<times> int \<Rightarrow> (int \<times> int) res" where
  "max_step reg m =
     (if reg = [] then Inl IndexError
      else if hd reg = CHR ''U'' then
        rbind (py_int (drop 5 reg)) (\<lambda>udp. Inr (max (fst m) udp, snd m))
      else if hd reg = CHR ''O'' \<and> count_char CHR ''O'' reg = 1 then
        rbind (py_int (drop 3 reg)) (\<lambda>ob. Inr (fst m, max (snd m) ob))
      else if hd reg = CHR ''O'' \<and> count_char CHR ''O'' reg = 2 then
        rbind (py_int (drop (find_underscore reg 2) reg)) (\<lambda>ob. Inr (fst m, max (snd m) ob))
      else Inr m)"

definition calc_maxudp_maxob :: "string list \<Rightarrow> (int \<times> int) res" where
  "calc_maxudp_maxob reglist = foldr_res max_step reglist (0, 0)"

definition strip_precision :: "string \<Rightarrow> string \<times> int" where
  "strip_precision s =
     (let strips = split_on CHR ''.'' s;
          opcode = hd strips
      in (opcode,
          if length strips > 1 then
            (if strips ! 1 = ''64'' then 0 else if strips ! 1 = ''32'' then 1
             else if strips ! 1 = ''b16'' then 2 else if strips ! 1 = ''i32'' then 3 else 0)
          else 0))"

definition get_precision :: "string \<Rightarrow> pv" where
  "get_precision s =
     (let strips = split_on CHR ''.'' s
      in if length strips = 1 then PInt 0 else PStr (strips ! 1))"

section \<open>The operand object\<close>

record operand =
  o_opcode :: string
  o_dst :: pv
  o_src :: pv
  o_imm :: pv
  o_imm2 :: pv
  o_rt :: pv
  o_op1 :: pv
  o_op2 :: pv
  o_op3 :: pv
  o_op4 :: pv
  o_unsigned :: pv
  o_op1_ob_or_reg :: pv
  o_op2_ob_or_reg_or_imm :: pv
  o_event :: pv
  o_addr_mode :: pv
  o_size :: pv
  o_dst_issb :: pv
  o_funct :: pv
  o_cont :: pv
  o_lm_mode :: pv
  o_tmp_reg1 :: pv
  o_reglist :: pv
  o_maxop :: int
  o_maxudp :: int
  o_label :: pv
  o_formatstr :: pv
  o_perflog_mode :: pv
  o_perflog_payload_list :: pv
  o_perflog_msg_id :: pv
  o_userctr_mode :: pv
  o_userctr_num :: pv
  o_userctr_arg :: pv
  o_print_id :: pv
  o_mode :: pv
  o_mask :: pv
  o_precision :: pv

definition EMPTY :: pv where
  "EMPTY = PStr ''EMPTY''"

definition Operand :: operand where
  "Operand = \<lparr>
     o_opcode = ''Unknown'', o_dst = EMPTY, o_src = EMPTY, o_imm = EMPTY, o_imm2 = EMPTY,
     o_rt = EMPTY, o_op1 = EMPTY, o_op2 = EMPTY, o_op3 = EMPTY, o_op4 = EMPTY,
     o_unsigned = EMPTY, o_op1_ob_or_reg = EMPTY, o_op2_ob_or_reg_or_imm = EMPTY,
     o_event = EMPTY, o_addr_mode = EMPTY, o_size = EMPTY, o_dst_issb = EMPTY,
     o_funct = EMPTY, o_cont = EMPTY, o_lm_mode = EMPTY, o_tmp_reg1 = PNone,
     o_reglist = PStrs [], o_maxop = 0, o_maxudp = 0, o_label = PNone, o_formatstr = PNone,
     o_perflog_mode = PInt 0, o_perflog_payload_list = PInt 0, o_perflog_msg_id = PInt 0,
     o_userctr_mode = PInt 0, o_userctr_num = PInt 0, o_userctr_arg = PInt 0,
     o_print_id = PNone, o_mode = PInt 0, o_mask = PInt 0, o_precision = PNone\<rparr>"

datatype aclass =
    NoClass | IAction | I2Action | I3Action | EAction | RAction | FPAction | VAction | BAction
  | SAction | SPAction | YAction | PAction | PerflogAction | InsTransAction
  | UserCounterAction | LMMemcheckAction

text \<open>What \<open>ParseAction\<close> computes: the class and the operand, and the print counter it leaves.\<close>

type_synonym parsed = "(aclass \<times> operand \<times> int) res"

section \<open>Reading the parts of the instruction\<close>

text \<open>\<open>part[i]\<close>; the assignments of a branch read its parts in this order.\<close>

definition arg :: "string list \<Rightarrow> nat \<Rightarrow> string res" where
  "arg part i = (if i < length part then Inr (part ! i) else Inl IndexError)"

definition arg1 :: "string list \<Rightarrow> (string \<Rightarrow> 'a res) \<Rightarrow> 'a res" where
  "arg1 part f = rbind (arg part 1) f"

definition arg2 :: "string list \<Rightarrow> (string \<Rightarrow> string \<Rightarrow> 'a res) \<Rightarrow> 'a res" where
  "arg2 part f = arg1 part (\<lambda>a. rbind (arg part 2) (f a))"

definition arg3 :: "string list \<Rightarrow> (string \<Rightarrow> string \<Rightarrow> string \<Rightarrow> 'a res) \<Rightarrow> 'a res" where
  "arg3 part f = arg2 part (\<lambda>a b. rbind (arg part 3) (f a b))"

definition arg4 ::
  "string list \<Rightarrow> (string \<Rightarrow> string \<Rightarrow> string \<Rightarrow> string \<Rightarrow> 'a res) \<Rightarrow> 'a res" where
  "arg4 part f = arg3 part (\<lambda>a b c. rbind (arg part 4) (f a b c))"

definition arg5 ::
  "string list \<Rightarrow> (string \<Rightarrow> string \<Rightarrow> string \<Rightarrow> string \<Rightarrow> string \<Rightarrow> 'a res) \<Rightarrow> 'a res" where
  "arg5 part f = arg4 part (\<lambda>a b c d. rbind (arg part 5) (f a b c d))"

definition arg6 ::
  "string list \<Rightarrow>
   (string \<Rightarrow> string \<Rightarrow> string \<Rightarrow> string \<Rightarrow> string \<Rightarrow> string \<Rightarrow> 'a res) \<Rightarrow> 'a res" where
  "arg6 part f = arg5 part (\<lambda>a b c d e. rbind (arg part 6) (f a b c d e))"

lemmas arg_defs = arg1_def arg2_def arg3_def arg4_def arg5_def arg6_def arg_def

definition set_max :: "operand \<Rightarrow> int \<times> int \<Rightarrow> operand" where
  "set_max o1 m = o1\<lparr>o_maxudp := fst m, o_maxop := snd m\<rparr>"

text \<open>A branch that ends with \<open>maxudp, maxop = calc_maxudp_maxob([...])\<close>\<close>

definition finish :: "int \<Rightarrow> aclass \<Rightarrow> operand \<Rightarrow> string list \<Rightarrow> parsed" where
  "finish cnt cls o1 regs = rmap (\<lambda>m. (cls, set_max o1 m, cnt)) (calc_maxudp_maxob regs)"

text \<open>A branch that leaves them 0\<close>

definition finish0 :: "int \<Rightarrow> aclass \<Rightarrow> operand \<Rightarrow> parsed" where
  "finish0 cnt cls o1 = Inr (cls, set_max o1 (0, 0), cnt)"

text \<open>The loop of the pseudo-instruction branches over all parts\<close>

definition parts_step :: "string \<Rightarrow> int \<times> int \<Rightarrow> (int \<times> int) res" where
  "parts_step p m =
     (if contains_str ''UDPR'' p then
        rbind (py_int (drop 5 p)) (\<lambda>udp. Inr (max (fst m) udp, snd m))
      else if contains_str ''OB'' p then
        rbind (py_int (drop 3 p)) (\<lambda>ob. Inr (fst m, max (snd m) ob))
      else Inr m)"

definition finish_parts :: "int \<Rightarrow> aclass \<Rightarrow> operand \<Rightarrow> string list \<Rightarrow> parsed" where
  "finish_parts cnt cls o1 part =
     rmap (\<lambda>m. (cls, set_max o1 m, cnt)) (foldr_res parts_step (tl part) (0, 0))"

section \<open>ParseAction\<close>

text \<open>I-type instructions: moves of immediates and specials, immediate arithmetic, \<open>ssprop\<close>\<close>

definition parse_imm :: "string \<Rightarrow> string list \<Rightarrow> operand \<Rightarrow> int \<Rightarrow> parsed option" where
  "parse_imm opcode part o1 cnt =
     (if opcode \<in> {''hash_sb32'', ''hashsb32'', ''mov_imm2reg'', ''movir'', ''evlb''} then
        Some (arg2 part (\<lambda>p1 p2.
          finish cnt IAction
            (o1\<lparr>o_dst := PStr p1, o_imm := PStr p2, o_src := PStr UNUSED_reg\<rparr>) [p1]))
      else if opcode \<in> {''mov_sb2reg'', ''movsbr'', ''mov_uip2reg'', ''movipr''} then
        Some (arg1 part (\<lambda>p1.
          finish cnt IAction
            (o1\<lparr>o_dst := PStr p1, o_imm := PStr UNUSED_imm, o_src := PStr ''X16''\<rparr>) [p1]))
      else if opcode \<in> {''mov_lm2sb'', ''movlsb''} then
        Some (arg1 part (\<lambda>p1.
          finish cnt IAction
            (o1\<lparr>o_src := PStr p1, o_imm := PStr UNUSED_imm, o_dst := PStr ''X16''\<rparr>) [p1]))
      else if opcode \<in> {''goto'', ''tranCarry_goto'', ''siw'', ''set_issue_width'',
                   ''set_complete'', ''refill''} then
        Some (arg1 part (\<lambda>p1.
          finish cnt IAction
            (o1\<lparr>o_imm := PStr p1, o_dst := PStr ''X16'', o_src := PStr UNUSED_reg\<rparr>) [p1]))
      else if opcode \<in> {''put_2byte_imm'', ''movil2'', ''put_1byte_imm'', ''movil1''} then
        Some (arg2 part (\<lambda>p1 p2.
          finish cnt IAction
            (o1\<lparr>o_src := PStr p1, o_imm := PStr p2, o_dst := PStr ''X16''\<rparr>) [p1]))
      else if opcode \<in> {''subi'', ''addi'', ''muli'', ''divi'', ''put_bytes'', ''get_bytes'',
                   ''get_bytes_from_out'', ''swap_bytes'', ''comp_lt'', ''clti'',
                   ''comp_gt'', ''cgti'', ''comp_eq'', ''ceqi'', ''lshift_or'', ''slori'',
                   ''rshift_or'', ''srori'', ''lshift_and'', ''slandi'', ''rshift_and'',
                   ''srandi'', ''mask_or'', ''bitwise_and_imm'', ''andi'', ''modi'',
                   ''bitwise_or_imm'', ''ori'', ''bitwise_xor_imm'', ''xori'',
                   ''copy_imm'', ''bcpylli'', ''copy_from_out_imm'', ''mov_lm2ear'',
                   ''mov_ear2lm'', ''rshift'', ''sri'', ''lshift'', ''sli'',
                   ''mov_lm2reg_blk'', ''arithrshift'', ''sari''} then
        Some (arg3 part (\<lambda>p1 p2 p3.
          finish cnt IAction
            (o1\<lparr>o_src := PStr p1, o_dst := PStr p2, o_imm := PStr p3\<rparr>) [p1, p2]))
      else if opcode \<in> {''hash_lm'', ''hashl''} then
        Some (arg3 part (\<lambda>p1 p2 p3.
          rbind (py_int p3) (\<lambda>n.
          finish cnt IAction
            (o1\<lparr>o_src := PStr p1, o_dst := PStr p2, o_imm := PStr (py_str (n - 1))\<rparr>) [p1, p2])))
      else if opcode \<in> {''set_state_property'', ''ssprop''} then
        Some (arg1 part (\<lambda>p1.
          finish0 cnt IAction
            (o1\<lparr>o_src := PStr UNUSED_reg, o_dst := PStr ''X16'', o_imm := PStr p1\<rparr>)))
      else None)"

text \<open>Register moves, hashes, and the instructions with two immediates\<close>

definition parse_two_imm :: "string \<Rightarrow> string list \<Rightarrow> operand \<Rightarrow> int \<Rightarrow> parsed option" where
  "parse_two_imm opcode part o1 cnt =
     (if opcode \<in> {''mov_reg2reg'', ''movrr'', ''mov_ob2reg'', ''mov_eqt2reg'',
                   ''mov_ob2ear''} then
        Some (arg2 part (\<lambda>p1 p2.
          finish cnt RAction
            (o1\<lparr>o_src := PStr p1, o_dst := PStr p2, o_rt := PStr UNUSED_reg\<rparr>) [p1, p2]))
      else if opcode \<in> {''hash_sb64'', ''hashsb64'', ''hash_lm64'', ''hashl64'', ''hash''} then
        Some (arg2 part (\<lambda>p1 p2.
          finish cnt IAction
            (o1\<lparr>o_src := PStr p1, o_dst := PStr p2, o_imm := PStr UNUSED_imm\<rparr>) [p1, p2]))
      else if opcode \<in> {''lshift_add_imm'', ''sladdii'', ''rshift_add_imm'', ''sraddii'',
                   ''lshift_or_imm'', ''slorii'', ''rshift_or_imm'', ''srorii'',
                   ''lshift_sub_imm'', ''slsubii'', ''rshift_sub_imm'', ''srsubii'',
                   ''lshift_and_imm'', ''slandii'', ''rshift_and_imm'', ''srandii'',
                   ''ev_update_1'', ''evi'', ''ev_update_reg_imm'', ''cmpswp_ri'',
                   ''cmpswp_i'', ''cswpi''} then
        Some (arg4 part (\<lambda>p1 p2 p3 p4.
          finish cnt I2Action
            (o1\<lparr>o_src := PStr p1, o_dst := PStr p2, o_imm := PStr p3, o_imm2 := PStr p4\<rparr>)
            [p1, p2]))
      else if opcode \<in> {''ev_update_2'', ''evii''} then
        Some (arg4 part (\<lambda>p1 p2 p3 p4.
          finish cnt I3Action
            (o1\<lparr>o_dst := PStr p1, o_op1 := PStr p2, o_op2 := PStr p3, o_op3 := PStr p4\<rparr>)
            [p1]))
      else if opcode \<in> {''cmpswp'', ''cswp''} then
        Some (arg4 part (\<lambda>p1 p2 p3 p4.
          finish cnt EAction
            (o1\<lparr>o_src := PStr p1, o_dst := PStr p2, o_op1 := PStr p3, o_op2 := PStr p4,
                o_imm := PStr UNUSED_imm\<rparr>)
            [p1, p2, p3, p4]))
      else if opcode \<in> {''put_bits'', ''movbil''} then
        Some (arg3 part (\<lambda>p1 p2 p3.
          finish cnt I2Action
            (o1\<lparr>o_src := PStr p1, o_imm := PStr p2, o_imm2 := PStr p3, o_dst := PStr ''X16''\<rparr>)
            [p1]))
      else if opcode \<in> {''get_bits'', ''movblr''} then
        Some (arg3 part (\<lambda>p1 p2 p3.
          finish cnt I2Action
            (o1\<lparr>o_src := PStr p1, o_dst := PStr p2, o_imm := PStr p3,
                o_imm2 := PStr UNUSED_imm\<rparr>)
            [p1, p2]))
      else if opcode \<in> {''fork_state'', ''fstate''} then
        Some (arg2 part (\<lambda>p1 p2.
          finish cnt I2Action
            (o1\<lparr>o_src := PStr UNUSED_reg, o_dst := PStr UNUSED_reg, o_imm2 := PStr p1,
                o_imm := PStr p2\<rparr>)
            [UNUSED_reg, UNUSED_reg]))
      else if opcode \<in> {''swizzle'', ''swiz''} then
        Some (arg2 part (\<lambda>p1 p2.
          finish cnt I2Action
            (o1\<lparr>o_src := PStr p1, o_dst := PStr p2, o_imm := PStr UNUSED_imm,
                o_imm2 := PStr UNUSED_imm\<rparr>)
            [p1, p2]))
      else if opcode \<in> {''bcopy_opsi'', ''bcpyoli''} then
        Some (arg3 part (\<lambda>p1 p2 p3.
          finish cnt I2Action
            (o1\<lparr>o_src := PStr p1, o_dst := PStr p2, o_imm := PStr p3,
                o_imm2 := PStr UNUSED_imm\<rparr>)
            [p1, p2]))
      else None)"

text \<open>
  \<open>part[i][:-1].replace("(", ",").split(",")\<close> without its empty pieces, the registers renamed
\<close>

definition subparts_of :: "string \<Rightarrow> string list res" where
  "subparts_of p =
     seq_res (map (\<lambda>q. if hd q = CHR ''X'' then register_map q 0 else Inr q)
       (filter (\<lambda>q. q \<noteq> []) (split_on CHR '','' (replace_char CHR ''('' CHR '','' (butlast p)))))"

definition pv_append :: "pv \<Rightarrow> string \<Rightarrow> pv" where
  "pv_append v s = (case v of PStr t \<Rightarrow> PStr (t @ s) | _ \<Rightarrow> v)"

definition texts :: "pv list \<Rightarrow> string list" where
  "texts vs = map (\<lambda>v. case v of PStr s \<Rightarrow> s | _ \<Rightarrow> []) vs"

text \<open>Loads and stores: the address part is \<open>imm(reg)\<close> or \<open>reg(reg,inc,scale)\<close>.\<close>

definition parse_move :: "string \<Rightarrow> string list \<Rightarrow> operand \<Rightarrow> int \<Rightarrow> parsed option" where
  "parse_move opcode part o1 cnt =
     (if opcode \<in> {''move'', ''movlr'', ''movrl''} then
        Some (rbind (arg part 1) (\<lambda>p1.
          rbind
            (if contains_str ''('' p1 then
               rbind (subparts_of p1) (\<lambda>sub.
               rbind (if 1 < length sub then Inr () else Inl IndexError) (\<lambda>_.
               rbind (arg part 2) (\<lambda>p2.
               rbind (arg part 4) (\<lambda>p4.
                 Inr (o1\<lparr>o_lm_mode := PStr ''ld'', o_src := PStr (sub ! 1), o_dst := PStr p2,
                         o_imm := PStr p4, o_imm2 := PStr (sub ! 0)\<rparr>)))))
             else
               rbind (arg part 2) (\<lambda>p2.
               if contains_str ''('' p2 then
                 rbind (subparts_of p2) (\<lambda>sub.
                 rbind (if 1 < length sub then Inr () else Inl IndexError) (\<lambda>_.
                 rbind (arg part 4) (\<lambda>p4.
                   Inr (o1\<lparr>o_lm_mode := PStr ''st'', o_dst := PStr (sub ! 1), o_src := PStr p1,
                           o_imm := PStr p4, o_imm2 := PStr (sub ! 0)\<rparr>))))
               else Inr o1))
          (\<lambda>o2. rbind (arg part 3) (\<lambda>p3.
             let o3 = (if p3 = ''1'' then o2\<lparr>o_lm_mode := pv_append (o_lm_mode o2) ''_inc''\<rparr>
                       else o2)
             in finish cnt I2Action o3 (texts [o_src o3, o_dst o3])))))
      else if opcode \<in> {''mov_lm2reg'', ''mov_reg2lm''} then
        Some (arg3 part (\<lambda>p1 p2 p3.
          finish cnt I2Action
            (o1\<lparr>o_src := PStr p1, o_dst := PStr p2, o_imm := PStr p3, o_imm2 := PStr ''0'',
                o_lm_mode := PStr (if opcode = ''mov_lm2reg'' then ''ld'' else ''st'')\<rparr>)
            [p1, p2]))
      else if opcode \<in> {''move_word'', ''movwlr'', ''movwrl''} then
        Some (rbind (arg part 1) (\<lambda>p1.
          if contains_str ''('' p1 then
            rbind (subparts_of p1) (\<lambda>sub.
            rbind (if 1 < length sub then Inr () else Inl IndexError) (\<lambda>_.
            rbind (arg part 2) (\<lambda>p2.
            rbind (if 3 < length sub then Inr () else Inl IndexError) (\<lambda>_.
              finish cnt RAction
                (o1\<lparr>o_lm_mode := PStr (if sub ! 2 = ''1'' then ''ld_inc'' else ''ld''),
                    o_rt := PStr (sub ! 0), o_src := PStr (sub ! 1), o_dst := PStr p2,
                    o_imm := PStr (sub ! 3)\<rparr>)
                [sub ! 1, p2]))))
          else
            rbind (arg part 2) (\<lambda>p2.
            if contains_str ''('' p2 then
              rbind (subparts_of p2) (\<lambda>sub.
              rbind (if 3 < length sub then Inr () else Inl IndexError) (\<lambda>_.
                finish cnt RAction
                  (o1\<lparr>o_lm_mode := PStr (if sub ! 2 = ''1'' then ''st_inc'' else ''st''),
                      o_rt := PStr (sub ! 0), o_dst := PStr (sub ! 1), o_src := PStr p1,
                      o_imm := PStr (sub ! 3)\<rparr>)
                  [p1, sub ! 1]))
            else Inl UnboundLocalError)))
      else None)"

text \<open>Three-register instructions\<close>

definition parse_reg :: "string \<Rightarrow> string list \<Rightarrow> operand \<Rightarrow> int \<Rightarrow> parsed option" where
  "parse_reg opcode part o1 cnt =
     (if opcode \<in> {''add'', ''compare_string'', ''cstr'', ''compare_string_from_out'',
                   ''copy'', ''bcpyll'', ''copy_ob_lm'', ''copy_from_out'', ''sub'',
                   ''mul'', ''div'', ''mod'', ''compreg'', ''compreg_eq'', ''ceq'',
                   ''compreg_lt'', ''clt'', ''compreg_gt'', ''cgt'', ''bitwise_or'',
                   ''orr'', ''or'', ''bitwise_and'', ''andr'', ''and'', ''bitwise_xor'',
                   ''xorr'', ''xor'', ''rshift_t'', ''sr'', ''lshift_t'', ''sl'',
                   ''bitclr'', ''bitset'', ''fp_div'', ''fp_add'', ''arithrshift_t'',
                   ''sar''} then
        Some (arg3 part (\<lambda>p1 p2 p3.
          finish cnt RAction
            (o1\<lparr>o_src := PStr p1, o_rt := PStr p2, o_dst := PStr p3\<rparr>) [p1, p3, p2]))
      else if opcode \<in> {''bcopy_ops'', ''bcpyol''} then
        Some (arg3 part (\<lambda>p1 p2 p3.
          finish cnt RAction
            (o1\<lparr>o_src := PStr p1, o_rt := PStr p3, o_dst := PStr p2\<rparr>) [p1, p2, p3]))
      else None)"

text \<open>Branches and jumps: a target is a sequence number, a shared block or a label.\<close>

definition branch_target :: "string \<Rightarrow> operand \<Rightarrow> operand" where
  "branch_target t o1 =
     (if first_is CHR ''#'' t then o1\<lparr>o_dst := PStr (tl t), o_dst_issb := PInt 0\<rparr>
      else if take 5 t = ''block'' then o1\<lparr>o_dst := PStr t, o_dst_issb := PInt 1\<rparr>
      else o1\<lparr>o_dst := PStr t, o_dst_issb := PInt 2\<rparr>)"

definition branch_opcodes :: "string set" where
  "branch_opcodes = {''bne'', ''beq'', ''blt'', ''bgt'', ''bge'', ''ble'', ''bnec'',
                      ''beqc'', ''bltc'', ''bgtc'', ''bgec'', ''blec'', ''bneu'', ''bequ'',
                      ''bgtu'', ''bleu'', ''bneiu'', ''beqiu'', ''bgtiu'', ''bleiu'',
                      ''bltiu'', ''bgeiu'', ''bnei'', ''beqi'', ''blti'', ''bgti'',
                      ''bgei'', ''blei''}"

definition parse_branch :: "string \<Rightarrow> string list \<Rightarrow> operand \<Rightarrow> int \<Rightarrow> parsed option" where
  "parse_branch opcode part o1 cnt =
     (if opcode \<in> branch_opcodes then
        Some (arg3 part (\<lambda>p1 p2 p3.
          let o2 = branch_target p3 (o1\<lparr>o_funct := PStr opcode, o_opcode := ''branch''\<rparr>);
              o3 = o2\<lparr>
                o_op1_ob_or_reg :=
                  PInt (if first_is CHR ''U'' p1 \<or> first_is CHR ''N'' p1 \<or>
                           first_is CHR ''L'' p1 \<or> first_is CHR ''X'' p1 then 1 else 0),
                o_op2_ob_or_reg_or_imm :=
                  PInt (if first_is CHR ''U'' p2 \<or> first_is CHR ''N'' p2 \<or>
                           first_is CHR ''L'' p2 \<or> first_is CHR ''X'' p1 then 1
                        else if first_is CHR ''O'' p2 then 0 else 2),
                o_op1 := PStr p1, o_op2 := PStr p2,
                o_unsigned :=
                  PInt (if opcode \<in> {''bneu'', ''bequ'', ''bgtu'', ''bleu'', ''bneiu'',
                                 ''beqiu'', ''bgtiu'', ''bleiu'', ''bltiu'', ''bgeiu''}
                        then 1 else 0)\<rparr>
          in finish cnt BAction o3 [p1, p2]))
      else if opcode = ''jmp'' then
        Some (arg1 part (\<lambda>p1. finish0 cnt BAction (branch_target p1 o1)))
      else if opcode \<in> {''ev_update_reg_2'', ''ev''} then
        Some (arg5 part (\<lambda>p1 p2 p3 p4 p5.
          finish cnt EAction
            (o1\<lparr>o_src := PStr p1, o_dst := PStr p2, o_op1 := PStr p3, o_op2 := PStr p4,
                o_imm := PStr p5\<rparr>)
            [p1, p2, p3, p4]))
      else if opcode \<in> {''yield'', ''yield_terminate'', ''yieldt'', ''lastact''} then
        Some (finish0 cnt YAction o1)
      else None)"

text \<open>The message instructions of the ISA\<close>

definition parse_send :: "string \<Rightarrow> string list \<Rightarrow> operand \<Rightarrow> int \<Rightarrow> parsed option" where
  "parse_send opcode part o1 cnt =
     (if opcode = ''send'' then
        Some (arg5 part (\<lambda>p1 p2 p3 p4 p5.
          finish cnt SAction
            (o1\<lparr>o_event := PStr p1, o_cont := PStr p2, o_op1 := PStr p3, o_op2 := PStr p4,
                o_addr_mode := PStr p5\<rparr>)
            ([p1] @ texts [o_dst o1] @ [p2, p3, p4])))
      else if opcode \<in> {''sendm'', ''sendmops''} then
        Some (arg5 part (\<lambda>p1 p2 p3 p4 p5.
          finish cnt SAction
            (o1\<lparr>o_event := PStr ''Empty'', o_dst := PStr p1, o_cont := PStr p2,
                o_op1 := PStr p3, o_op2 := PStr p4, o_addr_mode := PStr p5\<rparr>)
            [''Empty'', p1, p2, p3, p4]))
      else if opcode = ''sendmr2'' then
        Some (arg4 part (\<lambda>p1 p2 p3 p4.
          finish cnt SAction
            (o1\<lparr>o_event := PStr ''Empty'', o_dst := PStr p1, o_cont := PStr p2,
                o_op1 := PStr p3, o_op2 := PStr p4\<rparr>)
            [''Empty'', p1, p2, p3, p4]))
      else if opcode = ''sendmr'' then
        Some (arg3 part (\<lambda>p1 p2 p3.
          finish cnt SAction
            (o1\<lparr>o_event := PStr ''Empty'', o_dst := PStr p1, o_cont := PStr p2,
                o_op1 := PStr p3\<rparr>)
            [''Empty'', p1, p2, p3]))
      else if opcode = ''send4'' \<and> length part = 6 \<or> opcode = ''sendr3'' then
        Some (arg5 part (\<lambda>p1 p2 p3 p4 p5.
          finish cnt SAction
            (o1\<lparr>o_event := PStr p1, o_cont := PStr p2, o_op1 := PStr p3, o_op2 := PStr p4,
                o_op3 := PStr p5\<rparr>)
            [p1, p2, p3, p4, p5]))
      else if opcode = ''send4'' \<and> length part = 5 \<or> opcode = ''sendr'' then
        Some (arg4 part (\<lambda>p1 p2 p3 p4.
          finish cnt SAction
            (o1\<lparr>o_event := PStr p1, o_cont := PStr p2, o_op1 := PStr p3, o_op2 := PStr p4\<rparr>)
            [p1, p2, p3, p4]))
      else if opcode = ''sendops'' then
        Some (arg5 part (\<lambda>p1 p2 p3 p4 p5.
          finish cnt SAction
            (o1\<lparr>o_event := PStr p1, o_cont := PStr p2, o_op1 := PStr p3, o_op2 := PStr p4,
                o_addr_mode := PStr p5\<rparr>)
            ([p1] @ texts [o_dst o1] @ [p2, p3, p4])))
      else None)"

text \<open>The message pseudo-instructions to a network address\<close>

definition parse_send_pseudo :: "string \<Rightarrow> string list \<Rightarrow> operand \<Rightarrow> int \<Rightarrow> parsed option" where
  "parse_send_pseudo opcode part o1 cnt =
     (if opcode \<in> {''send_wcont'', ''sendr_wcont''} \<or> opcode = ''send4_wcont'' \<and> length part = 5 \<or>
         opcode = ''sendops_wcont'' then
        Some (arg4 part (\<lambda>p1 p2 p3 p4.
          finish_parts cnt SAction
            (o1\<lparr>o_event := PStr p1, o_dst := PNone, o_cont := PStr p2, o_op1 := PStr p3,
                o_op2 := PStr p4, o_op3 := PNone, o_tmp_reg1 := PNone\<rparr>) part))
      else if opcode = ''sendr3_wcont'' \<or> opcode = ''send4_wcont'' \<and> length part = 6 then
        Some (arg5 part (\<lambda>p1 p2 p3 p4 p5.
          finish_parts cnt SAction
            (o1\<lparr>o_event := PStr p1, o_dst := PNone, o_cont := PStr p2, o_op1 := PStr p3,
                o_op2 := PStr p4, o_op3 := PStr p5, o_tmp_reg1 := PNone\<rparr>) part))
      else if opcode = ''sendr3_wret'' \<or> opcode = ''send4_wret'' \<and> length part = 7 then
        Some (arg6 part (\<lambda>p1 p2 p3 p4 p5 p6.
          finish_parts cnt SAction
            (o1\<lparr>o_event := PStr p1, o_dst := PNone, o_cont := PStr p2, o_op1 := PStr p3,
                o_op2 := PStr p4, o_op3 := PStr p5, o_tmp_reg1 := PStr p6\<rparr>) part))
      else if opcode \<in> {''send_wret'', ''sendr_wret''} \<or> opcode = ''send4_wret'' \<and> length part = 6 \<or>
         opcode = ''sendops_wret'' then
        Some (arg5 part (\<lambda>p1 p2 p3 p4 p5.
          finish_parts cnt SAction
            (o1\<lparr>o_event := PStr p1, o_dst := PNone, o_cont := PStr p2, o_op1 := PStr p3,
                o_op2 := PStr p4, o_op3 := PNone, o_tmp_reg1 := PStr p5\<rparr>) part))
      else None)"

text \<open>The message pseudo-instructions to memory\<close>

definition parse_dmlm_pseudo :: "string \<Rightarrow> string list \<Rightarrow> operand \<Rightarrow> int \<Rightarrow> parsed option" where
  "parse_dmlm_pseudo opcode part o1 cnt =
     (if opcode \<in> {''send_dmlm_ld'', ''sendr_dmlm''} \<or> opcode = ''send4_dmlm'' \<and> length part = 4 then
        Some (arg3 part (\<lambda>p1 p2 p3.
          let o2 = o1\<lparr>o_event := PNone, o_dst := PStr p1, o_cont := PStr p2, o_op1 := PStr p3\<rparr>;
              o3 = (if length part > 4 then o2\<lparr>o_op2 := PStr (part ! 4)\<rparr> else o2)
          in finish_parts cnt SAction (o3\<lparr>o_op3 := PNone, o_tmp_reg1 := PNone\<rparr>) part))
      else if opcode \<in> {''send_dmlm_ld_wret'', ''sendr_dmlm_wret''} \<or>
         opcode = ''send4_dmlm_wret'' \<and> length part = 5 then
        Some (arg4 part (\<lambda>p1 p2 p3 p4.
          finish_parts cnt SAction
            (o1\<lparr>o_event := PNone, o_dst := PStr p1, o_cont := PStr p2, o_op1 := PStr p3,
                o_op2 := PNone, o_op3 := PNone, o_tmp_reg1 := PStr p4\<rparr>) part))
      else if opcode \<in> {''send_dmlm'', ''sendr2_dmlm''} \<or> opcode = ''send4_dmlm'' \<and> length part = 5 then
        Some (arg4 part (\<lambda>p1 p2 p3 p4.
          finish_parts cnt SAction
            (o1\<lparr>o_event := PNone, o_dst := PStr p1, o_cont := PStr p2, o_op1 := PStr p3,
                o_op2 := PStr p4, o_op3 := PNone, o_tmp_reg1 := PNone\<rparr>) part))
      else if opcode \<in> {''send_dmlm_wret'', ''sendr2_dmlm_wret''} \<or>
         opcode = ''send4_dmlm_wret'' \<and> length part = 6 \<or> opcode = ''sendops_dmlm_wret'' then
        Some (arg5 part (\<lambda>p1 p2 p3 p4 p5.
          finish_parts cnt SAction
            (o1\<lparr>o_event := PNone, o_dst := PStr p1, o_cont := PStr p2, o_op1 := PStr p3,
                o_op2 := PStr p4, o_op3 := PNone, o_tmp_reg1 := PStr p5\<rparr>) part))
      else None)"

text \<open>Replies, and sends of a list of registers\<close>

definition parse_reply :: "string \<Rightarrow> string list \<Rightarrow> operand \<Rightarrow> int \<Rightarrow> parsed option" where
  "parse_reply opcode part o1 cnt =
     (if opcode \<in> {''send_reply'', ''sendr_reply''} \<or> opcode = ''send4_reply'' \<and> length part = 4 then
        Some (arg3 part (\<lambda>p1 p2 p3.
          finish_parts cnt SAction
            (o1\<lparr>o_event := PNone, o_dst := PNone, o_cont := PNone, o_op1 := PStr p1,
                o_op2 := PStr p2, o_op3 := PNone, o_tmp_reg1 := PStr p3\<rparr>) part))
      else if opcode = ''sendr3_reply'' \<or> opcode = ''send4_reply'' \<and> length part = 5 then
        Some (arg4 part (\<lambda>p1 p2 p3 p4.
          finish_parts cnt SAction
            (o1\<lparr>o_event := PNone, o_dst := PNone, o_cont := PNone, o_op1 := PStr p1,
                o_op2 := PStr p2, o_op3 := PStr p3, o_tmp_reg1 := PStr p4\<rparr>) part))
      else if opcode \<in> {''send_any_wcont'', ''send_any_wret''} then
        Some (arg4 part (\<lambda>p1 p2 p3 p4.
          finish_parts cnt SPAction
            (o1\<lparr>o_event := PStr p1, o_dst := PNone, o_cont := PStr p2, o_op1 := PStr p3,
                o_reglist := PStrs (drop 5 part), o_tmp_reg1 := PStr p4\<rparr>) part))
      else None)"

text \<open>
  The regular expressions of \<open>print\<close> and \<open>perflog\<close>.  A dot matches no newline and is greedy:
  \<open>quoted\<close> cuts a line at its last quote.
\<close>

definition quote :: char where
  "quote = CHR 0x27"

definition quoted :: "string \<Rightarrow> (string \<times> string) option" where
  "quoted s =
     (let line = takeWhile (\<lambda>c. c \<noteq> CHR 0x0A) s;
          after = takeWhile (\<lambda>c. c \<noteq> quote) (rev line)
      in if quote \<in> set line
         then Some (take (length line - length after - 1) line, rev after) else None)"

definition after_word :: "string \<Rightarrow> string \<Rightarrow> string option" where
  "after_word w s = (if starts_with w s then Some (lstrip (drop (length w) s)) else None)"

text \<open>\<open>'(.*)'(.*)\<close> at the start of a string\<close>

definition match_quoted :: "string \<Rightarrow> (string \<times> string) option" where
  "match_quoted s = (if first_is quote s then quoted (tl s) else None)"

definition is_dec :: "char \<Rightarrow> bool" where
  "is_dec c = is_digit c"

text \<open>\<open>([0-9]+)\s*'(.*)'(.*)\<close> at the start of a string\<close>

definition match_num_quoted :: "string \<Rightarrow> (string \<times> string \<times> string) option" where
  "match_num_quoted s =
     (let ds = takeWhile is_dec s
      in if ds = [] then None
         else map_option (\<lambda>(f, r). (ds, f, r)) (match_quoted (lstrip (dropWhile is_dec s))))"

fun search :: "(string \<Rightarrow> 'a option) \<Rightarrow> string \<Rightarrow> 'a option" where
  "search m [] = m []"
| "search m (c # cs) = (case m (c # cs) of Some r \<Rightarrow> Some r | None \<Rightarrow> search m cs)"

text \<open>\<open>print\s*'(.*)'(.*)\<close>\<close>

definition match_print :: "string \<Rightarrow> (string \<times> string) option" where
  "match_print s = Option.bind (after_word ''print'' s) match_quoted"

text \<open>\<open>perflog\s*1\s*([0-9]+)\s*'(.*)'(.*)\<close>\<close>

definition match_perflog1 :: "string \<Rightarrow> (string \<times> string \<times> string) option" where
  "match_perflog1 s =
     Option.bind (after_word ''perflog'' s) (\<lambda>t. Option.bind (after_word ''1'' t) match_num_quoted)"

text \<open>
  \<open>perflog\s*2\s*'(.*)'\s*([0-9]+)\s*'(.*)'(.*)\<close>: the first group ends at the last quote of its
  line behind which the rest of the pattern matches.
\<close>

fun match_upto :: "nat \<Rightarrow> string \<Rightarrow> (string \<times> string \<times> string \<times> string) option" where
  "match_upto 0 s = None"
| "match_upto (Suc n) s =
     (if n < length s \<and> s ! n = quote \<and> CHR 0x0A \<notin> set (take n s) then
        (case match_num_quoted (lstrip (drop (Suc n) s)) of
           Some (m, f, r) \<Rightarrow> Some (take n s, m, f, r)
         | None \<Rightarrow> match_upto n s)
      else match_upto n s)"

definition match_perflog2 :: "string \<Rightarrow> (string \<times> string \<times> string \<times> string) option" where
  "match_perflog2 s =
     Option.bind (after_word ''perflog'' s) (\<lambda>t. Option.bind (after_word ''2'' t) (\<lambda>u.
       if first_is quote u then match_upto (length (tl u)) (tl u) else None))"

text \<open>
  \<open>print_counter().get_counter()\<close>: a new object increments the counter of the class and keeps
  the value before.  The instructions that print take their identifier from it.
\<close>

definition parse_print :: "string \<Rightarrow> string \<Rightarrow> string list \<Rightarrow> operand \<Rightarrow> int \<Rightarrow> parsed option" where
  "parse_print asm_inst opcode part o1 cnt =
     (if opcode = ''print'' then
        Some (case search match_print asm_inst of
          None \<Rightarrow> Inl SysExit
        | Some (f, r) \<Rightarrow>
            finish0 (cnt + 1) PAction
              (o1\<lparr>o_formatstr := PStr f, o_reglist := PStrs (split_ws r), o_print_id := PInt cnt\<rparr>))
      else if opcode = ''perflog'' then
        Some (arg1 part (\<lambda>p1.
          rbind (py_int p1) (\<lambda>md.
          let o2 = o1\<lparr>o_perflog_mode := PInt md\<rparr>
          in if md = 0 then
               finish0 (cnt + 1) PerflogAction
                 (o2\<lparr>o_perflog_payload_list := PStrs (drop 2 part),
                     o_perflog_msg_id := PInt 0xFFFFFFFF, o_formatstr := PStr [],
                     o_reglist := PStrs [], o_print_id := PInt cnt\<rparr>)
             else if md = 1 then
               rbind (arg part 2) (\<lambda>_.
               case search match_perflog1 asm_inst of
                 None \<Rightarrow> Inl SysExit
               | Some (m, f, r) \<Rightarrow>
                   rbind (py_int m) (\<lambda>mid.
                   finish0 (cnt + 1) PerflogAction
                     (o2\<lparr>o_perflog_msg_id := PInt mid, o_formatstr := PStr f,
                         o_reglist := PStrs (split_ws r), o_print_id := PInt cnt\<rparr>)))
             else if md = 2 then
               rbind (arg part 2) (\<lambda>_.
               case search match_perflog2 asm_inst of
                 None \<Rightarrow> Inl SysExit
               | Some (pl, m, f, r) \<Rightarrow>
                   rbind (seq_res (map py_int (split_ws pl))) (\<lambda>ints.
                   rbind (py_int m) (\<lambda>mid.
                   finish0 (cnt + 1) PerflogAction
                     (o2\<lparr>o_perflog_payload_list := PInts ints, o_perflog_msg_id := PInt mid,
                         o_formatstr := PStr f, o_reglist := PStrs (split_ws r),
                         o_print_id := PInt cnt\<rparr>))))
             else Inl SysExit)))
      else if opcode = ''userctr'' then
        Some (arg1 part (\<lambda>p1. rbind (py_int p1) (\<lambda>m.
          rbind (arg part 2) (\<lambda>p2. rbind (py_int p2) (\<lambda>n.
          rbind (arg part 3) (\<lambda>p3. rbind (py_int p3) (\<lambda>a.
          finish0 cnt UserCounterAction
            (o1\<lparr>o_userctr_mode := PInt m, o_userctr_num := PInt n, o_userctr_arg := PInt a\<rparr>))))))))
      else if opcode = ''lmmemcheck'' then
        Some (arg3 part (\<lambda>p1 p2 p3.
          finish0 cnt LMMemcheckAction
            (o1\<lparr>o_mode := PStr p1, o_op1 := PStr p2, o_op2 := PStr p3\<rparr>)))
      else if opcode = ''instrans'' then
        Some (arg6 part (\<lambda>p1 p2 p3 p4 p5 p6.
          finish0 cnt InsTransAction
            (o1\<lparr>o_op1 := PStr p1, o_op2 := PStr p2, o_op3 := PStr p3, o_op4 := PStr p4,
                o_mode := PStr p5, o_size := PStr p6\<rparr>)))
      else None)"

text \<open>Floating-point and vector instructions, recognised by the name before the first dot\<close>

definition parse_float :: "string \<Rightarrow> pv \<Rightarrow> string list \<Rightarrow> operand \<Rightarrow> int \<Rightarrow> parsed option" where
  "parse_float opcode precision part o1 cnt =
     (let names = split_on CHR ''.'' opcode;
          base = hd names
      in if base \<in> {''fmadd'', ''fadd'', ''fsub'', ''fmul'', ''fdiv''} then
        Some (arg3 part (\<lambda>p1 p2 p3.
          finish cnt FPAction
            (o1\<lparr>o_src := PStr p1, o_rt := PStr p2, o_dst := PStr p3, o_mask := PStr UNUSED_imm\<rparr>)
            [p1, p3, p2]))
      else if base \<in> {''vmadd'', ''vadd'', ''vsub'', ''vmul'', ''vdiv''} then
        Some (arg4 part (\<lambda>p1 p2 p3 p4.
          finish cnt FPAction
            (o1\<lparr>o_src := PStr p1, o_rt := PStr p2, o_dst := PStr p3, o_mask := PStr p4\<rparr>)
            [p1, p3, p2]))
      else if base \<in> {''fsqrt'', ''fexp''} then
        Some (arg2 part (\<lambda>p1 p2.
          finish cnt FPAction
            (o1\<lparr>o_src := PStr p1, o_dst := PStr p2, o_rt := PStr UNUSED_reg\<rparr>) [p1, p2]))
      else if base \<in> {''vsqrt'', ''vexp''} then
        Some (arg3 part (\<lambda>p1 p2 p3.
          finish cnt FPAction
            (o1\<lparr>o_funct := PStr (replace_char CHR ''v'' CHR ''f'' opcode), o_src := PStr p1,
                o_dst := PStr p2, o_mask := PStr p3, o_rt := PStr UNUSED_reg\<rparr>)
            [p1, p2]))
      else if base = ''vfill'' then
        Some (arg2 part (\<lambda>p1 p2.
          finish cnt IAction (o1\<lparr>o_dst := PStr p1, o_imm := PStr p2\<rparr>) [p1]))
      else if base \<in> {''vgt'', ''vlt'', ''veq''} then
        Some (arg4 part (\<lambda>p1 p2 p3 p4.
          finish cnt VAction
            (o1\<lparr>o_src := PStr p1, o_rt := PStr p2, o_dst := PStr p3, o_mask := PStr p4\<rparr>)
            [p1, p3, p2]))
      else if base = ''fcnvt'' then
        Some (arg2 part (\<lambda>p1 p2.
          rbind (arg names 2) (\<lambda>target.
          finish cnt FPAction
            (o1\<lparr>o_src := PStr p1, o_dst := PStr p2, o_rt := PStr UNUSED_reg,
                o_funct := PStr target\<rparr>)
            [p1, p2])))
      else if opcode \<in> {''fcnvt_i2f'', ''fcnvt_f2i''} then
        Some (arg2 part (\<lambda>p1 p2.
          let o2 = o1\<lparr>o_funct := PStr opcode, o_src := PStr p1, o_dst := PStr p2\<rparr>;
              o3 = (if precision = PInt 0 then o2\<lparr>o_mask := PInt 0xF\<rparr>
                    else if precision = PInt 1 \<or> precision = PInt 3 then o2\<lparr>o_mask := PInt 0x3\<rparr>
                    else if precision = PInt 2 then o2\<lparr>o_mask := PInt 0x1\<rparr> else o2)
          in finish cnt FPAction o3 [p1, p2]))
      else None)"

definition orelse :: "'a option \<Rightarrow> 'a option \<Rightarrow> 'a option" where
  "orelse a b = (case a of Some x \<Rightarrow> Some x | None \<Rightarrow> b)"

text \<open>
  The chain of \<open>ParseAction\<close>; an opcode that no condition accepts leaves the class empty.
\<close>

definition parse_opcode ::
  "string \<Rightarrow> string \<Rightarrow> pv \<Rightarrow> string list \<Rightarrow> operand \<Rightarrow> int \<Rightarrow> parsed" where
  "parse_opcode asm_inst opcode precision part o1 cnt =
     (case orelse (parse_imm opcode part o1 cnt)
          (orelse (parse_two_imm opcode part o1 cnt)
          (orelse (parse_move opcode part o1 cnt)
          (orelse (parse_reg opcode part o1 cnt)
          (orelse (parse_branch opcode part o1 cnt)
          (orelse (parse_send opcode part o1 cnt)
          (orelse (parse_send_pseudo opcode part o1 cnt)
          (orelse (parse_dmlm_pseudo opcode part o1 cnt)
          (orelse (parse_reply opcode part o1 cnt)
          (orelse (parse_print asm_inst opcode part o1 cnt)
                  (parse_float opcode precision part o1 cnt)))))))))) of
        Some r \<Rightarrow> r
      | None \<Rightarrow> finish0 cnt NoClass o1)"

text \<open>The first word ending in a colon is a label; every other operand loses its commas.\<close>

definition map_operand :: "string \<Rightarrow> string res" where
  "map_operand p =
     (if p = [] then Inl IndexError
      else if hd p = CHR ''X'' \<and> \<not> contains_str ''('' p then register_map p 0 else Inr p)"

definition ParseAction :: "string \<Rightarrow> int \<Rightarrow> parsed" where
  "ParseAction asm_inst cnt =
     (let prepart = split_ws asm_inst
      in case prepart of
           [] \<Rightarrow> Inl IndexError
         | w # ws \<Rightarrow>
             let labelled = (last w = CHR '':'');
                 part = map (rstrip_of (\<lambda>c. c = CHR '','')) (if labelled then ws else prepart)
             in case part of
                  [] \<Rightarrow> Inl IndexError
                | opcode # ps \<Rightarrow>
                    rbind (seq_res (map map_operand ps)) (\<lambda>qs.
                    let o1 = Operand\<lparr>o_opcode := opcode, o_precision := get_precision opcode\<rparr>;
                        o2 = (if labelled then o1\<lparr>o_label := PStr (butlast w)\<rparr> else o1)
                    in parse_opcode asm_inst opcode (get_precision opcode) (opcode # qs) o2 cnt))"

section \<open>Action objects\<close>

record action =
  a_class :: aclass
  a_opcode :: string
  a_label :: pv
  a_dst :: pv
  a_src :: pv
  a_imm :: pv
  a_imm2 :: pv
  a_rt :: pv
  a_op1 :: pv
  a_op2 :: pv
  a_op3 :: pv
  a_op4 :: pv
  a_event :: pv
  a_cont :: pv
  a_addr_mode :: pv
  a_lm_mode :: pv
  a_size :: pv
  a_mode :: pv
  a_mask :: pv
  a_precision :: pv
  a_tmp_reg1 :: pv
  a_reglist :: pv
  a_funct :: pv
  a_unsigned :: pv
  a_op1_ob_or_reg :: pv
  a_op2_ob_or_reg_or_imm :: pv
  a_dst_issb :: pv
  a_last :: pv
  a_fmtstr :: pv
  a_print_id :: pv
  a_payload_list :: pv
  a_msg_id :: pv
  a_ctr_num :: pv
  a_arg :: pv
  a_start_addr :: pv

text \<open>An object of a class before its constructor sets the other attributes\<close>

definition new_action :: "aclass \<Rightarrow> string \<Rightarrow> pv \<Rightarrow> action" where
  "new_action cls opcode label = \<lparr>
     a_class = cls, a_opcode = opcode, a_label = label,
     a_dst = Absent, a_src = Absent, a_imm = Absent, a_imm2 = Absent, a_rt = Absent,
     a_op1 = Absent, a_op2 = Absent, a_op3 = Absent, a_op4 = Absent, a_event = Absent,
     a_cont = Absent, a_addr_mode = Absent, a_lm_mode = Absent, a_size = Absent,
     a_mode = Absent, a_mask = Absent, a_precision = Absent, a_tmp_reg1 = Absent,
     a_reglist = Absent, a_funct = Absent, a_unsigned = Absent, a_op1_ob_or_reg = Absent,
     a_op2_ob_or_reg_or_imm = Absent, a_dst_issb = Absent, a_last = Absent,
     a_fmtstr = Absent, a_print_id = Absent, a_payload_list = Absent, a_msg_id = Absent,
     a_ctr_num = Absent, a_arg = Absent, a_start_addr = Absent\<rparr>"

definition mk_IAction :: "string \<Rightarrow> pv \<Rightarrow> pv \<Rightarrow> pv \<Rightarrow> pv \<Rightarrow> int \<Rightarrow> action" where
  "mk_IAction opcode dst src imm label lst =
     (new_action IAction opcode label)\<lparr>a_dst := dst, a_src := src, a_imm := imm, a_last := PInt lst\<rparr>"

definition mk_I2Action :: "string \<Rightarrow> pv \<Rightarrow> pv \<Rightarrow> pv \<Rightarrow> pv \<Rightarrow> pv \<Rightarrow> int \<Rightarrow> pv \<Rightarrow> action" where
  "mk_I2Action opcode dst src imm imm2 label lst lm_mode =
     (new_action I2Action opcode label)\<lparr>a_dst := dst, a_src := src, a_imm := imm, a_imm2 := imm2,
       a_last := PInt lst, a_lm_mode := lm_mode\<rparr>"

definition mk_I3Action :: "string \<Rightarrow> pv \<Rightarrow> pv \<Rightarrow> pv \<Rightarrow> pv \<Rightarrow> pv \<Rightarrow> int \<Rightarrow> pv \<Rightarrow> action" where
  "mk_I3Action opcode dst op1 op2 op3 label lst lm_mode =
     (new_action I3Action opcode label)\<lparr>a_dst := dst, a_op1 := op1, a_op2 := op2, a_op3 := op3,
       a_last := PInt lst, a_lm_mode := lm_mode\<rparr>"

definition mk_EAction :: "string \<Rightarrow> pv \<Rightarrow> pv \<Rightarrow> pv \<Rightarrow> pv \<Rightarrow> pv \<Rightarrow> pv \<Rightarrow> action" where
  "mk_EAction opcode src dst op1 op2 imm label =
     (new_action EAction opcode label)\<lparr>a_dst := dst, a_src := src, a_imm := imm, a_op1 := op1,
       a_op2 := op2\<rparr>"

definition mk_RAction :: "string \<Rightarrow> pv \<Rightarrow> pv \<Rightarrow> pv \<Rightarrow> pv \<Rightarrow> int \<Rightarrow> pv \<Rightarrow> pv \<Rightarrow> action" where
  "mk_RAction opcode dst src rt label lst imm lm_mode =
     (new_action RAction opcode label)\<lparr>a_dst := dst, a_src := src, a_last := PInt lst, a_rt := rt,
       a_lm_mode := lm_mode, a_imm := imm\<rparr>"

text \<open>A trailing \<open>c\<close> of the old branch names becomes \<open>i\<close>.\<close>

definition mk_BAction :: "string \<Rightarrow> pv \<Rightarrow> pv \<Rightarrow> pv \<Rightarrow> pv \<Rightarrow> pv \<Rightarrow> pv \<Rightarrow> pv \<Rightarrow> pv \<Rightarrow> pv \<Rightarrow> action res" where
  "mk_BAction opcode dst op1 op2 op1_ob_or_reg op2_ob_or_reg_or_imm dst_issb funct unsigned label =
     rbind (pv_str funct) (\<lambda>f.
     if f = [] then Inl IndexError
     else Inr ((new_action BAction opcode label)\<lparr>a_dst := dst, a_dst_issb := dst_issb, a_op1 := op1,
       a_op2 := op2, a_imm := PStr ''Empty'', a_op1_ob_or_reg := op1_ob_or_reg,
       a_op2_ob_or_reg_or_imm := op2_ob_or_reg_or_imm,
       a_funct := PStr (if last f = CHR ''c'' then butlast f @ ''i'' else f),
       a_unsigned := unsigned\<rparr>))"

definition mk_SAction ::
  "string \<Rightarrow> pv \<Rightarrow> pv \<Rightarrow> pv \<Rightarrow> pv \<Rightarrow> pv \<Rightarrow> pv \<Rightarrow> pv \<Rightarrow> pv \<Rightarrow> pv \<Rightarrow> pv \<Rightarrow> action" where
  "mk_SAction opcode event dst cont op1 op2 op3 addr_mode sz label tmp_reg1 =
     (new_action SAction opcode label)\<lparr>a_event := event, a_dst := dst, a_cont := cont, a_op1 := op1,
       a_op2 := op2, a_op3 := op3, a_tmp_reg1 := tmp_reg1, a_addr_mode := addr_mode,
       a_size := sz\<rparr>"

definition mk_SPAction :: "string \<Rightarrow> pv \<Rightarrow> pv \<Rightarrow> pv \<Rightarrow> pv \<Rightarrow> pv \<Rightarrow> pv \<Rightarrow> pv \<Rightarrow> pv \<Rightarrow> action" where
  "mk_SPAction opcode event dst cont op1 reglist addr_mode label tmp_reg1 =
     (new_action SPAction opcode label)\<lparr>a_event := event, a_dst := dst, a_cont := cont,
       a_op1 := op1, a_reglist := reglist, a_addr_mode := addr_mode, a_tmp_reg1 := tmp_reg1\<rparr>"

definition mk_PAction :: "string \<Rightarrow> pv \<Rightarrow> pv \<Rightarrow> pv \<Rightarrow> pv \<Rightarrow> action" where
  "mk_PAction opcode fmtstr reglist print_id label =
     (new_action PAction opcode label)\<lparr>a_fmtstr := fmtstr, a_reglist := reglist,
       a_print_id := print_id\<rparr>"

definition mk_PerflogAction ::
  "string \<Rightarrow> pv \<Rightarrow> pv \<Rightarrow> pv \<Rightarrow> pv \<Rightarrow> pv \<Rightarrow> pv \<Rightarrow> pv \<Rightarrow> action" where
  "mk_PerflogAction opcode mode payload_list msg_id fmtstr reglist print_id label =
     (new_action PerflogAction opcode label)\<lparr>a_mode := mode, a_payload_list := payload_list,
       a_msg_id := msg_id, a_fmtstr := fmtstr, a_reglist := reglist, a_print_id := print_id\<rparr>"

definition mk_InsTransAction :: "string \<Rightarrow> pv \<Rightarrow> pv \<Rightarrow> pv \<Rightarrow> pv \<Rightarrow> pv \<Rightarrow> pv \<Rightarrow> pv \<Rightarrow> action" where
  "mk_InsTransAction opcode op1 op2 op3 sz mode op4 label =
     (new_action InsTransAction opcode label)\<lparr>a_op1 := op1, a_op2 := op2, a_op3 := op3,
       a_size := sz, a_mode := mode, a_op4 := op4\<rparr>"

definition mk_UserCounterAction :: "string \<Rightarrow> pv \<Rightarrow> pv \<Rightarrow> pv \<Rightarrow> pv \<Rightarrow> action" where
  "mk_UserCounterAction opcode userctr_mode userctr_num userctr_arg label =
     (new_action UserCounterAction opcode label)\<lparr>a_mode := userctr_mode, a_ctr_num := userctr_num,
       a_arg := userctr_arg\<rparr>"

definition mk_LMMemcheckAction :: "string \<Rightarrow> pv \<Rightarrow> pv \<Rightarrow> pv \<Rightarrow> pv \<Rightarrow> action" where
  "mk_LMMemcheckAction opcode mode op1 op2 label =
     (new_action LMMemcheckAction opcode label)\<lparr>a_mode := mode, a_start_addr := op1,
       a_size := op2\<rparr>"

definition mk_YAction :: "string \<Rightarrow> pv \<Rightarrow> action" where
  "mk_YAction opcode label =
     (new_action YAction opcode label)\<lparr>a_imm := PInt 0, a_dst := PStr ''NWID'',
       a_src := PStr ''NWID''\<rparr>"

definition mk_FPAction :: "string \<Rightarrow> pv \<Rightarrow> pv \<Rightarrow> pv \<Rightarrow> pv \<Rightarrow> pv \<Rightarrow> pv \<Rightarrow> pv \<Rightarrow> action" where
  "mk_FPAction opcode dst src rt mode msk precision label =
     (new_action FPAction opcode label)\<lparr>a_dst := dst, a_src := src, a_rt := rt, a_mode := mode,
       a_mask := msk, a_precision := precision\<rparr>"

definition mk_VAction :: "string \<Rightarrow> pv \<Rightarrow> pv \<Rightarrow> pv \<Rightarrow> pv \<Rightarrow> pv \<Rightarrow> pv \<Rightarrow> pv \<Rightarrow> action" where
  "mk_VAction opcode dst src rt mode msk precision label =
     (new_action VAction opcode label)\<lparr>a_dst := dst, a_src := src, a_rt := rt, a_mode := mode,
       a_mask := msk, a_precision := precision\<rparr>"

definition construct :: "aclass \<Rightarrow> operand \<Rightarrow> action res" where
  "construct cls o1 =
     (case cls of
        IAction \<Rightarrow> Inr (mk_IAction (o_opcode o1) (o_dst o1) (o_src o1) (o_imm o1) (o_label o1) 1)
      | I2Action \<Rightarrow> Inr (mk_I2Action (o_opcode o1) (o_dst o1) (o_src o1) (o_imm o1) (o_imm2 o1)
          (o_label o1) 1 (o_lm_mode o1))
      | I3Action \<Rightarrow> Inr (mk_I3Action (o_opcode o1) (o_dst o1) (o_op1 o1) (o_op2 o1) (o_op3 o1)
          (o_label o1) 1 (o_lm_mode o1))
      | EAction \<Rightarrow> Inr (mk_EAction (o_opcode o1) (o_src o1) (o_dst o1) (o_op1 o1) (o_op2 o1)
          (o_imm o1) (o_label o1))
      | RAction \<Rightarrow> Inr (mk_RAction (o_opcode o1) (o_dst o1) (o_src o1) (o_rt o1) (o_label o1) 1
          (o_imm o1) (o_lm_mode o1))
      | FPAction \<Rightarrow> Inr (mk_FPAction (o_opcode o1) (o_dst o1) (o_src o1) (o_rt o1) (o_mode o1)
          (o_mask o1) (o_precision o1) (o_label o1))
      | VAction \<Rightarrow> Inr (mk_VAction (o_opcode o1) (o_dst o1) (o_src o1) (o_rt o1) (o_mode o1)
          (o_mask o1) (o_precision o1) (o_label o1))
      | BAction \<Rightarrow> mk_BAction (o_opcode o1) (o_dst o1) (o_op1 o1) (o_op2 o1) (o_op1_ob_or_reg o1)
          (o_op2_ob_or_reg_or_imm o1) (o_dst_issb o1) (o_funct o1) (o_unsigned o1) (o_label o1)
      | SAction \<Rightarrow> Inr (mk_SAction (o_opcode o1) (o_event o1) (o_dst o1) (o_cont o1) (o_op1 o1)
          (o_op2 o1) (o_op3 o1) (o_addr_mode o1) (o_size o1) (o_label o1) (o_tmp_reg1 o1))
      | SPAction \<Rightarrow> Inr (mk_SPAction (o_opcode o1) (o_event o1) (o_dst o1) (o_cont o1) (o_op1 o1)
          (o_reglist o1) (o_addr_mode o1) (o_label o1) (o_tmp_reg1 o1))
      | YAction \<Rightarrow> Inr (mk_YAction (o_opcode o1) (o_label o1))
      | PAction \<Rightarrow> Inr (mk_PAction (o_opcode o1) (o_formatstr o1) (o_reglist o1) (o_print_id o1)
          (o_label o1))
      | PerflogAction \<Rightarrow> Inr (mk_PerflogAction (o_opcode o1) (o_perflog_mode o1)
          (o_perflog_payload_list o1) (o_perflog_msg_id o1) (o_formatstr o1) (o_reglist o1)
          (o_print_id o1) (o_label o1))
      | InsTransAction \<Rightarrow> Inr (mk_InsTransAction (o_opcode o1) (o_op1 o1) (o_op2 o1) (o_op3 o1)
          (o_size o1) (o_mode o1) (o_op4 o1) (o_label o1))
      | UserCounterAction \<Rightarrow> Inr (mk_UserCounterAction (o_opcode o1) (o_userctr_mode o1)
          (o_userctr_num o1) (o_userctr_arg o1) (o_label o1))
      | LMMemcheckAction \<Rightarrow> Inr (mk_LMMemcheckAction (o_opcode o1) (o_mode o1) (o_op1 o1)
          (o_op2 o1) (o_label o1))
      | NoClass \<Rightarrow> Inl SysExit)"

text \<open>\<open>GetAction(asm_inst)\<close>: the action, \<open>maxudp\<close>, \<open>maxop\<close>, and the print counter after it\<close>

definition GetAction :: "string \<Rightarrow> int \<Rightarrow> (action \<times> int \<times> int \<times> int) res" where
  "GetAction asm_inst cnt =
     rbind (ParseAction asm_inst cnt) (\<lambda>(cls, o1, cnt').
     rbind (construct cls o1) (\<lambda>a. Inr (a, o_maxudp o1, o_maxop o1, cnt')))"

end
