(* ===== verification/Py_Float.thy ===== *)
theory Py_Float imports Py_Str begin

text \<open>
  What the assembler uses of Python's floating-point numbers: \<open>float(s)\<close> for a decimal spelling
  and \<open>struct.pack('<f', x)\<close>.  A finite decimal is a fraction of naturals; both conversions
  round to the nearest binary value, ties to even, first at 53 bits and then at 24.
\<close>

section \<open>Rounding a fraction\<close>

definition round_half_even :: "nat \<Rightarrow> nat \<Rightarrow> nat" where
  "round_half_even a b =
     (let q = a div b; r = a mod b
      in if 2 * r < b then q else if b < 2 * r then q + 1 else if even q then q else q + 1)"

definition bit_len :: "nat \<Rightarrow> int" where
  "bit_len n = (if n = 0 then 0 else int (length (bin_str n)))"

text \<open>\<open>n / d \<le> m\<close> against a power of two whose exponent may be negative\<close>

definition scaled :: "nat \<Rightarrow> nat \<Rightarrow> int \<Rightarrow> nat \<times> nat" where
  "scaled n d e = (if 0 \<le> e then (n, d * 2 ^ nat e) else (n * 2 ^ nat (- e), d))"

text \<open>The exponent of the leading bit of \<open>n / d\<close>\<close>

definition lead_exp :: "nat \<Rightarrow> nat \<Rightarrow> int" where
  "lead_exp n d =
     (let e = bit_len n - bit_len d; (a, b) = scaled n d e in if b \<le> a then e else e - 1)"

text \<open>
  Precision \<open>p\<close>, least exponent \<open>emin\<close>: the exponent \<open>e\<close> and the significand \<open>q\<close> of the value
  \<open>q * 2 ^ (e - (p - 1))\<close>.
\<close>

definition round_float :: "nat \<Rightarrow> int \<Rightarrow> nat \<Rightarrow> nat \<Rightarrow> int \<times> nat" where
  "round_float p emin n d =
     (let e = max emin (lead_exp n d); (a, b) = scaled n d (e - int (p - 1))
      in (e, round_half_even a b))"

section \<open>Floats\<close>

text \<open>A finite value is its sign and a fraction.\<close>

datatype py_float = Fin bool nat nat | Inf bool | NaN

definition to_double :: "bool \<Rightarrow> nat \<Rightarrow> nat \<Rightarrow> py_float" where
  "to_double neg n d =
     (if n = 0 then Fin neg 0 1
      else let (e, q) = round_float 53 (-1022) n d; (a, b) = scaled q 1 (- (e - 52))
           in if 2 ^ 1024 * b \<le> a then Inf neg else Fin neg a b)"

definition lower :: "string \<Rightarrow> string" where
  "lower s = map (\<lambda>c. if 65 \<le> (of_char c :: nat) \<and> (of_char c :: nat) \<le> 90
                      then char_of ((of_char c :: nat) + 32) else c) s"

definition is_e :: "char \<Rightarrow> bool" where
  "is_e c = (c = CHR ''e'' \<or> c = CHR ''E'')"

definition digit_count :: "string \<Rightarrow> nat" where
  "digit_count s = length (filter is_digit s)"

text \<open>\<open>digits[.digits]\<close> or \<open>.digits\<close>: the digits as one natural and the number of places\<close>

definition parse_mantissa :: "string \<Rightarrow> (nat \<times> nat) option" where
  "parse_mantissa s =
     (let a = takeWhile (\<lambda>c. c \<noteq> CHR ''.'') s; rest = dropWhile (\<lambda>c. c \<noteq> CHR ''.'') s; f = tl rest
      in if rest = [] then map_option (\<lambda>n. (n, 0)) (parse_nat a)
         else if a = [] \<and> f = [] then None
         else Option.bind (if a = [] then Some 0 else parse_nat a) (\<lambda>n.
              Option.bind (if f = [] then Some 0 else parse_nat f) (\<lambda>m.
              Some (n * 10 ^ digit_count f + m, digit_count f))))"

definition parse_exp :: "string \<Rightarrow> int option" where
  "parse_exp s =
     (case s of [] \<Rightarrow> None
      | c # cs \<Rightarrow> if c = CHR ''-'' then map_option (\<lambda>n. - int n) (parse_nat cs)
                  else if c = CHR ''+'' then map_option int (parse_nat cs)
                  else map_option int (parse_nat s))"

definition parse_unsigned :: "bool \<Rightarrow> string \<Rightarrow> py_float option" where
  "parse_unsigned neg s =
     (if lower s \<in> {''inf'', ''infinity''} then Some (Inf neg)
      else if lower s = ''nan'' then Some NaN
      else let ms = takeWhile (\<lambda>c. \<not> is_e c) s; es = dropWhile (\<lambda>c. \<not> is_e c) s
           in Option.bind (parse_mantissa ms) (\<lambda>(n, places).
              Option.bind (if es = [] then Some 0 else parse_exp (tl es)) (\<lambda>e.
              let k = e - int places
              in Some (if 0 \<le> k then to_double neg (n * 10 ^ nat k) 1
                       else to_double neg n (10 ^ nat (- k))))))"

text \<open>\<open>float(s)\<close>\<close>

definition py_float :: "string \<Rightarrow> py_float res" where
  "py_float s =
     (let t = strip s;
          r = (case t of [] \<Rightarrow> None
               | c # cs \<Rightarrow> if c = CHR ''-'' then parse_unsigned True cs
                           else if c = CHR ''+'' then parse_unsigned False cs
                           else parse_unsigned False t)
      in case r of None \<Rightarrow> Inl ValueError | Some x \<Rightarrow> Inr x)"

text \<open>
  \<open>struct.unpack('<l', struct.pack('<f', x))[0]\<close>: the four bytes of the single-precision value
  read as a signed integer.  A finite value out of range raises \<open>OverflowError\<close>.
\<close>

definition as_signed32 :: "nat \<Rightarrow> int" where
  "as_signed32 n = (if n < 2 ^ 31 then int n else int n - 2 ^ 32)"

definition sign_bit :: "bool \<Rightarrow> nat" where
  "sign_bit neg = (if neg then 2 ^ 31 else 0)"

definition pack_single :: "py_float \<Rightarrow> int res" where
  "pack_single x =
     (case x of
        NaN \<Rightarrow> Inr (as_signed32 0x7FC00000)
      | Inf neg \<Rightarrow> Inr (as_signed32 (sign_bit neg + 0x7F800000))
      | Fin neg n d \<Rightarrow>
          if n = 0 then Inr (as_signed32 (sign_bit neg))
          else let (e, q) = round_float 24 (-126) n d;
                   bits = nat (e + 126) * 2 ^ 23 + q
               in if 0x7F800000 \<le> bits then Inl OverflowError
                  else Inr (as_signed32 (sign_bit neg + bits)))"

lemma as_signed32_mod: "n < 2 ^ 32 \<Longrightarrow> as_signed32 n mod 2 ^ 32 = int n"
proof -
  assume n: "n < 2 ^ 32"
  then have "int n mod 2 ^ 32 = int n" by simp
  moreover have "(int n - 2 ^ 32) mod 2 ^ 32 = int n mod 2 ^ 32" by (rule minus_mod_self2)
  ultimately show ?thesis by (simp add: as_signed32_def)
qed

end
