(* ===== verification/Asm_Encode.thy ===== *)
theory Asm_Encode imports Asm_Bits Asm_Action Py_Float begin

text \<open>
  Encoding of one action: the instruction formats, \<open>encode_action\<close> with the translation of the
  old instruction names, \<open>pack\<close> and \<open>encode_action_block\<close>
  (\<open>src/updown/udbasim/assembler/UpDown_Assembler.py\<close>, \<open>UpDown_Assembler_helper.py\<close>).  A field list
  is the list of strings the Python function returns, most significant field first.  An
  encoder that writes to the action it encodes returns the updated action.
\<close>

section \<open>Tables of old names\<close>

definition I_old_opcode_enc :: "(string, string) dict" where
  "I_old_opcode_enc = [
    (''comp_lt'', ''0000011''), (''comp_gt'', ''0000100''), (''comp_eq'', ''0000101''),
    (''put_2byte_imm'', ''0001110''), (''put_1byte_imm'', ''0001111''),
    (''yield_terminate'', ''0000010''), (''lshift'', ''1010000''), (''rshift'', ''1010001''),
    (''lshift_or'', ''1010010''), (''rshift_or'', ''1010011''), (''lshift_and'', ''1010100''),
    (''rshift_and'', ''1010101''), (''arithrshift'', ''1010110''), (''hash_sb32'', ''1010111''),
    (''hash_sb64'', ''1011000''), (''hash_lm64'', ''1011001''), (''hash_lm'', ''1011011''),
    (''copy_imm'', ''1011100''), (''mov_sb2reg'', ''1011101''), (''mov_uip2reg'', ''1011110''),
    (''mov_lm2sb'', ''1011111''), (''set_issue_width'', ''1111001''),
    (''set_state_property'', ''1111000'')]"

definition S_old_opcode_enc :: "(string, string) dict" where
  "S_old_opcode_enc = [
    (''lshift_add_imm'', ''0100010''), (''lshift_sub_imm'', ''0100011''),
    (''rshift_add_imm'', ''0101000''), (''rshift_sub_imm'', ''0101111''),
    (''lshift_or_imm'', ''0100101''), (''rshift_or_imm'', ''0100110''),
    (''lshift_and_imm'', ''0100111''), (''rshift_and_imm'', ''0101001''),
    (''put_bits'', ''0101010''), (''get_bits'', ''0101011''), (''cmpswp_i'', ''0101101''),
    (''move'', ''0100000''), (''swizzle'', ''0101110''), (''bcopy_opsi'', ''0100100''),
    (''mov_lm2reg'', ''0100000''), (''mov_reg2lm'', ''0100001'')]"

definition R_old_opcode_enc :: "(string, string) dict" where
  "R_old_opcode_enc = [
    (''andr'', ''0110100''), (''orr'', ''0110100''), (''compreg_lt'', ''0110101''),
    (''compreg_gt'', ''0110101''), (''compreg_eq'', ''0110101''), (''compare_string'', ''0110101''),
    (''rshift_t'', ''0110110''), (''lshift_t'', ''0110110''), (''arithrshift_t'', ''0110110''),
    (''copy'', ''0110111''), (''move_word'', ''0110001''), (''bcopy_ops'', ''0110000'')]"

definition R_old_func_mapping :: "(string, string) dict" where
  "R_old_func_mapping = [
    (''andr'', ''0''), (''orr'', ''1''), (''xorr'', ''2''), (''compreg_lt'', ''0''),
    (''compreg_gt'', ''1''), (''compreg_eq'', ''2''), (''compare_string'', ''3''),
    (''rshift_t'', ''0''), (''lshift_t'', ''1''), (''arithrshift_t'', ''2''), (''copy'', ''0''),
    (''move_word'', ''0''), (''bcopy_ops'', ''0'')]"

definition E_old_opcode_enc :: "(string, string) dict" where
  "E_old_opcode_enc = [(''ev_update_1'', ''1000000''), (''ev_update_2'', ''1000001'')]"

definition R4_old_opcode_enc :: "(string, string) dict" where
  "R4_old_opcode_enc = [(''ev_update_reg_2'', ''1110000''), (''cmpswp'', ''1110001'')]"

definition LI_old_opcode_enc :: "(string, string) dict" where
  "LI_old_opcode_enc = [(''mov_imm2reg'', ''0001000'')]"

definition B_old_opcode_enc :: "(string, string) dict" where
  "B_old_opcode_enc = [
    (''bnec'', ''1000011''), (''beqc'', ''1000011''), (''bgtc'', ''1000011''),
    (''blec'', ''1000011''), (''bltc'', ''1000011''), (''bgec'', ''1000011'')]"

definition B_old_func_mapping :: "(string, string) dict" where
  "B_old_func_mapping = [
    (''bnec'', ''0''), (''beqc'', ''1''), (''bgtc'', ''2''), (''blec'', ''3''), (''bltc'', ''4''),
    (''bgec'', ''5'')]"

definition general_purpose_register_enc :: "(string, string) dict" where
  "general_purpose_register_enc = [
    (''X16'', ''10000''), (''X17'', ''10001''), (''X18'', ''10010''), (''X19'', ''10011''),
    (''X20'', ''10100''), (''X21'', ''10101''), (''X22'', ''10110''), (''X23'', ''10111''),
    (''X24'', ''11000''), (''X25'', ''11001''), (''X26'', ''11010''), (''X27'', ''11011''),
    (''X28'', ''11100''), (''X29'', ''11101''), (''X30'', ''11110''), (''X31'', ''11111''),
    (''UDPR_0'', ''10000''), (''UDPR_1'', ''10001''), (''UDPR_2'', ''10010''),
    (''UDPR_3'', ''10011''), (''UDPR_4'', ''10100''), (''UDPR_5'', ''10101''),
    (''UDPR_6'', ''10110''), (''UDPR_7'', ''10111''), (''UDPR_8'', ''11000''),
    (''UDPR_9'', ''11001''), (''UDPR_10'', ''11010''), (''UDPR_11'', ''11011''),
    (''UDPR_12'', ''11100''), (''UDPR_13'', ''11101''), (''UDPR_14'', ''11110''),
    (''UDPR_15'', ''11111'')]"

section \<open>Words\<close>

type_synonym fields = "string list"

text \<open>\<open>pack\<close> prints an error and returns the empty string unless the fields fill 32 bits.\<close>

definition pack :: "fields \<Rightarrow> string" where
  "pack fs = (let w = concat fs in if length w = 32 then w else [])"

definition pack_print :: "fields \<Rightarrow> string" where
  "pack_print fs = (let w = concat fs in if length w mod 32 = 0 then w else [])"

text \<open>\<open>encode_register(r)[1:]\<close>\<close>

definition encode_reg4 :: "pv \<Rightarrow> string res" where
  "encode_reg4 r = rmap tl (encode_register r)"

definition encode_func_of :: "string \<Rightarrow> string res" where
  "encode_func_of name = rbind (dict_get name_func_mapping name (KeyError name)) encode_func"

definition int_field :: "(int \<Rightarrow> string res) \<Rightarrow> pv \<Rightarrow> string res" where
  "int_field enc v = rbind (pv_int v) enc"

text \<open>\<open>if r not in general_purpose_register_enc: sys.exit(...)\<close>\<close>

definition need_gpr :: "pv \<Rightarrow> unit res" where
  "need_gpr r = rbind (pv_in r general_purpose_register_enc) (\<lambda>b. guard b SysExit)"

section \<open>The instruction formats\<close>

text \<open>The immediate of \<open>ssprop\<close> is built from the property name and, for some, an offset.\<close>

definition ssprop_carries :: "string \<Rightarrow> bool" where
  "ssprop_carries t = (t \<in> {''default'', ''majority'', ''flag_default'', ''flag_majority''})"

definition ssprop_name :: "pv \<Rightarrow> string option" where
  "ssprop_name t =
     (if t = PStr ''basic'' then Some ''BASIC'' else if t = PStr ''common'' then Some ''COMMON''
      else if t = PStr ''epsilon'' then Some ''EPSILON''
      else if t = PStr ''default'' then Some ''DEFAULT''
      else if t = PStr ''majority'' then Some ''MAJORITY''
      else if t = PStr ''flag_default'' then Some ''FLAG_DEFAULT''
      else if t = PStr ''flag_majority'' then Some ''FLAG_MAJORITY''
      else if t = PStr ''flag'' then Some ''FLAG'' else None)"

definition prepare_ssprop :: "action \<Rightarrow> action res" where
  "prepare_ssprop a =
     (if a_opcode a = ''set_state_property'' \<or> a_opcode a = ''ssprop'' then
        rbind (attr (a_imm a)) (\<lambda>t.
        case ssprop_name t of
          None \<Rightarrow> Inl SysExit
        | Some type_name \<Rightarrow>
            rbind (if (case t of PStr s \<Rightarrow> ssprop_carries s | _ \<Rightarrow> False)
                   then rbind (pv_int (a_dst a)) (\<lambda>v. Inr (v, a\<lparr>a_dst := PStr ''X16''\<rparr>))
                   else Inr (0, a)) (\<lambda>(value, a1).
            rbind (dict_get state_property_enc type_name (KeyError type_name)) (\<lambda>prop.
            Inr (a1\<lparr>a_imm := PStr (py_str
              (push_bit 4 (value AND 0b111111111111) OR (prop AND 0b1111)))\<rparr>))))
      else Inr a)"

definition encode_I_format :: "action \<Rightarrow> (action \<times> fields) res" where
  "encode_I_format a0 =
     rbind (prepare_ssprop a0) (\<lambda>a.
     rbind (pv_in (a_dst a) general_purpose_register_enc) (\<lambda>gpr.
     if \<not> gpr \<and> a_dst a \<noteq> PStr UNUSED_reg \<and> a_dst a \<noteq> PStr ''NWID'' then Inl SysExit
     else if a_opcode a = ''move_lm2sb'' \<or> a_opcode a = ''movlsb'' then
       rmap (Pair a) (seq_res [
         Inr ''0000000000000000'', Inr ''0000'', encode_register (a_src a),
         encode_I_opcode (a_opcode a)])
     else
       rmap (Pair a) (seq_res [
         int_field encode_immediate16 (a_imm a), encode_reg4 (a_dst a),
         encode_register (a_src a), encode_I_opcode (a_opcode a)])))"

definition encode_LI_format :: "action \<Rightarrow> fields res" where
  "encode_LI_format a = seq_res [
     int_field encode_immediate_LI (a_imm a), encode_reg4 (a_dst a),
     encode_LI_opcode (a_opcode a)]"

text \<open>The immediate of \<open>vfill\<close>: the high half of a single-precision value, or an integer\<close>

fun pv_float :: "pv \<Rightarrow> py_float res" where
  "pv_float Absent = Inl AttributeError"
| "pv_float (PStr s) = py_float s"
| "pv_float (PInt i) = Inr (to_double (i < 0) (nat \<bar>i\<bar>) 1)"
| "pv_float _ = Inl TypeError"

definition vfill_imm :: "string \<Rightarrow> pv \<Rightarrow> int res" where
  "vfill_imm precision imm =
     (if precision = ''32'' \<or> precision = ''b16'' then
        rbind (pv_float imm) (\<lambda>x. rbind (pack_single x) (\<lambda>i.
        Inr (drop_bit 16 i AND 0x000000000000FFFF)))
      else if precision = ''i32'' then pv_int imm
      else Inl SysExit)"

definition encode_VF_format :: "action \<Rightarrow> fields res" where
  "encode_VF_format a =
     rbind (arg (split_on CHR ''.'' (a_opcode a)) 1) (\<lambda>precision.
     rbind (vfill_imm precision (a_imm a)) (\<lambda>imm.
     rbind (need_gpr (a_dst a)) (\<lambda>_.
     seq_res [
       encode_precision (PStr precision),
       rmap (take 12) (encode_immediate16 imm),
       Inr ''0'',
       encode_reg4 (a_dst a),
       Inr ''0'',
       rmap (\<lambda>s. drop (length s - 4) s) (encode_immediate16 imm),
       encode_VF_opcode (a_opcode a)])))"

text \<open>A word move in neither mode leaves the function without a value.\<close>

definition encode_R_word :: "string \<Rightarrow> action \<Rightarrow> fields res" where
  "encode_R_word inc_bit a = seq_res [
     Inr ''000'', encode_func_of (a_opcode a), Inr inc_bit, int_field inbinary3 (a_imm a),
     encode_register (a_rt a), encode_register (a_dst a), encode_register (a_src a),
     encode_R_opcode (a_opcode a)]"

definition encode_R_format :: "action \<Rightarrow> fields option res" where
  "encode_R_format a =
     (if 1 < length (split_on CHR ''.'' (a_opcode a)) then
        rmap Some (seq_res [
          encode_precision (a_precision a), encode_func_of (a_opcode a),
          int_field encode_immediate4 (a_mask a), encode_register (a_rt a),
          encode_register (a_dst a), encode_register (a_src a), encode_R_opcode (a_opcode a)])
      else if a_opcode a \<in> {''move_word'', ''movwlr'', ''movwrl''} then
        rbind (attr (a_lm_mode a)) (\<lambda>md.
        if md = PStr ''ld'' \<or> md = PStr ''st'' then rmap Some (encode_R_word ''0'' a)
        else if md = PStr ''ld_inc'' \<or> md = PStr ''st_inc'' then rmap Some (encode_R_word ''1'' a)
        else Inr None)
      else
        rmap Some (seq_res [
          Inr ''000'', encode_func_of (a_opcode a), Inr ''0000'', encode_register (a_rt a),
          encode_register (a_dst a), encode_register (a_src a), encode_R_opcode (a_opcode a)]))"

definition pv_len :: "pv \<Rightarrow> nat res" where
  "pv_len v = (case v of Absent \<Rightarrow> Inl AttributeError | PStr s \<Rightarrow> Inr (length s)
     | PStrs ss \<Rightarrow> Inr (length ss) | PInts xs \<Rightarrow> Inr (length xs) | _ \<Rightarrow> Inl TypeError)"

definition encode_S_format :: "action \<Rightarrow> fields res" where
  "encode_S_format a =
     rbind (need_gpr (a_dst a)) (\<lambda>_.
     if a_opcode a \<in> {''move'', ''movlr'', ''movrl''} then
       rbind (pv_len (a_lm_mode a)) (\<lambda>n.
       seq_res [
         int_field encode_immediate12 (a_imm2 a), Inr (if n > 2 then ''1'' else ''0''),
         rbind (pv_int (a_imm a)) (\<lambda>i. inbinary3 (i - 1)), encode_reg4 (a_dst a),
         encode_register (a_src a), encode_S_opcode (a_opcode a)])
     else if a_opcode a \<in> {''cmpswp_i'', ''cswpi''} then
       seq_res [
         Inr ''00000000'', int_field encode_immediate4 (a_imm2 a),
         int_field encode_immediate4 (a_imm a), encode_reg4 (a_dst a),
         encode_register (a_src a), encode_S_opcode (a_opcode a)]
     else
       seq_res [
         int_field encode_immediate12 (a_imm2 a), int_field encode_immediate4 (a_imm a),
         encode_reg4 (a_dst a), encode_register (a_src a), encode_S_opcode (a_opcode a)])"

text \<open>
  Branch targets are labels of the block; the offset is in bytes from the branch itself.  The
  twelve bits of the offset are split: the three high ones, then the function, then nine.
\<close>

type_synonym targets = "(string, int) dict"

definition reg_branches :: "string set" where
  "reg_branches = {''bne'', ''beq'', ''bgt'', ''ble'', ''bneu'', ''bequ'', ''bgtu'', ''bleu''}"

definition encode_B_format :: "action \<Rightarrow> targets \<Rightarrow> int \<Rightarrow> fields res" where
  "encode_B_format a target_symbols seqnum =
     rbind (pv_in (a_dst a) target_symbols) (\<lambda>known.
     rbind (guard known SysExit) (\<lambda>_.
     rbind (pv_get target_symbols (a_dst a)) (\<lambda>t.
     rbind (encode_immediate12 (push_bit 2 (t - seqnum))) (\<lambda>target.
     rbind (pv_str (a_funct a)) (\<lambda>main_opcode.
     if main_opcode \<in> reg_branches then
       seq_res [
         Inr (take 3 target), encode_func_of main_opcode, Inr (take 9 (drop 3 target)),
         encode_register (a_op2 a), encode_register (a_op1 a), encode_B_opcode main_opcode]
     else
       seq_res [
         Inr (take 3 target), encode_func_of main_opcode, Inr (take 9 (drop 3 target)),
         int_field encode_immediate5 (a_op2 a), encode_register (a_op1 a),
         encode_B_opcode main_opcode])))))"

definition encode_J_format :: "action \<Rightarrow> targets \<Rightarrow> int \<Rightarrow> fields res" where
  "encode_J_format a target_symbols seqnum =
     rbind (pv_in (a_dst a) target_symbols) (\<lambda>known.
     rbind (guard known SysExit) (\<lambda>_.
     rbind (pv_get target_symbols (a_dst a)) (\<lambda>t.
     rbind (encode_immediate_jump (push_bit 2 (t - seqnum))) (\<lambda>target.
     seq_res [Inr target, encode_J_opcode (a_opcode a)]))))"

definition mode_bit :: "pv \<Rightarrow> string res" where
  "mode_bit m = rbind (attr m) (\<lambda>m.
     if m = PStr ''1'' then Inr ''1'' else if m = PStr ''0'' then Inr ''0'' else Inl SysExit)"

definition encode_M1_format :: "action \<Rightarrow> fields res" where
  "encode_M1_format a =
     rbind (mode_bit (a_addr_mode a)) (\<lambda>md.
     seq_res [
       Inr ''00000'', Inr md, Inr ''0'', encode_send_len (a_op2 a), encode_register (a_op1 a),
       encode_register (a_cont a), encode_register (a_event a), encode_M1_opcode (a_opcode a)])"

definition encode_M2_format :: "action \<Rightarrow> fields res" where
  "encode_M2_format a =
     (if a_opcode a = ''instrans'' then
        seq_res [
          encode_register (a_op4 a), encode_message_mode (a_mode a), encode_perm (a_size a),
          encode_register (a_op3 a), encode_register (a_op2 a), encode_register (a_op1 a),
          encode_M2_opcode (a_opcode a)]
      else
        seq_res [
          encode_register (a_dst a), encode_message_mode (a_addr_mode a), encode_len (a_op2 a),
          encode_register (a_op1 a), encode_register (a_cont a), Inr ''00000'',
          encode_M2_opcode (a_opcode a)])"

definition encode_M3_format :: "action \<Rightarrow> fields res" where
  "encode_M3_format a =
     (if a_opcode a = ''sendr'' then
        seq_res [
          Inr ''00000'', encode_register (a_op2 a), encode_register (a_op1 a),
          encode_register (a_cont a), encode_register (a_event a), encode_M3_opcode (a_opcode a)]
      else if a_opcode a = ''sendr3'' then
        seq_res [
          encode_register (a_op3 a), encode_register (a_op2 a), encode_register (a_op1 a),
          encode_register (a_cont a), encode_register (a_event a), encode_M3_opcode (a_opcode a)]
      else if a_opcode a = ''sendmr'' then
        seq_res [
          encode_register (a_dst a), Inr ''00000'', encode_register (a_op1 a),
          encode_register (a_cont a), Inr ''00000'', encode_M3_opcode (a_opcode a)]
      else if a_opcode a = ''sendmr2'' then
        seq_res [
          encode_register (a_dst a), encode_register (a_op2 a), encode_register (a_op1 a),
          encode_register (a_cont a), Inr ''00000'', encode_M3_opcode (a_opcode a)]
      else Inl SysExit)"

text \<open>\<open>sendmops\<close> copies its mode text into the word unchecked.\<close>

definition encode_M4_format :: "action \<Rightarrow> fields res" where
  "encode_M4_format a =
     (if a_opcode a = ''sendops'' then
        rbind (mode_bit (a_addr_mode a)) (\<lambda>md.
        seq_res [
          Inr ''00000'', Inr md, Inr ''0'', encode_send_len (a_op2 a), encode_register (a_op1 a),
          encode_register (a_cont a), encode_register (a_event a), encode_M4_opcode (a_opcode a)])
      else if a_opcode a = ''sendmops'' then
        seq_res [
          encode_register (a_dst a), pv_str (a_addr_mode a), Inr ''0'', encode_len (a_op2 a),
          encode_register (a_op1 a), encode_register (a_cont a), Inr ''00000'',
          encode_M4_opcode (a_opcode a)]
      else Inl SysExit)"

text \<open>Only \<open>evi\<close> has an encoding in the E format; \<open>evii\<close> is expanded before.\<close>

definition encode_E_format :: "action \<Rightarrow> fields option res" where
  "encode_E_format a =
     rbind (need_gpr (a_dst a)) (\<lambda>_.
     if a_opcode a = ''evi'' then
       rmap Some (seq_res [
         int_field encode_immediate12 (a_imm a), encode_mask (a_imm2 a), encode_reg4 (a_dst a),
         encode_register (a_src a), encode_E_opcode (a_opcode a)])
     else Inr None)"

definition encode_R4_format :: "action \<Rightarrow> fields res" where
  "encode_R4_format a =
     rbind (need_gpr (a_dst a)) (\<lambda>_.
     if a_opcode a \<in> {''cmpswp'', ''cswp''} then
       seq_res [
         Inr ''00'', encode_register (a_op2 a), encode_register (a_op1 a), Inr ''0000'',
         encode_reg4 (a_dst a), encode_register (a_src a), encode_R4_opcode (a_opcode a)]
     else if a_opcode a \<in> {''ev'', ''ev_update_reg_2''} then
       seq_res [
         Inr ''00'', encode_register (a_op2 a), encode_register (a_op1 a), encode_mask (a_imm a),
         encode_reg4 (a_dst a), encode_register (a_src a), encode_R4_opcode (a_opcode a)]
     else Inl SysExit)"

definition encode_P_format :: "action \<Rightarrow> fields res" where
  "encode_P_format a = seq_res [
     Inr ''000'', encode_func_of (a_opcode a), encode_P_offset (a_print_id a),
     encode_P_opcode (a_opcode a)]"

section \<open>Printed text\<close>

text \<open>\<open>bin(int(hexlify(s), 16))[2:]\<close>: the bytes of the text as one big-endian number\<close>

definition text_val :: "string \<Rightarrow> nat" where
  "text_val s = foldl (\<lambda>n c. 256 * n + of_char c) 0 s"

definition string_to_bin :: "string \<Rightarrow> string res" where
  "string_to_bin s =
     (if s = [] then Inl ValueError
      else Inr (pad_left (32 * ((2 * length s + 7) div 8)) CHR ''0'' (bin_str (text_val s))))"

definition bin32 :: "nat \<Rightarrow> string" where
  "bin32 n = pad_left 32 CHR ''0'' (bin_str n)"

text \<open>
  The payload of \<open>perflog\<close> is appended name by name; appending an integer to a string raises
  \<open>TypeError\<close>.
\<close>

definition payload_text :: "pv \<Rightarrow> string res" where
  "payload_text pl =
     (case pl of
        PStrs ss \<Rightarrow> Inr (join '','' ss)
      | PInts xs \<Rightarrow> if xs = [] then Inr [] else Inl TypeError
      | PStr s \<Rightarrow> Inr (join '','' (map (\<lambda>c. [c]) s))
      | Absent \<Rightarrow> Inl AttributeError
      | _ \<Rightarrow> Inl TypeError)"

definition opt_bin :: "string \<Rightarrow> string res" where
  "opt_bin s = (if s = [] then Inr [] else string_to_bin s)"

definition encode_P_content :: "action \<Rightarrow> fields res" where
  "encode_P_content a =
     rbind (pv_str (a_fmtstr a)) (\<lambda>fmtstr.
     rbind (opt_bin fmtstr) (\<lambda>bin_fmtstr.
     rbind (if a_opcode a = ''perflog'' then
              rbind (pv_text (a_mode a)) (\<lambda>md.
              rbind (pv_text (a_msg_id a)) (\<lambda>msg.
              let head = md @ '';'' @ msg @ '';''
              in if a_mode a = PInt 0 \<or> a_mode a = PInt 2
                 then rbind (payload_text (a_payload_list a)) (\<lambda>pl. Inr (head @ pl @ '';''))
                 else Inr head))
            else Inr []) (\<lambda>head.
     rbind (case a_reglist a of PStrs rs \<Rightarrow> Inr rs | Absent \<Rightarrow> Inl AttributeError | _ \<Rightarrow> Inl TypeError)
       (\<lambda>regs.
     rbind (opt_bin (head @ join '','' regs)) (\<lambda>bin_reglist.
     Inr [bin_reglist, bin_fmtstr, bin32 (length bin_reglist div 8),
          bin32 (length bin_fmtstr div 8)])))))"

section \<open>Old names\<close>

text \<open>
  The new opcode is the last one of the table with the code of the old name; \<open>move\<close> is a load or
  a store by its mode.
\<close>

definition last_match :: "((string \<times> string) \<Rightarrow> bool) \<Rightarrow> (string, string) dict \<Rightarrow> string option" where
  "last_match p d = (case filter p d of [] \<Rightarrow> None | es \<Rightarrow> Some (fst (last es)))"

definition move_opcode :: "action \<Rightarrow> string option \<Rightarrow> string res" where
  "move_opcode a new_opcode =
     (let fallback = (case new_opcode of None \<Rightarrow> Inl UnboundLocalError | Some i \<Rightarrow> Inr i)
      in if a_opcode a = ''move'' then
           rbind (pv_str (a_lm_mode a)) (\<lambda>md.
             if take 2 md = ''st'' then Inr ''movrl''
             else if take 2 md = ''ld'' then Inr ''movlr'' else fallback)
         else fallback)"

definition change2newISA ::
  "action \<Rightarrow> (string, string) dict \<Rightarrow> (string, string) dict \<Rightarrow> action res" where
  "change2newISA a opcode_enc old_opcode_enc =
     rbind (dict_get old_opcode_enc (a_opcode a) (KeyError (a_opcode a))) (\<lambda>assigned_label.
     rbind (move_opcode a (last_match (\<lambda>(i, ob). ob = assigned_label) opcode_enc)) (\<lambda>new_opcode.
     Inr (a\<lparr>a_opcode := new_opcode\<rparr>)))"

text \<open>
  \<open>func\<close> is stored in an attribute nothing reads.  Every opcode of the two tables this is called
  with has an entry in \<open>name_func_mapping\<close>, so its lookup does not fail.
\<close>

definition change2newISA_withfunc ::
  "action \<Rightarrow> (string, string) dict \<Rightarrow> (string, string) dict \<Rightarrow> (string, string) dict \<Rightarrow> action res"
where
  "change2newISA_withfunc a opcode_enc old_opcode_enc old_func_mapping =
     rbind (dict_get old_opcode_enc (a_opcode a) (KeyError (a_opcode a))) (\<lambda>assigned_label.
     rbind (dict_get old_func_mapping (a_opcode a) (KeyError (a_opcode a))) (\<lambda>func_label.
     rbind (move_opcode a (last_match (\<lambda>(i, ob). ob = assigned_label \<and>
              map_of name_func_mapping i = Some func_label) opcode_enc)) (\<lambda>new_opcode.
     Inr (a\<lparr>a_opcode := new_opcode\<rparr>))))"

definition rename_old :: "action \<Rightarrow> action res" where
  "rename_old a =
     (let i = a_opcode a
      in if in_dict i I_old_opcode_enc then change2newISA a I_opcode_enc I_old_opcode_enc
         else if in_dict i S_old_opcode_enc then change2newISA a S_opcode_enc S_old_opcode_enc
         else if in_dict i R_old_opcode_enc then
           change2newISA_withfunc a R_opcode_enc R_old_opcode_enc R_old_func_mapping
         else if in_dict i R4_old_opcode_enc then change2newISA a R4_opcode_enc R4_old_opcode_enc
         else if in_dict i E_old_opcode_enc then change2newISA a E_opcode_enc E_old_opcode_enc
         else if in_dict i LI_old_opcode_enc then change2newISA a LI_opcode_enc LI_old_opcode_enc
         else if in_dict i B_old_opcode_enc then
           change2newISA_withfunc a B_opcode_enc B_old_opcode_enc B_old_func_mapping
         else Inr a)"

section \<open>Encoding an action and a block\<close>

text \<open>
  The result: the action as it is left, the fields (\<open>None\<close> when the action is not encoded), and
  for a printing instruction its identifier with the printed text.
\<close>

type_synonym encoded = "(action \<times> fields option \<times> (pv \<times> fields) option) res"

definition plain :: "action \<Rightarrow> fields res \<Rightarrow> encoded" where
  "plain a r = rmap (\<lambda>fs. (a, Some fs, None)) r"

definition maybe :: "action \<Rightarrow> fields option res \<Rightarrow> encoded" where
  "maybe a r = rmap (\<lambda>fs. (a, fs, None)) r"

text \<open>\<open>action.opcode == "branch" and action.funct in B_opcode_enc\<close>\<close>

definition is_B :: "action \<Rightarrow> bool res" where
  "is_B a = (if a_opcode a = ''branch'' then pv_in (a_funct a) B_opcode_enc else Inr False)"

definition encode_action :: "action \<Rightarrow> targets \<Rightarrow> int \<Rightarrow> encoded" where
  "encode_action a0 target_symbols seqnum =
     rbind (rename_old a0) (\<lambda>a.
     let i = a_opcode a
     in if in_dict i I_opcode_enc then
          rmap (\<lambda>(a', fs). (a', Some fs, None)) (encode_I_format a)
        else if in_dict i LI_opcode_enc then plain a (encode_LI_format a)
        else if in_dict i VF_opcode_enc then plain a (encode_VF_format a)
        else if in_dict i S_opcode_enc then plain a (encode_S_format a)
        else if in_dict i R_opcode_enc then maybe a (encode_R_format a)
        else if in_dict i M1_opcode_enc then plain a (encode_M1_format a)
        else if in_dict i M2_opcode_enc then plain a (encode_M2_format a)
        else if in_dict i M3_opcode_enc then plain a (encode_M3_format a)
        else if in_dict i M4_opcode_enc then plain a (encode_M4_format a)
        else if in_dict i R4_opcode_enc then plain a (encode_R4_format a)
        else if in_dict i E_opcode_enc then maybe a (encode_E_format a)
        else rbind (is_B a) (\<lambda>b.
          if b then plain a (encode_B_format a target_symbols seqnum)
          else if in_dict i J_opcode_enc then plain a (encode_J_format a target_symbols seqnum)
          else if in_dict i P_opcode_enc then
            rbind (encode_P_format a) (\<lambda>fs.
            rbind (attr (a_print_id a)) (\<lambda>pid.
            rbind (encode_P_content a) (\<lambda>c. Inr (a, Some fs, Some (pid, c)))))
          else if i = ''branch'' then Inr (a, None, None)
          else Inl SysExit))"

text \<open>Labels of a block: the position of the action that carries them.\<close>

definition label_step :: "(nat \<times> action) \<Rightarrow> targets \<Rightarrow> targets res" where
  "label_step e d =
     (case a_label (snd e) of
        PNone \<Rightarrow> Inr d
      | PStr l \<Rightarrow>
          if l = [] then Inr d
          else if in_dict l d then Inl SysExit
          else Inr (dict_set l (int (fst e)) d)
      | _ \<Rightarrow> Inl TypeError)"

definition resolve_branch_targets :: "action list \<Rightarrow> targets res" where
  "resolve_branch_targets actions = foldr_res label_step (enumerate 0 actions) []"

text \<open>The words of the block, and the printed data: length in bytes, identifier, bits\<close>

type_synonym data_item = "nat \<times> pv \<times> string"

record block_out =
  bo_actions :: "action list"
  bo_words :: "string list"
  bo_data :: "data_item list"

definition encode_step :: "targets \<Rightarrow> (nat \<times> action) \<Rightarrow> block_out \<Rightarrow> block_out res" where
  "encode_step ts e out =
     rbind (encode_action (snd e) ts (int (fst e))) (\<lambda>(a', fs, c).
     let out1 = out\<lparr>bo_actions := bo_actions out @ [a']\<rparr>
     in case fs of
          None \<Rightarrow> Inr out1
        | Some f \<Rightarrow>
            let out2 = out1\<lparr>bo_words := bo_words out1 @ [pack f]\<rparr>
            in Inr (case c of
                 None \<Rightarrow> out2
               | Some (pid, content) \<Rightarrow>
                   let bits = pack_print content
                   in out2\<lparr>bo_data := bo_data out2 @ [(length bits div 8, pid, bits)]\<rparr>))"

definition encode_action_block ::
  "action list \<Rightarrow> string list \<Rightarrow> data_item list \<Rightarrow> block_out res" where
  "encode_action_block actions l data =
     rbind (resolve_branch_targets actions) (\<lambda>ts.
     foldr_res (encode_step ts) (enumerate 0 actions)
       \<lparr>bo_actions = [], bo_words = l, bo_data = data\<rparr>)"

end
