(* ===== verification/Asm_Words.thy ===== *)
theory Asm_Words imports Asm_Encode begin

text \<open>
  What the encoders of \<open>Asm_Encode\<close> promise: every format that returns fields fills a word of 32
  binary digits, \<open>encode_action\<close> keeps this through the renaming of old opcodes, and
  \<open>encode_action_block\<close> appends one such word for every action it does not skip.
\<close>

section \<open>Every instruction word has 32 digits\<close>

text \<open>A result whose fields, if there are any, make a word\<close>

definition res_word :: "fields res \<Rightarrow> bool" where
  "res_word m = (\<forall>fs. m = Inr fs \<longrightarrow> code_width 32 (concat fs))"

lemma res_word_seq: "list_all2 res_width ws ms \<Longrightarrow> sum_list ws = 32 \<Longrightarrow> res_word (seq_res ms)"
proof -
  assume ws: "list_all2 res_width ws ms" "sum_list ws = 32"
  have "code_width 32 (concat fs)" if "seq_res ms = Inr fs" for fs
    using concat_width [OF seq_res_widths [OF that ws(1)]] ws(2) by simp
  then show ?thesis by (simp add: res_word_def)
qed

lemma res_word_bind: "(\<And>x. m = Inr x \<Longrightarrow> res_word (f x)) \<Longrightarrow> res_word (rbind m f)"
  by (auto simp: res_word_def rbind_Inr_iff)

lemma res_word_if: "(b \<Longrightarrow> res_word m) \<Longrightarrow> (\<not> b \<Longrightarrow> res_word n) \<Longrightarrow> res_word (if b then m else n)"
  by simp

lemma res_word_Inl: "res_word (Inl e)"
  by (simp add: res_word_def)

lemma res_width_bits: "is_bits s \<Longrightarrow> res_width (length s) (Inr s)"
  by (simp add: res_width_def code_width_def)

lemma res_width_rmap:
  "res_width v m \<Longrightarrow> (\<And>s. code_width v s \<Longrightarrow> code_width w (f s)) \<Longrightarrow> res_width w (rmap f m)"
  by (auto simp: res_width_def rmap_Inr_iff)

lemma is_bits_parts:
  "is_bits s \<Longrightarrow> is_bits (take n s)" "is_bits s \<Longrightarrow> is_bits (drop n s)" "is_bits s \<Longrightarrow> is_bits (tl s)"
proof -
  have parts: "is_bits (take n s @ drop n s) \<Longrightarrow> is_bits (take n s) \<and> is_bits (drop n s)" for n
    by (simp only: is_bits_simps)
  then show "is_bits s \<Longrightarrow> is_bits (take n s)" "is_bits s \<Longrightarrow> is_bits (drop n s)" by simp_all
  show "is_bits s \<Longrightarrow> is_bits (tl s)" by (cases s) simp_all
qed

lemma res_width_reg4 [widths]: "res_width 4 (encode_reg4 r)"
  unfolding encode_reg4_def
  by (rule res_width_rmap [where v = 5]) (simp_all add: widths code_width_def is_bits_parts)

lemma res_width_halves [widths]:
  "res_width 12 (rmap (take 12) (encode_immediate16 v))"
  "res_width 4 (rmap (\<lambda>s. drop (length s - 4) s) (encode_immediate16 v))"
  by (rule res_width_rmap [where v = 16]; simp add: widths code_width_def is_bits_parts)+

lemma func7_names:
  "list_all (\<lambda>(i, f). f = ''7'' \<longrightarrow> i = ''fcnvt.32.i32'') name_func_mapping"
  by (simp add: name_func_mapping_def)

lemma res_width_func_of [widths]:
  assumes "i \<noteq> ''fcnvt.32.i32''"
  shows "res_width 3 (encode_func_of i)"
proof -
  have "f \<noteq> ''7''" if "map_of name_func_mapping i = Some f" for f
    using map_of_list_all [OF func7_names that] assms by auto
  then show ?thesis
    by (auto simp: res_width_def encode_func_of_def encode_func_def res_simps dest: func_width)
qed

lemma res_width_int_field: "(\<And>v. res_width w (enc v)) \<Longrightarrow> res_width w (int_field enc p)"
  by (simp add: int_field_def res_width_bind)

lemmas res_width_int_fields [widths] =
  res_width_encoders(10-15) [THEN res_width_int_field] res_width_inbinary(2) [THEN res_width_int_field]

lemma res_width_len1 [widths]: "res_width 3 (rbind (pv_int p) (\<lambda>i. inbinary3 (i - 1)))"
  by (simp add: res_width_bind widths)

lemma mode_bit_width: "mode_bit m = Inr s \<Longrightarrow> code_width 1 s"
  by (auto simp: mode_bit_def rbind_Inr_iff code_width_def split: if_splits)

lemmas word_intros = res_word_bind res_word_if res_word_Inl
lemmas width_simps = widths code_width_def mode_bit_width [unfolded code_width_def]

lemma LI_word: "res_word (encode_LI_format a)"
  unfolding encode_LI_format_def
  by (rule res_word_seq [where ws = "[21, 4, 7]"]) (simp_all add: width_simps)

lemma VF_word: "res_word (encode_VF_format a)"
  unfolding encode_VF_format_def
  by (intro word_intros res_word_seq [where ws = "[3, 12, 1, 4, 1, 4, 7]"])
    (simp_all add: width_simps)

lemma S_word: "res_word (encode_S_format a)"
  unfolding encode_S_format_def
  by (intro word_intros res_word_seq [where ws = "[12, 1, 3, 4, 5, 7]"]
        res_word_seq [where ws = "[8, 4, 4, 4, 5, 7]" and ms = "Inr ''00000000'' # ms" for ms]
        res_word_seq [where ws = "[12, 4, 4, 5, 7]" and ms = "[a, b, c, d, e]" for a b c d e])
    (simp_all add: width_simps)

lemma target_width:
  "encode_immediate12 v = Inr s \<Longrightarrow> code_width 12 s"
  "encode_immediate_jump v = Inr s \<Longrightarrow> code_width 25 s"
  using res_width_encoders by (auto simp: res_width_def)

lemma B_word: "a_funct a \<noteq> PStr ''fcnvt.32.i32'' \<Longrightarrow> res_word (encode_B_format a ts n)"
  unfolding encode_B_format_def
  apply (intro word_intros res_word_seq [where ws = "[3, 3, 9, 5, 5, 7]"])
   apply (auto simp: width_simps is_bits_parts dest!: target_width elim!: pv_str.elims)
  done

lemma J_word: "res_word (encode_J_format a ts n)"
  unfolding encode_J_format_def
  by (intro word_intros res_word_seq [where ws = "[25, 7]"])
    (auto simp: width_simps dest!: target_width)

lemma M1_word: "res_word (encode_M1_format a)"
  unfolding encode_M1_format_def
  by (intro word_intros res_word_seq [where ws = "[5, 1, 1, 3, 5, 5, 5, 7]"])
    (simp_all add: width_simps)

lemma M2_word: "res_word (encode_M2_format a)"
  unfolding encode_M2_format_def
  by (intro word_intros res_word_seq [where ws = "[5, 2, 3, 5, 5, 5, 7]"])
    (simp_all add: width_simps)

lemma M3_word: "res_word (encode_M3_format a)"
  unfolding encode_M3_format_def
  by (intro word_intros res_word_seq [where ws = "[5, 5, 5, 5, 5, 7]"])
    (simp_all add: width_simps)

lemma R4_word: "res_word (encode_R4_format a)"
  unfolding encode_R4_format_def
  by (intro word_intros res_word_seq [where ws = "[2, 5, 5, 4, 4, 5, 7]"])
    (simp_all add: width_simps)

lemma P_word: "a_opcode a \<noteq> ''fcnvt.32.i32'' \<Longrightarrow> res_word (encode_P_format a)"
  unfolding encode_P_format_def
  by (intro word_intros res_word_seq [where ws = "[3, 3, 19, 7]"]) (simp_all add: width_simps)


text \<open>The formats that may leave no fields, or change the action\<close>

definition res_word_opt :: "fields option res \<Rightarrow> bool" where
  "res_word_opt m = (\<forall>fs. m = Inr (Some fs) \<longrightarrow> code_width 32 (concat fs))"

lemma res_word_opt_intros:
  "res_word m \<Longrightarrow> res_word_opt (rmap Some m)"
  "res_word_opt (Inr None)"
  "(\<And>x. m' = Inr x \<Longrightarrow> res_word_opt (f x)) \<Longrightarrow> res_word_opt (rbind m' f)"
  "(b \<Longrightarrow> res_word_opt r) \<Longrightarrow> (\<not> b \<Longrightarrow> res_word_opt r') \<Longrightarrow> res_word_opt (if b then r else r')"
  by (auto simp: res_word_opt_def res_word_def rbind_Inr_iff rmap_Inr_iff)

lemma R_word: "a_opcode a \<noteq> ''fcnvt.32.i32'' \<Longrightarrow> res_word_opt (encode_R_format a)"
  unfolding encode_R_format_def encode_R_word_def
  by (intro res_word_opt_intros word_intros res_word_seq [where ws = "[3, 3, 1, 3, 5, 5, 5, 7]"]
        res_word_seq [where ws = "[3, 3, 4, 5, 5, 5, 7]"])
    (simp_all add: width_simps)

lemma E_word: "res_word_opt (encode_E_format a)"
  unfolding encode_E_format_def
  by (intro res_word_opt_intros word_intros res_word_seq [where ws = "[12, 4, 4, 5, 7]"])
    (simp_all add: width_simps)

lemma I_word:
  assumes "encode_I_format a = Inr (a', fs)"
  shows "code_width 32 (concat fs)"
proof -
  have "res_word (seq_res [Inr ''0000000000000000'', Inr ''0000'', encode_register x,
      encode_I_opcode i])"
    "res_word (seq_res [int_field encode_immediate16 m, encode_reg4 d, encode_register x,
      encode_I_opcode i])" for x i m d
    by (rule res_word_seq [where ws = "[16, 4, 5, 7]"]; simp add: width_simps)+
  then show ?thesis
    using assms by (auto simp: encode_I_format_def rbind_Inr_iff rmap_Inr_iff res_word_def
        split: if_splits)
qed

text \<open>
  Two names need care: function code 7 has no digits, and the mode of \<open>sendmops\<close> is copied as
  it is written.
\<close>

definition plain_mode :: "action \<Rightarrow> bool" where
  "plain_mode a = (a_opcode a = ''sendmops'' \<longrightarrow> a_addr_mode a \<in> {PStr ''0'', PStr ''1''})"

definition encodable :: "action \<Rightarrow> bool" where
  "encodable a = (a_opcode a \<noteq> ''fcnvt.32.i32'' \<and> a_funct a \<noteq> PStr ''fcnvt.32.i32'' \<and> plain_mode a)"

lemma M4_word: "plain_mode a \<Longrightarrow> res_word (encode_M4_format a)"
  unfolding encode_M4_format_def
  by (intro word_intros res_word_seq [where ws = "[5, 1, 1, 3, 5, 5, 5, 7]"])
    (auto simp: width_simps plain_mode_def)

definition odd_names :: "string set" where
  "odd_names = {''fcnvt.32.i32'', ''sendmops''}"

lemma last_match_mem: "last_match p d = Some i \<Longrightarrow> \<exists>ob. (i, ob) \<in> set d \<and> p (i, ob)"
proof -
  assume l: "last_match p d = Some i"
  then have "filter p d \<noteq> []" and i: "i = fst (last (filter p d))"
    by (auto simp: last_match_def split: list.splits)
  then have "last (filter p d) \<in> set (filter p d)" by (intro last_in_set)
  with i show ?thesis by (cases "last (filter p d)") auto
qed

lemma move_opcode_cases:
  "move_opcode a m = Inr i \<Longrightarrow> m = Some i \<or> i \<in> {''movrl'', ''movlr''}"
  by (auto simp: move_opcode_def Let_def res_simps split: if_splits option.splits)

lemma even_names:
  "list_all (\<lambda>(i, ob). i \<notin> odd_names) I_opcode_enc" "list_all (\<lambda>(i, ob). i \<notin> odd_names) S_opcode_enc"
  "list_all (\<lambda>(i, ob). i \<notin> odd_names) R4_opcode_enc" "list_all (\<lambda>(i, ob). i \<notin> odd_names) E_opcode_enc"
  "list_all (\<lambda>(i, ob). i \<notin> odd_names) LI_opcode_enc" "list_all (\<lambda>(i, ob). i \<notin> odd_names) B_opcode_enc"
  by (simp_all add: odd_names_def opcode_tables)

lemma R_odd_names:
  "list_all (\<lambda>(i, ob). i \<in> odd_names \<longrightarrow> ob = ''1100001'') R_opcode_enc"
  "list_all (\<lambda>(i, ob). ob \<noteq> ''1100001'') R_old_opcode_enc"
  by (simp_all add: odd_names_def R_opcode_enc_def R_old_opcode_enc_def)

lemma change2newISA_even:
  assumes "change2newISA a d d' = Inr b" and "list_all (\<lambda>(i, ob). i \<notin> odd_names) d"
  shows "a_opcode b \<notin> odd_names \<and> a_funct b = a_funct a"
proof -
  obtain ob i where i: "move_opcode a (last_match (\<lambda>(i, ob'). ob' = ob) d) = Inr i"
    and b: "b = a\<lparr>a_opcode := i\<rparr>"
    using assms(1) by (auto simp: change2newISA_def rbind_Inr_iff)
  from move_opcode_cases [OF i] show ?thesis
  proof
    assume "last_match (\<lambda>(i, ob'). ob' = ob) d = Some i"
    from last_match_mem [OF this] assms(2) show ?thesis by (auto simp: b list_all_iff)
  qed (auto simp: b odd_names_def)
qed

lemma change2newISA_withfunc_even:
  assumes "change2newISA_withfunc a d d' fm = Inr b"
    and "list_all (\<lambda>(i, ob). i \<in> odd_names \<longrightarrow> ob = x) d" and "list_all (\<lambda>(i, ob). ob \<noteq> x) d'"
  shows "a_opcode b \<notin> odd_names \<and> a_funct b = a_funct a"
proof -
  obtain ob f i where ob: "map_of d' (a_opcode a) = Some ob"
    and i: "move_opcode a (last_match (\<lambda>(i, ob'). ob' = ob \<and>
                map_of name_func_mapping i = Some f) d) = Inr i"
    and b: "b = a\<lparr>a_opcode := i\<rparr>"
    using assms(1) by (auto simp: change2newISA_withfunc_def rbind_Inr_iff dict_get_Inr_iff)
  have ne: "ob \<noteq> x" using map_of_list_all [OF assms(3) ob] .
  from move_opcode_cases [OF i] show ?thesis
  proof
    assume "last_match (\<lambda>(i, ob'). ob' = ob \<and> map_of name_func_mapping i = Some f) d = Some i"
    from last_match_mem [OF this] assms(2) ne show ?thesis by (auto simp: b list_all_iff)
  qed (auto simp: b odd_names_def)
qed

lemma rename_encodable:
  assumes "rename_old a = Inr b" and "encodable a"
  shows "encodable b"
proof -
  have R: "list_all (\<lambda>(i, ob). i \<in> odd_names \<longrightarrow> ob = ''1100001'') B_opcode_enc"
    "list_all (\<lambda>(i, ob). ob \<noteq> ''1100001'') B_old_opcode_enc"
    using even_names(6) by (auto simp: list_all_iff B_old_opcode_enc_def)
  have "a_opcode b \<notin> odd_names \<and> a_funct b = a_funct a \<or> b = a"
    using assms(1) even_names R_odd_names R change2newISA_even change2newISA_withfunc_even
    unfolding rename_old_def Let_def by (auto split: if_splits; blast)
  then show ?thesis using assms(2) by (auto simp: encodable_def plain_mode_def odd_names_def)
qed

lemma encode_action_word:
  assumes "encode_action a ts n = Inr (a', Some fs, c)" and "encodable a"
  shows "code_width 32 (concat fs)"
proof -
  obtain b where b: "rename_old a = Inr b" using assms(1) by (auto simp: encode_action_def rbind_Inr_iff)
  have e: "encodable b" using rename_encodable [OF b assms(2)] .
  have i: "a_opcode b \<noteq> ''fcnvt.32.i32''" "a_funct b \<noteq> PStr ''fcnvt.32.i32''" "plain_mode b"
    using e by (simp_all add: encodable_def)
  note words = LI_word VF_word S_word M1_word M2_word M3_word M4_word [OF i(3)] R4_word
    B_word [OF i(2)] J_word P_word [OF i(1)]
  note opts = R_word [OF i(1)] E_word
  show ?thesis
    using assms(1) words opts I_word unfolding encode_action_def b
    by (auto simp: Let_def plain_def maybe_def res_word_def res_word_opt_def rmap_Inr_iff rbind_Inr_iff
        split: if_splits)
qed

section \<open>Blocks\<close>

lemma pack_word: "code_width 32 (concat fs) \<Longrightarrow> pack fs = concat fs"
  by (simp add: pack_def code_width_def)

text \<open>A block that is encoded keeps its actions and gets at most one word for each.\<close>

definition block_inv :: "string list \<Rightarrow> nat \<Rightarrow> block_out \<Rightarrow> bool" where
  "block_inv l k out =
     (length (bo_actions out) = k \<and> take (length l) (bo_words out) = l \<and>
      length (bo_words out) \<le> length l + k \<and> length l \<le> length (bo_words out) \<and>
      (\<forall>w\<in>set (drop (length l) (bo_words out)). code_width 32 w))"

lemma encode_step_inv:
  assumes "encode_step ts (i, a) out = Inr out'" and "encodable a" and "block_inv l k out"
  shows "block_inv l (Suc k) out'"
proof -
  obtain a' fs c where e: "encode_action a ts (int i) = Inr (a', fs, c)"
    using assms(1) by (auto simp: encode_step_def rbind_Inr_iff)
  show ?thesis
  proof (cases fs)
    case None
    then show ?thesis using assms(1,3) by (auto simp: encode_step_def e block_inv_def)
  next
    case (Some f)
    then have "code_width 32 (pack f)"
      using encode_action_word [of a ts "int i" a' f c] e assms(2) by (simp add: pack_word)
    then show ?thesis using assms(1,3) Some
      by (auto simp: encode_step_def e block_inv_def Let_def split: option.splits)
  qed
qed

lemma enumerate_Suc_map: "enumerate (Suc n) xs = map (\<lambda>(i, x). (Suc i, x)) (enumerate n xs)"
  by (induction xs arbitrary: n) auto

lemma encode_steps_inv:
  assumes "foldr_res (encode_step ts) (enumerate m as) out = Inr out'"
    and "\<forall>a\<in>set as. encodable a" and "block_inv l k out"
  shows "block_inv l (k + length as) out'"
  using assms
proof (induction as arbitrary: m k out)
  case (Cons a as)
  then obtain out1 where o1: "encode_step ts (m, a) out = Inr out1"
    "foldr_res (encode_step ts) (enumerate (Suc m) as) out1 = Inr out'"
    by (auto simp: rbind_Inr_iff)
  from encode_step_inv [OF o1(1)] Cons.prems have "block_inv l (Suc k) out1" by simp
  from Cons.IH [OF o1(2) _ this] Cons.prems(2) show ?case by simp
qed simp

lemma encode_action_block_inv:
  assumes "encode_action_block as l data = Inr out" and "\<forall>a\<in>set as. encodable a"
  shows "block_inv l (length as) out"
proof -
  obtain ts where "foldr_res (encode_step ts) (enumerate 0 as)
      \<lparr>bo_actions = [], bo_words = l, bo_data = data\<rparr> = Inr out"
    using assms(1) by (auto simp: encode_action_block_def rbind_Inr_iff)
  moreover have "block_inv l 0 \<lparr>bo_actions = [], bo_words = l, bo_data = data\<rparr>"
    by (simp add: block_inv_def)
  ultimately show ?thesis using encode_steps_inv assms(2) by fastforce
qed

section \<open>Labels\<close>

text \<open>
  The table of a block that has one: a label is bound to the position of the action that
  carries it, and to nothing else.
\<close>

lemma resolve_labels_from:
  "foldr_res label_step (enumerate k as) d = Inr ts \<Longrightarrow>
   map_of ts l = Some v \<longleftrightarrow>
     map_of d l = Some v \<or>
     l \<noteq> [] \<and> (\<exists>i<length as. v = int (k + i) \<and> a_label (as ! i) = PStr l)"
proof (induction as arbitrary: k d)
  case (Cons a as)
  then obtain d1 where d1: "label_step (k, a) d = Inr d1"
    "foldr_res label_step (enumerate (Suc k) as) d1 = Inr ts"
    by (auto simp: rbind_Inr_iff)
  show ?case
    unfolding Cons.IH [OF d1(2)] using d1(1)
    by (cases "a_label a") (auto simp: label_step_def ex_Suc_less in_dict_iff split: if_splits)
qed simp

lemma resolve_labels:
  "resolve_branch_targets as = Inr ts \<Longrightarrow>
   map_of ts l = Some v \<longleftrightarrow> l \<noteq> [] \<and> (\<exists>i<length as. v = int i \<and> a_label (as ! i) = PStr l)"
  using resolve_labels_from [where k = 0 and d = "[]"] by (simp add: resolve_branch_targets_def)

text \<open>Two actions with one label end the program.\<close>

lemma resolve_duplicate:
  assumes "i < j" "j < length as" and "a_label (as ! i) = PStr l" "a_label (as ! j) = PStr l" "l \<noteq> []"
  shows "resolve_branch_targets as \<noteq> Inr ts"
proof
  assume r: "resolve_branch_targets as = Inr ts"
  have "map_of ts l = Some (int i)" "map_of ts l = Some (int j)"
    using assms by (auto simp: resolve_labels [OF r])
  then show False using assms(1) by simp
qed

section \<open>The words of a block, one by one\<close>

definition words_of :: "targets \<Rightarrow> nat \<times> action \<Rightarrow> string list" where
  "words_of ts e =
     (case encode_action (snd e) ts (int (fst e)) of
        Inr (a', Some fs, c) \<Rightarrow> [pack fs]
      | _ \<Rightarrow> [])"

lemma words_of_length: "length (words_of ts e) \<le> 1"
  by (auto simp: words_of_def split: sum.splits option.splits)

lemma encode_step_words:
  "encode_step ts e out = Inr out' \<Longrightarrow> bo_words out' = bo_words out @ words_of ts e"
  by (cases "encode_action (snd e) ts (int (fst e))")
    (auto simp: encode_step_def words_of_def Let_def split: option.splits)

lemma encode_steps_words:
  "foldr_res (encode_step ts) es out = Inr out' \<Longrightarrow>
   bo_words out' = bo_words out @ concat (map (words_of ts) es)"
  by (induction es arbitrary: out) (auto simp: rbind_Inr_iff dest: encode_step_words)

lemma concat_length_le: "(\<And>x. length (f x) \<le> 1) \<Longrightarrow> length (concat (map f xs)) \<le> length xs"
proof (induction xs)
  case (Cons x xs)
  from Cons.IH [OF Cons.prems] Cons.prems [of x] show ?case by simp
qed simp

lemma concat_singles:
  assumes "\<And>x. length (f x) \<le> 1" and "length (concat (map f xs)) = length xs" and "i < length xs"
  shows "f (xs ! i) = [concat (map f xs) ! i]"
  using assms(2,3)
proof (induction xs arbitrary: i)
  case (Cons x xs)
  from concat_length_le [of f xs, OF assms(1)] assms(1) [of x] Cons.prems(1)
  have l: "length (f x) = 1" "length (concat (map f xs)) = length xs" by simp_all
  then obtain y where y: "f x = [y]" by (cases "f x") auto
  show ?case using Cons.IH [OF l(2)] Cons.prems(2) y by (cases i) auto
qed simp

lemma block_nth:
  assumes "encode_action_block as [] data = Inr out" and "length (bo_words out) = length as"
    and "i < length as"
  obtains ts a' fs c where "resolve_branch_targets as = Inr ts"
    and "encode_action (as ! i) ts (int i) = Inr (a', Some fs, c)" and "bo_words out ! i = pack fs"
proof -
  obtain ts where ts: "resolve_branch_targets as = Inr ts"
    "foldr_res (encode_step ts) (enumerate 0 as) \<lparr>bo_actions = [], bo_words = [], bo_data = data\<rparr> = Inr out"
    using assms(1) by (auto simp: encode_action_block_def rbind_Inr_iff)
  from encode_steps_words [OF ts(2)] have w: "bo_words out = concat (map (words_of ts) (enumerate 0 as))"
    by simp
  have "words_of ts (enumerate 0 as ! i) = [bo_words out ! i]"
    using concat_singles [of "words_of ts" "enumerate 0 as" i, OF words_of_length] assms(2,3) w by simp
  then show thesis using that [OF ts(1)] assms(3)
    by (auto simp: words_of_def nth_enumerate_eq split: sum.splits option.splits)
qed

lemma branch_tables:
  "\<not> in_dict ''branch'' I_opcode_enc" "\<not> in_dict ''branch'' LI_opcode_enc"
  "\<not> in_dict ''branch'' P_opcode_enc" "\<not> in_dict ''branch'' S_opcode_enc"
  "\<not> in_dict ''branch'' R_opcode_enc" "\<not> in_dict ''branch'' J_opcode_enc"
  "\<not> in_dict ''branch'' M1_opcode_enc" "\<not> in_dict ''branch'' M2_opcode_enc"
  "\<not> in_dict ''branch'' M3_opcode_enc" "\<not> in_dict ''branch'' M4_opcode_enc"
  "\<not> in_dict ''branch'' E_opcode_enc" "\<not> in_dict ''branch'' R4_opcode_enc"
  "\<not> in_dict ''branch'' VF_opcode_enc"
  "\<not> in_dict ''branch'' I_old_opcode_enc" "\<not> in_dict ''branch'' S_old_opcode_enc"
  "\<not> in_dict ''branch'' R_old_opcode_enc" "\<not> in_dict ''branch'' R4_old_opcode_enc"
  "\<not> in_dict ''branch'' E_old_opcode_enc" "\<not> in_dict ''branch'' LI_old_opcode_enc"
  "\<not> in_dict ''branch'' B_old_opcode_enc"
  by (simp_all add: in_dict_def opcode_tables I_old_opcode_enc_def S_old_opcode_enc_def
      R_old_opcode_enc_def R4_old_opcode_enc_def E_old_opcode_enc_def LI_old_opcode_enc_def
      B_old_opcode_enc_def)

lemma encode_action_branch:
  assumes "a_opcode a = ''branch''"
  shows "encode_action a ts n =
    rbind (pv_in (a_funct a) B_opcode_enc)
      (\<lambda>b. if b then plain a (encode_B_format a ts n) else Inr (a, None, None))"
proof -
  have "rename_old a = Inr a" by (simp add: rename_old_def assms branch_tables)
  then show ?thesis by (simp add: encode_action_def assms branch_tables is_B_def cong: if_cong)
qed

lemma encode_branch:
  assumes "encode_action a ts n = Inr (a', Some fs, c)" and "a_opcode a = ''branch''"
  shows "encode_B_format a ts n = Inr fs"
  using assms by (auto simp: encode_action_branch plain_def rbind_Inr_iff rmap_Inr_iff split: if_splits)

section \<open>Properties\<close>

lemma ex_addi_block: "rmap bo_words (encode_action_block [mk_IAction ''addi'' (PStr ''X17'') (PStr ''X16'') (PStr ''5'') PNone 1] [] []) = Inr [''00000000000001010001100000001001'']"
  by code_simp



text \<open>the table of branch targets of a block has for each label exactly the position of the action that carries it.\<close>

theorem block_labels:
  assumes "resolve_branch_targets as = Inr ts" and "l \<noteq> []"
  shows "map_of ts l = Some v \<longleftrightarrow> (\<exists>i<length as. v = int i \<and> a_label (as ! i) = PStr l)"
  using resolve_labels [OF assms(1)] assms(2) by simp

theorem block_labels_witness:
  "map_of [(''loop'', 1)] ''loop'' = Some (1 :: int) \<and> (\<exists>i<2. (1 :: int) = int i \<and> a_label ([mk_YAction ''yield'' PNone, mk_YAction ''yield'' (PStr ''loop'')] ! i) = PStr ''loop'')"
proof -
  have "resolve_branch_targets [mk_YAction ''yield'' PNone, mk_YAction ''yield'' (PStr ''loop'')] = Inr [(''loop'', 1)]"
    by (simp add: resolve_branch_targets_def label_step_def in_dict_def dict_set_def mk_YAction_def new_action_def)
  from block_labels [OF this, of "''loop''" 1] show ?thesis by simp
qed

text \<open>C40: a block with two actions of one label has no table of branch targets.\<close>

theorem duplicate_label_refused:
  assumes "i < j" "j < length as" and "a_label (as ! i) = PStr l" "a_label (as ! j) = PStr l" "l \<noteq> []"
  shows "resolve_branch_targets as \<noteq> Inr ts"
  using resolve_duplicate [OF assms] .

theorem duplicate_label_refused_witness:
  "\<forall>ts. resolve_branch_targets [mk_YAction ''yield'' (PStr ''l''), mk_YAction ''yield'' (PStr ''l'')] \<noteq> Inr ts"
  by (intro allI duplicate_label_refused [of 0 1 _ "''l''"]) (simp_all add: mk_YAction_def new_action_def)

text \<open>function code 7 has no digits in \<open>func_enc\<close>: the fields of \<open>fcnvt.32.i32\<close> have 29 bits and no word is packed from them.\<close>

theorem func7_no_word:
  assumes "encode_R_format a = Inr (Some fs)" and "a_opcode a = ''fcnvt.32.i32''"
  shows "length (concat fs) = 29 \<and> pack fs = []"
proof -
  have f: "encode_func_of ''fcnvt.32.i32'' = Inr []"
    by (simp add: encode_func_of_def encode_func_def dict_get_def name_func_mapping_def func_enc_def)
  have sp: "1 < length (split_on CHR ''.'' ''fcnvt.32.i32'')" by simp
  have "seq_res [encode_precision (a_precision a), Inr [], int_field encode_immediate4 (a_mask a),
      encode_register (a_rt a), encode_register (a_dst a), encode_register (a_src a),
      encode_R_opcode (a_opcode a)] = Inr fs"
    using assms sp by (auto simp: encode_R_format_def rmap_Inr_iff f)
  from seq_res_widths [OF this, of "[3, 0, 4, 5, 5, 5, 7]"]
  have "list_all2 code_width [3, 0, 4, 5, 5, 5, 7] fs" by (simp add: width_simps)
  from concat_width [OF this] show ?thesis by (simp add: pack_def code_width_def)
qed

theorem func7_no_word_witness:
  "\<exists>fs. encode_R_format (mk_FPAction ''fcnvt.32.i32'' (PStr ''X17'') (PStr ''X16'') (PStr ''X0'') (PInt 0) (PInt 0) (PStr ''32'') PNone)
     = Inr (Some fs) \<and> pack fs = []"
proof -
  have "encode_R_format (mk_FPAction ''fcnvt.32.i32'' (PStr ''X17'') (PStr ''X16'') (PStr ''X0'') (PInt 0) (PInt 0) (PStr ''32'') PNone)
     = Inr (Some [''010'', [], ''0000'', ''00000'', ''10001'', ''10000'', ''1100001''])" by code_simp
  with func7_no_word show ?thesis by (force simp: mk_FPAction_def new_action_def)
qed

text \<open>\<open>perflog\<close> in payload mode with a list of numbers stops with a \<open>TypeError\<close>: the numbers are appended to a string.\<close>

theorem perflog_payload_error:
  assumes "a_opcode a = ''perflog''" "a_mode a = PInt 2" "a_payload_list a = PInts (x # xs)"
    and "a_fmtstr a = PStr f"  "a_msg_id a = PInt m"
  shows "encode_P_content a = Inl TypeError"
  using assms by (auto simp: encode_P_content_def opt_bin_def string_to_bin_def payload_text_def)

theorem perflog_payload_error_witness:
  "encode_P_content (mk_PerflogAction ''perflog'' (PInt 2) (PInts [1, 2]) (PInt 7) (PStr ''it'') (PStrs []) (PInt 0) PNone)
     = Inl TypeError"
  by (rule perflog_payload_error) (simp_all add: mk_PerflogAction_def new_action_def)

text \<open>the old opcode \<open>move_word\<close> is always renamed to the load \<open>movwlr\<close>, whatever its mode.\<close>

theorem move_word_is_load:
  "rename_old (a\<lparr>a_opcode := ''move_word''\<rparr>) = Inr (a\<lparr>a_opcode := ''movwlr''\<rparr>)"
proof -
  have l: "last_match (\<lambda>(i, ob). ob = ''0110001'' \<and> map_of name_func_mapping i = Some ''0'') R_opcode_enc
      = Some ''movwlr''"
  proof -
    have "filter (\<lambda>(i, ob). ob = ''0110001'') R_opcode_enc = [(''movwlr'', ''0110001'')]"
      by (simp add: R_opcode_enc_def)
    moreover have "filter (\<lambda>(i, ob). ob = ''0110001'' \<and> map_of name_func_mapping i = Some ''0'') R_opcode_enc
        = filter (\<lambda>(i, ob). map_of name_func_mapping i = Some ''0'')
            (filter (\<lambda>(i, ob). ob = ''0110001'') R_opcode_enc)"
      by (simp only: filter_filter) (rule filter_cong; auto)
    ultimately show ?thesis by (simp add: last_match_def name_func_mapping_def)
  qed
  show ?thesis
    by (simp add: rename_old_def Let_def in_dict_def I_old_opcode_enc_def S_old_opcode_enc_def
        R_old_opcode_enc_def change2newISA_withfunc_def dict_get_def R_old_func_mapping_def
        move_opcode_def l)
qed

end
