(* ===== verification/Asm_Decode.thy ===== *)
theory Asm_Decode imports Asm_Words begin

text \<open>
  Reading the fields of an encoded word back.  \<open>bitfield_layout\<close> is what
  \<open>EncGen.gen_bitfields_const\<close> (\<open>src/updown/udbasim/assembler/enc_gen.py\<close>) computes for the
  simulator from the bit-field tables: for every field its shift, its width, its mask and
  whether it is signed.  The lemmas show that at these places of the words that the assembler
  writes stand the operands of the action.
\<close>

section \<open>Layouts\<close>

record field_const =
  fc_name :: string
  fc_kind :: ftype
  fc_shift :: nat
  fc_nbits :: nat
  fc_mask :: nat
  fc_signed :: bool

text \<open>Unused fields and the opcode are skipped; they only advance the bit position.\<close>

fun layout_from :: "nat \<Rightarrow> field list \<Rightarrow> field_const list" where
  "layout_from cur_bit [] = []"
| "layout_from cur_bit ((num_bits, field_type, field_name, pos) # fs) =
     (if field_type = FNa \<or> field_type = FOp then layout_from (cur_bit + num_bits) fs
      else \<lparr>fc_name = field_name, fc_kind = field_type, fc_shift = cur_bit, fc_nbits = num_bits,
            fc_mask = 2 ^ num_bits - 1, fc_signed = (field_type = FSi)\<rparr>
           # layout_from (cur_bit + num_bits) fs)"

definition bitfield_layout :: "field list \<Rightarrow> field_const list" where
  "bitfield_layout bitfields = layout_from 0 bitfields"

definition layout_of :: "string \<Rightarrow> field_const list" where
  "layout_of i = (case map_of all_bitfields i of None \<Rightarrow> [] | Some fs \<Rightarrow> bitfield_layout fs)"

section \<open>Bits of a word\<close>

text \<open>\<open>inst >> shift & mask\<close>, and its sign extension\<close>

definition word_field :: "nat \<Rightarrow> nat \<Rightarrow> string \<Rightarrow> nat" where
  "word_field shift nbits w = bits_val w div 2 ^ shift mod 2 ^ nbits"

definition word_sfield :: "nat \<Rightarrow> nat \<Rightarrow> string \<Rightarrow> int" where
  "word_sfield shift nbits w =
     (let v = int (word_field shift nbits w) in if 2 * v < 2 ^ nbits then v else v - 2 ^ nbits)"

definition read_field :: "field_const \<Rightarrow> string \<Rightarrow> int" where
  "read_field f w =
     (if fc_signed f then word_sfield (fc_shift f) (fc_nbits f) w
      else int (word_field (fc_shift f) (fc_nbits f) w))"

text \<open>The field \<open>t\<close> of a concatenation starts behind the digits that follow it.\<close>

lemma word_field_parts: "word_field (length u) (length t) (s @ t @ u) = bits_val t"
  by (simp add: word_field_def bits_val_field)

lemma word_field_concat:
  assumes "list_all2 code_width ws fs" and "k < length fs"
    and "sh = sum_list (drop (Suc k) ws)" and "n = ws ! k"
  shows "word_field sh n (concat fs) = bits_val (fs ! k)"
proof -
  have fs: "concat fs = concat (take k fs) @ fs ! k @ concat (drop (Suc k) fs)"
    using assms(2) id_take_nth_drop [of k fs] by (metis concat.simps(2) concat_append)
  have "list_all2 code_width (drop (Suc k) ws) (drop (Suc k) fs)"
    using assms(1) by (rule list_all2_dropI)
  then have "code_width sh (concat (drop (Suc k) fs))" unfolding assms(3) by (rule concat_width)
  moreover have "code_width n (fs ! k)"
    unfolding assms(4) using assms(1,2) by (simp add: list_all2_conv_all_nth)
  ultimately show ?thesis unfolding fs
    using word_field_parts [of "concat (drop (Suc k) fs)" "fs ! k" "concat (take k fs)"]
    by (simp add: code_width_def del: length_concat)
qed

text \<open>A field inside a field: low bits of its value.\<close>

lemma word_field_low:
  "k \<le> n \<Longrightarrow> word_field sh k w = word_field sh n w mod 2 ^ k"
  by (simp add: word_field_def mod_mod_cancel le_imp_power_dvd)

section \<open>The I format\<close>

lemma field_bits_val: "int (bits_val (field_bits w v)) = v mod 2 ^ w"
  by (simp add: field_bits_def nat_mod_distrib nat_power_eq)

lemma imm16_val:
  assumes "encode_immediate16 v = Inr s"
  shows "int (bits_val s) = kept 16 v mod 2 ^ 16"
proof -
  have s: "inbinary16 (kept 16 v) = Inr s" using assms by (simp add: encode_immediate16_def b16.enc_kept)
  then have "kept 16 v < 2 ^ 16" using b16.enc_ok [of "kept 16 v"] by blast
  then show ?thesis using b16.enc_twos [OF kept_range [of 16 v]] s by (simp add: field_bits_val)
qed

text \<open>What a field of an I-format instruction stands for\<close>

definition sext :: "field_const \<Rightarrow> int \<Rightarrow> int" where
  "sext f u = (if fc_signed f \<and> 2 ^ fc_nbits f \<le> 2 * u then u - 2 ^ fc_nbits f else u)"

lemma read_field_sext: "read_field f w = sext f (int (word_field (fc_shift f) (fc_nbits f) w))"
  by (auto simp: read_field_def sext_def word_sfield_def Let_def)

definition I_operand :: "action \<Rightarrow> field_const \<Rightarrow> int res" where
  "I_operand a f =
     (if fc_kind f = FR5 then rmap (\<lambda>c. int (bits_val c)) (encode_register (a_src a))
      else if fc_kind f = FR4 then rmap (\<lambda>c. int (bits_val c) mod 16) (encode_register (a_dst a))
      else rmap (\<lambda>v. sext f (v div 2 ^ (fc_shift f - 16) mod 2 ^ fc_nbits f)) (pv_int (a_imm a)))"

definition I_place :: "field_const \<Rightarrow> bool" where
  "I_place f =
     (case fc_kind f of
        FR5 \<Rightarrow> fc_shift f = 7 \<and> fc_nbits f = 5 \<and> \<not> fc_signed f
      | FR4 \<Rightarrow> fc_shift f = 12 \<and> fc_nbits f = 4 \<and> \<not> fc_signed f
      | _ \<Rightarrow> 16 \<le> fc_shift f \<and> fc_shift f + fc_nbits f \<le> 32)"

lemma I_places: "list_all (\<lambda>(i, bf). list_all I_place (bitfield_layout bf)) I_bitfields"
  by (simp add: I_bitfields_def bitfield_layout_def I_place_def)

lemma movlsb_layout:
  "list_all (\<lambda>(i, bf). i = ''movlsb'' \<longrightarrow> list_all (\<lambda>f. fc_kind f = FR5) (bitfield_layout bf)) I_bitfields"
  "list_all (\<lambda>(i, bf). i \<noteq> ''move_lm2sb'') I_bitfields"
  by (simp_all add: I_bitfields_def bitfield_layout_def)

lemma low_part:
  assumes "k + n \<le> m"
  shows "x mod 2 ^ m div 2 ^ k mod 2 ^ n = x div 2 ^ k mod (2 :: 'a :: semiring_bit_operations) ^ n"
proof -
  have "take_bit n (drop_bit k (take_bit m x)) = take_bit n (drop_bit k x)"
    by (rule bit_eqI) (use assms in \<open>auto simp: bit_take_bit_iff bit_drop_bit_eq\<close>)
  then show ?thesis by (simp add: take_bit_eq_mod drop_bit_eq_div)
qed

lemma word_field_shifted:
  assumes "k + n \<le> m"
  shows "int (word_field (sh + k) n w) = int (word_field sh m w) div 2 ^ k mod 2 ^ n"
proof -
  have "word_field (sh + k) n w = word_field sh m w div 2 ^ k mod 2 ^ n"
    using low_part [OF assms, of "bits_val w div 2 ^ sh"]
    by (simp add: word_field_def power_add div_mult2_eq)
  then show ?thesis by (simp add: zdiv_int zmod_int)
qed


lemma register_digits: "encode_register r = Inr c \<Longrightarrow> code_width 5 c"
  using res_width_tables(1) by (simp add: res_width_def)

lemma I_opcode_digits: "encode_I_opcode i = Inr c \<Longrightarrow> code_width 7 c"
  using res_width_opcodes(1) by (simp add: res_width_def)

lemma imm16_digits: "encode_immediate16 v = Inr c \<Longrightarrow> code_width 16 c"
  using res_width_encoders(10) by (simp add: res_width_def)

lemma bits_val_tl:
  assumes "code_width (Suc n) c"
  shows "bits_val (tl c) = bits_val c mod 2 ^ n"
proof -
  obtain b t where c: "c = b # t" "length t = n" using assms by (cases c) (auto simp: code_width_def)
  show ?thesis using bits_val_append [of "[b]" t] bits_val_less [of t] c by simp
qed

lemma I_decode:
  assumes e: "encode_I_format a = Inr (a', fs)"
    and bf: "map_of I_bitfields (a_opcode a') = Some bf" and f: "f \<in> set (bitfield_layout bf)"
  shows "if fc_kind f \<in> {FR5, FR4} then I_operand a' f = Inr (read_field f (pack fs))
    else \<exists>v. pv_int (a_imm a') = Inr v \<and> I_operand (a'\<lparr>a_imm := PInt (kept 16 v)\<rparr>) f = Inr (read_field f (pack fs))"
proof -
  have place: "I_place f"
    using map_of_list_all [OF I_places bf] f by (auto simp: list_all_iff)
  have w: "pack fs = concat fs" using I_word [OF e] by (rule pack_word)
  show ?thesis
  proof (cases "a_opcode a' = ''movlsb''")
    case True
    have k: "fc_kind f = FR5"
      using map_of_list_all [OF movlsb_layout(1) bf] True f by (auto simp: list_all_iff)
    obtain sc ob where fs: "fs = [''0000000000000000'', ''0000'', sc, ob]"
      and sc: "encode_register (a_src a') = Inr sc" and ob: "encode_I_opcode (a_opcode a') = Inr ob"
      using e True by (auto simp: encode_I_format_def res_simps split: if_splits)
    have "list_all2 code_width [16, 4, 5, 7] fs"
      using register_digits [OF sc] I_opcode_digits [OF ob] by (simp add: fs code_width_def)
    from word_field_concat [OF this, of 2 7 5] have "word_field 7 5 (concat fs) = bits_val sc"
      by (simp add: fs)
    with k place show ?thesis by (simp add: w I_operand_def sc I_place_def read_field_def)
  next
    case False
    moreover have "a_opcode a' \<noteq> ''move_lm2sb''"
      using map_of_list_all [OF movlsb_layout(2) bf] by simp
    ultimately have "seq_res [int_field encode_immediate16 (a_imm a'), encode_reg4 (a_dst a'),
        encode_register (a_src a'), encode_I_opcode (a_opcode a')] = Inr fs"
      using e by (auto simp: encode_I_format_def rbind_Inr_iff rmap_Inr_iff split: if_splits)
    then obtain iv v dc sc ob where fs: "fs = [iv, tl dc, sc, ob]"
      and v: "pv_int (a_imm a') = Inr v" and iv: "encode_immediate16 v = Inr iv"
      and dc: "encode_register (a_dst a') = Inr dc"
      and sc: "encode_register (a_src a') = Inr sc" and ob: "encode_I_opcode (a_opcode a') = Inr ob"
      by (auto simp: int_field_def encode_reg4_def res_simps)
    have ws: "list_all2 code_width [16, 4, 5, 7] fs"
      using register_digits [OF sc] register_digits [OF dc] I_opcode_digits [OF ob]
        imm16_digits [OF iv]
      by (simp add: fs code_width_def is_bits_parts)
    have R5: "word_field 7 5 (concat fs) = bits_val sc"
      using word_field_concat [OF ws, of 2 7 5] by (simp add: fs)
    have R4: "word_field 12 4 (concat fs) = bits_val dc mod 2 ^ 4"
      using word_field_concat [OF ws, of 1 12 4] bits_val_tl [of 4 dc] register_digits [OF dc]
      by (simp add: fs)
    have "word_field 16 16 (concat fs) = bits_val iv"
      using word_field_concat [OF ws, of 0 16 16] by (simp add: fs)
    then have I16: "int (word_field 16 16 (concat fs)) = kept 16 v mod 2 ^ 16"
      using imm16_val [OF iv] by simp
    show ?thesis
    proof (cases "fc_kind f = FR5 \<or> fc_kind f = FR4")
      case True
      then show ?thesis using place R5 R4
        by (auto simp: w I_operand_def I_place_def read_field_def sc dc zmod_int)
    next
      case False
      then have sh: "16 \<le> fc_shift f" "fc_shift f + fc_nbits f \<le> 32"
        using place by (auto simp: I_place_def split: ftype.splits)
      define k where "k = fc_shift f - 16"
      have k: "k + fc_nbits f \<le> 16" "fc_shift f = 16 + k" using sh by (auto simp: k_def)
      have "int (word_field (fc_shift f) (fc_nbits f) (concat fs)) = kept 16 v mod 2 ^ 16 div 2 ^ k mod 2 ^ fc_nbits f"
        using word_field_shifted [OF k(1)] I16 k(2) by simp
      also have "\<dots> = kept 16 v div 2 ^ k mod 2 ^ fc_nbits f"
        using low_part [OF k(1)] by simp
      finally show ?thesis using False
        by (auto simp: w I_operand_def read_field_sext k_def v)
    qed
  qed
qed

section \<open>Branches and jumps\<close>

text \<open>The byte offset the two parts of a branch target spell\<close>

definition branch_offset :: "string \<Rightarrow> int" where
  "branch_offset w = word_sfield 29 3 w * 2 ^ 9 + int (word_field 17 9 w)"

lemma B_layout:
  "list_all (\<lambda>(i, bf). i = ''BTYPE'' \<or>
     (\<exists>x2 k. bitfield_layout bf =
       [\<lparr>fc_name = ''X1'', fc_kind = FR5, fc_shift = 7, fc_nbits = 5, fc_mask = 31, fc_signed = False\<rparr>,
        \<lparr>fc_name = x2, fc_kind = k, fc_shift = 12, fc_nbits = 5, fc_mask = 31, fc_signed = (k = FSi)\<rparr>,
        \<lparr>fc_name = ''targeta'', fc_kind = FUi, fc_shift = 17, fc_nbits = 9, fc_mask = 511,
          fc_signed = False\<rparr>,
        \<lparr>fc_name = ''func'', fc_kind = FFc, fc_shift = 26, fc_nbits = 3, fc_mask = 7, fc_signed = False\<rparr>,
        \<lparr>fc_name = ''targetb'', fc_kind = FSi, fc_shift = 29, fc_nbits = 3, fc_mask = 7,
          fc_signed = True\<rparr>])) B_bitfields"
  by (simp add: B_bitfields_def bitfield_layout_def)

text \<open>Cutting a two's-complement number in two: the high part keeps the sign.\<close>

lemma signed_split:
  fixes h l :: nat and v :: int
  assumes m: "0 < m" and v: "- (2 ^ (m + n)) \<le> 2 * v" "2 * v < 2 ^ (m + n)"
    and hl: "int h * 2 ^ n + int l = v mod 2 ^ (m + n)" "l < 2 ^ n"
  shows "(if 2 * int h < 2 ^ m then int h else int h - 2 ^ m) * 2 ^ n + int l = v"
proof -
  let ?N = "2 ^ n :: int" and ?M = "2 ^ m :: int"
  have N: "?N > 0" "(2::int) ^ (m + n) = ?M * ?N" by (simp_all add: power_add)
  have "int l < int (2 ^ n)" using hl(2) by (simp only: of_nat_less_iff)
  then have l: "0 \<le> int l" "int l < ?N" by simp_all
  obtain K :: int where K: "?M = 2 * K" using m by (cases m) auto
  have MN: "?M * ?N = 2 * (K * ?N)" using K by simp
  have v': "- (2 * (K * ?N)) \<le> 2 * v" "2 * v < 2 * (K * ?N)" using v unfolding N(2) MN .
  show ?thesis
  proof (cases "v < 0")
    case True
    have "v mod (?M * ?N) = v + ?M * ?N"
      using True v N mod_pos_pos_trivial [of "v + ?M * ?N" "?M * ?N"] by (simp add: mod_add_self2)
    with hl(1) N have e: "int h * ?N + int l = v + ?M * ?N" by simp
    have "\<not> 2 * int h < ?M"
    proof
      assume "2 * int h < ?M"
      then have "int h \<le> K - 1" unfolding K by linarith
      then have "int h * ?N \<le> (K - 1) * ?N" using N(1) by (intro mult_right_mono) auto
      then have "int h * ?N \<le> K * ?N - ?N" by (simp only: left_diff_distrib mult_1)
      with e l v'(1) MN show False by linarith
    qed
    with e show ?thesis by (simp add: algebra_simps)
  next
    case False
    have "v mod (?M * ?N) = v" using False v N by (intro mod_pos_pos_trivial) auto
    with hl(1) N have e: "int h * ?N + int l = v" by simp
    have "2 * int h < ?M"
    proof (rule ccontr)
      assume "\<not> 2 * int h < ?M"
      then have "?M * ?N \<le> (2 * int h) * ?N" using N(1) by (intro mult_right_mono) auto
      with e l v'(2) MN show False by linarith
    qed
    with e show ?thesis by simp
  qed
qed

text \<open>A value of the upper half is read back as a negative one.\<close>

definition branch_value :: "int \<Rightarrow> int" where
  "branch_value v = (if kept 12 v < 2 ^ 11 then kept 12 v else kept 12 v - 2 ^ 12)"

lemma imm12_val:
  assumes "encode_immediate12 v = Inr s"
  shows "int (bits_val s) = branch_value v mod 2 ^ 12" "- (2 ^ 11) \<le> branch_value v" "branch_value v < 2 ^ 11"
proof -
  have s: "inbinary12 (kept 12 v) = Inr s" using assms by (simp add: encode_immediate12_def b12.enc_kept)
  then have k: "kept 12 v < 2 ^ 12" using b12.enc_ok [of "kept 12 v"] by blast
  have lo: "- (2 ^ 11) \<le> kept 12 v" using kept_range [of 12 v] by simp
  have "int (bits_val s) = kept 12 v mod 2 ^ 12"
    using b12.enc_twos [OF kept_range [of 12 v] k] s by (simp add: field_bits_val)
  then show "int (bits_val s) = branch_value v mod 2 ^ 12" by (simp add: branch_value_def minus_mod_self2)
  show "- (2 ^ 11) \<le> branch_value v" "branch_value v < 2 ^ 11" using k lo by (auto simp: branch_value_def)
qed

lemma no_branch_fcnvt: "encode_B_opcode ''fcnvt.32.i32'' \<noteq> Inr ob"
  by (simp add: encode_B_opcode_def B_opcode_enc_def res_simps)

lemma B_fields:
  assumes "encode_B_format a ts n = Inr fs"
  obtains l t s fu f o2 o1 ob where
    "a_dst a = PStr l" "map_of ts l = Some t" "encode_immediate12 (4 * (t - n)) = Inr s"
    "a_funct a = PStr f" "encode_func_of f = Inr fu"
    "if f \<in> reg_branches then encode_register (a_op2 a) = Inr o2
     else int_field encode_immediate5 (a_op2 a) = Inr o2"
    "encode_register (a_op1 a) = Inr o1" "encode_B_opcode f = Inr ob"
    "fs = [take 3 s, fu, take 9 (drop 3 s), o2, o1, ob]"
    "list_all2 code_width [3, 3, 9, 5, 5, 7] fs"
proof -
  obtain l t s f where d: "a_dst a = PStr l" "map_of ts l = Some t"
      "encode_immediate12 (4 * (t - n)) = Inr s" "a_funct a = PStr f"
    and sq: "(if f \<in> reg_branches
        then seq_res [Inr (take 3 s), encode_func_of f, Inr (take 9 (drop 3 s)),
          encode_register (a_op2 a), encode_register (a_op1 a), encode_B_opcode f]
        else seq_res [Inr (take 3 s), encode_func_of f, Inr (take 9 (drop 3 s)),
          int_field encode_immediate5 (a_op2 a), encode_register (a_op1 a), encode_B_opcode f]) = Inr fs"
    using assms(1) by (auto simp: encode_B_format_def rbind_Inr_iff guard_Inr_iff pv_get_Inr_iff
        push_bit_eq_mult mult.commute elim!: pv_str.elims)
  have s: "code_width 12 s" using d(3) by (rule target_width)
  have "encode_B_opcode f \<in> range Inr"
    using sq by (auto simp: seq_res_Cons_iff split: if_splits)
  then have f: "f \<noteq> ''fcnvt.32.i32''" using no_branch_fcnvt by auto
  have "list_all2 code_width [3, 3, 9, 5, 5, 7] fs"
  proof (cases "f \<in> reg_branches")
    case True
    with sq show ?thesis
      by (auto intro: seq_res_widths simp: width_simps s [unfolded code_width_def] f is_bits_parts)
  next
    case False
    with sq show ?thesis
      by (auto intro: seq_res_widths simp: width_simps s [unfolded code_width_def] f is_bits_parts)
  qed
  moreover obtain fu o2 o1 ob where "encode_func_of f = Inr fu"
    "if f \<in> reg_branches then encode_register (a_op2 a) = Inr o2
     else int_field encode_immediate5 (a_op2 a) = Inr o2"
    "encode_register (a_op1 a) = Inr o1" "encode_B_opcode f = Inr ob"
    "fs = [take 3 s, fu, take 9 (drop 3 s), o2, o1, ob]"
    using sq by (cases "f \<in> reg_branches") (auto simp: seq_res_Cons_iff seq_res_Nil_iff)
  ultimately show thesis using that d by blast
qed

lemma B_decode:
  assumes "encode_B_format a ts n = Inr fs" and "a_dst a = PStr l" "map_of ts l = Some t"
  shows "branch_offset (pack fs) = branch_value (4 * (t - n))"
proof -
  obtain s fu o2 o1 ob where s: "encode_immediate12 (4 * (t - n)) = Inr s"
    and fs: "fs = [take 3 s, fu, take 9 (drop 3 s), o2, o1, ob]"
    and ws: "list_all2 code_width [3, 3, 9, 5, 5, 7] fs"
    using B_fields [OF assms(1)] assms(2,3) by (metis option.inject pv.inject(1))
  have w: "pack fs = concat fs" using concat_width [OF ws] by (intro pack_word) simp
  have h: "word_field 29 3 (concat fs) = bits_val (take 3 s)"
    using word_field_concat [OF ws, of 0 29 3] by (simp add: fs)
  have l: "word_field 17 9 (concat fs) = bits_val (drop 3 s)"
    using word_field_concat [OF ws, of 2 17 9] target_width(1) [OF s] by (simp add: fs code_width_def)
  have len: "length (drop 3 s) = 9" using target_width(1) [OF s] by (simp add: code_width_def)
  have "bits_val s = bits_val (take 3 s) * 2 ^ 9 + bits_val (drop 3 s)"
    using bits_val_append [of "take 3 s" "drop 3 s"] len by simp
  then have "int (bits_val (take 3 s)) * 2 ^ 9 + int (bits_val (drop 3 s)) = branch_value (4 * (t - n)) mod 2 ^ (3 + 9)"
    using imm12_val(1) [OF s] by simp
  moreover have "bits_val (drop 3 s) < 2 ^ 9" using bits_val_less [of "drop 3 s"] len by simp
  ultimately show ?thesis
    unfolding branch_offset_def w word_sfield_def Let_def h l
    using signed_split [of 3 9 "branch_value (4 * (t - n))"] imm12_val(2,3) [OF s] by simp
qed

lemma J_decode:
  assumes "encode_J_format a ts n = Inr fs"
    and "a_dst a = PStr l" "map_of ts l = Some t"
    and r: "- (2 ^ 22) \<le> t - n" "t - n < 2 ^ 22"
  shows "word_sfield 7 25 (pack fs) = 4 * (t - n)"
proof -
  obtain s ob where s: "encode_immediate_jump (4 * (t - n)) = Inr s"
    and ob: "encode_J_opcode (a_opcode a) = Inr ob" and fs: "fs = [s, ob]"
    using assms(1-3) by (auto simp: encode_J_format_def res_simps push_bit_eq_mult mult.commute)
  have ws: "list_all2 code_width [25, 7] fs"
    using target_width(2) [OF s] ob res_width_opcodes(7) by (auto simp: fs res_width_def)
  have w: "pack fs = concat fs" using concat_width [OF ws] by (intro pack_word) simp
  have f: "word_field 7 25 (concat fs) = bits_val s"
    using word_field_concat [OF ws, of 0 7 25] by (simp add: fs)
  have "signed_val s = 4 * (t - n)"
    using b25.roundtrip_signed [of "4 * (t - n)" s] s r by (simp add: encode_immediate_jump_def)
  then show ?thesis
    using target_width(2) [OF s]
    by (simp add: w word_sfield_def f signed_val_def code_width_def split: if_splits)
qed

section \<open>Properties\<close>

definition ex_loop :: "action list" where
  "ex_loop = [mk_IAction ''addi'' (PStr ''X17'') (PStr ''X16'') (PStr ''5'') (PStr ''loop'') 1,
      (new_action BAction ''branch'' PNone)\<lparr>a_dst := PStr ''loop'', a_funct := PStr ''beqi'',
        a_op1 := PStr ''X16'', a_op2 := PStr ''3''\<rparr>]"

lemma encode_action_I:
  assumes "rename_old a = Inr a" and "in_dict (a_opcode a) I_opcode_enc"
  shows "encode_action a ts n = rmap (\<lambda>(a', fs). (a', Some fs, None)) (encode_I_format a)"
  by (simp add: encode_action_def assms)

lemma ex_addi:
  fixes a defines "a \<equiv> mk_IAction ''addi'' (PStr ''X17'') (PStr ''X16'') (PStr ''5'') (PStr ''loop'') 1"
  shows "rmap (\<lambda>r. fst (snd r)) (encode_action a ts n) =
   Inr (Some [''0000000000000101'', ''0001'', ''10000'', ''0001001''])"
proof -
  have "rename_old a = Inr a" "in_dict (a_opcode a) I_opcode_enc"
    unfolding a_def by code_simp+
  moreover have "rmap snd (encode_I_format a) = Inr [''0000000000000101'', ''0001'', ''10000'', ''0001001'']"
    unfolding a_def by code_simp
  ultimately show ?thesis by (auto simp: encode_action_I rmap_Inr_iff)
qed

lemma ex_target: "encode_immediate12 (- 4) = Inr ''111111111100''"
proof -
  obtain t where t: "encode_immediate12 (- 4) = Inr t"
    using b12.enc_ok [of "- 4"] by (auto simp: encode_immediate12_def)
  moreover from t have "t = field_bits 12 (- 4)"
    using b12.enc_twos [of "- 4"] by (simp add: encode_immediate12_def)
  ultimately show ?thesis by (simp add: field_bits_def to_bits_num bit_chr_def)
qed

lemma ex_beqi_parts:
  "encode_func_of ''beqi'' = Inr ''001''" "int_field encode_immediate5 (PStr ''3'') = Inr ''00011''"
  "encode_register (PStr ''X16'') = Inr ''10000''" "encode_B_opcode ''beqi'' = Inr ''1000011''"
  by code_simp+

lemma ex_beqi: "encode_B_format ((new_action BAction ''branch'' PNone)\<lparr>a_dst := PStr ''loop'', a_funct := PStr ''beqi'',
        a_op1 := PStr ''X16'', a_op2 := PStr ''3''\<rparr>) [(''loop'', 0)] 1 =
   Inr [''111'', ''001'', ''111111100'', ''00011'', ''10000'', ''1000011'']"
  by (simp add: encode_B_format_def new_action_def ex_target ex_beqi_parts reg_branches_def dict_get_def in_dict_def seq_res_Cons_iff seq_res_Nil_iff del: push_bit_minus_one_eq_not_mask)

lemma ex_loop_block:
  "rmap bo_words (encode_action_block ex_loop [] []) =
   Inr [''00000000000001010001100000001001'', ''11100111111110000011100001000011'']"
proof -
  have ts: "resolve_branch_targets ex_loop = Inr [(''loop'', 0)]"
    by (simp add: resolve_branch_targets_def ex_loop_def label_step_def in_dict_def dict_set_def mk_IAction_def
        new_action_def)
  have f: "pv_in (PStr ''beqi'') B_opcode_enc = Inr True" by code_simp
  let ?addi = "mk_IAction ''addi'' (PStr ''X17'') (PStr ''X16'') (PStr ''5'') (PStr ''loop'') 1"
  obtain a c where "encode_action ?addi [(''loop'', 0)] 0 =
      Inr (a, Some [''0000000000000101'', ''0001'', ''10000'', ''0001001''], c)"
    using ex_addi [of "[(''loop'', 0)]" 0] by (auto simp: rmap_Inr_iff)
  moreover have br: "ex_loop ! 1 = (new_action BAction ''branch'' PNone)\<lparr>a_dst := PStr ''loop'', a_funct := PStr ''beqi'',
        a_op1 := PStr ''X16'', a_op2 := PStr ''3''\<rparr>" by (simp add: ex_loop_def)
  moreover have "encode_action (ex_loop ! 1) [(''loop'', 0)] 1 =
      Inr (ex_loop ! 1, Some [''111'', ''001'', ''111111100'', ''00011'', ''10000'', ''1000011''], None)"
    unfolding br using f
    by (subst encode_action_branch) (simp_all only: ex_beqi plain_def, simp_all add: new_action_def)
  ultimately show ?thesis
    by (simp add: encode_action_block_def ts)
      (simp add: ex_loop_def encode_step_def pack_def Let_def split: option.split)
qed

text \<open>C8: In a block whose actions all yield a word, the offset that the hardware reads from a branch is
  the distance in bytes from the branch to the action that carries its label, when that is less than
  512 actions away. The encoder accepts some longer distances as well and does not report them: a
  forward distance of 2048 to 4095 bytes is read as a backward one, and of a backward distance of more
  than 2048 bytes only the low 11 bits are kept.\<close>

theorem block_branch_target:
  assumes "encode_action_block as [] data = Inr out" and "length (bo_words out) = length as"
    and "i < length as" "a_opcode (as ! i) = ''branch''" "a_dst (as ! i) = PStr l"
    and "j < length as" "a_label (as ! j) = PStr l" "l \<noteq> []"
    and "v = 4 * (int j - int i)"
  shows "branch_offset (bo_words out ! i) =
    (if v < - 2048 then v mod 2048 - 2048 else if 2048 \<le> v then v - 4096 else v) \<and>
    (\<bar>int j - int i\<bar> < 512 \<longrightarrow> branch_offset (bo_words out ! i) = 4 * (int j - int i))"
proof -
  obtain ts a' fs c where b: "resolve_branch_targets as = Inr ts"
    "encode_action (as ! i) ts (int i) = Inr (a', Some fs, c)" "bo_words out ! i = pack fs"
    using block_nth [OF assms(1,2,3)] .
  have t: "map_of ts l = Some (int j)" using assms(6-8) resolve_labels [OF b(1)] by auto
  have "branch_offset (bo_words out ! i) = branch_value v"
    using B_decode [OF encode_branch [OF b(2) assms(4)] assms(5) t] assms(9) b(3) by simp
  moreover have "branch_value v = (if v < - 2048 then v mod 2048 - 2048 else if 2048 \<le> v then v - 4096 else v)"
  proof -
    have "v mod 2048 < 2048" by simp
    then have "v mod 2048 < 4096" by linarith
    then show ?thesis by (simp add: branch_value_def kept_def)
  qed
  moreover have "\<not> v < - 2048 \<and> \<not> 2048 \<le> v" if "\<bar>int j - int i\<bar> < 512"
    using that assms(9) by (auto simp: abs_less_iff)
  ultimately show ?thesis using assms(9) by simp
qed

theorem block_branch_target_witness:
  "\<exists>out. encode_action_block ex_loop [] [] = Inr out \<and> branch_offset (bo_words out ! 1) = - 4"
proof -
  obtain out where o: "encode_action_block ex_loop [] [] = Inr out"
    "bo_words out = [''00000000000001010001100000001001'', ''11100111111110000011100001000011'']"
    using ex_loop_block by (auto simp: rmap_Inr_iff)
  have "branch_offset (bo_words out ! 1) = - 4"
    by (rule block_branch_target [OF o(1), where l = "''loop''" and i = 1 and j = 0, THEN conjunct2, THEN mp, THEN trans])
      (simp_all add: o(2), simp_all add: ex_loop_def mk_IAction_def new_action_def)
  with o(1) show ?thesis by auto
qed

text \<open>The 25-bit field of a jump reads back as the distance in bytes from the jump to its label.\<close>

theorem jump_target_read_back:
  assumes "encode_J_format a ts n = Inr fs" and "a_dst a = PStr l" and "map_of ts l = Some t"
    and "- (2 ^ 22) \<le> t - n" "t - n < 2 ^ 22"
  shows "word_sfield 7 25 (pack fs) = 4 * (t - n)"
  using J_decode [OF assms] .

theorem jump_target_read_back_witness:
  "\<exists>fs. encode_J_format ((new_action IAction ''jmp'' PNone)\<lparr>a_dst := PStr ''end''\<rparr>) [(''end'', 7)] 2 = Inr fs \<and>
     word_sfield 7 25 (pack fs) = 20"
proof -
  let ?a = "(new_action IAction ''jmp'' PNone)\<lparr>a_dst := PStr ''end''\<rparr>"
  obtain fs where fs: "encode_J_format ?a [(''end'', 7)] 2 = Inr fs"
    using b25.enc_ok [of 20]
    by (auto simp: encode_J_format_def new_action_def res_simps in_dict_def encode_immediate_jump_def
        encode_J_opcode_def J_opcode_enc_def)
  then show ?thesis using jump_target_read_back [OF fs, of "''end''" 7] by (simp add: new_action_def)
qed

text \<open>C18: At the place that the layout of an I-format instruction gives to a field, the word holds the
  operand of the action: for the source the number of its register, for the destination the lower four
  bits of that number, for an immediate field the bits of the immediate, as two's complement when the
  field is signed. An immediate below \<open>-(2^15)\<close> is not refused; the word holds \<open>v mod 2^15 - 2^15\<close>
  in its place.\<close>

theorem I_fields_read_back:
  assumes "encode_I_format a = Inr (a', fs)" and "map_of I_bitfields (a_opcode a') = Some bf"
    and "f \<in> set (bitfield_layout bf)"
  shows "if fc_kind f \<in> {FR5, FR4} then I_operand a' f = Inr (read_field f (pack fs))
    else \<exists>v. pv_int (a_imm a') = Inr v \<and>
      (if v < - (2 ^ 15) then I_operand (a'\<lparr>a_imm := PInt (v mod 2 ^ 15 - 2 ^ 15)\<rparr>) f = Inr (read_field f (pack fs))
       else I_operand a' f = Inr (read_field f (pack fs)))"
proof -
  have "I_operand (a'\<lparr>a_imm := PInt v\<rparr>) f = I_operand a' f" if "pv_int (a_imm a') = Inr v" for v
    using that by (simp add: I_operand_def)
  then show ?thesis using I_decode [OF assms] by (auto simp: kept_def split: if_splits)
qed

theorem I_fields_read_back_witness:
  "\<exists>a' fs. encode_I_format (mk_IAction ''addi'' (PStr ''X17'') (PStr ''X16'') (PStr ''5'') PNone 1) = Inr (a', fs) \<and>
     I_operand a' \<lparr>fc_name = ''imm'', fc_kind = FSi, fc_shift = 16, fc_nbits = 16, fc_mask = 65535, fc_signed = True\<rparr> = Inr 5 \<and>
     read_field \<lparr>fc_name = ''imm'', fc_kind = FSi, fc_shift = 16, fc_nbits = 16, fc_mask = 65535, fc_signed = True\<rparr> (pack fs) = 5"
proof -
  let ?f = "\<lparr>fc_name = ''imm'', fc_kind = FSi, fc_shift = 16, fc_nbits = 16, fc_mask = 65535,
     fc_signed = True\<rparr>"
  let ?a = "mk_IAction ''addi'' (PStr ''X17'') (PStr ''X16'') (PStr ''5'') PNone 1"
  have "rmap (\<lambda>r. (a_opcode (fst r), pv_int (a_imm (fst r)), pack (snd r))) (encode_I_format ?a) =
      Inr (''addi'', Inr 5, ''00000000000001010001100000001001'')" by code_simp
  then obtain a' fs where e: "encode_I_format ?a = Inr (a', fs)" and a': "a_opcode a' = ''addi''"
    "pv_int (a_imm a') = Inr 5"
    by (auto simp: rmap_Inr_iff)
  have "\<exists>bf. map_of I_bitfields ''addi'' = Some bf \<and> ?f \<in> set (bitfield_layout bf)"
    by (simp add: I_bitfields_def bitfield_layout_def)
  then obtain bf where "map_of I_bitfields ''addi'' = Some bf" "?f \<in> set (bitfield_layout bf)" by blast
  then have "I_operand a' ?f = Inr (read_field ?f (pack fs))"
    using I_fields_read_back [OF e, of bf ?f] a' by simp
  moreover have "I_operand a' ?f = Inr 5" using a' by (simp add: I_operand_def sext_def)
  ultimately show ?thesis using e by simp
qed

end
