(* ===== verification/Asm_EFA.thy ===== *)
theory Asm_EFA imports Asm_Action begin

text \<open>
  The state machine that an assembly program builds: the classes \<open>State\<close>, \<open>Transition\<close> and \<open>EFA\<close>
  of \<open>src/updown/udbasim/assembler/EFA_v2.py\<close>.  Objects live in two heaps, lists indexed by
  reference; a state holds the references of its transitions in a list and in two dictionaries, a
  transition those of its two states.  The class attributes \<open>global_id\<close> and the print counter are
  part of the world.  A world has one \<open>EFA\<close> object, the one that is assembled.
\<close>

section \<open>Objects\<close>

type_synonym state_ref = nat
type_synonym tran_ref = nat

record transition =
  t_name :: string
  t_trans_id :: int
  t_src :: state_ref
  t_dst :: state_ref
  t_label :: int
  t_anno_type :: string
  t_actions :: "action list"
  t_maxop :: int
  t_maxudp :: int
  t_labeldict :: "(string, string) dict"
  t_refill_val :: int

record state =
  s_EFA_id :: int
  s_state_id :: int
  s_trans :: "tran_ref list"
  s_label_dict :: "(int, tran_ref) dict"
  s_name_dict :: "(string, tran_ref) dict"
  s_marked :: bool

record efa =
  e_names :: "(int, string) dict"
  e_states :: "state_ref list"
  e_init_state_id :: "int list"
  e_sharedBlock :: "(string, action list) dict"
  e_sharedBlocklabels :: "(string, (string, string) dict) dict"
  e_EFA_sharedblocks :: "(int, string list) dict"
  e_sharedBlock_state_links :: "(string, state_ref list) dict"
  e_udpsize :: int

record world =
  w_states :: "state list"
  w_trans :: "transition list"
  w_state_id :: int
  w_tran_id :: int
  w_cnt :: int
  w_efa :: efa

definition UNDEFINED :: int where
  "UNDEFINED = 0xFFFFFFFF"

section \<open>Constructors\<close>

text \<open>\<open>EFA()\<close> clears the two class counters; objects made before stay in the heap.\<close>

definition new_EFA :: efa where
  "new_EFA = \<lparr>e_names = [], e_states = [], e_init_state_id = [], e_sharedBlock = [],
     e_sharedBlocklabels = [], e_EFA_sharedblocks = [], e_sharedBlock_state_links = [],
     e_udpsize = 0\<rparr>"

definition EFA :: "world \<Rightarrow> world" where
  "EFA w = w\<lparr>w_efa := new_EFA, w_state_id := 0, w_tran_id := 10000\<rparr>"

definition new_world :: world where
  "new_world = \<lparr>w_states = [], w_trans = [], w_state_id = 0, w_tran_id = 10000, w_cnt = 0,
     w_efa = new_EFA\<rparr>"

definition State :: "world \<Rightarrow> world \<times> state_ref" where
  "State w =
     (w\<lparr>w_states := w_states w @ [\<lparr>s_EFA_id = UNDEFINED, s_state_id = w_state_id w, s_trans = [],
          s_label_dict = [], s_name_dict = [], s_marked = False\<rparr>],
        w_state_id := w_state_id w + 1\<rparr>, length (w_states w))"

text \<open>The label of \<open>writeTransition\<close>: a number, or a name that gets the identifier as label\<close>

datatype label = LInt int | LName string

definition Transition ::
  "state_ref \<Rightarrow> state_ref \<Rightarrow> label \<Rightarrow> string \<Rightarrow> int option \<Rightarrow> int \<Rightarrow> transition" where
  "Transition src dst label anno_type refill_val trans_id =
     \<lparr>t_name = (case label of LInt n \<Rightarrow> py_str n | LName s \<Rightarrow> s), t_trans_id = trans_id,
      t_src = src, t_dst = dst, t_label = (case label of LInt n \<Rightarrow> n | LName s \<Rightarrow> trans_id),
      t_anno_type = anno_type, t_actions = [], t_maxop = 0, t_maxudp = 0, t_labeldict = [],
      t_refill_val = (case refill_val of None \<Rightarrow> 0 | Some v \<Rightarrow> v)\<rparr>"

section \<open>States\<close>

definition upd_state :: "state_ref \<Rightarrow> (state \<Rightarrow> state) \<Rightarrow> world \<Rightarrow> world" where
  "upd_state s f w = w\<lparr>w_states := (w_states w)[s := f (w_states w ! s)]\<rparr>"

definition upd_tran :: "tran_ref \<Rightarrow> (transition \<Rightarrow> transition) \<Rightarrow> world \<Rightarrow> world" where
  "upd_tran t f w = w\<lparr>w_trans := (w_trans w)[t := f (w_trans w ! t)]\<rparr>"

text \<open>\<open>State.add_tran\<close> of the transition \<open>tr\<close> stored at \<open>t\<close>\<close>

definition add_tran :: "tran_ref \<Rightarrow> transition \<Rightarrow> state \<Rightarrow> state" where
  "add_tran t tr st =
     st\<lparr>s_trans := s_trans st @ [t],
        s_label_dict := dict_set (t_label tr) t (s_label_dict st),
        s_name_dict := dict_set (t_name tr) t (s_name_dict st)\<rparr>"

text \<open>A label that the state has already, by number or by name\<close>

definition label_known :: "label \<Rightarrow> state \<Rightarrow> bool" where
  "label_known label st =
     (case label of LInt n \<Rightarrow> in_dict n (s_label_dict st) | LName s \<Rightarrow> in_dict s (s_name_dict st))"

definition writeTransition ::
  "state_ref \<Rightarrow> string \<Rightarrow> state_ref \<Rightarrow> state_ref \<Rightarrow> label \<Rightarrow> int option \<Rightarrow> world
     \<Rightarrow> world \<times> tran_ref option" where
  "writeTransition self anno_type src dst label refill_val w =
     (if label_known label (w_states w ! self) then (w, None)
      else
        let t = length (w_trans w);
            tran = Transition src dst label anno_type refill_val (w_tran_id w)
        in (upd_state self (add_tran t tran)
              (w\<lparr>w_trans := w_trans w @ [tran], w_tran_id := w_tran_id w + 1\<rparr>), Some t))"

text \<open>The transitions of a state, and the searches among them\<close>

definition trans_of :: "world \<Rightarrow> state_ref \<Rightarrow> transition list" where
  "trans_of w s = map (\<lambda>t. w_trans w ! t) (s_trans (w_states w ! s))"

definition get_tran_byAnnotation :: "world \<Rightarrow> state_ref \<Rightarrow> string \<Rightarrow> transition list" where
  "get_tran_byAnnotation w s anno_type = filter (\<lambda>tr. t_anno_type tr = anno_type) (trans_of w s)"

definition get_tran_byLabel :: "world \<Rightarrow> state_ref \<Rightarrow> int \<Rightarrow> transition list" where
  "get_tran_byLabel w s label = filter (\<lambda>tr. t_label tr = label) (trans_of w s)"

definition get_tran_byDest :: "world \<Rightarrow> state_ref \<Rightarrow> state_ref \<Rightarrow> transition list" where
  "get_tran_byDest w s dst = filter (\<lambda>tr. t_dst tr = dst) (trans_of w s)"

definition get_dst :: "world \<Rightarrow> state_ref \<Rightarrow> int \<Rightarrow> state_ref list" where
  "get_dst w s label = map t_dst (filter (\<lambda>tr. t_label tr = label) (trans_of w s))"

text \<open>
  \<open>get_tran\<close> without a destination adds the epsilon transitions of the states reached; with one,
  the label -1 stands for every label.
\<close>

definition get_tran :: "world \<Rightarrow> state_ref \<Rightarrow> int \<Rightarrow> state_ref option \<Rightarrow> transition list" where
  "get_tran w s label dst =
     (case dst of
        None \<Rightarrow>
          (let res = get_tran_byLabel w s label
           in res @ concat (map (\<lambda>tr. get_tran_byAnnotation w (t_dst tr) ''epsilon'') res))
      | Some d \<Rightarrow>
          if label \<noteq> - 1 then filter (\<lambda>tr. t_dst tr = d \<and> t_label tr = label) (trans_of w s)
          else get_tran_byDest w s d)"

definition getTranByName :: "world \<Rightarrow> state_ref \<Rightarrow> string \<Rightarrow> transition option" where
  "getTranByName w s name =
     map_option (\<lambda>t. w_trans w ! t) (map_of (s_name_dict (w_states w ! s)) name)"

definition getTranLabelByName :: "world \<Rightarrow> state_ref \<Rightarrow> string \<Rightarrow> int option" where
  "getTranLabelByName w s name = map_option t_label (getTranByName w s name)"

definition getSize :: "world \<Rightarrow> state_ref \<Rightarrow> nat \<times> nat" where
  "getSize w s =
     (length (s_trans (w_states w ! s)), sum_list (map (\<lambda>tr. length (t_actions tr)) (trans_of w s)))"

section \<open>Transitions\<close>

definition set_last :: "int \<Rightarrow> action list \<Rightarrow> action list" where
  "set_last n as = (if as = [] then [] else butlast as @ [(last as)\<lparr>a_last := PInt n\<rparr>])"

definition addAction :: "action \<Rightarrow> transition \<Rightarrow> transition" where
  "addAction action tr =
     tr\<lparr>t_actions := set_last 0 (t_actions tr) @
          [if a_opcode action = ''goto'' then action\<lparr>a_last := PInt 0\<rparr> else action]\<rparr>"

text \<open>The position of a label, as text: labels are texts, a missing one is \<open>None\<close>.\<close>

definition note_label :: "pv \<Rightarrow> nat \<Rightarrow> (string, string) dict \<Rightarrow> (string, string) dict" where
  "note_label l n d = (case l of PStr s \<Rightarrow> dict_set s (py_str (int n - 1)) d | _ \<Rightarrow> d)"

definition writeAction :: "tran_ref \<Rightarrow> string \<Rightarrow> world \<Rightarrow> (world \<times> action) res" where
  "writeAction t asm_inst w =
     rbind (GetAction asm_inst (w_cnt w)) (\<lambda>(action, maxudp, maxop, cnt).
     let tr = addAction action (w_trans w ! t);
         tr1 = tr\<lparr>t_labeldict := note_label (a_label action) (length (t_actions tr)) (t_labeldict tr),
                  t_maxudp := max (t_maxudp tr) maxudp, t_maxop := max (t_maxop tr) maxop\<rparr>
     in Inr (upd_tran t (\<lambda>_. tr1) (w\<lparr>w_cnt := cnt\<rparr>), action))"

section \<open>The EFA\<close>

definition upd_efa :: "(efa \<Rightarrow> efa) \<Rightarrow> world \<Rightarrow> world" where
  "upd_efa f w = w\<lparr>w_efa := f (w_efa w)\<rparr>"

definition add_state :: "state_ref \<Rightarrow> efa \<Rightarrow> efa" where
  "add_state s e = e\<lparr>e_states := e_states e @ [s]\<rparr>"

definition add_name :: "int \<Rightarrow> string \<Rightarrow> efa \<Rightarrow> efa" where
  "add_name i name e = e\<lparr>e_names := dict_set i name (e_names e)\<rparr>"

definition add_initId :: "int \<Rightarrow> efa \<Rightarrow> efa" where
  "add_initId init_id e = e\<lparr>e_init_state_id := e_init_state_id e @ [init_id]\<rparr>"

definition get_state :: "world \<Rightarrow> int \<Rightarrow> state_ref option" where
  "get_state w state_id =
     find (\<lambda>s. s_state_id (w_states w ! s) = state_id) (e_states (w_efa w))"

text \<open>\<open>EFA.get_tran\<close>\<close>

definition get_tran_by_id :: "world \<Rightarrow> int \<Rightarrow> transition option" where
  "get_tran_by_id w trans_id =
     find (\<lambda>tr. t_trans_id tr = trans_id) (concat (map (trans_of w) (e_states (w_efa w))))"

text \<open>
  A block action: \<open>inst\<close> is an instruction text.  The block marks its last action; the size of the
  register file is kept, the label goes to the table of the block.
\<close>

definition append_block :: "string \<Rightarrow> action \<Rightarrow> efa \<Rightarrow> efa" where
  "append_block blockid action e =
     (let as = (case map_of (e_sharedBlock e) blockid of None \<Rightarrow> [] | Some as \<Rightarrow> set_last 0 as)
               @ [action\<lparr>a_last := PInt 1\<rparr>];
          labels = (case map_of (e_sharedBlock e) blockid of
                      None \<Rightarrow> []
                    | Some _ \<Rightarrow> (case map_of (e_sharedBlocklabels e) blockid of
                                   None \<Rightarrow> [] | Some d \<Rightarrow> d))
      in e\<lparr>e_sharedBlock := dict_set blockid as (e_sharedBlock e),
           e_sharedBlocklabels :=
             dict_set blockid (note_label (a_label action) (length as) labels)
               (e_sharedBlocklabels e)\<rparr>)"

definition appendBlockAction :: "string \<Rightarrow> string \<Rightarrow> world \<Rightarrow> world res" where
  "appendBlockAction blockid inst w =
     rbind (GetAction inst (w_cnt w)) (\<lambda>(action, maxudp, maxop, cnt).
     Inr (upd_efa (\<lambda>e. append_block blockid action (e\<lparr>e_udpsize := max (e_udpsize e) maxudp\<rparr>))
       (w\<lparr>w_cnt := cnt\<rparr>)))"

definition linkBlocktoState :: "string \<Rightarrow> state_ref \<Rightarrow> efa \<Rightarrow> efa" where
  "linkBlocktoState blockid s e =
     e\<lparr>e_sharedBlock_state_links :=
         dict_set blockid
           ((case map_of (e_sharedBlock_state_links e) blockid of None \<Rightarrow> [] | Some ss \<Rightarrow> ss) @ [s])
           (e_sharedBlock_state_links e)\<rparr>"

text \<open>The number of registers: the largest index of a transition or of the size so far\<close>

definition all_trans :: "world \<Rightarrow> transition list" where
  "all_trans w = concat (map (trans_of w) (e_states (w_efa w)))"

definition getUdpSize :: "world \<Rightarrow> world" where
  "getUdpSize w =
     upd_efa (\<lambda>e. e\<lparr>e_udpsize := fold (\<lambda>tr n. max n (t_maxudp tr)) (all_trans w) (e_udpsize e)\<rparr>) w"

definition calcUdpSize :: "world \<Rightarrow> world" where
  "calcUdpSize w = upd_efa (\<lambda>e. e\<lparr>e_udpsize := e_udpsize e + 1\<rparr>) (getUdpSize w)"

text \<open>
  \<open>fixlabels\<close>: the target of a branch to a label (\<open>dst_issb\<close> 2) becomes the position of the label;
  a label that the block does not have ends the program.
\<close>

definition fix_action :: "(string, string) dict \<Rightarrow> action \<Rightarrow> action res" where
  "fix_action labels a =
     (if a_class a = BAction \<and> a_dst_issb a = PInt 2 then
        rmap (\<lambda>p. a\<lparr>a_dst := PStr p\<rparr>)
          (case a_dst a of PStr l \<Rightarrow> dict_get labels l SysExit | _ \<Rightarrow> Inl SysExit)
      else Inr a)"

definition fix_tran :: "tran_ref \<Rightarrow> world \<Rightarrow> world res" where
  "fix_tran t w =
     (let tr = w_trans w ! t
      in rmap (\<lambda>as. upd_tran t (\<lambda>_. tr\<lparr>t_actions := as\<rparr>) w)
           (seq_res (map (fix_action (t_labeldict tr)) (t_actions tr))))"

definition fix_block :: "string \<Rightarrow> world \<Rightarrow> world res" where
  "fix_block k w =
     (case map_of (e_sharedBlock (w_efa w)) k of
        None \<Rightarrow> Inr w
      | Some as \<Rightarrow>
          rmap (\<lambda>as. upd_efa (\<lambda>e. e\<lparr>e_sharedBlock := dict_set k as (e_sharedBlock e)\<rparr>) w)
            (seq_res (map (fix_action (case map_of (e_sharedBlocklabels (w_efa w)) k of
                                         None \<Rightarrow> [] | Some d \<Rightarrow> d)) as)))"

definition fixlabels :: "world \<Rightarrow> world res" where
  "fixlabels w =
     rbind (foldr_res fix_tran
              (concat (map (\<lambda>s. s_trans (w_states w ! s)) (e_states (w_efa w)))) w) (\<lambda>w1.
     foldr_res fix_block (map fst (e_sharedBlock (w_efa w1))) w1)"


section \<open>Invariant\<close>

definition state_inv :: "world \<Rightarrow> state_ref \<Rightarrow> bool" where
  "state_inv w s =
     ((\<forall>t\<in>set (s_trans (w_states w ! s)). t < length (w_trans w)) \<and>
      (\<forall>n. in_dict n (s_label_dict (w_states w ! s)) \<longleftrightarrow> n \<in> t_label ` set (trans_of w s)) \<and>
      (\<forall>n. in_dict n (s_name_dict (w_states w ! s)) \<longleftrightarrow> n \<in> t_name ` set (trans_of w s)) \<and>
      distinct (map t_label (trans_of w s)) \<and>
      (\<forall>tr\<in>set (trans_of w s).
         (t_label tr < 10000 \<or> t_label tr = t_trans_id tr) \<and> t_trans_id tr < w_tran_id w))"

definition world_inv :: "world \<Rightarrow> bool" where
  "world_inv w = (10000 \<le> w_tran_id w \<and> (\<forall>s<length (w_states w). state_inv w s))"

definition plain_label :: "label \<Rightarrow> bool" where
  "plain_label l = (case l of LInt n \<Rightarrow> n < 10000 | LName s \<Rightarrow> True)"

lemma world_inv_new: "world_inv new_world"
  by (simp add: world_inv_def new_world_def)

lemma state_inv_cong:
  assumes "w_states w' ! s' = w_states w ! s" and "w_tran_id w \<le> w_tran_id w'"
    and "length (w_trans w) \<le> length (w_trans w')"
    and "\<And>t. t \<in> set (s_trans (w_states w ! s)) \<Longrightarrow> t < length (w_trans w) \<Longrightarrow>
      t_label (w_trans w' ! t) = t_label (w_trans w ! t) \<and> t_name (w_trans w' ! t) = t_name (w_trans w ! t) \<and>
      t_trans_id (w_trans w' ! t) = t_trans_id (w_trans w ! t)"
    and "state_inv w s"
  shows "state_inv w' s'"
proof -
  have b: "t < length (w_trans w)" if "t \<in> set (s_trans (w_states w ! s))" for t
    using assms(5) that by (simp add: state_inv_def)
  have l: "map t_label (trans_of w' s') = map t_label (trans_of w s)"
    "map t_name (trans_of w' s') = map t_name (trans_of w s)"
    "map t_trans_id (trans_of w' s') = map t_trans_id (trans_of w s)"
    using assms(1,4) b by (auto simp: trans_of_def)
  then have "t_label ` set (trans_of w' s') = t_label ` set (trans_of w s)"
    "t_name ` set (trans_of w' s') = t_name ` set (trans_of w s)"
    by (metis list.set_map)+
  moreover have "\<forall>tr\<in>set (trans_of w' s').
         (t_label tr < 10000 \<or> t_label tr = t_trans_id tr) \<and> t_trans_id tr < w_tran_id w'"
    using assms(1,2,4,5) b by (fastforce simp: state_inv_def trans_of_def)
  moreover have "\<forall>t\<in>set (s_trans (w_states w ! s)). t < length (w_trans w')"
    using b assms(3) by fastforce
  ultimately show ?thesis
    using assms(5) l(1) unfolding state_inv_def assms(1) by simp
qed

lemma world_inv_State: "world_inv w \<Longrightarrow> world_inv (fst (State w))"
proof -
  assume i: "world_inv w"
  have "state_inv (fst (State w)) s" if "s < length (w_states w)" for s
    by (rule state_inv_cong [of _ s w s]) (use i that in \<open>auto simp: State_def nth_append world_inv_def\<close>)
  moreover have "state_inv (fst (State w)) (length (w_states w))"
    by (simp add: State_def state_inv_def trans_of_def in_dict_def nth_append)
  ultimately show ?thesis using i by (auto simp: world_inv_def State_def less_Suc_eq)
qed

lemma trans_of_written:
  assumes "\<not> label_known label (w_states w ! self)" and "self < length (w_states w)" and "state_inv w self"
    and "writeTransition self anno src dst label r w = (w', Some t)"
  shows "trans_of w' self = trans_of w self @ [Transition src dst label anno r (w_tran_id w)]"
    and "t = length (w_trans w)"
proof -
  have "map ((!) (w_trans w @ [x])) (s_trans (w_states w ! self)) = trans_of w self" for x
    using assms(3) by (auto simp: state_inv_def trans_of_def nth_append)
  then show "trans_of w' self = trans_of w self @ [Transition src dst label anno r (w_tran_id w)]"
    using assms by (auto simp: writeTransition_def Let_def upd_state_def trans_of_def add_tran_def nth_append)
  show "t = length (w_trans w)" using assms by (simp add: writeTransition_def Let_def)
qed

lemma world_inv_writeTransition:
  assumes i: "world_inv w" and self: "self < length (w_states w)" and l: "plain_label label"
    and wr: "writeTransition self anno src dst label r w = (w', x)"
  shows "world_inv w'"
proof (cases "label_known label (w_states w ! self)")
  case True
  then show ?thesis using i wr by (simp add: writeTransition_def)
next
  case new: False
  have si: "state_inv w self" using i self by (simp add: world_inv_def)
  define tran where "tran = Transition src dst label anno r (w_tran_id w)"
  have w': "w' = upd_state self (add_tran (length (w_trans w)) tran)
      (w\<lparr>w_trans := w_trans w @ [tran], w_tran_id := w_tran_id w + 1\<rparr>)" and x: "x = Some (length (w_trans w))"
    using wr new by (simp_all add: writeTransition_def Let_def tran_def)
  note tr = trans_of_written(1) [OF new self si wr [unfolded x], folded tran_def]
  have lab: "t_label tran \<notin> t_label ` set (trans_of w self)"
    using new si i by (cases label) (force simp: tran_def Transition_def label_known_def state_inv_def world_inv_def)+
  have st: "w_states w' ! self = add_tran (length (w_trans w)) tran (w_states w ! self)"
    and len: "length (w_trans w') = Suc (length (w_trans w))" and ids: "w_tran_id w' = w_tran_id w + 1"
    using self by (simp_all add: w' upd_state_def)
  have "state_inv w' s" if "s < length (w_states w)" "s \<noteq> self" for s
    by (rule state_inv_cong [of _ s w s])
      (use i that in \<open>auto simp: w' upd_state_def nth_append world_inv_def\<close>)
  moreover have "state_inv w' self" unfolding state_inv_def
  proof (intro conjI)
    show "\<forall>t\<in>set (s_trans (w_states w' ! self)). t < length (w_trans w')"
      using si by (auto simp: st len add_tran_def state_inv_def)
    show "\<forall>n. in_dict n (s_label_dict (w_states w' ! self)) \<longleftrightarrow> n \<in> t_label ` set (trans_of w' self)"
      using si by (auto simp: st tr add_tran_def state_inv_def)
    show "\<forall>n. in_dict n (s_name_dict (w_states w' ! self)) \<longleftrightarrow> n \<in> t_name ` set (trans_of w' self)"
      using si by (auto simp: st tr add_tran_def state_inv_def)
    show "distinct (map t_label (trans_of w' self))"
      using si lab by (simp add: tr state_inv_def)
    have "t_label tran < 10000 \<or> t_label tran = t_trans_id tran" "t_trans_id tran = w_tran_id w"
      using l by (cases label; simp add: tran_def Transition_def plain_label_def)+
    then show "\<forall>t\<in>set (trans_of w' self).
         (t_label t < 10000 \<or> t_label t = t_trans_id t) \<and> t_trans_id t < w_tran_id w'"
      using si by (auto simp: tr ids state_inv_def)
  qed
  ultimately show ?thesis using i by (auto simp: world_inv_def w' upd_state_def)
qed

lemma update_nth: "i < length xs \<Longrightarrow> xs[k := x] ! i = (if i = k then x else xs ! i)"
  by (simp add: nth_list_update)

lemma world_inv_writeAction:
  assumes "world_inv w" and "writeAction t inst w = Inr (w', a)"
  shows "world_inv w'"
proof -
  obtain action maxudp maxop cnt where w': "w' = upd_tran t (\<lambda>_. let tr = addAction action (w_trans w ! t)
     in tr\<lparr>t_labeldict := note_label (a_label action) (length (t_actions tr)) (t_labeldict tr),
                  t_maxudp := max (t_maxudp tr) maxudp, t_maxop := max (t_maxop tr) maxop\<rparr>) (w\<lparr>w_cnt := cnt\<rparr>)"
    using assms(2) by (auto simp: writeAction_def rbind_Inr_iff Let_def)
  have "state_inv w' s" if "s < length (w_states w)" for s
    by (rule state_inv_cong [of _ s w s])
      (use assms(1) that in \<open>auto simp: w' upd_tran_def update_nth addAction_def Let_def world_inv_def\<close>)
  then show ?thesis using assms(1) by (simp add: world_inv_def w' upd_tran_def)
qed

lemma world_inv_efa: "world_inv w \<Longrightarrow> world_inv (upd_efa f w)"
  by (auto simp: world_inv_def upd_efa_def intro: state_inv_cong [of _ _ w])

lemma world_inv_block: "world_inv w \<Longrightarrow> appendBlockAction b inst w = Inr w' \<Longrightarrow> world_inv w'"
  by (auto simp: appendBlockAction_def rbind_Inr_iff world_inv_def upd_efa_def intro: state_inv_cong [of _ _ w])

text \<open>A written transition is found by its label, alone.\<close>

lemma written_found:
  assumes i: "world_inv w" and self: "self < length (w_states w)" and l: "plain_label label"
    and wr: "writeTransition self anno src dst label r w = (w', x)"
  shows "(x = None \<longleftrightarrow> label_known label (w_states w ! self)) \<and>
    (x \<noteq> None \<longrightarrow> (\<exists>tr. get_tran_byLabel w' self (t_label tr) = [tr] \<and> t_src tr = src \<and> t_dst tr = dst \<and>
       t_anno_type tr = anno \<and> t_actions tr = [] \<and> (\<forall>n. label = LInt n \<longrightarrow> t_label tr = n)))"
proof (cases "label_known label (w_states w ! self)")
  case True
  then show ?thesis using wr by (simp add: writeTransition_def)
next
  case new: False
  have si: "state_inv w self" using i self by (simp add: world_inv_def)
  obtain t where x: "x = Some t" using wr new by (auto simp: writeTransition_def Let_def)
  let ?tr = "Transition src dst label anno r (w_tran_id w)"
  note tr = trans_of_written(1) [OF new self si wr [unfolded x]]
  have "state_inv w' self"
    using world_inv_writeTransition [OF i self l wr] self wr new
    by (auto simp: world_inv_def writeTransition_def Let_def upd_state_def)
  then have "t_label ?tr \<notin> t_label ` set (trans_of w self)" by (simp add: state_inv_def tr)
  then have "get_tran_byLabel w' self (t_label ?tr) = [?tr]"
    by (auto simp: get_tran_byLabel_def tr filter_empty_conv intro: rev_image_eqI)
  then show ?thesis using x new
    by (intro conjI) (simp, intro impI exI [of _ ?tr], simp add: Transition_def)
qed


section \<open>Labels of a transition\<close>

definition labels_sound :: "(string, string) dict \<Rightarrow> action list \<Rightarrow> bool" where
  "labels_sound d as =
     (\<forall>l p. map_of d l = Some p \<longrightarrow> (\<exists>i<length as. p = py_str (int i) \<and> a_label (as ! i) = PStr l))"

lemma length_set_last [simp]: "length (set_last n as) = length as"
  by (cases as rule: rev_cases) (simp_all add: set_last_def)

lemma label_set_last [simp]: "i < length as \<Longrightarrow> a_label (set_last n as ! i) = a_label (as ! i)"
  by (cases as rule: rev_cases) (auto simp: set_last_def nth_append)

lemma labels_sound_extend:
  assumes "labels_sound d as" and "length bs = length as" and "a_label b = a_label a"
    and "\<And>i. i < length as \<Longrightarrow> a_label (bs ! i) = a_label (as ! i)"
  shows "labels_sound (note_label (a_label a) (Suc (length as)) d) (bs @ [b])"
  unfolding labels_sound_def
proof (intro allI impI)
  fix l p assume m: "map_of (note_label (a_label a) (Suc (length as)) d) l = Some p"
  show "\<exists>i<length (bs @ [b]). p = py_str (int i) \<and> a_label ((bs @ [b]) ! i) = PStr l"
  proof (cases "a_label a = PStr l")
    case True
    then show ?thesis using m assms(2,3)
      by (intro exI [of _ "length bs"]) (auto simp: note_label_def nth_append)
  next
    case False
    then have "map_of d l = Some p" using m by (auto simp: note_label_def split: pv.splits if_splits)
    then obtain i where "i < length as" "p = py_str (int i)" "a_label (as ! i) = PStr l"
      using assms(1) by (auto simp: labels_sound_def)
    then show ?thesis using assms(2,4) by (intro exI [of _ i]) (simp add: nth_append)
  qed
qed

lemma addAction_labels:
  "labels_sound d (t_actions tr) \<Longrightarrow>
   labels_sound (note_label (a_label a) (length (t_actions (addAction a tr))) d) (t_actions (addAction a tr))"
  by (simp add: addAction_def) (auto intro: labels_sound_extend)

definition tran_sound :: "transition \<Rightarrow> bool" where
  "tran_sound tr = labels_sound (t_labeldict tr) (t_actions tr)"

lemma writeAction_sound:
  assumes "writeAction t inst w = Inr (w', a)" and "t' < length (w_trans w)"
    and "tran_sound (w_trans w ! t')" "tran_sound (w_trans w ! t)"
  shows "tran_sound (w_trans w' ! t')"
proof (cases "t' = t")
  case True
  obtain action maxudp maxop cnt where w': "w' = upd_tran t (\<lambda>_. let tr = addAction action (w_trans w ! t)
     in tr\<lparr>t_labeldict := note_label (a_label action) (length (t_actions tr)) (t_labeldict tr),
                  t_maxudp := max (t_maxudp tr) maxudp, t_maxop := max (t_maxop tr) maxop\<rparr>) (w\<lparr>w_cnt := cnt\<rparr>)"
    using assms(1) by (auto simp: writeAction_def rbind_Inr_iff Let_def)
  have d: "t_labeldict (addAction action (w_trans w ! t)) = t_labeldict (w_trans w ! t)"
    by (simp add: addAction_def)
  show ?thesis
    using addAction_labels [OF assms(4) [unfolded tran_sound_def], of action] assms(2) True
    by (simp add: w' upd_tran_def Let_def tran_sound_def d)
next
  case False
  then show ?thesis using assms(1-3)
    by (auto simp: writeAction_def rbind_Inr_iff Let_def upd_tran_def)
qed

lemma new_sound: "tran_sound (Transition src dst label anno r i)"
  by (simp add: tran_sound_def labels_sound_def Transition_def)

text \<open>What the resolution does to a list of actions\<close>

definition resolved_in :: "action list \<Rightarrow> action list \<Rightarrow> bool" where
  "resolved_in as bs =
     (length bs = length as \<and>
      (\<forall>k<length as.
         if a_class (as ! k) = BAction \<and> a_dst_issb (as ! k) = PInt 2
         then \<exists>l i. a_dst (as ! k) = PStr l \<and> i < length as \<and> a_label (as ! i) = PStr l \<and>
                bs ! k = (as ! k)\<lparr>a_dst := PStr (py_str (int i))\<rparr>
         else bs ! k = as ! k))"

lemma fix_actions_resolve:
  assumes f: "seq_res (map (fix_action d) as) = Inr bs" and s: "labels_sound d as"
  shows "resolved_in as bs"
  unfolding resolved_in_def
proof (intro conjI allI impI)
  show "length bs = length as" using seq_res_map_nth [OF f] by simp
  fix k assume k: "k < length as"
  have f: "fix_action d (as ! k) = Inr (bs ! k)" using seq_res_map_nth [OF f] k by auto
  show "if a_class (as ! k) = BAction \<and> a_dst_issb (as ! k) = PInt 2
         then \<exists>l i. a_dst (as ! k) = PStr l \<and> i < length as \<and> a_label (as ! i) = PStr l \<and>
                bs ! k = (as ! k)\<lparr>a_dst := PStr (py_str (int i))\<rparr>
         else bs ! k = as ! k"
  proof (cases "a_class (as ! k) = BAction \<and> a_dst_issb (as ! k) = PInt 2")
    case True
    then obtain l p where l: "a_dst (as ! k) = PStr l" "map_of d l = Some p" "bs ! k = (as ! k)\<lparr>a_dst := PStr p\<rparr>"
      using f by (auto simp: fix_action_def rmap_Inr_iff dict_get_Inr_iff split: pv.splits)
    then show ?thesis using True s by (auto simp: labels_sound_def)
  next
    case False
    then show ?thesis using f by (auto simp: fix_action_def)
  qed
qed

definition block_labels :: "string \<Rightarrow> world \<Rightarrow> (string, string) dict" where
  "block_labels k w = (case map_of (e_sharedBlocklabels (w_efa w)) k of None \<Rightarrow> [] | Some d \<Rightarrow> d)"

definition block_sound :: "world \<Rightarrow> bool" where
  "block_sound w =
     (\<forall>k as. map_of (e_sharedBlock (w_efa w)) k = Some as \<longrightarrow> labels_sound (block_labels k w) as)"

definition shared_block :: "world \<Rightarrow> string \<Rightarrow> action list option" where
  "shared_block w = map_of (e_sharedBlock (w_efa w))"

lemma fix_tran_effect:
  assumes "fix_tran t w = Inr w'" "t < length (w_trans w)" "tran_sound (w_trans w ! t)"
  obtains bs where "w' = upd_tran t (\<lambda>_. (w_trans w ! t)\<lparr>t_actions := bs\<rparr>) w" "resolved_in (t_actions (w_trans w ! t)) bs"
  using assms fix_actions_resolve that by (auto simp: fix_tran_def Let_def rmap_Inr_iff tran_sound_def)

lemma fix_trans:
  assumes "foldr_res fix_tran ts w = Inr w'" "distinct ts" "\<forall>t\<in>set ts. t < length (w_trans w) \<and> tran_sound (w_trans w ! t)"
  shows "length (w_trans w') = length (w_trans w) \<and> w_states w' = w_states w \<and> w_efa w' = w_efa w \<and>
    (\<forall>t. if t \<in> set ts then \<exists>bs. w_trans w' ! t = (w_trans w ! t)\<lparr>t_actions := bs\<rparr> \<and> resolved_in (t_actions (w_trans w ! t)) bs
         else w_trans w' ! t = w_trans w ! t)"
  using assms
proof (induction ts arbitrary: w)
  case (Cons t ts)
  obtain w1 where w1: "fix_tran t w = Inr w1" "foldr_res fix_tran ts w1 = Inr w'"
    using Cons.prems(1) by (auto simp: rbind_Inr_iff)
  obtain bs where e: "w1 = upd_tran t (\<lambda>_. (w_trans w ! t)\<lparr>t_actions := bs\<rparr>) w" "resolved_in (t_actions (w_trans w ! t)) bs"
    using fix_tran_effect [OF w1(1)] Cons.prems(3) by auto
  have l: "t < length (w_trans w)" "t \<notin> set ts" using Cons.prems by auto
  have o: "w_trans w1 ! x = (if x = t then (w_trans w ! t)\<lparr>t_actions := bs\<rparr> else w_trans w ! x)" for x
    using l(1) by (simp add: e(1) upd_tran_def)
  have n: "length (w_trans w1) = length (w_trans w)" "w_states w1 = w_states w" "w_efa w1 = w_efa w"
    by (simp_all add: e(1) upd_tran_def)
  have IH: "length (w_trans w') = length (w_trans w1) \<and> w_states w' = w_states w1 \<and> w_efa w' = w_efa w1 \<and>
    (\<forall>t. if t \<in> set ts then \<exists>bs. w_trans w' ! t = (w_trans w1 ! t)\<lparr>t_actions := bs\<rparr> \<and> resolved_in (t_actions (w_trans w1 ! t)) bs
         else w_trans w' ! t = w_trans w1 ! t)"
    by (rule Cons.IH [OF w1(2)]) (use Cons.prems l o n in auto)
  show ?case
  proof (intro conjI allI)
    fix x
    have "if x \<in> set ts then \<exists>bs. w_trans w' ! x = (w_trans w1 ! x)\<lparr>t_actions := bs\<rparr> \<and> resolved_in (t_actions (w_trans w1 ! x)) bs
         else w_trans w' ! x = w_trans w1 ! x" using IH by blast
    then show "if x \<in> set (t # ts) then \<exists>bs. w_trans w' ! x = (w_trans w ! x)\<lparr>t_actions := bs\<rparr> \<and> resolved_in (t_actions (w_trans w ! x)) bs
         else w_trans w' ! x = w_trans w ! x"
      using o [of x] e(2) l(2) by (auto split: if_splits)
  qed (use IH n in auto)
qed simp

lemma fix_blocks:
  assumes "foldr_res fix_block ks w = Inr w'" "distinct ks"
    "\<forall>k\<in>set ks. \<forall>as. shared_block w k = Some as \<longrightarrow> labels_sound (block_labels k w) as"
  shows "w_trans w' = w_trans w \<and> w_states w' = w_states w \<and>
    (\<forall>k. case shared_block w k of None \<Rightarrow> shared_block w' k = None
     | Some as \<Rightarrow> if k \<in> set ks then \<exists>bs. shared_block w' k = Some bs \<and> resolved_in as bs else shared_block w' k = Some as)"
  using assms
proof (induction ks arbitrary: w)
  case Nil
  then show ?case by (simp split: option.split)
next
  case (Cons j ks)
  obtain w1 where w1: "fix_block j w = Inr w1" "foldr_res fix_block ks w1 = Inr w'"
    using Cons.prems(1) by (auto simp: rbind_Inr_iff)
  have e: "w_trans w1 = w_trans w \<and> w_states w1 = w_states w \<and> (\<forall>k. block_labels k w1 = block_labels k w) \<and>
    (\<forall>k. case shared_block w k of None \<Rightarrow> shared_block w1 k = None
     | Some as \<Rightarrow> if k = j then \<exists>bs. shared_block w1 k = Some bs \<and> resolved_in as bs else shared_block w1 k = Some as)"
  proof (cases "shared_block w j")
    case None
    then have "w1 = w" using w1(1) by (simp add: fix_block_def shared_block_def)
    then show ?thesis using None by (auto split: option.split)
  next
    case (Some as)
    then obtain bs where bs: "seq_res (map (fix_action (block_labels j w)) as) = Inr bs"
      "w1 = upd_efa (\<lambda>e. e\<lparr>e_sharedBlock := dict_set j bs (e_sharedBlock e)\<rparr>) w"
      using w1(1) by (auto simp: fix_block_def shared_block_def block_labels_def rmap_Inr_iff)
    have "resolved_in as bs"
      using fix_actions_resolve [OF bs(1)] Cons.prems(3) Some by simp
    moreover have "shared_block w1 = (shared_block w)(j \<mapsto> bs)" by (simp add: bs(2) shared_block_def upd_efa_def)
    ultimately show ?thesis using Some by (auto simp: bs(2) block_labels_def upd_efa_def split: option.split)
  qed
  have "j \<notin> set ks" using Cons.prems(2) by simp
  have o: "shared_block w1 k = shared_block w k" if "k \<in> set ks" for k
  proof -
    have "k \<noteq> j" using that \<open>j \<notin> set ks\<close> by auto
    moreover have "case shared_block w k of None \<Rightarrow> shared_block w1 k = None
     | Some as \<Rightarrow> if k = j then \<exists>bs. shared_block w1 k = Some bs \<and> resolved_in as bs else shared_block w1 k = Some as"
      using e by blast
    ultimately show ?thesis by (cases "shared_block w k") auto
  qed
  then have "\<forall>k\<in>set ks. \<forall>as. shared_block w1 k = Some as \<longrightarrow> labels_sound (block_labels k w1) as"
    using Cons.prems(3) e o by simp
  then have IH: "w_trans w' = w_trans w1 \<and> w_states w' = w_states w1 \<and>
    (\<forall>k. case shared_block w1 k of None \<Rightarrow> shared_block w' k = None
     | Some as \<Rightarrow> if k \<in> set ks then \<exists>bs. shared_block w' k = Some bs \<and> resolved_in as bs else shared_block w' k = Some as)"
    using Cons.IH [OF w1(2)] Cons.prems(2) by simp
  show ?case
  proof (intro conjI allI)
    fix k
    have 1: "case shared_block w1 k of None \<Rightarrow> shared_block w' k = None
     | Some as \<Rightarrow> if k \<in> set ks then \<exists>bs. shared_block w' k = Some bs \<and> resolved_in as bs else shared_block w' k = Some as"
      using IH by blast
    have 2: "case shared_block w k of None \<Rightarrow> shared_block w1 k = None
     | Some as \<Rightarrow> if k = j then \<exists>bs. shared_block w1 k = Some bs \<and> resolved_in as bs else shared_block w1 k = Some as"
      using e by blast
    show "case shared_block w k of None \<Rightarrow> shared_block w' k = None
     | Some as \<Rightarrow> if k \<in> set (j # ks) then \<exists>bs. shared_block w' k = Some bs \<and> resolved_in as bs else shared_block w' k = Some as"
      using 1 2 \<open>j \<notin> set ks\<close> by (cases "k = j") (auto split: option.splits if_splits)
  qed (use IH e in auto)
qed

text \<open>An action that is appended to a shared block keeps the labels of the blocks sound.\<close>

lemma appendBlockAction_sound:
  assumes "appendBlockAction blockid inst w = Inr w'" "block_sound w"
  shows "block_sound w'"
proof -
  obtain action maxudp maxop cnt where "w' = upd_efa (\<lambda>e. append_block blockid action (e\<lparr>e_udpsize := max (e_udpsize e) maxudp\<rparr>))
      (w\<lparr>w_cnt := cnt\<rparr>)"
    using assms(1) by (auto simp: appendBlockAction_def rbind_Inr_iff)
  then have w': "w_efa w' = append_block blockid action ((w_efa w)\<lparr>e_udpsize := max (e_udpsize (w_efa w)) maxudp\<rparr>)"
    by (simp add: upd_efa_def)
  have "labels_sound (block_labels k w') as" if k: "map_of (e_sharedBlock (w_efa w')) k = Some as" for k as
  proof (cases "k = blockid")
    case False
    then have "map_of (e_sharedBlock (w_efa w)) k = Some as" "block_labels k w' = block_labels k w"
      using k by (simp_all add: w' append_block_def Let_def block_labels_def)
    then show ?thesis using assms(2) by (simp add: block_sound_def)
  next
    case True
    show ?thesis
    proof (cases "map_of (e_sharedBlock (w_efa w)) blockid")
      case None
      have "labels_sound (note_label (a_label action) (Suc 0) []) [action\<lparr>a_last := PInt 1\<rparr>]"
        using labels_sound_extend [of "[]" "[]" "[]" "action\<lparr>a_last := PInt 1\<rparr>" action] by (simp add: labels_sound_def)
      then show ?thesis using k True None by (auto simp: w' append_block_def Let_def block_labels_def)
    next
      case (Some bs)
      have "labels_sound (block_labels blockid w) bs" using assms(2) Some by (simp add: block_sound_def)
      then have "labels_sound (note_label (a_label action) (Suc (length bs)) (block_labels blockid w))
          (set_last 0 bs @ [action\<lparr>a_last := PInt 1\<rparr>])"
        by (rule labels_sound_extend) simp_all
      then show ?thesis using k True Some by (auto simp: w' append_block_def Let_def block_labels_def)
    qed
  qed
  then show ?thesis by (simp add: block_sound_def)
qed

section \<open>Properties\<close>

text \<open>C25: writing a transition whose label is a name or an integer below 10000, where the numbers of named labels start, keeps the objects consistent (label and name tables of every state agree with its transitions, whose labels are distinct), is refused exactly for a label the state has, and otherwise the new transition is the only one found under its label.\<close>

theorem written_transition:
  assumes "world_inv w" and "self < length (w_states w)" and "plain_label label"
    and "writeTransition self anno src dst label r w = (w', x)"
  shows "world_inv w' \<and> (x = None \<longleftrightarrow> label_known label (w_states w ! self)) \<and>
    (x \<noteq> None \<longrightarrow> (\<exists>tr. get_tran_byLabel w' self (t_label tr) = [tr] \<and> t_src tr = src \<and> t_dst tr = dst \<and>
       t_anno_type tr = anno \<and> t_actions tr = [] \<and> (\<forall>n. label = LInt n \<longrightarrow> t_label tr = n)))"
  by (intro conjI world_inv_writeTransition [OF assms] written_found [OF assms, THEN conjunct1]
      written_found [OF assms, THEN conjunct2])

definition ex_world :: world where
  "ex_world = fst (State new_world)"

lemma ex_world_inv: "world_inv ex_world" "0 < length (w_states ex_world)"
  using world_inv_State [OF world_inv_new] by (simp_all add: ex_world_def State_def new_world_def)

theorem written_transition_witness:
  "\<exists>w' t. writeTransition 0 ''eventCarry'' 0 0 (LInt 7) None ex_world = (w', Some t) \<and> world_inv w'"
proof -
  obtain w' x where w: "writeTransition 0 ''eventCarry'' 0 0 (LInt 7) None ex_world = (w', x)" by fastforce
  have "plain_label (LInt 7)" by (simp add: plain_label_def)
  from written_transition [OF ex_world_inv this w] have "world_inv w'"
    "x = None \<longleftrightarrow> label_known (LInt 7) (w_states ex_world ! 0)" by auto
  moreover have "\<not> label_known (LInt 7) (w_states ex_world ! 0)"
    by (simp add: label_known_def ex_world_def State_def new_world_def in_dict_def)
  ultimately show ?thesis using w by auto
qed

text \<open>C27: writing an instruction keeps the objects consistent and the label table of every transition sound: a label stands for the position of an action that carries it.\<close>

theorem written_action:
  assumes "world_inv w" and "writeAction t inst w = Inr (w', a)" and "t < length (w_trans w)"
    and "\<forall>t<length (w_trans w). tran_sound (w_trans w ! t)"
  shows "world_inv w' \<and> (\<forall>t<length (w_trans w'). tran_sound (w_trans w' ! t))"
proof -
  have "length (w_trans w') = length (w_trans w)"
    using assms(2) by (auto simp: writeAction_def rbind_Inr_iff Let_def upd_tran_def)
  then show ?thesis
    using world_inv_writeAction [OF assms(1,2)] writeAction_sound [OF assms(2)] assms(3,4) by simp
qed

text \<open>C28: \<open>fixlabels\<close> replaces the target of every branch to a label, in the transitions of all states
  and in all shared blocks, by the position of an action in the same transition or block that carries
  the label. Nothing else of these actions, of the transitions and of the states changes. This is for
  objects whose label tables are sound, as writing and appending actions leaves them, where no
  transition is listed twice and no two shared blocks have one name.\<close>

theorem fixlabels_resolves:
  assumes "fixlabels w = Inr w'" and "block_sound w"
    and "ts = concat (map (\<lambda>s. s_trans (w_states w ! s)) (e_states (w_efa w)))" "distinct ts"
    and "\<forall>t\<in>set ts. t < length (w_trans w) \<and> tran_sound (w_trans w ! t)"
    and "distinct (map fst (e_sharedBlock (w_efa w)))"
  shows "w_states w' = w_states w \<and> length (w_trans w') = length (w_trans w) \<and>
    (\<forall>t. if t \<in> set ts
         then \<exists>bs. w_trans w' ! t = (w_trans w ! t)\<lparr>t_actions := bs\<rparr> \<and> resolved_in (t_actions (w_trans w ! t)) bs
         else w_trans w' ! t = w_trans w ! t) \<and>
    (\<forall>k. case map_of (e_sharedBlock (w_efa w)) k of
           None \<Rightarrow> map_of (e_sharedBlock (w_efa w')) k = None
         | Some as \<Rightarrow> \<exists>bs. map_of (e_sharedBlock (w_efa w')) k = Some bs \<and> resolved_in as bs)"
proof -
  obtain w1 where w1: "foldr_res fix_tran ts w = Inr w1" "foldr_res fix_block (map fst (e_sharedBlock (w_efa w1))) w1 = Inr w'"
    using assms(1) by (auto simp: fixlabels_def rbind_Inr_iff assms(3))
  note t = fix_trans [OF w1(1) assms(4,5)]
  have e: "w_efa w1 = w_efa w" using t by blast
  have b: "shared_block w1 = shared_block w" "block_labels k w1 = block_labels k w" for k
    by (simp_all add: shared_block_def block_labels_def e)
  have "\<forall>k\<in>set (map fst (e_sharedBlock (w_efa w1))). \<forall>as. shared_block w1 k = Some as \<longrightarrow> labels_sound (block_labels k w1) as"
    using assms(2) unfolding b by (simp add: block_sound_def shared_block_def)
  note s = fix_blocks [OF w1(2) _ this, unfolded e b, OF assms(6)]
  have q: "case shared_block w k of None \<Rightarrow> shared_block w' k = None
     | Some as \<Rightarrow> if k \<in> set (map fst (e_sharedBlock (w_efa w))) then \<exists>bs. shared_block w' k = Some bs \<and> resolved_in as bs
                  else shared_block w' k = Some as" for k
    using s by blast
  have "case map_of (e_sharedBlock (w_efa w)) k of
           None \<Rightarrow> map_of (e_sharedBlock (w_efa w')) k = None
         | Some as \<Rightarrow> \<exists>bs. map_of (e_sharedBlock (w_efa w')) k = Some bs \<and> resolved_in as bs" for k
  proof (cases "map_of (e_sharedBlock (w_efa w)) k")
    case None
    then show ?thesis using q [of k] by (simp add: shared_block_def)
  next
    case (Some as)
    then have "k \<in> set (map fst (e_sharedBlock (w_efa w)))" by (metis domI dom_map_of_conv_image_fst set_map)
    then show ?thesis using q [of k] Some by (simp add: shared_block_def)
  qed
  then show ?thesis using t s by simp
qed

lemma ex_yield: "GetAction ''l: yield'' 0 = Inr (mk_YAction ''yield'' (PStr ''l''), 0, 0, 0)"
  by code_simp

definition ex_tran :: world where
  "ex_tran = ex_world\<lparr>w_trans := [Transition 0 0 (LInt 7) ''eventCarry'' None 10000]\<rparr>"

theorem written_action_witness:
  "\<exists>w' a. writeAction 0 ''l: yield'' ex_tran = Inr (w', a) \<and> tran_sound (w_trans w' ! 0)"
proof -
  obtain w' a where w: "writeAction 0 ''l: yield'' ex_tran = Inr (w', a)"
    using ex_yield by (auto simp: writeAction_def ex_tran_def ex_world_def State_def new_world_def Let_def)
  have i: "world_inv ex_tran"
    using ex_world_inv by (auto simp: world_inv_def ex_tran_def ex_world_def State_def new_world_def state_inv_def trans_of_def)
  have "world_inv w' \<and> (\<forall>t<length (w_trans w'). tran_sound (w_trans w' ! t))"
    by (rule written_action [OF i w]) (simp_all add: ex_tran_def new_sound)
  moreover have "length (w_trans w') = 1"
    using w by (auto simp: writeAction_def rbind_Inr_iff Let_def upd_tran_def ex_tran_def)
  ultimately show ?thesis using w by auto
qed

definition ex_branch :: action where
  "ex_branch = (new_action BAction ''branch'' (PStr ''l''))\<lparr>a_dst := PStr ''l'', a_dst_issb := PInt 2\<rparr>"

definition ex_fix :: world where
  "ex_fix = ex_world\<lparr>w_states := [(w_states ex_world ! 0)\<lparr>s_trans := [0]\<rparr>],
     w_trans := [(Transition 0 0 (LInt 7) ''eventCarry'' None 10000)\<lparr>t_actions := [ex_branch], t_labeldict := [(''l'', ''0'')]\<rparr>],
     w_efa := new_EFA\<lparr>e_states := [0], e_sharedBlock := [(''B'', [ex_branch])],
       e_sharedBlocklabels := [(''B'', [(''l'', ''0'')])]\<rparr>\<rparr>"

theorem fixlabels_resolves_witness:
  "\<exists>w' bs. fixlabels ex_fix = Inr w' \<and> a_dst (t_actions (w_trans w' ! 0) ! 0) = PStr ''0'' \<and>
     map_of (e_sharedBlock (w_efa w')) ''B'' = Some bs \<and> a_dst (bs ! 0) = PStr ''0''"
proof -
  have z: "py_str 0 = ''0''" by code_simp
  obtain w' where w: "fixlabels ex_fix = Inr w'"
    by (auto simp: fixlabels_def fix_tran_def fix_block_def fix_action_def ex_fix_def ex_branch_def new_action_def
        dict_get_def seq_res.simps upd_tran_def)
  have l: "labels_sound [(''l'', ''0'')] [ex_branch]"
    by (simp add: labels_sound_def ex_branch_def new_action_def z)
  have s: "block_sound ex_fix" "\<forall>t\<in>set [0]. t < length (w_trans ex_fix) \<and> tran_sound (w_trans ex_fix ! t)"
    using l by (simp_all add: block_sound_def block_labels_def tran_sound_def ex_fix_def)
  have r: "a_dst (bs ! 0) = PStr ''0''" if "resolved_in [ex_branch] bs" for bs
    using that z by (auto simp: resolved_in_def ex_branch_def new_action_def)
  have c: "[0] = concat (map (\<lambda>s. s_trans (w_states ex_fix ! s)) (e_states (w_efa ex_fix)))" "distinct [0 :: nat]"
    "distinct (map fst (e_sharedBlock (w_efa ex_fix)))"
    by (simp_all add: ex_fix_def)
  note f = fixlabels_resolves [OF w s(1) c(1,2) s(2) c(3), THEN conjunct2, THEN conjunct2]
  have "\<exists>bs. w_trans w' ! 0 = (w_trans ex_fix ! 0)\<lparr>t_actions := bs\<rparr> \<and> resolved_in (t_actions (w_trans ex_fix ! 0)) bs"
    using f [THEN conjunct1, THEN spec [of _ 0]] by (simp cong del: if_weak_cong)
  then have 1: "a_dst (t_actions (w_trans w' ! 0) ! 0) = PStr ''0''" using r by (auto simp: ex_fix_def)
  have "\<exists>bs. map_of (e_sharedBlock (w_efa w')) ''B'' = Some bs \<and> resolved_in [ex_branch] bs"
    using f [THEN conjunct2, THEN spec [of _ "''B''"]] by (simp add: ex_fix_def)
  then show ?thesis using w 1 r by blast
qed

end
