(* ===== verification/Asm_Memory.thy ===== *)
theory Asm_Memory imports Prelude "HOL-Library.Word" begin

unbundle bit_operations_syntax

text \<open>
  The \<open>MemoryManager\<close> of \<open>src/updown/udbasim/assembler/UpDown_Assembler_helper.py\<close>: the words of
  one EFA's instruction block with two bitmaps, the slots that are taken and the slots of the
  block that is being placed (their 0 and 1 are \<open>False\<close> and \<open>True\<close>).  Addresses are word addresses, cut to twelve bits.  The locale
  \<open>word_store\<close> is what the rest of the assembler relies on when it writes and reads words; the
  manager is its instance.
\<close>

section \<open>State and operations\<close>

record mem_manager =
  word_count :: nat
  mem_bitmap :: "bool list"
  block_bitmap :: "bool list"
  memory :: "string list"

definition MemoryManager :: "nat \<Rightarrow> mem_manager" where
  "MemoryManager n =
     \<lparr>word_count = n, mem_bitmap = replicate n False, block_bitmap = replicate n False,
      memory = replicate n []\<rparr>"

text \<open>\<open>address & 0xFFF\<close>\<close>

definition addr12 :: "int \<Rightarrow> nat" where
  "addr12 address = nat (address AND 0xFFF)"

definition set_memory :: "int \<Rightarrow> string \<Rightarrow> mem_manager \<Rightarrow> mem_manager res" where
  "set_memory address value m =
     (let a = addr12 address
      in if a < word_count m then Inr (m\<lparr>memory := (memory m)[a := value]\<rparr>) else Inl ValueError)"

definition get_memory :: "int \<Rightarrow> mem_manager \<Rightarrow> string res" where
  "get_memory address m =
     (let a = addr12 address
      in if a < word_count m then Inr (memory m ! a) else Inl ValueError)"

text \<open>The loop over \<open>range(block_start, block_end)\<close>: \<open>False\<close> at the first overlap\<close>

fun no_overlap :: "bool list \<Rightarrow> bool list \<Rightarrow> nat list \<Rightarrow> bool res" where
  "no_overlap mem blk [] = Inr True"
| "no_overlap mem blk (i # is) =
     (if i < length mem \<and> i < length blk then
        (if mem ! i \<and> blk ! i then Inr False else no_overlap mem blk is)
      else Inl IndexError)"

definition is_allocation_valid :: "int \<Rightarrow> int \<Rightarrow> mem_manager \<Rightarrow> bool res" where
  "is_allocation_valid block_start block_end m =
     no_overlap (mem_bitmap m) (block_bitmap m) [addr12 block_start..<addr12 block_end]"

definition reset_block_bitmap :: "mem_manager \<Rightarrow> mem_manager" where
  "reset_block_bitmap m = m\<lparr>block_bitmap := replicate (word_count m) False\<rparr>"

definition set_block_bitmap :: "int \<Rightarrow> mem_manager \<Rightarrow> mem_manager res" where
  "set_block_bitmap addr m =
     (let a = addr12 addr
      in if a < length (block_bitmap m) then Inr (m\<lparr>block_bitmap := (block_bitmap m)[a := True]\<rparr>)
         else Inl IndexError)"

fun take_slots :: "bool list \<Rightarrow> nat list \<Rightarrow> bool list \<Rightarrow> bool list res" where
  "take_slots blk [] mem = Inr mem"
| "take_slots blk (i # is) mem =
     (if i < length blk then
        (if blk ! i then
           (if i < length mem then take_slots blk is (mem[i := True]) else Inl IndexError)
         else take_slots blk is mem)
      else Inl IndexError)"

text \<open>The result is \<open>False\<close> when the slots are not free, else \<open>None\<close> (here \<open>True\<close>).\<close>

definition set_memory_bitmap :: "int \<Rightarrow> int \<Rightarrow> mem_manager \<Rightarrow> (mem_manager \<times> bool) res" where
  "set_memory_bitmap start_addr end_addr m =
     rbind (is_allocation_valid (start_addr AND 0xFFF) (end_addr AND 0xFFF) m) (\<lambda>valid.
     if valid then
       rbind (take_slots (block_bitmap m) [addr12 start_addr..<addr12 end_addr] (mem_bitmap m))
         (\<lambda>mem. Inr (m\<lparr>mem_bitmap := mem\<rparr>, True))
     else Inr (m, False))"

fun copy_shifted :: "nat \<Rightarrow> bool list \<Rightarrow> nat list \<Rightarrow> bool list \<Rightarrow> bool list res" where
  "copy_shifted d old [] new = Inr new"
| "copy_shifted d old (i # is) new =
     (if i < length old \<and> i + d < length new then copy_shifted d old is (new[i + d := old ! i])
      else Inl IndexError)"

definition shift_block_bitmap :: "int \<Rightarrow> int \<Rightarrow> int \<Rightarrow> mem_manager \<Rightarrow> mem_manager res" where
  "shift_block_bitmap shift_distance start_addr end_addr m =
     (if shift_distance < 0 then Inl ValueError
      else if shift_distance \<ge> int (word_count m) then Inl ValueError
      else
        rmap (\<lambda>new. m\<lparr>block_bitmap := new\<rparr>)
          (copy_shifted (nat shift_distance) (block_bitmap m)
            [addr12 start_addr..<nat (int (addr12 end_addr) - shift_distance)]
            (replicate (word_count m) False)))"

text \<open>Maximal runs of taken slots: start and length\<close>

fun consecutive_from ::
  "nat \<Rightarrow> nat option \<Rightarrow> nat \<Rightarrow> (nat \<times> nat) list \<Rightarrow> bool list \<Rightarrow> (nat \<times> nat) list" where
  "consecutive_from i start len blocks [] =
     (case start of None \<Rightarrow> blocks | Some s \<Rightarrow> blocks @ [(s, len)])"
| "consecutive_from i start len blocks (b # bs) =
     (if b then
        consecutive_from (Suc i) (Some (case start of None \<Rightarrow> i | Some s \<Rightarrow> s)) (len + 1) blocks bs
      else case start of
          None \<Rightarrow> consecutive_from (Suc i) None len blocks bs
        | Some s \<Rightarrow> consecutive_from (Suc i) None 0 (blocks @ [(s, len)]) bs)"

definition find_consecutive_inst :: "mem_manager \<Rightarrow> (nat \<times> nat) list" where
  "find_consecutive_inst m = consecutive_from 0 None 0 [] (mem_bitmap m)"

section \<open>Invariant\<close>

definition mem_ok :: "mem_manager \<Rightarrow> bool" where
  "mem_ok m =
     (length (mem_bitmap m) = word_count m \<and> length (block_bitmap m) = word_count m \<and>
      length (memory m) = word_count m)"

lemma addr12_mod: "addr12 a = nat (a mod 4096)"
proof -
  have "a AND 0xFFF = a mod 4096"
    using take_bit_eq_mask [of 12 a] by (simp add: take_bit_eq_mod mask_eq_exp_minus_1)
  then show ?thesis by (simp add: addr12_def)
qed

lemma addr12_less: "addr12 a < 4096"
  by (simp add: addr12_mod nat_less_iff)

lemma addr12_idem [simp]: "addr12 (a AND 0xFFF) = addr12 a"
  by (simp add: addr12_def and.assoc)

lemma addr12_small: "0 \<le> a \<Longrightarrow> a < 4096 \<Longrightarrow> addr12 a = nat a"
  by (simp add: addr12_mod)

lemma mem_ok_new [simp]: "mem_ok (MemoryManager n)"
  by (simp add: mem_ok_def MemoryManager_def)

lemma mem_ok_set_memory: "mem_ok m \<Longrightarrow> set_memory a v m = Inr m' \<Longrightarrow> mem_ok m'"
  by (auto simp: mem_ok_def set_memory_def Let_def split: if_splits)

lemma mem_ok_reset: "mem_ok m \<Longrightarrow> mem_ok (reset_block_bitmap m)"
  by (simp add: mem_ok_def reset_block_bitmap_def)

lemma mem_ok_set_block: "mem_ok m \<Longrightarrow> set_block_bitmap a m = Inr m' \<Longrightarrow> mem_ok m'"
  by (auto simp: mem_ok_def set_block_bitmap_def Let_def split: if_splits)

lemma take_slots_length: "take_slots blk is mem = Inr mem' \<Longrightarrow> length mem' = length mem"
  by (induction blk "is" mem rule: take_slots.induct) (auto split: if_splits)

lemma mem_ok_set_bitmap: "mem_ok m \<Longrightarrow> set_memory_bitmap s e m = Inr (m', b) \<Longrightarrow> mem_ok m'"
  by (auto simp: mem_ok_def set_memory_bitmap_def rbind_Inr_iff dest: take_slots_length split: if_splits)

lemma copy_shifted_length: "copy_shifted d old is new = Inr new' \<Longrightarrow> length new' = length new"
  by (induction d old "is" new rule: copy_shifted.induct) (auto split: if_splits)

lemma mem_ok_shift: "mem_ok m \<Longrightarrow> shift_block_bitmap d s e m = Inr m' \<Longrightarrow> mem_ok m'"
  by (auto simp: mem_ok_def shift_block_bitmap_def rmap_Inr_iff dest: copy_shifted_length split: if_splits)

section \<open>Words\<close>

text \<open>The contract of the words: what was written last at an address is read, and nothing else changes.\<close>

locale word_store =
  fixes get :: "int \<Rightarrow> 's \<Rightarrow> 'v res" and set_word :: "int \<Rightarrow> 'v \<Rightarrow> 's \<Rightarrow> 's res"
    and slot :: "int \<Rightarrow> nat" and invar :: "'s \<Rightarrow> bool"
  assumes get_same: "invar s \<Longrightarrow> set_word a v s = Inr s' \<Longrightarrow> slot b = slot a \<Longrightarrow> get b s' = Inr v"
    and get_other: "invar s \<Longrightarrow> set_word a v s = Inr s' \<Longrightarrow> slot b \<noteq> slot a \<Longrightarrow> get b s' = get b s"
    and set_invar: "invar s \<Longrightarrow> set_word a v s = Inr s' \<Longrightarrow> invar s'"

context word_store begin

text \<open>\<open>for instr in l: set_word(addr, instr); addr += 1\<close>\<close>

fun write_words :: "int \<Rightarrow> 'v list \<Rightarrow> 's \<Rightarrow> 's res" where
  "write_words a [] s = Inr s"
| "write_words a (v # vs) s = rbind (set_word a v s) (write_words (a + 1) vs)"

lemma write_words_invar: "invar s \<Longrightarrow> write_words a vs s = Inr s' \<Longrightarrow> invar s'"
  by (induction vs arbitrary: a s) (auto simp: rbind_Inr_iff dest: set_invar)

lemma write_words_other:
  assumes "invar s" and "write_words a vs s = Inr s'"
    and "\<forall>i<length vs. slot b \<noteq> slot (a + int i)"
  shows "get b s' = get b s"
  using assms
proof (induction vs arbitrary: a s)
  case (Cons v vs)
  then obtain s1 where s1: "set_word a v s = Inr s1" "write_words (a + 1) vs s1 = Inr s'"
    by (auto simp: rbind_Inr_iff)
  have inv: "invar s1" using set_invar Cons.prems(1) s1(1) by blast
  have "\<forall>i<length vs. slot b \<noteq> slot (a + 1 + int i)"
  proof (intro allI impI)
    fix i assume "i < length vs"
    then show "slot b \<noteq> slot (a + 1 + int i)"
      using Cons.prems(3) [rule_format, of "Suc i"] by (simp add: algebra_simps)
  qed
  from Cons.IH [OF inv s1(2) this] have "get b s' = get b s1" .
  moreover have "slot b \<noteq> slot a" using Cons.prems(3) by (auto dest: spec [of _ 0])
  ultimately show ?case using get_other Cons.prems(1) s1(1) by simp
qed simp

text \<open>A block of words at distinct slots is read back word by word.\<close>

lemma write_words_read:
  assumes "invar s" and "write_words a vs s = Inr s'"
    and "inj_on (\<lambda>i. slot (a + int i)) {..<length vs}" and "i < length vs"
  shows "get (a + int i) s' = Inr (vs ! i)"
  using assms
proof (induction vs arbitrary: a s i)
  case (Cons v vs)
  then obtain s1 where s1: "set_word a v s = Inr s1" "write_words (a + 1) vs s1 = Inr s'"
    by (auto simp: rbind_Inr_iff)
  have inv: "invar s1" using set_invar Cons.prems(1) s1(1) by blast
  show ?case
  proof (cases i)
    case 0
    have "slot a \<noteq> slot (a + 1 + int j)" if "j < length vs" for j
      using inj_onD [OF Cons.prems(3), of 0 "Suc j"] that by (auto simp: algebra_simps)
    then have "get a s' = get a s1" using write_words_other [OF inv s1(2)] by blast
    moreover have "get a s1 = Inr v" using get_same [OF Cons.prems(1) s1(1)] by simp
    ultimately show ?thesis using 0 by simp
  next
    case (Suc j)
    have "inj_on (\<lambda>i. slot (a + 1 + int i)) {..<length vs}"
    proof (rule inj_onI)
      fix x y assume "x \<in> {..<length vs}" "y \<in> {..<length vs}" "slot (a + 1 + int x) = slot (a + 1 + int y)"
      then show "x = y" using inj_onD [OF Cons.prems(3), of "Suc x" "Suc y"] by (simp add: algebra_simps)
    qed
    from Cons.IH [OF inv s1(2) this, of j] Cons.prems(4) Suc show ?thesis by (simp add: algebra_simps)
  qed
qed simp

end

interpretation mm: word_store get_memory set_memory addr12 mem_ok
proof
  fix s s' :: mem_manager and a b v
  assume inv: "mem_ok s" and set: "set_memory a v s = Inr s'"
  show "mem_ok s'" using inv set by (rule mem_ok_set_memory)
  show "addr12 b = addr12 a \<Longrightarrow> get_memory b s' = Inr v"
    using inv set by (auto simp: set_memory_def get_memory_def mem_ok_def Let_def split: if_splits)
  show "addr12 b \<noteq> addr12 a \<Longrightarrow> get_memory b s' = get_memory b s"
    using set by (auto simp: set_memory_def get_memory_def Let_def split: if_splits)
qed

section \<open>Slots\<close>

definition taken :: "mem_manager \<Rightarrow> nat set" where
  "taken m = {i. i < length (mem_bitmap m) \<and> mem_bitmap m ! i}"

definition wanted :: "mem_manager \<Rightarrow> nat set" where
  "wanted m = {i. i < length (block_bitmap m) \<and> block_bitmap m ! i}"

lemma no_overlap_True:
  "no_overlap mem blk is = Inr True \<longleftrightarrow>
   (\<forall>i\<in>set is. i < length mem \<and> i < length blk \<and> \<not> (mem ! i \<and> blk ! i))"
  by (induction mem blk "is" rule: no_overlap.induct) auto

lemma take_slots_nth:
  "take_slots blk is mem = Inr mem' \<Longrightarrow> i < length mem \<Longrightarrow>
   mem' ! i \<longleftrightarrow> mem ! i \<or> i \<in> set is \<and> blk ! i"
  by (induction blk "is" mem rule: take_slots.induct) (auto simp: nth_list_update split: if_splits)

lemma take_slots_range: "take_slots blk is mem = Inr mem' \<Longrightarrow> i \<in> set is \<Longrightarrow> blk ! i \<Longrightarrow> i < length mem"
  by (induction blk "is" mem rule: take_slots.induct) (auto split: if_splits)

text \<open>An allocation adds the wanted slots of its range, which were free before.\<close>

lemma set_memory_bitmap_takes:
  assumes "set_memory_bitmap s e m = Inr (m', True)" and "mem_ok m"
  shows "taken m' = taken m \<union> (wanted m \<inter> {addr12 s..<addr12 e})"
    and "taken m \<inter> (wanted m \<inter> {addr12 s..<addr12 e}) = {}"
    and "memory m' = memory m" and "block_bitmap m' = block_bitmap m"
proof -
  obtain mem where valid: "is_allocation_valid (s AND 0xFFF) (e AND 0xFFF) m = Inr True"
    and mem: "take_slots (block_bitmap m) [addr12 s..<addr12 e] (mem_bitmap m) = Inr mem"
    and m': "m' = m\<lparr>mem_bitmap := mem\<rparr>"
    using assms(1) by (auto simp: set_memory_bitmap_def rbind_Inr_iff split: if_splits)
  have free: "i < length (mem_bitmap m) \<and> \<not> (mem_bitmap m ! i \<and> block_bitmap m ! i)"
    if "addr12 s \<le> i" "i < addr12 e" for i
    using valid that by (auto simp: is_allocation_valid_def no_overlap_True)
  show "taken m' = taken m \<union> (wanted m \<inter> {addr12 s..<addr12 e})"
    using take_slots_nth [OF mem] take_slots_length [OF mem] free assms(2)
    by (auto simp: taken_def wanted_def m' mem_ok_def)
  show "taken m \<inter> (wanted m \<inter> {addr12 s..<addr12 e}) = {}"
    using free by (auto simp: taken_def wanted_def)
  show "memory m' = memory m" and "block_bitmap m' = block_bitmap m" by (simp_all add: m')
qed

text \<open>Slots that are refused leave the manager as it is.\<close>

lemma set_memory_bitmap_refuses:
  assumes "set_memory_bitmap s e m = Inr (m', False)"
  shows "m' = m" and "taken m \<inter> (wanted m \<inter> {addr12 s..<addr12 e}) \<noteq> {}"
proof -
  have v: "is_allocation_valid (s AND 0xFFF) (e AND 0xFFF) m = Inr False" and "m' = m"
    using assms by (auto simp: set_memory_bitmap_def rbind_Inr_iff split: if_splits)
  then show "m' = m" by simp
  have "no_overlap mem blk is = Inr False \<Longrightarrow>
      \<exists>i\<in>set is. i < length mem \<and> i < length blk \<and> mem ! i \<and> blk ! i" for mem blk "is"
    by (induction mem blk "is" rule: no_overlap.induct) (auto split: if_splits)
  from this [OF v [unfolded is_allocation_valid_def]]
  show "taken m \<inter> (wanted m \<inter> {addr12 s..<addr12 e}) \<noteq> {}"
    by (auto simp: taken_def wanted_def)
qed

lemma copy_shifted_nth:
  assumes "copy_shifted d old is new = Inr new'" and "distinct is"
  shows "j < length new \<Longrightarrow> new' ! j = (if d \<le> j \<and> j - d \<in> set is then old ! (j - d) else new ! j)"
  using assms
proof (induction d old "is" new rule: copy_shifted.induct)
  case (2 d old i "is" new)
  then show ?case by (auto simp: nth_list_update split: if_splits)
qed auto

text \<open>A shift moves the wanted slots of its range and forgets the others.\<close>

lemma shift_block_bitmap_wanted:
  assumes "shift_block_bitmap d s e m = Inr m'" and "mem_ok m"
  shows "wanted m' = {j. j < word_count m \<and> nat d \<le> j \<and> j - nat d \<in> wanted m \<and>
           addr12 s \<le> j - nat d \<and> j < addr12 e}"
    and "taken m' = taken m"
proof -
  have d: "0 \<le> d" using assms(1) by (auto simp: shift_block_bitmap_def split: if_splits)
  obtain new where new: "copy_shifted (nat d) (block_bitmap m)
      [addr12 s..<nat (int (addr12 e) - d)] (replicate (word_count m) False) = Inr new"
    and m': "m' = m\<lparr>block_bitmap := new\<rparr>"
    using assms(1) by (auto simp: shift_block_bitmap_def rmap_Inr_iff split: if_splits)
  have len: "length new = word_count m" using copy_shifted_length [OF new] by simp
  show "wanted m' = {j. j < word_count m \<and> nat d \<le> j \<and> j - nat d \<in> wanted m \<and>
           addr12 s \<le> j - nat d \<and> j < addr12 e}"
  proof (rule set_eqI)
    fix j
    have lt: "nat d \<le> j \<Longrightarrow> j - nat d < nat (int (addr12 e) - d) \<longleftrightarrow> j < addr12 e"
      using d by linarith
    show "j \<in> wanted m' \<longleftrightarrow> j \<in> {j. j < word_count m \<and> nat d \<le> j \<and> j - nat d \<in> wanted m \<and>
           addr12 s \<le> j - nat d \<and> j < addr12 e}"
    proof (cases "j < word_count m \<and> nat d \<le> j")
      case True
      then show ?thesis using copy_shifted_nth [OF new, of j] lt assms(2)
        by (simp add: wanted_def m' len mem_ok_def) (cases "j - nat d < word_count m"; force)
    next
      case False
      then show ?thesis using copy_shifted_nth [OF new, of j] by (auto simp: wanted_def m' len)
    qed
  qed
  show "taken m' = taken m" by (simp add: m' taken_def)
qed

section \<open>Runs of taken slots\<close>

definition run_slots :: "nat \<times> nat \<Rightarrow> nat set" where
  "run_slots r = {fst r..<fst r + snd r}"

text \<open>Runs in ascending order, none empty, with a free slot between two of them\<close>

fun separated :: "nat \<Rightarrow> (nat \<times> nat) list \<Rightarrow> bool" where
  "separated lo [] = True"
| "separated lo (r # rs) = (lo \<le> fst r \<and> 0 < snd r \<and> separated (fst r + snd r + 1) rs)"

lemma consecutive_blocks:
  "consecutive_from i st len blocks bs = blocks @ consecutive_from i st len [] bs"
proof (induction bs arbitrary: i st len blocks)
  case Nil
  then show ?case by (simp split: option.splits)
next
  case (Cons b bs)
  show ?case
  proof (cases "b \<or> st = None")
    case True
    then show ?thesis
      using Cons.IH [where st = "Some (case st of None \<Rightarrow> i | Some s \<Rightarrow> s)" and blocks = blocks]
        Cons.IH [where st = None and blocks = blocks]
      by auto
  next
    case False
    then obtain s where s: "st = Some s" "\<not> b" by auto
    then have "consecutive_from i st len blocks (b # bs) =
        consecutive_from (Suc i) None 0 (blocks @ [(s, len)]) bs" by simp
    also have "\<dots> = blocks @ (s, len) # consecutive_from (Suc i) None 0 [] bs"
      unfolding Cons.IH [where blocks = "blocks @ [(s, len)]"] by simp
    also have "(s, len) # consecutive_from (Suc i) None 0 [] bs =
        consecutive_from i st len [] (b # bs)"
      using s Cons.IH [where blocks = "[(s, len)]" and st = None and len = 0 and i = "Suc i"] by simp
    finally show ?thesis .
  qed
qed

lemma set_bits_Cons:
  "(+) i ` {j. j < length (b # bs) \<and> (b # bs) ! j} =
   (if b then {i} else {}) \<union> (+) (Suc i) ` {j. j < length bs \<and> bs ! j}" (is "?l = ?r")
proof (rule set_eqI)
  fix x
  have "x \<in> ?l \<longleftrightarrow> (\<exists>j<Suc (length bs). x = i + j \<and> (b # bs) ! j)" by auto
  also have "\<dots> \<longleftrightarrow> x = i \<and> b \<or> (\<exists>j<length bs. x = Suc (i + j) \<and> bs ! j)"
    by (simp add: ex_Suc_less)
  also have "\<dots> \<longleftrightarrow> x \<in> ?r" by auto
  finally show "x \<in> ?l \<longleftrightarrow> x \<in> ?r" .
qed

lemma consecutive_runs:
  assumes "case st of None \<Rightarrow> len = 0 | Some s \<Rightarrow> s + len = i \<and> 0 < len"
  shows "(\<Union>r\<in>set (consecutive_from i st len [] bs). run_slots r) =
           (case st of None \<Rightarrow> {} | Some s \<Rightarrow> {s..<i}) \<union> (+) i ` {j. j < length bs \<and> bs ! j} \<and>
         separated (case st of None \<Rightarrow> i | Some s \<Rightarrow> s) (consecutive_from i st len [] bs)"
  using assms
proof (induction bs arbitrary: i st len)
  case Nil
  then show ?case by (auto simp: run_slots_def split: option.splits)
next
  case (Cons b bs)
  note bits = set_bits_Cons [of i b bs]
  show ?case
  proof (cases b)
    case True
    have pre: "case Some (case st of None \<Rightarrow> i | Some s \<Rightarrow> s) of None \<Rightarrow> len + 1 = 0
        | Some s \<Rightarrow> s + (len + 1) = Suc i \<and> 0 < len + 1"
      using Cons.prems by (auto split: option.splits)
    show ?thesis
      unfolding bits using Cons.IH [OF pre] Cons.prems True
      by (cases st) (auto simp del: Un_iff simp: atLeastLessThanSuc)
  next
    case False
    have IH: "(\<Union>r\<in>set (consecutive_from (Suc i) None 0 [] bs). run_slots r) =
          (+) (Suc i) ` {j. j < length bs \<and> bs ! j} \<and>
        separated (Suc i) (consecutive_from (Suc i) None 0 [] bs)"
      using Cons.IH [where st = None and len = 0 and i = "Suc i"] by simp
    show ?thesis
    proof (cases st)
      case None
      have "separated lo rs \<Longrightarrow> lo' \<le> lo \<Longrightarrow> separated lo' rs" for lo lo' rs
        by (cases rs) auto
      then show ?thesis unfolding bits using IH Cons.prems None False by auto
    next
      case (Some s)
      then show ?thesis
        unfolding bits
        using IH Cons.prems False consecutive_blocks [of "Suc i" None 0 "[(s, len)]" bs]
        by (simp add: run_slots_def)
    qed
  qed
qed

lemma find_consecutive_runs:
  "(\<Union>r\<in>set (find_consecutive_inst m). run_slots r) = taken m"
  "separated 0 (find_consecutive_inst m)"
  using consecutive_runs [where st = None and len = 0 and i = 0 and bs = "mem_bitmap m"]
  by (simp_all add: find_consecutive_inst_def taken_def image_def)

section \<open>Properties\<close>

lemma ex_manager:
  "set_memory_bitmap 0 4 ((MemoryManager 4)\<lparr>block_bitmap := [True, False, True, False]\<rparr>) =
   Inr ((MemoryManager 4)\<lparr>block_bitmap := [True, False, True, False], mem_bitmap := [True, False, True, False]\<rparr>, True)"
  by code_simp

text \<open>C9: the allocator takes exactly the slots that the block wants in the given range when none of them is taken, and leaves the memory words alone; otherwise one of them is taken, it refuses and changes nothing.\<close>

theorem allocation:
  assumes "set_memory_bitmap s e m = Inr (m', ok)" and "mem_ok m"
  shows "if ok
     then taken m' = taken m \<union> (wanted m \<inter> {addr12 s..<addr12 e}) \<and>
          taken m \<inter> (wanted m \<inter> {addr12 s..<addr12 e}) = {} \<and> memory m' = memory m
     else m' = m \<and> taken m \<inter> (wanted m \<inter> {addr12 s..<addr12 e}) \<noteq> {}"
  using set_memory_bitmap_takes [of s e m m'] set_memory_bitmap_refuses [of s e m m'] assms
  by (cases ok) auto


theorem allocation_witness:
  "taken ((MemoryManager 4)\<lparr>block_bitmap := [True, False, True, False], mem_bitmap := [True, False, True, False]\<rparr>)
    = taken ((MemoryManager 4)\<lparr>block_bitmap := [True, False, True, False]\<rparr>) \<union>
      (wanted ((MemoryManager 4)\<lparr>block_bitmap := [True, False, True, False]\<rparr>) \<inter> {addr12 0..<addr12 4})"
  using allocation [OF ex_manager] by (simp add: mem_ok_def MemoryManager_def)


text \<open>shifting the bitmap of a block moves the wanted slots of the range up by the distance, drops those that leave it, and takes no slot.\<close>

theorem shift_moves_wanted:
  assumes "shift_block_bitmap d s e m = Inr m'" and "mem_ok m"
  shows "wanted m' = {j. j < word_count m \<and> nat d \<le> j \<and> j - nat d \<in> wanted m \<and>
           addr12 s \<le> j - nat d \<and> j < addr12 e} \<and> taken m' = taken m"
  using shift_block_bitmap_wanted [OF assms] by simp

theorem shift_moves_wanted_witness:
  "wanted ((MemoryManager 4)\<lparr>block_bitmap := [False, True, False, True]\<rparr>) \<inter> {..3} =
   {j. j \<le> 3 \<and> Suc 0 \<le> j \<and> (j - 1 = 0 \<or> j - 1 = 2)}"
proof -
  have "shift_block_bitmap 1 0 4 ((MemoryManager 4)\<lparr>block_bitmap := [True, False, True, False]\<rparr>) =
    Inr ((MemoryManager 4)\<lparr>block_bitmap := [False, True, False, True]\<rparr>)" by code_simp
  moreover have "wanted ((MemoryManager 4)\<lparr>block_bitmap := [True, False, True, False]\<rparr>) = {0, 2}"
    by (auto simp: wanted_def nth_Cons' numeral_2_eq_2 split: if_splits)
  ultimately show ?thesis
    using shift_moves_wanted [of 1 0 4 "(MemoryManager 4)\<lparr>block_bitmap := [True, False, True, False]\<rparr>"]
    by (auto simp: mem_ok_def MemoryManager_def addr12_small)
qed

text \<open>C31: the runs that the allocator reports are the taken slots, in ascending order, none empty and a free slot between two of them.\<close>

theorem runs_cover_taken_slots:
  "(\<Union>r\<in>set (find_consecutive_inst m). run_slots r) = taken m \<and> separated 0 (find_consecutive_inst m)"
  using find_consecutive_runs by simp

end
