(* ===== verification/Asm_Pseudo.thy ===== *)
theory Asm_Pseudo imports Asm_Words begin

text \<open>
  Rewriting the instructions that the hardware does not have
  (\<open>change_pseudo_instr\<close>, \<open>update_event_labels\<close> and \<open>change_majoritydefault\<close> of
  \<open>src/updown/udbasim/assembler/UpDown_Assembler_helper.py\<close>).  The code writes the replacement as
  text and parses it with \<open>GetAction\<close>; so does the model: a replacement is a list of lines, each
  the list of the pieces that an f-string joins with blanks.  The rewriting loop pops one action,
  inserts its replacement and continues behind it, which is a pass over the list.
\<close>

section \<open>Replacement text\<close>

text \<open>A piece that fails (an attribute the object does not have) fails the line.\<close>

definition line :: "string res list \<Rightarrow> string res" where
  "line ws = rmap (join '' '') (seq_res ws)"

text \<open>\<open>f"{label}:"\<close>, with the empty text for a missing label\<close>

definition label_of :: "action \<Rightarrow> string res" where
  "label_of a = (if a_label a = PNone then Inr [] else pv_text (a_label a))"

definition lab :: "action \<Rightarrow> string res" where
  "lab a = rmap (\<lambda>l. l @ '':'') (label_of a)"

text \<open>The actions of the lines, one \<open>GetAction\<close> after the other; the print counter is threaded.\<close>

fun parse_lines :: "string res list \<Rightarrow> int \<Rightarrow> (action list \<times> int) res" where
  "parse_lines [] cnt = Inr ([], cnt)"
| "parse_lines (l # ls) cnt =
     rbind l (\<lambda>s.
     rbind (GetAction s cnt) (\<lambda>(a, maxudp, maxop, cnt1).
     rbind (parse_lines ls cnt1) (\<lambda>(as, cnt2).
     Inr (a # as, cnt2))))"

section \<open>Pseudo instructions\<close>

text \<open>\<open>evii\<close>: one \<open>evi\<close> for each bit of the mask\<close>

definition evii_bits :: "int \<Rightarrow> int list" where
  "evii_bits m = filter (\<lambda>mask_bit. m AND mask_bit = mask_bit) [1, 2, 4, 8]"

definition evii_lines :: "action \<Rightarrow> int \<Rightarrow> string res list" where
  "evii_lines a m =
     (case evii_bits m of
        [] \<Rightarrow> []
      | k # ks \<Rightarrow>
          line [lab a, Inr ''evi'', Inr ''X2'', pv_text (a_dst a), pv_text (a_op1 a), Inr (py_str k)]
          # map (\<lambda>k. line [Inr ''evi'', pv_text (a_dst a), pv_text (a_dst a), pv_text (a_op2 a),
                            Inr (py_str k)]) ks)"

definition change_evii :: "action \<Rightarrow> int \<Rightarrow> (action list \<times> int) res" where
  "change_evii a cnt =
     rbind (pv_int (a_op3 a)) (\<lambda>m.
     if m = 1 \<or> m = 2 \<or> m = 4 \<or> m = 8 then
       parse_lines
         [line [lab a, Inr ''evi'', Inr ''X2'', pv_text (a_dst a), pv_text (a_op1 a),
                Inr (py_str (m AND 0b1111))]] cnt
     else
       rbind (parse_lines (evii_lines a m) cnt) (\<lambda>(as, cnt1).
       if length (evii_bits m) \<noteq> 2 then Inl SysExit else Inr (as, cnt1)))"

text \<open>A message with a return continuation: its label is loaded into the temporary register first.\<close>

definition wret :: "action \<Rightarrow> string res list \<Rightarrow> string res list" where
  "wret a send = [
     line [lab a, Inr ''addi'', Inr ''X2'', pv_text (a_tmp_reg1 a), Inr ''0''],
     line [Inr ''evlb'', pv_text (a_tmp_reg1 a), pv_text (a_cont a)],
     line send]"

text \<open>A reply: the temporary register gets the largest positive number.\<close>

definition reply :: "action \<Rightarrow> string res list \<Rightarrow> string res list" where
  "reply a send = [
     line [lab a, Inr ''movir'', pv_text (a_tmp_reg1 a), Inr ''0''],
     line [Inr ''subi'', pv_text (a_tmp_reg1 a), pv_text (a_tmp_reg1 a), Inr ''1''],
     line [Inr ''sri'', pv_text (a_tmp_reg1 a), pv_text (a_tmp_reg1 a), Inr ''1''],
     line send]"

text \<open>\<open>send_any\<close>: the registers are stored one after the other behind the pointer.\<close>

definition send_any_stores :: "action \<Rightarrow> string list \<Rightarrow> string res list" where
  "send_any_stores a regs =
     [line [lab a, Inr ''movir'', pv_text (a_tmp_reg1 a), Inr ''0''],
      line [Inr ''add'', pv_text (a_op1 a), pv_text (a_tmp_reg1 a), pv_text (a_tmp_reg1 a)]]
     @ map (\<lambda>r. line [Inr ''movrl'', Inr r, rmap (\<lambda>t. ''0('' @ t @ '')'') (pv_text (a_tmp_reg1 a)),
                      Inr ''1'', Inr ''8'']) regs"

definition send_any_lines :: "action \<Rightarrow> string list \<Rightarrow> string res list" where
  "send_any_lines a regs =
     (if a_opcode a = ''send_any_wcont'' then
        send_any_stores a regs @
        [line [Inr ''send'', pv_text (a_event a), pv_text (a_cont a), pv_text (a_op1 a),
               Inr (py_str (int (length regs))), Inr ''0'']]
      else
        send_any_stores a regs @
        [line [Inr ''addi'', Inr ''X2'', pv_text (a_tmp_reg1 a), Inr ''0''],
         line [Inr ''evlb'', pv_text (a_tmp_reg1 a), pv_text (a_cont a)],
         line [Inr ''send'', pv_text (a_event a), pv_text (a_tmp_reg1 a), pv_text (a_op1 a),
               Inr (py_str (int (length regs))), Inr ''0'']])"

fun pv_strs :: "pv \<Rightarrow> string list res" where
  "pv_strs (PStrs ss) = Inr ss"
| "pv_strs Absent = Inl AttributeError"
| "pv_strs _ = Inl TypeError"

text \<open>
  The lines that replace a message instruction, by its opcode.  The text ends with a blank where
  the source writes one: an empty last piece.
\<close>

definition message_lines :: "action \<Rightarrow> string res list option" where
  "message_lines a =
     (let i = a_opcode a; ev = pv_text (a_event a); cont = pv_text (a_cont a); dst = pv_text (a_dst a);
          op1 = pv_text (a_op1 a); op2 = pv_text (a_op2 a); op3 = pv_text (a_op3 a);
          tmp = pv_text (a_tmp_reg1 a)
      in if i = ''send_wcont'' then Some [line [lab a, Inr ''send'', ev, cont, op1, op2, Inr ''0'']]
         else if i = ''sendr_wcont'' then Some [line [lab a, Inr ''sendr'', ev, cont, op1, op2, Inr []]]
         else if i = ''sendr3_wcont'' then
           Some [line [lab a, Inr ''sendr3'', ev, cont, op1, op2, op3, Inr []]]
         else if i = ''sendops_wcont'' then
           Some [line [lab a, Inr ''sendops'', ev, cont, op1, op2, Inr ''0'']]
         else if i = ''send_wret'' then
           Some (wret a [Inr ''send'', ev, tmp, op1, op2, Inr ''0'', Inr []])
         else if i = ''sendr_wret'' then Some (wret a [Inr ''sendr'', ev, tmp, op1, op2, Inr []])
         else if i = ''sendr3_wret'' then Some (wret a [Inr ''sendr3'', ev, tmp, op1, op2, op3, Inr []])
         else if i = ''sendops_wret'' then
           Some (wret a [Inr ''sendops'', ev, tmp, op1, op2, Inr ''0'', Inr []])
         else if i = ''send_dmlm_ld'' then
           Some [line [lab a, Inr ''sendm'', dst, cont, Inr ''X0'', op1, Inr ''0'']]
         else if i = ''send_dmlm_ld_wret'' then
           Some (wret a [Inr ''sendm'', dst, tmp, Inr ''X0'', op1, Inr ''0''])
         else if i = ''send_dmlm'' then
           Some [line [lab a, Inr ''sendm'', dst, cont, op1, op2, Inr ''1'', Inr []]]
         else if i = ''sendr_dmlm'' then Some [line [lab a, Inr ''sendmr'', dst, cont, op1, Inr []]]
         else if i = ''sendr2_dmlm'' then
           Some [line [lab a, Inr ''sendmr2'', dst, cont, op1, op2, Inr []]]
         else if i = ''send_dmlm_wret'' then Some (wret a [Inr ''sendm'', dst, tmp, op1, op2, Inr ''1''])
         else if i = ''sendr_dmlm_wret'' then Some (wret a [Inr ''sendmr'', dst, tmp, op1, Inr []])
         else if i = ''sendr2_dmlm_wret'' then
           Some (wret a [Inr ''sendmr2'', dst, tmp, op1, op2, Inr []])
         else if i = ''sendops_dmlm_wret'' then
           Some (wret a [Inr ''sendmops'', dst, tmp, op1, op2, Inr ''0''])
         else if i = ''send_reply'' then
           Some (reply a [Inr ''send'', Inr ''X1'', tmp, op1, op2, Inr ''0''])
         else if i = ''sendr_reply'' \<or> i = ''send4_reply'' then
           Some (reply a [Inr ''sendr'', Inr ''X1'', tmp, op1, op2, Inr []])
         else if i = ''sendr3_reply'' then
           Some (reply a [Inr ''sendr3'', Inr ''X1'', tmp, op1, op2, op3, Inr []])
         else None)"

definition change_one :: "action \<Rightarrow> int \<Rightarrow> (action list \<times> int) res" where
  "change_one a cnt =
     (let i = a_opcode a
      in if i = ''evii'' \<or> i = ''ev_update_2'' then change_evii a cnt
         else if i = ''mov_ob2reg'' \<or> i = ''mov_reg2reg'' then
           rbind (pv_in (a_dst a) general_purpose_register_enc) (\<lambda>gpr.
           if \<not> gpr then Inl SysExit
           else parse_lines
             [line [lab a, Inr ''addi'', pv_text (a_src a), pv_text (a_dst a), Inr ''0'']] cnt)
         else if i = ''branch'' then
           rbind (pv_in (a_op1 a) register_enc) (\<lambda>reg.
           if \<not> reg then
             parse_lines
               [line [lab a, rmap (\<lambda>f. f @ ''i'') (pv_text (a_funct a)), pv_text (a_op2 a),
                      pv_text (a_op1 a), pv_text (a_dst a)]] cnt
           else
             rbind (attr (a_funct a)) (\<lambda>f.
             if f = PStr ''bge'' then
               parse_lines
                 [line [lab a, Inr ''ble'', pv_text (a_op2 a), pv_text (a_op1 a), pv_text (a_dst a)]] cnt
             else if f = PStr ''blt'' then
               parse_lines
                 [line [lab a, Inr ''bgt'', pv_text (a_op2 a), pv_text (a_op1 a), pv_text (a_dst a)]] cnt
             else Inr ([a], cnt)))
         else if i = ''send_any_wcont'' \<or> i = ''send_any_wret'' then
           rbind (pv_strs (a_reglist a)) (\<lambda>regs. parse_lines (send_any_lines a regs) cnt)
         else
           (case message_lines a of Some ls \<Rightarrow> parse_lines ls cnt | None \<Rightarrow> Inr ([a], cnt)))"

fun change_pseudo_instr :: "action list \<Rightarrow> int \<Rightarrow> (action list \<times> int) res" where
  "change_pseudo_instr [] cnt = Inr ([], cnt)"
| "change_pseudo_instr (a # as) cnt =
     rbind (change_one a cnt) (\<lambda>(bs, cnt1).
     rbind (change_pseudo_instr as cnt1) (\<lambda>(cs, cnt2).
     Inr (bs @ cs, cnt2)))"

section \<open>Event labels\<close>

text \<open>Resolved labels: the number of an event and its address\<close>

type_synonym symbols = "(int, int) dict"

definition is_evi :: "action \<Rightarrow> bool" where
  "is_evi a = (a_opcode a = ''evi'' \<or> a_opcode a = ''ev_update_1'')"

definition uses_label :: "action \<Rightarrow> bool res" where
  "uses_label a =
     (if is_evi a then rmap (\<lambda>m. m AND 0b0001 = 1) (pv_int (a_imm2 a))
      else Inr (a_opcode a = ''evlb''))"

definition update_one :: "symbols \<Rightarrow> action \<Rightarrow> int \<Rightarrow> (action list \<times> int) res" where
  "update_one symbols a cnt =
     rbind (uses_label a) (\<lambda>u.
     if u then
       rbind (pv_int (a_imm a)) (\<lambda>l.
       rbind (dict_get symbols l SysExit) (\<lambda>addr.
       let a1 = a\<lparr>a_imm := PInt addr\<rparr>
       in if is_evi a \<and> addr > 0xFFF then
            parse_lines
              [line [lab a1, Inr ''addi'', pv_text (a_src a1), pv_text (a_dst a1), Inr ''0''],
               line [Inr ''evlb'', pv_text (a_dst a1), pv_text (a_imm a1)]] cnt
          else Inr ([a1], cnt)))
     else Inr ([a], cnt))"

fun update_event_labels :: "action list \<Rightarrow> symbols \<Rightarrow> int \<Rightarrow> (action list \<times> int) res" where
  "update_event_labels [] symbols cnt = Inr ([], cnt)"
| "update_event_labels (a # as) symbols cnt =
     rbind (update_one symbols a cnt) (\<lambda>(bs, cnt1).
     rbind (update_event_labels as symbols cnt1) (\<lambda>(cs, cnt2).
     Inr (bs @ cs, cnt2)))"

text \<open>The words reserved for a block before its labels are known\<close>

definition get_potential_actions_size :: "action list \<Rightarrow> nat" where
  "get_potential_actions_size as = sum_list (map (\<lambda>a. if is_evi a then 2 else 1) as)"

definition allocate_actions_addresses :: "action list \<Rightarrow> int \<Rightarrow> bool \<Rightarrow> int" where
  "allocate_actions_addresses action_list address after_resolve =
     address + 4 * int (if after_resolve then length action_list
                        else get_potential_actions_size action_list)"

section \<open>What the parser makes of a line\<close>

lemma colon_word: "\<not> is_space CHR '':''"
  by (simp add: is_space_def)

definition is_word :: "string \<Rightarrow> bool" where
  "is_word s = (s \<noteq> [] \<and> list_all (\<lambda>c. \<not> is_space c) s)"

lemma split_ws_skip: "list_all (\<lambda>c. \<not> is_space c) w \<Longrightarrow> w \<noteq> [] \<Longrightarrow> split_ws (w @ CHR '' '' # s) = w # split_ws s"
  and split_ws_word: "list_all (\<lambda>c. \<not> is_space c) w \<Longrightarrow> w \<noteq> [] \<Longrightarrow> split_ws w = [w]"
proof -
  assume w: "list_all (\<lambda>c. \<not> is_space c) w" "w \<noteq> []"
  then obtain c cs where c: "w = c # cs" by (cases w) auto
  have n: "\<not> is_space c" "\<forall>x\<in>set cs. \<not> is_space x" using w c by (auto simp: list_all_iff)
  have sp: "is_space CHR '' ''" by (simp add: is_space_def)
  show "split_ws w = [w]" using n c by (simp add: takeWhile_eq_all_conv dropWhile_eq_Nil_conv [THEN iffD2])
  show "split_ws (w @ CHR '' '' # s) = w # split_ws s"
    using n c sp by (simp add: takeWhile_append2 dropWhile_append2)
qed

lemma split_ws_join:
  assumes "list_all (\<lambda>w. w = [] \<or> is_word w) ws"
  shows "split_ws (join '' '' ws) = filter (\<lambda>w. w \<noteq> []) ws"
  using assms
proof (induction "'' ''" ws rule: join.induct)
  case (2 s)
  then show ?case by (auto simp: is_word_def split_ws_word)
next
  case (3 s t ts)
  have sp: "is_space CHR '' ''" by (simp add: is_space_def)
  from 3 show ?case by (cases "s = []") (auto simp: is_word_def split_ws_skip sp)
qed simp

definition parse_words ::
  "string \<Rightarrow> pv \<Rightarrow> string \<Rightarrow> string list \<Rightarrow> int \<Rightarrow> (action \<times> int \<times> int \<times> int) res" where
  "parse_words s label opcode ps cnt =
     rbind (seq_res (map map_operand ps)) (\<lambda>qs.
     rbind (parse_opcode s opcode (get_precision opcode) (opcode # qs)
        (Operand\<lparr>o_opcode := opcode, o_precision := get_precision opcode, o_label := label\<rparr>) cnt)
       (\<lambda>(cls, o1, cnt'). rbind (construct cls o1) (\<lambda>a. Inr (a, o_maxudp o1, o_maxop o1, cnt'))))"

definition no_comma :: "string \<Rightarrow> bool" where
  "no_comma s = (s = [] \<or> last s \<noteq> CHR '','')"

lemma rstrip_no_comma: "no_comma s \<Longrightarrow> rstrip_of (\<lambda>c. c = CHR '','') s = s"
  by (cases s rule: rev_cases) (auto simp: no_comma_def rstrip_of_def)

lemma Operand_label: "o_label Operand = PNone"
  by (simp add: Operand_def)

definition line_words :: "string list \<Rightarrow> bool" where
  "line_words ws = list_all (\<lambda>w. (w = [] \<or> is_word w) \<and> no_comma w) ws"

lemma GetAction_labelled:
  assumes "line_words (l # opcode # ps)" and "opcode \<noteq> []"
  shows "GetAction (join '' '' ((l @ '':'') # opcode # ps)) cnt =
    parse_words (join '' '' ((l @ '':'') # opcode # ps)) (PStr l) opcode (filter (\<lambda>p. p \<noteq> []) ps) cnt"
proof -
  let ?ps = "filter (\<lambda>p. p \<noteq> []) ps"
  have w: "list_all (\<lambda>w. w = [] \<or> is_word w) ((l @ '':'') # opcode # ps)"
  proof -
    have "list_all (\<lambda>w. w = [] \<or> is_word w) ps"
      using assms(1) by (auto simp: line_words_def elim: list.pred_mono_strong)
    then show ?thesis using assms by (auto simp: line_words_def is_word_def colon_word)
  qed
  have sp: "split_ws (join '' '' ((l @ '':'') # opcode # ps)) = (l @ '':'') # opcode # ?ps"
    using split_ws_join [OF w] assms(2) by simp
  have st: "map (rstrip_of (\<lambda>c. c = CHR '','')) (opcode # ?ps) = opcode # ?ps"
    using assms(1) by (auto simp: line_words_def list_all_iff intro!: map_idI rstrip_no_comma)
  show ?thesis
    unfolding GetAction_def ParseAction_def sp using st
    by (simp add: parse_words_def Let_def rbind_assoc)
qed

lemma GetAction_plain:
  assumes "line_words (opcode # ps)" and "opcode \<noteq> []" "last opcode \<noteq> CHR '':''"
  shows "GetAction (join '' '' (opcode # ps)) cnt =
    parse_words (join '' '' (opcode # ps)) PNone opcode (filter (\<lambda>p. p \<noteq> []) ps) cnt"
proof -
  let ?ps = "filter (\<lambda>p. p \<noteq> []) ps"
  have w: "list_all (\<lambda>w. w = [] \<or> is_word w) (opcode # ps)"
    using assms by (auto simp: line_words_def list_all_iff)
  have sp: "split_ws (join '' '' (opcode # ps)) = opcode # ?ps"
    using split_ws_join [OF w] assms(2) by simp
  have st: "map (rstrip_of (\<lambda>c. c = CHR '','')) (opcode # ?ps) = opcode # ?ps"
    using assms(1) by (auto simp: line_words_def list_all_iff intro!: map_idI rstrip_no_comma)
  have o: "Operand\<lparr>o_opcode := opcode, o_precision := p, o_label := PNone\<rparr> = Operand\<lparr>o_opcode := opcode, o_precision := p\<rparr>" for p
    by (simp add: Operand_def)
  show ?thesis
    unfolding GetAction_def ParseAction_def sp using st assms(3)
    by (simp add: parse_words_def Let_def rbind_assoc o)
qed


section \<open>The opcode of a parsed line\<close>

text \<open>What a successful parse says of the operand object\<close>

definition keeps :: "(operand \<Rightarrow> bool) \<Rightarrow> parsed \<Rightarrow> bool" where
  "keeps P r = (\<forall>cls o1 c. r = Inr (cls, o1, c) \<longrightarrow> P o1)"

lemma keeps_bind: "(\<And>x. m = Inr x \<Longrightarrow> keeps P (f x)) \<Longrightarrow> keeps P (rbind m f)"
  by (cases m) (auto simp: keeps_def)

lemma keeps_intros:
  "keeps P (Inl e)"
  "(b \<Longrightarrow> keeps P r) \<Longrightarrow> (\<not> b \<Longrightarrow> keeps P r') \<Longrightarrow> keeps P (if b then r else r')"
  "(\<And>x. keeps P (f x)) \<Longrightarrow> keeps P (arg1 part f)"
  "(\<And>x y. keeps P (f2 x y)) \<Longrightarrow> keeps P (arg2 part f2)"
  "(\<And>x y z. keeps P (f3 x y z)) \<Longrightarrow> keeps P (arg3 part f3)"
  "(\<And>x y z u. keeps P (f4 x y z u)) \<Longrightarrow> keeps P (arg4 part f4)"
  "(\<And>x y z u v. keeps P (f5 x y z u v)) \<Longrightarrow> keeps P (arg5 part f5)"
  "(\<And>x y z u v w. keeps P (f6 x y z u v w)) \<Longrightarrow> keeps P (arg6 part f6)"
  by (auto simp: keeps_def arg_defs rbind_Inr_iff)

definition opc :: "string \<Rightarrow> operand \<Rightarrow> bool" where
  "opc i o1 = (o_opcode o1 = i \<or> o_opcode o1 = ''branch'' \<and> o_funct o1 = PStr i)"

lemma keeps_finish:
  "opc i o1 \<Longrightarrow> keeps (opc i) (finish cnt cls o1 regs)"
  "opc i o1 \<Longrightarrow> keeps (opc i) (finish0 cnt cls o1)"
  "opc i o1 \<Longrightarrow> keeps (opc i) (finish_parts cnt cls o1 part)"
  by (auto simp: keeps_def finish_def finish0_def finish_parts_def rmap_Inr_iff set_max_def opc_def)

definition keeps_opt :: "(operand \<Rightarrow> bool) \<Rightarrow> parsed option \<Rightarrow> bool" where
  "keeps_opt P r = (\<forall>x. r = Some x \<longrightarrow> keeps P x)"

lemma keeps_opt_intros:
  "keeps_opt P None"
  "keeps P r \<Longrightarrow> keeps_opt P (Some r)"
  "(b \<Longrightarrow> keeps_opt P x) \<Longrightarrow> (\<not> b \<Longrightarrow> keeps_opt P y) \<Longrightarrow> keeps_opt P (if b then x else y)"
  "keeps_opt P x \<Longrightarrow> keeps_opt P y \<Longrightarrow> keeps_opt P (orelse x y)"
  by (auto simp: keeps_opt_def orelse_def split: option.splits)

lemmas keeps_rules = keeps_opt_intros keeps_intros keeps_finish keeps_bind

lemma opcode_imm: "o_opcode o1 = i \<Longrightarrow> keeps_opt (opc i) (parse_imm i part o1 cnt)"
  unfolding parse_imm_def by (intro keeps_rules) (simp_all add: opc_def)

lemma opcode_two_imm: "o_opcode o1 = i \<Longrightarrow> keeps_opt (opc i) (parse_two_imm i part o1 cnt)"
  unfolding parse_two_imm_def by (intro keeps_rules) (simp_all add: opc_def)

lemma opcode_reg: "o_opcode o1 = i \<Longrightarrow> keeps_opt (opc i) (parse_reg i part o1 cnt)"
  unfolding parse_reg_def by (intro keeps_rules) (simp_all add: opc_def)

lemma opcode_move: "o_opcode o1 = i \<Longrightarrow> keeps_opt (opc i) (parse_move i part o1 cnt)"
  unfolding parse_move_def Let_def
  by (intro keeps_rules)
    (auto simp: opc_def keeps_def finish_def set_max_def rbind_Inr_iff rmap_Inr_iff split: if_splits)

lemma opcode_branch: "o_opcode o1 = i \<Longrightarrow> keeps_opt (opc i) (parse_branch i part o1 cnt)"
  unfolding parse_branch_def Let_def by (intro keeps_rules) (simp_all add: opc_def branch_target_def)

lemma opcode_send: "o_opcode o1 = i \<Longrightarrow> keeps_opt (opc i) (parse_send i part o1 cnt)"
  unfolding parse_send_def by (intro keeps_rules) (simp_all add: opc_def)

lemma opcode_send_pseudo: "o_opcode o1 = i \<Longrightarrow> keeps_opt (opc i) (parse_send_pseudo i part o1 cnt)"
  unfolding parse_send_pseudo_def by (intro keeps_rules) (simp_all add: opc_def)

lemma opcode_dmlm: "o_opcode o1 = i \<Longrightarrow> keeps_opt (opc i) (parse_dmlm_pseudo i part o1 cnt)"
  unfolding parse_dmlm_pseudo_def Let_def by (intro keeps_rules) (simp_all add: opc_def)

lemma opcode_reply: "o_opcode o1 = i \<Longrightarrow> keeps_opt (opc i) (parse_reply i part o1 cnt)"
  unfolding parse_reply_def by (intro keeps_rules) (simp_all add: opc_def)

lemma opcode_float: "o_opcode o1 = i \<Longrightarrow> keeps_opt (opc i) (parse_float i p part o1 cnt)"
  unfolding parse_float_def Let_def by (intro keeps_rules) (simp_all add: opc_def)


lemma opcode_print: "o_opcode o1 = i \<Longrightarrow> keeps_opt (opc i) (parse_print s i part o1 cnt)"
  unfolding parse_print_def Let_def
  by (intro keeps_rules)
    (auto simp: opc_def keeps_intros split: option.splits intro!: keeps_rules)

lemma construct_opcode:
  "construct cls o1 = Inr a \<Longrightarrow> a_opcode a = o_opcode o1 \<and>
     (o_opcode o1 = ''branch'' \<and> o_funct o1 = PStr i \<longrightarrow> 
       a_funct a \<in> {Absent, PStr (if last i = CHR ''c'' then butlast i @ ''i'' else i)})"
  by (cases cls) (auto simp: construct_def mk_IAction_def mk_I2Action_def mk_I3Action_def mk_EAction_def
    mk_RAction_def mk_BAction_def mk_SAction_def mk_SPAction_def mk_PAction_def mk_PerflogAction_def
    mk_InsTransAction_def mk_UserCounterAction_def mk_LMMemcheckAction_def mk_YAction_def mk_FPAction_def
    mk_VAction_def new_action_def rbind_Inr_iff split: if_splits)

lemma keeps_case:
  "keeps_opt P r \<Longrightarrow> keeps P d \<Longrightarrow> keeps P (case r of None \<Rightarrow> d | Some x \<Rightarrow> x)"
  by (cases r) (auto simp: keeps_opt_def)

lemma opcode_kept:
  assumes "parse_words s label i ps cnt = Inr (a, u, m, c)"
  shows "a_opcode a = i \<or>
    a_opcode a = ''branch'' \<and>
    a_funct a \<in> {Absent, PStr (if last i = CHR ''c'' then butlast i @ ''i'' else i)}"
proof -
  let ?o = "Operand\<lparr>o_opcode := i, o_precision := get_precision i, o_label := label\<rparr>"
  have o: "o_opcode ?o = i" "opc i ?o" by (simp_all add: opc_def)
  have k: "keeps (opc i) (parse_opcode s i pr part ?o cnt)" for pr part
    unfolding parse_opcode_def
    by (intro keeps_case keeps_opt_intros(4) opcode_imm opcode_two_imm opcode_move opcode_reg
        opcode_branch opcode_send opcode_send_pseudo opcode_dmlm opcode_reply opcode_print
        opcode_float keeps_finish(2) o)
  from assms obtain qs cls o1 c' where
    p: "parse_opcode s i (get_precision i) (i # qs) ?o cnt = Inr (cls, o1, c')" "construct cls o1 = Inr a"
    by (auto simp: parse_words_def rbind_Inr_iff)
  have "opc i o1" using k [of "get_precision i" "i # qs"] p(1) unfolding keeps_def by blast
  then show ?thesis using construct_opcode [OF p(2), of i] by (auto simp: opc_def)
qed


section \<open>The rewriting leaves no pseudo instruction\<close>

definition text_ok :: "pv \<Rightarrow> bool" where
  "text_ok v = (\<forall>s. pv_text v = Inr s \<longrightarrow> (s = [] \<or> is_word s) \<and> no_comma s)"

definition texts_ok :: "action \<Rightarrow> bool" where
  "texts_ok a =
     ((a_label a \<noteq> PNone \<longrightarrow> text_ok (a_label a)) \<and>
      list_all text_ok [a_dst a, a_src a, a_op1 a, a_op2 a, a_op3 a, a_event a, a_cont a,
        a_tmp_reg1 a, a_imm a] \<and>
      (a_opcode a = ''branch'' \<longrightarrow> a_funct a \<in> PStr ` branch_opcodes) \<and>
      (\<forall>rs. a_reglist a = PStrs rs \<longrightarrow> list_all (\<lambda>r. (r = [] \<or> is_word r) \<and> no_comma r) rs))"

definition rewritten_names :: "string set" where
  "rewritten_names = {''evii'', ''ev_update_2'', ''mov_ob2reg'', ''mov_reg2reg'', ''send_any_wcont'',
     ''send_any_wret'', ''send_wcont'', ''sendr_wcont'', ''sendr3_wcont'', ''sendops_wcont'',
     ''send_wret'', ''sendr_wret'', ''sendr3_wret'', ''sendops_wret'', ''send_dmlm_ld'',
     ''send_dmlm_ld_wret'', ''send_dmlm'', ''sendr_dmlm'', ''sendr2_dmlm'', ''send_dmlm_wret'',
     ''sendr_dmlm_wret'', ''sendr2_dmlm_wret'', ''sendops_dmlm_wret'', ''send_reply'',
     ''sendr_reply'', ''send4_reply'', ''sendr3_reply''}"

definition needs_change :: "action \<Rightarrow> bool" where
  "needs_change a =
     (a_opcode a \<in> rewritten_names \<or>
      a_opcode a = ''branch'' \<and> a_funct a \<in> {PStr ''bge'', PStr ''blt''})"

text \<open>A line whose pieces are words: the opcode is the second or the first of them.\<close>

definition piece_ok :: "string res \<Rightarrow> bool" where
  "piece_ok p = (\<forall>s. p = Inr s \<longrightarrow> (s = [] \<or> is_word s) \<and> no_comma s)"

lemma seq_res_pieces:
  "seq_res ps = Inr ws \<Longrightarrow> list_all piece_ok ps \<Longrightarrow> line_words ws"
  by (induction ps arbitrary: ws) (auto simp: res_simps piece_ok_def line_words_def)

definition hw_opcode :: "string \<Rightarrow> bool" where
  "hw_opcode i =
     (i \<notin> rewritten_names \<and> i \<noteq> ''branch'' \<and> i \<noteq> [] \<and> is_word i \<and> no_comma i \<and> last i \<noteq> CHR '':'' \<and>
      i \<notin> {''bge'', ''blt''} )"

lemma opcode_clean:
  assumes "parse_words s label i ps cnt = Inr (a, u, m, c)" and "hw_opcode i"
  shows "\<not> needs_change a"
proof -
  have "a_opcode a \<notin> rewritten_names"
    using opcode_kept [OF assms(1)] assms(2) by (auto simp: hw_opcode_def rewritten_names_def)
  moreover have "butlast i @ ''i'' \<noteq> ''bge''" "butlast i @ ''i'' \<noteq> ''blt''"
    by (rule notI, drule arg_cong [where f = last], simp)+
  then have "a_opcode a = ''branch'' \<Longrightarrow> a_funct a \<notin> {PStr ''bge'', PStr ''blt''}"
    using opcode_kept [OF assms(1)] assms(2) by (auto simp: hw_opcode_def split: if_splits)
  ultimately show ?thesis by (auto simp: needs_change_def)
qed


lemma line_Inr_iff: "line ps = Inr s \<longleftrightarrow> (\<exists>ws. seq_res ps = Inr ws \<and> s = join '' '' ws)"
  by (simp add: line_def rmap_Inr_iff)

lemma labelled_clean:
  assumes "line (lab a # Inr i # ps) = Inr s" and "GetAction s cnt = Inr (b, u, m, c)"
    and "hw_opcode i" and "a_label a \<noteq> PNone \<longrightarrow> text_ok (a_label a)" and "list_all piece_ok ps"
  shows "\<not> needs_change b"
proof -
  obtain l ws where l: "label_of a = Inr l" and ws: "seq_res ps = Inr ws"
    and s: "s = join '' '' ((l @ '':'') # i # ws)"
    using assms(1) by (auto simp: line_Inr_iff seq_res_Cons_iff lab_def rmap_Inr_iff)
  have "(l = [] \<or> is_word l) \<and> no_comma l"
    using l assms(4) by (auto simp: label_of_def text_ok_def no_comma_def split: if_splits)
  moreover have "line_words ws" using ws assms(5) by (rule seq_res_pieces)
  ultimately have "line_words (l # i # ws)" using assms(3) by (auto simp: line_words_def hw_opcode_def)
  from GetAction_labelled [OF this, of cnt] assms(2,3) show ?thesis
    unfolding s by (metis hw_opcode_def opcode_clean)
qed

lemma plain_clean:
  assumes "line (Inr i # ps) = Inr s" and "GetAction s cnt = Inr (b, u, m, c)"
    and "hw_opcode i" and "list_all piece_ok ps"
  shows "\<not> needs_change b"
proof -
  obtain ws where ws: "seq_res ps = Inr ws" and s: "s = join '' '' (i # ws)"
    using assms(1) by (auto simp: line_Inr_iff seq_res_Cons_iff)
  have "line_words ws" using ws assms(4) by (rule seq_res_pieces)
  then have "line_words (i # ws)" using assms(3) by (auto simp: line_words_def hw_opcode_def)
  from GetAction_plain [OF this, of cnt] assms(2,3) show ?thesis
    unfolding s by (metis hw_opcode_def opcode_clean)
qed

text \<open>A line of the rewriting: a hardware opcode and pieces that are words\<close>

definition good_line :: "action \<Rightarrow> string res \<Rightarrow> bool" where
  "good_line a l =
     (\<exists>i ps. hw_opcode i \<and> list_all piece_ok ps \<and>
       (l = line (lab a # Inr i # ps) \<and> (a_label a \<noteq> PNone \<longrightarrow> text_ok (a_label a)) \<or>
        l = line (Inr i # ps)))"

lemma parse_lines_clean:
  "parse_lines ls cnt = Inr (bs, c) \<Longrightarrow> list_all (good_line a) ls \<Longrightarrow> \<forall>b\<in>set bs. \<not> needs_change b"
proof (induction ls arbitrary: cnt bs)
  case (Cons l ls)
  obtain s b u m c1 bs' where l: "l = Inr s" and g: "GetAction s cnt = Inr (b, u, m, c1)"
    and r: "parse_lines ls c1 = Inr (bs', c)" and bs: "bs = b # bs'"
    using Cons.prems(1) by (auto simp: rbind_Inr_iff)
  have "good_line a (Inr s)" using Cons.prems(2) l by simp
  then have "\<not> needs_change b"
    unfolding good_line_def using labelled_clean [OF _ g, of a] plain_clean [OF _ g] by metis
  with Cons.IH [OF r] Cons.prems(2) bs show ?case by auto
qed simp

lemma good_lineI:
  "hw_opcode i \<Longrightarrow> list_all piece_ok ps \<Longrightarrow> a_label a \<noteq> PNone \<longrightarrow> text_ok (a_label a) \<Longrightarrow>
   good_line a (line (lab a # Inr i # ps))"
  "hw_opcode i \<Longrightarrow> list_all piece_ok ps \<Longrightarrow> good_line a (line (Inr i # ps))"
  by (auto simp: good_line_def)


lemmas literal_simps = is_word_def is_space_def no_comma_def

lemma hw_opcodes:
  "list_all hw_opcode [''addi'', ''evi'', ''evlb'', ''send'', ''sendr'', ''sendr3'', ''sendops'',
     ''sendm'', ''sendmr'', ''sendmr2'', ''sendmops'', ''movir'', ''subi'', ''sri'', ''movrl'',
     ''add'', ''ble'', ''bgt'']"
  by (simp add: hw_opcode_def rewritten_names_def literal_simps)

lemma branch_funct_hw: "f \<in> branch_opcodes \<Longrightarrow> hw_opcode (f @ ''i'')"
  by (auto simp: branch_opcodes_def hw_opcode_def rewritten_names_def literal_simps)

lemma piece_literals:
  "list_all (\<lambda>s. piece_ok (Inr s)) [''X0'', ''X1'', ''X2'', ''0'', ''1'', ''8'', []]"
  by (simp add: piece_ok_def literal_simps)

lemma digits_word: "s \<noteq> [] \<Longrightarrow> list_all is_digit s \<Longrightarrow> is_word s \<and> no_comma s"
  by (cases s rule: rev_cases) (auto simp: is_word_def no_comma_def list_all_iff digit_not_space is_digit_def)

lemma piece_str: "0 \<le> i \<Longrightarrow> piece_ok (Inr (py_str i))"
  using digits_word [of "nat_str (nat i)"] nat_str_digits [of "nat i"]
  by (simp add: piece_ok_def py_str_def)

lemma piece_text: "text_ok v \<Longrightarrow> piece_ok (pv_text v)"
  by (auto simp: piece_ok_def text_ok_def)


lemmas good_line_simps = good_lineI hw_opcodes [simplified] piece_literals [simplified] piece_text piece_str

lemma texts_okD:
  assumes "texts_ok a"
  shows "a_label a \<noteq> PNone \<longrightarrow> text_ok (a_label a)" "text_ok (a_dst a)" "text_ok (a_src a)"
    "text_ok (a_op1 a)" "text_ok (a_op2 a)" "text_ok (a_op3 a)" "text_ok (a_event a)"
    "text_ok (a_cont a)" "text_ok (a_tmp_reg1 a)" "text_ok (a_imm a)"
  using assms by (simp_all add: texts_ok_def)

lemma message_lines_good:
  assumes t: "texts_ok a" and "message_lines a = Some ls"
  shows "list_all (good_line a) ls"
  using assms(2) texts_okD [OF t]
  unfolding message_lines_def Let_def
  by (simp add: wret_def reply_def good_line_simps split: if_splits) (auto simp: good_line_simps)?

lemma evii_lines_good:
  assumes "texts_ok a" shows "list_all (good_line a) (evii_lines a m)"
  using texts_okD [OF assms]
  by (auto simp: evii_lines_def good_line_simps list.pred_map list_all_iff evii_bits_def split: list.splits
      dest!: arg_cong [where f = set])


lemma piece_reg: "text_ok v \<Longrightarrow> piece_ok (rmap (\<lambda>t. ''0('' @ t @ '')'') (pv_text v))"
  by (auto simp: piece_ok_def text_ok_def rmap_Inr_iff is_word_def no_comma_def is_space_def)

lemma piece_plain: "(r = [] \<or> is_word r) \<and> no_comma r \<Longrightarrow> piece_ok (Inr r)"
  by (simp add: piece_ok_def)

lemma send_any_good:
  assumes "texts_ok a" and "list_all (\<lambda>r. (r = [] \<or> is_word r) \<and> no_comma r) regs"
  shows "list_all (good_line a) (send_any_lines a regs)"
proof -
  have "list_all (good_line a) (send_any_stores a regs)"
    using texts_okD [OF assms(1)] assms(2)
    by (auto simp: send_any_stores_def good_line_simps piece_reg [simplified] piece_plain list_all_iff)
  then show ?thesis
    using texts_okD [OF assms(1)] by (simp add: send_any_lines_def good_line_simps)
qed

lemma message_lines_names:
  "message_lines a = None \<Longrightarrow>
   a_opcode a \<notin> rewritten_names - {''evii'', ''ev_update_2'', ''mov_ob2reg'', ''mov_reg2reg'',
     ''send_any_wcont'', ''send_any_wret''}"
  unfolding message_lines_def Let_def rewritten_names_def by (simp split: if_splits)

lemma parse_line_clean:
  "good_line a l \<Longrightarrow> parse_lines [l] cnt = Inr (bs, c) \<Longrightarrow> \<forall>b\<in>set bs. \<not> needs_change b"
  using parse_lines_clean [of "[l]" cnt bs c a] by simp

lemma change_evii_clean:
  assumes "change_evii a cnt = Inr (bs, c)" and "texts_ok a"
  shows "\<forall>b\<in>set bs. \<not> needs_change b"
proof -
  obtain m where m: "pv_int (a_op3 a) = Inr m" using assms(1) by (auto simp: change_evii_def rbind_Inr_iff)
  let ?l = "line [lab a, Inr ''evi'', Inr ''X2'', pv_text (a_dst a), pv_text (a_op1 a), Inr (py_str (m AND 15))]"
  have l: "good_line a ?l" using texts_okD [OF assms(2)] by (simp add: good_line_simps)
  have "parse_lines [?l] cnt = Inr (bs, c) \<or> parse_lines (evii_lines a m) cnt = Inr (bs, c)"
    using assms(1) m unfolding change_evii_def by (auto simp: rbind_Inr_iff simp del: parse_lines.simps split: if_splits)
  then show ?thesis using parse_line_clean [OF l] parse_lines_clean [OF _ evii_lines_good [OF assms(2)]] by blast
qed

lemma change_one_clean:
  assumes c: "change_one a cnt = Inr (bs, c)" and t: "texts_ok a"
  shows "\<forall>b\<in>set bs. \<not> needs_change b"
proof -
  note good = good_line_simps texts_okD [OF t]
  let ?i = "a_opcode a"
  consider "?i = ''evii'' \<or> ?i = ''ev_update_2''" | "?i = ''mov_ob2reg'' \<or> ?i = ''mov_reg2reg''"
    | "?i = ''branch''" | "?i = ''send_any_wcont'' \<or> ?i = ''send_any_wret''"
    | "?i \<notin> {''evii'', ''ev_update_2'', ''mov_ob2reg'', ''mov_reg2reg'', ''branch'',
         ''send_any_wcont'', ''send_any_wret''}" by blast
  then show ?thesis
  proof cases
    case 1
    then show ?thesis using c change_evii_clean [OF _ t] by (auto simp: change_one_def)
  next
    case 2
    have "good_line a (line [lab a, Inr ''addi'', pv_text (a_src a), pv_text (a_dst a), Inr ''0''])"
      by (simp add: good)
    from parse_line_clean [OF this] show ?thesis using c 2
      by (auto simp: change_one_def rbind_Inr_iff simp del: parse_lines.simps split: if_splits)
  next
    case 3
    obtain f where f: "a_funct a = PStr f" "f \<in> branch_opcodes" using t 3 by (auto simp: texts_ok_def)
    have "good_line a (line [lab a, Inr (f @ ''i''), pv_text (a_op2 a), pv_text (a_op1 a), pv_text (a_dst a)])"
      "good_line a (line [lab a, Inr ''ble'', pv_text (a_op2 a), pv_text (a_op1 a), pv_text (a_dst a)])"
      "good_line a (line [lab a, Inr ''bgt'', pv_text (a_op2 a), pv_text (a_op1 a), pv_text (a_dst a)])"
      using branch_funct_hw [OF f(2)] by (simp_all add: good)
    note clean = this [THEN parse_line_clean]
    have "bs = [a] \<and> f \<notin> {''bge'', ''blt''} \<or>
       parse_lines [line [lab a, Inr (f @ ''i''), pv_text (a_op2 a), pv_text (a_op1 a), pv_text (a_dst a)]] cnt = Inr (bs, c) \<or>
       parse_lines [line [lab a, Inr ''ble'', pv_text (a_op2 a), pv_text (a_op1 a), pv_text (a_dst a)]] cnt = Inr (bs, c) \<or>
       parse_lines [line [lab a, Inr ''bgt'', pv_text (a_op2 a), pv_text (a_op1 a), pv_text (a_dst a)]] cnt = Inr (bs, c)"
      using c 3 f(1) by (auto simp: change_one_def rbind_Inr_iff simp del: parse_lines.simps split: if_splits)
    moreover have "f \<notin> {''bge'', ''blt''} \<Longrightarrow> \<not> needs_change a"
      using 3 f(1) by (simp add: needs_change_def rewritten_names_def)
    ultimately show ?thesis by (elim disjE) (simp, (erule clean)+)
  next
    case 4
    then obtain regs where r: "a_reglist a = PStrs regs" "parse_lines (send_any_lines a regs) cnt = Inr (bs, c)"
      using c by (cases "a_reglist a") (auto simp: change_one_def rbind_Inr_iff)
    then show ?thesis using parse_lines_clean [OF r(2) send_any_good [OF t]] t by (auto simp: texts_ok_def)
  next
    case 5
    show ?thesis
    proof (cases "message_lines a")
      case None
      then have "bs = [a]" using c 5 by (simp add: change_one_def)
      then show ?thesis using message_lines_names [OF None] 5 by (auto simp: needs_change_def)
    next
      case (Some ls)
      then have "parse_lines ls cnt = Inr (bs, c)" using c 5 by (simp add: change_one_def)
      then show ?thesis using message_lines_good [OF t Some] parse_lines_clean by blast
    qed
  qed
qed

end
