(* ===== verification/Asm_Rewrite.thy ===== *)
theory Asm_Rewrite imports Asm_Pseudo begin

text \<open>
  What the rewriting of \<open>Asm_Pseudo\<close> makes of an instruction: register moves become additions of
  0, \<open>bge\<close> and \<open>blt\<close> become \<open>ble\<close> and \<open>bgt\<close> with the operands exchanged, and the replacement of an
  event label takes no more words than were reserved for it.
\<close>

section \<open>Lines of registers\<close>

text \<open>A register name as the parser leaves it\<close>

definition reg_text :: "string \<Rightarrow> bool" where
  "reg_text s = (is_word s \<and> no_comma s \<and> map_operand s = Inr s \<and> (\<forall>m. \<exists>m'. max_step s m = Inr m'))"

definition operand_text :: "string \<Rightarrow> bool" where
  "operand_text s = (is_word s \<and> no_comma s \<and> map_operand s = Inr s)"

lemma reg_operand: "reg_text s \<Longrightarrow> operand_text s"
  by (simp add: reg_text_def operand_text_def)

lemma calc_regs: "list_all reg_text rs \<Longrightarrow> \<exists>m. calc_maxudp_maxob rs = Inr m"
proof -
  assume r: "list_all reg_text rs"
  have "\<exists>m'. foldr_res max_step rs m = Inr m'" for m
    using r
  proof (induction rs arbitrary: m)
    case (Cons s rs)
    then have "reg_text s" by simp
    then obtain m1 where "max_step s m = Inr m1" unfolding reg_text_def by blast
    with Cons show ?case by simp
  qed simp
  then show ?thesis by (simp add: calc_maxudp_maxob_def)
qed

lemma map_operands: "list_all operand_text ps \<Longrightarrow> seq_res (map map_operand ps) = Inr ps"
  by (induction ps) (auto simp: operand_text_def res_simps)

lemma operand_line:
  "list_all operand_text ps \<Longrightarrow> line_words ps" "list_all operand_text ps \<Longrightarrow> filter (\<lambda>p. p \<noteq> []) ps = ps"
  by (auto simp: operand_text_def line_words_def is_word_def list_all_iff)

lemma labelled_line:
  assumes "label_of a = Inr l" "(l = [] \<or> is_word l) \<and> no_comma l" and "hw_opcode i" and "list_all operand_text ps"
  shows "parse_lines [line (lab a # Inr i # map Inr ps)] cnt =
    rbind (parse_words (join '' '' ((l @ '':'') # i # ps)) (PStr l) i ps cnt) (\<lambda>(b, u, m, c). Inr ([b], c))"
proof -
  have s: "line (lab a # Inr i # map Inr ps) = Inr (join '' '' ((l @ '':'') # i # ps))"
    using assms(1) by (simp add: line_def lab_def seq_res.simps del: join.simps)
  have w: "line_words (l # i # ps)"
    using assms operand_line(1) [OF assms(4)] by (auto simp: line_words_def hw_opcode_def)
  show ?thesis
    using GetAction_labelled [OF w] assms(3) operand_line(2) [OF assms(4)]
    by (simp add: s hw_opcode_def rbind_assoc split_def del: join.simps)
qed

lemma zero_operand: "operand_text ''0''"
  by (simp add: operand_text_def literal_simps map_operand_def)

lemma parse_addi:
  assumes "list_all reg_text [s, d]"
  shows "parse_words t l ''addi'' [s, d, ''0''] cnt =
    rmap (\<lambda>m. (mk_IAction ''addi'' (PStr d) (PStr s) (PStr ''0'') l 1, fst m, snd m, cnt)) (calc_maxudp_maxob [s, d])"
proof -
  have o: "list_all operand_text [s, d, ''0'']"
    using assms zero_operand by (simp add: reg_operand)
  show ?thesis
    unfolding parse_words_def map_operands [OF o]
    by (simp add: parse_opcode_def parse_imm_def orelse_def arg_defs finish_def rmap_def rbind_assoc
        construct_def set_max_def Operand_def mk_IAction_def split_def)
qed

lemma change_mov:
  assumes "a_opcode a \<in> {''mov_reg2reg'', ''mov_ob2reg''}" and "a_src a = PStr s" "a_dst a = PStr d"
    and "reg_text s" "reg_text d" "in_dict d general_purpose_register_enc"
    and "label_of a = Inr l" "(l = [] \<or> is_word l) \<and> no_comma l"
  shows "change_one a cnt = Inr ([mk_IAction ''addi'' (PStr d) (PStr s) (PStr ''0'') (PStr l) 1], cnt)"
proof -
  have hw: "hw_opcode ''addi''" using hw_opcodes by simp
  have o: "list_all operand_text [s, d, ''0'']" using assms(4,5) zero_operand by (simp add: reg_operand)
  obtain m where m: "calc_maxudp_maxob [s, d] = Inr m" using calc_regs [of "[s, d]"] assms(4,5) by auto
  have "change_one a cnt = parse_lines [line (lab a # Inr ''addi'' # map Inr [s, d, ''0''])] cnt"
    using assms(1-3,6) by (auto simp: change_one_def simp del: parse_lines.simps)
  also have "\<dots> = Inr ([mk_IAction ''addi'' (PStr d) (PStr s) (PStr ''0'') (PStr l) 1], cnt)"
    unfolding labelled_line [OF assms(7,8) hw o] using assms(4,5) m by (subst parse_addi) simp_all
  finally show ?thesis .
qed

section \<open>Branches\<close>

text \<open>The condition of a branch on the values of its operands (the simulator's \<open>exeInstBneBeqBgtBle\<close>; \<open>bge\<close> and \<open>blt\<close> by their names)\<close>

fun branch_taken :: "string \<Rightarrow> int \<Rightarrow> int \<Rightarrow> bool option" where
  "branch_taken f x y =
     (if f \<in> {''bne'', ''bnei''} then Some (x \<noteq> y)
      else if f \<in> {''beq'', ''beqi''} then Some (x = y)
      else if f \<in> {''bgt'', ''bgti''} then Some (x > y)
      else if f \<in> {''ble'', ''blei''} then Some (x \<le> y)
      else if f \<in> {''blt'', ''blti''} then Some (x < y)
      else if f \<in> {''bge'', ''bgei''} then Some (x \<ge> y)
      else None)"

lemma branch_target_keeps [simp]:
  "o_funct (branch_target t o1) = o_funct o1" "o_opcode (branch_target t o1) = o_opcode o1"
  "o_label (branch_target t o1) = o_label o1"
  by (simp_all add: branch_target_def)

lemma parse_branch_value:
  assumes "i \<in> branch_opcodes" and "calc_maxudp_maxob [x, y] = Inr m"
  obtains o1 where "parse_branch i [i, x, y, t] ob cnt = Some (Inr (BAction, o1, cnt))"
    and "o_opcode o1 = ''branch''" "o_funct o1 = PStr i" "o_op1 o1 = PStr x" "o_op2 o1 = PStr y"
    and "o_label o1 = o_label ob"
  using assms by (simp add: parse_branch_def arg_defs finish_def set_max_def Let_def)

definition swap_opcodes :: "string set" where
  "swap_opcodes = {''ble'', ''bgt'', ''blti'', ''bgei'', ''beqi'', ''bnei'', ''blei'', ''bgti''}"

lemma parse_opcode_branch:
  assumes "i \<in> swap_opcodes"
  shows "parse_opcode w i p [i, x, y, t] ob cnt = the (parse_branch i [i, x, y, t] ob cnt)"
  using assms unfolding swap_opcodes_def
  by (elim insertE emptyE)
    (simp_all add: parse_opcode_def parse_imm_def parse_two_imm_def parse_move_def parse_reg_def
      parse_branch_def orelse_def branch_opcodes_def)

lemma swap_opcodes:
  assumes "i \<in> swap_opcodes"
  shows "i \<in> branch_opcodes" "i \<noteq> []" "last i \<noteq> CHR ''c''" "hw_opcode i"
  using assms unfolding swap_opcodes_def
  by (auto simp: branch_opcodes_def hw_opcode_def rewritten_names_def literal_simps)

lemma parse_swapped:
  assumes "list_all operand_text [x, y, t]" "calc_maxudp_maxob [x, y] = Inr m" and "i \<in> swap_opcodes"
  shows "\<exists>b u m. parse_words w l i [x, y, t] cnt = Inr (b, u, m, cnt) \<and> a_class b = BAction \<and>
    a_opcode b = ''branch'' \<and> a_funct b = PStr i \<and> a_op1 b = PStr x \<and> a_op2 b = PStr y \<and> a_label b = l"
proof -
  let ?o = "Operand\<lparr>o_opcode := i, o_precision := get_precision i, o_label := l\<rparr>"
  obtain o1 where p: "parse_branch i [i, x, y, t] ?o cnt = Some (Inr (BAction, o1, cnt))"
    "o_opcode o1 = ''branch''" "o_funct o1 = PStr i" "o_op1 o1 = PStr x" "o_op2 o1 = PStr y" "o_label o1 = l"
    using parse_branch_value [OF swap_opcodes(1) [OF assms(3)] assms(2), of t ?o cnt] by auto
  show ?thesis
    unfolding parse_words_def map_operands [OF assms(1)] rbind.simps parse_opcode_branch [OF assms(3)] p(1)
    using p(2-) swap_opcodes(2,3) [OF assms(3)]
    by (simp add: construct_def mk_BAction_def new_action_def)
qed

section \<open>Event labels\<close>

lemma parse_lines_length: "parse_lines ls cnt = Inr (bs, c) \<Longrightarrow> length bs = length ls"
  by (induction ls arbitrary: cnt bs) (auto simp: rbind_Inr_iff)

lemma update_one_length:
  "update_one symbols a cnt = Inr (bs, c) \<Longrightarrow> 1 \<le> length bs \<and> length bs \<le> (if is_evi a then 2 else 1)"
  by (auto simp: update_one_def rbind_Inr_iff Let_def simp del: parse_lines.simps split: if_splits
      dest!: parse_lines_length)

text \<open>What an instruction with an event label is replaced by\<close>

lemma update_one_label:
  assumes "update_one symbols a cnt = Inr (bs, c)" and "uses_label a = Inr True"
  shows "\<exists>l addr. pv_int (a_imm a) = Inr l \<and> map_of symbols l = Some addr \<and>
    (bs = [a\<lparr>a_imm := PInt addr\<rparr>] \<or> is_evi a \<and> addr > 0xFFF \<and> length bs = 2)"
  using assms
  by (auto simp: update_one_def rbind_Inr_iff dict_get_Inr_iff Let_def simp del: parse_lines.simps
      split: if_splits dest!: parse_lines_length)

lemma update_one_other: "uses_label a = Inr False \<Longrightarrow> update_one symbols a cnt = Inr ([a], cnt)"
  by (simp add: update_one_def)

lemma update_size:
  "update_event_labels as symbols cnt = Inr (bs, c) \<Longrightarrow>
   length as \<le> length bs \<and> length bs \<le> get_potential_actions_size as"
proof (induction as arbitrary: cnt bs)
  case (Cons a as)
  then obtain bs1 c1 bs2 where u: "update_one symbols a cnt = Inr (bs1, c1)"
    "update_event_labels as symbols c1 = Inr (bs2, c)" "bs = bs1 @ bs2"
    by (auto simp: rbind_Inr_iff)
  from update_one_length [OF u(1)] Cons.IH [OF u(2)] u(3) show ?case
    by (auto simp: get_potential_actions_size_def)
qed (simp add: get_potential_actions_size_def)

section \<open>Properties\<close>

lemma reg_text_UDPR: "reg_text ''UDPR_0''" "reg_text ''UDPR_1''" "reg_text ''5''"
proof -
  have "py_int ''0'' = Inr 0" "py_int ''1'' = Inr 1" by code_simp+
  then show "reg_text ''UDPR_0''" "reg_text ''UDPR_1''" "reg_text ''5''"
    by (auto simp: reg_text_def literal_simps map_operand_def max_step_def)
qed

lemma ex_tables:
  "in_dict ''UDPR_0'' general_purpose_register_enc" "in_dict ''UDPR_1'' general_purpose_register_enc"
  "in_dict ''UDPR_0'' register_enc" "\<not> in_dict ''5'' register_enc"
  by (simp_all add: in_dict_def general_purpose_register_enc_def register_enc_def)

lemma change_one_other:
  "a_opcode a \<notin> insert ''branch'' rewritten_names \<Longrightarrow> change_one a cnt = Inr ([a], cnt)"
  by (simp add: change_one_def message_lines_def rewritten_names_def)

text \<open>C15: After \<open>change_pseudo_instr\<close> on a block whose operands are words of the assembly text and whose
  branches have an opcode of the branch table, none of the 27 pseudo instructions that it rewrites and no branch \<open>bge\<close> or \<open>blt\<close> is left. Every action but
  these and the branches is in the result as it was, and so are \<open>send4_wcont\<close>, \<open>send4_wret\<close>,
  \<open>send4_dmlm\<close> and \<open>send4_dmlm_wret\<close>, which it does not know.\<close>

theorem no_pseudo_left:
  assumes "change_pseudo_instr as cnt = Inr (bs, c)" and "\<forall>a\<in>set as. texts_ok a"
  shows "(\<forall>b\<in>set bs. \<not> needs_change b) \<and>
    (\<forall>a\<in>set as. a_opcode a \<notin> insert ''branch'' rewritten_names \<longrightarrow> a \<in> set bs) \<and>
    {''send4_wcont'', ''send4_wret'', ''send4_dmlm'', ''send4_dmlm_wret''} \<inter> insert ''branch'' rewritten_names = {}"
proof -
  have "(\<forall>b\<in>set bs. \<not> needs_change b) \<and> (\<forall>a\<in>set as. a_opcode a \<notin> insert ''branch'' rewritten_names \<longrightarrow> a \<in> set bs)"
    using assms
  proof (induction as arbitrary: cnt bs)
    case (Cons a as)
    then obtain bs1 c1 bs2 where "change_one a cnt = Inr (bs1, c1)"
      "change_pseudo_instr as c1 = Inr (bs2, c)" "bs = bs1 @ bs2"
      by (auto simp: rbind_Inr_iff)
    with Cons change_one_clean [of a cnt bs1 c1] change_one_other [of a cnt] show ?case by auto
  qed simp
  then show ?thesis by (simp add: rewritten_names_def)
qed

theorem no_pseudo_left_witness:
  "\<exists>bs. change_pseudo_instr [(new_action RAction ''mov_reg2reg'' PNone)\<lparr>a_src := PStr ''UDPR_0'', a_dst := PStr ''UDPR_1''\<rparr>,
        new_action SAction ''send4_wret'' PNone] 3 = Inr (bs, 3) \<and>
     (\<forall>b\<in>set bs. \<not> needs_change b) \<and> new_action SAction ''send4_wret'' PNone \<in> set bs"
proof -
  let ?a = "(new_action RAction ''mov_reg2reg'' PNone)\<lparr>a_src := PStr ''UDPR_0'', a_dst := PStr ''UDPR_1''\<rparr>"
  let ?b = "new_action SAction ''send4_wret'' PNone"
  have "change_one ?a 3 = Inr ([mk_IAction ''addi'' (PStr ''UDPR_1'') (PStr ''UDPR_0'') (PStr ''0'') (PStr []) 1], 3)"
    by (rule change_mov) (simp_all add: new_action_def reg_text_UDPR ex_tables label_of_def no_comma_def)
  moreover have b: "a_opcode ?b \<notin> insert ''branch'' rewritten_names" by (simp add: new_action_def rewritten_names_def)
  ultimately obtain bs where bs: "change_pseudo_instr [?a, ?b] 3 = Inr (bs, 3)"
    using change_one_other [OF b, of 3] by simp
  have "\<forall>a\<in>set [?a, ?b]. texts_ok a"
    by (simp add: texts_ok_def text_ok_def new_action_def literal_simps)
  from no_pseudo_left [OF bs this] bs b show ?thesis by auto
qed

text \<open>a move between registers, whose destination is a general-purpose register, is rewritten to the addition of 0 with the same registers and label, and the print counter is kept.\<close>

theorem mov_is_addi:
  assumes "a_opcode a \<in> {''mov_reg2reg'', ''mov_ob2reg''}" and "a_src a = PStr s" "a_dst a = PStr d"
    and "reg_text s" "reg_text d" "in_dict d general_purpose_register_enc"
    and "label_of a = Inr l" "(l = [] \<or> is_word l) \<and> no_comma l"
  shows "change_one a cnt = Inr ([mk_IAction ''addi'' (PStr d) (PStr s) (PStr ''0'') (PStr l) 1], cnt)"
  using change_mov [OF assms] .

theorem mov_is_addi_witness:
  "change_one ((new_action RAction ''mov_reg2reg'' PNone)\<lparr>a_src := PStr ''UDPR_0'', a_dst := PStr ''UDPR_1''\<rparr>) 3
   = Inr ([mk_IAction ''addi'' (PStr ''UDPR_1'') (PStr ''UDPR_0'') (PStr ''0'') (PStr []) 1], 3)"
  by (rule mov_is_addi)
    (simp_all add: new_action_def reg_text_UDPR ex_tables label_of_def no_comma_def)

text \<open>C21: \<open>bge\<close> and \<open>blt\<close> are rewritten to one branch with the two registers exchanged that is taken for exactly the same register values.\<close>

theorem branch_operands_swapped:
  assumes "a_opcode a = ''branch''" and "a_funct a \<in> {PStr ''bge'', PStr ''blt''}"
    and "a_op1 a = PStr x" "a_op2 a = PStr y" "a_dst a = PStr t"
    and "in_dict x register_enc" "reg_text x" "reg_text y" "operand_text t"
    and "label_of a = Inr l" "(l = [] \<or> is_word l) \<and> no_comma l"
  shows "\<exists>b f g. change_one a cnt = Inr ([b], cnt) \<and> a_opcode b = ''branch'' \<and> a_label b = PStr l \<and>
    a_funct a = PStr f \<and> a_funct b = PStr g \<and> a_op1 b = PStr y \<and> a_op2 b = PStr x \<and>
    (\<forall>v w. branch_taken g w v = branch_taken f v w)"
proof -
  define g where "g = (if a_funct a = PStr ''bge'' then ''ble'' else ''bgt'')"
  have g: "g \<in> swap_opcodes" by (simp add: g_def swap_opcodes_def)
  have o: "list_all operand_text [y, x, t]" using assms(7-9) by (simp add: reg_operand)
  obtain m where m: "calc_maxudp_maxob [y, x] = Inr m" using calc_regs [of "[y, x]"] assms(7,8) by auto
  have "change_one a cnt = parse_lines [line (lab a # Inr g # map Inr [y, x, t])] cnt"
    using assms(1-6) by (auto simp: change_one_def g_def simp del: parse_lines.simps)
  also have "\<dots> = rbind (parse_words (join '' '' ((l @ '':'') # g # [y, x, t])) (PStr l) g [y, x, t] cnt)
      (\<lambda>(b, u, m, c). Inr ([b], c))"
    by (rule labelled_line [OF assms(10,11) swap_opcodes(4) [OF g] o])
  finally show ?thesis
    using parse_swapped [OF o m g, of "join '' '' ((l @ '':'') # g # [y, x, t])" "PStr l" cnt] assms(2)
    by (auto simp: g_def)
qed

theorem branch_operands_swapped_witness:
  "\<exists>b. change_one ((new_action BAction ''branch'' PNone)\<lparr>a_funct := PStr ''blt'', a_op1 := PStr ''UDPR_0'',
         a_op2 := PStr ''UDPR_1'', a_dst := PStr ''loop''\<rparr>) 0 = Inr ([b], 0) \<and>
       a_op1 b = PStr ''UDPR_1'' \<and> a_op2 b = PStr ''UDPR_0''"
  using branch_operands_swapped [of "(new_action BAction ''branch'' PNone)\<lparr>a_funct := PStr ''blt'',
      a_op1 := PStr ''UDPR_0'', a_op2 := PStr ''UDPR_1'', a_dst := PStr ''loop''\<rparr>" "''UDPR_0''" "''UDPR_1''"
      "''loop''" "[]" 0] reg_text_UDPR ex_tables
  by (auto simp: new_action_def label_of_def no_comma_def operand_text_def literal_simps map_operand_def)

text \<open>an ordering branch whose first operand is an immediate is rewritten with its operands exchanged but not its comparison: for different operand values it is taken exactly when the original is not.\<close>

theorem immediate_branch_not_mirrored:
  assumes "a_opcode a = ''branch''" and "a_funct a = PStr f" "f \<in> {''bge'', ''blt'', ''bgt'', ''ble''}"
    and "a_op1 a = PStr n" "a_op2 a = PStr x" "a_dst a = PStr t"
    and "\<not> in_dict n register_enc" "reg_text n" "reg_text x" "operand_text t"
    and "label_of a = Inr l" "(l = [] \<or> is_word l) \<and> no_comma l"
  shows "\<exists>b. change_one a cnt = Inr ([b], cnt) \<and> a_funct b = PStr (f @ ''i'') \<and> a_op1 b = PStr x \<and>
    a_op2 b = PStr n \<and> (\<forall>v w. v \<noteq> w \<longrightarrow> branch_taken (f @ ''i'') w v \<noteq> branch_taken f v w)"
proof -
  let ?g = "f @ ''i''"
  have g: "?g \<in> swap_opcodes" using assms(3) by (auto simp: swap_opcodes_def)
  have o: "list_all operand_text [x, n, t]" using assms(8-10) by (simp add: reg_operand)
  obtain m where m: "calc_maxudp_maxob [x, n] = Inr m" using calc_regs [of "[x, n]"] assms(8,9) by auto
  have "change_one a cnt = parse_lines [line (lab a # Inr ?g # map Inr [x, n, t])] cnt"
    using assms(1-7) by (auto simp: change_one_def simp del: parse_lines.simps)
  also have "\<dots> = rbind (parse_words (join '' '' ((l @ '':'') # ?g # [x, n, t])) (PStr l) ?g [x, n, t] cnt)
      (\<lambda>(b, u, m, c). Inr ([b], c))"
    by (rule labelled_line [OF assms(11,12) swap_opcodes(4) [OF g] o])
  finally show ?thesis
    using parse_swapped [OF o m g, of "join '' '' ((l @ '':'') # ?g # [x, n, t])" "PStr l" cnt] assms(3)
    by auto
qed

theorem immediate_branch_not_mirrored_witness:
  "\<exists>b. change_one ((new_action BAction ''branch'' PNone)\<lparr>a_funct := PStr ''blt'', a_op1 := PStr ''5'',
         a_op2 := PStr ''UDPR_1'', a_dst := PStr ''loop''\<rparr>) 0 = Inr ([b], 0) \<and>
       a_funct b = PStr ''blti'' \<and> a_op1 b = PStr ''UDPR_1'' \<and> a_op2 b = PStr ''5''"
  using immediate_branch_not_mirrored [of "(new_action BAction ''branch'' PNone)\<lparr>a_funct := PStr ''blt'',
      a_op1 := PStr ''5'', a_op2 := PStr ''UDPR_1'', a_dst := PStr ''loop''\<rparr>" "''blt''" "''5''" "''UDPR_1''"
      "''loop''" "[]" 0] reg_text_UDPR ex_tables
  by (auto simp: new_action_def label_of_def no_comma_def operand_text_def literal_simps map_operand_def)

text \<open>C23: replacing the event labels of a block takes no more words than the address assignment reserved for the block before.\<close>

theorem update_within_reserved:
  assumes "update_event_labels as symbols cnt = Inr (bs, c)"
  shows "address + 4 * int (length bs) \<le> allocate_actions_addresses as address False"
  using update_size [OF assms] by (simp add: allocate_actions_addresses_def)

theorem update_within_reserved_witness:
  "100 + 4 * int 1 \<le> allocate_actions_addresses [(new_action IAction ''evlb'' PNone)\<lparr>a_imm := PStr ''7''\<rparr>] 100 False"
proof -
  have "update_event_labels [(new_action IAction ''evlb'' PNone)\<lparr>a_imm := PStr ''7''\<rparr>] [(7, 4096)] 0 =
      Inr ([(new_action IAction ''evlb'' PNone)\<lparr>a_imm := PInt 4096\<rparr>], 0)"
  proof -
    have "py_int ''7'' = Inr 7" by code_simp
    then show ?thesis
      by (simp add: update_one_def uses_label_def is_evi_def new_action_def dict_get_def)
  qed
  from update_within_reserved [OF this, of 100] show ?thesis by simp
qed

end
