(* ===== verification/Asm_Layout.thy ===== *)
theory Asm_Layout imports Asm_EFA Asm_Memory Asm_Rewrite begin

text \<open>
  The address assignment of the assembler
  (\<open>src/updown/udbasim/assembler/UpDown_Assembler_helper.py\<close>): the division of the states into
  EFAs, the dispatch type of a state, and the placing of shared blocks, transitions and actions in
  the instruction memory of an EFA.
\<close>

section \<open>Colouring\<close>

text \<open>
  \<open>traverse_EFA_states\<close> marks the states it reaches.  Every call from it marks one more state, so
  the number of states is enough fuel.
\<close>

fun traverse_trans :: "(state_ref \<Rightarrow> world \<times> state_ref list \<Rightarrow> (world \<times> state_ref list) res) \<Rightarrow>
    tran_ref list \<Rightarrow> world \<times> state_ref list \<Rightarrow> (world \<times> state_ref list) res" where
  "traverse_trans visit [] (w, l) = Inr (w, l)"
| "traverse_trans visit (t # ts) (w, l) =
     (let tr = w_trans w ! t; d = t_dst tr
      in if s_marked (w_states w ! d) then traverse_trans visit ts (w, l)
         else
           rbind (visit d (upd_state d (\<lambda>s. s\<lparr>s_marked := True\<rparr>) w, l @ [d])) (\<lambda>wl.
           if t_anno_type tr = ''eventCarry'' then Inl SysExit else traverse_trans visit ts wl))"

fun traverse_EFA_states :: "nat \<Rightarrow> state_ref \<Rightarrow> world \<times> state_ref list \<Rightarrow> (world \<times> state_ref list) res" where
  "traverse_EFA_states 0 s wl = Inl RecursionError"
| "traverse_EFA_states (Suc n) s wl =
     traverse_trans (traverse_EFA_states n) (s_trans (w_states (fst wl) ! s)) wl"

definition states_color_check :: "world \<Rightarrow> state_ref list \<Rightarrow> int option" where
  "states_color_check w traversed_states =
     map_option (\<lambda>s. s_EFA_id (w_states w ! s))
       (find (\<lambda>s. s_EFA_id (w_states w ! s) \<noteq> UNDEFINED) traversed_states)"

definition set_color :: "int \<Rightarrow> state_ref \<Rightarrow> world \<Rightarrow> world" where
  "set_color color s w = upd_state s (\<lambda>st. st\<lparr>s_EFA_id := color\<rparr>) w"

definition color_remaining_states :: "int \<Rightarrow> state_ref list \<Rightarrow> world \<Rightarrow> world res" where
  "color_remaining_states color =
     foldr_res (\<lambda>s w. if s_EFA_id (w_states w ! s) = UNDEFINED then Inr (set_color color s w)
                       else if s_EFA_id (w_states w ! s) \<noteq> color then Inl SysExit else Inr w)"

definition color_states :: "int \<Rightarrow> state_ref list \<Rightarrow> world \<Rightarrow> world res" where
  "color_states color =
     foldr_res (\<lambda>s w. if s_EFA_id (w_states w ! s) = UNDEFINED then Inr (set_color color s w)
                       else Inl SysExit)"

definition unmark :: "state_ref \<Rightarrow> world \<Rightarrow> world" where
  "unmark s w = upd_state s (\<lambda>st. st\<lparr>s_marked := False\<rparr>) w"

text \<open>\<open>efa.init_state_id[0]\<close>, which also indexes the list of states\<close>

definition init_id :: "world \<Rightarrow> int res" where
  "init_id w = (case e_init_state_id (w_efa w) of [] \<Rightarrow> Inl IndexError | i # is \<Rightarrow> Inr i)"

definition init_state :: "world \<Rightarrow> state_ref res" where
  "init_state w =
     rbind (init_id w) (\<lambda>i.
     let n = int (length (e_states (w_efa w))); k = (if i < 0 then i + n else i)
     in if 0 \<le> k \<and> k < n then Inr (e_states (w_efa w) ! nat k) else Inl IndexError)"

definition color_EFA :: "int \<Rightarrow> tran_ref \<Rightarrow> world \<times> int \<Rightarrow> (world \<times> int) res" where
  "color_EFA ini t wc =
     (let w = fst wc; d = t_dst (w_trans w ! t)
      in rmap (\<lambda>(w, c). (fold unmark (e_states (w_efa w)) w, c))
           (if s_state_id (w_states w ! d) \<noteq> ini \<and> \<not> s_marked (w_states w ! d) then
              rbind (traverse_EFA_states (Suc (length (w_states w))) d
                       (upd_state d (\<lambda>s. s\<lparr>s_marked := True\<rparr>) w, [d])) (\<lambda>(w1, l).
              case states_color_check w1 l of
                Some color \<Rightarrow> rmap (\<lambda>w2. (w2, snd wc)) (color_remaining_states color l w1)
              | None \<Rightarrow> rmap (\<lambda>w2. (w2, snd wc + 1)) (color_states (snd wc) l w1))
            else Inr wc))"

definition color_EFAs :: "world \<Rightarrow> (world \<times> int) res" where
  "color_EFAs w =
     rbind (init_state w) (\<lambda>s. rbind (init_id w) (\<lambda>ini.
     foldr_res (color_EFA ini) (s_trans (w_states w ! s)) (w, 0)))"

definition dict_append :: "'k \<Rightarrow> 'v \<Rightarrow> ('k, 'v list) dict \<Rightarrow> ('k, 'v list) dict" where
  "dict_append k v d = dict_set k ((case map_of d k of None \<Rightarrow> [] | Some vs \<Rightarrow> vs) @ [v]) d"

definition make_efa_states_dict :: "world \<Rightarrow> (int, state_ref list) dict" where
  "make_efa_states_dict w =
     fold (\<lambda>s. dict_append (s_EFA_id (w_states w ! s)) s) (e_states (w_efa w)) []"

text \<open>
  Every branch of a state to a shared block gives the block the state's colour, once for each branch;
  so does every state linked to the block.  The rest of the function only prints.
\<close>

definition color_action :: "int \<Rightarrow> action \<Rightarrow> efa \<Rightarrow> efa res" where
  "color_action c a e =
     (if a_opcode a = ''branch'' \<or> a_opcode a = ''jmp'' then
        rbind (pv_in (a_dst a) (e_sharedBlock e)) (\<lambda>b.
        if b then rmap (\<lambda>l. e\<lparr>e_EFA_sharedblocks := dict_append c l (e_EFA_sharedblocks e)\<rparr>)
                    (pv_str (a_dst a))
        else Inr e)
      else Inr e)"

definition color_sharedblocks :: "world \<Rightarrow> world res" where
  "color_sharedblocks w =
     rbind (foldr_res
       (\<lambda>s. foldr_res (\<lambda>tr. foldr_res (color_action (s_EFA_id (w_states w ! s))) (t_actions tr))
              (trans_of w s))
       (e_states (w_efa w)) (w_efa w)) (\<lambda>e.
     Inr (w\<lparr>w_efa :=
       fold (\<lambda>(label, ss). fold (\<lambda>s e. e\<lparr>e_EFA_sharedblocks :=
                dict_append (s_EFA_id (w_states w ! s)) label (e_EFA_sharedblocks e)\<rparr>) ss)
         (e_sharedBlock_state_links e) e\<rparr>))"

definition is_sharedblock_colored :: "efa \<Rightarrow> string \<Rightarrow> bool" where
  "is_sharedblock_colored e sb_label =
     list_ex (\<lambda>(efa_id, ls). sb_label \<in> set ls) (e_EFA_sharedblocks e)"

section \<open>Shared blocks\<close>

definition INPUT_TERM_OFFSET :: int where "INPUT_TERM_OFFSET = 0"
definition INPUT_TERM_MAX :: int where "INPUT_TERM_MAX = 60"
definition SB_REFILL_OFFSET :: int where "SB_REFILL_OFFSET = INPUT_TERM_MAX + 1"
definition SB_REFILL_MAX :: int where "SB_REFILL_MAX = 10"

definition is_sb_refill_block :: "string \<Rightarrow> efa \<Rightarrow> bool res" where
  "is_sb_refill_block label e =
     rmap (list_ex (\<lambda>a. a_opcode a = ''mov_lm2sb'' \<or> a_opcode a = ''movlsb''))
       (dict_get (e_sharedBlock e) label (KeyError label))"

text \<open>
  The blocks of an EFA that the hardware calls.  Python enumerates the intersection of two sets in
  no fixed order; here it is the order of the program.
\<close>

definition automated_blocks :: "efa \<Rightarrow> int \<Rightarrow> string list res" where
  "automated_blocks e efa_id =
     rmap (\<lambda>ls. remdups (filter (\<lambda>l. in_dict l (e_sharedBlock_state_links e)) ls))
       (dict_get (e_EFA_sharedblocks e) efa_id (KeyError (py_str efa_id)))"

definition find_input_term_label :: "efa \<Rightarrow> int \<Rightarrow> string res" where
  "find_input_term_label e efa_id =
     rbind (automated_blocks e efa_id) (\<lambda>intersection.
     case intersection of
       [a] \<Rightarrow> rbind (is_sb_refill_block a e) (\<lambda>r. if r then Inl SysExit else Inr a)
     | [a, b] \<Rightarrow> rbind (is_sb_refill_block a e) (\<lambda>r. Inr (if r then b else a))
     | _ \<Rightarrow> Inl SysExit)"

definition find_sb_refill_label :: "efa \<Rightarrow> int \<Rightarrow> string option res" where
  "find_sb_refill_label e efa_id =
     rbind (automated_blocks e efa_id) (\<lambda>intersection.
     case intersection of
       [a, b] \<Rightarrow> rbind (is_sb_refill_block a e) (\<lambda>r. Inr (Some (if r then a else b)))
     | _ \<Rightarrow> Inr None)"

text \<open>A label that is resolved already keeps its address.\<close>

definition add_resolved_symbol :: "('k, int) dict \<Rightarrow> 'k \<Rightarrow> int \<Rightarrow> ('k, int) dict" where
  "add_resolved_symbol symbols label address =
     (if in_dict label symbols then symbols else dict_set label address symbols)"

text \<open>\<open>manager.set_block_bitmap(i)\<close> for \<open>i\<close> from \<open>start\<close> to below \<open>start + n\<close>\<close>

definition set_block_range :: "int \<Rightarrow> nat \<Rightarrow> mem_manager \<Rightarrow> mem_manager res" where
  "set_block_range start n = foldr_res (\<lambda>i. set_block_bitmap (start + int i)) [0..<n]"

definition shared_actions :: "efa \<Rightarrow> string \<Rightarrow> action list res" where
  "shared_actions e label = dict_get (e_sharedBlock e) label (KeyError label)"

definition place_block ::
  "efa \<Rightarrow> string \<Rightarrow> (string, int) dict \<times> int \<times> mem_manager \<Rightarrow> ((string, int) dict \<times> int \<times> mem_manager) res"
where
  "place_block e label st =
     (case st of (symbols, address, manager) \<Rightarrow>
       rbind (shared_actions e label) (\<lambda>as.
       rbind (set_block_range (drop_bit 2 address) (length as) manager) (\<lambda>m.
       Inr (add_resolved_symbol symbols label address, allocate_actions_addresses as address True, m))))"

definition assign_sharedblock_addr ::
  "efa \<Rightarrow> int \<Rightarrow> int \<Rightarrow> (string, int) dict \<Rightarrow> mem_manager \<Rightarrow> ((string, int) dict \<times> int \<times> mem_manager) res"
where
  "assign_sharedblock_addr e base_addr efa_id symbols manager =
     rbind (find_input_term_label e efa_id) (\<lambda>input_term.
     let symbols1 = add_resolved_symbol symbols input_term (base_addr + push_bit 2 INPUT_TERM_OFFSET)
     in rbind (shared_actions e input_term) (\<lambda>as.
     rbind (set_block_range (drop_bit 2 base_addr + INPUT_TERM_OFFSET) (length as) manager) (\<lambda>m1.
     rbind (find_sb_refill_label e efa_id) (\<lambda>sb_refill.
     rbind (case sb_refill of
              None \<Rightarrow> Inr (symbols1, INPUT_TERM_OFFSET + INPUT_TERM_MAX, m1)
            | Some l \<Rightarrow>
                rbind (shared_actions e l) (\<lambda>as.
                rbind (set_block_range (drop_bit 2 base_addr + SB_REFILL_OFFSET) (length as) m1) (\<lambda>m2.
                Inr (add_resolved_symbol symbols1 l (base_addr + push_bit 2 SB_REFILL_OFFSET),
                     SB_REFILL_OFFSET + SB_REFILL_MAX, m2)))) (\<lambda>(symbols2, offset, m2).
     rbind (dict_get (e_EFA_sharedblocks e) efa_id (KeyError (py_str efa_id))) (\<lambda>labels.
     rbind (foldr_res (place_block e)
              (filter (\<lambda>l. l \<noteq> (case sb_refill of None \<Rightarrow> [] | Some r \<Rightarrow> r) \<and> l \<noteq> input_term) labels)
              (symbols2, base_addr + push_bit 2 offset, m2)) (\<lambda>(symbols3, address, m3).
     rbind (set_memory_bitmap (min INPUT_TERM_OFFSET SB_REFILL_OFFSET) (drop_bit 2 address) m3)
       (\<lambda>(m4, ok).
     if ok then Inr (symbols3, address, reset_block_bitmap m4) else Inl SysExit))))))))"

section \<open>Attach fields\<close>

definition first_digit :: "string \<Rightarrow> bool" where
  "first_digit s = (s \<noteq> [] \<and> is_digit (hd s))"

definition has_actions_mark :: "string \<Rightarrow> bool" where
  "has_actions_mark anno_type = (1 < length (split_on CHR ''_'' anno_type))"

text \<open>\<open>math.ceil(math.log2(n))\<close> of a positive number\<close>

fun log2_ceil_from :: "nat \<Rightarrow> nat \<Rightarrow> nat \<Rightarrow> nat" where
  "log2_ceil_from 0 k n = k"
| "log2_ceil_from (Suc f) k n = (if n \<le> 2 ^ k then k else log2_ceil_from f (Suc k) n)"

definition log2_ceil :: "int \<Rightarrow> int res" where
  "log2_ceil n = (if n \<le> 0 then Inl ValueError else Inr (int (log2_ceil_from (nat n) 0 (nat n))))"

definition get_max_label :: "world \<Rightarrow> state_ref \<Rightarrow> int" where
  "get_max_label w s =
     fold (\<lambda>tr m. if first_digit (t_name tr) then max m (t_label tr) else m) (trans_of w s) 0"

definition get_baseINattach :: "world \<Rightarrow> state_ref \<Rightarrow> int res" where
  "get_baseINattach w s =
     rbind (log2_ceil (get_max_label w s + 1)) (\<lambda>b.
     if 2 ^ nat b > (256 :: nat) then Inl SysExit else Inr (b - 1))"

definition tx_count :: "int \<Rightarrow> nat" where
  "tx_count base = 2 ^ nat (base + 1)"

definition get_max_action_count :: "world \<Rightarrow> state_ref \<Rightarrow> bool \<Rightarrow> nat" where
  "get_max_action_count w s count_lastact =
     fold (\<lambda>tr m.
       if \<not> first_digit (t_name tr) then m
       else if count_lastact then
         (if t_actions tr = [] then m
          else if a_opcode (last (t_actions tr)) = ''lastact'' then max m (length (t_actions tr) - 1)
          else max m (length (t_actions tr)))
       else max m (length (t_actions tr))) (trans_of w s) 0"

definition get_scalarINattach :: "world \<Rightarrow> state_ref \<Rightarrow> int res" where
  "get_scalarINattach w s = log2_ceil (int (get_max_action_count w s True))"

text \<open>\<open>scalar\<close> and \<open>scalar_action_count\<close>, both 0 for a state without actions\<close>

definition scalar_of :: "world \<Rightarrow> state_ref \<Rightarrow> (int \<times> nat) res" where
  "scalar_of w s =
     (if get_max_action_count w s True \<noteq> 0 then
        rmap (\<lambda>c. (c, 2 ^ nat c)) (get_scalarINattach w s)
      else Inr (0, 0))"

end
