(* ===== verification/Asm_Place.thy ===== *)
theory Asm_Place imports Asm_Layout begin

text \<open>
  Placing a state in the memory of its EFA
  (\<open>src/updown/udbasim/assembler/UpDown_Assembler_helper.py\<close>): the dispatch type that the incoming
  transitions carry, the slots of the labelled transitions and their actions, the offset of the
  majority or default transition, and the first address at which all of them are free.
\<close>

section \<open>Dispatch types\<close>

definition is_ssprop :: "action \<Rightarrow> bool" where
  "is_ssprop a = (a_opcode a = ''ssprop'' \<or> a_opcode a = ''set_state_property'')"

text \<open>The type names by the number of a state property and by the operand of \<open>ssprop\<close>\<close>

definition property_type :: "int \<Rightarrow> string option" where
  "property_type n =
     (if map_of state_property_enc ''BASIC'' = Some n then Some ''basic''
      else if map_of state_property_enc ''COMMON'' = Some n then Some ''common''
      else if map_of state_property_enc ''EPSILON'' = Some n then Some ''epsilon''
      else if map_of state_property_enc ''DEFAULT'' = Some n then Some ''default''
      else if map_of state_property_enc ''MAJORITY'' = Some n then Some ''majority''
      else if map_of state_property_enc ''FLAG_DEFAULT'' = Some n then Some ''flagdefault''
      else if map_of state_property_enc ''FLAG_MAJORITY'' = Some n then Some ''flagmajority''
      else if map_of state_property_enc ''FLAG'' = Some n then Some ''flag''
      else None)"

definition ssprop_types :: "(string, string) dict" where
  "ssprop_types = [(''basic'', ''basic''), (''common'', ''common''), (''epsilon'', ''epsilon''),
     (''default'', ''default''), (''majority'', ''majority''), (''flag_default'', ''flagdefault''),
     (''flag_majority'', ''flagmajority''), (''flag'', ''flag'')]"

definition same_start :: "nat \<Rightarrow> string \<Rightarrow> string \<Rightarrow> bool" where
  "same_start n s t = (take n s = take n t)"

definition anno_type_of :: "string \<Rightarrow> string res" where
  "anno_type_of anno =
     (if same_start 4 anno ''basic'' then Inr ''basic''
      else if same_start 4 anno ''common'' then Inr ''common''
      else if same_start 4 anno ''epsilon'' then Inr ''epsilon''
      else if same_start 4 anno ''refill'' then Inr ''basic''
      else if same_start 4 anno ''majority'' then Inr ''majority''
      else if same_start 4 anno ''default'' then Inr ''default''
      else if same_start 7 anno ''flagmajority'' then Inr ''flagmajority''
      else if same_start 7 anno ''flagdefault'' then Inr ''flagdefault''
      else if same_start 4 anno ''flag'' then Inr ''flag''
      else Inl SysExit)"

text \<open>
  The last \<open>ssprop\<close> of the transition decides, as a number or as a name; without one, the type of
  the transition.  A number that stands for no property leaves the function without a value.
\<close>

definition identify_carried_dispatch_type :: "transition \<Rightarrow> string option res" where
  "identify_carried_dispatch_type tr =
     (case find is_ssprop (rev (t_actions tr)) of
        None \<Rightarrow> rmap Some (anno_type_of (t_anno_type tr))
      | Some a \<Rightarrow>
          (case a_imm a of
             PNone \<Rightarrow> rmap Some (anno_type_of (t_anno_type tr))
           | PStr s \<Rightarrow>
               if first_digit s then rmap (\<lambda>n. property_type (n AND 0b1111)) (py_int s)
               else rmap Some (dict_get ssprop_types s SysExit)
           | Absent \<Rightarrow> Inl AttributeError
           | _ \<Rightarrow> Inl TypeError))"

definition label_types :: "string set" where
  "label_types = {''basic'', ''flag'', ''majority'', ''flagmajority'', ''default'', ''flagdefault''}"

definition majdef_types :: "string set" where
  "majdef_types = {''majority'', ''flagmajority'', ''default'', ''flagdefault''}"

text \<open>The incoming transitions of every state, by its identifier; event transitions do not count.\<close>

type_synonym incomings = "(int, tran_ref list) dict"

definition ConstructIncoming :: "world \<Rightarrow> incomings res" where
  "ConstructIncoming w =
     rbind (init_id w) (\<lambda>ini.
     let lookup = fold (\<lambda>t d. if t_anno_type (w_trans w ! t) = ''event'' then d
                    else dict_append (s_state_id (w_states w ! t_dst (w_trans w ! t))) t d)
           (concat (map (\<lambda>s. s_trans (w_states w ! s)) (e_states (w_efa w)))) []
     in if list_all (\<lambda>s. in_dict (s_state_id (w_states w ! s)) lookup \<or> s_state_id (w_states w ! s) = ini)
             (e_states (w_efa w))
        then Inr lookup else Inl SysExit)"

definition dispatch_type :: "world \<Rightarrow> incomings \<Rightarrow> state_ref \<Rightarrow> string option res" where
  "dispatch_type w incomings s =
     rbind (dict_get incomings (s_state_id (w_states w ! s)) (KeyError [])) (\<lambda>ts.
     case ts of [] \<Rightarrow> Inl IndexError | t # _ \<Rightarrow> identify_carried_dispatch_type (w_trans w ! t))"

definition get_majdef_tx :: "world \<Rightarrow> state_ref \<Rightarrow> tran_ref res" where
  "get_majdef_tx w s =
     (case filter (\<lambda>t. \<not> first_digit (t_name (w_trans w ! t))) (s_trans (w_states w ! s)) of
        [t] \<Rightarrow> Inr t | _ \<Rightarrow> Inl SysExit)"

definition get_action_address :: "world \<Rightarrow> incomings \<Rightarrow> state_ref \<Rightarrow> transition \<Rightarrow> int \<Rightarrow> int res" where
  "get_action_address w incomings s tr state_addr =
     rbind (dispatch_type w incomings s) (\<lambda>ty.
     case ty of
       None \<Rightarrow> Inl SysExit
     | Some state_type \<Rightarrow>
         if state_type \<in> label_types then
           (if \<not> first_digit (t_name tr) then Inr (state_addr + push_bit 2 (t_label tr) + push_bit 2 1)
            else
              rbind (get_baseINattach w s) (\<lambda>base.
              rbind (get_scalarINattach w s) (\<lambda>scalar.
              Inr (state_addr + push_bit 2 (int (tx_count base) + push_bit (nat scalar) (t_label tr))))))
         else if state_type = ''common'' \<or> state_type = ''epsilon'' then Inr (state_addr + push_bit 2 1)
         else Inl SysExit)"

section \<open>The last action\<close>

text \<open>
  A \<open>lastact\<close> that does not fit the action slots is dropped, from the first transition of each
  label only.
\<close>

definition drop_lastact :: "nat \<Rightarrow> transition \<Rightarrow> transition" where
  "drop_lastact scalar_action_count tr =
     (if t_actions tr \<noteq> [] \<and> length (t_actions tr) > scalar_action_count \<and>
         a_opcode (last (t_actions tr)) = ''lastact''
      then tr\<lparr>t_actions := butlast (t_actions tr)\<rparr> else tr)"

definition first_with_label :: "world \<Rightarrow> state_ref \<Rightarrow> int \<Rightarrow> tran_ref option" where
  "first_with_label w s label = find (\<lambda>t. t_label (w_trans w ! t) = label) (s_trans (w_states w ! s))"

definition remove_lastact :: "incomings \<Rightarrow> state_ref \<Rightarrow> world \<Rightarrow> world res" where
  "remove_lastact incomings s w =
     (if s_trans (w_states w ! s) = [] then Inr w
      else
        rbind (dispatch_type w incomings s) (\<lambda>ty.
        case ty of
          None \<Rightarrow> Inr w
        | Some state_type \<Rightarrow>
            if state_type \<in> label_types then
              rbind (get_baseINattach w s) (\<lambda>base.
              rbind (scalar_of w s) (\<lambda>(scalar, n).
              Inr (fold (\<lambda>label w. case first_with_label w s (int label) of
                           None \<Rightarrow> w | Some t \<Rightarrow> upd_tran t (drop_lastact n) w)
                     [0..<tx_count base] w)))
            else Inr w))"

section \<open>The slots of a state\<close>

text \<open>\<open>1 << i | bitmap\<close>\<close>

definition with_bit :: "int \<Rightarrow> int \<Rightarrow> int res" where
  "with_bit i bitmap = (if i < 0 then Inl ValueError else Inr (push_bit (nat i) 1 OR bitmap))"

text \<open>
  The labelled transitions: one slot for each label in use.  Their actions are marked in the block
  bitmap and, at their absolute slot number, in the bitmap of the state.
\<close>

definition mark_labels :: "world \<Rightarrow> state_ref \<Rightarrow> int \<Rightarrow> nat \<Rightarrow> int \<times> mem_manager \<Rightarrow> (int \<times> mem_manager) res" where
  "mark_labels w s state_addr n =
     foldr_res (\<lambda>label (bitmap, m).
       if get_tran_byLabel w s (int label) = [] then Inr (bitmap, m)
       else rbind (set_block_bitmap (drop_bit 2 state_addr + int label) m) (\<lambda>m1.
            rbind (with_bit (int label) bitmap) (\<lambda>b. Inr (b, m1)))) [0..<n]"

definition mark_actions ::
  "world \<Rightarrow> incomings \<Rightarrow> state_ref \<Rightarrow> int \<Rightarrow> int \<times> int \<times> int \<times> mem_manager \<Rightarrow> (int \<times> int \<times> int \<times> mem_manager) res"
where
  "mark_actions w incomings s state_addr =
     foldr_res (\<lambda>tr (action_addr, last_addr, bitmap, m).
       rbind
         (if has_actions_mark (t_anno_type tr) \<and> first_digit (t_name tr) then
            rbind (get_action_address w incomings s tr state_addr) (\<lambda>addr.
            rbind (foldr_res (\<lambda>i (b, m).
                rbind (set_block_bitmap (drop_bit 2 addr + int i) m) (\<lambda>m1.
                rbind (with_bit (drop_bit 2 addr + int i) b) (\<lambda>b1. Inr (b1, m1))))
              [0..<length (t_actions tr)] (bitmap, m)) (\<lambda>(b, m1).
            Inr (addr + push_bit 2 (int (length (t_actions tr))), b, m1)))
          else Inr (action_addr, bitmap, m)) (\<lambda>(a, b, m1).
       Inr (a, max a last_addr, b, m1))) (trans_of w s)"

text \<open>The smallest offset at which the majority or default transition and its actions are free\<close>

fun majdef_offset_from :: "nat \<Rightarrow> int \<Rightarrow> int \<Rightarrow> int \<Rightarrow> int" where
  "majdef_offset_from 0 k majdef_bitmap state_bitmap = k"
| "majdef_offset_from (Suc f) k majdef_bitmap state_bitmap =
     (if majdef_bitmap AND state_bitmap = 0 then k
      else majdef_offset_from f (k + 1) (push_bit 1 majdef_bitmap) state_bitmap)"

definition majdef_offset :: "nat \<Rightarrow> int \<Rightarrow> int" where
  "majdef_offset n state_bitmap =
     majdef_offset_from (nat state_bitmap) 0 (mask (Suc n)) state_bitmap"

definition set_ssprop :: "int \<Rightarrow> action \<Rightarrow> action" where
  "set_ssprop offset a = (if is_ssprop a then a\<lparr>a_dst := PStr (py_str offset)\<rparr> else a)"

definition set_incoming_ssprop :: "int \<Rightarrow> tran_ref list \<Rightarrow> world \<Rightarrow> world" where
  "set_incoming_ssprop offset =
     fold (\<lambda>t. upd_tran t (\<lambda>tr. tr\<lparr>t_actions := map (set_ssprop offset) (t_actions tr)\<rparr>))"

definition place_majdef ::
  "incomings \<Rightarrow> state_ref \<Rightarrow> string \<Rightarrow> int \<Rightarrow> world \<times> int \<times> int \<times> mem_manager \<Rightarrow> (world \<times> int \<times> mem_manager) res"
where
  "place_majdef incomings s state_type state_addr st =
     (case st of (w, last_addr, bitmap, m) \<Rightarrow>
       rbind (get_majdef_tx w s) (\<lambda>t.
       let n = length (t_actions (w_trans w ! t))
       in if n \<noteq> 0 \<and> (state_type = ''default'' \<or> state_type = ''flagdefault'') then Inl SysExit
          else
            let offset = majdef_offset n bitmap
            in rbind (dict_get incomings (s_state_id (w_states w ! s)) (KeyError [])) (\<lambda>ts.
               let w1 = set_incoming_ssprop offset ts (upd_tran t (\<lambda>tr. tr\<lparr>t_label := offset\<rparr>) w);
                   slot = drop_bit 2 state_addr + offset
               in rbind (set_block_range slot (1 + n) m) (\<lambda>m1.
                  Inr (w1, max (push_bit 2 slot + push_bit 2 (1 + int n)) last_addr, m1)))))"

text \<open>Looking for free slots: at most one round through the 4096 slots\<close>

fun find_free :: "nat \<Rightarrow> int \<Rightarrow> int \<Rightarrow> mem_manager \<Rightarrow> (int \<times> int \<times> mem_manager) res" where
  "find_free 0 state_addr last_addr m = Inl RecursionError"
| "find_free (Suc f) state_addr last_addr m =
     rbind (is_allocation_valid (drop_bit 2 state_addr) (drop_bit 2 last_addr) m) (\<lambda>free.
     if free then Inr (state_addr, last_addr, m)
     else
       rbind (shift_block_bitmap 1 (drop_bit 2 state_addr) (drop_bit 2 last_addr + 1) m) (\<lambda>m1.
       if drop_bit 2 (last_addr + 4) AND 0xFFF = 2 ^ 12 - 1 then Inl SysExit
       else find_free f (state_addr + 4) (last_addr + 4) m1))"

definition allocate_free :: "int \<Rightarrow> int \<Rightarrow> mem_manager \<Rightarrow> (int \<times> int \<times> mem_manager) res" where
  "allocate_free state_addr last_addr m =
     rbind (find_free 4097 state_addr last_addr m) (\<lambda>(a, l, m1).
     rbind (set_memory_bitmap (drop_bit 2 a) (drop_bit 2 l) m1) (\<lambda>(m2, ok).
     if ok then Inr (a, l, reset_block_bitmap m2) else Inl SysExit))"

text \<open>
  The block bitmap of a state with transitions: the slots of its labelled transitions and their
  actions, then its majority or default transition; or, of a state with one transition, that and
  its actions.  The result has the address behind the last slot.
\<close>

definition mark_labelled ::
  "incomings \<Rightarrow> int \<Rightarrow> state_ref \<Rightarrow> string \<Rightarrow> world \<times> mem_manager \<Rightarrow> (world \<times> int \<times> mem_manager) res" where
  "mark_labelled incomings starting_address s state_type wm =
     (case wm of (w, manager) \<Rightarrow>
       rbind (get_baseINattach w s) (\<lambda>base.
       rbind (scalar_of w s) (\<lambda>_.
       rbind (mark_labels w s starting_address (tx_count base) (0, manager)) (\<lambda>(b1, m1).
       rbind (mark_actions w incomings s starting_address
                (0, starting_address + push_bit 2 (int (tx_count base)), b1, m1))
         (\<lambda>(a, last_addr, b2, m2).
       if state_type \<in> majdef_types then
         place_majdef incomings s state_type starting_address (w, last_addr, b2, m2)
       else Inr (w, last_addr, m2))))))"

definition mark_single ::
  "int \<Rightarrow> state_ref \<Rightarrow> world \<times> mem_manager \<Rightarrow> (world \<times> int \<times> mem_manager) res" where
  "mark_single starting_address s wm =
     (case wm of (w, manager) \<Rightarrow>
       case s_trans (w_states w ! s) of
         [t] \<Rightarrow>
           rbind (set_block_bitmap (drop_bit 2 starting_address) manager) (\<lambda>m1.
           let last_addr = starting_address + 4; tr = w_trans w ! t; n = length (t_actions tr)
           in if has_actions_mark (t_anno_type tr) then
                rmap (\<lambda>m2. (w, last_addr + push_bit 2 (int n), m2))
                  (set_block_range (drop_bit 2 last_addr) n m1)
              else Inr (w, last_addr, m1))
       | _ \<Rightarrow> Inl SysExit)"

definition mark_state ::
  "incomings \<Rightarrow> int \<Rightarrow> state_ref \<Rightarrow> world \<times> mem_manager \<Rightarrow> (world \<times> int \<times> mem_manager) res" where
  "mark_state incomings starting_address s wm =
     rbind (dispatch_type (fst wm) incomings s) (\<lambda>ty.
     case ty of
       None \<Rightarrow> Inl SysExit
     | Some state_type \<Rightarrow>
         if state_type \<in> label_types then mark_labelled incomings starting_address s state_type wm
         else if state_type = ''common'' \<or> state_type = ''epsilon'' then
           mark_single starting_address s wm
         else Inl SysExit)"

definition set_state_bitmap ::
  "incomings \<Rightarrow> int \<Rightarrow> state_ref \<Rightarrow> world \<times> mem_manager \<Rightarrow> ((int \<times> int) \<times> world \<times> mem_manager) res" where
  "set_state_bitmap incomings starting_address s wm =
     (if s_trans (w_states (fst wm) ! s) = [] then Inr ((starting_address, starting_address), wm)
      else
        rbind (mark_state incomings starting_address s wm) (\<lambda>(w1, last_addr, m).
        rmap (\<lambda>(a, l, m1). ((a, l), w1, m1)) (allocate_free starting_address last_addr m)))"

definition assign_efa_state_addr ::
  "incomings \<Rightarrow> int \<Rightarrow> state_ref list \<Rightarrow> (int, int) dict \<times> world \<times> mem_manager
     \<Rightarrow> ((int, int) dict \<times> world \<times> mem_manager) res" where
  "assign_efa_state_addr incomings starting_address =
     foldr_res (\<lambda>s (symbols, w, m).
       rmap (\<lambda>((address, last_address), w1, m1).
              (add_resolved_symbol symbols (s_state_id (w_states w1 ! s)) address, w1, m1))
         (set_state_bitmap incomings starting_address s (w, m)))"

end
