(* ===== verification/Asm_Event.thy ===== *)
theory Asm_Event imports Asm_Place begin

text \<open>
  Encoding transitions (\<open>src/updown/udbasim/assembler/UpDown_Assembler.py\<close>): the words of event
  transitions and of the transitions of an EFA, written into the memory of the EFA, and the
  rewriting of majority and default transitions with actions
  (\<open>change_majoritydefault\<close> of \<open>UpDown_Assembler_helper.py\<close>).
\<close>

section \<open>Majority and default transitions with actions\<close>

definition majdef_anno :: "string \<Rightarrow> (string \<times> string) option" where
  "majdef_anno anno =
     (if same_start 5 anno ''majorityCarry'' then Some (''basic_with_action'', ''majority'')
      else if same_start 5 anno ''defaultCarry'' then Some (''basic_with_action'', ''default'')
      else if same_start 5 anno ''flagmajorityCarry'' then Some (''flagCarry_with_action'', ''flag_majority'')
      else if same_start 5 anno ''flagdefaultCarry'' then Some (''flagCarry_with_action'', ''flag_default'')
      else None)"

text \<open>The label of the new \<open>ssprop\<close>: that of a closing \<open>lastact\<close>\<close>

definition ssprop_label :: "action list \<Rightarrow> string res" where
  "ssprop_label as =
     (if as \<noteq> [] \<and> a_opcode (last as) = ''lastact'' then label_of (last as) else Inr [])"

definition insert_ssprop :: "action \<Rightarrow> string \<Rightarrow> action list \<Rightarrow> int \<Rightarrow> (action list \<times> int) res" where
  "insert_ssprop s label as cnt =
     (if as = [] then
        rmap (\<lambda>(l, maxudp, maxop, cnt1). ([s, l], cnt1)) (GetAction (label @ '': lastact'') cnt)
      else if a_opcode (last as) \<in> {''lastact'', ''yield'', ''yieldt''} then
        Inr (butlast as @ [s, last as], cnt)
      else Inr (as @ [s], cnt))"

definition change_majoritydefault :: "tran_ref \<Rightarrow> world \<Rightarrow> world res" where
  "change_majoritydefault t w =
     (let tr = w_trans w ! t
      in rbind (ssprop_label (t_actions tr)) (\<lambda>label.
         case majdef_anno (t_anno_type tr) of
           None \<Rightarrow> Inl UnboundLocalError
         | Some (annotype, ssprop_type) \<Rightarrow>
             rbind (GetAction (label @ '': ssprop '' @ ssprop_type) (w_cnt w))
               (\<lambda>(s, maxudp, maxop, cnt).
             rbind (insert_ssprop s label (t_actions tr) cnt) (\<lambda>(as, cnt1).
             Inr (upd_tran t (\<lambda>tr. tr\<lparr>t_actions := as, t_anno_type := annotype\<rparr>)
                    (w\<lparr>w_cnt := cnt1\<rparr>))))))"

section \<open>Event transitions\<close>

definition carried_annos :: "string set" where
  "carried_annos = {''commonCarry'', ''commonCarry_with_action'', ''basic'', ''basic_with_action'',
     ''flagCarry'', ''flagCarry_with_action'', ''majorityCarry'', ''defaultCarry'',
     ''flagmajorityCarry'', ''flagdefaultCarry'', ''refill'', ''refill_with_action'',
     ''epsilonCarry'', ''epsilonCarry_with_action'', ''event''}"

definition state_address :: "(int, int) dict \<Rightarrow> world \<Rightarrow> transition \<Rightarrow> int res" where
  "state_address allstates w tr =
     (let i = s_state_id (w_states w ! t_dst tr) in dict_get allstates i (KeyError (py_str i)))"

definition encode_event_instr :: "world \<Rightarrow> transition \<Rightarrow> (int, int) dict \<Rightarrow> fields res" where
  "encode_event_instr w tr allstates_symbols =
     (if t_anno_type tr \<in> {''eventCarry'', ''eventCarry_with_action''} then
        seq_res [Inr ''00000000000000000000'', encode_transition_type (t_anno_type tr), Inr ''00000001'']
      else if t_anno_type tr \<in> carried_annos then
        seq_res [rbind (state_address allstates_symbols w tr) encode_event_target,
          encode_transition_type (t_anno_type tr), Inr ''00000001'']
      else Inl SysExit)"

section \<open>Transitions of an EFA\<close>

definition is_majdef :: "string \<Rightarrow> bool" where
  "is_majdef anno = (same_start 4 anno ''majority'' \<or> same_start 4 anno ''default'' \<or>
     same_start 5 anno ''flagdefault'' \<or> same_start 5 anno ''flagmajority'')"

definition target_field :: "(int, int) dict \<Rightarrow> world \<Rightarrow> transition \<Rightarrow> string res" where
  "target_field allstates w tr =
     rbind (state_address allstates w tr) (\<lambda>a. encode_EFA_tr_target (drop_bit 2 a AND 0xFFF))"

text \<open>The attach field of a transition without actions: the offset of the majority or default
  transition of its destination\<close>

definition attach_field :: "world \<Rightarrow> transition \<Rightarrow> string \<Rightarrow> string res" where
  "attach_field w tr other =
     (if is_majdef (t_anno_type tr) then
        rbind (get_majdef_tx w (t_dst tr)) (\<lambda>t. encode_attach (t_label (w_trans w ! t)))
      else Inr other)"

definition encode_EFA_transition_instr ::
  "world \<Rightarrow> transition \<Rightarrow> string \<Rightarrow> int \<Rightarrow> (int, int) dict \<Rightarrow> int \<Rightarrow> int \<Rightarrow> fields res" where
  "encode_EFA_transition_instr w tr state_type label allstates base scalar =
     (let anno = t_anno_type tr; ty = encode_transition_type anno; target = target_field allstates w tr
      in if state_type \<in> label_types then
           (if \<not> first_digit (t_name tr) then
              rbind (attach_field w tr ''00000001'') (\<lambda>attach.
              seq_res [Inr ''00000000'', target, ty, Inr attach])
            else if same_start 4 anno ''refill'' then
              (if has_actions_mark anno then
                 seq_res [encode_signature label, target, ty,
                   encode_attach_refill_refill (t_refill_val tr), encode_attach_refill_base base,
                   encode_attach_refill_scalar scalar]
               else
                 seq_res [encode_signature label, target, ty,
                   encode_attach_refill_refill (t_refill_val tr), Inr ''00000''])
            else if has_actions_mark anno then
              seq_res [encode_signature label, target, ty, Inr ''11'', encode_attach_base base,
                encode_attach_scalar scalar]
            else
              rbind (attach_field w tr ''00000000'') (\<lambda>attach.
              seq_res [encode_signature label, target, ty, Inr attach]))
         else if state_type = ''common'' \<or> state_type = ''epsilon'' then
           (if has_actions_mark anno then
              seq_res [Inr ''00000000'', target, ty, Inr ''00'', Inr ''000001'']
            else
              rbind (attach_field w tr ''00000000'') (\<lambda>attach.
              seq_res [Inr ''00000000'', target, ty, Inr attach]))
         else Inl SysExit)"

text \<open>One labelled transition: the first of its label, if its name is a number\<close>

definition write_label ::
  "world \<Rightarrow> state_ref \<Rightarrow> string \<Rightarrow> (int, int) dict \<Rightarrow> int \<Rightarrow> int \<Rightarrow> nat \<Rightarrow> mem_manager \<Rightarrow> mem_manager res"
where
  "write_label w s state_type allstates base scalar label m =
     (case get_tran_byLabel w s (int label) of
        [] \<Rightarrow> Inr m
      | tr # _ \<Rightarrow>
          if first_digit (t_name tr) then
            rbind (dict_get allstates (s_state_id (w_states w ! s)) (KeyError [])) (\<lambda>addr.
            rbind (encode_EFA_transition_instr w tr state_type (int label) allstates base scalar)
              (\<lambda>fs. set_memory (drop_bit 2 addr + int label) (pack fs) m))
          else Inr m)"

definition encode_EFAstate_trs ::
  "world \<Rightarrow> incomings \<Rightarrow> (int, int) dict \<Rightarrow> state_ref \<Rightarrow> mem_manager \<Rightarrow> mem_manager res" where
  "encode_EFAstate_trs w incomings allstates s m =
     rbind (dispatch_type w incomings s) (\<lambda>ty.
     case ty of
       None \<Rightarrow> Inl SysExit
     | Some state_type \<Rightarrow>
         let i = s_state_id (w_states w ! s)
         in if state_type \<in> label_types then
              rbind (get_baseINattach w s) (\<lambda>base.
              rbind (scalar_of w s) (\<lambda>(scalar, n).
              rbind (foldr_res (write_label w s state_type allstates base scalar)
                       [0..<tx_count base] m) (\<lambda>m1.
              if state_type \<in> majdef_types then
                rbind (get_majdef_tx w s) (\<lambda>t.
                rbind (dict_get allstates i (KeyError (py_str i))) (\<lambda>addr.
                rbind (encode_EFA_transition_instr w (w_trans w ! t) state_type 0 allstates 0 0) (\<lambda>fs.
                set_memory (drop_bit 2 addr + t_label (w_trans w ! t)) (pack fs) m1)))
              else Inr m1)))
            else if state_type = ''common'' \<or> state_type = ''epsilon'' then
              (case trans_of w s of
                 [] \<Rightarrow> Inl IndexError
               | tr # trs \<Rightarrow>
                   rbind (dict_get allstates i (KeyError (py_str i))) (\<lambda>addr.
                   rbind (encode_EFA_transition_instr w tr state_type 0 allstates 0 0) (\<lambda>fs.
                   rbind (set_memory (drop_bit 2 addr) (pack fs) m) (\<lambda>m1.
                   if trs \<noteq> [] then Inl SysExit else Inr m1))))
            else Inl SysExit)"

end
