(* ===== verification/Asm_Color.thy ===== *)
theory Asm_Color imports Asm_Layout begin

text \<open>
  What the colouring of \<open>Asm_Layout\<close> does: the traversal ends and lists the states that can be
  reached, and the colours split the states into EFAs that no transition leaves.
\<close>

section \<open>Successors and marks\<close>

definition succs :: "world \<Rightarrow> state_ref \<Rightarrow> state_ref set" where
  "succs w s = (\<lambda>t. t_dst (w_trans w ! t)) ` set (s_trans (w_states w ! s))"

definition refs_ok :: "world \<Rightarrow> bool" where
  "refs_ok w = (\<forall>s<length (w_states w). succs w s \<subseteq> {..<length (w_states w)})"

definition marked :: "world \<Rightarrow> state_ref set" where
  "marked w = {s. s < length (w_states w) \<and> s_marked (w_states w ! s)}"

text \<open>Two worlds that differ in the marks only\<close>

definition same_but_marks :: "world \<Rightarrow> world \<Rightarrow> bool" where
  "same_but_marks w w' =
     (w' = w\<lparr>w_states := w_states w'\<rparr> \<and> length (w_states w') = length (w_states w) \<and>
      (\<forall>s. (w_states w' ! s)\<lparr>s_marked := False\<rparr> = (w_states w ! s)\<lparr>s_marked := False\<rparr>))"

lemma same_marks_refl [simp]: "same_but_marks w w"
  by (simp add: same_but_marks_def)

lemma same_marks_trans: "same_but_marks w w1 \<Longrightarrow> same_but_marks w1 w2 \<Longrightarrow> same_but_marks w w2"
  unfolding same_but_marks_def by (elim conjE, intro conjI) (metis world.update_convs(1) world.surjective, simp_all)

lemma state_fields: "a\<lparr>s_marked := False\<rparr> = b\<lparr>s_marked := False\<rparr> \<Longrightarrow>
    s_trans a = s_trans b \<and> s_EFA_id a = s_EFA_id b \<and> s_state_id a = s_state_id b"
  by (cases a, cases b) simp

lemma same_marks_fields:
  assumes "same_but_marks w w'"
  shows "w_trans w' = w_trans w" and "w_efa w' = w_efa w" and "length (w_states w') = length (w_states w)"
    and "s_trans (w_states w' ! s) = s_trans (w_states w ! s)"
    and "s_EFA_id (w_states w' ! s) = s_EFA_id (w_states w ! s)"
    and "s_state_id (w_states w' ! s) = s_state_id (w_states w ! s)"
    and "succs w' s = succs w s" and "refs_ok w' = refs_ok w" and "w_cnt w' = w_cnt w"
proof -
  have r: "w' = w\<lparr>w_states := w_states w'\<rparr>" using assms by (simp add: same_but_marks_def)
  show tr: "w_trans w' = w_trans w" and "w_efa w' = w_efa w" and "w_cnt w' = w_cnt w" by (subst r, simp)+
  show len: "length (w_states w') = length (w_states w)" using assms by (simp add: same_but_marks_def)
  have "s_trans (w_states w' ! s) = s_trans (w_states w ! s) \<and> s_EFA_id (w_states w' ! s) = s_EFA_id (w_states w ! s) \<and>
      s_state_id (w_states w' ! s) = s_state_id (w_states w ! s)" for s
    by (rule state_fields) (use assms in \<open>simp add: same_but_marks_def\<close>)
  then show st: "s_trans (w_states w' ! s) = s_trans (w_states w ! s)"
    "s_EFA_id (w_states w' ! s) = s_EFA_id (w_states w ! s)"
    "s_state_id (w_states w' ! s) = s_state_id (w_states w ! s)" for s
    by simp_all
  show su: "succs w' s = succs w s" for s by (simp add: succs_def tr st)
  show "refs_ok w' = refs_ok w" by (simp add: refs_ok_def su len)
qed

lemma nth_upd_state:
  "w_states (upd_state d f w) ! s = (if s = d \<and> d < length (w_states w) then f (w_states w ! d) else w_states w ! s)"
  by (simp add: upd_state_def) (metis list_update_beyond not_le nth_list_update_eq nth_list_update_neq)

lemma upd_state_simps [simp]:
  "w_trans (upd_state d f w) = w_trans w" "w_efa (upd_state d f w) = w_efa w" "w_cnt (upd_state d f w) = w_cnt w"
  "length (w_states (upd_state d f w)) = length (w_states w)"
  by (simp_all add: upd_state_def)

lemma mark_state_marks:
  assumes "d < length (w_states w)"
  shows "same_but_marks w (upd_state d (\<lambda>s. s\<lparr>s_marked := True\<rparr>) w)"
    and "marked (upd_state d (\<lambda>s. s\<lparr>s_marked := True\<rparr>) w) = insert d (marked w)"
proof -
  show "same_but_marks w (upd_state d (\<lambda>s. s\<lparr>s_marked := True\<rparr>) w)"
    by (auto simp: same_but_marks_def nth_upd_state) (simp add: upd_state_def)
  show "marked (upd_state d (\<lambda>s. s\<lparr>s_marked := True\<rparr>) w) = insert d (marked w)"
    using assms by (auto simp: marked_def nth_upd_state)
qed

definition unmarked :: "world \<Rightarrow> nat" where
  "unmarked w = card ({..<length (w_states w)} - marked w)"

lemma unmarked_less:
  assumes "same_but_marks w w'" and "marked w \<subset> marked w'"
  shows "unmarked w' < unmarked w"
  unfolding unmarked_def same_marks_fields(3) [OF assms(1)]
  using assms(2) by (intro psubset_card_mono) (auto simp: marked_def same_marks_fields(3) [OF assms(1)])

lemma unmarked_le:
  assumes "same_but_marks w w'" and "marked w \<subseteq> marked w'"
  shows "unmarked w' \<le> unmarked w"
  unfolding unmarked_def same_marks_fields(3) [OF assms(1)]
  using assms(2) by (intro card_mono) auto

section \<open>Traversal\<close>

text \<open>
  What a traversal that starts at states already marked does: it marks states and appends them to
  the list; afterwards every successor of a new state, and of the start, is marked.
\<close>

definition traversed :: "world \<Rightarrow> state_ref list \<Rightarrow> state_ref set \<Rightarrow> state_ref set \<Rightarrow> world \<Rightarrow> state_ref list \<Rightarrow> bool" where
  "traversed w l starts dsts w' l' =
     (\<exists>new. l' = l @ new \<and> same_but_marks w w' \<and> marked w' = marked w \<union> set new \<and>
        set new \<inter> marked w = {} \<and> dsts \<subseteq> marked w' \<and> (\<forall>x\<in>set new. succs w x \<subseteq> marked w') \<and>
        (\<forall>P. dsts \<subseteq> P \<longrightarrow> (\<forall>x\<in>P. succs w x \<subseteq> P) \<longrightarrow> set new \<subseteq> P))"

text \<open>The traversal of one state, with enough fuel, ends in this way or by \<open>sys.exit\<close>.\<close>

definition visits :: "nat \<Rightarrow> (state_ref \<Rightarrow> world \<times> state_ref list \<Rightarrow> (world \<times> state_ref list) res) \<Rightarrow> bool" where
  "visits n visit =
     (\<forall>s w l. refs_ok w \<longrightarrow> s < length (w_states w) \<longrightarrow> unmarked w < n \<longrightarrow>
        (case visit s (w, l) of
           Inl e \<Rightarrow> e = SysExit
         | Inr (w', l') \<Rightarrow> traversed w l {s} (succs w s) w' l'))"

lemma traversed_step:
  assumes d: "d < length (w_states w)" "d \<notin> marked w"
    and one: "traversed (upd_state d (\<lambda>s. s\<lparr>s_marked := True\<rparr>) w) (l @ [d]) {d} (succs w d) w1 l1"
    and rest: "traversed w1 l1 S D w2 l2"
  shows "traversed w l S (insert d D) w2 l2"
proof -
  let ?w = "upd_state d (\<lambda>s. s\<lparr>s_marked := True\<rparr>) w"
  note md = mark_state_marks [OF d(1)]
  obtain n1 where n1: "l1 = l @ [d] @ n1" "same_but_marks ?w w1" "marked w1 = insert d (marked w) \<union> set n1"
    "set n1 \<inter> insert d (marked w) = {}" "succs w d \<subseteq> marked w1" "\<forall>x\<in>set n1. succs w x \<subseteq> marked w1"
    "\<And>P. succs w d \<subseteq> P \<Longrightarrow> \<forall>x\<in>P. succs w x \<subseteq> P \<Longrightarrow> set n1 \<subseteq> P"
    using one by (auto simp: traversed_def md(2) same_marks_fields(7) [OF md(1)])
  have s1: "same_but_marks w w1" using same_marks_trans [OF md(1) n1(2)] .
  obtain n2 where n2: "l2 = l1 @ n2" "same_but_marks w1 w2" "marked w2 = marked w1 \<union> set n2"
    "set n2 \<inter> marked w1 = {}" "D \<subseteq> marked w2" "\<forall>x\<in>set n2. succs w x \<subseteq> marked w2"
    "\<And>P. D \<subseteq> P \<Longrightarrow> \<forall>x\<in>P. succs w x \<subseteq> P \<Longrightarrow> set n2 \<subseteq> P"
    using rest by (auto simp: traversed_def same_marks_fields(7) [OF s1])
  show ?thesis unfolding traversed_def
  proof (intro exI [of _ "d # n1 @ n2"] conjI)
    show "\<forall>P. insert d D \<subseteq> P \<longrightarrow> (\<forall>x\<in>P. succs w x \<subseteq> P) \<longrightarrow> set (d # n1 @ n2) \<subseteq> P"
      using n1(7) n2(7) by auto
    show "\<forall>x\<in>set (d # n1 @ n2). succs w x \<subseteq> marked w2" using n1(5,6) n2(3,6) by auto
  qed (use d n1 n2 same_marks_trans [OF s1 n2(2)] in auto)
qed

lemma traversed_skip:
  "d \<in> marked w \<Longrightarrow> traversed w l S D w2 l2 \<Longrightarrow> traversed w l S (insert d D) w2 l2"
  unfolding traversed_def by auto

declare traverse_trans.simps(2) [simp del]

lemma ended_mono:
  "(case m of Inl e \<Rightarrow> e = SysExit | Inr (a, b) \<Rightarrow> P a b) \<Longrightarrow> (\<And>a b. P a b \<Longrightarrow> Q a b) \<Longrightarrow>
   (case m of Inl e \<Rightarrow> e = SysExit | Inr (a, b) \<Rightarrow> Q a b)"
  by (cases m) auto

lemma traverse_trans_visits:
  assumes v: "visits n visit" and "refs_ok w" and "unmarked w \<le> n"
    and "(\<lambda>t. t_dst (w_trans w ! t)) ` set ts \<subseteq> {..<length (w_states w)}"
  shows "case traverse_trans visit ts (w, l) of
      Inl e \<Rightarrow> e = SysExit
    | Inr (w', l') \<Rightarrow> traversed w l S ((\<lambda>t. t_dst (w_trans w ! t)) ` set ts) w' l'"
  using assms(2-4)
proof (induction ts arbitrary: w l)
  case Nil
  then show ?case by (auto simp: traversed_def)
next
  case (Cons t ts)
  let ?d = "t_dst (w_trans w ! t)"
  have d: "?d < length (w_states w)" using Cons.prems(3) by simp
  have e: "(\<lambda>t. t_dst (w_trans w ! t)) ` set (t # ts) = insert ?d ((\<lambda>t. t_dst (w_trans w ! t)) ` set ts)"
    by simp
  show ?case
  proof (cases "?d \<in> marked w")
    case True
    then have m: "s_marked (w_states w ! ?d)" by (simp add: marked_def)
    have ih: "case traverse_trans visit ts (w, l) of Inl e \<Rightarrow> e = SysExit
      | Inr (w', l') \<Rightarrow> traversed w l S ((\<lambda>t. t_dst (w_trans w ! t)) ` set ts) w' l'"
      using Cons.IH Cons.prems by simp
    have "traverse_trans visit (t # ts) (w, l) = traverse_trans visit ts (w, l)"
      using m by (simp add: traverse_trans.simps(2))
    then show ?thesis unfolding e by (simp only:) (rule ended_mono [OF ih], rule traversed_skip [OF True])
  next
    case False
    then have m: "\<not> s_marked (w_states w ! ?d)" using d by (simp add: marked_def)
    let ?w = "upd_state ?d (\<lambda>s. s\<lparr>s_marked := True\<rparr>) w"
    note md = mark_state_marks [OF d]
    have "marked w \<subset> marked ?w" using False unfolding md(2) by blast
    from unmarked_less [OF md(1) this] have less: "unmarked ?w < n" using Cons.prems(2) by simp
    have vis: "case visit ?d (?w, l @ [?d]) of Inl e \<Rightarrow> e = SysExit
        | Inr (w', l') \<Rightarrow> traversed ?w (l @ [?d]) {?d} (succs ?w ?d) w' l'"
      using v [unfolded visits_def, rule_format, of ?w ?d "l @ [?d]"] less d Cons.prems(1)
        same_marks_fields(8) [OF md(1)] by simp
    show ?thesis
    proof (cases "visit ?d (?w, l @ [?d])")
      case (Inl e)
      then show ?thesis using vis m by (simp add: traverse_trans.simps(2) Let_def)
    next
      case (Inr x)
      obtain w1 l1 where x: "x = (w1, l1)" by (cases x)
      have one: "traversed ?w (l @ [?d]) {?d} (succs w ?d) w1 l1"
        using vis Inr x same_marks_fields(7) [OF md(1)] by simp
      have s1: "same_but_marks w w1" "marked w \<subseteq> marked w1"
        using one same_marks_trans [OF md(1)] md(2) by (auto simp: traversed_def)
      note f = same_marks_fields [OF s1(1)]
      have "refs_ok w1" "unmarked w1 \<le> n" "(\<lambda>t. t_dst (w_trans w1 ! t)) ` set ts \<subseteq> {..<length (w_states w1)}"
        using Cons.prems unmarked_le [OF s1] by (simp_all add: f)
      from Cons.IH [OF this, of l1]
      have ih: "case traverse_trans visit ts (w1, l1) of Inl e \<Rightarrow> e = SysExit
        | Inr (w', l') \<Rightarrow> traversed w1 l1 S ((\<lambda>t. t_dst (w_trans w ! t)) ` set ts) w' l'"
        unfolding f(1) .
      have eq: "traverse_trans visit (t # ts) (w, l) =
          (if t_anno_type (w_trans w ! t) = ''eventCarry'' then Inl SysExit
           else traverse_trans visit ts (w1, l1))"
        using Inr x m by (simp add: traverse_trans.simps(2) Let_def)
      note go = ended_mono [OF ih traversed_step [OF d False one]]
      show ?thesis
      proof (cases "t_anno_type (w_trans w ! t) = ''eventCarry''")
        case True
        then show ?thesis unfolding eq by simp
      next
        case other: False
        show ?thesis unfolding eq if_not_P [OF other] e by (rule go)
      qed
    qed
  qed
qed

lemma traverse_visits: "visits n (traverse_EFA_states n)"
proof (induction n)
  case 0
  then show ?case by (simp add: visits_def)
next
  case (Suc n)
  show ?case unfolding visits_def
  proof (intro allI impI)
    fix s w l assume a: "refs_ok w" "s < length (w_states w)" "unmarked w < Suc n"
    have e: "(\<lambda>t. t_dst (w_trans w ! t)) ` set (s_trans (w_states w ! s)) = succs w s" by (simp add: succs_def)
    show "case traverse_EFA_states (Suc n) s (w, l) of Inl e \<Rightarrow> e = SysExit
      | Inr (w', l') \<Rightarrow> traversed w l {s} (succs w s) w' l'"
      using traverse_trans_visits [OF Suc a(1), of "s_trans (w_states w ! s)" l "{s}", unfolded e] a
      by (simp add: refs_ok_def)
  qed
qed

declare traverse_EFA_states.simps(2) [simp del]

section \<open>Colours\<close>

lemma foldr_res_Inl:
  "foldr_res f xs s = Inl e \<Longrightarrow> (\<And>x s e'. x \<in> set xs \<Longrightarrow> f x s = Inl e' \<Longrightarrow> e' = e0) \<Longrightarrow> e = e0"
proof (induction xs arbitrary: s)
  case (Cons x xs)
  then show ?case by (cases "f x s") auto
qed simp

definition colour :: "world \<Rightarrow> state_ref \<Rightarrow> int" where
  "colour w s = s_EFA_id (w_states w ! s)"

text \<open>Two worlds that differ in marks and colours only\<close>

definition same_shape :: "world \<Rightarrow> world \<Rightarrow> bool" where
  "same_shape w w' =
     (w_trans w' = w_trans w \<and> w_efa w' = w_efa w \<and> w_cnt w' = w_cnt w \<and>
      length (w_states w') = length (w_states w) \<and>
      (\<forall>s. s_trans (w_states w' ! s) = s_trans (w_states w ! s) \<and>
           s_state_id (w_states w' ! s) = s_state_id (w_states w ! s)))"

lemma same_shape_refl [simp]: "same_shape w w"
  by (simp add: same_shape_def)

lemma same_shape_trans: "same_shape w w1 \<Longrightarrow> same_shape w1 w2 \<Longrightarrow> same_shape w w2"
  by (simp add: same_shape_def)

lemma same_shape_marks: "same_but_marks w w' \<Longrightarrow> same_shape w w'"
  by (simp add: same_shape_def same_marks_fields)

lemma same_shape_succs: "same_shape w w' \<Longrightarrow> succs w' = succs w"
  by (rule ext) (simp add: succs_def same_shape_def)

lemma colour_upd:
  "colour (set_color c d w) s = (if s = d \<and> d < length (w_states w) then c else colour w s)"
  by (simp add: set_color_def colour_def nth_upd_state)

lemma set_color_shape: "same_shape w (set_color c d w) \<and> marked (set_color c d w) = marked w"
  by (auto simp: set_color_def same_shape_def marked_def nth_upd_state)

lemma coloured_all:
  assumes "foldr_res (\<lambda>s w. if s_EFA_id (w_states w ! s) = UNDEFINED then Inr (set_color c s w)
             else if b \<and> s_EFA_id (w_states w ! s) = c then Inr w else Inl SysExit) l w = Inr w'"
    and "set l \<subseteq> {..<length (w_states w)}"
  shows "same_shape w w' \<and> marked w' = marked w \<and> (\<forall>s. colour w' s = (if s \<in> set l then c else colour w s)) \<and>
    (\<forall>s\<in>set l. colour w s = UNDEFINED \<or> b \<and> colour w s = c)"
  using assms
proof (induction l arbitrary: w)
  case (Cons d l)
  let ?b = "s_EFA_id (w_states w ! d) = UNDEFINED"
  define w1 where "w1 = (if ?b then set_color c d w else w)"
  have w1: "foldr_res (\<lambda>s w. if s_EFA_id (w_states w ! s) = UNDEFINED then Inr (set_color c s w)
             else if b \<and> s_EFA_id (w_states w ! s) = c then Inr w else Inl SysExit) l w1 = Inr w'"
    and ok: "?b \<or> b \<and> s_EFA_id (w_states w ! d) = c"
    using Cons.prems(1) by (auto simp: w1_def split: if_splits)
  have s1: "same_shape w w1" "marked w1 = marked w" using set_color_shape by (simp_all add: w1_def)
  then have "set l \<subseteq> {..<length (w_states w1)}" using Cons.prems(2) by (simp add: same_shape_def)
  note IH = Cons.IH [OF w1 this]
  have c1: "colour w1 s = (if s = d then c else colour w s)" for s
    using ok Cons.prems(2) by (auto simp: w1_def colour_upd) (simp add: colour_def)
  show ?case using IH same_shape_trans [OF s1(1)] s1(2) c1 ok by (auto simp: colour_def split: if_splits)
qed simp

lemma color_remaining_all:
  assumes "color_remaining_states c l w = Inr w'" and "set l \<subseteq> {..<length (w_states w)}"
  shows "same_shape w w' \<and> marked w' = marked w \<and> (\<forall>s. colour w' s = (if s \<in> set l then c else colour w s)) \<and>
    (\<forall>s\<in>set l. colour w s = UNDEFINED \<or> colour w s = c)"
proof -
  have "(\<lambda>s w. if s_EFA_id (w_states w ! s) = UNDEFINED then Inr (set_color c s w)
                       else if s_EFA_id (w_states w ! s) \<noteq> c then Inl SysExit else Inr w)
      = (\<lambda>s w. if s_EFA_id (w_states w ! s) = UNDEFINED then Inr (set_color c s w)
             else if True \<and> s_EFA_id (w_states w ! s) = c then Inr w else Inl SysExit)"
    by (intro ext) simp
  with coloured_all [of c True l w w'] assms show ?thesis by (simp add: color_remaining_states_def)
qed

lemma color_states_all:
  assumes "color_states c l w = Inr w'" and "set l \<subseteq> {..<length (w_states w)}"
  shows "same_shape w w' \<and> marked w' = marked w \<and> (\<forall>s. colour w' s = (if s \<in> set l then c else colour w s)) \<and>
    (\<forall>s\<in>set l. colour w s = UNDEFINED)"
proof -
  have "(\<lambda>s w. if s_EFA_id (w_states w ! s) = UNDEFINED then Inr (set_color c s w) else Inl SysExit)
      = (\<lambda>s w. if s_EFA_id (w_states w ! s) = UNDEFINED then Inr (set_color c s w)
             else if False \<and> s_EFA_id (w_states w ! s) = c then Inr w else Inl SysExit)"
    by (intro ext) simp
  with coloured_all [of c False l w w'] assms show ?thesis by (simp add: color_states_def)
qed

lemma unmark_all:
  "same_shape w (fold unmark ss w) \<and> marked (fold unmark ss w) = marked w - set ss \<and>
   colour (fold unmark ss w) = colour w"
proof (induction ss arbitrary: w)
  case (Cons s ss)
  have "same_shape w (unmark s w)" "marked (unmark s w) = marked w - {s}" "colour (unmark s w) = colour w"
    by (auto simp: unmark_def same_shape_def marked_def nth_upd_state colour_def)
  then show ?case using Cons [of "unmark s w"] same_shape_trans by fastforce
qed simp

lemma check_Some: "states_color_check w l = Some c \<Longrightarrow> c \<noteq> UNDEFINED \<and> (\<exists>s\<in>set l. colour w s = c)"
  by (auto simp: states_color_check_def colour_def find_Some_iff)

lemma check_None: "states_color_check w l = None \<Longrightarrow> s \<in> set l \<Longrightarrow> colour w s = UNDEFINED"
  by (auto simp: states_color_check_def colour_def find_None_iff)

section \<open>One transition of the initial state\<close>

text \<open>
  A program whose references are in range and whose states are all listed: the transitions of a
  listed state lead to listed states.
\<close>

definition closed_program :: "world \<Rightarrow> bool" where
  "closed_program w =
     (refs_ok w \<and> (\<forall>s\<in>set (e_states (w_efa w)). s < length (w_states w) \<and> succs w s \<subseteq> set (e_states (w_efa w))))"

text \<open>
  The colours so far: those of \<open>c\<close> EFAs, inside \<open>P\<close>, and no transition leads from one EFA to
  another or out of all.
\<close>

definition colours_ok :: "state_ref set \<Rightarrow> world \<Rightarrow> int \<Rightarrow> bool" where
  "colours_ok P w c =
     (0 \<le> c \<and> marked w = {} \<and>
      (\<forall>x. colour w x \<noteq> UNDEFINED \<longrightarrow> x < length (w_states w) \<longrightarrow>
         x \<in> P \<and> 0 \<le> colour w x \<and> colour w x < c \<and> (\<forall>y\<in>succs w x. colour w y = colour w x)))"

lemma closed_shape: "same_shape w w' \<Longrightarrow> closed_program w' = closed_program w"
  using same_shape_succs [of w w'] by (simp add: closed_program_def refs_ok_def same_shape_def)

lemma traverse_start:
  assumes cp: "closed_program w" and d: "d \<in> set (e_states (w_efa w))" and m: "marked w = {}"
    and f: "length (w_states w) < n"
  shows "case traverse_EFA_states n d (upd_state d (\<lambda>s. s\<lparr>s_marked := True\<rparr>) w, [d]) of
      Inl e \<Rightarrow> e = SysExit
    | Inr (w1, l) \<Rightarrow> same_but_marks w w1 \<and> marked w1 = set l \<and> set l \<subseteq> set (e_states (w_efa w)) \<and> d \<in> set l \<and>
        (\<forall>x\<in>set l. succs w x \<subseteq> set l) \<and> (\<forall>P. d \<in> P \<longrightarrow> (\<forall>x\<in>P. succs w x \<subseteq> P) \<longrightarrow> set l \<subseteq> P)"
proof -
  let ?w = "upd_state d (\<lambda>s. s\<lparr>s_marked := True\<rparr>) w"
  have dl: "d < length (w_states w)" and ro: "refs_ok w" using cp d by (auto simp: closed_program_def)
  note md = mark_state_marks [OF dl]
  have "unmarked ?w \<le> card {..<length (w_states w)}" unfolding unmarked_def by (rule card_mono) auto
  then have "unmarked ?w < n" using f by simp
  then have v: "case traverse_EFA_states n d (?w, [d]) of Inl e \<Rightarrow> e = SysExit
      | Inr (w', l') \<Rightarrow> traversed ?w [d] {d} (succs ?w d) w' l'"
    using traverse_visits [of n, unfolded visits_def, rule_format, of ?w d "[d]"] ro dl
      same_marks_fields(8) [OF md(1)] by simp
  show ?thesis
  proof (rule ended_mono [OF v])
    fix w1 l assume t: "traversed ?w [d] {d} (succs ?w d) w1 l"
    then obtain new where n: "l = d # new" "same_but_marks ?w w1" "marked w1 = {d} \<union> set new"
      "succs w d \<subseteq> marked w1" "\<forall>x\<in>set new. succs w x \<subseteq> marked w1"
      "\<And>P. succs w d \<subseteq> P \<Longrightarrow> \<forall>x\<in>P. succs w x \<subseteq> P \<Longrightarrow> set new \<subseteq> P"
      by (auto simp: traversed_def md(2) m same_marks_fields(7) [OF md(1)])
    have "set new \<subseteq> set (e_states (w_efa w))"
      by (rule n(6)) (use cp d in \<open>auto simp: closed_program_def\<close>)
    then show "same_but_marks w w1 \<and> marked w1 = set l \<and> set l \<subseteq> set (e_states (w_efa w)) \<and> d \<in> set l \<and>
        (\<forall>x\<in>set l. succs w x \<subseteq> set l) \<and> (\<forall>P. d \<in> P \<longrightarrow> (\<forall>x\<in>P. succs w x \<subseteq> P) \<longrightarrow> set l \<subseteq> P)"
      using n same_marks_trans [OF md(1) n(2)] d by auto
  qed
qed

text \<open>The states of a closed set get one colour and are unmarked.\<close>

lemma coloured_ok:
  assumes cp: "closed_program w" and inv: "colours_ok P w c"
    and sh: "same_shape w w2" and ma: "marked w2 = set l" and le: "set l \<subseteq> set (e_states (w_efa w))"
    and cl: "\<forall>x\<in>set l. succs w x \<subseteq> set l" and lP: "set l \<subseteq> P"
    and col: "\<forall>s. colour w2 s = (if s \<in> set l then k else colour w s)"
    and old: "\<forall>s\<in>set l. colour w s = UNDEFINED \<or> colour w s = k" and k: "0 \<le> k" "k < c'" "c \<le> c'"
  shows "same_shape w (fold unmark (e_states (w_efa w2)) w2)"
    and "colours_ok P (fold unmark (e_states (w_efa w2)) w2) c'"
    and "colour w x \<noteq> UNDEFINED \<Longrightarrow> colour (fold unmark (e_states (w_efa w2)) w2) x = colour w x"
    and "x \<in> set l \<Longrightarrow> colour (fold unmark (e_states (w_efa w2)) w2) x = k"
proof -
  let ?w = "fold unmark (e_states (w_efa w2)) w2"
  note un = unmark_all [of w2 "e_states (w_efa w2)"]
  show sh3: "same_shape w ?w" using un same_shape_trans [OF sh] by blast
  have co: "colour ?w s = (if s \<in> set l then k else colour w s)" for s using un col by simp
  have efa: "w_efa w2 = w_efa w" using sh by (simp add: same_shape_def)
  have "marked ?w = {}" using un ma le by (auto simp: efa)
  moreover have "x \<in> P \<and> 0 \<le> colour ?w x \<and> colour ?w x < c' \<and> (\<forall>y\<in>succs ?w x. colour ?w y = colour ?w x)"
    if u: "colour ?w x \<noteq> UNDEFINED" and xl: "x < length (w_states ?w)" for x
  proof (cases "x \<in> set l")
    case True
    then show ?thesis using lP cl k by (auto simp: co same_shape_succs [OF sh3])
  next
    case False
    then have "colour w x \<noteq> UNDEFINED" "x < length (w_states w)"
      using u xl sh3 by (simp_all add: co same_shape_def)
    then have "x \<in> P \<and> 0 \<le> colour w x \<and> colour w x < c \<and> (\<forall>y\<in>succs w x. colour w y = colour w x)"
      and "colour w x \<noteq> UNDEFINED" using inv by (auto simp: colours_ok_def)
    then show ?thesis using False k old by (auto simp: co same_shape_succs [OF sh3])
  qed
  ultimately show "colours_ok P ?w c'" using inv k by (auto simp: colours_ok_def)
  show "colour w x \<noteq> UNDEFINED \<Longrightarrow> colour ?w x = colour w x" using old by (auto simp: co)
  show "x \<in> set l \<Longrightarrow> colour ?w x = k" by (simp add: co)
qed

lemma color_EFA_ok:
  assumes cp: "closed_program w" and inv: "colours_ok P w c" and P: "\<forall>x\<in>P. succs w x \<subseteq> P"
    and d: "t_dst (w_trans w ! t) \<in> set (e_states (w_efa w))"
    and dP: "s_state_id (w_states w ! t_dst (w_trans w ! t)) \<noteq> ini \<Longrightarrow> t_dst (w_trans w ! t) \<in> P"
  shows "case color_EFA ini t (w, c) of
      Inl e \<Rightarrow> e = SysExit
    | Inr (w', c') \<Rightarrow> same_shape w w' \<and> colours_ok P w' c' \<and> c \<le> c' \<and> c' \<le> c + 1 \<and>
        (\<forall>x. colour w x \<noteq> UNDEFINED \<longrightarrow> colour w' x = colour w x) \<and>
        (s_state_id (w_states w ! t_dst (w_trans w ! t)) \<noteq> ini \<longrightarrow> c \<noteq> UNDEFINED \<longrightarrow>
           colour w' (t_dst (w_trans w ! t)) \<noteq> UNDEFINED)"
proof -
  let ?d = "t_dst (w_trans w ! t)"
  have dl: "?d < length (w_states w)" using cp d by (auto simp: closed_program_def)
  have m: "marked w = {}" using inv by (simp add: colours_ok_def)
  then have nm: "\<not> s_marked (w_states w ! ?d)" using dl by (auto simp: marked_def)
  show ?thesis
  proof (cases "s_state_id (w_states w ! ?d) = ini")
    case True
    then show ?thesis
      using inv unmark_all [of w "e_states (w_efa w)"] same_shape_succs [of w "fold unmark (e_states (w_efa w)) w"]
      by (simp add: color_EFA_def colours_ok_def same_shape_def)
  next
    case False
    have tr: "case traverse_EFA_states (Suc (length (w_states w))) ?d (upd_state ?d (\<lambda>s. s\<lparr>s_marked := True\<rparr>) w, [?d]) of
        Inl e \<Rightarrow> e = SysExit
      | Inr (w1, l) \<Rightarrow> same_but_marks w w1 \<and> marked w1 = set l \<and> set l \<subseteq> set (e_states (w_efa w)) \<and> ?d \<in> set l \<and>
        (\<forall>x\<in>set l. succs w x \<subseteq> set l) \<and> (\<forall>P. ?d \<in> P \<longrightarrow> (\<forall>x\<in>P. succs w x \<subseteq> P) \<longrightarrow> set l \<subseteq> P)"
      by (rule traverse_start [OF cp d m]) simp
    show ?thesis
    proof (cases "traverse_EFA_states (Suc (length (w_states w))) ?d (upd_state ?d (\<lambda>s. s\<lparr>s_marked := True\<rparr>) w, [?d])")
      case (Inl e)
      then show ?thesis using tr False nm by (simp add: color_EFA_def Let_def)
    next
      case (Inr x)
      obtain w1 l where x: "x = (w1, l)" by (cases x)
      have l: "same_but_marks w w1" "marked w1 = set l" "set l \<subseteq> set (e_states (w_efa w))" "?d \<in> set l"
        "\<forall>x\<in>set l. succs w x \<subseteq> set l" "set l \<subseteq> P"
        using tr Inr x dP [OF False] P by auto
      note sm = same_marks_fields [OF l(1)] and sh = same_shape_marks [OF l(1)]
      have col1: "colour w1 = colour w" by (rule ext) (simp add: colour_def sm)
      have lr: "set l \<subseteq> {..<length (w_states w1)}" using l(3) cp by (auto simp: closed_program_def sm)
      have e: "color_EFA ini t (w, c) =
          rmap (\<lambda>(w, c). (fold unmark (e_states (w_efa w)) w, c))
            (case states_color_check w1 l of
               Some k \<Rightarrow> rmap (\<lambda>w2. (w2, c)) (color_remaining_states k l w1)
             | None \<Rightarrow> rmap (\<lambda>w2. (w2, c + 1)) (color_states c l w1))"
        using False nm Inr x by (simp add: color_EFA_def Let_def cong: option.case_cong)
      have c0: "0 \<le> c" using inv by (simp add: colours_ok_def)
      show ?thesis
      proof (cases "states_color_check w1 l")
        case None
        show ?thesis
        proof (cases "color_states c l w1")
          case (Inl e')
          have "e' = SysExit"
            by (rule foldr_res_Inl [OF Inl [unfolded color_states_def]]) (simp split: if_splits)
          then show ?thesis using e None Inl by simp
        next
          case (Inr w2)
          note c2 = color_states_all [OF Inr lr, unfolded col1 l(2)]
          have old: "\<forall>s\<in>set l. colour w s = UNDEFINED \<or> colour w s = c" using c2 by simp
          have r: "color_EFA ini t (w, c) = Inr (fold unmark (e_states (w_efa w2)) w2, c + 1)"
            using e None Inr by simp
          note ok = coloured_ok [OF cp inv same_shape_trans [OF sh conjunct1 [OF c2]] _ l(3,5,6) _ old c0, of "c + 1"]
          have sm: "marked w2 = set l" "\<forall>s. colour w2 s = (if s \<in> set l then c else colour w s)"
            using c2 by blast+
          show ?thesis unfolding r sum.case prod.case
            using ok(1) [OF sm] ok(2) [OF sm] ok(3) [OF sm] ok(4) [OF sm _ _ l(4)] by simp
        qed
      next
        case (Some k)
        show ?thesis
        proof (cases "color_remaining_states k l w1")
          case (Inl e')
          have "e' = SysExit"
            by (rule foldr_res_Inl [OF Inl [unfolded color_remaining_states_def]]) (simp split: if_splits)
          then show ?thesis using e Some Inl by simp
        next
          case (Inr w2)
          note c2 = color_remaining_all [OF Inr lr, unfolded col1 l(2)]
          have old: "\<forall>s\<in>set l. colour w s = UNDEFINED \<or> colour w s = k" using c2 by simp
          have r: "color_EFA ini t (w, c) = Inr (fold unmark (e_states (w_efa w2)) w2, c)"
            using e Some Inr by simp
          obtain s where s: "s \<in> set l" "colour w s = k" "k \<noteq> UNDEFINED" using check_Some [OF Some] col1 by auto
          then have k: "0 \<le> k" "k < c" using inv lr sm(3) by (auto simp: colours_ok_def)
          note ok = coloured_ok [OF cp inv same_shape_trans [OF sh conjunct1 [OF c2]] _ l(3,5,6) _ old k order_refl]
          have sm: "marked w2 = set l" "\<forall>s. colour w2 s = (if s \<in> set l then k else colour w s)"
            using c2 by blast+
          show ?thesis unfolding r sum.case prod.case
            using ok(1) [OF sm] ok(2) [OF sm] ok(3) [OF sm] ok(4) [OF sm l(4)] s(3) by simp
        qed
      qed
    qed
  qed
qed

section \<open>All transitions of the initial state\<close>

lemma color_EFA_list:
  assumes "closed_program w" and "colours_ok P w c" and "\<forall>x\<in>P. succs w x \<subseteq> P"
    and "\<forall>t\<in>set ts. t_dst (w_trans w ! t) \<in> set (e_states (w_efa w))"
    and "\<forall>t\<in>set ts. s_state_id (w_states w ! t_dst (w_trans w ! t)) \<noteq> ini \<longrightarrow> t_dst (w_trans w ! t) \<in> P"
  shows "case foldr_res (color_EFA ini) ts (w, c) of
      Inl e \<Rightarrow> e = SysExit
    | Inr (w', c') \<Rightarrow> same_shape w w' \<and> colours_ok P w' c' \<and> c' \<le> c + int (length ts) \<and>
        (\<forall>x. colour w x \<noteq> UNDEFINED \<longrightarrow> colour w' x = colour w x) \<and>
        (c + int (length ts) \<le> UNDEFINED \<longrightarrow>
          (\<forall>t\<in>set ts. s_state_id (w_states w ! t_dst (w_trans w ! t)) \<noteq> ini \<longrightarrow>
             colour w' (t_dst (w_trans w ! t)) \<noteq> UNDEFINED))"
  using assms
proof (induction ts arbitrary: w c)
  case Nil
  then show ?case by simp
next
  case (Cons t ts)
  have one: "case color_EFA ini t (w, c) of
      Inl e \<Rightarrow> e = SysExit
    | Inr (w', c') \<Rightarrow> same_shape w w' \<and> colours_ok P w' c' \<and> c \<le> c' \<and> c' \<le> c + 1 \<and>
        (\<forall>x. colour w x \<noteq> UNDEFINED \<longrightarrow> colour w' x = colour w x) \<and>
        (s_state_id (w_states w ! t_dst (w_trans w ! t)) \<noteq> ini \<longrightarrow> c \<noteq> UNDEFINED \<longrightarrow>
           colour w' (t_dst (w_trans w ! t)) \<noteq> UNDEFINED)"
    by (rule color_EFA_ok [OF Cons.prems(1-3)]) (use Cons.prems(4,5) in auto)
  show ?case
  proof (cases "color_EFA ini t (w, c)")
    case (Inl e)
    then show ?thesis using one by simp
  next
    case (Inr x)
    obtain w1 c1 where x: "x = (w1, c1)" by (cases x)
    have s1: "same_shape w w1" "colours_ok P w1 c1" "c \<le> c1" "c1 \<le> c + 1"
      "\<And>x. colour w x \<noteq> UNDEFINED \<Longrightarrow> colour w1 x = colour w x"
      "s_state_id (w_states w ! t_dst (w_trans w ! t)) \<noteq> ini \<Longrightarrow> c \<noteq> UNDEFINED \<Longrightarrow>
           colour w1 (t_dst (w_trans w ! t)) \<noteq> UNDEFINED"
      using one Inr x by auto
    have sh: "w_trans w1 = w_trans w" "w_efa w1 = w_efa w" "\<And>s. s_state_id (w_states w1 ! s) = s_state_id (w_states w ! s)"
      using s1(1) by (simp_all add: same_shape_def)
    have "closed_program w1" using Cons.prems(1) closed_shape [OF s1(1)] by simp
    moreover have "\<forall>x\<in>P. succs w1 x \<subseteq> P" using Cons.prems(3) same_shape_succs [OF s1(1)] by simp
    ultimately have IH: "case foldr_res (color_EFA ini) ts (w1, c1) of
        Inl e \<Rightarrow> e = SysExit
      | Inr (w', c') \<Rightarrow> same_shape w1 w' \<and> colours_ok P w' c' \<and> c' \<le> c1 + int (length ts) \<and>
          (\<forall>x. colour w1 x \<noteq> UNDEFINED \<longrightarrow> colour w' x = colour w1 x) \<and>
          (c1 + int (length ts) \<le> UNDEFINED \<longrightarrow>
            (\<forall>t\<in>set ts. s_state_id (w_states w1 ! t_dst (w_trans w1 ! t)) \<noteq> ini \<longrightarrow>
               colour w' (t_dst (w_trans w1 ! t)) \<noteq> UNDEFINED))"
      using Cons.IH [of w1 c1] s1(2) Cons.prems(4,5) by (simp add: sh)
    have e: "foldr_res (color_EFA ini) (t # ts) (w, c) = foldr_res (color_EFA ini) ts (w1, c1)"
      using Inr x by simp
    show ?thesis unfolding e
    proof (rule ended_mono [OF IH])
      fix w' c'
      assume "same_shape w1 w' \<and> colours_ok P w' c' \<and> c' \<le> c1 + int (length ts) \<and>
          (\<forall>x. colour w1 x \<noteq> UNDEFINED \<longrightarrow> colour w' x = colour w1 x) \<and>
          (c1 + int (length ts) \<le> UNDEFINED \<longrightarrow>
            (\<forall>t\<in>set ts. s_state_id (w_states w1 ! t_dst (w_trans w1 ! t)) \<noteq> ini \<longrightarrow>
               colour w' (t_dst (w_trans w1 ! t)) \<noteq> UNDEFINED))"
      then have r: "same_shape w1 w'" "colours_ok P w' c'" "c' \<le> c1 + int (length ts)"
        "\<And>x. colour w1 x \<noteq> UNDEFINED \<Longrightarrow> colour w' x = colour w1 x"
        "c1 + int (length ts) \<le> UNDEFINED \<Longrightarrow>
            (\<forall>t\<in>set ts. s_state_id (w_states w ! t_dst (w_trans w ! t)) \<noteq> ini \<longrightarrow>
               colour w' (t_dst (w_trans w ! t)) \<noteq> UNDEFINED)"
        by (simp_all add: sh)
      show "same_shape w w' \<and> colours_ok P w' c' \<and> c' \<le> c + int (length (t # ts)) \<and>
        (\<forall>x. colour w x \<noteq> UNDEFINED \<longrightarrow> colour w' x = colour w x) \<and>
        (c + int (length (t # ts)) \<le> UNDEFINED \<longrightarrow>
          (\<forall>t\<in>set (t # ts). s_state_id (w_states w ! t_dst (w_trans w ! t)) \<noteq> ini \<longrightarrow>
             colour w' (t_dst (w_trans w ! t)) \<noteq> UNDEFINED))"
        using r s1(3-6) same_shape_trans [OF s1(1) r(1)] by auto
    qed
  qed
qed

text \<open>A program that the assembler starts from: nothing marked or coloured yet\<close>

definition uncoloured :: "world \<Rightarrow> bool" where
  "uncoloured w = list_all (\<lambda>s. \<not> s_marked s \<and> s_EFA_id s = UNDEFINED) (w_states w)"

lemma init_state_mem: "init_state w = Inr s \<Longrightarrow> s \<in> set (e_states (w_efa w))"
  by (auto simp: init_state_def Let_def rbind_Inr_iff split: if_splits)

text \<open>
  The result of the colouring: no transition leaves the EFA of its state, and whatever \<open>P\<close> the
  transitions of the initial state lead into and no transition leads out of, only states of \<open>P\<close> have
  a colour.
\<close>

lemma color_EFAs_ok:
  assumes cp: "closed_program w" and un: "uncoloured w" and ini: "init_state w = Inr s" "init_id w = Inr i"
    and P: "\<forall>x\<in>P. succs w x \<subseteq> P" "\<forall>d\<in>succs w s. s_state_id (w_states w ! d) \<noteq> i \<longrightarrow> d \<in> P"
  shows "case color_EFAs w of
      Inl e \<Rightarrow> e = SysExit
    | Inr (w', n) \<Rightarrow> same_shape w w' \<and> colours_ok P w' n \<and> n \<le> int (length (s_trans (w_states w ! s))) \<and>
        (int (length (s_trans (w_states w ! s))) \<le> UNDEFINED \<longrightarrow>
          (\<forall>d\<in>succs w s. s_state_id (w_states w ! d) \<noteq> i \<longrightarrow> colour w' d \<noteq> UNDEFINED))"
proof -
  have u: "colour w x = UNDEFINED" "\<not> s_marked (w_states w ! x)" if "x < length (w_states w)" for x
    using un that by (auto simp: uncoloured_def list_all_length colour_def)
  have inv: "colours_ok P w 0" using u by (auto simp: colours_ok_def marked_def)
  have s: "s \<in> set (e_states (w_efa w))" by (rule init_state_mem [OF ini(1)])
  have e: "color_EFAs w = foldr_res (color_EFA i) (s_trans (w_states w ! s)) (w, 0)"
    by (simp add: color_EFAs_def ini)
  have 1: "\<forall>t\<in>set (s_trans (w_states w ! s)). t_dst (w_trans w ! t) \<in> set (e_states (w_efa w))"
    using cp s by (auto simp: closed_program_def succs_def)
  have 2: "\<forall>t\<in>set (s_trans (w_states w ! s)). s_state_id (w_states w ! t_dst (w_trans w ! t)) \<noteq> i \<longrightarrow>
      t_dst (w_trans w ! t) \<in> P"
    using P(2) by (auto simp: succs_def)
  show ?thesis unfolding e
    by (rule ended_mono [OF color_EFA_list [OF cp inv P(1) 1 2]]) (auto simp: succs_def)
qed

text \<open>A machine with an initial state 0 that enters the cycle of the states 1 and 2\<close>

definition cycle_machine :: world where
  "cycle_machine = new_world\<lparr>
     w_states := map (\<lambda>(i, ts). \<lparr>s_EFA_id = UNDEFINED, s_state_id = i, s_trans = ts, s_label_dict = [],
       s_name_dict = [], s_marked = False\<rparr>) [(0, [0]), (1, [1]), (2, [2])],
     w_trans := [Transition 0 1 (LInt 0) ''basic'' None 10000, Transition 1 2 (LInt 0) ''basic'' None 10001,
       Transition 2 1 (LInt 0) ''basic'' None 10002],
     w_efa := new_EFA\<lparr>e_states := [0, 1, 2], e_init_state_id := [0]\<rparr>\<rparr>"

lemma cycle_machine_ok: "closed_program cycle_machine" "uncoloured cycle_machine"
proof -
  have s: "succs cycle_machine 0 = {1}" "succs cycle_machine (Suc 0) = {2}" "succs cycle_machine 2 = {1}"
    by (simp_all add: succs_def cycle_machine_def new_world_def Transition_def)
  have e: "e_states (w_efa cycle_machine) = [0, 1, 2]" "length (w_states cycle_machine) = 3"
    by (simp_all add: cycle_machine_def new_world_def new_EFA_def)
  show "closed_program cycle_machine"
    using s by (auto simp: closed_program_def refs_ok_def e less_Suc_eq numeral_eq_Suc)
  show "uncoloured cycle_machine"
    by (simp add: uncoloured_def cycle_machine_def new_world_def new_EFA_def)
qed

lemma cycle_machine_colours: "rmap (\<lambda>(w, n). (map s_EFA_id (w_states w), n)) (color_EFAs cycle_machine) = Inr ([UNDEFINED, 0, 0], 1)"
  by code_simp

section \<open>Properties\<close>

text \<open>C11: after the colouring every coloured state has the number of one of the EFAs, and no transition leads from it out of its EFA.\<close>

theorem efas_are_closed:
  assumes "color_EFAs w = Inr (w', n)" and "closed_program w" "uncoloured w"
    and "x < length (w_states w)" "colour w' x \<noteq> UNDEFINED"
  shows "0 \<le> colour w' x \<and> colour w' x < n \<and> (\<forall>y\<in>succs w x. colour w' y = colour w' x)"
proof -
  obtain s i where "init_state w = Inr s" "init_id w = Inr i"
    using assms(1) by (auto simp: color_EFAs_def rbind_Inr_iff)
  from color_EFAs_ok [OF assms(2,3) this, of UNIV] assms(1)
  have "same_shape w w'" "colours_ok UNIV w' n" by simp_all
  then show ?thesis using assms(4,5) same_shape_succs [of w w'] by (auto simp: colours_ok_def same_shape_def)
qed

theorem efas_are_closed_witness:
  "\<exists>w' n. color_EFAs cycle_machine = Inr (w', n) \<and> 0 \<le> colour w' 1 \<and> colour w' 1 < n \<and> colour w' 2 = colour w' 1"
proof -
  obtain w' n where c: "color_EFAs cycle_machine = Inr (w', n)" "map s_EFA_id (w_states w') = [UNDEFINED, 0, 0]"
    using cycle_machine_colours by (auto simp: rmap_Inr_iff)
  then have "colour w' 1 \<noteq> UNDEFINED"
    by (auto simp: map_eq_Cons_conv colour_def UNDEFINED_def)
  moreover have "succs cycle_machine 1 = {2}" "1 < length (w_states cycle_machine)"
    by (simp_all add: succs_def cycle_machine_def new_world_def Transition_def)
  ultimately show ?thesis using efas_are_closed [OF c(1) cycle_machine_ok, of 1] c(1) by auto
qed

text \<open>C19: the colouring ends within its fuel, with a result or with \<open>sys.exit\<close>; in a result every state that a transition of the initial state leads to, other than the initial state, belongs to an EFA, and there are at most as many EFAs as such transitions.\<close>

theorem colouring_ends:
  assumes "closed_program w" "uncoloured w" and "init_state w = Inr s" "init_id w = Inr i"
    and "int (length (s_trans (w_states w ! s))) \<le> UNDEFINED"
  shows "case color_EFAs w of
      Inl e \<Rightarrow> e = SysExit
    | Inr (w', n) \<Rightarrow> n \<le> int (length (s_trans (w_states w ! s))) \<and>
        (\<forall>d\<in>succs w s. s_state_id (w_states w ! d) \<noteq> i \<longrightarrow> colour w' d \<noteq> UNDEFINED)"
  by (rule ended_mono [OF color_EFAs_ok [OF assms(1-4), of UNIV]]) (use assms(5) in auto)

theorem colouring_ends_witness:
  "\<exists>w' n. color_EFAs cycle_machine = Inr (w', n) \<and> n \<le> 1 \<and> colour w' 1 \<noteq> UNDEFINED"
proof -
  have "init_state cycle_machine = Inr 0" "init_id cycle_machine = Inr 0"
    "length (s_trans (w_states cycle_machine ! 0)) = 1" "succs cycle_machine 0 = {1}"
    "s_state_id (w_states cycle_machine ! 1) = 1"
    by (simp_all add: init_state_def init_id_def succs_def cycle_machine_def new_world_def new_EFA_def Transition_def)
  with colouring_ends [OF cycle_machine_ok, of 0 0] cycle_machine_colours show ?thesis
    by (auto simp: rmap_Inr_iff UNDEFINED_def)
qed

end
