(* ===== verification/Asm_Slots.thy ===== *)
theory Asm_Slots imports Asm_Place begin

text \<open>
  What the placing of \<open>Asm_Place\<close> does to the memory of an EFA: every operation keeps its 4096
  slots, the search for free slots ends and takes the first place that fits, and the offset of a
  majority or default transition is the smallest one that is free.
\<close>

section \<open>The size of a memory\<close>

definition sized :: "mem_manager \<Rightarrow> bool" where
  "sized m = (mem_ok m \<and> word_count m = 4096)"

named_theorems sized_rules \<open>operations that keep the size of the memory\<close>

lemma sized_new: "sized (MemoryManager (2 ^ 12))"
  by (simp add: sized_def) (simp add: MemoryManager_def)

lemma sized_set_block [sized_rules]: "set_block_bitmap a m = Inr m' \<Longrightarrow> sized m \<Longrightarrow> sized m'"
  using mem_ok_set_block [of m a m'] by (auto simp: sized_def set_block_bitmap_def Let_def split: if_splits)

lemma sized_set_range [sized_rules]:
  assumes "set_block_range a n m = Inr m'" and "sized m"
  shows "sized m'"
  using assms unfolding set_block_range_def by (rule foldr_res_invariant) (rule sized_rules)

lemma sized_set_memory [sized_rules]: "set_memory a v m = Inr m' \<Longrightarrow> sized m \<Longrightarrow> sized m'"
  using mem_ok_set_memory [of m a v m'] by (auto simp: sized_def set_memory_def Let_def split: if_splits)

lemma sized_set_bitmap [sized_rules]: "set_memory_bitmap a b m = Inr (m', ok) \<Longrightarrow> sized m \<Longrightarrow> sized m'"
  using mem_ok_set_bitmap [of m a b m' ok]
  by (auto simp: sized_def set_memory_bitmap_def rbind_Inr_iff split: if_splits)

lemma sized_reset [sized_rules]: "sized m \<Longrightarrow> sized (reset_block_bitmap m)"
  using mem_ok_reset [of m] by (simp add: sized_def) (simp add: reset_block_bitmap_def)

lemma sized_shift [sized_rules]: "shift_block_bitmap d a b m = Inr m' \<Longrightarrow> sized m \<Longrightarrow> sized m'"
  using mem_ok_shift [of m d a b m']
  by (auto simp: sized_def shift_block_bitmap_def rmap_Inr_iff split: if_splits)

lemma sized_find_free [sized_rules]:
  "find_free n a l m = Inr (a', l', m') \<Longrightarrow> sized m \<Longrightarrow> sized m'"
  by (induction n arbitrary: a l m) (auto simp: rbind_Inr_iff split: if_splits dest: sized_shift)

lemma sized_allocate [sized_rules]:
  "allocate_free a l m = Inr (a', l', m') \<Longrightarrow> sized m \<Longrightarrow> sized m'"
  by (auto simp: allocate_free_def rbind_Inr_iff split: if_splits intro: sized_rules dest!: sized_find_free sized_set_bitmap)

lemma sized_mark_labels [sized_rules]:
  assumes "mark_labels w s a n (b, m) = Inr (b', m')" and "sized m"
  shows "sized m'"
proof -
  have "sized (snd (b', m'))"
    using assms(1) [unfolded mark_labels_def]
    by (rule foldr_res_invariant [where P = "\<lambda>x. sized (snd x)"])
      (use assms(2) in \<open>auto simp: rbind_Inr_iff split: if_splits dest: sized_set_block\<close>)
  then show ?thesis by simp
qed

lemma sized_mark_slots:
  assumes "foldr_res (\<lambda>i (b, m). rbind (set_block_bitmap (c + int i) m) (\<lambda>m1.
      rbind (with_bit (c + int i) b) (\<lambda>b1. Inr (b1, m1)))) is (b, m) = Inr (b', m')" and "sized m"
  shows "sized m'"
proof -
  have "sized (snd (b', m'))"
    using assms(1)
    by (rule foldr_res_invariant [where P = "\<lambda>x. sized (snd x)"])
      (use assms(2) in \<open>auto simp: rbind_Inr_iff dest: sized_set_block\<close>)
  then show ?thesis by simp
qed

lemma sized_mark_actions [sized_rules]:
  assumes "mark_actions w ins s a (x, l, b, m) = Inr (x', l', b', m')" and "sized m"
  shows "sized m'"
proof -
  have "sized (snd (snd (snd (x', l', b', m'))))"
    using assms(1) [unfolded mark_actions_def]
    by (rule foldr_res_invariant [where P = "\<lambda>x. sized (snd (snd (snd x)))"])
      (use assms(2) in \<open>auto simp: rbind_Inr_iff split: if_splits dest: sized_mark_slots\<close>)
  then show ?thesis by simp
qed

lemma sized_place_majdef [sized_rules]:
  "place_majdef ins s ty a (w, l, b, m) = Inr (w', l', m') \<Longrightarrow> sized m \<Longrightarrow> sized m'"
  by (auto simp: place_majdef_def rbind_Inr_iff Let_def split: if_splits dest: sized_set_range)

lemma sized_mark_state [sized_rules]:
  "mark_state ins a s (w, m) = Inr (w', l', m') \<Longrightarrow> sized m \<Longrightarrow> sized m'"
proof -
  assume m: "sized m" and r: "mark_state ins a s (w, m) = Inr (w', l', m')"
  have "mark_labelled ins a s ty (w, m) = Inr (w', l', m') \<Longrightarrow> sized m'" for ty
    using m by (auto simp: mark_labelled_def rbind_Inr_iff split: if_splits
        dest!: sized_mark_labels sized_mark_actions sized_place_majdef)
  moreover have "mark_single a s (w, m) = Inr (w', l', m') \<Longrightarrow> sized m'"
    using m by (auto simp: mark_single_def rbind_Inr_iff rmap_Inr_iff Let_def split: if_splits list.splits
        dest!: sized_set_block sized_set_range)
  ultimately show "sized m'" using r
    by (auto simp: mark_state_def rbind_Inr_iff split: if_splits option.splits)
qed

lemma sized_set_state [sized_rules]:
  "set_state_bitmap ins a s (w, m) = Inr (x, w', m') \<Longrightarrow> sized m \<Longrightarrow> sized m'"
  by (auto simp: set_state_bitmap_def rbind_Inr_iff rmap_Inr_iff split: if_splits
      dest!: sized_mark_state sized_allocate)

lemma sized_assign_states [sized_rules]:
  assumes "assign_efa_state_addr ins a ss (sy, w, m) = Inr (sy', w', m')" and "sized m"
  shows "sized m'"
proof -
  have "sized (snd (snd (sy', w', m')))"
    using assms(1) [unfolded assign_efa_state_addr_def]
    by (rule foldr_res_invariant [where P = "\<lambda>x. sized (snd (snd x))"])
      (use assms(2) in \<open>auto simp: rmap_Inr_iff dest: sized_set_state\<close>)
  then show ?thesis by simp
qed

lemma sized_place_block:
  "place_block e l (sy, a, m) = Inr (sy', a', m') \<Longrightarrow> sized m \<Longrightarrow> sized m'"
  by (auto simp: place_block_def rbind_Inr_iff dest: sized_set_range)

lemma sized_place_blocks:
  assumes "foldr_res (place_block e) ls (sy, a, m) = Inr (sy', a', m')" and "sized m"
  shows "sized m'"
proof -
  have "sized (snd (snd (sy', a', m')))"
    using assms(1)
    by (rule foldr_res_invariant [where P = "\<lambda>x. sized (snd (snd x))"])
      (use assms(2) in \<open>auto dest: sized_place_block\<close>)
  then show ?thesis by simp
qed

lemma sized_assign_shared [sized_rules]:
  assumes "assign_sharedblock_addr e base k sy m = Inr (sy', a, m')" and "sized m"
  shows "sized m'"
  using assms(1) unfolding assign_sharedblock_addr_def Let_def
  by (auto simp: rbind_Inr_iff split: if_splits option.splits
      dest!: sized_set_range [OF _ assms(2)] dest: sized_set_range sized_place_blocks sized_set_bitmap
      intro!: sized_reset)

lemma sized_write_words:
  "mm.write_words a ws m = Inr m' \<Longrightarrow> sized m \<Longrightarrow> sized m'"
  by (induction ws arbitrary: a m) (auto simp: rbind_Inr_iff dest: sized_set_memory)

section \<open>The search for free slots\<close>

lemma drop_bit_4: "drop_bit 2 (a + 4) = drop_bit 2 a + (1 :: int)"
  by (simp add: drop_bit_eq_div)

lemma drop_bit_4k: "drop_bit 2 (a + 4 * int k) = drop_bit 2 a + int k"
  by (simp add: drop_bit_eq_div)

lemma addr12_Suc: "addr12 a < 4095 \<Longrightarrow> addr12 (a + 1) = Suc (addr12 a)"
proof -
  assume a: "addr12 a < 4095"
  have l: "a mod 4096 < 4095" using a by (simp add: addr12_mod)
  have "(a + 1) mod 4096 = (a mod 4096 + 1) mod 4096" by (simp add: mod_simps)
  also have "\<dots> = a mod 4096 + 1" using l by (intro mod_pos_pos_trivial) simp_all
  finally show ?thesis by (simp add: addr12_mod nat_add_distrib)
qed

lemma addr12_wrap: "addr12 a = 4095 \<Longrightarrow> addr12 (a + 1) = 0"
proof -
  assume a: "addr12 a = 4095"
  have "a mod 4096 = 4095" using a by (simp add: addr12_mod)
  then have "(a + 1) mod 4096 = (4095 + 1) mod 4096" by (metis mod_add_left_eq)
  then show ?thesis by (simp add: addr12_mod)
qed

lemma last_slot_test: "(a AND 0xFFF = 2 ^ 12 - 1) \<longleftrightarrow> addr12 a = 4095"
proof -
  have "0 \<le> a AND 0xFFF" by simp
  then show ?thesis by (auto simp: addr12_def)
qed

text \<open>In a memory of 4096 slots the two operations of the search never fail.\<close>

lemma no_overlap_total:
  "\<forall>i\<in>set is. i < length mem \<and> i < length blk \<Longrightarrow>
   no_overlap mem blk is = Inr (\<forall>i\<in>set is. \<not> (mem ! i \<and> blk ! i))"
  by (induction mem blk "is" rule: no_overlap.induct) auto

lemma valid_total:
  assumes "sized m"
  shows "is_allocation_valid s e m = Inr (taken m \<inter> wanted m \<inter> {addr12 s..<addr12 e} = {})"
proof -
  have l: "length (mem_bitmap m) = 4096" "length (block_bitmap m) = 4096"
    using assms by (simp_all add: sized_def mem_ok_def)
  have b: "\<forall>i\<in>set [addr12 s..<addr12 e]. i < length (mem_bitmap m) \<and> i < length (block_bitmap m)"
    using addr12_less [of e] l by auto
  show ?thesis
    unfolding is_allocation_valid_def no_overlap_total [OF b] using b
    by (simp add: taken_def wanted_def l disjoint_iff) (metis atLeastLessThan_iff)
qed

lemma copy_shifted_total:
  "\<forall>i\<in>set is. i < length old \<and> i + d < length new \<Longrightarrow> \<exists>new'. copy_shifted d old is new = Inr new'"
  by (induction d old "is" new rule: copy_shifted.induct) auto

lemma shift_total:
  assumes "sized m"
  shows "\<exists>m'. shift_block_bitmap 1 s e m = Inr m'"
proof -
  have "\<forall>i\<in>set [addr12 s..<nat (int (addr12 e) - 1)].
      i < length (block_bitmap m) \<and> i + nat 1 < length (replicate (word_count m) False)"
    using addr12_less [of e] assms by (auto simp: sized_def mem_ok_def)
  from copy_shifted_total [OF this] show ?thesis
    using assms by (auto simp: shift_block_bitmap_def sized_def)
qed

lemma find_free_step:
  assumes "sized m"
  obtains m1 where "shift_block_bitmap 1 (drop_bit 2 a) (drop_bit 2 l + 1) m = Inr m1"
    and "find_free (Suc n) a l m =
      (if taken m \<inter> wanted m \<inter> {addr12 (drop_bit 2 a)..<addr12 (drop_bit 2 l)} = {} then Inr (a, l, m)
       else if addr12 (drop_bit 2 l + 1) = 4095 then Inl SysExit
       else find_free n (a + 4) (l + 4) m1)"
proof -
  obtain m1 where "shift_block_bitmap 1 (drop_bit 2 a) (drop_bit 2 l + 1) m = Inr m1"
    using shift_total [OF assms] by blast
  then show thesis using that valid_total [OF assms] last_slot_test
    by (simp add: drop_bit_4)
qed

declare find_free.simps(2) [simp del]

text \<open>The search ends: it returns or reports that the memory is full, within one round.\<close>

lemma find_free_ends:
  assumes "sized m" and "(if addr12 (drop_bit 2 l) = 4095 then 4096 else 4095 - addr12 (drop_bit 2 l)) \<le> n"
    and "0 < n"
  shows "find_free n a l m = Inl e \<Longrightarrow> e = SysExit"
  using assms
proof (induction n arbitrary: a l m)
  case (Suc n)
  obtain m1 where m1: "shift_block_bitmap 1 (drop_bit 2 a) (drop_bit 2 l + 1) m = Inr m1"
    and step: "find_free (Suc n) a l m =
      (if taken m \<inter> wanted m \<inter> {addr12 (drop_bit 2 a)..<addr12 (drop_bit 2 l)} = {} then Inr (a, l, m)
       else if addr12 (drop_bit 2 l + 1) = 4095 then Inl SysExit
       else find_free n (a + 4) (l + 4) m1)"
    using find_free_step [OF Suc.prems(2)] by blast
  let ?u = "addr12 (drop_bit 2 l)"
  show ?case
  proof (cases "e = SysExit")
    case False
    then have rec: "find_free n (a + 4) (l + 4) m1 = Inl e" and full: "addr12 (drop_bit 2 l + 1) \<noteq> 4095"
      using Suc.prems(1) step by (auto split: if_splits)
    have u: "?u < 4096" by (rule addr12_less)
    have "(if addr12 (drop_bit 2 (l + 4)) = 4095 then 4096 else 4095 - addr12 (drop_bit 2 (l + 4))) \<le> n \<and> 0 < n"
    proof (cases "?u = 4095")
      case True
      then show ?thesis using addr12_wrap [OF True] Suc.prems(3) by (simp add: drop_bit_4)
    next
      case False
      then have "addr12 (drop_bit 2 l + 1) = Suc ?u" using addr12_Suc u by simp
      then show ?thesis using Suc.prems(3) False full u by (simp add: drop_bit_4) linarith
    qed
    with Suc.IH [OF rec] sized_shift [OF m1 Suc.prems(2)] show ?thesis by blast
  qed simp
qed simp

lemma find_free_memory: "find_free n a l m = Inr (a', l', m') \<Longrightarrow> memory m' = memory m"
  by (induction n arbitrary: a l m)
    (auto simp: find_free.simps(2) rbind_Inr_iff shift_block_bitmap_def rmap_Inr_iff split: if_splits)

lemma shifted_once:
  assumes "shift_block_bitmap 1 (drop_bit 2 a) (drop_bit 2 l + 1) m = Inr m1" and "sized m"
    and "wanted m \<subseteq> {addr12 (drop_bit 2 a)..<addr12 (drop_bit 2 l)}" and "Suc (addr12 (drop_bit 2 l)) < 4095"
  shows "wanted m1 = Suc ` wanted m" and "taken m1 = taken m"
proof -
  have wc: "word_count m = 4096" "mem_ok m" using assms(2) by (simp_all add: sized_def)
  show "taken m1 = taken m" using shift_block_bitmap_wanted(2) [OF assms(1) wc(2)] .
  have e: "addr12 (drop_bit 2 l + 1) = Suc (addr12 (drop_bit 2 l))" using addr12_Suc assms(4) by simp
  have "j \<in> wanted m1 \<longleftrightarrow> j \<in> Suc ` wanted m" for j
    unfolding shift_block_bitmap_wanted(1) [OF assms(1) wc(2)] e using assms(3,4) wc(1)
    by (cases j) auto
  then show "wanted m1 = Suc ` wanted m" by blast
qed

text \<open>
  First fit: the block moves up by the smallest number of slots at which none of its slots is taken.
\<close>

lemma find_free_first:
  assumes "find_free n a l m = Inr (a', l', m')" and "sized m"
    and "wanted m \<subseteq> {addr12 (drop_bit 2 a)..<addr12 (drop_bit 2 l)}"
    and "addr12 (drop_bit 2 l) < 4095" "addr12 (drop_bit 2 a) \<le> addr12 (drop_bit 2 l)"
  shows "\<exists>k. a' = a + 4 * int k \<and> l' = l + 4 * int k \<and> addr12 (drop_bit 2 l) + k < 4095 \<and>
    wanted m' = (+) k ` wanted m \<and> taken m' = taken m \<and> taken m \<inter> wanted m' = {} \<and>
    (\<forall>j<k. taken m \<inter> (+) j ` wanted m \<noteq> {})"
  using assms
proof (induction n arbitrary: a l m)
  case (Suc n)
  obtain m1 where m1: "shift_block_bitmap 1 (drop_bit 2 a) (drop_bit 2 l + 1) m = Inr m1"
    and step: "find_free (Suc n) a l m =
      (if taken m \<inter> wanted m \<inter> {addr12 (drop_bit 2 a)..<addr12 (drop_bit 2 l)} = {} then Inr (a, l, m)
       else if addr12 (drop_bit 2 l + 1) = 4095 then Inl SysExit
       else find_free n (a + 4) (l + 4) m1)"
    using find_free_step [OF Suc.prems(2)] by blast
  let ?s = "addr12 (drop_bit 2 a)" and ?e = "addr12 (drop_bit 2 l)"
  have in_range: "taken m \<inter> wanted m \<inter> {?s..<?e} = taken m \<inter> wanted m" using Suc.prems(3) by blast
  show ?case
  proof (cases "taken m \<inter> wanted m = {}")
    case True
    then show ?thesis using Suc.prems(1,4) step in_range by (intro exI [of _ 0]) auto
  next
    case False
    then have rec: "find_free n (a + 4) (l + 4) m1 = Inr (a', l', m')" and "addr12 (drop_bit 2 l + 1) \<noteq> 4095"
      using Suc.prems(1) step in_range by (auto split: if_splits)
    moreover have e1: "addr12 (drop_bit 2 (l + 4)) = Suc ?e" using addr12_Suc [OF Suc.prems(4)] by (simp add: drop_bit_4)
    ultimately have e2: "Suc ?e < 4095" using Suc.prems(4) by (simp add: drop_bit_4)
    have s1: "addr12 (drop_bit 2 (a + 4)) = Suc ?s" using addr12_Suc Suc.prems(4,5) by (simp add: drop_bit_4)
    note sh = shifted_once [OF m1 Suc.prems(2,3) e2]
    have w: "wanted m1 = Suc ` wanted m" and tk: "taken m1 = taken m" using sh by simp_all
    have "\<exists>k. a' = a + 4 + 4 * int k \<and> l' = l + 4 + 4 * int k \<and> Suc ?e + k < 4095 \<and>
      wanted m' = (+) k ` wanted m1 \<and> taken m' = taken m1 \<and> taken m1 \<inter> wanted m' = {} \<and>
      (\<forall>j<k. taken m1 \<inter> (+) j ` wanted m1 \<noteq> {})"
      using Suc.IH [OF rec sized_shift [OF m1 Suc.prems(2)]] Suc.prems(3,5) e2 unfolding e1 s1 w by fastforce
    then obtain k where k: "a' = a + 4 + 4 * int k" "l' = l + 4 + 4 * int k" "Suc ?e + k < 4095"
      "wanted m' = (+) k ` wanted m1" "taken m' = taken m1" "taken m1 \<inter> wanted m' = {}"
      "\<forall>j<k. taken m1 \<inter> (+) j ` wanted m1 \<noteq> {}" by blast
    have img: "(+) j ` Suc ` wanted m = (+) (Suc j) ` wanted m" for j by (simp add: image_image)
    have "\<forall>j<Suc k. taken m \<inter> (+) j ` wanted m \<noteq> {}"
      using k(7) False unfolding w tk img by (simp add: All_less_Suc2)
    then show ?thesis using k unfolding w tk img by (intro exI [of _ "Suc k"]) simp
  qed
qed simp

text \<open>The search gives up only when the block fits nowhere.\<close>

lemma find_free_none:
  assumes "find_free n a l m = Inl SysExit" and "sized m"
    and "wanted m \<subseteq> {addr12 (drop_bit 2 a)..<addr12 (drop_bit 2 l)}"
    and "addr12 (drop_bit 2 l) < 4095" "addr12 (drop_bit 2 a) \<le> addr12 (drop_bit 2 l)"
    and "addr12 (drop_bit 2 l) + k < 4095"
  shows "taken m \<inter> (+) k ` wanted m \<noteq> {}"
  using assms
proof (induction n arbitrary: a l m k)
  case (Suc n)
  obtain m1 where m1: "shift_block_bitmap 1 (drop_bit 2 a) (drop_bit 2 l + 1) m = Inr m1"
    and step: "find_free (Suc n) a l m =
      (if taken m \<inter> wanted m \<inter> {addr12 (drop_bit 2 a)..<addr12 (drop_bit 2 l)} = {} then Inr (a, l, m)
       else if addr12 (drop_bit 2 l + 1) = 4095 then Inl SysExit
       else find_free n (a + 4) (l + 4) m1)"
    using find_free_step [OF Suc.prems(2)] by blast
  let ?s = "addr12 (drop_bit 2 a)" and ?e = "addr12 (drop_bit 2 l)"
  have in_range: "taken m \<inter> wanted m \<inter> {?s..<?e} = taken m \<inter> wanted m" using Suc.prems(3) by blast
  then have now: "taken m \<inter> wanted m \<noteq> {}" using Suc.prems(1) step by (auto split: if_splits)
  have e1: "addr12 (drop_bit 2 l + 1) = Suc ?e" using addr12_Suc [OF Suc.prems(4)] .
  show ?case
  proof (cases k)
    case 0
    then show ?thesis using now by simp
  next
    case (Suc j)
    then have e2: "Suc ?e < 4095" using Suc.prems(6) by simp
    then have rec: "find_free n (a + 4) (l + 4) m1 = Inl SysExit"
      using Suc.prems(1) step in_range now e1 by (auto split: if_splits)
    have s1: "addr12 (drop_bit 2 (a + 4)) = Suc ?s" using addr12_Suc Suc.prems(4,5) by (simp add: drop_bit_4)
    note sh = shifted_once [OF m1 Suc.prems(2,3) e2]
    have "taken m1 \<inter> (+) j ` wanted m1 \<noteq> {}"
    proof (rule Suc.IH [OF rec sized_shift [OF m1 Suc.prems(2)]])
      show "wanted m1 \<subseteq> {addr12 (drop_bit 2 (a + 4))..<addr12 (drop_bit 2 (l + 4))}"
        using Suc.prems(3) unfolding s1 sh unfolding drop_bit_4 e1 by fastforce
    qed (use s1 e1 e2 Suc Suc.prems(5,6) in \<open>simp_all add: drop_bit_4\<close>)
    then show ?thesis unfolding sh Suc by (simp add: image_image)
  qed
qed simp

text \<open>Slots that are free can be taken.\<close>

lemma take_slots_total:
  "\<forall>i\<in>set is. i < length blk \<and> i < length mem \<Longrightarrow> \<exists>mem'. take_slots blk is mem = Inr mem'"
  by (induction blk "is" mem rule: take_slots.induct) auto

lemma set_bitmap_total:
  assumes "sized m" and "taken m \<inter> wanted m \<inter> {addr12 s..<addr12 e} = {}"
  shows "\<exists>m'. set_memory_bitmap s e m = Inr (m', True)"
proof -
  have "\<forall>i\<in>set [addr12 s..<addr12 e]. i < length (block_bitmap m) \<and> i < length (mem_bitmap m)"
    using addr12_less [of e] assms(1) by (auto simp: sized_def mem_ok_def)
  from take_slots_total [OF this] show ?thesis
    using assms(2) valid_total [OF assms(1)] by (auto simp: set_memory_bitmap_def)
qed

lemma allocate_free_first:
  assumes "allocate_free a l m = Inr (a', l', m')" and "sized m"
    and "wanted m \<subseteq> {addr12 (drop_bit 2 a)..<addr12 (drop_bit 2 l)}"
    and "addr12 (drop_bit 2 l) < 4095" "addr12 (drop_bit 2 a) \<le> addr12 (drop_bit 2 l)"
  shows "\<exists>k. a' = a + 4 * int k \<and> l' = l + 4 * int k \<and>
    taken m' = taken m \<union> (+) k ` wanted m \<and> taken m \<inter> (+) k ` wanted m = {} \<and> wanted m' = {} \<and>
    memory m' = memory m \<and> (\<forall>j<k. taken m \<inter> (+) j ` wanted m \<noteq> {})"
proof -
  obtain m1 m2 where f: "find_free 4097 a l m = Inr (a', l', m1)"
    and s: "set_memory_bitmap (drop_bit 2 a') (drop_bit 2 l') m1 = Inr (m2, True)"
    and m': "m' = reset_block_bitmap m2"
    using assms(1) by (auto simp: allocate_free_def rbind_Inr_iff split: if_splits)
  from find_free_first [OF f assms(2-5)] obtain k where k: "a' = a + 4 * int k" "l' = l + 4 * int k"
    "addr12 (drop_bit 2 l) + k < 4095" "wanted m1 = (+) k ` wanted m" "taken m1 = taken m"
    "taken m \<inter> wanted m1 = {}" "\<forall>j<k. taken m \<inter> (+) j ` wanted m \<noteq> {}" by blast
  have ok: "mem_ok m1" using sized_find_free [OF f assms(2)] by (simp add: sized_def)
  have add: "addr12 (x + int j) = addr12 x + j" if "addr12 x + j < 4096" for x j
    using that
  proof (induction j)
    case (Suc j)
    then show ?case using addr12_Suc [of "x + int j"] by (simp add: algebra_simps)
  qed simp
  have "wanted m1 \<subseteq> {addr12 (drop_bit 2 a')..<addr12 (drop_bit 2 l')}"
    using assms(3,5) k(3) add [of "drop_bit 2 l" k] add [of "drop_bit 2 a" k]
    unfolding k(1,2,4) drop_bit_4k by auto
  then have w: "wanted m1 \<inter> {addr12 (drop_bit 2 a')..<addr12 (drop_bit 2 l')} = (+) k ` wanted m"
    using k(4) by blast
  note take = set_memory_bitmap_takes [OF s ok, unfolded w k(5)]
  have "taken m' = taken m2" "wanted m' = {}" "memory m' = memory m2"
    by (simp_all add: m' reset_block_bitmap_def taken_def wanted_def)
  then show ?thesis
    using k(1,2,7) take find_free_memory [OF f] by (intro exI [of _ k]) simp
qed

section \<open>The offset of the majority transition\<close>

lemma shifted_free:
  "push_bit k (mask (Suc n)) AND b = 0 \<longleftrightarrow> (\<forall>i\<le>n. \<not> bit (b :: int) (k + i))"
proof
  assume z: "push_bit k (mask (Suc n)) AND b = 0"
  show "\<forall>i\<le>n. \<not> bit b (k + i)"
  proof (intro allI impI)
    fix i assume "i \<le> n"
    then have "bit (push_bit k (mask (Suc n)) :: int) (k + i)" by (simp add: bit_push_bit_iff bit_mask_iff)
    moreover have "\<not> bit (push_bit k (mask (Suc n)) AND b) (k + i)" using z by simp
    ultimately show "\<not> bit b (k + i)" by (simp add: bit_and_iff)
  qed
next
  assume f: "\<forall>i\<le>n. \<not> bit b (k + i)"
  show "push_bit k (mask (Suc n)) AND b = 0"
  proof (rule bit_eqI)
    fix j
    have "k \<le> j \<Longrightarrow> j - k < Suc n \<Longrightarrow> \<not> bit b j" using f by (metis le_add_diff_inverse less_Suc_eq_le)
    then show "bit (push_bit k (mask (Suc n)) AND b) j = bit 0 j"
      by (auto simp: bit_and_iff bit_push_bit_iff bit_mask_iff)
  qed
qed

lemma majdef_offset_from_least:
  assumes "push_bit (k + j) m AND b = (0 :: int)" and "j \<le> f"
  shows "\<exists>r\<ge>k. majdef_offset_from f (int k) (push_bit k m) b = int r \<and> push_bit r m AND b = 0 \<and>
    (\<forall>i. k \<le> i \<longrightarrow> i < r \<longrightarrow> push_bit i m AND b \<noteq> 0)"
  using assms
proof (induction f arbitrary: k j)
  case (Suc f)
  show ?case
  proof (cases "push_bit k m AND b = 0")
    case True
    then show ?thesis by (intro exI [of _ k]) simp
  next
    case False
    then have "j \<noteq> 0" using Suc.prems(1) by (metis add.right_neutral)
    then obtain i where j: "j = Suc i" by (cases j) auto
    have e: "majdef_offset_from (Suc f) (int k) (push_bit k m) b
        = majdef_offset_from f (int (Suc k)) (push_bit (Suc k) m) b"
      using False by (simp add: push_bit_push_bit add.commute)
    have "push_bit (Suc k + i) m AND b = 0" "i \<le> f" using Suc.prems j by simp_all
    from Suc.IH [OF this] obtain r where r: "Suc k \<le> r"
      "majdef_offset_from f (int (Suc k)) (push_bit (Suc k) m) b = int r" "push_bit r m AND b = 0"
      "\<forall>i. Suc k \<le> i \<longrightarrow> i < r \<longrightarrow> push_bit i m AND b \<noteq> 0" by blast
    have "\<forall>i. k \<le> i \<longrightarrow> i < r \<longrightarrow> push_bit i m AND b \<noteq> 0"
      using r(4) False by (metis Suc_leI le_neq_implies_less)
    then show ?thesis unfolding e using r(1-3) by (intro exI [of _ r]) simp
  qed
qed auto

lemma bit_above: "0 \<le> b \<Longrightarrow> nat b \<le> n \<Longrightarrow> \<not> bit (b :: int) n"
proof -
  assume "0 \<le> b" "nat b \<le> n"
  then have "nat b < 2 ^ n" using less_exp [of n] by linarith
  then have "b < 2 ^ n" using \<open>0 \<le> b\<close> by (simp add: nat_less_iff)
  then show "\<not> bit b n" using \<open>0 \<le> b\<close> by (simp add: bit_iff_odd)
qed

lemma majdef_offset_first:
  assumes "0 \<le> b"
  shows "\<exists>r. majdef_offset n b = int r \<and> (\<forall>i\<le>n. \<not> bit b (r + i)) \<and>
    (\<forall>j<r. \<exists>i\<le>n. bit b (j + i))"
proof -
  have "push_bit (0 + nat b) (mask (Suc n)) AND b = 0"
    unfolding shifted_free using bit_above [OF assms] by simp
  from majdef_offset_from_least [OF this order_refl] show ?thesis
    unfolding shifted_free by (auto simp: majdef_offset_def shifted_free)
qed

lemma new_manager: "taken (MemoryManager n) = {}" "wanted (MemoryManager n) = {}"
  by (auto simp: MemoryManager_def taken_def wanted_def)

lemma ex_allocate: "\<exists>m'. allocate_free 0 8 (MemoryManager (2 ^ 12)) = Inr (0, 8, m')"
proof -
  let ?m = "MemoryManager (2 ^ 12)"
  have "find_free (Suc 4096) 0 8 ?m = Inr (0, 8, ?m)"
    by (rule find_free_step [OF sized_new, of 0 8 4096]) (simp only: new_manager Int_empty_left if_True simp_thms)
  then have f: "find_free 4097 0 8 ?m = Inr (0, 8, ?m)" by (simp only: eval_nat_numeral)
  obtain m' where "set_memory_bitmap (drop_bit 2 0) (drop_bit 2 8) ?m = Inr (m', True)"
    using set_bitmap_total [OF sized_new] new_manager by blast
  then show ?thesis unfolding allocate_free_def f by simp
qed



text \<open>the search for free slots never runs out of its 4097 steps: from every address it returns a place or reports by \<open>sys.exit\<close> that the memory is full.\<close>

theorem search_ends:
  assumes "sized m"
  shows "(\<exists>a' l' m'. find_free 4097 a l m = Inr (a', l', m')) \<or> find_free 4097 a l m = Inl SysExit"
proof (cases "find_free 4097 a l m")
  case (Inl e)
  have "e = SysExit" by (rule find_free_ends [OF assms _ _ Inl]) auto
  then show ?thesis using Inl by simp
qed auto

theorem search_ends_witness:
  "(\<exists>a' l' m'. find_free 4097 0 16380 (MemoryManager (2 ^ 12)) = Inr (a', l', m')) \<or>
   find_free 4097 0 16380 (MemoryManager (2 ^ 12)) = Inl SysExit"
  by (rule search_ends [OF sized_new])

text \<open>the offset given to a majority or default transition with \<open>n\<close> actions is the smallest at which the bitmap of the state has room for the transition and its actions.\<close>

theorem majdef_offset_smallest:
  assumes "0 \<le> b"
  shows "\<exists>r. majdef_offset n b = int r \<and> (\<forall>i\<le>n. \<not> bit b (r + i)) \<and> (\<forall>j<r. \<exists>i\<le>n. bit b (j + i))"
  by (rule majdef_offset_first [OF assms])

theorem majdef_offset_smallest_witness: "majdef_offset 1 11 = 4"
proof -
  have b: "bit (11 :: int) n \<longleftrightarrow> n \<in> {0, 1, 3}" for n
  proof (cases "n < 4")
    case True
    then have "n = 0 \<or> n = 1 \<or> n = 2 \<or> n = 3" by auto
    then show ?thesis by (auto simp: bit_iff_odd)
  next
    case False
    then have "(16 :: int) \<le> 2 ^ n" using power_increasing [of 4 n "2 :: int"] by simp
    then have "(11 :: int) div 2 ^ n = 0" by simp
    then show ?thesis using False by (auto simp: bit_iff_odd)
  qed
  obtain r where r: "majdef_offset 1 11 = int r" "\<forall>i\<le>1. r + i \<notin> {0, 1, 3}" "\<forall>j<r. \<exists>i\<le>1. j + i \<in> {0, 1, 3}"
    using majdef_offset_smallest [of 11 1] unfolding b by auto
  have "r = 4" using r(2) [rule_format, of 0] r(2) [rule_format, of 1] r(3) [rule_format, of 4] by (cases "4 < r") auto
  then show ?thesis using r(1) by simp
qed

end
