(* ===== verification/Asm_Program.thy ===== *)
theory Asm_Program imports Asm_Event Asm_Color Asm_Slots begin

text \<open>
  \<open>assemble_program\<close> of \<open>src/updown/udbasim/assembler/UpDown_Assembler.py\<close>, one definition for each
  of its stages: rewriting of the instructions, colouring, event labels, placing of every EFA,
  encoding of every EFA and of the events.  \<open>image\<close> is the class \<open>program_memory_image\<close>.
\<close>

section \<open>The program image\<close>

record image =
  p_prog :: "(int, string list) dict"
  p_symbols :: symbols
  p_data :: "data_item list"

definition program_memory_image :: image where
  "program_memory_image = \<lparr>p_prog = [], p_symbols = [], p_data = []\<rparr>"

definition get_efa_base :: "nat \<Rightarrow> int" where
  "get_efa_base efa_counter = push_bit 14 (int efa_counter)"

definition resolve_event_label :: "transition \<Rightarrow> int \<Rightarrow> symbols \<Rightarrow> symbols res" where
  "resolve_event_label tr offset symbols =
     (if in_dict (t_label tr) symbols then Inl SysExit
      else Inr (dict_set (t_label tr) offset symbols))"

definition get_event_label :: "int \<Rightarrow> symbols \<Rightarrow> int res" where
  "get_event_label label symbols = dict_get symbols label SysExit"

section \<open>Rewriting the instructions\<close>

definition all_refs :: "world \<Rightarrow> tran_ref list" where
  "all_refs w = concat (map (\<lambda>s. s_trans (w_states w ! s)) (e_states (w_efa w)))"

text \<open>\<open>tr.actions = f(tr.actions)\<close> and \<open>efa.sharedBlock[label] = f(efa.sharedBlock[label])\<close>\<close>

type_synonym rewriter = "action list \<Rightarrow> int \<Rightarrow> (action list \<times> int) res"

definition rewrite_tran :: "rewriter \<Rightarrow> tran_ref \<Rightarrow> world \<Rightarrow> world res" where
  "rewrite_tran f t w =
     rmap (\<lambda>(as, cnt). upd_tran t (\<lambda>tr. tr\<lparr>t_actions := as\<rparr>) (w\<lparr>w_cnt := cnt\<rparr>))
       (f (t_actions (w_trans w ! t)) (w_cnt w))"

definition set_block :: "string \<Rightarrow> action list \<Rightarrow> world \<Rightarrow> world" where
  "set_block label as = upd_efa (\<lambda>e. e\<lparr>e_sharedBlock := dict_set label as (e_sharedBlock e)\<rparr>)"

definition rewrite_block :: "rewriter \<Rightarrow> string \<Rightarrow> world \<Rightarrow> world res" where
  "rewrite_block f label w =
     rbind (shared_actions (w_efa w) label) (\<lambda>as.
     rmap (\<lambda>(bs, cnt). set_block label bs (w\<lparr>w_cnt := cnt\<rparr>)) (f as (w_cnt w)))"

definition change_majdefs :: "world \<Rightarrow> world res" where
  "change_majdefs w =
     foldr_res (\<lambda>t w. if t_actions (w_trans w ! t) = [] then Inr w else change_majoritydefault t w)
       (filter (\<lambda>t. majdef_anno (t_anno_type (w_trans w ! t)) \<noteq> None) (all_refs w)) w"

definition change_pseudos :: "world \<Rightarrow> world res" where
  "change_pseudos w =
     rbind (foldr_res (rewrite_tran change_pseudo_instr)
              (filter (\<lambda>t. t_actions (w_trans w ! t) \<noteq> []) (all_refs w)) w) (\<lambda>w1.
     foldr_res (rewrite_block change_pseudo_instr) (map fst (e_sharedBlock (w_efa w1))) w1)"

section \<open>Event labels\<close>

text \<open>The transitions whose source is the initial state\<close>

definition event_refs :: "int \<Rightarrow> world \<Rightarrow> tran_ref list" where
  "event_refs ini w = filter (\<lambda>t. s_state_id (w_states w ! t_src (w_trans w ! t)) = ini) (all_refs w)"

definition resolve_event :: "world \<Rightarrow> tran_ref \<Rightarrow> symbols \<times> int \<Rightarrow> (symbols \<times> int) res" where
  "resolve_event w t sa =
     (let tr = w_trans w ! t
      in rmap (\<lambda>sy. (sy, allocate_actions_addresses (t_actions tr) (snd sa + 4) False))
           (resolve_event_label tr (snd sa) (fst sa)))"

definition resolve_events :: "int \<Rightarrow> nat \<Rightarrow> world \<Rightarrow> symbols \<Rightarrow> symbols res" where
  "resolve_events ini efa_count w symbols =
     rmap fst (foldr_res (resolve_event w) (event_refs ini w)
       (symbols, if efa_count = 0 then 0 else get_efa_base efa_count))"

definition efa_labels :: "world \<Rightarrow> nat \<Rightarrow> string list res" where
  "efa_labels w k = dict_get (e_EFA_sharedblocks (w_efa w)) (int k) (KeyError (py_str (int k)))"

definition update_labels :: "symbols \<Rightarrow> nat \<Rightarrow> world \<Rightarrow> world res" where
  "update_labels symbols efa_count w =
     (let f = (\<lambda>as. update_event_labels as symbols)
      in rbind (foldr_res (rewrite_tran f) (all_refs w) w) (\<lambda>w1.
         foldr_res (\<lambda>k w. rbind (efa_labels w k) (\<lambda>ls. foldr_res (rewrite_block f) ls w))
           [0..<efa_count] w1))"

section \<open>Placing\<close>

type_synonym efa_states = "(int, state_ref list) dict"

definition states_of_efa :: "efa_states \<Rightarrow> nat \<Rightarrow> state_ref list res" where
  "states_of_efa efa_states k = dict_get efa_states (int k) (KeyError (py_str (int k)))"

definition remove_lastacts :: "efa_states \<Rightarrow> incomings \<Rightarrow> nat \<Rightarrow> world \<Rightarrow> world res" where
  "remove_lastacts efa_states incomings efa_count w =
     rbind (seq_res (map (states_of_efa efa_states) [0..<efa_count])) (\<lambda>ss.
     foldr_res (remove_lastact incomings) (concat ss) w)"

text \<open>The tables of the placing: the state addresses, and for each EFA its shared blocks and memory\<close>

record places =
  pl_states :: "(int, int) dict"
  pl_blocks :: "(string, int) dict list"
  pl_managers :: "mem_manager list"

definition place_EFA :: "efa_states \<Rightarrow> nat \<Rightarrow> world \<times> places \<Rightarrow> (world \<times> places) res" where
  "place_EFA efa_states k wp =
     (case wp of (w, p) \<Rightarrow>
       rbind (assign_sharedblock_addr (w_efa w) (get_efa_base k) (int k) (pl_blocks p ! k)
                (pl_managers p ! k)) (\<lambda>(symbols, address, m).
       rbind (states_of_efa efa_states k) (\<lambda>ss.
       rbind (ConstructIncoming w) (\<lambda>incomings.
       rbind (assign_efa_state_addr incomings (get_efa_base k) ss (pl_states p, w, m))
         (\<lambda>(states, w1, m1).
       Inr (w1, p\<lparr>pl_states := states, pl_blocks := (pl_blocks p)[k := symbols],
                  pl_managers := (pl_managers p)[k := m1]\<rparr>))))))"

definition place_EFAs :: "efa_states \<Rightarrow> nat \<Rightarrow> world \<Rightarrow> (world \<times> places) res" where
  "place_EFAs efa_states efa_count w =
     foldr_res (place_EFA efa_states) [0..<efa_count]
       (w, \<lparr>pl_states = [], pl_blocks = replicate efa_count [],
            pl_managers = replicate efa_count (MemoryManager (2 ^ 12))\<rparr>)"

section \<open>Encoding an EFA\<close>

definition write_block ::
  "action list \<Rightarrow> int \<Rightarrow> data_item list \<times> mem_manager \<Rightarrow> (action list \<times> data_item list \<times> mem_manager) res"
where
  "write_block as address dm =
     rbind (encode_action_block as [] (fst dm)) (\<lambda>out.
     rmap (\<lambda>m. (bo_actions out, bo_data out, m))
       (mm.write_words (drop_bit 2 address) (bo_words out) (snd dm)))"

definition encode_shared ::
  "(string, int) dict \<Rightarrow> string \<Rightarrow> world \<times> data_item list \<times> mem_manager
     \<Rightarrow> (world \<times> data_item list \<times> mem_manager) res" where
  "encode_shared symbols label st =
     (case st of (w, dm) \<Rightarrow>
       rbind (shared_actions (w_efa w) label) (\<lambda>as.
       rbind (dict_get symbols label (KeyError label)) (\<lambda>address.
       rmap (\<lambda>(bs, dm1). (set_block label bs w, dm1)) (write_block as address dm))))"

definition encode_tran_actions ::
  "incomings \<Rightarrow> (int, int) dict \<Rightarrow> state_ref \<Rightarrow> tran_ref \<Rightarrow> world \<times> data_item list \<times> mem_manager
     \<Rightarrow> (world \<times> data_item list \<times> mem_manager) res" where
  "encode_tran_actions incomings allstates s t st =
     (case st of (w, dm) \<Rightarrow>
       let tr = w_trans w ! t; i = s_state_id (w_states w ! s)
       in if has_actions_mark (t_anno_type tr) then
            rbind (dict_get allstates i (KeyError (py_str i))) (\<lambda>addr.
            rbind (get_action_address w incomings s tr addr) (\<lambda>address.
            rmap (\<lambda>(bs, dm1). (upd_tran t (\<lambda>tr. tr\<lparr>t_actions := bs\<rparr>) w, dm1))
              (write_block (t_actions tr) address dm)))
          else Inr (w, dm))"

definition encode_state ::
  "incomings \<Rightarrow> (int, int) dict \<Rightarrow> state_ref \<Rightarrow> world \<times> data_item list \<times> mem_manager
     \<Rightarrow> (world \<times> data_item list \<times> mem_manager) res" where
  "encode_state incomings allstates s st =
     (case st of (w, data, m) \<Rightarrow>
       if s_trans (w_states w ! s) = [] then Inr (w, data, m)
       else
         rbind (encode_EFAstate_trs w incomings allstates s m) (\<lambda>m1.
         foldr_res (encode_tran_actions incomings allstates s) (s_trans (w_states w ! s)) (w, data, m1)))"

text \<open>The runs of taken slots become the regions of the image.\<close>

definition add_run :: "int \<Rightarrow> mem_manager \<Rightarrow> nat \<times> nat \<Rightarrow> image \<Rightarrow> image res" where
  "add_run EFA_address m run img =
     rmap (\<lambda>l. img\<lparr>p_prog := dict_set (EFA_address + push_bit 2 (int (fst run))) l (p_prog img)\<rparr>)
       (seq_res (map (\<lambda>i. get_memory (int (fst run + i)) m) [0..<snd run]))"

definition encode_EFA ::
  "efa_states \<Rightarrow> incomings \<Rightarrow> places \<Rightarrow> nat \<Rightarrow> world \<times> image \<Rightarrow> (world \<times> image) res" where
  "encode_EFA efa_states incomings p k wi =
     (case wi of (w, img) \<Rightarrow>
       rbind (efa_labels w k) (\<lambda>ls.
       rbind (foldr_res (encode_shared (pl_blocks p ! k)) ls (w, p_data img, pl_managers p ! k)) (\<lambda>st.
       rbind (states_of_efa efa_states k) (\<lambda>ss.
       rbind (foldr_res (encode_state incomings (pl_states p)) ss st) (\<lambda>(w1, data, m).
       rmap (\<lambda>img1. (w1, img1))
         (foldr_res (add_run (get_efa_base k) m) (find_consecutive_inst m) (img\<lparr>p_data := data\<rparr>)))))))"

section \<open>Encoding the events\<close>

definition encode_event_tr ::
  "(int, int) dict \<Rightarrow> tran_ref \<Rightarrow> int \<Rightarrow> world \<times> image \<Rightarrow> (world \<times> image) res" where
  "encode_event_tr allstates t address wi =
     (case wi of (w, img) \<Rightarrow>
       let tr = w_trans w ! t
       in rbind (encode_event_instr w tr allstates) (\<lambda>fs.
          rbind (encode_action_block (t_actions tr) [pack fs] (p_data img)) (\<lambda>out.
          Inr (upd_tran t (\<lambda>tr. tr\<lparr>t_actions := bo_actions out\<rparr>) w,
               img\<lparr>p_data := bo_data out, p_prog := dict_set address (bo_words out) (p_prog img)\<rparr>))))"

definition encode_event ::
  "(int, int) dict \<Rightarrow> tran_ref \<Rightarrow> world \<times> image \<Rightarrow> (world \<times> image) res" where
  "encode_event allstates t wi =
     rbind (get_event_label (t_label (w_trans (fst wi) ! t)) (p_symbols (snd wi))) (\<lambda>address.
     encode_event_tr allstates t address wi)"

section \<open>The assembler\<close>

text \<open>Everything up to the image; \<open>generate_binaryfile\<close> then writes it to a file.\<close>

definition encode_program :: "world \<Rightarrow> image \<Rightarrow> (world \<times> image) res" where
  "encode_program w0 img0 =
     rbind (change_majdefs w0) (\<lambda>w1.
     rbind (change_pseudos w1) (\<lambda>w2.
     rbind (color_EFAs w2) (\<lambda>(w3, count).
     rbind (color_sharedblocks w3) (\<lambda>w4.
     let efa_states = make_efa_states_dict w3; efa_count = nat count
     in if length (e_EFA_sharedblocks (w_efa w4)) \<noteq> efa_count then Inl SysExit
        else
          rbind (ConstructIncoming w4) (\<lambda>incomings.
          rbind (init_id w4) (\<lambda>ini.
          rbind (resolve_events ini efa_count w4 (p_symbols img0)) (\<lambda>symbols.
          rbind (update_labels symbols efa_count w4) (\<lambda>w5.
          rbind (remove_lastacts efa_states incomings efa_count w5) (\<lambda>w6.
          rbind (place_EFAs efa_states efa_count w6) (\<lambda>(w7, p).
          rbind (foldr_res (encode_EFA efa_states incomings p) [0..<efa_count]
                   (w7, img0\<lparr>p_symbols := symbols\<rparr>)) (\<lambda>(w8, img).
          foldr_res (encode_event (pl_states p)) (event_refs ini w8) (w8, img))))))))))))"

end
