(* ===== verification/Asm_Regions.thy ===== *)
theory Asm_Regions imports Asm_Program begin

text \<open>
  The regions of the image that \<open>encode_program\<close> makes do not overlap.  The source presumes it (the
  comment above the class \<open>program_memory_image\<close>); here it is shown through all the stages: the
  runs of taken slots of an EFA lie in its 16 kilobytes, and an event fits the words reserved for it
  when the labels were resolved, whatever the later stages rewrite.
\<close>

section \<open>What the later stages keep of the program\<close>

text \<open>Two worlds with the same states and transitions, apart from colours, marks, labels and actions\<close>

definition frame :: "world \<Rightarrow> world \<Rightarrow> bool" where
  "frame w w' =
     (e_states (w_efa w') = e_states (w_efa w) \<and> e_init_state_id (w_efa w') = e_init_state_id (w_efa w) \<and>
      length (w_states w') = length (w_states w) \<and>
      (\<forall>s. s_trans (w_states w' ! s) = s_trans (w_states w ! s) \<and> s_state_id (w_states w' ! s) = s_state_id (w_states w ! s)) \<and>
      (\<forall>t. t_src (w_trans w' ! t) = t_src (w_trans w ! t) \<and> t_dst (w_trans w' ! t) = t_dst (w_trans w ! t)))"

text \<open>The transitions that start at the initial state\<close>

definition is_event :: "int \<Rightarrow> world \<Rightarrow> tran_ref \<Rightarrow> bool" where
  "is_event ini w t = (s_state_id (w_states w ! t_src (w_trans w ! t)) = ini)"

text \<open>Event transitions keep their labels and get no more actions.\<close>

definition kept :: "int \<Rightarrow> world \<Rightarrow> world \<Rightarrow> bool" where
  "kept ini w w' =
     (frame w w' \<and> (\<forall>t. is_event ini w t \<longrightarrow> t_label (w_trans w' ! t) = t_label (w_trans w ! t) \<and>
        length (t_actions (w_trans w' ! t)) \<le> length (t_actions (w_trans w ! t))))"

lemma frame_refl [simp]: "frame w w"
  by (simp add: frame_def)

lemma frame_trans: "frame w w1 \<Longrightarrow> frame w1 w2 \<Longrightarrow> frame w w2"
  by (simp add: frame_def)

lemma frame_event: "frame w w' \<Longrightarrow> is_event ini w' t = is_event ini w t"
  by (simp add: frame_def is_event_def)

lemma frame_refs: "frame w w' \<Longrightarrow> all_refs w' = all_refs w"
  by (simp add: frame_def all_refs_def)

lemma frame_event_refs: "frame w w' \<Longrightarrow> event_refs ini w' = event_refs ini w"
  using frame_refs [of w w'] by (simp add: event_refs_def frame_def)

lemma event_refs_events: "event_refs ini w = filter (is_event ini w) (all_refs w)"
  by (simp add: event_refs_def is_event_def [abs_def])

lemma frame_init: "frame w w' \<Longrightarrow> init_id w' = init_id w"
  by (simp add: frame_def init_id_def)

lemma kept_refl [simp]: "kept ini w w"
  by (simp add: kept_def)

lemma kept_trans: "kept ini w w1 \<Longrightarrow> kept ini w1 w2 \<Longrightarrow> kept ini w w2"
proof -
  assume k: "kept ini w w1" "kept ini w1 w2"
  have f: "frame w w1" "frame w1 w2" using k by (simp_all add: kept_def)
  have "t_label (w_trans w2 ! t) = t_label (w_trans w ! t) \<and>
      length (t_actions (w_trans w2 ! t)) \<le> length (t_actions (w_trans w ! t))" if "is_event ini w t" for t
  proof -
    have "is_event ini w1 t" using frame_event [OF f(1)] that by simp
    then have "t_label (w_trans w2 ! t) = t_label (w_trans w1 ! t)"
      "length (t_actions (w_trans w2 ! t)) \<le> length (t_actions (w_trans w1 ! t))"
      using k(2) by (simp_all add: kept_def)
    moreover have "t_label (w_trans w1 ! t) = t_label (w_trans w ! t)"
      "length (t_actions (w_trans w1 ! t)) \<le> length (t_actions (w_trans w ! t))"
      using k(1) that by (simp_all add: kept_def)
    ultimately show ?thesis by simp
  qed
  then show "kept ini w w2" using frame_trans [OF f] by (simp add: kept_def)
qed

lemma nth_upd_tran:
  "w_trans (upd_tran d f w) ! t = (if t = d \<and> d < length (w_trans w) then f (w_trans w ! d) else w_trans w ! t)"
  by (simp add: upd_tran_def) (metis list_update_beyond not_le nth_list_update_eq nth_list_update_neq)

lemma upd_tran_simps [simp]:
  "w_states (upd_tran d f w) = w_states w" "w_efa (upd_tran d f w) = w_efa w"
  by (simp_all add: upd_tran_def)

lemma frame_upd_tran:
  "(\<And>tr. t_src (f tr) = t_src tr \<and> t_dst (f tr) = t_dst tr) \<Longrightarrow> frame w (upd_tran d f w)"
  by (simp add: frame_def nth_upd_tran)

lemma kept_upd_tran:
  assumes "\<And>tr. t_src (f tr) = t_src tr \<and> t_dst (f tr) = t_dst tr"
    and "is_event ini w d \<Longrightarrow> t_label (f (w_trans w ! d)) = t_label (w_trans w ! d) \<and>
      length (t_actions (f (w_trans w ! d))) \<le> length (t_actions (w_trans w ! d))"
  shows "kept ini w (upd_tran d f w)"
  using assms frame_upd_tran by (simp add: kept_def nth_upd_tran)

lemma kept_set_block: "kept ini w (set_block l as w)"
  by (simp add: kept_def frame_def set_block_def upd_efa_def)

lemma frame_cnt: "frame w (w\<lparr>w_cnt := c\<rparr>)"
  by (simp add: frame_def)

text \<open>A loop all of whose rounds keep the program kept it.\<close>

lemma kept_loop:
  assumes "foldr_res f xs s = Inr s'"
    and "\<And>x s s'. x \<in> set xs \<Longrightarrow> kept ini w (g s) \<Longrightarrow> f x s = Inr s' \<Longrightarrow> kept ini (g s) (g s')"
    and "kept ini w (g s)"
  shows "kept ini w (g s')"
  by (rule foldr_res_invariant [where P = "\<lambda>s. kept ini w (g s)", OF assms(1,3)]) (use assms(2) kept_trans in blast)

lemma kept_fold:
  assumes "\<And>x w. kept ini w (f x w)"
  shows "kept ini w (fold f xs w)"
proof (induction xs arbitrary: w)
  case (Cons x xs)
  show ?case using kept_trans [OF assms Cons] by simp
qed simp

section \<open>The stages\<close>

lemma kept_remove_lastact:
  assumes "remove_lastact ins s w = Inr w'"
  shows "kept ini w w'"
proof -
  have "kept ini w (fold (\<lambda>label w. case first_with_label w s (int label) of
      None \<Rightarrow> w | Some t \<Rightarrow> upd_tran t (drop_lastact n) w) ls w)" for n ls
    by (rule kept_fold) (auto split: option.splits intro!: kept_upd_tran simp: drop_lastact_def)
  then show ?thesis using assms
    by (auto simp: remove_lastact_def rbind_Inr_iff split: if_splits option.splits)
qed

text \<open>A state none of whose transitions is an event\<close>

definition inner :: "int \<Rightarrow> world \<Rightarrow> state_ref \<Rightarrow> bool" where
  "inner ini w s = (\<forall>t\<in>set (s_trans (w_states w ! s)). \<not> is_event ini w t)"

lemma inner_frame: "frame w w' \<Longrightarrow> inner ini w' s = inner ini w s"
  using frame_event [of w w'] by (simp add: inner_def frame_def)

lemma kept_ssprop: "kept ini w (set_incoming_ssprop r ts w)"
  unfolding set_incoming_ssprop_def by (rule kept_fold, rule kept_upd_tran) simp_all

lemma kept_place_majdef:
  assumes "place_majdef ins s ty a (w, l, b, m) = Inr (w', l', m')" and "inner ini w s"
  shows "kept ini w w'"
proof -
  obtain t ts where t: "get_majdef_tx w s = Inr t"
    and w': "w' = set_incoming_ssprop (majdef_offset (length (t_actions (w_trans w ! t))) b) ts
      (upd_tran t (\<lambda>tr. tr\<lparr>t_label := majdef_offset (length (t_actions (w_trans w ! t))) b\<rparr>) w)"
    using assms(1) by (auto simp: place_majdef_def rbind_Inr_iff Let_def split: if_splits)
  have "t \<in> set (s_trans (w_states w ! s))"
    using t by (auto simp: get_majdef_tx_def split: list.splits) (metis filter_is_subset list.set_intros(1) subsetD)
  then have "\<not> is_event ini w t" using assms(2) by (simp add: inner_def)
  then show ?thesis unfolding w'
    by (intro kept_trans [OF kept_upd_tran kept_ssprop]) simp_all
qed

lemma kept_mark_state:
  assumes "mark_state ins a s (w, m) = Inr (w', l', m')" and "inner ini w s"
  shows "kept ini w w'"
proof -
  have "mark_labelled ins a s ty (w, m) = Inr (w', l', m') \<Longrightarrow> kept ini w w'" for ty
    using assms(2) by (auto simp: mark_labelled_def rbind_Inr_iff split: if_splits dest: kept_place_majdef)
  moreover have "mark_single a s (w, m) = Inr (w', l', m') \<Longrightarrow> w' = w"
    by (auto simp: mark_single_def rbind_Inr_iff rmap_Inr_iff Let_def split: if_splits list.splits)
  ultimately show ?thesis using assms(1)
    by (auto simp: mark_state_def rbind_Inr_iff split: if_splits option.splits)
qed

lemma kept_set_state:
  "set_state_bitmap ins a s (w, m) = Inr (x, w', m') \<Longrightarrow> inner ini w s \<Longrightarrow> kept ini w w'"
  by (auto simp: set_state_bitmap_def rbind_Inr_iff rmap_Inr_iff split: if_splits dest: kept_mark_state)

lemma kept_assign_states:
  assumes "assign_efa_state_addr ins a ss (sy, w, m) = Inr (sy', w', m')" and "\<forall>s\<in>set ss. inner ini w s"
  shows "kept ini w w'"
proof -
  have "kept ini w (fst (snd (sy', w', m')))"
    using assms(1) unfolding assign_efa_state_addr_def
  proof (rule kept_loop)
    fix s y y' assume s: "s \<in> set ss" "kept ini w (fst (snd y))"
      "(case y of (symbols, w, m) \<Rightarrow> rmap (\<lambda>((address, last_address), w1, m1).
              (add_resolved_symbol symbols (s_state_id (w_states w1 ! s)) address, w1, m1))
         (set_state_bitmap ins a s (w, m))) = Inr y'"
    have "inner ini (fst (snd y)) s" using assms(2) s(1,2) inner_frame by (auto simp: kept_def)
    then show "kept ini (fst (snd y)) (fst (snd y'))"
      using s(3) by (auto simp: rmap_Inr_iff dest: kept_set_state split: prod.splits)
  qed simp
  then show ?thesis by simp
qed

lemma block_actions_length:
  "encode_action_block as l data = Inr out \<Longrightarrow> length (bo_actions out) = length as"
proof -
  have "foldr_res (encode_step ts) es out = Inr out' \<Longrightarrow>
      length (bo_actions out') = length (bo_actions out) + length es" for ts es out out'
  proof (induction es arbitrary: out)
    case (Cons e es)
    then obtain out1 where o: "encode_step ts e out = Inr out1" "foldr_res (encode_step ts) es out1 = Inr out'"
      by (auto simp: rbind_Inr_iff)
    obtain a' fs c where "encode_action (snd e) ts (int (fst e)) = Inr (a', fs, c)"
      using o(1) by (auto simp: encode_step_def rbind_Inr_iff)
    then have "length (bo_actions out1) = Suc (length (bo_actions out))"
      using o(1) by (cases fs; cases c) (auto simp: encode_step_def Let_def)
    then show ?case using Cons.IH [OF o(2)] by simp
  qed simp
  then show "encode_action_block as l data = Inr out \<Longrightarrow> length (bo_actions out) = length as"
    by (fastforce simp: encode_action_block_def rbind_Inr_iff)
qed

text \<open>A block has at most one word for each action.\<close>

lemma block_words_length:
  "encode_action_block as l data = Inr out \<Longrightarrow> length (bo_words out) \<le> length l + length as"
proof -
  assume "encode_action_block as l data = Inr out"
  then obtain ts where "foldr_res (encode_step ts) (enumerate 0 as) \<lparr>bo_actions = [], bo_words = l, bo_data = data\<rparr> = Inr out"
    by (auto simp: encode_action_block_def rbind_Inr_iff)
  from encode_steps_words [OF this] show ?thesis
    using concat_length_le [of "words_of ts" "enumerate 0 as", OF words_of_length] by simp
qed

lemma write_block_length:
  "write_block as a dm = Inr (bs, dm') \<Longrightarrow> length bs = length as"
  by (auto simp: write_block_def rbind_Inr_iff rmap_Inr_iff block_actions_length)

lemma write_block_sized:
  "write_block as a (d, m) = Inr (bs, d', m') \<Longrightarrow> sized m \<Longrightarrow> sized m'"
  by (auto simp: write_block_def rbind_Inr_iff rmap_Inr_iff dest: sized_write_words)

lemma kept_encode_shared:
  "encode_shared sy l (w, d, m) = Inr (w', d', m') \<Longrightarrow> kept ini w w' \<and> (sized m \<longrightarrow> sized m')"
  by (auto simp: encode_shared_def rbind_Inr_iff rmap_Inr_iff kept_set_block dest: write_block_sized)

lemma kept_encode_actions:
  "encode_tran_actions ins al s t (w, d, m) = Inr (w', d', m') \<Longrightarrow> kept ini w w' \<and> (sized m \<longrightarrow> sized m')"
  by (auto simp: encode_tran_actions_def Let_def rbind_Inr_iff rmap_Inr_iff split: if_splits
      dest: write_block_sized write_block_length intro!: kept_upd_tran)

lemma sized_write_label:
  "write_label w s ty al base sc l m = Inr m' \<Longrightarrow> sized m \<Longrightarrow> sized m'"
  by (auto simp: write_label_def rbind_Inr_iff split: list.splits if_splits dest: sized_set_memory)

lemma sized_encode_trs:
  assumes "encode_EFAstate_trs w ins al s m = Inr m'" and "sized m"
  shows "sized m'"
proof -
  obtain st where d: "dispatch_type w ins s = Inr (Some st)"
    using assms(1) by (auto simp: encode_EFAstate_trs_def rbind_Inr_iff split: option.splits)
  show ?thesis
  proof (cases "st \<in> label_types")
    case True
    have "\<exists>base sc m1. foldr_res (write_label w s st al base sc) [0..<tx_count base] m = Inr m1 \<and>
        (m' = m1 \<or> (\<exists>a v. set_memory a v m1 = Inr m'))"
      using assms(1) d True
      by (cases "st \<in> majdef_types") (auto simp: encode_EFAstate_trs_def Let_def rbind_Inr_iff; blast)+
    then obtain base sc m1 where m1: "foldr_res (write_label w s st al base sc) [0..<tx_count base] m = Inr m1"
      and m': "m' = m1 \<or> (\<exists>a v. set_memory a v m1 = Inr m')" by blast
    have "sized m1" using m1
      by (rule foldr_res_invariant [where P = sized]) (use assms(2) sized_write_label in auto)
    then show ?thesis using m' sized_set_memory by blast
  next
    case False
    then obtain tr trs where "trans_of w s = tr # trs" "trs = []"
      using assms(1) d by (auto simp: encode_EFAstate_trs_def Let_def rbind_Inr_iff split: if_splits list.splits)
    then obtain a v where "set_memory a v m = Inr m'"
      using assms(1) d False by (auto simp: encode_EFAstate_trs_def Let_def rbind_Inr_iff split: if_splits)
    then show ?thesis using assms(2) by (rule sized_set_memory)
  qed
qed

lemma kept_encode_state:
  assumes "encode_state ins al s (w, d, m) = Inr (w', d', m')" and "sized m"
  shows "kept ini w w' \<and> sized m'"
proof (cases "s_trans (w_states w ! s) = []")
  case True
  then show ?thesis using assms by (simp add: encode_state_def)
next
  case False
  then obtain m1 where m1: "encode_EFAstate_trs w ins al s m = Inr m1"
    "foldr_res (encode_tran_actions ins al s) (s_trans (w_states w ! s)) (w, d, m1) = Inr (w', d', m')"
    using assms(1) by (auto simp: encode_state_def rbind_Inr_iff)
  have "kept ini w (fst (w', d', m')) \<and> sized (snd (snd (w', d', m')))"
    using m1(2)
    by (rule foldr_res_invariant [where P = "\<lambda>x. kept ini w (fst x) \<and> sized (snd (snd x))"])
      (use sized_encode_trs [OF m1(1) assms(2)] kept_encode_actions kept_trans in \<open>fastforce+\<close>)
  then show ?thesis by simp
qed

section \<open>The memories of the EFAs\<close>

text \<open>The tables of the placing: one memory of 4096 slots for each EFA\<close>

definition places_ok :: "nat \<Rightarrow> places \<Rightarrow> bool" where
  "places_ok n p = (length (pl_managers p) = n \<and> list_all sized (pl_managers p))"

lemma place_EFA_kept:
  assumes "place_EFA es k (w, p) = Inr (w', p')" and "places_ok n p" "k < n"
    and "\<And>ss s. map_of es (int k) = Some ss \<Longrightarrow> s \<in> set ss \<Longrightarrow> inner ini w s"
  shows "kept ini w w' \<and> places_ok n p'"
proof -
  obtain sy a m ss ins st m1 where
    m: "assign_sharedblock_addr (w_efa w) (get_efa_base k) (int k) (pl_blocks p ! k) (pl_managers p ! k) = Inr (sy, a, m)"
    and ss: "states_of_efa es k = Inr ss"
    and st: "assign_efa_state_addr ins (get_efa_base k) ss (pl_states p, w, m) = Inr (st, w', m1)"
    and p': "p' = p\<lparr>pl_states := st, pl_blocks := (pl_blocks p)[k := sy], pl_managers := (pl_managers p)[k := m1]\<rparr>"
    using assms(1) by (auto simp: place_EFA_def rbind_Inr_iff)
  have "sized (pl_managers p ! k)" using assms(2,3) by (simp add: places_ok_def list_all_length)
  then have "sized m1" using sized_assign_states [OF st] sized_assign_shared [OF m] by simp
  then have "places_ok n p'" using assms(2) 
    by (auto simp: p' places_ok_def list_all_length) (metis nth_list_update_eq nth_list_update_neq)
  moreover have "map_of es (int k) = Some ss" using ss by (simp add: states_of_efa_def dict_get_Inr_iff)
  then have "kept ini w w'" using kept_assign_states [OF st] assms(4) by blast
  ultimately show ?thesis by simp
qed

lemma place_EFAs_kept:
  assumes "place_EFAs es n w = Inr (w', p)"
    and "\<And>k ss s. k < n \<Longrightarrow> map_of es (int k) = Some ss \<Longrightarrow> s \<in> set ss \<Longrightarrow> inner ini w s"
  shows "kept ini w w' \<and> places_ok n p"
proof -
  let ?p = "\<lparr>pl_states = [], pl_blocks = replicate n [], pl_managers = replicate n (MemoryManager (2 ^ 12))\<rparr>"
  have p0: "places_ok n ?p" using sized_new by (simp add: places_ok_def list_all_iff)
  have "kept ini w (fst (w', p)) \<and> places_ok n (snd (w', p))"
    using assms(1) unfolding place_EFAs_def
  proof (rule foldr_res_invariant [where P = "\<lambda>x. kept ini w (fst x) \<and> places_ok n (snd x)"])
    fix k x y assume k: "k \<in> set [0..<n]" "kept ini w (fst x) \<and> places_ok n (snd x)" "place_EFA es k x = Inr y"
    obtain wx px wy py where x: "x = (wx, px)" "y = (wy, py)" by (cases x, cases y)
    have "kept ini wx wy \<and> places_ok n py"
      by (rule place_EFA_kept [of es k wx px]) (use k x assms(2) inner_frame in \<open>auto simp: kept_def\<close>)
    then show "kept ini w (fst y) \<and> places_ok n (snd y)" using k(2) kept_trans by (auto simp: x)
  qed (use p0 in simp)
  then show ?thesis by simp
qed

section \<open>Regions\<close>

text \<open>
  The regions of an image below the address \<open>hi\<close>: a region starts at its key and has four bytes for
  each word; no two of them meet.
\<close>

definition apart :: "int \<Rightarrow> (int, string list) dict \<Rightarrow> bool" where
  "apart hi d =
     ((\<forall>a l. map_of d a = Some l \<longrightarrow> a + 4 * int (length l) \<le> hi) \<and>
      (\<forall>a l b k. map_of d a = Some l \<longrightarrow> map_of d b = Some k \<longrightarrow> a < b \<longrightarrow> a + 4 * int (length l) \<le> b))"

lemma apart_empty: "apart 0 []"
  by (simp add: apart_def)

lemma apart_mono: "apart hi d \<Longrightarrow> hi \<le> hi' \<Longrightarrow> apart hi' d"
  unfolding apart_def by (meson order_trans)

lemma apart_add:
  assumes "apart hi d" and "hi \<le> a" and "a + 4 * int (length l) \<le> hi'"
  shows "apart hi' (dict_set a l d)"
proof -
  have up: "b + 4 * int (length k) \<le> a" if "map_of d b = Some k" for b k
    using assms(1,2) that unfolding apart_def by (meson order_trans)
  show ?thesis unfolding apart_def
  proof (intro conjI allI impI)
    fix b k assume "map_of (dict_set a l d) b = Some k"
    then show "b + 4 * int (length k) \<le> hi'" using up [of b k] assms(3) by (auto split: if_splits)
  next
    fix b k c m
    assume "map_of (dict_set a l d) b = Some k" "map_of (dict_set a l d) c = Some m" "b < c"
    then show "b + 4 * int (length k) \<le> c"
      using up [of b k] up [of c m] assms(1) unfolding apart_def by (auto split: if_splits)
  qed
qed

lemma apart_disjoint:
  assumes "apart hi d" "map_of d a = Some l" "map_of d b = Some k" "a \<noteq> b"
  shows "{a..<a + 4 * int (length l)} \<inter> {b..<b + 4 * int (length k)} = {}"
proof (cases "a < b")
  case True
  then have "a + 4 * int (length l) \<le> b" using assms unfolding apart_def by blast
  then show ?thesis by auto
next
  case False
  then have "b + 4 * int (length k) \<le> a" using assms unfolding apart_def by (metis linorder_cases)
  then show ?thesis by auto
qed

section \<open>The regions of an EFA\<close>

lemma add_runs_apart:
  assumes "foldr_res (add_run base m) rs img = Inr img'" and "separated lo rs"
    and "apart (base + 4 * int lo) (p_prog img)" and "\<forall>r\<in>set rs. fst r + snd r \<le> n" and "lo \<le> n"
  shows "apart (base + 4 * int n) (p_prog img') \<and> p_symbols img' = p_symbols img"
  using assms
proof (induction rs arbitrary: lo img)
  case Nil
  then show ?case using apart_mono by simp
next
  case (Cons r rs)
  obtain img1 where i: "add_run base m r img = Inr img1" "foldr_res (add_run base m) rs img1 = Inr img'"
    using Cons.prems(1) by (auto simp: rbind_Inr_iff)
  obtain l where l: "img1 = img\<lparr>p_prog := dict_set (base + push_bit 2 (int (fst r))) l (p_prog img)\<rparr>"
    "length l = snd r"
    using i(1) by (auto simp: add_run_def rmap_Inr_iff) (metis length_upt diff_zero seq_res_map_nth)
  have r: "lo \<le> fst r" "separated (fst r + snd r + 1) rs" "fst r + snd r \<le> n" using Cons.prems(2,4) by simp_all
  have ap: "apart (base + 4 * int (fst r + snd r)) (p_prog img1)"
    using apart_add [OF Cons.prems(3), of "base + push_bit 2 (int (fst r))" l] r(1)
    by (simp add: l push_bit_eq_mult algebra_simps)
  have "separated (fst r + snd r) rs" using r(2) by (cases rs) auto
  from Cons.IH [OF i(2) this ap] Cons.prems(4) r(3) show ?case by (simp add: l)
qed

lemma runs_bound:
  assumes "r \<in> set (find_consecutive_inst m)"
  shows "fst r + snd r \<le> length (mem_bitmap m)"
proof -
  have "separated lo rs \<Longrightarrow> r \<in> set rs \<Longrightarrow> 0 < snd r" for lo rs
    by (induction lo rs rule: separated.induct) auto
  then have pos: "0 < snd r" using find_consecutive_runs(2) assms by blast
  then have "fst r + snd r - 1 \<in> run_slots r" by (auto simp: run_slots_def)
  then have "fst r + snd r - 1 \<in> taken m" using find_consecutive_runs(1) [of m] assms by blast
  then show ?thesis using pos by (simp add: taken_def) linarith
qed

lemma base_Suc: "get_efa_base (Suc k) = get_efa_base k + 4 * 4096"
  by (simp add: get_efa_base_def push_bit_eq_mult algebra_simps)

lemma encode_EFA_kept:
  assumes "encode_EFA es ins p k (w, img) = Inr (w', img')" and "places_ok n p" "k < n"
    and "apart (get_efa_base k) (p_prog img)"
  shows "kept ini w w' \<and> apart (get_efa_base (Suc k)) (p_prog img') \<and> p_symbols img' = p_symbols img"
proof -
  obtain ls st ss data m where
    a: "foldr_res (encode_shared (pl_blocks p ! k)) ls (w, p_data img, pl_managers p ! k) = Inr st"
    and b: "foldr_res (encode_state ins (pl_states p)) ss st = Inr (w', data, m)"
    and c: "foldr_res (add_run (get_efa_base k) m) (find_consecutive_inst m) (img\<lparr>p_data := data\<rparr>) = Inr img'"
    using assms(1) by (auto simp: encode_EFA_def rbind_Inr_iff rmap_Inr_iff)
  have s0: "sized (pl_managers p ! k)" using assms(2,3) by (simp add: places_ok_def list_all_length)
  have st: "kept ini w (fst st) \<and> sized (snd (snd st))"
    using a by (rule foldr_res_invariant [where P = "\<lambda>x. kept ini w (fst x) \<and> sized (snd (snd x))"])
      (use s0 kept_encode_shared kept_trans in \<open>fastforce+\<close>)
  have "kept ini w (fst (w', data, m)) \<and> sized (snd (snd (w', data, m)))"
    using b by (rule foldr_res_invariant [where P = "\<lambda>x. kept ini w (fst x) \<and> sized (snd (snd x))"])
      (use st kept_encode_state kept_trans in \<open>fastforce+\<close>)
  then have w: "kept ini w w'" and m: "length (mem_bitmap m) = 4096" by (simp_all add: sized_def mem_ok_def)
  have rb: "\<forall>r\<in>set (find_consecutive_inst m). fst r + snd r \<le> 4096" using runs_bound [of _ m] unfolding m by blast
  have "apart (get_efa_base k + 4 * int 4096) (p_prog img') \<and> p_symbols img' = p_symbols (img\<lparr>p_data := data\<rparr>)"
    by (rule add_runs_apart [OF c find_consecutive_runs(2)]) (use assms(4) rb in simp_all)
  then show ?thesis using w by (simp add: base_Suc)
qed

lemma encode_EFAs_kept:
  assumes "foldr_res (encode_EFA es ins p) [k..<n] (w, img) = Inr (w', img')" and "places_ok n p" "k \<le> n"
    and "apart (get_efa_base k) (p_prog img)"
  shows "kept ini w w' \<and> apart (get_efa_base n) (p_prog img') \<and> p_symbols img' = p_symbols img"
  using assms
proof (induction "n - k" arbitrary: k w img)
  case 0
  then show ?case by simp
next
  case (Suc d)
  then have k: "[k..<n] = k # [Suc k..<n]" "k < n" by (simp_all add: upt_rec)
  obtain w1 img1 where o: "encode_EFA es ins p k (w, img) = Inr (w1, img1)"
    "foldr_res (encode_EFA es ins p) [Suc k..<n] (w1, img1) = Inr (w', img')"
    using Suc.prems(1) unfolding k(1) by (auto simp: rbind_Inr_iff)
  have "kept ini w w1 \<and> apart (get_efa_base (Suc k)) (p_prog img1) \<and> p_symbols img1 = p_symbols img"
    by (rule encode_EFA_kept [OF o(1) Suc.prems(2) k(2) Suc.prems(4)])
  moreover have "kept ini w1 w' \<and> apart (get_efa_base n) (p_prog img') \<and> p_symbols img' = p_symbols img1"
    using Suc.hyps(1) [of "Suc k"] Suc.hyps(2) o(2) Suc.prems(2) k(2) calculation by simp
  ultimately show ?case using kept_trans by auto
qed

section \<open>The regions of the events\<close>

text \<open>The address behind the words reserved for an event transition at \<open>a\<close>\<close>

definition next_event :: "world \<Rightarrow> tran_ref \<Rightarrow> int \<Rightarrow> int" where
  "next_event w t a = allocate_actions_addresses (t_actions (w_trans w ! t)) (a + 4) False"

text \<open>The labels of the event transitions are resolved to consecutive addresses.\<close>

fun assigned :: "symbols \<Rightarrow> world \<Rightarrow> tran_ref list \<Rightarrow> int \<Rightarrow> bool" where
  "assigned sy w [] a = True"
| "assigned sy w (t # ts) a =
     (map_of sy (t_label (w_trans w ! t)) = Some a \<and> assigned sy w ts (next_event w t a))"

lemma resolve_assigned:
  assumes "foldr_res (resolve_event w) ts (sy, a) = Inr (sy', a')"
  shows "assigned sy' w ts a \<and> distinct (map (\<lambda>t. t_label (w_trans w ! t)) ts) \<and>
    (\<forall>l. in_dict l sy \<longrightarrow> map_of sy' l = map_of sy l \<and> l \<notin> (\<lambda>t. t_label (w_trans w ! t)) ` set ts)"
  using assms
proof (induction ts arbitrary: sy a)
  case (Cons t ts)
  let ?l = "t_label (w_trans w ! t)"
  have n: "\<not> in_dict ?l sy" and r: "foldr_res (resolve_event w) ts (dict_set ?l a sy, next_event w t a) = Inr (sy', a')"
  proof -
    obtain x where x: "resolve_event w t (sy, a) = Inr x" "foldr_res (resolve_event w) ts x = Inr (sy', a')"
      using Cons.prems by (auto simp: rbind_Inr_iff)
    then show "\<not> in_dict ?l sy" "foldr_res (resolve_event w) ts (dict_set ?l a sy, next_event w t a) = Inr (sy', a')"
      by (auto simp: resolve_event_def [of w t] resolve_event_label_def next_event_def Let_def split: if_splits)
  qed
  show ?case using Cons.IH [OF r] n by auto
qed simp

lemma encode_events_apart:
  assumes "foldr_res (encode_event al) ts (w, img) = Inr (w', img')"
    and "assigned (p_symbols img) w0 ts a" and "apart a (p_prog img)"
    and "\<forall>t\<in>set ts. t_label (w_trans w ! t) = t_label (w_trans w0 ! t) \<and>
      length (t_actions (w_trans w ! t)) \<le> get_potential_actions_size (t_actions (w_trans w0 ! t))"
  shows "\<exists>hi. apart hi (p_prog img')"
  using assms
proof (induction ts arbitrary: w img a)
  case Nil
  then show ?case by auto
next
  case (Cons t ts)
  obtain w1 img1 where o: "encode_event al t (w, img) = Inr (w1, img1)"
    "foldr_res (encode_event al) ts (w1, img1) = Inr (w', img')"
    using Cons.prems(1) by (auto simp: rbind_Inr_iff)
  have "get_event_label (t_label (w_trans w ! t)) (p_symbols img) = Inr a"
    using Cons.prems(2,4) by (simp add: get_event_label_def dict_get_def)
  then obtain fs out where out: "encode_action_block (t_actions (w_trans w ! t)) [pack fs] (p_data img) = Inr out"
    and w1: "w1 = upd_tran t (\<lambda>tr. tr\<lparr>t_actions := bo_actions out\<rparr>) w"
    and i1: "img1 = img\<lparr>p_data := bo_data out, p_prog := dict_set a (bo_words out) (p_prog img)\<rparr>"
    using o(1) by (auto simp: encode_event_def encode_event_tr_def rbind_Inr_iff Let_def)
  have "length (bo_words out) \<le> 1 + get_potential_actions_size (t_actions (w_trans w0 ! t))"
    using block_words_length [OF out] Cons.prems(4) by simp
  then have ap: "apart (next_event w0 t a) (p_prog img1)"
    unfolding i1 by simp (rule apart_add [OF Cons.prems(3)],
      simp_all add: next_event_def allocate_actions_addresses_def)
  have same: "t_label (w_trans w1 ! u) = t_label (w_trans w ! u) \<and>
      length (t_actions (w_trans w1 ! u)) = length (t_actions (w_trans w ! u))" for u
    unfolding w1 nth_upd_tran using block_actions_length [OF out] by simp
  show ?case
    by (rule Cons.IH [OF o(2) _ ap]) (use Cons.prems(2,4) same in \<open>simp_all add: i1\<close>)
qed

section \<open>From the program to the image\<close>

lemma rewrite_tran_frame: "rewrite_tran f t w = Inr w' \<Longrightarrow> frame w w' \<and> w_states w' = w_states w"
  by (auto simp: rewrite_tran_def rmap_Inr_iff frame_def nth_upd_tran)

lemma rewrite_block_frame:
  "rewrite_block f l w = Inr w' \<Longrightarrow> frame w w' \<and> w_states w' = w_states w \<and> w_trans w' = w_trans w"
  by (auto simp: rewrite_block_def rbind_Inr_iff rmap_Inr_iff frame_def set_block_def upd_efa_def)

lemma change_majdef_frame:
  "change_majoritydefault t w = Inr w' \<Longrightarrow> frame w w' \<and> w_states w' = w_states w"
  by (auto simp: change_majoritydefault_def rbind_Inr_iff Let_def frame_def nth_upd_tran split: option.splits)

lemma framed_loop:
  assumes "foldr_res f xs w = Inr w'"
    and "\<And>x w w'. f x w = Inr w' \<Longrightarrow> frame w w' \<and> w_states w' = w_states w"
  shows "frame w w' \<and> w_states w' = w_states w"
  using assms(1)
  by (rule foldr_res_invariant [where P = "\<lambda>x. frame w x \<and> w_states x = w_states w"])
    (use assms(2) frame_trans in \<open>simp, metis\<close>)

lemma change_pseudos_frame:
  assumes "change_majdefs w = Inr w1" "change_pseudos w1 = Inr w2"
  shows "frame w w2 \<and> w_states w2 = w_states w"
proof -
  have 1: "frame w w1 \<and> w_states w1 = w_states w"
    using assms(1) unfolding change_majdefs_def
    by (rule framed_loop) (auto split: if_splits dest: change_majdef_frame)
  obtain w3 where 3: "foldr_res (rewrite_tran change_pseudo_instr)
      (filter (\<lambda>t. t_actions (w_trans w1 ! t) \<noteq> []) (all_refs w1)) w1 = Inr w3"
    and 4: "foldr_res (rewrite_block change_pseudo_instr) (map fst (e_sharedBlock (w_efa w3))) w3 = Inr w2"
    using assms(2) by (auto simp: change_pseudos_def rbind_Inr_iff)
  have "frame w1 w3 \<and> w_states w3 = w_states w1" by (rule framed_loop [OF 3 rewrite_tran_frame])
  moreover have "frame w3 w2 \<and> w_states w2 = w_states w3"
    by (rule framed_loop [OF 4]) (use rewrite_block_frame in blast)
  ultimately show ?thesis using 1 frame_trans by metis
qed

text \<open>The event labels of an action block become addresses within the words reserved for it.\<close>

lemma rewrite_trans_actions:
  assumes "foldr_res (rewrite_tran (\<lambda>as. update_event_labels as sy)) ts w = Inr w'"
    and "count_list ts t \<le> 1"
  shows "length (t_actions (w_trans w' ! t)) \<le> get_potential_actions_size (t_actions (w_trans w ! t)) \<and>
    t_label (w_trans w' ! t) = t_label (w_trans w ! t) \<and>
    (t \<notin> set ts \<longrightarrow> t_actions (w_trans w' ! t) = t_actions (w_trans w ! t))"
  using assms
proof (induction ts arbitrary: w)
  case Nil
  have "length as \<le> get_potential_actions_size as" for as
    by (induction as) (auto simp: get_potential_actions_size_def)
  then show ?case using Nil by simp
next
  case (Cons u ts)
  obtain w1 where o: "rewrite_tran (\<lambda>as. update_event_labels as sy) u w = Inr w1"
    "foldr_res (rewrite_tran (\<lambda>as. update_event_labels as sy)) ts w1 = Inr w'"
    using Cons.prems(1) by (auto simp: rbind_Inr_iff)
  obtain bs c where b: "update_event_labels (t_actions (w_trans w ! u)) sy (w_cnt w) = Inr (bs, c)"
    and w1: "w1 = upd_tran u (\<lambda>tr. tr\<lparr>t_actions := bs\<rparr>) (w\<lparr>w_cnt := c\<rparr>)"
    using o(1) by (auto simp: rewrite_tran_def rmap_Inr_iff)
  have c: "count_list ts t \<le> 1" "u = t \<Longrightarrow> t \<notin> set ts"
    using Cons.prems(2) by (auto split: if_splits simp: count_list_0_iff)
  have l: "t_label (w_trans w1 ! t) = t_label (w_trans w ! t)" by (simp add: w1 nth_upd_tran)
  note IH = Cons.IH [OF o(2) c(1)]
  show ?case
  proof (cases "u = t")
    case True
    then have "t_actions (w_trans w' ! t) = t_actions (w_trans w1 ! t)" using IH c(2) by simp
    moreover have "length (t_actions (w_trans w1 ! t)) \<le> get_potential_actions_size (t_actions (w_trans w ! t))"
    proof (cases "t < length (w_trans w)")
      case True
      then show ?thesis using update_size [OF b] \<open>u = t\<close> by (simp add: w1 nth_upd_tran)
    next
      case False
      have "length as \<le> get_potential_actions_size as" for as
        by (induction as) (auto simp: get_potential_actions_size_def)
      then show ?thesis using False \<open>u = t\<close> by (simp add: w1 nth_upd_tran)
    qed
    ultimately show ?thesis using IH l True by simp
  next
    case False
    then have "t_actions (w_trans w1 ! t) = t_actions (w_trans w ! t)" by (simp add: w1 nth_upd_tran)
    then show ?thesis using IH l False by simp
  qed
qed

lemma blocks_loop:
  assumes "foldr_res (rewrite_block f) ls w = Inr w'"
  shows "frame w w' \<and> w_trans w' = w_trans w"
  using assms
  by (rule foldr_res_invariant [where P = "\<lambda>x. frame w x \<and> w_trans x = w_trans w"])
    (use rewrite_block_frame frame_trans in \<open>simp, metis\<close>)

lemma once_in_filter: "distinct (filter P xs) \<Longrightarrow> P t \<Longrightarrow> count_list xs t \<le> 1"
proof (induction xs)
  case (Cons x xs)
  then show ?case by (auto split: if_splits simp: count_list_0_iff)
qed simp

lemma update_labels_sizes:
  assumes "update_labels sy n w = Inr w'" and "distinct (event_refs ini w)"
  shows "frame w w'"
    and "is_event ini w t \<Longrightarrow> t_label (w_trans w' ! t) = t_label (w_trans w ! t) \<and>
      length (t_actions (w_trans w' ! t)) \<le> get_potential_actions_size (t_actions (w_trans w ! t))"
proof -
  let ?f = "\<lambda>as. update_event_labels as sy"
  obtain w1 where 1: "foldr_res (rewrite_tran ?f) (all_refs w) w = Inr w1"
    and 2: "foldr_res (\<lambda>k w. rbind (efa_labels w k) (\<lambda>ls. foldr_res (rewrite_block ?f) ls w)) [0..<n] w1 = Inr w'"
    using assms(1) by (auto simp: update_labels_def rbind_Inr_iff Let_def)
  have f1: "frame w w1" using framed_loop [OF 1 rewrite_tran_frame] by simp
  have f2: "frame w1 w' \<and> w_trans w' = w_trans w1"
    using 2 by (rule foldr_res_invariant [where P = "\<lambda>x. frame w1 x \<and> w_trans x = w_trans w1"])
      (use blocks_loop frame_trans in \<open>simp, (auto simp: rbind_Inr_iff; metis)\<close>)
  show "frame w w'" using f1 f2 frame_trans by blast
  assume e: "is_event ini w t"
  have "count_list (all_refs w) t \<le> 1"
    using once_in_filter [of "is_event ini w" "all_refs w" t] e assms(2) by (simp add: event_refs_events)
  from rewrite_trans_actions [OF 1 this] f2
  show "t_label (w_trans w' ! t) = t_label (w_trans w ! t) \<and>
      length (t_actions (w_trans w' ! t)) \<le> get_potential_actions_size (t_actions (w_trans w ! t))" by simp
qed

section \<open>Programs\<close>

text \<open>
  A program as the API builds it: references in range, all states listed, nothing coloured, every
  state owns its transitions, and no transition leads back to the initial state from another one.
\<close>

definition program_ok :: "world \<Rightarrow> int \<Rightarrow> bool" where
  "program_ok w i =
     (closed_program w \<and> uncoloured w \<and> init_id w = Inr i \<and>
      (\<forall>s\<in>set (e_states (w_efa w)). int (length (s_trans (w_states w ! s))) \<le> UNDEFINED \<and>
         (\<forall>t\<in>set (s_trans (w_states w ! s)). t_src (w_trans w ! t) = s)) \<and>
      (\<forall>s<length (w_states w). s_state_id (w_states w ! s) \<noteq> i \<longrightarrow>
         (\<forall>d\<in>succs w s. s_state_id (w_states w ! d) \<noteq> i)))"

lemma program_ok_frame:
  assumes "frame w w'" "w_states w' = w_states w"
  shows "program_ok w' i = program_ok w i"
proof -
  have "succs w' = succs w" using assms by (auto simp: succs_def frame_def)
  then show ?thesis using assms frame_init [OF assms(1)]
    by (simp add: program_ok_def closed_program_def refs_ok_def uncoloured_def frame_def)
qed

lemma states_dict_colour:
  assumes "map_of (make_efa_states_dict w) c = Some ss" and "s \<in> set ss"
  shows "colour w s = c \<and> s \<in> set (e_states (w_efa w))"
proof -
  let ?P = "\<lambda>d. \<forall>c ss. map_of d c = Some ss \<longrightarrow> (\<forall>s\<in>set ss. colour w s = c \<and> s \<in> set (e_states (w_efa w)))"
  have all: "set xs \<subseteq> set (e_states (w_efa w)) \<Longrightarrow> ?P d \<Longrightarrow>
      ?P (fold (\<lambda>s. dict_append (s_EFA_id (w_states w ! s)) s) xs d)" for xs d
  proof (induction xs arbitrary: d)
    case (Cons x xs)
    have step: "?P (dict_append (s_EFA_id (w_states w ! x)) x d)"
    proof (intro allI impI ballI)
      fix c ss s assume a: "map_of (dict_append (s_EFA_id (w_states w ! x)) x d) c = Some ss" "s \<in> set ss"
      have old: "colour w s = c \<and> s \<in> set (e_states (w_efa w))" if "map_of d c = Some ts" "s \<in> set ts" for ts
        using Cons.prems(2) that by blast
      have x: "x \<in> set (e_states (w_efa w))" using Cons.prems(1) by simp
      show "colour w s = c \<and> s \<in> set (e_states (w_efa w))"
      proof (cases "c = colour w x")
        case True
        then have "ss = (case map_of d c of None \<Rightarrow> [] | Some vs \<Rightarrow> vs) @ [x]"
          using a(1) by (simp add: dict_append_def colour_def)
        then show ?thesis using a(2) old x True by (cases "map_of d c") auto
      next
        case False
        then show ?thesis using a old by (simp add: dict_append_def colour_def)
      qed
    qed
    have "set xs \<subseteq> set (e_states (w_efa w))" using Cons.prems(1) by simp
    from Cons.IH [OF this step] show ?case unfolding fold_simps(2) .
  qed (simp only: fold_simps(1))
  have "?P (make_efa_states_dict w)" unfolding make_efa_states_dict_def by (rule all) simp_all
  then show ?thesis using assms by blast
qed

text \<open>The states of an EFA are inner states.\<close>

lemma efa_states_inner:
  assumes ok: "program_ok w i" and c: "color_EFAs w = Inr (w', n)"
    and k: "k < nat n" "map_of (make_efa_states_dict w') (int k) = Some ss" "s \<in> set ss"
  shows "inner i w' s" and "same_shape w w'"
proof -
  let ?P = "{x. x < length (w_states w) \<and> s_state_id (w_states w ! x) \<noteq> i}"
  obtain s0 where s0: "init_state w = Inr s0" using c by (auto simp: color_EFAs_def rbind_Inr_iff)
  have s0l: "s0 \<in> set (e_states (w_efa w))" by (rule init_state_mem [OF s0])
  have cp: "closed_program w" "uncoloured w" "init_id w = Inr i" using ok by (simp_all add: program_ok_def)
  have P1: "\<forall>x\<in>?P. succs w x \<subseteq> ?P"
    using ok by (fastforce simp: program_ok_def closed_program_def refs_ok_def)
  have P2: "\<forall>d\<in>succs w s0. s_state_id (w_states w ! d) \<noteq> i \<longrightarrow> d \<in> ?P"
    using cp(1) s0l unfolding closed_program_def by blast
  from color_EFAs_ok [OF cp(1,2) s0 cp(3) P1 P2] c
  have sh: "same_shape w w'" and co: "colours_ok ?P w' n" and le: "n \<le> int (length (s_trans (w_states w ! s0)))"
    by simp_all
  show "same_shape w w'" by (rule sh)
  have f: "w_efa w' = w_efa w" "w_trans w' = w_trans w" "length (w_states w') = length (w_states w)"
    "\<And>s. s_trans (w_states w' ! s) = s_trans (w_states w ! s)"
    "\<And>s. s_state_id (w_states w' ! s) = s_state_id (w_states w ! s)"
    using sh by (simp_all add: same_shape_def)
  from states_dict_colour [OF k(2,3)] have col: "colour w' s = int k" and mem: "s \<in> set (e_states (w_efa w))"
    by (simp_all add: f)
  have "n \<le> UNDEFINED" using le ok s0l by (force simp: program_ok_def)
  then have "colour w' s \<noteq> UNDEFINED" using col k(1) by simp
  moreover have "s < length (w_states w')" using mem cp(1) by (simp add: closed_program_def f)
  ultimately have "s_state_id (w_states w ! s) \<noteq> i" using co by (auto simp: colours_ok_def)
  then show "inner i w' s" using ok mem by (auto simp: inner_def is_event_def f program_ok_def)
qed

lemma same_shape_frame: "same_shape w w' \<Longrightarrow> frame w w'"
  by (simp add: same_shape_def frame_def)

lemma color_shared_frame:
  assumes "color_sharedblocks w = Inr w'"
  shows "frame w w' \<and> w_trans w' = w_trans w \<and> w_states w' = w_states w"
proof -
  have act: "color_action c a e = Inr e' \<Longrightarrow> e_states e' = e_states e \<and> e_init_state_id e' = e_init_state_id e" for c a e e'
    by (auto simp: color_action_def rbind_Inr_iff rmap_Inr_iff split: if_splits)
  obtain e where e: "foldr_res (\<lambda>s. foldr_res (\<lambda>tr. foldr_res (color_action (s_EFA_id (w_states w ! s))) (t_actions tr))
              (trans_of w s)) (e_states (w_efa w)) (w_efa w) = Inr e"
    and w': "w' = w\<lparr>w_efa :=
       fold (\<lambda>(label, ss). fold (\<lambda>s e. e\<lparr>e_EFA_sharedblocks :=
                dict_append (s_EFA_id (w_states w ! s)) label (e_EFA_sharedblocks e)\<rparr>) ss)
         (e_sharedBlock_state_links e) e\<rparr>"
    using assms by (auto simp: color_sharedblocks_def rbind_Inr_iff)
  let ?Q = "\<lambda>x. e_states x = e_states (w_efa w) \<and> e_init_state_id x = e_init_state_id (w_efa w)"
  have "?Q e" using e
  proof (rule foldr_res_invariant [where P = ?Q])
    fix s x y assume "?Q x" "foldr_res (\<lambda>tr. foldr_res (color_action (s_EFA_id (w_states w ! s))) (t_actions tr)) (trans_of w s) x = Inr y"
    from this(2,1) show "?Q y"
    proof (rule foldr_res_invariant [where P = ?Q])
      fix tr x y assume "?Q x" "foldr_res (color_action (s_EFA_id (w_states w ! s))) (t_actions tr) x = Inr y"
      from this(2,1) show "?Q y" by (rule foldr_res_invariant [where P = ?Q]) (use act in simp)
    qed
  qed simp
  moreover have "?Q x \<Longrightarrow> ?Q (fold (\<lambda>s e. e\<lparr>e_EFA_sharedblocks :=
                dict_append (s_EFA_id (w_states w ! s)) label (e_EFA_sharedblocks e)\<rparr>) ss x)" for label ss x
    by (induction ss arbitrary: x) simp_all
  then have "?Q x \<Longrightarrow> ?Q (fold (\<lambda>(label, ss). fold (\<lambda>s e. e\<lparr>e_EFA_sharedblocks :=
                dict_append (s_EFA_id (w_states w ! s)) label (e_EFA_sharedblocks e)\<rparr>) ss) ls x)" for ls x
    by (induction ls arbitrary: x) auto
  ultimately show ?thesis by (simp add: w' frame_def)
qed

lemma remove_lastacts_kept:
  assumes "remove_lastacts es ins n w = Inr w'"
  shows "kept i w w'"
proof -
  obtain ss where "foldr_res (remove_lastact ins) ss w = Inr w'"
    using assms by (auto simp: remove_lastacts_def rbind_Inr_iff)
  then show ?thesis
    by (rule foldr_res_invariant [where P = "kept i w"]) (use kept_remove_lastact kept_trans in \<open>simp, blast\<close>)
qed

text \<open>The image of a program: its regions do not meet.\<close>

lemma encode_program_apart:
  assumes "encode_program w0 program_memory_image = Inr (w, img)" and "program_ok w0 i"
  shows "\<exists>hi. apart hi (p_prog img)"
proof -
  obtain i' w1 w2 w3 n w4 ins sy w5 w6 w7 p w8 img1 where
    1: "change_majdefs w0 = Inr w1" "change_pseudos w1 = Inr w2" and
    3: "color_EFAs w2 = Inr (w3, n)" and 4: "color_sharedblocks w3 = Inr w4" and
    ini: "init_id w4 = Inr i'" and
    sy: "resolve_events i' (nat n) w4 (p_symbols program_memory_image) = Inr sy" and
    5: "update_labels sy (nat n) w4 = Inr w5" and
    6: "remove_lastacts (make_efa_states_dict w3) ins (nat n) w5 = Inr w6" and
    7: "place_EFAs (make_efa_states_dict w3) (nat n) w6 = Inr (w7, p)" and
    8: "foldr_res (encode_EFA (make_efa_states_dict w3) ins p) [0..<nat n]
          (w7, program_memory_image\<lparr>p_symbols := sy\<rparr>) = Inr (w8, img1)" and
    9: "foldr_res (encode_event (pl_states p)) (event_refs i' w8) (w8, img1) = Inr (w, img)"
    using assms(1) unfolding encode_program_def
    by (auto simp: rbind_Inr_iff Let_def split: if_splits)
  have f2: "frame w0 w2 \<and> w_states w2 = w_states w0" by (rule change_pseudos_frame [OF 1])
  then have ok2: "program_ok w2 i" using assms(2) program_ok_frame by blast
  have sh: "same_shape w2 w3"
  proof -
    obtain s0 where "init_state w2 = Inr s0" using 3 by (auto simp: color_EFAs_def rbind_Inr_iff)
    then show ?thesis using color_EFAs_ok [of w2 s0 i UNIV] ok2 3 by (simp add: program_ok_def)
  qed
  have f3: "frame w2 w3" by (rule same_shape_frame [OF sh])
  note f4 = color_shared_frame [OF 4]
  have f24: "frame w2 w4" using frame_trans [OF f3] f4 by blast
  have i: "i' = i" using ini frame_init [OF f24] ok2 by (simp add: program_ok_def)
  obtain end_a where res: "foldr_res (resolve_event w4) (event_refs i w4) ([], get_efa_base (nat n)) = Inr (sy, end_a)"
    using sy by (auto simp: resolve_events_def rmap_Inr_iff i program_memory_image_def get_efa_base_def split: if_splits)
  have as: "assigned sy w4 (event_refs i w4) (get_efa_base (nat n))" "distinct (event_refs i w4)"
    using resolve_assigned [OF res] by (simp_all add: distinct_map)
  note f5 = update_labels_sizes [OF 5 as(2)]
  have k6: "kept i w5 w6" by (rule remove_lastacts_kept [OF 6])
  have inner6: "inner i w6 s" if "k < nat n" "map_of (make_efa_states_dict w3) (int k) = Some ss" "s \<in> set ss" for k ss s
  proof -
    have "frame w3 w6" using frame_trans [OF conjunct1 [OF f4] frame_trans [OF f5(1)]] k6 by (simp add: kept_def)
    then show ?thesis using efa_states_inner(1) [OF ok2 3 that] inner_frame by blast
  qed
  have k7: "kept i w6 w7 \<and> places_ok (nat n) p" by (rule place_EFAs_kept [OF 7 inner6])
  have ap0: "apart (get_efa_base 0) (p_prog (program_memory_image\<lparr>p_symbols := sy\<rparr>))"
    by (simp add: get_efa_base_def program_memory_image_def apart_empty)
  have k8: "kept i w7 w8 \<and> apart (get_efa_base (nat n)) (p_prog img1) \<and> p_symbols img1 = sy"
    using encode_EFAs_kept [OF 8 conjunct2 [OF k7] _ ap0] by simp
  have k58: "kept i w5 w8" using kept_trans [OF k6 kept_trans] k7 k8 by blast
  have f48: "frame w4 w8" using frame_trans [OF f5(1)] k58 by (simp add: kept_def)
  have sizes: "t_label (w_trans w8 ! t) = t_label (w_trans w4 ! t) \<and>
      length (t_actions (w_trans w8 ! t)) \<le> get_potential_actions_size (t_actions (w_trans w4 ! t))"
    if "t \<in> set (event_refs i w4)" for t
  proof -
    have e: "is_event i w4 t" using that by (simp add: event_refs_events)
    then have "is_event i w5 t" using frame_event [OF f5(1)] by simp
    then show ?thesis using f5(2) [OF e] k58 unfolding kept_def by (metis order_trans)
  qed
  note ev = encode_events_apart [where ?w0.0 = w4 and a = "get_efa_base (nat n)",
      OF 9 [unfolded i frame_event_refs [OF f48]]]
  have "assigned (p_symbols img1) w4 (event_refs i w4) (get_efa_base (nat n))" using as(1) k8 by simp
  moreover have "apart (get_efa_base (nat n)) (p_prog img1)" using k8 by blast
  ultimately show ?thesis using ev sizes by blast
qed

text \<open>A program with two events, whose transitions start and end at the initial state\<close>

definition event_program :: world where
  "event_program = new_world\<lparr>
     w_states := [\<lparr>s_EFA_id = UNDEFINED, s_state_id = 0, s_trans = [0, 1], s_label_dict = [],
       s_name_dict = [], s_marked = False\<rparr>],
     w_trans := [(Transition 0 0 (LInt 5) ''eventCarry'' None 10000)\<lparr>t_actions :=
         [mk_IAction ''addi'' (PStr ''X17'') (PStr ''X16'') (PStr ''5'') PNone 0]\<rparr>,
       Transition 0 0 (LInt 7) ''eventCarry'' None 10001],
     w_efa := new_EFA\<lparr>e_states := [0], e_init_state_id := [0]\<rparr>\<rparr>"

lemma event_program_image:
  "rmap (\<lambda>(w, img). p_prog img) (encode_program event_program program_memory_image) =
   Inr [(0, [''00000000000000000000000000000001'', ''00000000000001010001100000001001'']),
        (8, [''00000000000000000000000000000001''])]"
  by code_simp

lemma event_program_ok: "program_ok event_program 0"
proof -
  have s: "succs event_program 0 = {0}"
    by (simp add: succs_def event_program_def new_world_def Transition_def)
  have e: "e_states (w_efa event_program) = [0]" "length (w_states event_program) = 1"
    by (simp_all add: event_program_def new_world_def new_EFA_def)
  show ?thesis
    unfolding program_ok_def closed_program_def refs_ok_def e using s
    by (simp add: uncoloured_def init_id_def event_program_def new_world_def new_EFA_def Transition_def UNDEFINED_def)
qed

section \<open>Properties\<close>

text \<open>C1: the regions of the image that the assembler makes of a program, those of the EFAs and those of the events, do not overlap: no two regions that start at different addresses share a byte.\<close>

theorem image_regions_disjoint:
  assumes "encode_program w0 program_memory_image = Inr (w, img)" and "program_ok w0 i"
    and "map_of (p_prog img) a = Some l" "map_of (p_prog img) b = Some k" "a \<noteq> b"
  shows "{a..<a + 4 * int (length l)} \<inter> {b..<b + 4 * int (length k)} = {}"
  using encode_program_apart [OF assms(1,2)] apart_disjoint [OF _ assms(3-5)] by blast

theorem image_regions_disjoint_witness:
  "\<exists>w img l k. encode_program event_program program_memory_image = Inr (w, img) \<and>
     map_of (p_prog img) 0 = Some l \<and> map_of (p_prog img) 8 = Some k \<and>
     {0..<4 * int (length l)} \<inter> {8..<8 + 4 * int (length k)} = {}"
proof -
  obtain w img where e: "encode_program event_program program_memory_image = Inr (w, img)"
    and p: "p_prog img = [(0, [''00000000000000000000000000000001'', ''00000000000001010001100000001001'']),
        (8, [''00000000000000000000000000000001''])]"
    using event_program_image by (auto simp: rmap_Inr_iff)
  show ?thesis using image_regions_disjoint [OF e event_program_ok, of 0 _ 8] e by (simp add: p)
qed

end
