(* ===== verification/Asm_Binary.thy ===== *)
theory Asm_Binary imports Asm_Program "HOL-Library.Word" begin

text \<open>
  \<open>generate_binaryfile\<close> of \<open>src/updown/udbasim/assembler/UpDown_Assembler.py\<close>, \<open>assemble_program\<close>
  with it, a reader of the file and the proof that the file is read back.
\<close>

section \<open>Bytes\<close>

type_synonym byte = "8 word"

text \<open>\<open>v.to_bytes(n, 'little')\<close>\<close>

fun le_bytes :: "nat \<Rightarrow> int \<Rightarrow> byte list res" where
  "le_bytes 0 v = (if v = 0 then Inr [] else Inl OverflowError)"
| "le_bytes (Suc n) v = rmap ((#) (word_of_int v)) (le_bytes n (v div 256))"

definition to_bytes :: "nat \<Rightarrow> int \<Rightarrow> byte list res" where
  "to_bytes n v = (if v < 0 then Inl OverflowError else le_bytes n v)"

text \<open>\<open>value.encode('ascii')\<close>; the error is a \<open>UnicodeEncodeError\<close>, a \<open>ValueError\<close>.\<close>

definition encode_ascii :: "string \<Rightarrow> byte list res" where
  "encode_ascii s =
     (if list_all (\<lambda>c. of_char c < (128 :: nat)) s then Inr (map of_char s) else Inl ValueError)"

section \<open>The file\<close>

text \<open>\<open>sorted(myprogram.data, key=lambda x: x[1])\<close>: the identifiers are numbers.\<close>

definition data_key :: "data_item \<Rightarrow> int" where
  "data_key d = (case d of (n, PInt i, bits) \<Rightarrow> i | _ \<Rightarrow> 0)"

definition sorted_data :: "data_item list \<Rightarrow> (nat \<times> string) list" where
  "sorted_data data = map (\<lambda>(n, i, bits). (n, bits)) (sort_key data_key data)"

text \<open>The five offsets of the header\<close>

definition offset0 :: nat where
  "offset0 = 5 * 8"

definition offset1 :: "bool \<Rightarrow> symbols \<Rightarrow> nat" where
  "offset1 link_top_bin symbols = offset0 + (if link_top_bin then 4 + 4 * 2 * length symbols else 0)"

definition offset2 :: "nat \<Rightarrow> (int, string list) dict \<Rightarrow> nat" where
  "offset2 o1 prog = foldl (\<lambda>n r. n + (8 * 2 + 4 * length (snd r))) o1 prog"

definition offset3 :: "nat \<Rightarrow> (nat \<times> string) list \<Rightarrow> nat" where
  "offset3 o2 data = foldl (\<lambda>n d. n + (4 + fst d)) o2 data"

definition offset4 :: "nat \<Rightarrow> (int, string) dict \<Rightarrow> nat" where
  "offset4 o3 names = foldl (\<lambda>n e. n + (4 + 4 + length (snd e))) (o3 + 4) names"

text \<open>The pieces that are written one after the other\<close>

definition write_all :: "byte list res list \<Rightarrow> byte list res" where
  "write_all ps = rmap concat (seq_res ps)"

definition symbol_pieces :: "symbols \<Rightarrow> byte list res list" where
  "symbol_pieces symbols =
     to_bytes 4 (int (length symbols)) #
     concat (map (\<lambda>(k, v). [to_bytes 4 k, to_bytes 4 v]) symbols)"

definition region_pieces :: "(int, string list) dict \<Rightarrow> byte list res list" where
  "region_pieces prog =
     concat (map (\<lambda>(k, l). to_bytes 8 k # to_bytes 8 (int (length l)) #
       map (\<lambda>instr. rbind (py_int2 instr) (to_bytes 4)) l) prog)"

text \<open>The addresses of the strings in the file, then the strings\<close>

fun string_addresses :: "nat \<Rightarrow> (nat \<times> string) list \<Rightarrow> byte list res list" where
  "string_addresses counter [] = []"
| "string_addresses counter (d # ds) = to_bytes 4 (int counter) # string_addresses (counter + fst d) ds"

definition string_pieces :: "nat \<Rightarrow> (nat \<times> string) list \<Rightarrow> byte list res list" where
  "string_pieces o2 data =
     string_addresses (o2 + 4 * length data) data @
     map (\<lambda>(n, bits). rbind (py_int2 bits) (to_bytes n)) data"

definition name_pieces :: "symbols \<Rightarrow> (int, string) dict \<Rightarrow> byte list res list" where
  "name_pieces symbols names =
     to_bytes 4 (int (length names)) #
     concat (map (\<lambda>(key, value).
       [rbind (dict_get symbols key (KeyError (py_str key))) (to_bytes 4),
        to_bytes 4 (int (length value)), encode_ascii value]) names)"

definition generate_binaryfile :: "efa \<Rightarrow> bool \<Rightarrow> image \<Rightarrow> byte list res" where
  "generate_binaryfile efa link_top_bin img =
     (let data = sorted_data (p_data img); sy = p_symbols img;
          o1 = offset1 link_top_bin sy; o2 = offset2 o1 (p_prog img);
          o3 = offset3 o2 data; o4 = offset4 o3 (e_names efa)
      in write_all (map (\<lambda>n. to_bytes 8 (int n)) [offset0, o1, o2, o3, o4] @
           (if link_top_bin then symbol_pieces sy else []) @ region_pieces (p_prog img) @
           string_pieces o2 data @ name_pieces sy (e_names efa)))"

text \<open>The text of the symbol table: \<open>f"{value} : {hex(value)} : {strname}\n"\<close>\<close>

fun hex_nat :: "nat \<Rightarrow> string" where
  "hex_nat n = (if n < 16 then [''0123456789abcdef'' ! n]
                else hex_nat (n div 16) @ [''0123456789abcdef'' ! (n mod 16)])"

definition py_hex :: "int \<Rightarrow> string" where
  "py_hex v = (if v < 0 then ''-0x'' @ hex_nat (nat (- v)) else ''0x'' @ hex_nat (nat v))"

definition symbol_table_text :: "efa \<Rightarrow> symbols \<Rightarrow> string res" where
  "symbol_table_text efa symbols =
     rmap concat (seq_res (map (\<lambda>(key, value).
       rmap (\<lambda>strname. py_str value @ '' : '' @ py_hex value @ '' : '' @ strname @ [CHR 0x0A])
         (dict_get (e_names efa) key (KeyError (py_str key)))) symbols))"

text \<open>
  The whole assembler: the bytes of the binary file, the text of the symbol table if one is asked
  for, and the world, whose print counter is reset.
\<close>

definition assemble_program :: "world \<Rightarrow> image \<Rightarrow> bool \<Rightarrow> bool \<Rightarrow> (byte list \<times> string option \<times> world) res" where
  "assemble_program w0 img0 link_top_bin text_symbol_table =
     rbind (encode_program w0 img0) (\<lambda>(w, img).
     rbind (if text_symbol_table then rmap Some (symbol_table_text (w_efa w) (p_symbols img)) else Inr None)
       (\<lambda>text.
     rmap (\<lambda>bytes. (bytes, text, w\<lparr>w_cnt := 0\<rparr>)) (generate_binaryfile (w_efa w) link_top_bin img)))"

section \<open>Reading the file\<close>

fun from_bytes :: "byte list \<Rightarrow> int" where
  "from_bytes [] = 0"
| "from_bytes (b # bs) = uint b + 256 * from_bytes bs"

definition read_int :: "nat \<Rightarrow> byte list \<Rightarrow> int \<times> byte list" where
  "read_int n bs = (from_bytes (take n bs), drop n bs)"

fun read_list :: "(byte list \<Rightarrow> 'a \<times> byte list) \<Rightarrow> nat \<Rightarrow> byte list \<Rightarrow> 'a list \<times> byte list" where
  "read_list rd 0 bs = ([], bs)"
| "read_list rd (Suc n) bs =
     (let (x, r) = rd bs; (xs, r') = read_list rd n r in (x # xs, r'))"

definition read_symbol :: "byte list \<Rightarrow> (int \<times> int) \<times> byte list" where
  "read_symbol bs = (let (k, r) = read_int 4 bs; (v, r') = read_int 4 r in ((k, v), r'))"

definition read_region :: "byte list \<Rightarrow> (int \<times> int list) \<times> byte list" where
  "read_region bs =
     (let (a, r) = read_int 8 bs; (n, r') = read_int 8 r; (ws, r'') = read_list (read_int 4) (nat n) r'
      in ((a, ws), r''))"

text \<open>The regions fill their section; each takes at least 16 bytes.\<close>

fun read_regions :: "nat \<Rightarrow> byte list \<Rightarrow> (int \<times> int list) list" where
  "read_regions 0 bs = []"
| "read_regions (Suc f) bs =
     (if bs = [] then [] else let (x, r) = read_region bs in x # read_regions f r)"

definition header :: "byte list \<Rightarrow> nat \<Rightarrow> nat" where
  "header bs i = nat (fst (read_int 8 (drop (8 * i) bs)))"

definition read_symbols :: "byte list \<Rightarrow> (int \<times> int) list" where
  "read_symbols bs =
     (let (n, r) = read_int 4 (drop (header bs 0) bs) in fst (read_list read_symbol (nat n) r))"

definition read_program :: "byte list \<Rightarrow> (int \<times> int list) list" where
  "read_program bs =
     (let sec = take (header bs 2 - header bs 1) (drop (header bs 1) bs) in read_regions (length sec) sec)"

section \<open>Codecs\<close>

text \<open>A reader takes back what the writer wrote and leaves the rest.\<close>

locale codec =
  fixes enc :: "'a \<Rightarrow> byte list res" and dec :: "byte list \<Rightarrow> 'a \<times> byte list"
  assumes dec_enc: "enc x = Inr bs \<Longrightarrow> dec (bs @ rest) = (x, rest)"

context codec begin

lemma decs_enc:
  "seq_res (map enc xs) = Inr bss \<Longrightarrow> read_list dec (length xs) (concat bss @ rest) = (xs, rest)"
  by (induction xs arbitrary: bss) (auto simp: res_simps dec_enc)

end

lemma le_bytes_back: "le_bytes n v = Inr bs \<Longrightarrow> 0 \<le> v \<Longrightarrow> length bs = n \<and> from_bytes bs = v"
proof (induction n arbitrary: v bs)
  case 0
  then show ?case by (simp split: if_splits)
next
  case (Suc n)
  then obtain cs where cs: "le_bytes n (v div 256) = Inr cs" "bs = word_of_int v # cs"
    by (auto simp: rmap_Inr_iff)
  have "length cs = n \<and> from_bytes cs = v div 256" using Suc.IH [OF cs(1)] Suc.prems(2) by simp
  moreover have "uint (word_of_int v :: byte) = v mod 256" by (simp add: uint_word_of_int)
  ultimately show ?case by (simp add: cs(2))
qed

lemma to_bytes_back: "to_bytes n v = Inr bs \<Longrightarrow> length bs = n \<and> from_bytes bs = v \<and> 0 \<le> v"
  using le_bytes_back by (auto simp: to_bytes_def split: if_splits)

interpretation ints: codec "to_bytes n" "read_int n" for n
  by unfold_locales (auto simp: read_int_def dest: to_bytes_back)

definition write_symbol :: "int \<times> int \<Rightarrow> byte list res" where
  "write_symbol kv = write_all [to_bytes 4 (fst kv), to_bytes 4 (snd kv)]"

interpretation symbol_pairs: codec write_symbol read_symbol
  by unfold_locales
    (auto simp: write_symbol_def write_all_def read_symbol_def res_simps ints.dec_enc)

definition write_region :: "int \<times> int list \<Rightarrow> byte list res" where
  "write_region r = write_all (to_bytes 8 (fst r) # to_bytes 8 (int (length (snd r))) # map (to_bytes 4) (snd r))"

interpretation regions: codec write_region read_region
proof
  fix x :: "int \<times> int list" and bs rest
  assume "write_region x = Inr bs"
  then obtain a n bss where w: "to_bytes 8 (fst x) = Inr a" "to_bytes 8 (int (length (snd x))) = Inr n"
    "seq_res (map (to_bytes 4) (snd x)) = Inr bss" "bs = a @ n @ concat bss"
    by (auto simp: write_region_def write_all_def res_simps)
  show "read_region (bs @ rest) = (x, rest)"
    by (simp add: read_region_def w(4) ints.dec_enc [OF w(1)] ints.dec_enc [OF w(2)]
        ints.decs_enc [OF w(3)])
qed

lemma read_regions_write:
  "seq_res (map write_region rs) = Inr bss \<Longrightarrow> length (concat bss) \<le> f \<Longrightarrow> read_regions f (concat bss) = rs"
proof (induction rs arbitrary: bss f)
  case Nil
  then show ?case by (cases f) (auto simp: res_simps)
next
  case (Cons r rs)
  then obtain b cs where b: "write_region r = Inr b" "seq_res (map write_region rs) = Inr cs" "bss = b # cs"
    by (auto simp: res_simps)
  have "8 \<le> length b" using b(1) by (auto simp: write_region_def write_all_def res_simps dest: to_bytes_back)
  moreover from this have "b @ concat cs \<noteq> []" by auto
  ultimately obtain g where f: "f = Suc g" "length (concat cs) \<le> g" "b @ concat cs \<noteq> []"
    using Cons.prems(2) b(3) by (cases f) auto
  show ?case using Cons.IH [OF b(2) f(2)] f(3) regions.dec_enc [OF b(1), of "concat cs"]
    by (simp add: b(3) f(1))
qed

section \<open>The sections of the file\<close>

lemma write_all_append:
  "write_all (ps @ qs) = Inr bs \<longleftrightarrow> (\<exists>a b. write_all ps = Inr a \<and> write_all qs = Inr b \<and> bs = a @ b)"
proof (induction ps arbitrary: bs)
  case Nil
  then show ?case by (auto simp: write_all_def res_simps)
next
  case (Cons p ps)
  then show ?case by (auto simp: write_all_def res_simps) (metis append.assoc concat.simps(2) concat_append)+
qed

lemma write_all_Cons:
  "write_all (p # ps) = Inr bs \<longleftrightarrow> (\<exists>a b. p = Inr a \<and> write_all ps = Inr b \<and> bs = a @ b)"
  by (auto simp: write_all_def res_simps)


lemma foldl_plus: "foldl (\<lambda>n r. n + g r) (k :: nat) xs = k + sum_list (map g xs)"
  by (induction xs arbitrary: k) simp_all

lemma pieces_lengths:
  "write_all ps = Inr bs \<Longrightarrow> list_all2 (\<lambda>p n. \<forall>b. p = Inr b \<longrightarrow> length b = n) ps ns \<Longrightarrow> length bs = sum_list ns"
proof (induction ps arbitrary: bs ns)
  case Nil
  then show ?case by (simp add: write_all_def seq_res.simps)
next
  case (Cons p ps)
  then show ?case by (auto simp: write_all_Cons list_all2_Cons1)
qed

lemma header_read:
  "write_all (map (\<lambda>n. to_bytes 8 (int n)) os) = Inr h \<Longrightarrow> i < length os \<Longrightarrow> header (h @ rest) i = os ! i"
proof (induction os arbitrary: h i)
  case (Cons x os)
  then obtain a b where ab: "to_bytes 8 (int x) = Inr a" "write_all (map (\<lambda>n. to_bytes 8 (int n)) os) = Inr b" "h = a @ b"
    by (auto simp: write_all_Cons)
  have la: "length a = 8" using to_bytes_back [OF ab(1)] by simp
  show ?case
  proof (cases i)
    case 0
    then show ?thesis using ints.dec_enc [OF ab(1), of "b @ rest"] by (simp add: header_def ab(3))
  next
    case (Suc j)
    then show ?thesis using Cons.IH [OF ab(2), of j] Cons.prems(2) la by (simp add: header_def ab(3))
  qed
qed simp

text \<open>The words of a region: the values of its digits\<close>

definition same_region :: "int \<times> string list \<Rightarrow> int \<times> int list \<Rightarrow> bool" where
  "same_region r v = (fst v = fst r \<and> map py_int2 (snd r) = map Inr (snd v))"

lemma words_written:
  "write_all (map (\<lambda>instr. rbind (py_int2 instr) (to_bytes 4)) l) = Inr bs \<Longrightarrow>
   \<exists>ws. map py_int2 l = map Inr ws \<and> write_all (map (to_bytes 4) ws) = Inr bs"
proof (induction l arbitrary: bs)
  case (Cons x l)
  then obtain v a b where v: "py_int2 x = Inr v" "to_bytes 4 v = Inr a" "bs = a @ b"
    "write_all (map (\<lambda>instr. rbind (py_int2 instr) (to_bytes 4)) l) = Inr b"
    by (auto simp: write_all_Cons rbind_Inr_iff)
  from Cons.IH [OF v(4)] obtain ws where "map py_int2 l = map Inr ws" "write_all (map (to_bytes 4) ws) = Inr b"
    by blast
  then show ?case using v by (intro exI [of _ "v # ws"]) (auto simp: write_all_Cons)
qed (auto simp: write_all_def)

lemma region_pieces_Cons:
  "region_pieces ((k, l) # prog) =
   (to_bytes 8 k # to_bytes 8 (int (length l)) # map (\<lambda>instr. rbind (py_int2 instr) (to_bytes 4)) l) @ region_pieces prog"
  by (simp add: region_pieces_def)

lemma regions_written:
  "write_all (region_pieces prog) = Inr bs \<Longrightarrow>
   \<exists>rs bss. list_all2 same_region prog rs \<and> seq_res (map write_region rs) = Inr bss \<and> bs = concat bss \<and>
     length bs = sum_list (map (\<lambda>r. 16 + 4 * length (snd r)) prog)"
proof (induction prog arbitrary: bs)
  case Nil
  then show ?case by (auto simp: region_pieces_def write_all_def seq_res.simps)
next
  case (Cons r prog)
  obtain k l where r: "r = (k, l)" by (cases r)
  obtain a b c d where w: "to_bytes 8 k = Inr a" "to_bytes 8 (int (length l)) = Inr b"
    "write_all (map (\<lambda>instr. rbind (py_int2 instr) (to_bytes 4)) l) = Inr c"
    "write_all (region_pieces prog) = Inr d" "bs = a @ b @ c @ d"
    using Cons.prems by (auto simp: r region_pieces_Cons write_all_append write_all_Cons)
  from words_written [OF w(3)] obtain ws where ws: "map py_int2 l = map Inr ws" "write_all (map (to_bytes 4) ws) = Inr c"
    by blast
  have len: "length ws = length l" using ws(1) by (metis length_map)
  have wr: "write_region (k, ws) = Inr (a @ b @ c)"
    using w(1,2) ws(2) by (auto simp: write_region_def write_all_Cons len)
  have "length c = sum_list (replicate (length ws) 4)"
    by (rule pieces_lengths [OF ws(2)]) (auto simp: list_all2_conv_all_nth dest: to_bytes_back)
  then have lc: "length c = 4 * length l" by (simp add: sum_list_replicate len)
  from Cons.IH [OF w(4)] obtain rs bss where rs: "list_all2 same_region prog rs"
    "seq_res (map write_region rs) = Inr bss" "d = concat bss"
    "length d = sum_list (map (\<lambda>r. 16 + 4 * length (snd r)) prog)" by blast
  have "same_region (k, l) (k, ws)" using ws(1) by (simp add: same_region_def)
  then show ?case
    using rs wr lc to_bytes_back [OF w(1)] to_bytes_back [OF w(2)]
    by (intro exI [of _ "(k, ws) # rs"] exI [of _ "(a @ b @ c) # bss"]) (simp add: r w(5) seq_res.simps)
qed

lemma symbols_written:
  assumes "write_all (symbol_pieces sy) = Inr bs"
  shows "length bs = 4 + 8 * length sy" and
    "\<exists>n bss. to_bytes 4 (int (length sy)) = Inr n \<and> seq_res (map write_symbol sy) = Inr bss \<and> bs = n @ concat bss"
proof -
  have pairs: "write_all (concat (map (\<lambda>(k, v). [to_bytes 4 k, to_bytes 4 v]) sy)) = Inr c \<Longrightarrow>
      length c = 8 * length sy \<and> (\<exists>bss. seq_res (map write_symbol sy) = Inr bss \<and> c = concat bss)" for c
  proof (induction sy arbitrary: c)
    case Nil
    then show ?case by (auto simp: write_all_def seq_res.simps)
  next
    case (Cons kv sy)
    obtain k v where kv: "kv = (k, v)" by (cases kv)
    obtain a b d where w: "to_bytes 4 k = Inr a" "to_bytes 4 v = Inr b" "c = a @ b @ d"
      "write_all (concat (map (\<lambda>(k, v). [to_bytes 4 k, to_bytes 4 v]) sy)) = Inr d"
      using Cons.prems by (auto simp: kv write_all_Cons)
    have "write_symbol kv = Inr (a @ b)" using w(1,2) by (auto simp: write_symbol_def kv write_all_def seq_res.simps)
    then show ?case using Cons.IH [OF w(4)] w(3) to_bytes_back [OF w(1)] to_bytes_back [OF w(2)]
      by (auto simp: seq_res.simps)
  qed
  obtain n c where n: "to_bytes 4 (int (length sy)) = Inr n" "bs = n @ c"
    "write_all (concat (map (\<lambda>(k, v). [to_bytes 4 k, to_bytes 4 v]) sy)) = Inr c"
    using assms by (auto simp: symbol_pieces_def write_all_Cons)
  then show "length bs = 4 + 8 * length sy" using pairs [OF n(3)] to_bytes_back [OF n(1)] by simp
  show "\<exists>n bss. to_bytes 4 (int (length sy)) = Inr n \<and> seq_res (map write_symbol sy) = Inr bss \<and> bs = n @ concat bss"
    using pairs [OF n(3)] n(1,2) by blast
qed

lemma strings_length:
  assumes "write_all (string_pieces o2 data) = Inr bs"
  shows "length bs = sum_list (map (\<lambda>d. 4 + fst d) data)"
proof -
  obtain a b where ab: "write_all (string_addresses (o2 + 4 * length data) data) = Inr a"
    "write_all (map (\<lambda>(n, bits). rbind (py_int2 bits) (to_bytes n)) data) = Inr b" "bs = a @ b"
    using assms by (auto simp: string_pieces_def write_all_append)
  have "list_all2 (\<lambda>p n. \<forall>b. p = Inr b \<longrightarrow> length b = n) (string_addresses c data) (replicate (length data) 4)" for c
    by (induction data arbitrary: c) (auto dest: to_bytes_back)
  from pieces_lengths [OF ab(1) this] have "length a = 4 * length data" by (simp add: sum_list_replicate)
  moreover have "length b = sum_list (map fst data)"
    by (rule pieces_lengths [OF ab(2)])
      (auto simp: list_all2_conv_all_nth rbind_Inr_iff split: prod.splits dest: to_bytes_back)
  ultimately show ?thesis using ab(3) by (induction data) (simp_all add: sum_list_addf sum_list_triv)
qed

lemma names_length:
  assumes "write_all (name_pieces sy names) = Inr bs"
  shows "length bs = 4 + sum_list (map (\<lambda>e. 8 + length (snd e)) names)"
proof -
  have "write_all (concat (map (\<lambda>(key, value).
       [rbind (dict_get sy key (KeyError (py_str key))) (to_bytes 4),
        to_bytes 4 (int (length value)), encode_ascii value]) names)) = Inr c \<Longrightarrow>
      length c = sum_list (map (\<lambda>e. 8 + length (snd e)) names)" for c
  proof (induction names arbitrary: c)
    case Nil
    then show ?case by (simp add: write_all_def seq_res.simps)
  next
    case (Cons e names)
    then show ?case
      by (cases e) (auto simp: write_all_Cons rbind_Inr_iff encode_ascii_def split: if_splits dest!: to_bytes_back)
  qed
  then show ?thesis using assms by (auto simp: name_pieces_def write_all_Cons dest!: to_bytes_back)
qed

lemma sections:
  assumes "generate_binaryfile efa link img = Inr bs"
  obtains h s r t n where "bs = h @ s @ r @ t @ n"
    and "write_all (map (\<lambda>n. to_bytes 8 (int n)) [offset0, offset1 link (p_symbols img),
          offset2 (offset1 link (p_symbols img)) (p_prog img),
          offset3 (offset2 (offset1 link (p_symbols img)) (p_prog img)) (sorted_data (p_data img)),
          offset4 (offset3 (offset2 (offset1 link (p_symbols img)) (p_prog img)) (sorted_data (p_data img)))
            (e_names efa)]) = Inr h"
    and "write_all (if link then symbol_pieces (p_symbols img) else []) = Inr s"
    and "write_all (region_pieces (p_prog img)) = Inr r"
    and "write_all (string_pieces (offset2 (offset1 link (p_symbols img)) (p_prog img)) (sorted_data (p_data img))) = Inr t"
    and "write_all (name_pieces (p_symbols img) (e_names efa)) = Inr n"
  using assms unfolding generate_binaryfile_def Let_def write_all_append by blast

text \<open>The length of every section is the distance of its offsets.\<close>

lemma section_lengths:
  assumes "write_all (map (\<lambda>n. to_bytes 8 (int n)) [o0, o1, o2, o3, o4]) = Inr h"
    and "write_all (if link then symbol_pieces sy else []) = Inr s"
    and "write_all (region_pieces prog) = Inr r"
    and "write_all (string_pieces k data) = Inr t" and "write_all (name_pieces sy names) = Inr n"
  shows "length h = offset0" and "offset0 + length s = offset1 link sy"
    and "q + length r = offset2 q prog" and "q + length t = offset3 q data" and "q + length n = offset4 q names"
proof -
  have "length h = sum_list [8, 8, 8, 8, 8]"
    by (rule pieces_lengths [OF assms(1)]) (auto dest: to_bytes_back)
  then show "length h = offset0" by (simp add: offset0_def)
  show "offset0 + length s = offset1 link sy"
    using assms(2) symbols_written(1) [of sy s] by (cases link) (auto simp: offset1_def write_all_def seq_res.simps)
  show "q + length r = offset2 q prog"
    using regions_written [OF assms(3)] by (auto simp: offset2_def foldl_plus)
  show "q + length t = offset3 q data" using strings_length [OF assms(4)] by (simp add: offset3_def foldl_plus)
  show "q + length n = offset4 q names" using names_length [OF assms(5)] by (simp add: offset4_def foldl_plus)
qed

lemma generate_read_back:
  assumes "generate_binaryfile efa link img = Inr bs"
  shows "list_all2 same_region (p_prog img) (read_program bs)"
    and "link \<Longrightarrow> read_symbols bs = p_symbols img"
    and "length bs = header bs 4" and "header bs 1 = offset1 link (p_symbols img)"
    and "header bs 2 = offset2 (header bs 1) (p_prog img)"
    and "header bs 3 = offset3 (header bs 2) (sorted_data (p_data img))" and "header bs 0 = offset0"
    and "\<exists>h s r t n. bs = h @ s @ r @ t @ n \<and>
      map (header bs) [0, 1, 2, 3, 4] = [length h, length (h @ s), length (h @ s @ r), length (h @ s @ r @ t), length bs] \<and>
      length h = 40 \<and> write_all (string_pieces (header bs 2) (sorted_data (p_data img))) = Inr t \<and>
      write_all (name_pieces (p_symbols img) (e_names efa)) = Inr n"
proof -
  obtain h s r t n where bs: "bs = h @ s @ r @ t @ n"
    and w: "write_all (map (\<lambda>n. to_bytes 8 (int n)) [offset0, offset1 link (p_symbols img),
          offset2 (offset1 link (p_symbols img)) (p_prog img),
          offset3 (offset2 (offset1 link (p_symbols img)) (p_prog img)) (sorted_data (p_data img)),
          offset4 (offset3 (offset2 (offset1 link (p_symbols img)) (p_prog img)) (sorted_data (p_data img)))
            (e_names efa)]) = Inr h"
    "write_all (if link then symbol_pieces (p_symbols img) else []) = Inr s"
    "write_all (region_pieces (p_prog img)) = Inr r"
    "write_all (string_pieces (offset2 (offset1 link (p_symbols img)) (p_prog img)) (sorted_data (p_data img))) = Inr t"
    "write_all (name_pieces (p_symbols img) (e_names efa)) = Inr n"
    using sections [OF assms] by blast
  note len = section_lengths [OF w]
  have hd: "header bs 0 = offset0" "header bs 1 = offset1 link (p_symbols img)"
    "header bs 2 = offset2 (offset1 link (p_symbols img)) (p_prog img)"
    "header bs 3 = offset3 (offset2 (offset1 link (p_symbols img)) (p_prog img)) (sorted_data (p_data img))"
    "header bs 4 = offset4 (offset3 (offset2 (offset1 link (p_symbols img)) (p_prog img)) (sorted_data (p_data img)))
        (e_names efa)"
    unfolding bs using header_read [OF w(1)] by (simp_all add: numeral_eq_Suc)
  show "header bs 0 = offset0" "header bs 1 = offset1 link (p_symbols img)" by (rule hd(1), rule hd(2))
  show "header bs 2 = offset2 (header bs 1) (p_prog img)" by (simp only: hd)
  show "header bs 3 = offset3 (header bs 2) (sorted_data (p_data img))" by (simp only: hd)
  have pos: "length (h @ s) = header bs 1" "length (h @ s @ r) = header bs 2"
    using len(1,2) len(3) [of "offset1 link (p_symbols img)"] unfolding hd by simp_all
  have pos3: "length (h @ s @ r @ t) = header bs 3"
    using pos(2) len(4) [of "header bs 2"] unfolding hd by simp
  have pos4: "length bs = header bs 4"
    using pos3 len(5) [of "header bs 3"] unfolding hd by (simp add: bs)
  then show "length bs = header bs 4" .
  have pos0: "length h = header bs 0" "length h = 40" using len(1) by (simp_all only: hd) (simp add: offset0_def)
  have t: "write_all (string_pieces (header bs 2) (sorted_data (p_data img))) = Inr t" using w(4) by (simp only: hd)
  show "\<exists>h s r t n. bs = h @ s @ r @ t @ n \<and>
      map (header bs) [0, 1, 2, 3, 4] = [length h, length (h @ s), length (h @ s @ r), length (h @ s @ r @ t), length bs] \<and>
      length h = 40 \<and> write_all (string_pieces (header bs 2) (sorted_data (p_data img))) = Inr t \<and>
      write_all (name_pieces (p_symbols img) (e_names efa)) = Inr n"
    by (rule exI [of _ h], rule exI [of _ s], rule exI [of _ r], rule exI [of _ t], rule exI [of _ n])
      (simp only: bs [symmetric] pos pos3 pos4 pos0(1) [symmetric] pos0(2) list.map t w(5) simp_thms)
  have "take (header bs 2 - header bs 1) (drop (header bs 1) bs) = r"
    unfolding pos(1) [symmetric] pos(2) [symmetric] by (simp add: bs)
  then have rp: "read_program bs = read_regions (length r) r" by (simp add: read_program_def Let_def)
  obtain rs bss where rs: "list_all2 same_region (p_prog img) rs" "seq_res (map write_region rs) = Inr bss" "r = concat bss"
    using regions_written [OF w(3)] by blast
  show "list_all2 same_region (p_prog img) (read_program bs)"
    using rs read_regions_write [OF rs(2), of "length r"] by (simp add: rp)
  show "read_symbols bs = p_symbols img" if link
  proof -
    obtain c bss where c: "to_bytes 4 (int (length (p_symbols img))) = Inr c"
      "seq_res (map write_symbol (p_symbols img)) = Inr bss" "s = c @ concat bss"
      using symbols_written(2) [of "p_symbols img" s] w(2) \<open>link\<close> by auto
    have "drop (header bs 0) bs = c @ concat bss @ r @ t @ n" 
      unfolding hd(1) len(1) [symmetric] by (simp add: bs c(3))
    then show ?thesis
      by (simp add: read_symbols_def ints.dec_enc [OF c(1)] symbol_pairs.decs_enc [OF c(2)])
  qed
qed

section \<open>Properties\<close>

text \<open>C12: The binary file is read back. It is its header of 40 bytes and four sections, and the five
  offsets of the header are the end of the header and of each section, the last one its length. The
  region section gives every region of the image with its address and the values of its words, in
  order; with the event labels in the file the symbol section gives the table of labels, without them
  it is empty. The strings take 4 bytes for an address and their own size each, the event names 8 bytes
  and their letters each, behind their number.\<close>

theorem binary_round_trip:
  assumes "generate_binaryfile efa link img = Inr bs"
  shows "list_all2 (\<lambda>(a, l) (b, ws). b = a \<and> map py_int2 l = map Inr ws) (p_prog img) (read_program bs) \<and>
    (if link then read_symbols bs = p_symbols img else header bs 1 = header bs 0) \<and>
    (\<exists>h s r t n. bs = h @ s @ r @ t @ n \<and> length h = 40 \<and>
       map (header bs) [0, 1, 2, 3, 4] = [length h, length (h @ s), length (h @ s @ r), length (h @ s @ r @ t), length bs] \<and>
       length t = sum_list (map (\<lambda>d. 4 + fst d) (sorted_data (p_data img))) \<and>
       length n = 4 + sum_list (map (\<lambda>e. 8 + length (snd e)) (e_names efa)))"
proof -
  have "same_region = (\<lambda>(a, l) (b, ws). b = a \<and> map py_int2 l = map Inr ws)"
    by (intro ext) (auto simp: same_region_def)
  moreover have "\<not> link \<Longrightarrow> header bs 1 = header bs 0"
    using generate_read_back(4,7) [OF assms] by (simp add: offset1_def)
  moreover have "\<exists>h s r t n. bs = h @ s @ r @ t @ n \<and> length h = 40 \<and>
       map (header bs) [0, 1, 2, 3, 4] = [length h, length (h @ s), length (h @ s @ r), length (h @ s @ r @ t), length bs] \<and>
       length t = sum_list (map (\<lambda>d. 4 + fst d) (sorted_data (p_data img))) \<and>
       length n = 4 + sum_list (map (\<lambda>e. 8 + length (snd e)) (e_names efa))"
    using generate_read_back(8) [OF assms] strings_length names_length by metis
  ultimately show ?thesis using generate_read_back(1,2) [OF assms] by simp
qed


theorem binary_round_trip_witness:
  "\<exists>bs. generate_binaryfile new_EFA True \<lparr>p_prog = [(8, [''00000000000000000000000000000001''])],
       p_symbols = [(5, 8)], p_data = []\<rparr> = Inr bs \<and>
     read_program bs = [(8, [1])] \<and> read_symbols bs = [(5, 8)] \<and> header bs 3 + 4 = length bs"
proof -
  let ?i = "\<lparr>p_prog = [(8, [''00000000000000000000000000000001''])], p_symbols = [(5, 8)], p_data = []\<rparr>"
  have "rmap length (generate_binaryfile new_EFA True ?i) = Inr 76" by code_simp
  then obtain bs where g: "generate_binaryfile new_EFA True ?i = Inr bs" by (auto simp: rmap_Inr_iff)
  have w: "py_int2 ''00000000000000000000000000000001'' = Inr 1" by code_simp
  from binary_round_trip [OF g] have "list_all2 (\<lambda>(a, l) (b, ws). b = a \<and> map py_int2 l = map Inr ws)
      [(8, [''00000000000000000000000000000001''])] (read_program bs)"
    "read_symbols bs = [(5, 8)]" "header bs 3 + 4 = length bs" by (auto simp: new_EFA_def)
  then show ?thesis using g w by (auto simp: list_all2_Cons1)
qed

end
