(* ===== verification/Asm_Transitions.thy ===== *)
theory Asm_Transitions imports Asm_Program begin

text \<open>
  The words of the transitions of an EFA: 32 digits, with the slot of the destination in the field
  that the hardware reads it from.
\<close>

section \<open>Transition words\<close>

lemma res_width_const [widths]:
  "res_width 8 (Inr ''00000000'')" "res_width 8 (Inr ''00000001'')" "res_width 5 (Inr ''00000'')"
  "res_width 2 (Inr ''11'')" "res_width 2 (Inr ''00'')" "res_width 6 (Inr ''000001'')"
  "res_width 20 (Inr ''00000000000000000000'')"
  by (simp_all add: res_width_def code_width_def is_bits_def)

lemma res_width_target [widths]: "res_width 12 (target_field al w tr)"
  unfolding target_field_def by (intro res_width_bind) (simp add: widths)

lemma attach_width:
  "attach_field w tr other = Inr s \<Longrightarrow> code_width 8 other \<Longrightarrow> code_width 8 s"
  using res_width_encoders(4) by (auto simp: attach_field_def rbind_Inr_iff res_width_def split: if_splits)

text \<open>A word whose first field has eight digits and whose second is the slot of the destination\<close>

definition transition_word :: "(int, int) dict \<Rightarrow> world \<Rightarrow> transition \<Rightarrow> fields \<Rightarrow> bool" where
  "transition_word al w tr fs =
     (length (pack fs) = 32 \<and> is_bits (pack fs) \<and>
      (\<exists>addr. state_address al w tr = Inr addr \<and>
         unsigned_val (take 12 (drop 8 (pack fs))) = drop_bit 2 addr mod 4096))"

lemma slot_field:
  assumes "target_field al w tr = Inr f"
  shows "\<exists>addr. state_address al w tr = Inr addr \<and> unsigned_val f = drop_bit 2 addr mod 4096"
proof -
  obtain addr where a: "state_address al w tr = Inr addr" "inbinary12 (drop_bit 2 addr AND 0xFFF) = Inr f"
    using assms by (auto simp: target_field_def rbind_Inr_iff encode_EFA_tr_target_def)
  have m: "drop_bit 2 addr AND 0xFFF = drop_bit 2 addr mod 4096"
    using and_mask_mod [of "drop_bit 2 addr" 12] by (simp add: mask_eq_exp_minus_1)
  have "0 \<le> drop_bit 2 addr mod 4096" "drop_bit 2 addr mod 4096 < 4096" by simp_all
  then have "rmap unsigned_val (inbinary12 (drop_bit 2 addr mod 4096)) = Inr (drop_bit 2 addr mod 4096)"
    using b12.roundtrip_unsigned [of "drop_bit 2 addr mod 4096"] b12.enc_nonneg [of "drop_bit 2 addr mod 4096"] by simp
  then show ?thesis using a m by simp
qed

lemma transition_word_fields:
  assumes "seq_res (m # target_field al w tr # ms) = Inr fs"
    and "res_width 8 m" "list_all2 res_width ws ms" "sum_list ws = 12"
  shows "transition_word al w tr fs"
proof -
  have "list_all2 res_width (8 # 12 # ws) (m # target_field al w tr # ms)" using assms(2,3) by (simp add: widths)
  from concat_width [OF seq_res_widths [OF assms(1) this]] assms(4)
  have cw: "code_width 32 (concat fs)" by simp
  obtain a f rest where f: "m = Inr a" "target_field al w tr = Inr f" "fs = a # f # rest"
    using assms(1) by (auto simp: res_simps)
  have "length a = 8" "length f = 12"
    using assms(2) res_width_target [of al w tr] f(1,2) by (simp_all add: res_width_def code_width_def)
  then have "take 12 (drop 8 (pack fs)) = f" using cw by (simp add: pack_word f(3))
  then show ?thesis using slot_field [OF f(2)] cw by (simp add: transition_word_def pack_word code_width_def)
qed

lemma EFA_transition_word:
  assumes "encode_EFA_transition_instr w tr ty label al base scalar = Inr fs"
  shows "transition_word al w tr fs"
proof -
  let ?t = "target_field al w tr" and ?y = "encode_transition_type (t_anno_type tr)"
  have 1: "transition_word al w tr fs"
    if u: "rbind (attach_field w tr other) (\<lambda>attach. seq_res [m, ?t, ?y, Inr attach]) = Inr fs" "res_width 8 m"
      "code_width 8 other" for m other
  proof -
    obtain attach where a: "attach_field w tr other = Inr attach" "seq_res [m, ?t, ?y, Inr attach] = Inr fs"
      using u(1) by (auto simp: rbind_Inr_iff)
    show ?thesis by (rule transition_word_fields [OF a(2) u(2), of "[4, 8]"])
      (simp_all add: widths attach_width [OF a(1) u(3)])
  qed
  have 2: "transition_word al w tr fs" if "seq_res (m # ?t # ?y # ms) = Inr fs" "res_width 8 m"
      "list_all2 res_width ws ms" "sum_list ws = 8" for m ms ws
    by (rule transition_word_fields [OF that(1,2), of "4 # ws"]) (use that(3,4) in \<open>simp_all add: widths\<close>)
  have c: "code_width 8 ''00000001''" "code_width 8 ''00000000''" by (simp_all add: code_width_def is_bits_def)
  show ?thesis
  proof (cases "ty \<in> label_types")
    case True
    note e = assms [unfolded encode_EFA_transition_instr_def Let_def if_P [OF True]]
    consider (majdef) "rbind (attach_field w tr ''00000001'') (\<lambda>attach. seq_res [Inr ''00000000'', ?t, ?y, Inr attach]) = Inr fs"
      | (refill_act) "seq_res [encode_signature label, ?t, ?y, encode_attach_refill_refill (t_refill_val tr),
          encode_attach_refill_base base, encode_attach_refill_scalar scalar] = Inr fs"
      | (refill) "seq_res [encode_signature label, ?t, ?y, encode_attach_refill_refill (t_refill_val tr), Inr ''00000''] = Inr fs"
      | (act) "seq_res [encode_signature label, ?t, ?y, Inr ''11'', encode_attach_base base, encode_attach_scalar scalar] = Inr fs"
      | (plain) "rbind (attach_field w tr ''00000000'') (\<lambda>attach. seq_res [encode_signature label, ?t, ?y, Inr attach]) = Inr fs"
      using e by (auto split: if_splits)
    then show ?thesis
    proof cases
      case majdef
      then show ?thesis by (rule 1) (simp_all add: widths c)
    next
      case refill_act
      then show ?thesis by (rule 2 [where ws = "[3, 3, 2]"]) (simp_all add: widths)
    next
      case refill
      then show ?thesis by (rule 2 [where ws = "[3, 5]"]) (simp_all add: widths)
    next
      case act
      then show ?thesis by (rule 2 [where ws = "[2, 3, 3]"]) (simp_all add: widths)
    next
      case plain
      then show ?thesis by (rule 1) (simp_all add: widths c)
    qed
  next
    case False
    note e = assms [unfolded encode_EFA_transition_instr_def Let_def if_not_P [OF False]]
    consider (act) "seq_res [Inr ''00000000'', ?t, ?y, Inr ''00'', Inr ''000001''] = Inr fs"
      | (plain) "rbind (attach_field w tr ''00000000'') (\<lambda>attach. seq_res [Inr ''00000000'', ?t, ?y, Inr attach]) = Inr fs"
      using e by (auto split: if_splits)
    then show ?thesis
    proof cases
      case act
      then show ?thesis by (rule 2 [where ws = "[2, 6]"]) (simp_all add: widths)
    next
      case plain
      then show ?thesis by (rule 1) (simp_all add: widths c)
    qed
  qed
qed

section \<open>Properties\<close>

text \<open>C16: the word of a transition of an EFA has 32 binary digits, and digits 8 to 19 are the slot of the destination state in the memory of its EFA, whatever the types of the transition and of the state.\<close>

theorem transition_target_read_back:
  assumes "encode_EFA_transition_instr w tr state_type label allstates base scalar = Inr fs"
    and "map_of allstates (s_state_id (w_states w ! t_dst tr)) = Some addr"
  shows "length (pack fs) = 32 \<and> is_bits (pack fs) \<and>
    unsigned_val (take 12 (drop 8 (pack fs))) = drop_bit 2 addr mod 4096"
  using EFA_transition_word [OF assms(1)] assms(2)
  by (auto simp: transition_word_def state_address_def dict_get_def Let_def)

theorem transition_target_read_back_witness:
  "\<exists>fs. encode_EFA_transition_instr cycle_machine (w_trans cycle_machine ! 1) ''basic'' 3 [(2, 40)] 0 0 = Inr fs \<and>
     length (pack fs) = 32 \<and> unsigned_val (take 12 (drop 8 (pack fs))) = 10"
proof -
  have "encode_EFA_transition_instr cycle_machine (w_trans cycle_machine ! 1) ''basic'' 3 [(2, 40)] 0 0 =
      Inr [''00000011'', ''000000001010'', ''1110'', ''00000000'']" by code_simp
  from transition_target_read_back [OF this, of 40] this show ?thesis
    by (simp add: cycle_machine_def new_world_def Transition_def drop_bit_eq_div)
qed

end
