(* ===== verification/Link_Text.thy ===== *)
theory Link_Text imports Py_Float begin

text \<open>
  The text functions of the linker: \<open>src/updown/linker/common/helper.py\<close> (labels, opcodes,
  operands and literals of an action), \<open>instructions.py\<close> (the instruction list), the regular
  expressions with which symbols are renamed (\<open>ActionSection.renameSymbol\<close>,
  \<open>LinkableModule.cleanSymbols\<close>), and the option parsing of \<open>EFAlinker.py\<close>. Strings are taken to
  be ASCII, as in the rest of the development.
\<close>

section \<open>Characters of labels and words\<close>

definition is_alpha :: "char \<Rightarrow> bool" where
  "is_alpha c = (let n = of_char c :: nat in 65 \<le> n \<and> n \<le> 90 \<or> 97 \<le> n \<and> n \<le> 122)"

text \<open>The class \<open>\w\<close> of regular expressions\<close>

definition word_char :: "char \<Rightarrow> bool" where
  "word_char c = (is_alpha c \<or> is_digit c \<or> c = CHR ''_'')"

text \<open>\<open>LABEL_REGEX = [a-zA-Z_][a-zA-Z0-9_\-.]*\<close>\<close>

definition label_start :: "char \<Rightarrow> bool" where
  "label_start c = (is_alpha c \<or> c = CHR ''_'')"

definition label_char :: "char \<Rightarrow> bool" where
  "label_char c = (word_char c \<or> c = CHR ''-'' \<or> c = CHR ''.'')"

section \<open>Labels, opcodes and operands of an action\<close>

definition hasTargetLabel :: "string \<Rightarrow> bool" where
  "hasTargetLabel action =
     (case action of [] \<Rightarrow> False
      | c # cs \<Rightarrow> label_start c \<and> take 1 (dropWhile label_char cs) = '':'')"

definition getTargetLabel :: "string \<Rightarrow> string option" where
  "getTargetLabel action =
     (if hasTargetLabel action then Some (strip (hd (split_on CHR '':'' action))) else None)"

definition getActionOpCode :: "string \<Rightarrow> string res" where
  "getActionOpCode action =
     (let action = (if hasTargetLabel action
                    then hd (split_on CHR '' '' (strip (split_on CHR '':'' action ! 1)))
                    else action)
      in case split_ws action of [] \<Rightarrow> Inl IndexError | w # ws \<Rightarrow> Inr w)"

text \<open>
  \<open>re.sub\<close> of a quote, anything, a quote by nothing: the dot does not match a newline and the
  star is greedy, so in each line everything from its first to its last quote goes.
\<close>

definition cut_line :: "char \<Rightarrow> string \<Rightarrow> string" where
  "cut_line q l =
     (let r = tl (dropWhile (\<lambda>c. c \<noteq> q) l)
      in if q \<in> set r then takeWhile (\<lambda>c. c \<noteq> q) l @ rev (takeWhile (\<lambda>c. c \<noteq> q) (rev r)) else l)"

fun join_lines :: "char \<Rightarrow> string list \<Rightarrow> string" where
  "join_lines d [] = []"
| "join_lines d [s] = s"
| "join_lines d (s # ss) = s @ d # join_lines d ss"

definition cut_quoted :: "char \<Rightarrow> string \<Rightarrow> string" where
  "cut_quoted q s = join_lines CHR 0x0A (map (cut_line q) (split_on CHR 0x0A s))"

definition getActionOperands :: "string \<Rightarrow> string list res" where
  "getActionOperands action =
     rbind (getActionOpCode action) (\<lambda>opcode.
     let operands = (if hasTargetLabel action
                     then strip (join_lines CHR '':'' (tl (split_on CHR '':'' action)))
                     else action);
         operands = (if opcode = ''print'' \<or> opcode = ''perflog''
                     then cut_quoted CHR 0x27 (cut_quoted CHR 0x22 operands) else operands);
         operands = replace_first opcode [] operands;
         operands = replace_char CHR '','' CHR '' ''
           (replace_char CHR '')'' CHR '' '' (replace_char CHR ''('' CHR '' '' operands))
     in Inr (split_ws (strip operands)))"

section \<open>Kinds of operands\<close>

definition registersList :: "string list" where
  "registersList =
     map (\<lambda>i. ''X'' @ nat_str i) [0..<32] @ map (\<lambda>i. ''UDPR_'' @ nat_str i) [0..<32] @
     [''SBP'', ''NWID'', ''LID'', ''SBPB'', ''EQT'', ''TS'', ''TID'', ''SBCR'', ''SBP'', ''SBPB'', ''SBCR''] @
     map (\<lambda>i. ''OB'' @ nat_str i) [0..<10]"

definition isRegister :: "string \<Rightarrow> bool" where
  "isRegister arg = (arg \<in> set registersList)"

definition isReservedWord :: "string \<Rightarrow> bool" where
  "isReservedWord arg = (arg \<in> set [])"

definition isStringLiteral :: "string \<Rightarrow> bool res" where
  "isStringLiteral arg =
     (if arg = [] then Inl IndexError
      else Inr (hd arg = CHR 0x27 \<and> last arg = CHR 0x27 \<or> hd arg = CHR 0x22 \<and> last arg = CHR 0x22))"

text \<open>\<open>int(s, base)\<close> for the bases 2 and 16, with the prefix, the sign and the underscores that
  Python allows\<close>

definition base_digit :: "nat \<Rightarrow> char \<Rightarrow> nat option" where
  "base_digit b c =
     (let n = of_char c :: nat;
          d = (if is_digit c then digit_val c
               else if 97 \<le> n \<and> n \<le> 122 then n - 87
               else if 65 \<le> n \<and> n \<le> 90 then n - 55 else b)
      in if d < b then Some d else None)"

fun base_digits :: "nat \<Rightarrow> nat \<Rightarrow> string \<Rightarrow> nat option" where
  "base_digits b n [] = Some n"
| "base_digits b n (c # cs) =
     (if c = CHR ''_'' then
        (case cs of [] \<Rightarrow> None
         | d # ds \<Rightarrow> Option.bind (base_digit b d) (\<lambda>v. base_digits b (b * n + v) ds))
      else Option.bind (base_digit b c) (\<lambda>v. base_digits b (b * n + v) cs))"

definition base_nat :: "nat \<Rightarrow> string \<Rightarrow> string \<Rightarrow> nat option" where
  "base_nat b letters s =
     (let prefixed = take 1 s = ''0'' \<and> (case tl s of [] \<Rightarrow> False | c # cs \<Rightarrow> c \<in> set letters);
          t = (if prefixed then drop 2 s else s);
          u = (if prefixed \<and> take 1 t = ''_'' then tl t else t)
      in case u of [] \<Rightarrow> None | c # cs \<Rightarrow> Option.bind (base_digit b c) (\<lambda>v. base_digits b v cs))"

definition int_base :: "nat \<Rightarrow> string \<Rightarrow> string \<Rightarrow> int option" where
  "int_base b letters s =
     (let t = strip s
      in case t of [] \<Rightarrow> None
         | c # cs \<Rightarrow> if c = CHR ''-'' then map_option (\<lambda>n. - int n) (base_nat b letters cs)
                     else if c = CHR ''+'' then map_option int (base_nat b letters cs)
                     else map_option int (base_nat b letters t))"

datatype number = NInt int | NFloat py_float

text \<open>\<open>isNumericLiteral\<close>: the pair of its result is an option here\<close>

definition isNumericLiteral :: "string \<Rightarrow> number option" where
  "isNumericLiteral arg =
     (case py_int arg of Inr i \<Rightarrow> Some (NInt i)
      | Inl _ \<Rightarrow>
        (case int_base 16 ''xX'' arg of Some i \<Rightarrow> Some (NInt i)
         | None \<Rightarrow>
           (case int_base 2 ''bB'' arg of Some i \<Rightarrow> Some (NInt i)
            | None \<Rightarrow> (case py_float arg of Inr f \<Rightarrow> Some (NFloat f) | Inl _ \<Rightarrow> None))))"

text \<open>\<open>isSymbol\<close> with the dictionary of the instructions as argument; the dollar of its regular
  expression also matches before a last newline.\<close>

definition isSymbol :: "string set \<Rightarrow> string \<Rightarrow> bool res" where
  "isSymbol UpDownInstructions arg =
     (if arg \<in> UpDownInstructions then Inr False
      else if arg = [] then Inl IndexError
      else Inr (\<not> is_digit (hd arg) \<and> label_start (hd arg) \<and>
                dropWhile label_char (tl arg) \<in> {[], [CHR 0x0A]}))"

section \<open>The list of instructions\<close>

text \<open>\<open>s.split(sep)\<close> for a separator that is not empty: the text before the first separator and the
  text after it up to the next one\<close>

fun before_str :: "string \<Rightarrow> string \<Rightarrow> string" where
  "before_str sep [] = []"
| "before_str sep (c # cs) = (if starts_with sep (c # cs) then [] else c # before_str sep cs)"

definition second_part :: "string \<Rightarrow> string \<Rightarrow> string res" where
  "second_part sep s =
     (if contains_str sep s then Inr (before_str sep (drop (length (before_str sep s) + length sep) s))
      else Inl IndexError)"

record inst_format =
  i_variableLength :: bool
  i_opCode :: string
  i_operands :: "string list"
  i_immOperands :: "nat list"
  i_registerOperands :: "nat list"

definition UpDownInstFormat :: "string \<Rightarrow> inst_format res" where
  "UpDownInstFormat instruction =
     (let variable = contains_str ''<'' instruction;
          instruction = (if variable then strip (hd (split_on CHR ''<'' instruction)) else instruction)
      in case split_ws instruction of [] \<Rightarrow> Inl IndexError
         | opcode # _ \<Rightarrow>
           rmap (\<lambda>rest.
             let operands = map strip (split_on CHR '','' (strip rest))
             in \<lparr>i_variableLength = variable, i_opCode = opcode, i_operands = operands,
                 i_immOperands = filter (\<lambda>i. starts_with ''$imm'' (operands ! i)) [0..<length operands],
                 i_registerOperands = filter (\<lambda>i. starts_with ''x'' (lower (operands ! i))) [0..<length operands]\<rparr>)
             (second_part opcode instruction))"

text \<open>\<open>readInstructions\<close> on the lines of its file\<close>

definition readInstructions :: "string list \<Rightarrow> (string, inst_format) dict res" where
  "readInstructions lines =
     foldr_res (\<lambda>line d. rmap (\<lambda>inst. dict_set (i_opCode inst) inst d) (UpDownInstFormat line))
       (filter (\<lambda>line. line \<noteq> [] \<and> hd line \<noteq> CHR ''#'') (map strip lines)) []"

section \<open>Renaming\<close>

text \<open>\<open>re.sub(r"\W", "_", name)\<close> in \<open>cleanSymbols\<close>\<close>

definition clean_name :: "string \<Rightarrow> string" where
  "clean_name name = map (\<lambda>c. if word_char c then c else CHR ''_'') name"

text \<open>
  \<open>renameSymbol\<close>: \<open>re.sub(r"\b" + re.escape(old) + r"\b", new, action)\<close>. The flag says whether the
  character before the position is a word character, the number counts the characters of a match
  that are still to be passed over. A replacement with a backslash would be read as a template by
  Python; names of symbols have none.
\<close>

definition word_next :: "string \<Rightarrow> bool" where
  "word_next s = (s \<noteq> [] \<and> word_char (hd s))"

definition at_word :: "string \<Rightarrow> bool \<Rightarrow> string \<Rightarrow> bool" where
  "at_word old p s =
     (p \<noteq> word_next s \<and> starts_with old s \<and>
      (if old = [] then p else word_char (last old)) \<noteq> word_next (drop (length old) s))"

fun sub_word :: "string \<Rightarrow> string \<Rightarrow> bool \<Rightarrow> nat \<Rightarrow> string \<Rightarrow> string" where
  "sub_word old new p k [] = (if old = [] \<and> at_word old p [] then new else [])"
| "sub_word old new p (Suc k) (c # cs) = sub_word old new (word_char c) k cs"
| "sub_word old new p 0 (c # cs) =
     (if at_word old p (c # cs) then
        new @ (if old = [] then c # sub_word old new (word_char c) 0 cs
               else sub_word old new (word_char c) (length old - 1) cs)
      else c # sub_word old new (word_char c) 0 cs)"

definition rename_action :: "string \<Rightarrow> string \<Rightarrow> string \<Rightarrow> string" where
  "rename_action old new action = sub_word old new False 0 action"

section \<open>Options of the linker\<close>

text \<open>\<open>interpretAddress\<close>: a part after a colon that is not numeric leaves \<open>None\<close> as the address.\<close>

record base_addr =
  lane_private :: "int option"
  updown_private :: "int option"
  dram_shared :: "int option"

definition getIntNum :: "string \<Rightarrow> int option res" where
  "getIntNum addr =
     (case isNumericLiteral addr of None \<Rightarrow> Inr None | Some (NInt i) \<Rightarrow> Inr (Some i)
      | Some (NFloat _) \<Rightarrow> Inl SysExit)"

definition after_colon :: "string \<Rightarrow> int option res" where
  "after_colon addr =
     (case split_on CHR '':'' addr of a # b # _ \<Rightarrow> getIntNum b | _ \<Rightarrow> Inl IndexError)"

definition interpret_part :: "string \<Rightarrow> base_addr \<Rightarrow> base_addr res" where
  "interpret_part addr res =
     rbind (getIntNum addr) (\<lambda>num.
     if num \<noteq> None then Inr (res\<lparr>lane_private := num\<rparr>)
     else if starts_with ''lane_private'' addr then rmap (\<lambda>n. res\<lparr>lane_private := n\<rparr>) (after_colon addr)
     else if starts_with ''updown_private'' addr then rmap (\<lambda>n. res\<lparr>updown_private := n\<rparr>) (after_colon addr)
     else if starts_with ''dram_shared'' addr then rmap (\<lambda>n. res\<lparr>dram_shared := n\<rparr>) (after_colon addr)
     else Inl SysExit)"

definition interpretAddress :: "string \<Rightarrow> base_addr res" where
  "interpretAddress address =
     foldr_res interpret_part (split_on CHR '','' address)
       \<lparr>lane_private = Some 0, updown_private = Some 0, dram_shared = Some 0\<rparr>"

text \<open>\<open>nameCleanUp\<close>, with \<open>os.path.split\<close> and \<open>os.path.splitext\<close> of POSIX paths\<close>

definition path_split :: "string \<Rightarrow> string \<times> string" where
  "path_split p =
     (let tail = rev (takeWhile (\<lambda>c. c \<noteq> CHR ''/'') (rev p));
          head = take (length p - length tail) p
      in (if list_all (\<lambda>c. c = CHR ''/'') head then head else rstrip_of (\<lambda>c. c = CHR ''/'') head, tail))"

definition without_ext :: "string \<Rightarrow> string" where
  "without_ext name =
     (let ext = takeWhile (\<lambda>c. c \<noteq> CHR ''.'') (rev name);
          root = take (length name - length ext - 1) name
      in if length ext = length name \<or> list_all (\<lambda>c. c = CHR ''.'') root then name else root)"

definition nameCleanUp :: "string \<Rightarrow> string \<times> string \<times> string" where
  "nameCleanUp full_path =
     (let (base_path, base_name) = path_split full_path;
          base_path = (if base_path = [] then ''./'' else base_path);
          base_name = without_ext base_name;
          clean = fold (\<lambda>c. replace_char c CHR ''_'') ''-.: ,;'' base_name
      in (base_path, base_name, clean))"

text \<open>
  \<open>loadConstants\<close>: the matches of \<open>^#constexp ([^\s]+)\s*=\s*(\d)+\<close> in the text of a file. The
  second group is under the plus, so it holds the last digit only. The name is the longest part of
  a run of non-blank characters that leaves the rest a match.
\<close>

definition constant_value :: "string \<Rightarrow> (char \<times> string) option" where
  "constant_value s =
     (let t = dropWhile is_space s; u = dropWhile is_space (tl t); ds = takeWhile is_digit u
      in if take 1 t = ''='' \<and> ds \<noteq> [] then Some (last ds, dropWhile is_digit u) else None)"

definition match_constant :: "string \<Rightarrow> (string \<times> char \<times> nat) option" where
  "match_constant s =
     (if starts_with ''#constexp '' s then
        (let t = drop 10 s; w = takeWhile (\<lambda>c. \<not> is_space c) t
         in case filter (\<lambda>n. constant_value (drop n t) \<noteq> None) (rev [1..<length w + 1]) of
              [] \<Rightarrow> None
            | n # _ \<Rightarrow> map_option (\<lambda>(d, rest). (take n t, d, length s - length rest)) (constant_value (drop n t)))
      else None)"

fun find_constants :: "bool \<Rightarrow> nat \<Rightarrow> string \<Rightarrow> (string \<times> char) list" where
  "find_constants b k [] = []"
| "find_constants b (Suc k) (c # cs) = find_constants (c = CHR 0x0A) k cs"
| "find_constants b 0 (c # cs) =
     (case (if b then match_constant (c # cs) else None) of
        None \<Rightarrow> find_constants (c = CHR 0x0A) 0 cs
      | Some (name, d, n) \<Rightarrow> (name, d) # find_constants (c = CHR 0x0A) (n - 1) cs)"

text \<open>A file is its text, or nothing when it does not exist.\<close>

definition load_file :: "string option \<Rightarrow> (string, string) dict \<Rightarrow> (string, string) dict res" where
  "load_file file constants =
     (case file of None \<Rightarrow> Inl SysExit
      | Some content \<Rightarrow>
        foldr_res (\<lambda>(name, d) constants.
          if in_dict name constants then Inl SysExit else Inr (dict_set name [d] constants))
          (find_constants True 0 content) constants)"

definition loadConstants :: "string option list \<Rightarrow> (string, string) dict res" where
  "loadConstants filepaths = foldr_res load_file filepaths []"

end
