(* ===== verification/Link_Store.thy ===== *)
theory Link_Store imports Link_Text begin

text \<open>
  The objects of the linker: \<open>Symbol\<close> (\<open>linker/Symbol/Symbol.py\<close>), the five kinds of sections
  (\<open>linker/EFAsections\<close>) and the attributes of a module. They refer to each other in cycles and are
  shared between modules, so they live in a store: one list for the symbols, one for the sections
  and one for the modules, an object being named by its position. The methods of an object are
  functions from stores to stores.
\<close>

section \<open>Data\<close>

datatype symbol_type = STATE | TRANSITION | SHARED_BLOCK | STATIC_DATA | BRANCH_LABEL | UNKNOWN

datatype staticDataType = LANE_PRIVATE | UPDOWN_PRIVATE | DRAM_SHARED

text \<open>The label of a transition and the ID of a symbol are numbers or strings.\<close>

datatype lval = LInt int | LStr string

fun str_lval :: "lval \<Rightarrow> string" where
  "str_lval (LInt i) = py_str i"
| "str_lval (LStr s) = s"

type_synonym sym_ref = nat
type_synonym sec_ref = nat
type_synonym mod_ref = nat

record symbol =
  y_type :: symbol_type
  y_name :: string
  y_section :: "sec_ref option"
  y_is_init_null_state :: bool
  y_id :: lval
  y_size :: int
  y_private :: bool
  y_used_in :: "sec_ref list"

datatype body =
    StateSection (in_transitions: "sec_ref list") (out_transitions: "sec_ref list")
      (alphabet: "lval list") (linkedSharedBlocks: "sec_ref list")
  | TransitionSection (actions: "sec_ref list") (originState: sec_ref) (destinationState: sec_ref)
      (tran_type: string)
  | ActionSection (action: string) (referenceSymbols: "sym_ref list") (parentSection: "sec_ref option")
      (act_opcode: string)
  | SharedBlockSection (actions: "sec_ref list") (linkedStates: "sec_ref list")
  | StaticDataSection (data_size: int) (data_type: staticDataType)

record efa_section =
  c_linkableModule :: mod_ref
  c_symbol :: "sym_ref option"
  c_labelName :: lval
  c_body :: body

record linkable_module =
  m_name :: string
  m_symbols :: "(string, sym_ref) dict"
  m_null_state :: "sym_ref list option"
  m_currentTransitionID :: int
  m_currentSharedBlockSymbolID :: int
  m_currentStateID :: int

record store =
  st_syms :: "symbol list"
  st_secs :: "efa_section list"
  st_mods :: "linkable_module list"

abbreviation sym :: "store \<Rightarrow> sym_ref \<Rightarrow> symbol" where
  "sym h s \<equiv> st_syms h ! s"

abbreviation sec :: "store \<Rightarrow> sec_ref \<Rightarrow> efa_section" where
  "sec h c \<equiv> st_secs h ! c"

abbreviation modl :: "store \<Rightarrow> mod_ref \<Rightarrow> linkable_module" where
  "modl h m \<equiv> st_mods h ! m"

definition upd_sym :: "sym_ref \<Rightarrow> (symbol \<Rightarrow> symbol) \<Rightarrow> store \<Rightarrow> store" where
  "upd_sym s f h = h\<lparr>st_syms := (st_syms h)[s := f (sym h s)]\<rparr>"

definition upd_sec :: "sec_ref \<Rightarrow> (efa_section \<Rightarrow> efa_section) \<Rightarrow> store \<Rightarrow> store" where
  "upd_sec c f h = h\<lparr>st_secs := (st_secs h)[c := f (sec h c)]\<rparr>"

definition upd_mod :: "mod_ref \<Rightarrow> (linkable_module \<Rightarrow> linkable_module) \<Rightarrow> store \<Rightarrow> store" where
  "upd_mod m f h = h\<lparr>st_mods := (st_mods h)[m := f (modl h m)]\<rparr>"

abbreviation upd_body :: "sec_ref \<Rightarrow> (body \<Rightarrow> body) \<Rightarrow> store \<Rightarrow> store" where
  "upd_body c f \<equiv> upd_sec c (\<lambda>x. x\<lparr>c_body := f (c_body x)\<rparr>)"

section \<open>Symbols\<close>

text \<open>\<open>Symbol.__init__\<close>; the section learns its symbol.\<close>

definition new_symbol :: "string \<Rightarrow> symbol_type \<Rightarrow> sec_ref option \<Rightarrow> store \<Rightarrow> sym_ref \<times> store" where
  "new_symbol name ty c h =
     (let s = length (st_syms h);
          h = h\<lparr>st_syms := st_syms h @ [\<lparr>y_type = ty, y_name = name, y_section = c, y_is_init_null_state = False,
                 y_id = LInt (-1), y_size = 0, y_private = False, y_used_in = []\<rparr>]\<rparr>
      in (s, case c of None \<Rightarrow> h | Some c \<Rightarrow> upd_sec c (\<lambda>x. x\<lparr>c_symbol := Some s\<rparr>) h))"

definition isDefined :: "symbol \<Rightarrow> bool" where
  "isDefined y = (y_section y \<noteq> None \<and> y_type y \<noteq> UNKNOWN)"

definition section_of :: "store \<Rightarrow> sym_ref \<Rightarrow> sec_ref res" where
  "section_of h s =
     (if isDefined (sym h s) then Inr (the (y_section (sym h s))) else Inl AssertionError)"

definition setIsNullState :: "sym_ref \<Rightarrow> bool \<Rightarrow> store \<Rightarrow> store" where
  "setIsNullState s b = upd_sym s (\<lambda>y. y\<lparr>y_is_init_null_state := b\<rparr>)"

definition setID :: "sym_ref \<Rightarrow> lval \<Rightarrow> store \<Rightarrow> store" where
  "setID s i = upd_sym s (\<lambda>y. y\<lparr>y_id := i\<rparr>)"

definition setPrivate :: "sym_ref \<Rightarrow> bool \<Rightarrow> store \<Rightarrow> store" where
  "setPrivate s b = upd_sym s (\<lambda>y. y\<lparr>y_private := b\<rparr>)"

definition setSize :: "sym_ref \<Rightarrow> int \<Rightarrow> store \<Rightarrow> store" where
  "setSize s n = upd_sym s (\<lambda>y. y\<lparr>y_size := n\<rparr>)"

definition addUsedIn :: "sym_ref \<Rightarrow> sec_ref \<Rightarrow> store \<Rightarrow> store" where
  "addUsedIn s c = upd_sym s (\<lambda>y. y\<lparr>y_used_in := y_used_in y @ [c]\<rparr>)"

text \<open>\<open>Symbol.__eq__\<close> between two symbols\<close>

definition symbol_eq :: "symbol \<Rightarrow> symbol \<Rightarrow> bool" where
  "symbol_eq a b = (y_name a = y_name b \<and> y_type a = y_type b \<and> y_id a = y_id b)"

section \<open>Sections\<close>

text \<open>The constructors of the sections that need nothing but a place in the store\<close>

definition new_section :: "mod_ref \<Rightarrow> lval \<Rightarrow> body \<Rightarrow> store \<Rightarrow> sec_ref \<times> store" where
  "new_section m label b h =
     (length (st_secs h),
      h\<lparr>st_secs := st_secs h @ [\<lparr>c_linkableModule = m, c_symbol = None, c_labelName = label, c_body = b\<rparr>]\<rparr>)"

definition new_state_section :: "string \<Rightarrow> mod_ref \<Rightarrow> store \<Rightarrow> sec_ref \<times> store" where
  "new_state_section stateName m = new_section m (LStr stateName) (StateSection [] [] [] [])"

definition new_shared_block_section :: "string \<Rightarrow> mod_ref \<Rightarrow> store \<Rightarrow> sec_ref \<times> store" where
  "new_shared_block_section label m = new_section m (LStr label) (SharedBlockSection [] [])"

definition new_static_data_section :: "string \<Rightarrow> int \<Rightarrow> staticDataType \<Rightarrow> mod_ref \<Rightarrow> store \<Rightarrow> sec_ref \<times> store" where
  "new_static_data_section dataName n ty m = new_section m (LStr dataName) (StaticDataSection n ty)"

definition new_action_section :: "string \<Rightarrow> mod_ref \<Rightarrow> store \<Rightarrow> (sec_ref \<times> store) res" where
  "new_action_section text m h =
     rmap (\<lambda>oc. new_section m (LStr []) (ActionSection text [] None oc) h) (getActionOpCode text)"

text \<open>\<open>StateSection.addOutTransition\<close> and \<open>addInTransition\<close>; only states have these methods.\<close>

definition on_state :: "sec_ref \<Rightarrow> (body \<Rightarrow> body) \<Rightarrow> store \<Rightarrow> store res" where
  "on_state c f h = (case c_body (sec h c) of StateSection _ _ _ _ \<Rightarrow> Inr (upd_body c f h) | _ \<Rightarrow> Inl AttributeError)"

definition addOutTransition :: "sec_ref \<Rightarrow> sec_ref \<Rightarrow> store \<Rightarrow> store res" where
  "addOutTransition c t =
     on_state c (\<lambda>b. StateSection (in_transitions b) (out_transitions b @ [t]) (alphabet b) (linkedSharedBlocks b))"

definition addInTransition :: "sec_ref \<Rightarrow> sec_ref \<Rightarrow> store \<Rightarrow> store res" where
  "addInTransition c t =
     on_state c (\<lambda>b. StateSection (in_transitions b @ [t]) (out_transitions b) (alphabet b) (linkedSharedBlocks b))"

definition setAlphabet :: "sec_ref \<Rightarrow> lval list \<Rightarrow> store \<Rightarrow> store res" where
  "setAlphabet c as =
     on_state c (\<lambda>b. StateSection (in_transitions b) (out_transitions b) as (linkedSharedBlocks b))"

text \<open>\<open>list.remove\<close>: the first occurrence goes, an absent element is an error.\<close>

definition list_remove :: "'a \<Rightarrow> 'a list \<Rightarrow> 'a list res" where
  "list_remove x xs = (if x \<in> set xs then Inr (remove1 x xs) else Inl ValueError)"

definition deleteOutTransition :: "sec_ref \<Rightarrow> sec_ref \<Rightarrow> store \<Rightarrow> store res" where
  "deleteOutTransition c t h =
     (case c_body (sec h c) of
        StateSection ins outs al bs \<Rightarrow>
          rmap (\<lambda>outs'. upd_body c (\<lambda>_. StateSection ins outs' al bs) h) (list_remove t outs)
      | _ \<Rightarrow> Inl AttributeError)"

definition tran_label :: "store \<Rightarrow> sec_ref \<Rightarrow> string" where
  "tran_label h t = str_lval (c_labelName (sec h t))"

definition getTransitionsWithLabel :: "store \<Rightarrow> sec_ref \<Rightarrow> string \<Rightarrow> sec_ref list res" where
  "getTransitionsWithLabel h c label =
     (case c_body (sec h c) of
        StateSection ins outs al bs \<Rightarrow> Inr (filter (\<lambda>t. tran_label h t = label) outs)
      | _ \<Rightarrow> Inl AttributeError)"

text \<open>\<open>TransitionSection.__init__\<close> tells both states.\<close>

definition new_transition_section ::
  "string \<Rightarrow> sec_ref \<Rightarrow> sec_ref \<Rightarrow> lval \<Rightarrow> mod_ref \<Rightarrow> store \<Rightarrow> (sec_ref \<times> store) res" where
  "new_transition_section ty origin dest label m h =
     (let (t, h) = new_section m label (TransitionSection [] origin dest ty) h
      in rbind (addOutTransition origin t h) (\<lambda>h.
         rmap (Pair t) (addInTransition dest t h)))"

text \<open>\<open>StateSection.isNullState\<close> and \<open>TransitionSection.isEventTransition\<close>\<close>

definition section_isNullState :: "store \<Rightarrow> sec_ref \<Rightarrow> bool res" where
  "section_isNullState h c =
     (case (c_body (sec h c), c_symbol (sec h c)) of
        (StateSection _ _ _ _, Some s) \<Rightarrow> Inr (y_is_init_null_state (sym h s))
      | _ \<Rightarrow> Inl AttributeError)"

definition isEventTransition :: "store \<Rightarrow> sec_ref \<Rightarrow> bool res" where
  "isEventTransition h t =
     (case c_body (sec h t) of TransitionSection _ org _ _ \<Rightarrow> section_isNullState h org | _ \<Rightarrow> Inl AttributeError)"

text \<open>\<open>addAction\<close> of transitions and shared blocks, with the parent of the action\<close>

definition set_parent :: "sec_ref \<Rightarrow> sec_ref \<Rightarrow> store \<Rightarrow> store res" where
  "set_parent a c h =
     (case c_body (sec h a) of
        ActionSection text refs p oc \<Rightarrow> Inr (upd_body a (\<lambda>_. ActionSection text refs (Some c) oc) h)
      | _ \<Rightarrow> Inl AttributeError)"

definition section_addAction :: "sec_ref \<Rightarrow> sec_ref \<Rightarrow> store \<Rightarrow> store res" where
  "section_addAction c a h =
     (case c_body (sec h c) of
        TransitionSection as org dst ty \<Rightarrow>
          set_parent a c (upd_body c (\<lambda>_. TransitionSection (as @ [a]) org dst ty) h)
      | SharedBlockSection as sts \<Rightarrow> set_parent a c (upd_body c (\<lambda>_. SharedBlockSection (as @ [a]) sts) h)
      | _ \<Rightarrow> Inl AttributeError)"

text \<open>\<open>StateSection.linkBlockToState\<close> and \<open>SharedBlockSection.replaceLinkedState\<close>\<close>

definition addLinkedState :: "sec_ref \<Rightarrow> sec_ref \<Rightarrow> store \<Rightarrow> store res" where
  "addLinkedState b c h =
     (case c_body (sec h b) of
        SharedBlockSection as sts \<Rightarrow> Inr (upd_body b (\<lambda>_. SharedBlockSection as (sts @ [c])) h)
      | _ \<Rightarrow> Inl AttributeError)"

definition linkBlockToState :: "sec_ref \<Rightarrow> sec_ref \<Rightarrow> store \<Rightarrow> store res" where
  "linkBlockToState c b h =
     rbind (on_state c (\<lambda>x. StateSection (in_transitions x) (out_transitions x) (alphabet x)
              (linkedSharedBlocks x @ [b])) h)
       (addLinkedState b c)"

definition replaceLinkedState :: "sec_ref \<Rightarrow> sec_ref \<Rightarrow> sec_ref \<Rightarrow> store \<Rightarrow> store res" where
  "replaceLinkedState old new b h =
     (case c_body (sec h b) of
        SharedBlockSection as sts \<Rightarrow>
          rmap (\<lambda>sts'. upd_body b (\<lambda>_. SharedBlockSection as (sts' @ [new])) h) (list_remove old sts)
      | _ \<Rightarrow> Inl AttributeError)"

section \<open>Combination of sections\<close>

definition setDestination :: "sec_ref \<Rightarrow> sec_ref \<Rightarrow> store \<Rightarrow> store res" where
  "setDestination c t h =
     (case c_body (sec h t) of
        TransitionSection as org dst ty \<Rightarrow> Inr (upd_body t (\<lambda>_. TransitionSection as org c ty) h)
      | _ \<Rightarrow> Inl AttributeError)"

definition setOrigin :: "sec_ref \<Rightarrow> sec_ref \<Rightarrow> store \<Rightarrow> store res" where
  "setOrigin c t h =
     (case c_body (sec h t) of
        TransitionSection as org dst ty \<Rightarrow> Inr (upd_body t (\<lambda>_. TransitionSection as c dst ty) h)
      | _ \<Rightarrow> Inl AttributeError)"

text \<open>
  \<open>combineSection\<close>: states are merged, the other sections refuse with \<open>errorMsg\<close>. The lists of the
  other state are read again before each loop, as in the source, where the two may be the same.
\<close>

definition combineState :: "sec_ref \<Rightarrow> sec_ref \<Rightarrow> store \<Rightarrow> store res" where
  "combineState c d h =
     (let b = c_body (sec h c); o1 = c_body (sec h d);
          h1 = upd_body c (\<lambda>_. StateSection (in_transitions b @ in_transitions o1)
                 (out_transitions b @ out_transitions o1) (alphabet b) (linkedSharedBlocks b)) h
      in rbind (foldr_res (setDestination c) (in_transitions (c_body (sec h1 d))) h1) (\<lambda>h2.
         rbind (foldr_res (setOrigin c) (out_transitions (c_body (sec h2 d))) h2) (\<lambda>h3.
         let b3 = c_body (sec h3 c); o3 = c_body (sec h3 d);
             h4 = upd_body c (\<lambda>_. StateSection (in_transitions b3) (out_transitions b3)
                    (alphabet b3 @ alphabet o3) (linkedSharedBlocks b3 @ linkedSharedBlocks o3)) h3
         in foldr_res (replaceLinkedState d c) (linkedSharedBlocks (c_body (sec h4 d))) h4)))"

definition combineSection :: "sec_ref \<Rightarrow> sec_ref \<Rightarrow> store \<Rightarrow> store res" where
  "combineSection c d h =
     (case (c_body (sec h c), c_body (sec h d)) of
        (StateSection _ _ _ _, StateSection _ _ _ _) \<Rightarrow>
          if c_labelName (sec h c) = c_labelName (sec h d) then combineState c d h else Inl AssertionError
      | (StateSection _ _ _ _, StaticDataSection _ _) \<Rightarrow>
          Inl (if c_labelName (sec h c) = c_labelName (sec h d) then AttributeError else AssertionError)
      | (StateSection _ _ _ _, _) \<Rightarrow> Inl AttributeError
      | _ \<Rightarrow> Inl SysExit)"

section \<open>Names\<close>

text \<open>\<open>setLabelName\<close>: a transition changes its label only when it is an event.\<close>

definition setLabelName :: "sec_ref \<Rightarrow> string \<Rightarrow> store \<Rightarrow> store res" where
  "setLabelName c name h =
     (let set = upd_sec c (\<lambda>x. x\<lparr>c_labelName := LStr name\<rparr>) h
      in case c_body (sec h c) of
           TransitionSection _ _ _ _ \<Rightarrow> rmap (\<lambda>event. if event then set else h) (isEventTransition h c)
         | _ \<Rightarrow> Inr set)"

definition renameSymbol :: "string \<Rightarrow> string \<Rightarrow> sec_ref \<Rightarrow> store \<Rightarrow> store res" where
  "renameSymbol old new a h =
     (case c_body (sec h a) of
        ActionSection text refs p oc \<Rightarrow>
          Inr (upd_body a (\<lambda>_. ActionSection (rename_action old new text) refs p oc) h)
      | _ \<Rightarrow> Inl AttributeError)"

definition setName :: "sym_ref \<Rightarrow> string \<Rightarrow> store \<Rightarrow> store res" where
  "setName s name h =
     (let old = y_name (sym h s); h1 = upd_sym s (\<lambda>y. y\<lparr>y_name := name\<rparr>) h
      in rbind (case y_section (sym h1 s) of None \<Rightarrow> Inr h1 | Some c \<Rightarrow> setLabelName c name h1) (\<lambda>h2.
         foldr_res (renameSymbol old name) (y_used_in (sym h2 s)) h2))"

section \<open>Actions\<close>

definition isUnresolved :: "store \<Rightarrow> sec_ref \<Rightarrow> bool" where
  "isUnresolved h a = (\<not> list_all (\<lambda>s. isDefined (sym h s)) (referenceSymbols (c_body (sec h a))))"

definition getUnresolvedSymbols :: "store \<Rightarrow> sec_ref \<Rightarrow> sym_ref list" where
  "getUnresolvedSymbols h a = filter (\<lambda>s. \<not> isDefined (sym h s)) (referenceSymbols (c_body (sec h a)))"

definition on_action :: "sec_ref \<Rightarrow> (sym_ref list \<Rightarrow> sym_ref list) \<Rightarrow> store \<Rightarrow> store" where
  "on_action a f = upd_body a (\<lambda>b. ActionSection (action b) (f (referenceSymbols b)) (parentSection b) (act_opcode b))"

definition addReferenceSymbol :: "sec_ref \<Rightarrow> sym_ref \<Rightarrow> store \<Rightarrow> store" where
  "addReferenceSymbol a s = on_action a (\<lambda>refs. refs @ [s])"

definition replaceReferenceSymbol :: "sec_ref \<Rightarrow> sym_ref \<Rightarrow> store \<Rightarrow> store" where
  "replaceReferenceSymbol a new h =
     on_action a (map (\<lambda>s. if y_name (sym h s) = y_name (sym h new) then new else s)) h"

text \<open>\<open>_detectSymbols\<close>: the operands that are no register and no literal, then the label\<close>

definition is_symbol_operand :: "string \<Rightarrow> bool res" where
  "is_symbol_operand arg =
     (if isRegister arg \<or> isNumericLiteral arg \<noteq> None \<or> isReservedWord arg then Inr False
      else rmap Not (isStringLiteral arg))"

definition detectSymbols :: "string \<Rightarrow> string list res" where
  "detectSymbols text =
     rbind (getActionOperands text) (\<lambda>ops.
     rmap (\<lambda>symbols. symbols @ (case getTargetLabel text of None \<Rightarrow> [] | Some l \<Rightarrow> [l]))
       (foldr_res (\<lambda>arg acc. rmap (\<lambda>b. if b then acc @ [arg] else acc) (is_symbol_operand arg)) ops []))"

text \<open>\<open>finalize\<close>: each name is replaced once, in the order of the references.\<close>

definition finalize :: "store \<Rightarrow> sec_ref \<Rightarrow> string res" where
  "finalize h a =
     (if isUnresolved h a then Inl RaisedException
      else Inr (fold (\<lambda>s text. replace_first (y_name (sym h s)) (str_lval (y_id (sym h s))) text)
                  (referenceSymbols (c_body (sec h a))) (action (c_body (sec h a)))))"

end
