(* ===== verification/Link_Module.thy ===== *)
theory Link_Module imports Link_Store begin

text \<open>
  \<open>src/updown/linker/linker/LinkableModule.py\<close>: the table of symbols of a module, its null states,
  the resolution of the symbols of its actions, the merge of one module into another, the cleaning
  of names, the IDs and the addresses of static data. The texts it prints are in Link_Output.
\<close>

section \<open>The table of symbols\<close>

definition NULL_STATE_NAME :: string where
  "NULL_STATE_NAME = ''init_null_state''"

definition new_module :: "string \<Rightarrow> store \<Rightarrow> mod_ref \<times> store" where
  "new_module name h =
     (length (st_mods h),
      h\<lparr>st_mods := st_mods h @ [\<lparr>m_name = name, m_symbols = [], m_null_state = None, m_currentTransitionID = 0,
          m_currentSharedBlockSymbolID = 0, m_currentStateID = 0\<rparr>]\<rparr>)"

definition module_setName :: "mod_ref \<Rightarrow> string \<Rightarrow> store \<Rightarrow> store" where
  "module_setName m name = upd_mod m (\<lambda>x. x\<lparr>m_name := name\<rparr>)"

definition upd_symbols :: "mod_ref \<Rightarrow> ((string, sym_ref) dict \<Rightarrow> (string, sym_ref) dict) \<Rightarrow> store \<Rightarrow> store" where
  "upd_symbols m f = upd_mod m (\<lambda>x. x\<lparr>m_symbols := f (m_symbols x)\<rparr>)"

definition addSymbol :: "mod_ref \<Rightarrow> sym_ref \<Rightarrow> store \<Rightarrow> store" where
  "addSymbol m s h = upd_symbols m (dict_set (y_name (sym h s)) s) h"

definition del_symbol :: "mod_ref \<Rightarrow> string \<Rightarrow> store \<Rightarrow> store res" where
  "del_symbol m name h =
     (if in_dict name (m_symbols (modl h m)) then Inr (upd_symbols m (dict_del name) h) else Inl (KeyError name))"

definition removeSymbol :: "mod_ref \<Rightarrow> sym_ref \<Rightarrow> store \<Rightarrow> store res" where
  "removeSymbol m s h = del_symbol m (y_name (sym h s)) h"

definition symbols :: "store \<Rightarrow> mod_ref \<Rightarrow> sym_ref list" where
  "symbols h m = map snd (m_symbols (modl h m))"

definition getSymbol :: "store \<Rightarrow> mod_ref \<Rightarrow> string \<Rightarrow> sym_ref option" where
  "getSymbol h m name = map_of (m_symbols (modl h m)) name"

definition get_typed :: "symbol_type \<Rightarrow> store \<Rightarrow> mod_ref \<Rightarrow> string \<Rightarrow> sym_ref option" where
  "get_typed ty h m name =
     (case getSymbol h m name of None \<Rightarrow> None | Some s \<Rightarrow> if y_type (sym h s) = ty then Some s else None)"

definition getStateSymbol :: "store \<Rightarrow> mod_ref \<Rightarrow> string \<Rightarrow> sym_ref option" where
  "getStateSymbol = get_typed STATE"

definition getTransitionSymbol :: "store \<Rightarrow> mod_ref \<Rightarrow> string \<Rightarrow> sym_ref option" where
  "getTransitionSymbol = get_typed TRANSITION"

definition getSharedBlockSymbol :: "store \<Rightarrow> mod_ref \<Rightarrow> string \<Rightarrow> sym_ref option" where
  "getSharedBlockSymbol = get_typed SHARED_BLOCK"

definition getStaticDataSymbol :: "store \<Rightarrow> mod_ref \<Rightarrow> string \<Rightarrow> sym_ref option" where
  "getStaticDataSymbol = get_typed STATIC_DATA"

definition opt_section :: "store \<Rightarrow> sym_ref option \<Rightarrow> sec_ref option res" where
  "opt_section h so = (case so of None \<Rightarrow> Inr None | Some s \<Rightarrow> rmap Some (section_of h s))"

definition getStateSection :: "store \<Rightarrow> mod_ref \<Rightarrow> string \<Rightarrow> sec_ref option res" where
  "getStateSection h m name = opt_section h (getStateSymbol h m name)"

definition getTransitionSection :: "store \<Rightarrow> mod_ref \<Rightarrow> string \<Rightarrow> sec_ref option res" where
  "getTransitionSection h m name = opt_section h (getTransitionSymbol h m name)"

definition getSharedBlockSection :: "store \<Rightarrow> mod_ref \<Rightarrow> string \<Rightarrow> sec_ref option res" where
  "getSharedBlockSection h m name = opt_section h (getSharedBlockSymbol h m name)"

definition getStaticDataSection :: "store \<Rightarrow> mod_ref \<Rightarrow> string \<Rightarrow> sec_ref option res" where
  "getStaticDataSection h m name = opt_section h (getStaticDataSymbol h m name)"

text \<open>The symbols of a kind, in the order of the table\<close>

definition symbols_of :: "symbol_type \<Rightarrow> store \<Rightarrow> mod_ref \<Rightarrow> sym_ref list" where
  "symbols_of ty h m = filter (\<lambda>s. y_type (sym h s) = ty) (symbols h m)"

definition undefinedSymbols :: "store \<Rightarrow> mod_ref \<Rightarrow> sym_ref list" where
  "undefinedSymbols h m = filter (\<lambda>s. \<not> isDefined (sym h s)) (symbols h m)"

definition eventTransitionSymbols :: "store \<Rightarrow> mod_ref \<Rightarrow> sym_ref list res" where
  "eventTransitionSymbols h m =
     foldr_res (\<lambda>s acc. rbind (section_of h s) (\<lambda>c.
         rmap (\<lambda>b. if b then acc @ [s] else acc) (isEventTransition h c)))
       (symbols_of TRANSITION h m) []"

section \<open>Null states\<close>

definition nullState :: "store \<Rightarrow> mod_ref \<Rightarrow> sym_ref option" where
  "nullState h m = map_option last (m_null_state (modl h m))"

definition setNullState :: "mod_ref \<Rightarrow> sym_ref \<Rightarrow> store \<Rightarrow> store res" where
  "setNullState m s h =
     (let h1 = upd_mod m (\<lambda>x. x\<lparr>m_null_state := Some (case m_null_state x of None \<Rightarrow> [s] | Some l \<Rightarrow> l @ [s])\<rparr>) h;
          h2 = setIsNullState s True (setPrivate s False h1);
          h3 = upd_symbols m (dict_set NULL_STATE_NAME s) h2;
          old = y_name (sym h3 s)
      in if old \<noteq> NULL_STATE_NAME then rbind (setName s NULL_STATE_NAME h3) (del_symbol m old) else Inr h3)"

text \<open>Two symbols of null states are combined through their sections.\<close>

definition combine_symbols :: "sym_ref \<Rightarrow> sym_ref \<Rightarrow> store \<Rightarrow> store res" where
  "combine_symbols s t h =
     rbind (section_of h s) (\<lambda>c. rbind (section_of h t) (\<lambda>d. combineSection c d h))"

definition collapseNullStates :: "mod_ref \<Rightarrow> store \<Rightarrow> store res" where
  "collapseNullStates m h =
     (case m_null_state (modl h m) of None \<Rightarrow> Inl SysExit
      | Some l \<Rightarrow> if 1 < length l then foldr_res (combine_symbols (last l)) (butlast l) h else Inr h)"

section \<open>Resolution of symbols\<close>

text \<open>\<open>ActionSection.assignSymbols\<close>, first for fresh actions, then for what is left unresolved\<close>

definition assign_symbol :: "sec_ref \<Rightarrow> string \<Rightarrow> store \<Rightarrow> store" where
  "assign_symbol a name h =
     (let m = c_linkableModule (sec h a)
      in case getSymbol h m name of
           Some s \<Rightarrow> addUsedIn s a (addReferenceSymbol a s h)
         | None \<Rightarrow>
             let (s, h1) = new_symbol name UNKNOWN (Some a) h
             in addSymbol m s (setPrivate s False (addUsedIn s a (addReferenceSymbol a s h1))))"

definition resolve_symbol :: "bool \<Rightarrow> sec_ref \<Rightarrow> sym_ref \<Rightarrow> store \<Rightarrow> store res" where
  "resolve_symbol must_resolve a s h =
     (case getSymbol h (c_linkableModule (sec h a)) (y_name (sym h s)) of
        Some t \<Rightarrow> Inr (addUsedIn t a (replaceReferenceSymbol a t h))
      | None \<Rightarrow> if must_resolve then Inl SysExit else Inr h)"

definition action_assignSymbols :: "bool \<Rightarrow> bool \<Rightarrow> sec_ref \<Rightarrow> store \<Rightarrow> store res" where
  "action_assignSymbols unresolved must_resolve a h =
     (case c_body (sec h a) of
        ActionSection text _ _ _ \<Rightarrow>
          rbind (detectSymbols text) (\<lambda>names.
          if unresolved then foldr_res (resolve_symbol must_resolve a) (getUnresolvedSymbols h a) h
          else Inr (fold (assign_symbol a) names h))
      | _ \<Rightarrow> Inl AttributeError)"

definition assignSymbols :: "bool \<Rightarrow> bool \<Rightarrow> sec_ref \<Rightarrow> store \<Rightarrow> store res" where
  "assignSymbols unresolved must_resolve c h =
     (case c_body (sec h c) of
        TransitionSection as _ _ _ \<Rightarrow> foldr_res (action_assignSymbols unresolved must_resolve) as h
      | SharedBlockSection as _ \<Rightarrow> foldr_res (action_assignSymbols unresolved must_resolve) as h
      | ActionSection _ _ _ _ \<Rightarrow> action_assignSymbols unresolved must_resolve c h
      | _ \<Rightarrow> Inl AttributeError)"

definition has_actions :: "symbol \<Rightarrow> bool" where
  "has_actions y = (y_type y = TRANSITION \<or> y_type y = SHARED_BLOCK)"

definition resolve_one :: "bool \<Rightarrow> bool \<Rightarrow> sym_ref \<Rightarrow> store \<Rightarrow> store res" where
  "resolve_one unresolved must_resolve s h =
     (if has_actions (sym h s)
      then rbind (section_of h s) (\<lambda>c. assignSymbols unresolved must_resolve c h) else Inr h)"

definition resolveSymbols :: "bool \<Rightarrow> bool \<Rightarrow> mod_ref \<Rightarrow> store \<Rightarrow> store res" where
  "resolveSymbols unresolved must_resolve m h =
     rbind (collapseNullStates m h) (\<lambda>h1. foldr_res (resolve_one unresolved must_resolve) (symbols h1 m) h1)"

section \<open>Merging modules\<close>

text \<open>\<open>setLinkableModule\<close>: a section of a null state takes the null state of its new module as its
  symbol; transitions and shared blocks pass the module on to their actions.\<close>

definition set_module :: "mod_ref \<Rightarrow> sec_ref \<Rightarrow> store \<Rightarrow> store" where
  "set_module m c h =
     (let null = (case c_symbol (sec h c) of None \<Rightarrow> False
                  | Some s \<Rightarrow> y_type (sym h s) = STATE \<and> y_is_init_null_state (sym h s))
      in upd_sec c (\<lambda>x. x\<lparr>c_linkableModule := m, c_symbol := (if null then nullState h m else c_symbol x)\<rparr>) h)"

definition section_actions :: "body \<Rightarrow> sec_ref list" where
  "section_actions b =
     (case b of TransitionSection as _ _ _ \<Rightarrow> as | SharedBlockSection as _ \<Rightarrow> as | _ \<Rightarrow> [])"

definition setLinkableModule :: "mod_ref \<Rightarrow> sec_ref \<Rightarrow> store \<Rightarrow> store" where
  "setLinkableModule m c h =
     (let h1 = set_module m c h in fold (set_module m) (section_actions (c_body (sec h1 c))) h1)"

text \<open>The name under which a symbol of a module is exported\<close>

definition mangled :: "string \<Rightarrow> symbol \<Rightarrow> string" where
  "mangled modname y =
     (if y_private y \<and> \<not> contains_str (modname @ ''_'') (y_name y) then modname @ ''_'' @ y_name y else y_name y)"

definition add_module_symbol :: "mod_ref \<Rightarrow> mod_ref \<Rightarrow> sym_ref \<Rightarrow> store \<Rightarrow> store res" where
  "add_module_symbol m module s h =
     (if (case nullState h module of None \<Rightarrow> False | Some null \<Rightarrow> symbol_eq (sym h s) (sym h null)) then Inr h
      else
        let y = sym h s; name = mangled (m_name (modl h module)) y
        in rbind (if name = y_name y then Inr h
                  else if isDefined y then setName s name h else Inl AssertionError) (\<lambda>h1.
           if isDefined (sym h1 s) then
             rmap (\<lambda>c. setLinkableModule m c (upd_symbols m (dict_set name s) h1)) (section_of h1 s)
           else Inr h1))"

definition merge_null_state :: "mod_ref \<Rightarrow> mod_ref \<Rightarrow> store \<Rightarrow> store res" where
  "merge_null_state m module h =
     (case (nullState h m, nullState h module) of
        (_, None) \<Rightarrow> Inl SysExit
      | (None, Some t) \<Rightarrow> setNullState m t h
      | (Some s, Some t) \<Rightarrow> combine_symbols s t h)"

definition addLinkableModule :: "mod_ref \<Rightarrow> mod_ref \<Rightarrow> store \<Rightarrow> store res" where
  "addLinkableModule m module h =
     rbind (merge_null_state m module h) (\<lambda>h1.
     foldr_res (add_module_symbol m module) (symbols h1 module) h1)"

definition cleanSymbols :: "mod_ref \<Rightarrow> store \<Rightarrow> store res" where
  "cleanSymbols m h = foldr_res (\<lambda>s h. setName s (clean_name (y_name (sym h s))) h) (symbols h m) h"

section \<open>IDs and addresses\<close>

text \<open>The counters are those of states and of event transitions.\<close>

definition assign_id :: "sym_ref \<Rightarrow> store \<times> int \<times> int \<Rightarrow> (store \<times> int \<times> int) res" where
  "assign_id s hn =
     (let (h, stateID, transitionID) = hn; y = sym h s
      in case y_type y of
           STATE \<Rightarrow> Inr (setID s (LInt stateID) h, stateID + 1, transitionID)
         | TRANSITION \<Rightarrow>
             rbind (section_of h s) (\<lambda>c. rmap (\<lambda>event.
               if event then (setID s (LInt transitionID) h, stateID, transitionID + 1)
               else (setID s (c_labelName (sec h c)) h, stateID, transitionID)) (isEventTransition h c))
         | SHARED_BLOCK \<Rightarrow> Inr (setID s (LStr (y_name y)) h, stateID, transitionID)
         | BRANCH_LABEL \<Rightarrow> Inr (setID s (LStr (y_name y)) h, stateID, transitionID)
         | _ \<Rightarrow> Inr hn)"

definition assignIDs :: "mod_ref \<Rightarrow> store \<Rightarrow> store res" where
  "assignIDs m h = rmap fst (foldr_res assign_id (symbols h m) (h, 0, 0))"

text \<open>One static datum takes its place in the region of its kind; an address that is \<open>None\<close> cannot
  be advanced.\<close>

definition region_addr :: "staticDataType \<Rightarrow> base_addr \<Rightarrow> int option" where
  "region_addr ty = (case ty of LANE_PRIVATE \<Rightarrow> lane_private | UPDOWN_PRIVATE \<Rightarrow> updown_private
                      | DRAM_SHARED \<Rightarrow> dram_shared)"

definition set_region :: "staticDataType \<Rightarrow> int \<Rightarrow> base_addr \<Rightarrow> base_addr" where
  "set_region ty a b = (case ty of LANE_PRIVATE \<Rightarrow> b\<lparr>lane_private := Some a\<rparr>
     | UPDOWN_PRIVATE \<Rightarrow> b\<lparr>updown_private := Some a\<rparr> | DRAM_SHARED \<Rightarrow> b\<lparr>dram_shared := Some a\<rparr>)"

definition allocate_one :: "sym_ref \<Rightarrow> store \<times> base_addr \<Rightarrow> (store \<times> base_addr) res" where
  "allocate_one s hb =
     (let (h, b) = hb
      in if y_type (sym h s) = STATIC_DATA then
           rbind (section_of h s) (\<lambda>c.
           case c_body (sec h c) of
             StaticDataSection _ ty \<Rightarrow>
               (case region_addr ty b of None \<Rightarrow> Inl TypeError
                | Some a \<Rightarrow> Inr (setID s (LInt a) h, set_region ty (a + y_size (sym h s)) b))
           | _ \<Rightarrow> Inl AttributeError)
         else Inr hb)"

definition allocateStaticMemory :: "base_addr \<Rightarrow> mod_ref \<Rightarrow> store \<Rightarrow> store res" where
  "allocateStaticMemory baseAddr m h = rmap fst (foldr_res allocate_one (symbols h m) (h, baseAddr))"

end
