(* ===== verification/Link_Program.thy ===== *)
theory Link_Program imports Link_Module begin

text \<open>
  \<open>src/updown/linker/linker/EFAProgram.py\<close>: the calls with which a program builds its module. A
  program is Python code that gets a module and makes such calls; the wrapper objects \<open>state\<close> and
  \<open>Transition\<close> of the interface hold a module and a symbol and are named by the symbol here.
\<close>

section \<open>States, transitions and blocks\<close>

definition getNewStateID :: "mod_ref \<Rightarrow> store \<Rightarrow> int \<times> store" where
  "getNewStateID m h =
     (let h = upd_mod m (\<lambda>x. x\<lparr>m_currentStateID := m_currentStateID x + 1\<rparr>) h
      in (m_currentStateID (modl h m), h))"

definition getNewTransitionID :: "mod_ref \<Rightarrow> store \<Rightarrow> int \<times> store" where
  "getNewTransitionID m h =
     (let h = upd_mod m (\<lambda>x. x\<lparr>m_currentTransitionID := m_currentTransitionID x + 1\<rparr>) h
      in (m_currentTransitionID (modl h m), h))"

definition getNewSharedBlockSymbolID :: "mod_ref \<Rightarrow> store \<Rightarrow> int \<times> store" where
  "getNewSharedBlockSymbolID m h =
     (let h = upd_mod m (\<lambda>x. x\<lparr>m_currentSharedBlockSymbolID := m_currentSharedBlockSymbolID x + 1\<rparr>) h
      in (m_currentSharedBlockSymbolID (modl h m), h))"

text \<open>A new section gets its symbol, which enters the table.\<close>

definition add_with_section ::
  "mod_ref \<Rightarrow> string \<Rightarrow> symbol_type \<Rightarrow> bool \<Rightarrow> sec_ref \<Rightarrow> store \<Rightarrow> sym_ref \<times> store" where
  "add_with_section m name ty private c h =
     (let (s, h) = new_symbol name ty (Some c) h in (s, addSymbol m s (setPrivate s private h)))"

definition addState :: "mod_ref \<Rightarrow> string option \<Rightarrow> store \<Rightarrow> sym_ref \<times> store" where
  "addState m stateName h =
     (let (name, h) = (case stateName of
            None \<Rightarrow> (let (i, h) = getNewStateID m h in (''state'' @ py_str i, h))
          | Some name \<Rightarrow> (name, h));
          (c, h) = new_state_section name m h
      in add_with_section m name STATE True c h)"

definition create_transition_name :: "string \<Rightarrow> symbol \<Rightarrow> symbol \<Rightarrow> lval \<Rightarrow> string" where
  "create_transition_name ty sourceState targetState label =
     ty @ ''_'' @ y_name sourceState @ ''_'' @ y_name targetState @ ''_'' @ str_lval label"

definition addTransition ::
  "mod_ref \<Rightarrow> string \<Rightarrow> sym_ref option \<Rightarrow> sym_ref option \<Rightarrow> lval \<Rightarrow> store \<Rightarrow> (sym_ref \<times> store) res" where
  "addTransition m ty sourceState targetState label h =
     (case (case sourceState of None \<Rightarrow> nullState h m | s \<Rightarrow> s,
            case targetState of None \<Rightarrow> nullState h m | s \<Rightarrow> s) of
        (Some s, to) \<Rightarrow>
          let event = y_is_init_null_state (sym h s)
          in (case to of None \<Rightarrow> Inl AttributeError
              | Some t \<Rightarrow>
                rbind (section_of h s) (\<lambda>c. rbind (section_of h t) (\<lambda>d.
                rmap (\<lambda>(tran, h).
                    add_with_section m (if event then str_lval label
                      else create_transition_name ty (sym h s) (sym h t) label) TRANSITION (\<not> event) tran h)
                  (new_transition_section ty c d label m h))))
      | (None, _) \<Rightarrow> Inl AttributeError)"

definition addAction :: "mod_ref \<Rightarrow> string \<Rightarrow> sym_ref option \<Rightarrow> store \<Rightarrow> store res" where
  "addAction m text symbol h =
     (case symbol of None \<Rightarrow> Inl AttributeError
      | Some s \<Rightarrow>
        if \<not> has_actions (sym h s) then Inl AssertionError
        else
          rbind (new_action_section text m h) (\<lambda>(act, h).
          rbind (section_of h s) (\<lambda>c.
          rmap (\<lambda>h.
              case getTargetLabel text of None \<Rightarrow> h
              | Some label \<Rightarrow> snd (add_with_section m label BRANCH_LABEL True act h))
            (section_addAction c act h))))"

definition addActions :: "mod_ref \<Rightarrow> string list \<Rightarrow> sym_ref option \<Rightarrow> store \<Rightarrow> store res" where
  "addActions m texts symbol = foldr_res (\<lambda>text. addAction m text symbol) texts"

definition addSharedBlock :: "mod_ref \<Rightarrow> string \<Rightarrow> store \<Rightarrow> sym_ref \<times> store" where
  "addSharedBlock m name h =
     (let (c, h) = new_shared_block_section name m h in add_with_section m name SHARED_BLOCK False c h)"

definition addStaticData :: "mod_ref \<Rightarrow> string \<Rightarrow> int \<Rightarrow> staticDataType \<Rightarrow> store \<Rightarrow> sym_ref \<times> store" where
  "addStaticData m name n ty h =
     (let (c, h) = new_static_data_section name n ty m h in add_with_section m name STATIC_DATA False c h)"

section \<open>The interface of the emulator\<close>

text \<open>A state is given by nothing, by its name, or by the object that \<open>State\<close> returned: its symbol
  and the name that the symbol had then.\<close>

datatype state_arg = NoState | StateName string | StateObject sym_ref string

definition StateCall :: "mod_ref \<Rightarrow> string option \<Rightarrow> store \<Rightarrow> (state_arg \<times> store) res" where
  "StateCall m name h =
     (let (s, h) = addState m name h
      in rbind (section_of h s) (\<lambda>c. rmap (Pair (StateObject s (y_name (sym h s)))) (setAlphabet c [] h)))"

definition appendBlockAction :: "mod_ref \<Rightarrow> string \<Rightarrow> string \<Rightarrow> store \<Rightarrow> store res" where
  "appendBlockAction m name text h =
     (let (s, h) = (case getSharedBlockSymbol h m name of None \<Rightarrow> addSharedBlock m name h | Some s \<Rightarrow> (s, h))
      in addAction m text (Some s) h)"

definition linkBlocktoState :: "mod_ref \<Rightarrow> string \<Rightarrow> state_arg \<Rightarrow> store \<Rightarrow> store res" where
  "linkBlocktoState m blockName state h =
     (case (getSharedBlockSymbol h m blockName,
            case state of StateName name \<Rightarrow> getStateSymbol h m name | StateObject s _ \<Rightarrow> Some s | NoState \<Rightarrow> None) of
        (Some b, Some s) \<Rightarrow>
          rbind (section_of h s) (\<lambda>c. rbind (section_of h b) (\<lambda>d. linkBlockToState c d h))
      | _ \<Rightarrow> Inl SysExit)"

definition add_initId :: "mod_ref \<Rightarrow> state_arg \<Rightarrow> store \<Rightarrow> store res" where
  "add_initId m initId h =
     (case initId of
        NoState \<Rightarrow> Inl UnboundLocalError
      | StateName name \<Rightarrow> (case getStateSymbol h m name of None \<Rightarrow> Inl SysExit | Some s \<Rightarrow> setNullState m s h)
      | StateObject _ name \<Rightarrow> (case getStateSymbol h m name of None \<Rightarrow> Inl SysExit | Some s \<Rightarrow> setNullState m s h))"

definition state_arg_symbol :: "store \<Rightarrow> mod_ref \<Rightarrow> state_arg \<Rightarrow> sym_ref option res" where
  "state_arg_symbol h m state =
     (case state of
        NoState \<Rightarrow> Inr None
      | StateName name \<Rightarrow>
          (case getStateSymbol h m name of None \<Rightarrow> Inl AssertionError
           | Some s \<Rightarrow> if isDefined (sym h s) then Inr (Some s) else Inl AssertionError)
      | StateObject s _ \<Rightarrow> Inr (Some s))"

definition writeTransition ::
  "mod_ref \<Rightarrow> string \<Rightarrow> state_arg \<Rightarrow> state_arg \<Rightarrow> lval \<Rightarrow> store \<Rightarrow> (sym_ref \<times> store) res" where
  "writeTransition m ty source target label h =
     rbind (state_arg_symbol h m source) (\<lambda>s. rbind (state_arg_symbol h m target) (\<lambda>t.
     addTransition m ty s t label h))"

definition writeEventTransition :: "mod_ref \<Rightarrow> string \<Rightarrow> state_arg \<Rightarrow> lval \<Rightarrow> store \<Rightarrow> (sym_ref \<times> store) res" where
  "writeEventTransition m ty target label = writeTransition m ty NoState target label"

definition writeEvent :: "mod_ref \<Rightarrow> lval \<Rightarrow> store \<Rightarrow> (sym_ref \<times> store) res" where
  "writeEvent m label = writeEventTransition m ''eventCarry'' NoState label"

definition writeAction :: "mod_ref \<Rightarrow> sym_ref \<Rightarrow> string \<Rightarrow> store \<Rightarrow> store res" where
  "writeAction m tran text = addAction m text (Some tran)"

section \<open>Programs\<close>

text \<open>
  One call of a program on its module, as a relation between stores; a program is any sequence of
  calls, whatever Python computes in between. The wrapper object on which an action is written
  belongs to the module that made it.
\<close>

definition own :: "mod_ref \<Rightarrow> store \<Rightarrow> sym_ref \<Rightarrow> bool" where
  "own m h s =
     (s < length (st_syms h) \<and>
      (case y_section (sym h s) of None \<Rightarrow> False
       | Some c \<Rightarrow> c < length (st_secs h) \<and> c_linkableModule (sec h c) = m))"

inductive program_call :: "mod_ref \<Rightarrow> store \<Rightarrow> store \<Rightarrow> bool" for m where
  call_State: "StateCall m name h = Inr (st, h') \<Longrightarrow> program_call m h h'"
| call_alphabet: "s < length (st_syms h) \<Longrightarrow> section_of h s = Inr c \<Longrightarrow> setAlphabet c as h = Inr h' \<Longrightarrow> program_call m h h'"
| call_initId: "add_initId m st h = Inr h' \<Longrightarrow> program_call m h h'"
| call_writeTransition: "state_arg_symbol h m source = Inr s \<Longrightarrow> state_arg_symbol h m target = Inr t \<Longrightarrow>
    addTransition m ty s t label h = Inr (tr, h') \<Longrightarrow> program_call m h h'"
| call_addAction: "own m h s \<Longrightarrow> addAction m text (Some s) h = Inr h' \<Longrightarrow> program_call m h h'"
| call_appendBlockAction: "appendBlockAction m name text h = Inr h' \<Longrightarrow> program_call m h h'"
| call_linkBlocktoState: "linkBlocktoState m name st h = Inr h' \<Longrightarrow> program_call m h h'"
| call_addStaticData: "addStaticData m name n ty h = (s, h') \<Longrightarrow> program_call m h h'"

end
