(* ===== verification/Link_Output.thy ===== *)
theory Link_Output imports Link_Program begin

text \<open>
  The texts that the linker writes: \<open>LinkableModule.dumpPython\<close>, either a linkable module again or,
  finalized, the Python program that builds the EFA for the assembler, and \<open>dumpHeader\<close>, the C++
  header with the numbers of the events. Opening the files is left out.
\<close>

section \<open>Pieces of text\<close>

definition code_line :: "string \<Rightarrow> string" where
  "code_line s = replicate 4 CHR '' '' @ s @ [CHR 0x0A]"

definition concat_res :: "string res list \<Rightarrow> string res" where
  "concat_res ms = rmap concat (seq_res ms)"

text \<open>A list of labels as Python prints it\<close>

definition hex_digit :: "nat \<Rightarrow> char" where
  "hex_digit n = (if n < 10 then digit_chr n else char_of (n + 87))"

definition repr_char :: "char \<Rightarrow> char \<Rightarrow> string" where
  "repr_char q c =
     (let n = of_char c :: nat
      in if c = q \<or> n = 92 then [CHR 0x5C, c]
         else if n = 10 then [CHR 0x5C, CHR ''n''] else if n = 13 then [CHR 0x5C, CHR ''r'']
         else if n = 9 then [CHR 0x5C, CHR ''t'']
         else if n < 32 \<or> n = 127 then [CHR 0x5C, CHR ''x'', hex_digit (n div 16), hex_digit (n mod 16)]
         else [c])"

definition repr_str :: "string \<Rightarrow> string" where
  "repr_str s =
     (let q = (if CHR 0x27 \<in> set s \<and> CHR 0x22 \<notin> set s then CHR 0x22 else CHR 0x27)
      in q # concat (map (repr_char q) s) @ [q])"

fun repr_lval :: "lval \<Rightarrow> string" where
  "repr_lval (LInt i) = py_str i"
| "repr_lval (LStr s) = repr_str s"

fun comma_list :: "string list \<Rightarrow> string" where
  "comma_list [] = []"
| "comma_list [s] = s"
| "comma_list (s # ss) = s @ '', '' @ comma_list ss"

definition repr_list :: "lval list \<Rightarrow> string" where
  "repr_list ls = ''['' @ comma_list (map repr_lval ls) @ '']''"

text \<open>The variable of a state or a transition in a finalized program\<close>

definition var_id :: "symbol \<Rightarrow> string" where
  "var_id y = y_name y @ ''_'' @ str_lval (y_id y)"

definition var :: "bool \<Rightarrow> symbol \<Rightarrow> string" where
  "var final y = (if final then var_id y else y_name y)"

section \<open>The Python program\<close>

definition alphabet_of :: "store \<Rightarrow> sec_ref \<Rightarrow> lval list res" where
  "alphabet_of h c = (case c_body (sec h c) of StateSection _ _ al _ \<Rightarrow> Inr al | _ \<Rightarrow> Inl AttributeError)"

definition dump_state :: "bool \<Rightarrow> store \<Rightarrow> sym_ref \<Rightarrow> string res" where
  "dump_state final h s =
     rbind (section_of h s) (\<lambda>c. rmap (\<lambda>al.
       let y = sym h s; v = var final y
       in (if final then
             code_line (''## '' @ y_name y @ '' with ID '' @ str_lval (y_id y)) @ code_line (v @ '' = State()'')
           else
             code_line (''## '' @ v) @ code_line (v @ '' = efa.State('' @ [CHR 0x22] @ v @ [CHR 0x22] @ '')'')) @
          code_line (''efa.add_state('' @ v @ '')'') @
          (if al = [] then [] else code_line (v @ ''.alphabet = '' @ repr_list al)) @
          (if y_is_init_null_state y then code_line (''efa.add_initId('' @ v @ ''.state_id)'') else []))
       (alphabet_of h c))"

fun data_type_name :: "staticDataType \<Rightarrow> string" where
  "data_type_name LANE_PRIVATE = ''staticDataType.LANE_PRIVATE''"
| "data_type_name UPDOWN_PRIVATE = ''staticDataType.UPDOWN_PRIVATE''"
| "data_type_name DRAM_SHARED = ''staticDataType.DRAM_SHARED''"

definition dump_static_data :: "bool \<Rightarrow> store \<Rightarrow> sym_ref \<Rightarrow> string res" where
  "dump_static_data final h s =
     (if final then Inr []
      else rbind (section_of h s) (\<lambda>c.
        case c_body (sec h c) of
          StaticDataSection n ty \<Rightarrow>
            (let name = str_lval (c_labelName (sec h c))
             in Inr (code_line (''## '' @ name @ '' of size '' @ py_str n) @
                     code_line (''efa.addStaticData('' @ [CHR 0x27] @ name @ [CHR 0x27] @ '', '' @ py_str n @
                       '', '' @ data_type_name ty @ '')'')))
        | _ \<Rightarrow> Inl AttributeError))"

definition section_type :: "store \<Rightarrow> sec_ref \<Rightarrow> string res" where
  "section_type h c = (case c_body (sec h c) of TransitionSection _ _ _ ty \<Rightarrow> Inr ty | _ \<Rightarrow> Inl AttributeError)"

definition dump_event_name :: "bool \<Rightarrow> store \<Rightarrow> sym_ref \<Rightarrow> string res" where
  "dump_event_name final h s =
     (if \<not> final then Inr []
      else rbind (section_of h s) (\<lambda>c. rmap (\<lambda>ty.
        if ty = ''eventCarry'' then
          code_line (''efa.add_name('' @ str_lval (y_id (sym h s)) @ '', '' @ [CHR 0x27] @ y_name (sym h s) @ [CHR 0x27] @ '')'')
        else []) (section_type h c)))"

definition state_symbol :: "store \<Rightarrow> sec_ref \<Rightarrow> sym_ref res" where
  "state_symbol h c = (case c_symbol (sec h c) of None \<Rightarrow> Inl AssertionError | Some s \<Rightarrow> Inr s)"

text \<open>An ID of digits is printed as a number, any other between quotes.\<close>

definition numeric_id :: "lval \<Rightarrow> bool" where
  "numeric_id i = (case i of LInt _ \<Rightarrow> True | LStr s \<Rightarrow> s \<noteq> [] \<and> list_all is_digit s)"

definition label_text :: "bool \<Rightarrow> bool \<Rightarrow> symbol \<Rightarrow> string \<Rightarrow> string" where
  "label_text final event y label =
     (if \<not> final then [CHR 0x22] @ label @ [CHR 0x22]
      else if event \<or> numeric_id (y_id y) then str_lval (y_id y)
      else [CHR 0x27] @ str_lval (y_id y) @ [CHR 0x27])"

definition dump_action :: "bool \<Rightarrow> store \<Rightarrow> string \<Rightarrow> sec_ref \<Rightarrow> string res" where
  "dump_action final h call a =
     rmap (\<lambda>text. code_line (call @ [CHR 0x22] @ text @ [CHR 0x22] @ '')''))
       (if final then finalize h a
        else case c_body (sec h a) of ActionSection text _ _ _ \<Rightarrow> Inr text | _ \<Rightarrow> Inl AttributeError)"

definition dump_transition :: "bool \<Rightarrow> store \<Rightarrow> sym_ref \<Rightarrow> string res" where
  "dump_transition final h s =
     rbind (section_of h s) (\<lambda>c.
     case c_body (sec h c) of
       TransitionSection as org dst ty \<Rightarrow>
         rbind (state_symbol h org) (\<lambda>f. rbind (state_symbol h dst) (\<lambda>t.
         rbind (if final then isEventTransition h c else Inr False) (\<lambda>event.
         let y = sym h s; from = var final (sym h f); to = var final (sym h t)
         in concat_res
              (Inr (code_line (''## '' @ y_name y @ (if final then '' with ID '' @ str_lval (y_id y) else [])) @
                    code_line (var final y @ '' = '' @ from @ ''.writeTransition('' @ [CHR 0x22] @ ty @ [CHR 0x22] @
                      '', '' @ from @ '', '' @ to @ '', '' @ label_text final event y (tran_label h c) @ '')'')) #
               map (dump_action final h (var final y @ ''.writeAction('')) as @
               [Inr [CHR 0x0A]]))))
     | _ \<Rightarrow> Inl AttributeError)"

definition dump_block :: "bool \<Rightarrow> store \<Rightarrow> sym_ref \<Rightarrow> string res" where
  "dump_block final h s =
     rbind (section_of h s) (\<lambda>c.
     case c_body (sec h c) of
       SharedBlockSection as sts \<Rightarrow>
         (let name = y_name (sym h s); quoted = [CHR 0x22] @ name @ [CHR 0x22]
          in concat_res
               (Inr (code_line (''## '' @ name)) #
                map (dump_action final h (''efa.appendBlockAction('' @ quoted @ '', '')) as @
                map (\<lambda>st. rmap (\<lambda>q. code_line (''efa.linkBlocktoState('' @ quoted @ '', '' @ var final (sym h q) @ '')''))
                        (state_symbol h st)) sts))
     | _ \<Rightarrow> Inl AttributeError)"

definition dump_main :: "bool \<Rightarrow> string \<Rightarrow> string" where
  "dump_main final name =
     (if final then ''def main():'' @ [CHR 0x0A] @ code_line ''efa = EFA([])'' @
        code_line (''efa.code_level = '' @ [CHR 0x27] @ ''machine'' @ [CHR 0x27]) @
        code_line (''efaProgram_'' @ name @ ''(efa)'') @ code_line ''return efa''
      else [])"

definition python_head :: "bool \<Rightarrow> string \<Rightarrow> string" where
  "python_head final name =
     (if final then ''from EFA_v2 import EFA, State, Transition'' @ [CHR 0x0A, CHR 0x0A]
      else ''from linker.EFAProgram import efaProgram'' @ [CHR 0x0A] @
        ''from linker.EFAsections.StaticDataSection import staticDataType'' @ [CHR 0x0A, CHR 0x0A] @
        ''@efaProgram'' @ [CHR 0x0A]) @
     ''def efaProgram_'' @ name @ ''(efa):'' @ [CHR 0x0A, CHR 0x0A]"

definition dumpPython :: "bool \<Rightarrow> store \<Rightarrow> mod_ref \<Rightarrow> string res" where
  "dumpPython final h m =
     (let nl = [CHR 0x0A]; name = m_name (modl h m); trans = symbols_of TRANSITION h m
      in rmap (\<lambda>efaProgram. strip (python_head final name @ efaProgram @ nl))
           (concat_res
             (map (dump_state final h) (symbols_of STATE h m) @ [Inr nl] @
              map (dump_static_data final h) (symbols_of STATIC_DATA h m) @
              [Inr (code_line ''## Add event ids and names:'')] @
              map (dump_event_name final h) trans @ [Inr nl] @
              map (dump_transition final h) trans @
              map (dump_block final h) (symbols_of SHARED_BLOCK h m) @
              [Inr (nl @ nl @ dump_main final name)])))"

section \<open>The header\<close>

definition event_line :: "symbol \<Rightarrow> string" where
  "event_line y = code_line (''constexpr EventSymbol '' @ y_name y @ '' = '' @ str_lval (y_id y) @ '';'')"

definition dumpHeader :: "store \<Rightarrow> mod_ref \<Rightarrow> string res" where
  "dumpHeader h m =
     (let nl = [CHR 0x0A]; name = m_name (modl h m)
      in rmap (\<lambda>events. strip (''#ifndef __'' @ name @ ''_H__'' @ nl @ ''#define __'' @ name @ ''_H__'' @ nl @ nl @
             ''namespace '' @ name @ '' {'' @ nl @ nl @ code_line ''typedef unsigned int EventSymbol;'' @ nl @
             concat (map (\<lambda>s. event_line (sym h s)) events) @ nl @ ''} // namespace'' @ nl @ nl @ ''#endif'' @ nl))
           (eventTransitionSymbols h m))"

end
