(* ===== verification/Link_Main.thy ===== *)
theory Link_Main imports Link_Output begin

text \<open>
  \<open>src/updown/linker/EFAlinker.py\<close>: a linker loads its modules by running the programs of the
  registered classes, links them into one module, and writes it. The programs are Python methods
  and appear as functions on the store; files and the import of Python modules are left out.
\<close>

record efa_class =
  ec_name :: string
  ec_programs :: "(mod_ref \<Rightarrow> store \<Rightarrow> store res) list"

record efa_linker =
  l_linkableModules :: "mod_ref list"
  l_resultLinkableModule :: mod_ref
  l_base_address :: base_addr

definition EFAlinker :: "string \<Rightarrow> base_addr \<Rightarrow> store \<Rightarrow> efa_linker \<times> store" where
  "EFAlinker outputName base h =
     (let (m, h) = new_module outputName h
      in (\<lparr>l_linkableModules = [], l_resultLinkableModule = m, l_base_address = base\<rparr>, h))"

text \<open>\<open>loadSymbols\<close>\<close>

definition load_class :: "efa_class \<Rightarrow> efa_linker \<times> store \<Rightarrow> (efa_linker \<times> store) res" where
  "load_class c lh =
     (let (l, h) = lh; (m, h) = new_module (ec_name c) h
      in rbind (foldr_res (\<lambda>program. program m) (ec_programs c) h) (\<lambda>h.
         rbind (resolveSymbols False True m h) (\<lambda>h.
         rmap (Pair (l\<lparr>l_linkableModules := l_linkableModules l @ [m]\<rparr>)) (cleanSymbols m h))))"

definition loadSymbols :: "efa_class list \<Rightarrow> efa_linker \<times> store \<Rightarrow> (efa_linker \<times> store) res" where
  "loadSymbols classes = foldr_res load_class classes"

definition link :: "bool \<Rightarrow> efa_linker \<Rightarrow> store \<Rightarrow> store res" where
  "link must_resolve l h =
     rbind (foldr_res (addLinkableModule (l_resultLinkableModule l)) (l_linkableModules l) h)
       (resolveSymbols True must_resolve (l_resultLinkableModule l))"

definition linker_dumpPython :: "bool \<Rightarrow> efa_linker \<Rightarrow> store \<Rightarrow> (string \<times> store) res" where
  "linker_dumpPython final l h =
     (let m = l_resultLinkableModule l
      in rbind (if final then rbind (allocateStaticMemory (l_base_address l) m h) (assignIDs m) else Inr h) (\<lambda>h.
         rmap (\<lambda>text. (text, h)) (dumpPython final h m)))"

text \<open>\<open>linkerMain\<close> on the classes that the loaded files register: the text of the Python file and
  of the header, where they are written; the format \<open>raw\<close> only prints the modules.\<close>

definition linkerMain ::
  "string \<Rightarrow> string \<Rightarrow> string \<Rightarrow> bool \<Rightarrow> efa_class list \<Rightarrow> (string option \<times> string option) res" where
  "linkerMain base_address output format no_header classes =
     rbind (interpretAddress base_address) (\<lambda>base_addr.
     let (base_path, base_name, clean_name) = nameCleanUp output;
         (l, h) = EFAlinker clean_name base_addr \<lparr>st_syms = [], st_secs = [], st_mods = []\<rparr>;
         format = lower format; final = (format = ''efa'')
     in rbind (loadSymbols classes (l, h)) (\<lambda>(l, h).
        rbind (link final l h) (\<lambda>h.
        if \<not> final \<and> format \<noteq> ''linkable-module'' then Inr (None, None)
        else
          rbind (linker_dumpPython final l h) (\<lambda>(text, h).
          if final \<and> \<not> no_header then rmap (\<lambda>t. (Some text, Some t)) (dumpHeader h (l_resultLinkableModule l))
          else Inr (Some text, None)))))"

end
