(* ===== verification/Link_Views.thy ===== *)
theory Link_Views imports Link_Main begin

text \<open>
  Views of the store of the linker: the parts of its objects that the invariants speak about, each
  as a list. Every operation leaves most views alone and changes the others in one place, so an
  invariant that is stated over views follows by rewriting.
\<close>

named_theorems view_simps \<open>what an operation does to the views\<close>

section \<open>The views\<close>

definition kinds :: "store \<Rightarrow> (symbol_type \<times> sec_ref option \<times> int) list" where
  "kinds h = map (\<lambda>y. (y_type y, y_section y, y_size y)) (st_syms h)"

definition names :: "store \<Rightarrow> string list" where
  "names h = map y_name (st_syms h)"

definition owners :: "store \<Rightarrow> mod_ref list" where
  "owners h = map c_linkableModule (st_secs h)"

definition act_lists :: "store \<Rightarrow> sec_ref list list" where
  "act_lists h = map (section_actions \<circ> c_body) (st_secs h)"

definition tables :: "store \<Rightarrow> (string, sym_ref) dict list" where
  "tables h = map m_symbols (st_mods h)"

definition nulls :: "store \<Rightarrow> sym_ref list option list" where
  "nulls h = map m_null_state (st_mods h)"

definition modnames :: "store \<Rightarrow> string list" where
  "modnames h = map m_name (st_mods h)"

text \<open>What never changes once an object is made\<close>

definition shape where
  "shape h = (kinds h, act_lists h, modnames h)"

lemma shape_parts:
  "shape h' = shape h \<longleftrightarrow> kinds h' = kinds h \<and> act_lists h' = act_lists h \<and> modnames h' = modnames h"
  by (simp add: shape_def)

lemma view_lengths [simp]:
  "length (kinds h) = length (st_syms h)" "length (names h) = length (st_syms h)"
  "length (owners h) = length (st_secs h)" "length (act_lists h) = length (st_secs h)"
  "length (tables h) = length (st_mods h)" "length (nulls h) = length (st_mods h)"
  "length (modnames h) = length (st_mods h)"
  by (simp_all add: kinds_def names_def owners_def act_lists_def tables_def nulls_def modnames_def)

lemma view_nth:
  "s < length (st_syms h) \<Longrightarrow> kinds h ! s = (y_type (sym h s), y_section (sym h s), y_size (sym h s))"
  "s < length (st_syms h) \<Longrightarrow> names h ! s = y_name (sym h s)"
  "c < length (st_secs h) \<Longrightarrow> owners h ! c = c_linkableModule (sec h c)"
  "c < length (st_secs h) \<Longrightarrow> act_lists h ! c = section_actions (c_body (sec h c))"
  "m < length (st_mods h) \<Longrightarrow> tables h ! m = m_symbols (modl h m)"
  "m < length (st_mods h) \<Longrightarrow> nulls h ! m = m_null_state (modl h m)"
  "m < length (st_mods h) \<Longrightarrow> modnames h ! m = m_name (modl h m)"
  by (simp_all add: kinds_def names_def owners_def act_lists_def tables_def nulls_def modnames_def)

lemma shape_lengths:
  assumes "shape h' = shape h"
  shows "length (st_syms h') = length (st_syms h)" "length (st_secs h') = length (st_secs h)"
    "length (st_mods h') = length (st_mods h)"
  using assms view_lengths unfolding shape_parts by metis+

section \<open>Updates of one object\<close>

lemma map_list_update_same: "f y = f (xs ! i) \<Longrightarrow> map f (xs[i := y]) = map f xs"
  by (cases "i < length xs") (simp_all add: map_update list_update_same_conv list_update_beyond not_less)

lemma stores_of_updates [simp]:
  "st_secs (upd_sym s f h) = st_secs h" "st_mods (upd_sym s f h) = st_mods h"
  "st_syms (upd_sec c g h) = st_syms h" "st_mods (upd_sec c g h) = st_mods h"
  "st_syms (upd_mod m k h) = st_syms h" "st_secs (upd_mod m k h) = st_secs h"
  "length (st_syms (upd_sym s f h)) = length (st_syms h)"
  "length (st_secs (upd_sec c g h)) = length (st_secs h)"
  "length (st_mods (upd_mod m k h)) = length (st_mods h)"
  by (simp_all add: upd_sym_def upd_sec_def upd_mod_def)

lemma sym_upd_sym: "sym (upd_sym s f h) t = (if t = s \<and> s < length (st_syms h) then f (sym h s) else sym h t)"
  by (auto simp: upd_sym_def nth_list_update list_update_beyond not_less)

lemma sec_upd_sec: "sec (upd_sec c f h) d = (if d = c \<and> c < length (st_secs h) then f (sec h c) else sec h d)"
  by (auto simp: upd_sec_def nth_list_update list_update_beyond not_less)

lemma mod_upd_mod: "modl (upd_mod m f h) n = (if n = m \<and> m < length (st_mods h) then f (modl h m) else modl h n)"
  by (auto simp: upd_mod_def nth_list_update list_update_beyond not_less)

text \<open>The views of an update\<close>

lemma views_upd_sym [view_simps]:
  "owners (upd_sym s f h) = owners h" "act_lists (upd_sym s f h) = act_lists h"
  "tables (upd_sym s f h) = tables h" "nulls (upd_sym s f h) = nulls h" "modnames (upd_sym s f h) = modnames h"
  by (simp_all add: owners_def act_lists_def tables_def nulls_def modnames_def)

lemma views_upd_sec [view_simps]:
  "kinds (upd_sec c f h) = kinds h" "names (upd_sec c f h) = names h"
  "tables (upd_sec c f h) = tables h" "nulls (upd_sec c f h) = nulls h" "modnames (upd_sec c f h) = modnames h"
  by (simp_all add: kinds_def names_def tables_def nulls_def modnames_def)

lemma views_upd_mod [view_simps]:
  "kinds (upd_mod m f h) = kinds h" "names (upd_mod m f h) = names h"
  "owners (upd_mod m f h) = owners h" "act_lists (upd_mod m f h) = act_lists h"
  by (simp_all add: kinds_def names_def owners_def act_lists_def)

lemma kinds_upd_sym:
  "(\<And>y. y_type (f y) = y_type y \<and> y_section (f y) = y_section y \<and> y_size (f y) = y_size y) \<Longrightarrow>
   kinds (upd_sym s f h) = kinds h"
  by (simp add: kinds_def upd_sym_def map_list_update_same)

lemma names_upd_sym: "(\<And>y. y_name (f y) = y_name y) \<Longrightarrow> names (upd_sym s f h) = names h"
  by (simp add: names_def upd_sym_def map_list_update_same)

lemma owners_upd_sec: "(\<And>x. c_linkableModule (f x) = c_linkableModule x) \<Longrightarrow> owners (upd_sec c f h) = owners h"
  by (simp add: owners_def upd_sec_def map_list_update_same)

lemma act_lists_upd_sec:
  "section_actions (c_body (f (sec h c))) = section_actions (c_body (sec h c)) \<Longrightarrow> act_lists (upd_sec c f h) = act_lists h"
  by (simp add: act_lists_def upd_sec_def map_list_update_same)

lemma tables_upd_mod: "(\<And>x. m_symbols (f x) = m_symbols x) \<Longrightarrow> tables (upd_mod m f h) = tables h"
  by (simp add: tables_def upd_mod_def map_list_update_same)

lemma nulls_upd_mod: "(\<And>x. m_null_state (f x) = m_null_state x) \<Longrightarrow> nulls (upd_mod m f h) = nulls h"
  by (simp add: nulls_def upd_mod_def map_list_update_same)

lemma modnames_upd_mod: "(\<And>x. m_name (f x) = m_name x) \<Longrightarrow> modnames (upd_mod m f h) = modnames h"
  by (simp add: modnames_def upd_mod_def map_list_update_same)

section \<open>Symbols\<close>

lemma views_flags [view_simps]:
  "kinds (setIsNullState s b h) = kinds h" "names (setIsNullState s b h) = names h"
  "owners (setIsNullState s b h) = owners h" "act_lists (setIsNullState s b h) = act_lists h"
  "tables (setIsNullState s b h) = tables h" "nulls (setIsNullState s b h) = nulls h"
  "modnames (setIsNullState s b h) = modnames h"
  by (simp_all add: setIsNullState_def view_simps kinds_upd_sym names_upd_sym)

lemma views_setPrivate [view_simps]:
  "kinds (setPrivate s b h) = kinds h" "names (setPrivate s b h) = names h"
  "owners (setPrivate s b h) = owners h" "act_lists (setPrivate s b h) = act_lists h"
  "tables (setPrivate s b h) = tables h" "nulls (setPrivate s b h) = nulls h"
  "modnames (setPrivate s b h) = modnames h"
  by (simp_all add: setPrivate_def view_simps kinds_upd_sym names_upd_sym)

lemma views_setID [view_simps]:
  "kinds (setID s i h) = kinds h" "names (setID s i h) = names h"
  "owners (setID s i h) = owners h" "act_lists (setID s i h) = act_lists h"
  "tables (setID s i h) = tables h" "nulls (setID s i h) = nulls h" "modnames (setID s i h) = modnames h"
  by (simp_all add: setID_def view_simps kinds_upd_sym names_upd_sym)

lemma views_addUsedIn [view_simps]:
  "kinds (addUsedIn s c h) = kinds h" "names (addUsedIn s c h) = names h"
  "owners (addUsedIn s c h) = owners h" "act_lists (addUsedIn s c h) = act_lists h"
  "tables (addUsedIn s c h) = tables h" "nulls (addUsedIn s c h) = nulls h"
  "modnames (addUsedIn s c h) = modnames h"
  by (simp_all add: addUsedIn_def view_simps kinds_upd_sym names_upd_sym)

lemma views_upd_symbols [view_simps]:
  "kinds (upd_symbols m f h) = kinds h" "names (upd_symbols m f h) = names h"
  "owners (upd_symbols m f h) = owners h" "act_lists (upd_symbols m f h) = act_lists h"
  "nulls (upd_symbols m f h) = nulls h" "modnames (upd_symbols m f h) = modnames h"
  "tables (upd_symbols m f h) = (tables h)[m := f (tables h ! m)]"
  by (simp_all add: upd_symbols_def view_simps nulls_upd_mod modnames_upd_mod)
    (cases "m < length (st_mods h)"; simp add: tables_def upd_mod_def map_update list_update_beyond not_less)

section \<open>Sections\<close>

text \<open>An operation that leaves every view alone\<close>

definition views where
  "views h = (shape h, names h, owners h, tables h, nulls h)"

lemma views_parts:
  "views h' = views h \<longleftrightarrow> shape h' = shape h \<and> names h' = names h \<and> owners h' = owners h \<and>
     tables h' = tables h \<and> nulls h' = nulls h"
  by (simp add: views_def)

lemma views_upd_body:
  assumes "c < length (st_secs h) \<Longrightarrow> section_actions (f (c_body (sec h c))) = section_actions (c_body (sec h c))"
  shows "views (upd_body c f h) = views h"
proof (cases "c < length (st_secs h)")
  case True
  then show ?thesis using assms by (simp add: views_parts shape_parts view_simps owners_upd_sec act_lists_upd_sec)
next
  case False
  then show ?thesis by (simp add: upd_sec_def list_update_beyond)
qed

lemma foldr_res_keeps:
  assumes "foldr_res f xs s = Inr s'" and "\<And>x s s'. x \<in> set xs \<Longrightarrow> f x s = Inr s' \<Longrightarrow> v s' = v s"
  shows "v s' = v s"
  using foldr_res_invariant [OF assms(1), of "\<lambda>t. v t = v s"] assms(2) by auto

lemma on_state_views:
  assumes "on_state c f h = Inr h'" and "\<And>b. section_actions (f b) = []"
  shows "views h' = views h"
  using assms by (auto simp: on_state_def section_actions_def intro!: views_upd_body split: body.splits)

lemma setDestination_views: "setDestination c t h = Inr h' \<Longrightarrow> views h' = views h"
  by (auto simp: setDestination_def section_actions_def intro!: views_upd_body split: body.splits)

lemma setOrigin_views: "setOrigin c t h = Inr h' \<Longrightarrow> views h' = views h"
  by (auto simp: setOrigin_def section_actions_def intro!: views_upd_body split: body.splits)

lemma replaceLinkedState_views: "replaceLinkedState c d b h = Inr h' \<Longrightarrow> views h' = views h"
  by (auto simp: replaceLinkedState_def section_actions_def rmap_Inr_iff intro!: views_upd_body split: body.splits)

lemma addLinkedState_views: "addLinkedState b c h = Inr h' \<Longrightarrow> views h' = views h"
  by (auto simp: addLinkedState_def section_actions_def intro!: views_upd_body split: body.splits)

lemma linkBlockToState_views: "linkBlockToState c b h = Inr h' \<Longrightarrow> views h' = views h"
  unfolding linkBlockToState_def rbind_Inr_iff
  by (auto dest!: addLinkedState_views on_state_views simp: section_actions_def)

text \<open>Every lemma about a loop of such operations\<close>

lemma foldr_res_views:
  assumes "foldr_res f xs h = Inr h'" and "\<And>x h h'. f x h = Inr h' \<Longrightarrow> views h' = views h"
  shows "views h' = views h"
  using foldr_res_keeps [OF assms(1)] assms(2) by blast

lemma views_lengths:
  assumes "views h' = views h"
  shows "length (st_syms h') = length (st_syms h)" "length (st_secs h') = length (st_secs h)"
    "length (st_mods h') = length (st_mods h)"
proof -
  have "shape h' = shape h" using assms by (simp add: views_parts)
  then show "length (st_syms h') = length (st_syms h)" "length (st_secs h') = length (st_secs h)"
    "length (st_mods h') = length (st_mods h)" by (rule shape_lengths)+
qed

lemma views_actions:
  assumes "views h' = views h" and "c < length (st_secs h)"
  shows "section_actions (c_body (sec h' c)) = section_actions (c_body (sec h c))"
proof -
  have "act_lists h' = act_lists h" using assms(1) by (simp add: views_parts shape_parts)
  moreover have "c < length (st_secs h')" using assms(2) views_lengths(2) [OF assms(1)] by simp
  ultimately show ?thesis using view_nth(4) [OF assms(2)] view_nth(4) [of c h'] by simp
qed

lemma combineState_views:
  assumes c: "combineState c d h = Inr h'" and s: "section_actions (c_body (sec h c)) = []"
  shows "views h' = views h"
proof -
  define h1 where "h1 = upd_body c (\<lambda>_. StateSection (in_transitions (c_body (sec h c)) @ in_transitions (c_body (sec h d)))
    (out_transitions (c_body (sec h c)) @ out_transitions (c_body (sec h d)))
    (alphabet (c_body (sec h c))) (linkedSharedBlocks (c_body (sec h c)))) h"
  obtain h2 where 2: "foldr_res (setDestination c) (in_transitions (c_body (sec h1 d))) h1 = Inr h2"
    and c2: "rbind (foldr_res (setOrigin c) (out_transitions (c_body (sec h2 d))) h2) (\<lambda>h3.
         let b3 = c_body (sec h3 c); o3 = c_body (sec h3 d);
             h4 = upd_body c (\<lambda>_. StateSection (in_transitions b3) (out_transitions b3)
                    (alphabet b3 @ alphabet o3) (linkedSharedBlocks b3 @ linkedSharedBlocks o3)) h3
         in foldr_res (replaceLinkedState d c) (linkedSharedBlocks (c_body (sec h4 d))) h4) = Inr h'"
    using c unfolding combineState_def Let_def h1_def [symmetric] rbind_Inr_iff by blast
  obtain h3 where 3: "foldr_res (setOrigin c) (out_transitions (c_body (sec h2 d))) h2 = Inr h3"
    using c2 unfolding rbind_Inr_iff by blast
  define h4 where "h4 = upd_body c (\<lambda>_. StateSection (in_transitions (c_body (sec h3 c))) (out_transitions (c_body (sec h3 c)))
    (alphabet (c_body (sec h3 c)) @ alphabet (c_body (sec h3 d)))
    (linkedSharedBlocks (c_body (sec h3 c)) @ linkedSharedBlocks (c_body (sec h3 d)))) h3"
  have 4: "foldr_res (replaceLinkedState d c) (linkedSharedBlocks (c_body (sec h4 d))) h4 = Inr h'"
    using c2 3 unfolding h4_def by (simp add: Let_def)
  have 1: "views h1 = views h" unfolding h1_def using s by (intro views_upd_body) (simp add: section_actions_def)
  have "views h2 = views h1" using foldr_res_views [OF 2] setDestination_views by blast
  moreover have "views h3 = views h2" using foldr_res_views [OF 3] setOrigin_views by blast
  ultimately have 5: "views h3 = views h" using 1 by simp
  have "views h4 = views h3" unfolding h4_def
    using s views_actions [OF 5, of c] views_lengths [OF 5] by (intro views_upd_body) (simp add: section_actions_def)
  moreover have "views h' = views h4" using foldr_res_views [OF 4] replaceLinkedState_views by blast
  ultimately show ?thesis using 5 by simp
qed

lemma combineSection_views: "combineSection c d h = Inr h' \<Longrightarrow> views h' = views h"
  by (auto simp: combineSection_def section_actions_def intro!: combineState_views split: body.splits if_splits)

lemma combine_symbols_views: "combine_symbols s t h = Inr h' \<Longrightarrow> views h' = views h"
  by (auto simp: combine_symbols_def rbind_Inr_iff dest: combineSection_views)

lemma collapseNullStates_views: "collapseNullStates m h = Inr h' \<Longrightarrow> views h' = views h"
  by (auto simp: collapseNullStates_def intro: foldr_res_views combine_symbols_views split: option.splits if_splits)

lemma setLabelName_views: "setLabelName c name h = Inr h' \<Longrightarrow> views h' = views h"
proof -
  have "views (upd_sec c (\<lambda>x. x\<lparr>c_labelName := l\<rparr>) h) = views h" for l
    by (simp add: views_parts shape_parts view_simps owners_upd_sec act_lists_upd_sec)
  then show "setLabelName c name h = Inr h' \<Longrightarrow> views h' = views h"
    by (auto simp: setLabelName_def Let_def rmap_Inr_iff split: body.splits if_splits)
qed

lemma renameSymbol_views: "renameSymbol old new a h = Inr h' \<Longrightarrow> views h' = views h"
  by (auto simp: renameSymbol_def section_actions_def intro!: views_upd_body split: body.splits)

text \<open>Renaming a symbol changes its name and no other view.\<close>

lemma setName_views:
  assumes "setName s name h = Inr h'"
  shows "shape h' = shape h" "names h' = (names h)[s := name]" "owners h' = owners h"
    "tables h' = tables h" "nulls h' = nulls h"
proof -
  define h1 where "h1 = upd_sym s (\<lambda>y. y\<lparr>y_name := name\<rparr>) h"
  obtain h2 where 2: "(case y_section (sym h1 s) of None \<Rightarrow> Inr h1 | Some c \<Rightarrow> setLabelName c name h1) = Inr h2"
    and 3: "foldr_res (renameSymbol (y_name (sym h s)) name) (y_used_in (sym h2 s)) h2 = Inr h'"
    using assms unfolding setName_def Let_def rbind_Inr_iff h1_def [symmetric] by blast
  have "views h2 = views h1" using 2 setLabelName_views by (auto split: option.splits)
  moreover have "views h' = views h2" using foldr_res_views [OF 3] renameSymbol_views by blast
  ultimately have v: "views h' = views h1" by simp
  have "names h1 = (names h)[s := name]"
    unfolding h1_def by (cases "s < length (st_syms h)")
      (simp_all add: names_def upd_sym_def map_update list_update_beyond)
  moreover have "shape h1 = shape h" "owners h1 = owners h" "tables h1 = tables h" "nulls h1 = nulls h"
    unfolding h1_def by (simp_all add: shape_parts view_simps kinds_upd_sym)
  ultimately show "shape h' = shape h" "names h' = (names h)[s := name]" "owners h' = owners h"
    "tables h' = tables h" "nulls h' = nulls h" using v by (simp_all add: views_parts)
qed

section \<open>Modules\<close>

lemma set_module_views [view_simps]:
  "shape (set_module m c h) = shape h" "names (set_module m c h) = names h"
  "owners (set_module m c h) = (owners h)[c := m]"
  "tables (set_module m c h) = tables h" "nulls (set_module m c h) = nulls h"
  by (simp_all add: set_module_def Let_def shape_parts view_simps act_lists_upd_sec)
    (cases "c < length (st_secs h)"; simp add: owners_def upd_sec_def map_update list_update_beyond)

lemma fold_set_module_views:
  "shape (fold (set_module m) cs h) = shape h" "names (fold (set_module m) cs h) = names h"
  "owners (fold (set_module m) cs h) = fold (\<lambda>c os. os[c := m]) cs (owners h)"
  "tables (fold (set_module m) cs h) = tables h" "nulls (fold (set_module m) cs h) = nulls h"
  by (induction cs arbitrary: h) (simp_all add: view_simps)

lemma fold_update_nth:
  "c < length os \<Longrightarrow> fold (\<lambda>c os. os[c := m]) cs os ! c = (if c \<in> set cs then m else os ! c)"
  by (induction cs arbitrary: os) (auto simp: nth_list_update)

lemma setLinkableModule_views:
  "shape (setLinkableModule m c h) = shape h" "names (setLinkableModule m c h) = names h"
  "tables (setLinkableModule m c h) = tables h" "nulls (setLinkableModule m c h) = nulls h"
  by (simp_all add: setLinkableModule_def Let_def fold_set_module_views view_simps)

lemma setLinkableModule_owners:
  assumes "c < length (st_secs h)" and "d < length (st_secs h)"
  shows "owners (setLinkableModule m c h) ! d =
    (if d = c \<or> d \<in> set (section_actions (c_body (sec h c))) then m else owners h ! d)"
proof -
  have "act_lists (set_module m c h) = act_lists h" "length (st_secs (set_module m c h)) = length (st_secs h)"
    using set_module_views(1) [of m c h] shape_lengths [OF set_module_views(1)] by (simp_all add: shape_parts)
  then have "section_actions (c_body (sec (set_module m c h) c)) = section_actions (c_body (sec h c))"
    using assms(1) view_nth(4) [of c h] view_nth(4) [of c "set_module m c h"] by simp
  then show ?thesis using assms
    by (simp add: setLinkableModule_def Let_def fold_set_module_views view_simps fold_update_nth)
qed

end
