(* ===== verification/Link_Frame.thy ===== *)
theory Link_Frame imports Link_Views begin

text \<open>
  Invariants of a module while its program runs, and the frame of its steps: a step of the program
  of one module makes new objects, changes the table and the null states of that module only, and
  gives actions to sections of that module only.
\<close>

section \<open>Invariants of a module\<close>

definition sec_ok :: "store \<Rightarrow> mod_ref \<Rightarrow> sec_ref \<Rightarrow> bool" where
  "sec_ok h m c \<longleftrightarrow> c < length (st_secs h) \<and> owners h ! c = m \<and>
     (\<forall>a\<in>set (act_lists h ! c). a < length (st_secs h) \<and> owners h ! a = m)"

definition sym_ok :: "store \<Rightarrow> mod_ref \<Rightarrow> sym_ref \<Rightarrow> bool" where
  "sym_ok h m s \<longleftrightarrow> s < length (st_syms h) \<and> (\<exists>c. fst (snd (kinds h ! s)) = Some c \<and> sec_ok h m c)"

definition nulls_ok :: "store \<Rightarrow> mod_ref \<Rightarrow> bool" where
  "nulls_ok h m \<longleftrightarrow> (\<forall>l. nulls h ! m = Some l \<longrightarrow> l \<noteq> [] \<and> (\<forall>s\<in>set l. sym_ok h m s \<and> fst (kinds h ! s) = STATE))"

definition module_ok :: "store \<Rightarrow> mod_ref \<Rightarrow> bool" where
  "module_ok h m \<longleftrightarrow> m < length (st_mods h) \<and> (\<forall>s\<in>snd ` set (tables h ! m). sym_ok h m s) \<and> nulls_ok h m"

definition keyed :: "store \<Rightarrow> mod_ref \<Rightarrow> bool" where
  "keyed h m \<longleftrightarrow> wf_dict (tables h ! m) \<and> (\<forall>(k, s)\<in>set (tables h ! m). names h ! s = k)"

definition sizes_zero :: "store \<Rightarrow> bool" where
  "sizes_zero h \<longleftrightarrow> (\<forall>k\<in>set (kinds h). snd (snd k) = 0)"

lemma keyed_distinct:
  assumes "keyed h m"
  shows "distinct (map snd (tables h ! m))"
proof -
  have "map fst (tables h ! m) = map ((!) (names h)) (map snd (tables h ! m))"
    using assms by (auto simp: keyed_def)
  then show ?thesis using assms by (metis keyed_def wf_dict_def distinct_map)
qed

text \<open>What a step of the program of module \<open>m\<close> may do to the store\<close>

definition frame :: "mod_ref \<Rightarrow> store \<Rightarrow> store \<Rightarrow> bool" where
  "frame m h h' \<longleftrightarrow>
     length (st_syms h) \<le> length (st_syms h') \<and> length (st_secs h) \<le> length (st_secs h') \<and>
     length (st_mods h') = length (st_mods h) \<and> modnames h' = modnames h \<and>
     (\<forall>s<length (st_syms h). kinds h' ! s = kinds h ! s) \<and>
     (\<forall>c<length (st_secs h). owners h' ! c = owners h ! c) \<and>
     (\<forall>c<length (st_secs h). \<forall>a\<in>set (act_lists h' ! c). a \<in> set (act_lists h ! c) \<or>
        owners h ! c = m \<and> a < length (st_secs h') \<and> owners h' ! a = m) \<and>
     (\<forall>c. length (st_secs h) \<le> c \<longrightarrow> c < length (st_secs h') \<longrightarrow> owners h' ! c = m \<and>
        (\<forall>a\<in>set (act_lists h' ! c). a < length (st_secs h') \<and> owners h' ! a = m)) \<and>
     (\<forall>n. n \<noteq> m \<longrightarrow> n < length (st_mods h) \<longrightarrow> tables h' ! n = tables h ! n \<and> nulls h' ! n = nulls h ! n)"

lemma mframe_refl [simp]: "frame m h h"
  by (simp add: frame_def)

lemma frameD:
  assumes "frame m h h'"
  shows frame_syms: "length (st_syms h) \<le> length (st_syms h')"
    and frame_secs: "length (st_secs h) \<le> length (st_secs h')"
    and frame_mods: "length (st_mods h') = length (st_mods h)"
    and frame_modnames: "modnames h' = modnames h"
    and frame_kinds: "s < length (st_syms h) \<Longrightarrow> kinds h' ! s = kinds h ! s"
    and frame_owners: "c < length (st_secs h) \<Longrightarrow> owners h' ! c = owners h ! c"
    and frame_acts: "c < length (st_secs h) \<Longrightarrow> a \<in> set (act_lists h' ! c) \<Longrightarrow> a \<notin> set (act_lists h ! c) \<Longrightarrow>
        owners h ! c = m \<and> a < length (st_secs h') \<and> owners h' ! a = m"
    and frame_new: "length (st_secs h) \<le> c \<Longrightarrow> c < length (st_secs h') \<Longrightarrow> owners h' ! c = m \<and>
        (\<forall>a\<in>set (act_lists h' ! c). a < length (st_secs h') \<and> owners h' ! a = m)"
    and frame_others: "n \<noteq> m \<Longrightarrow> n < length (st_mods h) \<Longrightarrow> tables h' ! n = tables h ! n \<and> nulls h' ! n = nulls h ! n"
  using assms by (auto simp: frame_def)

lemma mframe_trans:
  assumes 1: "frame m h h1" and 2: "frame m h1 h2"
  shows "frame m h h2"
  unfolding frame_def
proof (intro conjI allI impI ballI)
  fix c a assume c: "c < length (st_secs h)" and a: "a \<in> set (act_lists h2 ! c)"
  have c1: "c < length (st_secs h1)" "owners h1 ! c = owners h ! c"
    using frame_secs [OF 1] frame_owners [OF 1 c] c by simp_all
  show "a \<in> set (act_lists h ! c) \<or> owners h ! c = m \<and> a < length (st_secs h2) \<and> owners h2 ! a = m"
  proof (cases "a \<in> set (act_lists h1 ! c)")
    case True
    then show ?thesis using frame_acts [OF 1 c True] frame_secs [OF 2] frame_owners [OF 2, of a] by auto
  next
    case False
    then show ?thesis using frame_acts [OF 2 c1(1) a] c1(2) by simp
  qed
next
  fix c assume c: "length (st_secs h) \<le> c" "c < length (st_secs h2)"
  show "owners h2 ! c = m"
    using c frame_new [OF 1, of c] frame_new [OF 2, of c] frame_owners [OF 2, of c] by (cases "c < length (st_secs h1)") auto
  fix a assume a: "a \<in> set (act_lists h2 ! c)"
  have "a < length (st_secs h2) \<and> owners h2 ! a = m"
  proof (cases "c < length (st_secs h1)")
    case True
    have "a < length (st_secs h1) \<and> owners h1 ! a = m" if "a \<in> set (act_lists h1 ! c)"
      using that frame_new [OF 1 c(1) True] by blast
    then show ?thesis
      using frame_acts [OF 2 True a] frame_owners [OF 2, of a] frame_secs [OF 2]
      by (cases "a \<in> set (act_lists h1 ! c)") auto
  next
    case False
    then show ?thesis using frame_new [OF 2, of c] c a by simp
  qed
  then show "a < length (st_secs h2)" "owners h2 ! a = m" by simp_all
qed (use frameD [OF 1] frameD [OF 2] in \<open>simp_all\<close>)

lemma frame_sec_ok: "frame m h h' \<Longrightarrow> sec_ok h n c \<Longrightarrow> sec_ok h' n c"
  unfolding frame_def sec_ok_def by (metis order_less_le_trans)

lemma frame_sym_ok: "frame m h h' \<Longrightarrow> sym_ok h n s \<Longrightarrow> sym_ok h' n s"
  unfolding sym_ok_def using frame_sec_ok by (auto simp: frame_def)

lemma module_ok_same_table:
  assumes f: "frame m h h'" and t: "tables h' ! n = tables h ! n" "nulls h' ! n = nulls h ! n" and ok: "module_ok h n"
  shows "module_ok h' n"
proof -
  have "nulls_ok h' n"
    unfolding nulls_ok_def t(2)
  proof (intro allI impI)
    fix l assume "nulls h ! n = Some l"
    then have "l \<noteq> []" "\<forall>s\<in>set l. sym_ok h n s \<and> fst (kinds h ! s) = STATE"
      using ok by (auto simp: module_ok_def nulls_ok_def)
    then show "l \<noteq> [] \<and> (\<forall>s\<in>set l. sym_ok h' n s \<and> fst (kinds h' ! s) = STATE)"
      using frame_sym_ok [OF f, of n] frame_kinds [OF f] by (simp add: sym_ok_def)
  qed
  then show ?thesis using ok frame_sym_ok [OF f] frame_mods [OF f] t(1) by (auto simp: module_ok_def)
qed

lemma frame_module_ok:
  assumes "frame m h h'" "n \<noteq> m" "module_ok h n"
  shows "module_ok h' n"
  using module_ok_same_table [OF assms(1) _ _ assms(3)] frame_others [OF assms(1,2)] assms(3)
  by (simp add: module_ok_def)

text \<open>The actions of the sections of a module are its own.\<close>

definition secs_ok :: "store \<Rightarrow> mod_ref \<Rightarrow> bool" where
  "secs_ok h m \<longleftrightarrow> (\<forall>c<length (st_secs h). owners h ! c = m \<longrightarrow> sec_ok h m c)"

lemma frame_secs_ok:
  assumes f: "frame m h h'" and ok: "secs_ok h n"
  shows "secs_ok h' n"
  unfolding secs_ok_def
proof (intro allI impI)
  fix c assume c: "c < length (st_secs h')" "owners h' ! c = n"
  show "sec_ok h' n c"
  proof (cases "c < length (st_secs h)")
    case True
    then show ?thesis using c ok frame_owners [OF f True] frame_sec_ok [OF f] by (simp add: secs_ok_def)
  next
    case False
    then show ?thesis using c frame_new [OF f, of c] by (auto simp: sec_ok_def)
  qed
qed

text \<open>A step that changes only names and tables\<close>

lemma frame_shape:
  assumes "shape h' = shape h" "owners h' = owners h"
    "\<And>n. n \<noteq> m \<Longrightarrow> tables h' ! n = tables h ! n" "\<And>n. n \<noteq> m \<Longrightarrow> nulls h' ! n = nulls h ! n"
  shows "frame m h h'"
proof -
  have "kinds h' = kinds h" "act_lists h' = act_lists h" "modnames h' = modnames h"
    using assms(1) by (simp_all add: shape_parts)
  then show ?thesis using assms shape_lengths [OF assms(1)] unfolding frame_def by simp
qed

lemma frame_views: "views h' = views h \<Longrightarrow> frame m h h'"
  by (intro frame_shape) (simp_all add: views_parts)

section \<open>Steps of a program\<close>

definition prog_ok :: "mod_ref \<Rightarrow> store \<Rightarrow> bool" where
  "prog_ok m h \<longleftrightarrow> module_ok h m \<and> keyed h m \<and> sizes_zero h"

definition step_ok :: "mod_ref \<Rightarrow> store \<Rightarrow> store \<Rightarrow> bool" where
  "step_ok m h h' \<longleftrightarrow> frame m h h' \<and> prog_ok m h'"

lemma step_ok_trans: "step_ok m h h1 \<Longrightarrow> step_ok m h1 h2 \<Longrightarrow> step_ok m h h2"
  unfolding step_ok_def using mframe_trans by blast

lemma foldr_res_step:
  assumes "foldr_res f xs h = Inr h'" and "prog_ok m h"
    and "\<And>x h1 h2. x \<in> set xs \<Longrightarrow> frame m h h1 \<Longrightarrow> prog_ok m h1 \<Longrightarrow> f x h1 = Inr h2 \<Longrightarrow> step_ok m h1 h2"
  shows "step_ok m h h'"
proof -
  have "frame m h h' \<and> prog_ok m h'"
    by (rule foldr_res_invariant [OF assms(1)])
      (use assms(2) in simp, use assms(3) mframe_trans in \<open>unfold step_ok_def, blast\<close>)
  then show ?thesis by (simp add: step_ok_def)
qed

lemma set_dict_set: "wf_dict d \<Longrightarrow> set (dict_set k v d) = insert (k, v) {p \<in> set d. fst p \<noteq> k}"
  unfolding wf_dict_def dict_set_def by (induction d) (auto intro: rev_image_eqI)

lemma set_dict_set_subset: "set (dict_set k v d) \<subseteq> insert (k, v) (set d)"
  unfolding dict_set_def by (induction d) auto

lemma set_dict_del: "set (dict_del k d) = {p \<in> set d. fst p \<noteq> k}"
  by (auto simp: dict_del_def AList.delete_eq)

lemma ok_cong:
  assumes "shape h' = shape h" "owners h' = owners h"
  shows "sec_ok h' n c = sec_ok h n c" "sym_ok h' n s = sym_ok h n s"
    "tables h' ! n = tables h ! n \<Longrightarrow> nulls h' ! n = nulls h ! n \<Longrightarrow> module_ok h' n = module_ok h n"
proof -
  have s: "kinds h' = kinds h" "act_lists h' = act_lists h" using assms(1) by (simp_all add: shape_parts)
  note l = shape_lengths [OF assms(1)]
  show c: "sec_ok h' n c = sec_ok h n c" for c using s assms(2) l by (simp add: sec_ok_def)
  show y: "sym_ok h' n s = sym_ok h n s" for s using s l c by (simp add: sym_ok_def)
  show "tables h' ! n = tables h ! n \<Longrightarrow> nulls h' ! n = nulls h ! n \<Longrightarrow> module_ok h' n = module_ok h n"
    using l y s by (simp add: module_ok_def nulls_ok_def)
qed

lemma views_step:
  assumes "views h' = views h" "prog_ok m h"
  shows "step_ok m h h'"
proof -
  have v: "shape h' = shape h" "names h' = names h" "owners h' = owners h" "tables h' = tables h" "nulls h' = nulls h"
    using assms(1) by (simp_all add: views_parts)
  have "module_ok h' m" using ok_cong(3) [OF v(1,3)] v(4,5) assms(2) by (simp add: prog_ok_def)
  moreover have "keyed h' m" "sizes_zero h'"
    using v assms(2) by (simp_all add: prog_ok_def keyed_def sizes_zero_def shape_parts)
  ultimately show ?thesis using frame_views [OF assms(1)] by (simp add: step_ok_def prog_ok_def)
qed

lemma step_views: "step_ok m h h1 \<Longrightarrow> views h2 = views h1 \<Longrightarrow> step_ok m h h2"
  using views_step step_ok_trans step_ok_def by blast

lemma addSymbol_views:
  "shape (addSymbol m s h) = shape h" "names (addSymbol m s h) = names h" "owners (addSymbol m s h) = owners h"
  "nulls (addSymbol m s h) = nulls h"
  "tables (addSymbol m s h) = (tables h)[m := dict_set (y_name (sym h s)) s (tables h ! m)]"
  by (simp_all add: addSymbol_def view_simps shape_parts)

lemma addSymbol_step:
  assumes "prog_ok m h" "sym_ok h m s"
  shows "step_ok m h (addSymbol m s h)"
proof -
  let ?h = "addSymbol m s h" and ?d = "tables h ! m"
  have m: "m < length (st_mods h)" and s: "s < length (st_syms h)" and w: "wf_dict ?d"
    using assms by (auto simp: prog_ok_def module_ok_def sym_ok_def keyed_def)
  have t: "tables ?h ! m = dict_set (names h ! s) s ?d" using m s by (simp add: addSymbol_views view_nth)
  have f: "frame m h ?h" by (rule frame_shape) (simp_all add: addSymbol_views)
  note c = ok_cong(1,2) [OF addSymbol_views(1,3)]
  have y: "\<forall>y\<in>snd ` set ?d. sym_ok h m y" "nulls_ok h m" "\<forall>(k, y)\<in>set ?d. names h ! y = k"
    using assms(1) by (simp_all add: prog_ok_def module_ok_def keyed_def)
  have "module_ok ?h m"
    unfolding module_ok_def
  proof (intro conjI)
    show "m < length (st_mods ?h)" using m frame_mods [OF f] by simp
    show "\<forall>y\<in>snd ` set (tables ?h ! m). sym_ok ?h m y"
      using y(1) assms(2) set_dict_set_subset [of "names h ! s" s ?d] unfolding t c by force
    have "kinds ?h = kinds h" using addSymbol_views(1) [of m s h] by (simp add: shape_parts)
    then show "nulls_ok ?h m" using y(2) by (simp add: nulls_ok_def addSymbol_views c)
  qed
  moreover have "keyed ?h m"
    unfolding keyed_def t using w y(3) by (auto simp: set_dict_set addSymbol_views)
  moreover have "sizes_zero ?h"
    using assms(1) addSymbol_views(1) [of m s h] by (simp add: prog_ok_def sizes_zero_def shape_parts)
  ultimately show ?thesis using f by (simp add: step_ok_def prog_ok_def)
qed

section \<open>New objects\<close>

lemma new_section_views:
  assumes "new_section m label b h = (c, h')"
  shows "c = length (st_secs h)" "length (st_secs h') = Suc c"
    "kinds h' = kinds h" "names h' = names h" "tables h' = tables h" "nulls h' = nulls h" "modnames h' = modnames h"
    "owners h' = owners h @ [m]" "act_lists h' = act_lists h @ [section_actions b]"
  using assms by (auto simp: new_section_def kinds_def names_def tables_def nulls_def modnames_def owners_def act_lists_def)

lemma new_section_step:
  assumes "new_section m label b h = (c, h')" "section_actions b = []" "prog_ok m h"
  shows "step_ok m h h'" "sec_ok h' m c"
proof -
  note v = new_section_views [OF assms(1)]
  have l: "length (st_syms h') = length (st_syms h)" "length (st_mods h') = length (st_mods h)"
    using v(3) v(5) by (metis view_lengths(1), metis view_lengths(5))
  have f: "frame m h h'" using v l assms(2) by (simp add: frame_def nth_append)
  show c: "sec_ok h' m c" using v assms(2) by (simp add: sec_ok_def nth_append)
  have "module_ok h' m"
    using module_ok_same_table [OF f] assms(3) v(5,6) by (simp add: prog_ok_def)
  then show "step_ok m h h'"
    using f assms(3) v by (simp add: step_ok_def prog_ok_def keyed_def sizes_zero_def)
qed

lemma new_symbol_views:
  assumes "new_symbol name ty c h = (s, h')"
  shows "s = length (st_syms h)" "length (st_syms h') = Suc s"
    "kinds h' = kinds h @ [(ty, c, 0)]" "names h' = names h @ [name]" "tables h' = tables h" "nulls h' = nulls h"
    "modnames h' = modnames h" "owners h' = owners h" "act_lists h' = act_lists h"
    "length (st_secs h') = length (st_secs h)" "length (st_mods h') = length (st_mods h)"
  using assms unfolding new_symbol_def Let_def
  by (auto simp: kinds_def names_def tables_def nulls_def modnames_def view_simps owners_upd_sec act_lists_upd_sec
      split: option.splits) (simp_all add: owners_def act_lists_def upd_sec_def map_list_update_same)

lemma new_symbol_step:
  assumes "new_symbol name ty (Some c) h = (s, h')" "sec_ok h m c" "prog_ok m h"
  shows "step_ok m h h'" "sym_ok h' m s"
proof -
  note v = new_symbol_views [OF assms(1)]
  have f: "frame m h h'" using v by (simp add: frame_def nth_append)
  have "module_ok h' m"
    using module_ok_same_table [OF f] assms(3) v(5,6) by (simp add: prog_ok_def)
  moreover have "keyed h' m"
    using assms(3) v by (auto simp: prog_ok_def keyed_def module_ok_def sym_ok_def nth_append)
  ultimately show "step_ok m h h'"
    using f assms(3) v by (simp add: step_ok_def prog_ok_def sizes_zero_def)
  show "sym_ok h' m s" using v frame_sec_ok [OF f assms(2)] by (simp add: sym_ok_def nth_append)
qed

lemma add_with_section_step:
  assumes "add_with_section m name ty p c h = (s, h')" "sec_ok h m c" "prog_ok m h"
  shows "step_ok m h h'" "sym_ok h' m s"
proof -
  obtain h1 where n: "new_symbol name ty (Some c) h = (s, h1)" and h': "h' = addSymbol m s (setPrivate s p h1)"
    using assms(1) by (auto simp: add_with_section_def split: prod.splits)
  note 1 = new_symbol_step [OF n assms(2,3)]
  have v: "views (setPrivate s p h1) = views h1" by (simp add: views_parts shape_parts view_simps)
  then have 2: "step_ok m h1 (setPrivate s p h1)" using views_step 1 by (simp add: step_ok_def)
  have "sym_ok (setPrivate s p h1) m s" using 1(2) 2 frame_sym_ok by (auto simp: step_ok_def)
  then have "step_ok m (setPrivate s p h1) h'" "sym_ok h' m s"
    using 2 addSymbol_step frame_sym_ok unfolding h' step_ok_def by blast+
  then show "step_ok m h h'" "sym_ok h' m s" using 1 2 step_ok_trans by blast+
qed

section \<open>Looking up\<close>

lemma prog_okD:
  assumes "prog_ok m h"
  shows "m < length (st_mods h)" "\<And>y. y \<in> snd ` set (tables h ! m) \<Longrightarrow> sym_ok h m y" "nulls_ok h m"
    "wf_dict (tables h ! m)" "\<And>k y. (k, y) \<in> set (tables h ! m) \<Longrightarrow> names h ! y = k" "sizes_zero h"
  using assms by (auto simp: prog_ok_def module_ok_def keyed_def)

lemma getSymbol_ok:
  assumes "prog_ok m h" "getSymbol h m name = Some s"
  shows "sym_ok h m s" "names h ! s = name" "(name, s) \<in> set (tables h ! m)"
proof -
  show i: "(name, s) \<in> set (tables h ! m)"
    using assms(2) view_nth(5) [OF prog_okD(1) [OF assms(1)]] by (simp add: getSymbol_def map_of_SomeD)
  show "sym_ok h m s" using prog_okD(2) [OF assms(1)] i by force
  show "names h ! s = name" by (rule prog_okD(5) [OF assms(1) i])
qed

lemma get_typed_ok:
  assumes "prog_ok m h" "get_typed ty h m name = Some s"
  shows "sym_ok h m s" "names h ! s = name" "(name, s) \<in> set (tables h ! m)" "fst (kinds h ! s) = ty"
  using assms getSymbol_ok [OF assms(1), of name s]
  by (auto simp: get_typed_def sym_ok_def view_nth split: option.splits if_splits)

lemma section_of_Inr: "section_of h s = Inr c \<longleftrightarrow> isDefined (sym h s) \<and> y_section (sym h s) = Some c"
  by (auto simp: section_of_def isDefined_def)

lemma section_of_ok: "sym_ok h m s \<Longrightarrow> section_of h s = Inr c \<Longrightarrow> sec_ok h m c"
  by (auto simp: section_of_Inr sym_ok_def view_nth)

section \<open>The calls of a program\<close>

lemma getNewStateID_views: "getNewStateID m h = (i, h') \<Longrightarrow> views h' = views h"
  by (auto simp: getNewStateID_def Let_def views_parts shape_parts view_simps tables_upd_mod nulls_upd_mod modnames_upd_mod)

lemma addState_step:
  assumes "addState m name h = (s, h')" "prog_ok m h"
  shows "step_ok m h h'" "sym_ok h' m s"
proof -
  obtain nm h1 c h2 where 1: "views h1 = views h" and 2: "new_state_section nm m h1 = (c, h2)"
    and 3: "add_with_section m nm STATE True c h2 = (s, h')"
    using assms(1) getNewStateID_views [of m h] by (cases name) (auto simp: addState_def split: prod.splits)
  have s1: "step_ok m h h1" using views_step [OF 1 assms(2)] .
  then have p1: "prog_ok m h1" by (simp add: step_ok_def)
  note s2 = new_section_step [OF 2 [unfolded new_state_section_def] _ p1, simplified section_actions_def, simplified]
  then have p2: "prog_ok m h2" by (simp add: step_ok_def)
  note s3 = add_with_section_step [OF 3 s2(2) p2]
  show "step_ok m h h'" "sym_ok h' m s" using s1 s2 s3 step_ok_trans by blast+
qed

lemma StateCall_step:
  assumes "StateCall m name h = Inr (st, h')" "prog_ok m h"
  shows "step_ok m h h'"
proof -
  obtain s h1 c where 1: "addState m name h = (s, h1)" and 2: "setAlphabet c [] h1 = Inr h'"
    using assms(1) by (auto simp: StateCall_def rbind_Inr_iff rmap_Inr_iff split: prod.splits)
  note s1 = addState_step(1) [OF 1 assms(2)]
  have "views h' = views h1" using 2 on_state_views by (auto simp: setAlphabet_def section_actions_def)
  then show ?thesis using s1 step_views by blast
qed

lemma addTransition_step:
  assumes "addTransition m ty s t label h = Inr (tr, h')" "prog_ok m h"
  shows "step_ok m h h'"
proof -
  obtain c d sec1 h1 nm p where 1: "new_transition_section ty c d label m h = Inr (sec1, h1)"
    and 2: "add_with_section m nm TRANSITION p sec1 h1 = (tr, h')"
    using assms(1) by (auto simp: addTransition_def Let_def rbind_Inr_iff rmap_Inr_iff split: option.splits prod.splits)
  obtain h2 h3 where n: "new_section m label (TransitionSection [] c d ty) h = (sec1, h2)"
    and o: "addOutTransition c sec1 h2 = Inr h3" and i: "addInTransition d sec1 h3 = Inr h1"
    using 1 by (auto simp: new_transition_section_def rbind_Inr_iff rmap_Inr_iff split: prod.splits)
  note s2 = new_section_step [OF n _ assms(2), simplified section_actions_def, simplified]
  have "views h3 = views h2" "views h1 = views h3"
    using o i on_state_views by (auto simp: addOutTransition_def addInTransition_def section_actions_def)
  then have v: "views h1 = views h2" by simp
  have s3: "step_ok m h2 h1" using views_step [OF v] s2(1) by (simp add: step_ok_def)
  have "sec_ok h1 m sec1" using s2(2) s3 frame_sec_ok by (auto simp: step_ok_def)
  then have "step_ok m h1 h'" using add_with_section_step(1) [OF 2] s3 by (simp add: step_ok_def)
  then show ?thesis using s2 s3 step_ok_trans by blast
qed

lemma set_parent_views: "set_parent a c h = Inr h' \<Longrightarrow> views h' = views h"
  by (auto simp: set_parent_def section_actions_def intro!: views_upd_body split: body.splits)

lemma more_actions_step:
  assumes "sec_ok h m c" "sec_ok h m a" "prog_ok m h"
    and "section_actions b = section_actions (c_body (sec h c)) @ [a]"
  shows "step_ok m h (upd_body c (\<lambda>_. b) h)"
proof -
  let ?h = "upd_body c (\<lambda>_. b) h"
  have c: "c < length (st_secs h)" "owners h ! c = m" and a: "a < length (st_secs h)" "owners h ! a = m"
    using assms by (auto simp: sec_ok_def)
  have l: "act_lists ?h = (act_lists h)[c := act_lists h ! c @ [a]]"
    using c assms(4) by (simp add: act_lists_def upd_sec_def map_update)
  have v: "kinds ?h = kinds h" "names ?h = names h" "owners ?h = owners h" "tables ?h = tables h"
    "nulls ?h = nulls h" "modnames ?h = modnames h"
    by (simp_all add: view_simps owners_upd_sec)
  have f: "frame m h ?h" using v l c a by (auto simp: frame_def nth_list_update)
  have "module_ok ?h m" using module_ok_same_table [OF f] v assms(3) by (simp add: prog_ok_def)
  then show ?thesis using f v assms(3) by (simp add: step_ok_def prog_ok_def keyed_def sizes_zero_def)
qed

lemma section_addAction_step:
  assumes "section_addAction c a h = Inr h'" "sec_ok h m c" "sec_ok h m a" "prog_ok m h"
  shows "step_ok m h h'"
proof -
  obtain b where b: "section_actions b = section_actions (c_body (sec h c)) @ [a]"
    and p: "set_parent a c (upd_body c (\<lambda>_. b) h) = Inr h'"
  proof (cases "c_body (sec h c)")
    case (TransitionSection as org dst ty)
    then show thesis using that [of "TransitionSection (as @ [a]) org dst ty"] assms(1)
      by (simp add: section_addAction_def section_actions_def)
  next
    case (SharedBlockSection as sts)
    then show thesis using that [of "SharedBlockSection (as @ [a]) sts"] assms(1)
      by (simp add: section_addAction_def section_actions_def)
  qed (use assms(1) in \<open>simp_all add: section_addAction_def\<close>)
  have s: "step_ok m h (upd_body c (\<lambda>_. b) h)" by (rule more_actions_step [OF assms(2-4) b])
  then show ?thesis using step_views set_parent_views [OF p] by blast
qed

lemma addAction_step:
  assumes "addAction m text (Some s) h = Inr h'" "prog_ok m h" and own: "\<And>c. section_of h s = Inr c \<Longrightarrow> sec_ok h m c"
    and len: "s < length (st_syms h)"
  shows "step_ok m h h'"
proof -
  obtain a h1 c h2 where 1: "new_action_section text m h = Inr (a, h1)" and 2: "section_of h1 s = Inr c"
    and 3: "section_addAction c a h1 = Inr h2"
    and 4: "h' = (case getTargetLabel text of None \<Rightarrow> h2 | Some label \<Rightarrow> snd (add_with_section m label BRANCH_LABEL True a h2))"
    using assms(1) by (auto simp: addAction_def rbind_Inr_iff rmap_Inr_iff split: if_splits prod.splits)
  obtain oc where n: "new_section m (LStr []) (ActionSection text [] None oc) h = (a, h1)"
    using 1 by (auto simp: new_action_section_def rmap_Inr_iff)
  note s1 = new_section_step [OF n _ assms(2), simplified section_actions_def, simplified]
  have "kinds h1 ! s = kinds h ! s" using new_section_views(3) [OF n] by simp
  then have "section_of h s = Inr c"
    using 2 len new_section_views(3) [OF n] view_nth(1) [of s h] view_nth(1) [of s h1] view_lengths(1)
    by (metis isDefined_def prod.inject section_of_Inr)
  then have "sec_ok h1 m c" using own s1(1) frame_sec_ok by (auto simp: step_ok_def)
  then have s2: "step_ok m h1 h2" using section_addAction_step [OF 3 _ s1(2)] s1(1) by (simp add: step_ok_def)
  then have "step_ok m h2 h'"
    using 4 add_with_section_step(1) [of m _ BRANCH_LABEL True a h2 _ h'] frame_sec_ok s1(2)
    by (auto simp: step_ok_def split: option.splits) (metis prod.collapse frame_sec_ok)+
  then show ?thesis using s1 s2 step_ok_trans by blast
qed

end
