(* ===== verification/Link_Load.thy ===== *)
theory Link_Load imports Link_Frame begin

text \<open>
  Every call of a program keeps the invariants of its module, and so do the first resolution of its
  symbols and the cleaning of their names. \<open>loadSymbols\<close> therefore ends in a store where each module
  has a table of its own symbols only.
\<close>

section \<open>Further calls\<close>

lemma addSharedBlock_step:
  assumes "addSharedBlock m name h = (s, h')" "prog_ok m h"
  shows "step_ok m h h'" "sym_ok h' m s"
proof -
  obtain c h1 where 1: "new_section m (LStr name) (SharedBlockSection [] []) h = (c, h1)"
    and 2: "add_with_section m name SHARED_BLOCK False c h1 = (s, h')"
    using assms(1) by (auto simp: addSharedBlock_def new_shared_block_section_def split: prod.splits)
  note s1 = new_section_step [OF 1 _ assms(2), simplified section_actions_def, simplified]
  then have "prog_ok m h1" by (simp add: step_ok_def)
  note s2 = add_with_section_step [OF 2 s1(2) this]
  show "step_ok m h h'" "sym_ok h' m s" using s1 s2 step_ok_trans by blast+
qed

lemma addStaticData_step:
  assumes "addStaticData m name n ty h = (s, h')" "prog_ok m h"
  shows "step_ok m h h'"
proof -
  obtain c h1 where 1: "new_section m (LStr name) (StaticDataSection n ty) h = (c, h1)"
    and 2: "add_with_section m name STATIC_DATA False c h1 = (s, h')"
    using assms(1) by (auto simp: addStaticData_def new_static_data_section_def split: prod.splits)
  note s1 = new_section_step [OF 1 _ assms(2), simplified section_actions_def, simplified]
  then have "prog_ok m h1" by (simp add: step_ok_def)
  then show ?thesis using s1 add_with_section_step [OF 2 s1(2)] step_ok_trans by blast
qed

lemma appendBlockAction_step:
  assumes "appendBlockAction m name text h = Inr h'" "prog_ok m h"
  shows "step_ok m h h'"
proof -
  obtain s h1 where 1: "step_ok m h h1" "sym_ok h1 m s" and 2: "addAction m text (Some s) h1 = Inr h'"
  proof (cases "getSharedBlockSymbol h m name")
    case None
    then obtain s h1 where "addSharedBlock m name h = (s, h1)" "addAction m text (Some s) h1 = Inr h'"
      using assms(1) by (auto simp: appendBlockAction_def split: prod.splits)
    then show thesis using that addSharedBlock_step assms(2) by blast
  next
    case (Some s)
    then have "addAction m text (Some s) h = Inr h'" using assms(1) by (simp add: appendBlockAction_def)
    moreover have "sym_ok h m s" using Some get_typed_ok(1) [OF assms(2)] by (simp add: getSharedBlockSymbol_def)
    moreover have "step_ok m h h" using assms(2) by (simp add: step_ok_def)
    ultimately show thesis using that by blast
  qed
  have "step_ok m h1 h'"
    by (rule addAction_step [OF 2]) (use 1 section_of_ok in \<open>auto simp: step_ok_def sym_ok_def\<close>)
  then show ?thesis using 1 step_ok_trans by blast
qed

lemma linkBlocktoState_step:
  assumes "linkBlocktoState m name st h = Inr h'" "prog_ok m h"
  shows "step_ok m h h'"
proof -
  have "views h' = views h"
    using assms(1) linkBlockToState_views
    by (auto simp: linkBlocktoState_def rbind_Inr_iff split: option.splits state_arg.splits prod.splits)
  then show ?thesis using views_step assms(2) by blast
qed

lemma del_symbol_views:
  assumes "del_symbol m k h = Inr h'"
  shows "shape h' = shape h" "names h' = names h" "owners h' = owners h" "nulls h' = nulls h"
    "tables h' = (tables h)[m := dict_del k (tables h ! m)]"
  using assms by (auto simp: del_symbol_def view_simps shape_parts split: if_splits)

lemma setNullState_views:
  assumes "setNullState m s h = Inr h'" "m < length (st_mods h)" "s < length (st_syms h)"
  shows "shape h' = shape h" "owners h' = owners h" "names h' = (names h)[s := NULL_STATE_NAME]"
    "nulls h' = (nulls h)[m := Some (case nulls h ! m of None \<Rightarrow> [s] | Some l \<Rightarrow> l @ [s])]"
    "tables h' = (tables h)[m := (let d = dict_set NULL_STATE_NAME s (tables h ! m)
       in if names h ! s = NULL_STATE_NAME then d else dict_del (names h ! s) d)]"
proof -
  define h1 where "h1 = upd_mod m (\<lambda>x. x\<lparr>m_null_state := Some (case m_null_state x of None \<Rightarrow> [s] | Some l \<Rightarrow> l @ [s])\<rparr>) h"
  define h3 where "h3 = upd_symbols m (dict_set NULL_STATE_NAME s) (setIsNullState s True (setPrivate s False h1))"
  have n1: "nulls h1 = (nulls h)[m := Some (case nulls h ! m of None \<Rightarrow> [s] | Some l \<Rightarrow> l @ [s])]"
    using assms(2) by (simp add: h1_def nulls_def upd_mod_def map_update)
  have v1: "shape h1 = shape h" "names h1 = names h" "owners h1 = owners h" "tables h1 = tables h"
    unfolding h1_def by (simp_all add: shape_parts view_simps tables_upd_mod modnames_upd_mod)
  have v3: "shape h3 = shape h" "names h3 = names h" "owners h3 = owners h" "nulls h3 = nulls h1"
    "tables h3 = (tables h)[m := dict_set NULL_STATE_NAME s (tables h ! m)]"
    using v1 by (simp_all add: h3_def view_simps shape_parts)
  have l: "length (st_syms h3) = length (st_syms h)" by (rule shape_lengths [OF v3(1)])
  have y: "y_name (sym h3 s) = names h ! s" using v3(2) view_nth(2) [of s h3] l assms(3) by simp
  have e: "setNullState m s h = (if names h ! s \<noteq> NULL_STATE_NAME
      then rbind (setName s NULL_STATE_NAME h3) (del_symbol m (names h ! s)) else Inr h3)"
    unfolding setNullState_def Let_def h1_def [symmetric] h3_def [symmetric] y ..
  have "shape h' = shape h \<and> owners h' = owners h \<and> names h' = (names h)[s := NULL_STATE_NAME] \<and> nulls h' = nulls h1 \<and>
    tables h' = (tables h)[m := (let d = dict_set NULL_STATE_NAME s (tables h ! m)
       in if names h ! s = NULL_STATE_NAME then d else dict_del (names h ! s) d)]"
  proof (cases "names h ! s = NULL_STATE_NAME")
    case True
    then have "h' = h3" using assms(1) e by simp
    moreover have "(names h)[s := NULL_STATE_NAME] = names h" using True by (metis list_update_id)
    ultimately show ?thesis using v3 True by (simp add: Let_def)
  next
    case False
    then obtain h4 where 4: "setName s NULL_STATE_NAME h3 = Inr h4" "del_symbol m (names h ! s) h4 = Inr h'"
      using assms(1) e by (auto simp: rbind_Inr_iff)
    show ?thesis using setName_views [OF 4(1)] del_symbol_views [OF 4(2)] v3 False assms(2) by (simp add: Let_def)
  qed
  then show "shape h' = shape h" "owners h' = owners h" "names h' = (names h)[s := NULL_STATE_NAME]"
    "nulls h' = (nulls h)[m := Some (case nulls h ! m of None \<Rightarrow> [s] | Some l \<Rightarrow> l @ [s])]"
    "tables h' = (tables h)[m := (let d = dict_set NULL_STATE_NAME s (tables h ! m)
       in if names h ! s = NULL_STATE_NAME then d else dict_del (names h ! s) d)]"
    using n1 by simp_all
qed

lemma setNullState_step:
  assumes "setNullState m s h = Inr h'" "prog_ok m h" "(names h ! s, s) \<in> set (tables h ! m)" "fst (kinds h ! s) = STATE"
  shows "step_ok m h h'"
proof -
  let ?d = "tables h ! m" and ?old = "names h ! s"
  have m: "m < length (st_mods h)" and w: "wf_dict ?d" and n: "nulls_ok h m" and z: "sizes_zero h"
    using prog_okD [OF assms(2)] by simp_all
  have s: "sym_ok h m s" using prog_okD(2) [OF assms(2)] assms(3) by force
  then have sl: "s < length (st_syms h)" by (simp add: sym_ok_def)
  note v = setNullState_views [OF assms(1) m sl]
  have f: "frame m h h'" by (rule frame_shape) (simp_all add: v)
  have k: "kinds h' = kinds h" using v(1) by (simp add: shape_parts)
  note c = ok_cong(1,2) [OF v(1,2)]
  have tm: "tables h' ! m = (let d = dict_set NULL_STATE_NAME s ?d in if ?old = NULL_STATE_NAME then d else dict_del ?old d)"
    using v(5) m by simp
  have sub: "set (tables h' ! m) \<subseteq> insert (NULL_STATE_NAME, s) {p \<in> set ?d. fst p \<noteq> NULL_STATE_NAME \<and> fst p \<noteq> ?old}"
    using set_dict_set [OF w, of NULL_STATE_NAME s] unfolding tm by (auto simp: Let_def set_dict_del)
  have "module_ok h' m"
    unfolding module_ok_def
  proof (intro conjI)
    show "m < length (st_mods h')" using m frame_mods [OF f] by simp
    show "\<forall>y\<in>snd ` set (tables h' ! m). sym_ok h' m y"
      using sub s prog_okD(2) [OF assms(2)] unfolding c by force
    show "nulls_ok h' m"
      using n m s assms(4) v(4) by (auto simp: nulls_ok_def c k split: option.splits)
  qed
  moreover have "keyed h' m"
    unfolding keyed_def
  proof
    show "wf_dict (tables h' ! m)" using w unfolding tm by (simp add: Let_def)
    show "\<forall>(k, y)\<in>set (tables h' ! m). names h' ! y = k"
    proof clarify
      fix k y assume "(k, y) \<in> set (tables h' ! m)"
      then consider "k = NULL_STATE_NAME" "y = s" | "(k, y) \<in> set ?d" "k \<noteq> ?old" using sub by auto
      then show "names h' ! y = k"
      proof cases
        case 1
        then show ?thesis using sl v(3) by simp
      next
        case 2
        then have "names h ! y = k" using prog_okD(5) [OF assms(2)] by blast
        moreover have "y \<noteq> s" using 2(2) calculation by blast
        ultimately show ?thesis using v(3) by simp
      qed
    qed
  qed
  ultimately show ?thesis using f z k by (simp add: step_ok_def prog_ok_def sizes_zero_def)
qed

lemma add_initId_step:
  assumes "add_initId m st h = Inr h'" "prog_ok m h"
  shows "step_ok m h h'"
proof -
  obtain name s where s: "get_typed STATE h m name = Some s" and n: "setNullState m s h = Inr h'"
    using assms(1) by (auto simp: add_initId_def getStateSymbol_def split: state_arg.splits option.splits)
  show ?thesis using setNullState_step [OF n assms(2)] get_typed_ok [OF assms(2) s] by simp
qed

theorem program_call_step:
  assumes "program_call m h h'" "prog_ok m h" "secs_ok h m"
  shows "step_ok m h h'"
  using assms(1)
proof cases
  case (call_addAction s t)
  have "sec_ok h m c" if "section_of h s = Inr c" for c
    using that call_addAction(1) assms(3) by (auto simp: own_def section_of_Inr secs_ok_def view_nth)
  then show ?thesis using addAction_step [OF call_addAction(2) assms(2)] call_addAction(1) by (simp add: own_def)
next
  case (call_alphabet s c al)
  then have "views h' = views h" using on_state_views by (auto simp: setAlphabet_def section_actions_def)
  then show ?thesis using views_step assms(2) by blast
next
  case (call_State name st)
  show ?thesis by (rule StateCall_step [OF call_State assms(2)])
next
  case (call_initId st)
  show ?thesis by (rule add_initId_step [OF call_initId assms(2)])
next
  case (call_writeTransition source s target t ty label tr)
  show ?thesis by (rule addTransition_step [OF call_writeTransition(3) assms(2)])
next
  case (call_appendBlockAction name t)
  show ?thesis by (rule appendBlockAction_step [OF call_appendBlockAction assms(2)])
next
  case (call_linkBlocktoState name st)
  show ?thesis by (rule linkBlocktoState_step [OF call_linkBlocktoState assms(2)])
next
  case (call_addStaticData name n ty s)
  show ?thesis by (rule addStaticData_step [OF call_addStaticData assms(2)])
qed

lemma program_run_step:
  assumes "(program_call m)\<^sup>*\<^sup>* h h'" "prog_ok m h" "secs_ok h m"
  shows "step_ok m h h'"
  using assms(1)
proof (induction rule: rtranclp_induct)
  case base
  then show ?case using assms(2) by (simp add: step_ok_def)
next
  case (step h1 h2)
  then have "prog_ok m h1" "secs_ok h1 m" using frame_secs_ok assms(3) unfolding step_ok_def by blast+
  then have "step_ok m h1 h2" using program_call_step step.hyps by blast
  then show ?case using step.IH step_ok_trans by blast
qed

section \<open>The first resolution\<close>

definition is_action :: "store \<Rightarrow> sec_ref \<Rightarrow> bool" where
  "is_action h a = (\<exists>t r p oc. c_body (sec h a) = ActionSection t r p oc)"

lemma is_action_upd_sec:
  assumes "is_action h a" "\<And>x. is_action h a \<Longrightarrow> x = sec h a \<Longrightarrow> c_body (f x) = c_body x \<or> (\<exists>t r p oc. c_body (f x) = ActionSection t r p oc)"
  shows "is_action (upd_sec c f h) a"
  using assms by (auto simp: is_action_def sec_upd_sec)

lemma on_action_views:
  assumes "is_action h a"
  shows "views (on_action a f h) = views h"
  unfolding on_action_def using assms by (intro views_upd_body) (auto simp: section_actions_def is_action_def)

lemma on_action_is_action: "is_action h a \<Longrightarrow> is_action (on_action b f h) a"
  unfolding on_action_def by (rule is_action_upd_sec) auto

lemma add_reference_views:
  assumes "is_action h a"
  shows "views (addUsedIn s a (addReferenceSymbol a s' h)) = views h"
    "is_action (addUsedIn s a (addReferenceSymbol a s' h)) a"
proof -
  have "views (addReferenceSymbol a s' h) = views h" using on_action_views [OF assms] by (simp add: addReferenceSymbol_def)
  then show "views (addUsedIn s a (addReferenceSymbol a s' h)) = views h" by (simp add: views_parts shape_parts view_simps)
  show "is_action (addUsedIn s a (addReferenceSymbol a s' h)) a"
    using on_action_is_action [OF assms] by (simp add: addReferenceSymbol_def is_action_def addUsedIn_def)
qed

lemma assign_symbol_step:
  assumes "is_action h a" "sec_ok h m a" "prog_ok m h"
  shows "step_ok m h (assign_symbol a name h)" "is_action (assign_symbol a name h) a"
proof -
  have m: "c_linkableModule (sec h a) = m" using assms(2) view_nth(3) [of a h] by (auto simp: sec_ok_def)
  have "step_ok m h (assign_symbol a name h) \<and> is_action (assign_symbol a name h) a"
  proof (cases "getSymbol h m name")
    case (Some s)
    then have e: "assign_symbol a name h = addUsedIn s a (addReferenceSymbol a s h)"
      unfolding assign_symbol_def m by (simp add: Let_def)
    show ?thesis
      unfolding e using add_reference_views [OF assms(1), of s s] views_step assms(3) by simp_all
  next
    case None
    obtain s h1 where n: "new_symbol name UNKNOWN (Some a) h = (s, h1)" by fastforce
    define h2 where "h2 = addUsedIn s a (addReferenceSymbol a s h1)"
    have e: "assign_symbol a name h = addSymbol m s (setPrivate s False h2)"
      using None n unfolding assign_symbol_def m h2_def by (simp add: Let_def)
    note s1 = new_symbol_step [OF n assms(2,3)]
    have "is_action (upd_sec c (\<lambda>x. x\<lparr>c_symbol := v\<rparr>) h0) a" if "is_action h0 a" for c v h0
      using that by (rule is_action_upd_sec) auto
    moreover have "is_action (h\<lparr>st_syms := y\<rparr>) a" for y using assms(1) by (simp add: is_action_def)
    ultimately have i1: "is_action h1 a" using n by (auto simp: new_symbol_def Let_def)
    note v2 = add_reference_views [OF i1, of s s, folded h2_def]
    have "views (setPrivate s False h2) = views h1" using v2(1) by (simp add: views_parts shape_parts view_simps)
    then have s2: "step_ok m h (setPrivate s False h2)" and "frame m h1 (setPrivate s False h2)"
      using step_views s1(1) frame_views by blast+
    then have "sym_ok (setPrivate s False h2) m s" using frame_sym_ok s1(2) by blast
    then have "step_ok m h (assign_symbol a name h)"
      unfolding e using addSymbol_step s2 step_ok_trans unfolding step_ok_def by blast
    moreover have "is_action (assign_symbol a name h) a"
      unfolding e using v2(2) by (simp add: is_action_def addSymbol_def upd_symbols_def setPrivate_def)
    ultimately show ?thesis ..
  qed
  then show "step_ok m h (assign_symbol a name h)" "is_action (assign_symbol a name h) a" by simp_all
qed

lemma fold_assign_step:
  assumes "is_action h a" "sec_ok h m a" "prog_ok m h"
  shows "step_ok m h (fold (assign_symbol a) ns h)"
  using assms
proof (induction ns arbitrary: h)
  case Nil
  then show ?case by (simp add: step_ok_def)
next
  case (Cons n ns)
  note s = assign_symbol_step [OF Cons.prems, of n]
  have "sec_ok (assign_symbol a n h) m a" "prog_ok m (assign_symbol a n h)"
    using s(1) frame_sec_ok [OF _ Cons.prems(2)] by (auto simp: step_ok_def)
  then show ?case using Cons.IH [OF s(2)] s(1) step_ok_trans by simp
qed

lemma first_assign_step:
  assumes "action_assignSymbols False mr a h = Inr h'" "sec_ok h m a" "prog_ok m h"
  shows "step_ok m h h'"
  using assms fold_assign_step [OF _ assms(2,3)]
  by (auto simp: action_assignSymbols_def rbind_Inr_iff is_action_def split: body.splits)

lemma first_assigns_step:
  assumes "foldr_res (action_assignSymbols False mr) as h = Inr h'" "\<forall>a\<in>set as. sec_ok h m a" "prog_ok m h"
  shows "step_ok m h h'"
  by (rule foldr_res_step [OF assms(1,3)], rule first_assign_step) (use assms(2) frame_sec_ok in blast)+

lemma assignSymbols_first_step:
  assumes "assignSymbols False mr c h = Inr h'" "sec_ok h m c" "prog_ok m h" "secs_ok h m"
  shows "step_ok m h h'"
proof -
  have "\<forall>a\<in>set (section_actions (c_body (sec h c))). sec_ok h m a"
  proof
    fix a assume "a \<in> set (section_actions (c_body (sec h c)))"
    moreover have "c < length (st_secs h)" "\<forall>a\<in>set (act_lists h ! c). a < length (st_secs h) \<and> owners h ! a = m"
      using assms(2) by (simp_all add: sec_ok_def)
    ultimately show "sec_ok h m a" using assms(4) view_nth(4) [of c h] by (simp add: secs_ok_def)
  qed
  then show ?thesis
    using assms(1) first_assigns_step [OF _ _ assms(3)] first_assign_step [OF _ assms(2,3)]
    by (auto simp: assignSymbols_def section_actions_def split: body.splits)
qed

lemma first_resolution_step:
  assumes "resolveSymbols False mr m h = Inr h'" "prog_ok m h" "secs_ok h m"
  shows "step_ok m h h'"
proof -
  obtain h1 where 1: "collapseNullStates m h = Inr h1" and 2: "foldr_res (resolve_one False mr) (symbols h1 m) h1 = Inr h'"
    using assms(1) by (auto simp: resolveSymbols_def rbind_Inr_iff)
  have s1: "step_ok m h h1" using views_step [OF collapseNullStates_views [OF 1] assms(2)] .
  then have p1: "prog_ok m h1" and q1: "secs_ok h1 m" using frame_secs_ok assms(3) unfolding step_ok_def by blast+
  have y: "\<forall>s\<in>set (symbols h1 m). sym_ok h1 m s"
    using prog_okD(1,2) [OF p1] by (simp add: symbols_def view_nth)
  have "step_ok m h1 h'"
  proof (rule foldr_res_step [OF 2 p1])
    fix s h2 h3 assume s: "s \<in> set (symbols h1 m)" and f: "frame m h1 h2" and p: "prog_ok m h2"
      and r: "resolve_one False mr s h2 = Inr h3"
    show "step_ok m h2 h3"
    proof (cases "has_actions (sym h2 s)")
      case True
      then obtain c where c: "section_of h2 s = Inr c" "assignSymbols False mr c h2 = Inr h3"
        using r by (auto simp: resolve_one_def rbind_Inr_iff)
      have "sec_ok h2 m c" using c(1) y s frame_sym_ok [OF f] section_of_ok by blast
      then show ?thesis using assignSymbols_first_step [OF c(2) _ p] frame_secs_ok [OF f q1] by blast
    next
      case False
      then show ?thesis using r p by (simp add: resolve_one_def step_ok_def)
    qed
  qed
  then show ?thesis using s1 step_ok_trans by blast
qed

section \<open>Loading\<close>

text \<open>All modules of a store keep their invariants.\<close>

definition store_ok :: "store \<Rightarrow> bool" where
  "store_ok h \<longleftrightarrow> sizes_zero h \<and> (\<forall>c<length (st_secs h). owners h ! c < length (st_mods h)) \<and>
     (\<forall>n<length (st_mods h). module_ok h n \<and> distinct (map snd (tables h ! n)))"

text \<open>A program of the interface: whatever it does to its module, it does by calls.\<close>

definition api_program :: "(mod_ref \<Rightarrow> store \<Rightarrow> store res) \<Rightarrow> bool" where
  "api_program p \<longleftrightarrow> (\<forall>m h h'. p m h = Inr h' \<longrightarrow> (program_call m)\<^sup>*\<^sup>* h h')"

lemma new_module_views:
  assumes "new_module name h = (m, h')"
  shows "m = length (st_mods h)" "length (st_mods h') = Suc m" "st_syms h' = st_syms h" "st_secs h' = st_secs h"
    "kinds h' = kinds h" "names h' = names h" "owners h' = owners h" "act_lists h' = act_lists h"
    "tables h' = tables h @ [[]]" "nulls h' = nulls h @ [None]" "modnames h' = modnames h @ [name]"
  using assms by (auto simp: new_module_def kinds_def names_def tables_def nulls_def modnames_def owners_def act_lists_def)

lemma new_module_ok:
  assumes "new_module name h = (m, h')" "store_ok h"
  shows "prog_ok m h'" "secs_ok h' m" "store_ok h'"
proof -
  note v = new_module_views [OF assms(1)]
  have c: "sec_ok h' n c = sec_ok h n c" "sym_ok h' n s = sym_ok h n s" for n c s
    using v by (simp_all add: sec_ok_def sym_ok_def)
  have o: "n < length (st_mods h) \<Longrightarrow> module_ok h' n" for n
    using assms(2) v c by (auto simp: store_ok_def module_ok_def nulls_ok_def nth_append)
  have mm: "module_ok h' m" using v by (simp add: module_ok_def nulls_ok_def nth_append)
  show "prog_ok m h'" using mm v assms(2) by (simp add: prog_ok_def keyed_def sizes_zero_def store_ok_def nth_append)
  show "secs_ok h' m" using v assms(2) by (auto simp: secs_ok_def store_ok_def)
  show "store_ok h'"
    using o mm v assms(2) by (auto simp: store_ok_def sizes_zero_def nth_append less_Suc_eq)
qed

lemma step_store_ok:
  assumes "step_ok m h h'" "store_ok h" "m < length (st_mods h)"
  shows "store_ok h'"
proof -
  have f: "frame m h h'" and p: "prog_ok m h'" using assms(1) by (simp_all add: step_ok_def)
  note m = frame_mods [OF f]
  have "owners h' ! c < length (st_mods h')" if "c < length (st_secs h')" for c
    using that assms(2,3) frame_owners [OF f, of c] frame_new [OF f, of c] m
    by (cases "c < length (st_secs h)") (auto simp: store_ok_def)
  moreover have "module_ok h' n \<and> distinct (map snd (tables h' ! n))" if "n < length (st_mods h')" for n
  proof (cases "n = m")
    case True
    then show ?thesis using p keyed_distinct by (simp add: prog_ok_def)
  next
    case False
    then show ?thesis using that m assms(2) frame_module_ok [OF f] frame_others [OF f] by (simp add: store_ok_def)
  qed
  ultimately show ?thesis using p by (simp add: store_ok_def prog_ok_def)
qed

lemma store_ok_cong:
  assumes "shape h' = shape h" "owners h' = owners h" "tables h' = tables h" "nulls h' = nulls h"
  shows "store_ok h' = store_ok h"
  using ok_cong(3) [OF assms(1,2)] assms shape_lengths [OF assms(1)]
  by (simp add: store_ok_def sizes_zero_def shape_parts)

lemma setNames_views:
  assumes "foldr_res (\<lambda>s h. setName s (f s h) h) xs h = Inr h'"
  shows "shape h' = shape h" "owners h' = owners h" "tables h' = tables h" "nulls h' = nulls h"
proof -
  have "(shape h', owners h', tables h', nulls h') = (shape h, owners h, tables h, nulls h)"
    by (rule foldr_res_keeps [OF assms]) (simp add: setName_views)
  then show "shape h' = shape h" "owners h' = owners h" "tables h' = tables h" "nulls h' = nulls h" by simp_all
qed

lemma load_class_ok:
  assumes l: "load_class c (l, h) = Inr (l', h')" and ok: "store_ok h" and p: "\<forall>p\<in>set (ec_programs c). api_program p"
  shows "store_ok h'" "l' = l\<lparr>l_linkableModules := l_linkableModules l @ [length (st_mods h)]\<rparr>"
    "length (st_mods h') = Suc (length (st_mods h))"
    "\<And>n. n < length (st_mods h) \<Longrightarrow> tables h' ! n = tables h ! n \<and> nulls h' ! n = nulls h ! n"
proof -
  obtain m h0 h1 h2 where n: "new_module (ec_name c) h = (m, h0)"
    and 1: "foldr_res (\<lambda>program. program m) (ec_programs c) h0 = Inr h1"
    and 2: "resolveSymbols False True m h1 = Inr h2" and 3: "cleanSymbols m h2 = Inr h'"
    and l': "l' = l\<lparr>l_linkableModules := l_linkableModules l @ [m]\<rparr>"
    using l by (auto simp: load_class_def rbind_Inr_iff rmap_Inr_iff split: prod.splits)
  note v = new_module_views [OF n] and k = new_module_ok [OF n ok]
  have s1: "step_ok m h0 h1"
  proof (rule foldr_res_step [OF 1 k(1)])
    fix p ha hb assume p': "p \<in> set (ec_programs c)" "frame m h0 ha" "prog_ok m ha" "p m ha = Inr hb"
    then show "step_ok m ha hb"
      using p program_run_step [of m ha hb] frame_secs_ok [OF p'(2) k(2)] by (simp add: api_program_def)
  qed
  then have "prog_ok m h1" "secs_ok h1 m" using frame_secs_ok k(2) unfolding step_ok_def by blast+
  then have s2: "step_ok m h0 h2" using first_resolution_step [OF 2] s1 step_ok_trans by blast
  note c = setNames_views [OF 3 [unfolded cleanSymbols_def]]
  have "store_ok h2" using step_store_ok [OF s2 k(3)] v by simp
  then show "store_ok h'" using store_ok_cong [OF c] by simp
  show "l' = l\<lparr>l_linkableModules := l_linkableModules l @ [length (st_mods h)]\<rparr>" using l' v by simp
  have f: "frame m h0 h2" using s2 by (simp add: step_ok_def)
  show "length (st_mods h') = Suc (length (st_mods h))"
    using shape_lengths [OF c(1)] frame_mods [OF f] v by simp
  show "tables h' ! n = tables h ! n \<and> nulls h' ! n = nulls h ! n" if "n < length (st_mods h)" for n
    using frame_others [OF f, of n] c v that by (simp add: nth_append)
qed

lemma loadSymbols_ok:
  assumes "loadSymbols classes (l, h) = Inr (l', h')" "store_ok h" "\<forall>c\<in>set classes. \<forall>p\<in>set (ec_programs c). api_program p"
  shows "store_ok h' \<and> l' = l\<lparr>l_linkableModules := l_linkableModules l @ [length (st_mods h)..<length (st_mods h')]\<rparr> \<and>
    length (st_mods h) \<le> length (st_mods h') \<and>
    (\<forall>n<length (st_mods h). tables h' ! n = tables h ! n \<and> nulls h' ! n = nulls h ! n)"
  using assms
proof (induction classes arbitrary: l h)
  case Nil
  then show ?case by (simp add: loadSymbols_def)
next
  case (Cons c cs)
  obtain l1 h1 where 1: "load_class c (l, h) = Inr (l1, h1)" and 2: "loadSymbols cs (l1, h1) = Inr (l', h')"
    using Cons.prems(1) by (auto simp: loadSymbols_def rbind_Inr_iff)
  note k = load_class_ok [OF 1 Cons.prems(2)]
  have p: "\<forall>p\<in>set (ec_programs c). api_program p" using Cons.prems(3) by simp
  note i = Cons.IH [OF 2 k(1) [OF p]]
  have "[length (st_mods h)..<length (st_mods h')] = length (st_mods h) # [length (st_mods h1)..<length (st_mods h')]"
    using i Cons.prems(3) k(3) [OF p] by (simp add: upt_conv_Cons)
  then show ?case using i Cons.prems(3) k(2-4) [OF p] by simp
qed

end
