(* ===== verification/Link_Merge.thy ===== *)
theory Link_Merge imports Link_Load begin

text \<open>
  \<open>addLinkableModule\<close> module by module: the table of the result stays a map from names to defined
  symbols that bear these names, and the actions of its transitions and blocks belong to it.
\<close>

section \<open>The module that is linked\<close>

definition defd :: "symbol_type \<times> sec_ref option \<times> int \<Rightarrow> bool" where
  "defd k \<longleftrightarrow> fst (snd k) \<noteq> None \<and> fst k \<noteq> UNKNOWN"

lemma isDefined_kinds: "s < length (st_syms h) \<Longrightarrow> isDefined (sym h s) = defd (kinds h ! s)"
  by (simp add: isDefined_def defd_def view_nth)

definition acting :: "symbol_type \<times> sec_ref option \<times> int \<Rightarrow> bool" where
  "acting k \<longleftrightarrow> fst k = TRANSITION \<or> fst k = SHARED_BLOCK"

definition entry_ok :: "store \<Rightarrow> mod_ref \<Rightarrow> mod_ref list \<Rightarrow> string \<Rightarrow> sym_ref \<Rightarrow> bool" where
  "entry_ok h r ms k s \<longleftrightarrow> names h ! s = k \<and> s < length (st_syms h) \<and> defd (kinds h ! s) \<and>
     (\<exists>c. fst (snd (kinds h ! s)) = Some c \<and> c < length (st_secs h) \<and> owners h ! c \<notin> set ms \<and>
       (acting (kinds h ! s) \<longrightarrow> owners h ! c = r \<and> (\<forall>a\<in>set (act_lists h ! c). a < length (st_secs h) \<and> owners h ! a = r)))"

text \<open>The result while the modules \<open>ms\<close> are still to come\<close>

definition linked :: "store \<Rightarrow> mod_ref \<Rightarrow> mod_ref list \<Rightarrow> bool" where
  "linked h r ms \<longleftrightarrow> r < length (st_mods h) \<and> r \<notin> set ms \<and> wf_dict (tables h ! r) \<and>
     (\<forall>(k, s)\<in>set (tables h ! r). entry_ok h r ms k s) \<and> (nulls h ! r = None \<or> (\<exists>t. nulls h ! r = Some [t]))"

definition pending :: "store \<Rightarrow> mod_ref list \<Rightarrow> bool" where
  "pending h ms \<longleftrightarrow> distinct ms \<and> (\<forall>n\<in>set ms. module_ok h n \<and> distinct (map snd (tables h ! n)))"

lemma entry_ok_cong:
  assumes "shape h' = shape h" "owners h' = owners h"
  shows "entry_ok h' r ms k s \<longleftrightarrow> (if names h' ! s = k then entry_ok h r ms (names h ! s) s else False)"
  using assms shape_lengths [OF assms(1)] by (auto simp: entry_ok_def shape_parts)

lemma entry_ok_views: "views h' = views h \<Longrightarrow> entry_ok h' r ms k s \<longleftrightarrow> entry_ok h r ms k s"
  using entry_ok_cong [of h' h r ms k s] by (auto simp: views_parts entry_ok_def)

lemma linked_views: "views h' = views h \<Longrightarrow> linked h' r ms \<longleftrightarrow> linked h r ms"
  using entry_ok_views [of h' h r ms] views_lengths(3) [of h' h] by (simp add: linked_def views_parts)

lemma entry_ok_fewer: "entry_ok h r ms k s \<Longrightarrow> set ms' \<subseteq> set ms \<Longrightarrow> entry_ok h r ms' k s"
  unfolding entry_ok_def by blast

section \<open>Merging the null state\<close>

lemma last_null_ok:
  assumes "nullState h m = Some t" "module_ok h m"
  shows "sym_ok h m t" "fst (kinds h ! t) = STATE"
proof -
  obtain l where l: "nulls h ! m = Some l" "t = last l"
    using assms by (auto simp: nullState_def view_nth module_ok_def)
  then have "l \<noteq> []" "\<forall>s\<in>set l. sym_ok h m s \<and> fst (kinds h ! s) = STATE"
    using assms(2) by (auto simp: module_ok_def nulls_ok_def)
  then show "sym_ok h m t" "fst (kinds h ! t) = STATE" using l by auto
qed

text \<open>A symbol of a module that is still to come is not in the result.\<close>

lemma pending_not_linked:
  assumes "sym_ok h m s" "linked h r (m # ms)"
  shows "s \<notin> snd ` set (tables h ! r)"
proof
  assume "s \<in> snd ` set (tables h ! r)"
  then obtain k where "entry_ok h r (m # ms) k s" using assms(2) by (force simp: linked_def)
  then show False using assms(1) by (auto simp: entry_ok_def sym_ok_def sec_ok_def)
qed

lemma merge_null_linked:
  assumes g: "merge_null_state r m h = Inr h'" and l: "linked h r (m # ms)" and p: "pending h (m # ms)"
  obtains t where "nullState h m = Some t" "shape h' = shape h" "owners h' = owners h"
    "linked h' r ms" "\<And>n. n \<noteq> r \<Longrightarrow> tables h' ! n = tables h ! n \<and> nulls h' ! n = nulls h ! n"
    "\<And>s. sym_ok h m s \<Longrightarrow> s \<noteq> t \<Longrightarrow> s \<notin> snd ` set (tables h' ! r)"
proof -
  obtain t where t: "nullState h m = Some t" using g by (auto simp: merge_null_state_def split: option.splits)
  have ok: "module_ok h m" using p by (simp add: pending_def)
  note tk = last_null_ok [OF t ok]
  have r: "r < length (st_mods h)" "r \<noteq> m" "r \<notin> set ms" and w: "wf_dict (tables h ! r)"
    and e: "\<And>k s. (k, s) \<in> set (tables h ! r) \<Longrightarrow> entry_ok h r (m # ms) k s"
    using l by (auto simp: linked_def)
  show thesis
  proof (cases "nullState h r")
    case None
    then have n: "nulls h ! r = None" using r by (simp add: nullState_def view_nth)
    have sn: "setNullState r t h = Inr h'" using g t None by (simp add: merge_null_state_def)
    have tl: "t < length (st_syms h)" using tk by (simp add: sym_ok_def)
    note v = setNullState_views [OF sn r(1) tl]
    let ?d = "dict_set NULL_STATE_NAME t (tables h ! r)"
    have tr: "tables h' ! r = (if names h ! t = NULL_STATE_NAME then ?d else dict_del (names h ! t) ?d)"
      using v(5) r by (simp add: Let_def)
    have sub: "set (tables h' ! r) \<subseteq> insert (NULL_STATE_NAME, t) (set (tables h ! r))"
      using set_dict_set_subset [of NULL_STATE_NAME t "tables h ! r"] unfolding tr by (auto simp: set_dict_del)
    have new: "s \<notin> snd ` set (tables h' ! r)" if "sym_ok h m s" "s \<noteq> t" for s
      using pending_not_linked [OF that(1) l] that(2) sub by auto
    have entries: "entry_ok h' r ms k s" if "(k, s) \<in> set (tables h' ! r)" for k s
    proof (cases "s = t")
      case True
      then have "(k, s) = (NULL_STATE_NAME, t)" using that sub pending_not_linked [OF tk(1) l] by force
      then show ?thesis
        using v tk tl p shape_lengths [OF v(1)]
        by (auto simp: entry_ok_def defd_def acting_def sym_ok_def sec_ok_def shape_parts pending_def)
    next
      case False
      then have "entry_ok h r (m # ms) k s" using that sub e by auto
      then have "entry_ok h r ms k s" by (rule entry_ok_fewer) auto
      moreover from this have "k = names h ! s" by (simp add: entry_ok_def)
      moreover have "names h' ! s = names h ! s" using v(3) False by simp
      ultimately show ?thesis by (simp add: entry_ok_cong [OF v(1,2)])
    qed
    have "linked h' r ms"
      using r w entries v(4) n shape_lengths [OF v(1)] unfolding linked_def tr by (auto simp: Let_def split: if_splits)
    then show thesis using that [OF t v(1,2) _ _ new] v(4,5) by simp
  next
    case (Some q)
    then have vv: "views h' = views h" using g t combine_symbols_views by (simp add: merge_null_state_def)
    then have v: "shape h' = shape h" "names h' = names h" "owners h' = owners h" "tables h' = tables h" "nulls h' = nulls h"
      using vv by (simp_all add: views_parts)
    have "entry_ok h r ms k s" if "(k, s) \<in> set (tables h ! r)" for k s
      using entry_ok_fewer [OF e [OF that]] by auto
    then have "linked h r ms" using l by (auto simp: linked_def)
    then have "linked h' r ms" using linked_views [OF vv] by simp
    then show thesis using that [OF t v(1,3)] v(4,5) pending_not_linked [OF _ l] by simp
  qed
qed

section \<open>Merging the symbols\<close>

text \<open>A symbol that is still to be moved from module \<open>m\<close> to the result \<open>r\<close>\<close>

definition moving :: "store \<Rightarrow> mod_ref \<Rightarrow> mod_ref \<Rightarrow> sym_ref \<Rightarrow> bool" where
  "moving h r m s \<longleftrightarrow> s < length (st_syms h) \<and> (\<exists>c. fst (snd (kinds h ! s)) = Some c \<and> c < length (st_secs h) \<and>
     owners h ! c \<in> {m, r} \<and> (\<forall>a\<in>set (act_lists h ! c). a < length (st_secs h) \<and> owners h ! a \<in> {m, r}))"

text \<open>Sections go over to the result.\<close>

definition moved :: "mod_ref \<Rightarrow> mod_ref \<Rightarrow> store \<Rightarrow> store \<Rightarrow> bool" where
  "moved r m h h' \<longleftrightarrow> shape h' = shape h \<and> (\<forall>n. n \<noteq> r \<longrightarrow> tables h' ! n = tables h ! n) \<and> nulls h' = nulls h \<and>
     (\<forall>c<length (st_secs h). owners h' ! c = owners h ! c \<or> owners h ! c \<in> {m, r} \<and> owners h' ! c = r)"

lemma moved_refl [simp]: "moved r m h h"
  by (simp add: moved_def)

lemma moved_trans: "moved r m h h1 \<Longrightarrow> moved r m h1 h2 \<Longrightarrow> moved r m h h2"
proof -
  assume a: "moved r m h h1" "moved r m h1 h2"
  then have "length (st_secs h1) = length (st_secs h)" using shape_lengths [of h1 h] by (simp add: moved_def)
  then have "owners h2 ! c = owners h ! c \<or> owners h ! c \<in> {m, r} \<and> owners h2 ! c = r" if "c < length (st_secs h)" for c
    using a that unfolding moved_def by (metis insertE insertI1 insertI2 singletonD)
  then show "moved r m h h2" using a by (simp add: moved_def)
qed

lemma moved_moving:
  assumes "moved r m h h'" "moving h r m s"
  shows "moving h' r m s"
proof -
  have k: "kinds h' = kinds h" "act_lists h' = act_lists h" and l: "length (st_syms h') = length (st_syms h)"
    "length (st_secs h') = length (st_secs h)"
    using assms(1) shape_lengths [of h' h] by (auto simp: moved_def shape_parts)
  have o: "owners h' ! c \<in> {m, r}" if "c < length (st_secs h)" "owners h ! c \<in> {m, r}" for c
    using assms(1) that by (auto simp: moved_def)
  obtain c where s: "s < length (st_syms h)" and c: "fst (snd (kinds h ! s)) = Some c" "c < length (st_secs h)"
    "owners h ! c \<in> {m, r}" "\<forall>a\<in>set (act_lists h ! c). a < length (st_secs h) \<and> owners h ! a \<in> {m, r}"
    using assms(2) by (auto simp: moving_def)
  show ?thesis unfolding moving_def k l using s c(1,2,4) o [OF c(2,3)] o by blast
qed

lemma moved_pending:
  assumes v: "moved r m h h'" and p: "pending h ms" and n: "m \<notin> set ms" "r \<notin> set ms"
  shows "pending h' ms"
proof -
  have s: "kinds h' = kinds h" "act_lists h' = act_lists h" and l: "length (st_syms h') = length (st_syms h)"
    "length (st_secs h') = length (st_secs h)" "length (st_mods h') = length (st_mods h)"
    using v shape_lengths [of h' h] by (auto simp: moved_def shape_parts)
  have c: "sec_ok h k c \<Longrightarrow> sec_ok h' k c" if "k \<in> set ms" for k c
    using that v n l s unfolding sec_ok_def moved_def by (metis insertE singletonD)
  have y: "sym_ok h k x \<Longrightarrow> sym_ok h' k x" if "k \<in> set ms" for k x
    using c [OF that] s l by (auto simp: sym_ok_def)
  have "module_ok h' k \<and> distinct (map snd (tables h' ! k))" if "k \<in> set ms" for k
  proof -
    have "k \<noteq> r" using that n(2) by auto
    then show ?thesis using p that y [OF that] v s l by (auto simp: pending_def module_ok_def nulls_ok_def moved_def)
  qed
  then show ?thesis using p by (simp add: pending_def)
qed

lemma add_symbol_linked:
  assumes g: "add_module_symbol r m s h = Inr h'" and l: "linked h r ms" and n: "m \<notin> set ms" "m \<noteq> r"
    and mv: "moving h r m s" and t: "nullState h m = Some t" and fresh: "s \<noteq> t \<Longrightarrow> s \<notin> snd ` set (tables h ! r)"
  shows "linked h' r ms" "moved r m h h'"
    "\<And>x. x \<noteq> s \<Longrightarrow> x \<notin> snd ` set (tables h ! r) \<Longrightarrow> x \<notin> snd ` set (tables h' ! r)"
proof -
  have r: "r < length (st_mods h)" "r \<notin> set ms" and w: "wf_dict (tables h ! r)"
    and e: "\<And>k s. (k, s) \<in> set (tables h ! r) \<Longrightarrow> entry_ok h r ms k s"
    using l by (auto simp: linked_def)
  obtain c where s: "s < length (st_syms h)" and c: "fst (snd (kinds h ! s)) = Some c" "c < length (st_secs h)"
    "owners h ! c \<in> {m, r}" "\<forall>a\<in>set (act_lists h ! c). a < length (st_secs h) \<and> owners h ! a \<in> {m, r}"
    using mv by (auto simp: moving_def)
  have "linked h' r ms \<and> moved r m h h' \<and>
    (\<forall>x. x \<noteq> s \<longrightarrow> x \<notin> snd ` set (tables h ! r) \<longrightarrow> x \<notin> snd ` set (tables h' ! r))"
  proof (cases "symbol_eq (sym h s) (sym h t)")
    case True
    then show ?thesis using g t l by (simp add: add_module_symbol_def)
  next
    case False
    then have st: "s \<noteq> t" by (auto simp: symbol_eq_def)
    define name where "name = mangled (m_name (modl h m)) (sym h s)"
    obtain h1 where h1: "shape h1 = shape h" "names h1 = (names h)[s := name]" "owners h1 = owners h"
        "tables h1 = tables h" "nulls h1 = nulls h"
      and rest: "(if isDefined (sym h1 s) then
               rmap (\<lambda>c. setLinkableModule r c (upd_symbols r (dict_set name s) h1)) (section_of h1 s)
             else Inr h1) = Inr h'"
    proof (cases "name = y_name (sym h s)")
      case True
      then have "(names h)[s := name] = names h" using view_nth(2) [OF s] by (metis list_update_id)
      moreover have "(if isDefined (sym h s) then
               rmap (\<lambda>c. setLinkableModule r c (upd_symbols r (dict_set name s) h)) (section_of h s)
             else Inr h) = Inr h'"
        using g False t True by (simp add: add_module_symbol_def name_def [symmetric] Let_def cong del: if_weak_cong)
      ultimately show thesis using that [of h] by simp
    next
      case neq: False
      then obtain h1 where "setName s name h = Inr h1" "(if isDefined (sym h1 s) then
               rmap (\<lambda>c. setLinkableModule r c (upd_symbols r (dict_set name s) h1)) (section_of h1 s)
             else Inr h1) = Inr h'"
        using g False t by (auto simp: add_module_symbol_def name_def [symmetric] Let_def rbind_Inr_iff split: if_splits)
      then show thesis using that [of h1] setName_views by blast
    qed
    note len = shape_lengths [OF h1(1)]
    have k1: "kinds h1 = kinds h" "act_lists h1 = act_lists h" using h1(1) by (simp_all add: shape_parts)
    have e1: "entry_ok h1 r ms k x" if "(k, x) \<in> set (tables h ! r)" for k x
    proof -
      have "x \<noteq> s" using that fresh [OF st] by force
      then have "names h1 ! x = names h ! x" using h1(2) by simp
      then show ?thesis using e [OF that] entry_ok_cong [OF h1(1,3), of r ms k x] by (simp add: entry_ok_def)
    qed
    show ?thesis
    proof (cases "isDefined (sym h1 s)")
      case False
      then have "h' = h1" using rest by simp
      moreover have "linked h1 r ms" using l h1 e1 len by (auto simp: linked_def)
      ultimately show ?thesis using h1 by (simp add: moved_def)
    next
      case True
      define h2 where "h2 = upd_symbols r (dict_set name s) h1"
      have v2: "shape h2 = shape h" "names h2 = names h1" "owners h2 = owners h" "nulls h2 = nulls h"
        "tables h2 = (tables h)[r := dict_set name s (tables h ! r)]"
        using h1 by (simp_all add: h2_def view_simps shape_parts)
      note len2 = shape_lengths [OF v2(1)]
      have "section_of h1 s = Inr c"
        using True c(1) s len k1(1) view_nth(1) [of s h1] by (auto simp: section_of_Inr isDefined_def)
      then have h': "h' = setLinkableModule r c h2" using rest True by (simp add: h2_def)
      note v = setLinkableModule_views [of r c h2, folded h']
      have sh: "shape h' = shape h" using v(1) v2(1) by simp
      note len' = shape_lengths [OF sh]
      have k': "kinds h' = kinds h" "act_lists h' = act_lists h" using sh by (simp_all add: shape_parts)
      have acts: "section_actions (c_body (sec h2 c)) = act_lists h ! c"
        using v2(1) len2 c(2) view_nth(4) [of c h2] by (simp add: shape_parts)
      have ow: "owners h' ! d = (if d = c \<or> d \<in> set (act_lists h ! c) then r else owners h ! d)"
        if "d < length (st_secs h)" for d
        using setLinkableModule_owners [of c h2 d r] that c(2) len2 v2(3) acts unfolding h' by simp
      have tr: "tables h' ! r = dict_set name s (tables h ! r)" using v(3) v2(5) r by simp
      have "defd (kinds h ! s)" using True isDefined_kinds [of s h1] s len k1 by simp
      then have es: "entry_ok h' r ms name s"
        using ow c s len' k' v(2) v2(2) h1(2) r by (auto simp: entry_ok_def)
      have ex: "entry_ok h' r ms k x" if x: "(k, x) \<in> set (tables h ! r)" for k x
      proof -
        have "names h' ! x = k" using e1 [OF x] v(2) v2(2) by (simp add: entry_ok_def)
        then show ?thesis using e [OF x] ow k' len' r(2) by (auto simp: entry_ok_def)
      qed
      have "linked h' r ms"
        using l es ex w len' v(4) v2(4) set_dict_set_subset [of name s "tables h ! r"] unfolding linked_def tr by auto
      moreover have "moved r m h h'"
        using sh v(3,4) v2(4,5) ow c(3,4) by (auto simp: moved_def)
      moreover have "x \<notin> snd ` set (tables h' ! r)" if "x \<noteq> s" "x \<notin> snd ` set (tables h ! r)" for x
        using that set_dict_set_subset [of name s "tables h ! r"] unfolding tr by force
      ultimately show ?thesis by blast
    qed
  qed
  then show "linked h' r ms" "moved r m h h'"
    "\<And>x. x \<noteq> s \<Longrightarrow> x \<notin> snd ` set (tables h ! r) \<Longrightarrow> x \<notin> snd ` set (tables h' ! r)" by blast+
qed

lemma nullState_nulls: "m < length (st_mods h) \<Longrightarrow> nullState h m = map_option last (nulls h ! m)"
  by (simp add: nullState_def view_nth)

lemma add_symbols_linked:
  assumes "foldr_res (add_module_symbol r m) xs h = Inr h'" "linked h r ms" "m \<notin> set ms" "m \<noteq> r"
    "m < length (st_mods h)" "nullState h m = Some t" "distinct xs" "\<forall>s\<in>set xs. moving h r m s"
    "\<forall>s\<in>set xs. s \<noteq> t \<longrightarrow> s \<notin> snd ` set (tables h ! r)"
  shows "linked h' r ms \<and> moved r m h h'"
  using assms
proof (induction xs arbitrary: h)
  case Nil
  then show ?case by simp
next
  case (Cons s xs)
  obtain h1 where g: "add_module_symbol r m s h = Inr h1" and rest: "foldr_res (add_module_symbol r m) xs h1 = Inr h'"
    using Cons.prems(1) by (auto simp: rbind_Inr_iff)
  have "moving h r m s" "s \<noteq> t \<Longrightarrow> s \<notin> snd ` set (tables h ! r)" using Cons.prems(8,9) by simp_all
  note 1 = add_symbol_linked [OF g Cons.prems(2-4) this(1) Cons.prems(6) this(2)]
  have m: "m < length (st_mods h1)" "nullState h1 m = Some t"
    using 1(2) Cons.prems(5,6) shape_lengths [of h1 h] nullState_nulls by (auto simp: moved_def)
  have "linked h' r ms \<and> moved r m h1 h'"
  proof (rule Cons.IH [OF rest 1(1) Cons.prems(3,4) m])
    show "distinct xs" using Cons.prems(7) by simp
    show "\<forall>x\<in>set xs. moving h1 r m x" using Cons.prems(8) moved_moving [OF 1(2)] by simp
    show "\<forall>x\<in>set xs. x \<noteq> t \<longrightarrow> x \<notin> snd ` set (tables h1 ! r)"
    proof (intro ballI impI)
      fix x assume x: "x \<in> set xs" "x \<noteq> t"
      then have "x \<noteq> s" "x \<notin> snd ` set (tables h ! r)" using Cons.prems(7,9) by auto
      then show "x \<notin> snd ` set (tables h1 ! r)" using 1(3) by blast
    qed
  qed
  then show ?case using moved_trans [OF 1(2)] by blast
qed

lemma add_module_linked:
  assumes g: "addLinkableModule r m h = Inr h'" and l: "linked h r (m # ms)" and p: "pending h (m # ms)"
  shows "linked h' r ms" "pending h' ms" "shape h' = shape h"
proof -
  obtain h1 where n: "merge_null_state r m h = Inr h1" and a: "foldr_res (add_module_symbol r m) (symbols h1 m) h1 = Inr h'"
    using g by (auto simp: addLinkableModule_def rbind_Inr_iff)
  obtain t where t: "nullState h m = Some t" and s: "shape h1 = shape h" "owners h1 = owners h"
    and l1: "linked h1 r ms" and o: "\<And>n. n \<noteq> r \<Longrightarrow> tables h1 ! n = tables h ! n \<and> nulls h1 ! n = nulls h ! n"
    and f: "\<And>s. sym_ok h m s \<Longrightarrow> s \<noteq> t \<Longrightarrow> s \<notin> snd ` set (tables h1 ! r)"
    using merge_null_linked [OF n l p] by blast
  have m: "m < length (st_mods h)" "m \<noteq> r" "m \<notin> set ms" "r \<notin> set ms" "module_ok h m" "distinct (map snd (tables h ! m))"
    using l p by (auto simp: linked_def pending_def module_ok_def)
  note len = shape_lengths [OF s(1)]
  have sy: "symbols h1 m = map snd (tables h ! m)" using m(1,2) o len view_nth(5) [of m h1] by (simp add: symbols_def)
  have ok: "\<forall>x\<in>set (symbols h1 m). sym_ok h m x" using m(5) sy by (simp add: module_ok_def)
  have k1: "kinds h1 = kinds h" "act_lists h1 = act_lists h" using s(1) by (simp_all add: shape_parts)
  have "\<forall>x\<in>set (symbols h1 m). moving h1 r m x"
    using ok k1 s(2) len by (auto simp: sym_ok_def sec_ok_def moving_def)
  moreover have "nullState h1 m = Some t" using t m(1,2) o len nullState_nulls by metis
  ultimately have "linked h' r ms \<and> moved r m h1 h'"
    using add_symbols_linked [OF a l1 m(3,2)] m(1) len(3) m(6) sy ok f by simp
  then show "linked h' r ms" "pending h' ms" "shape h' = shape h"
  proof -
    show "shape h' = shape h" using s(1) \<open>linked h' r ms \<and> moved r m h1 h'\<close> by (simp add: moved_def)
    have "pending h ms" using p by (simp add: pending_def)
    moreover have "module_ok h1 k = module_ok h k" if "k \<noteq> r" for k using ok_cong(3) [OF s] o [OF that] by simp
    ultimately have "pending h1 ms" using o m(4) unfolding pending_def by metis
    then show "pending h' ms" using moved_pending m(3,4) \<open>linked h' r ms \<and> moved r m h1 h'\<close> by blast
  qed simp
qed

lemma add_modules_linked:
  assumes "foldr_res (addLinkableModule r) ms h = Inr h'" "linked h r ms" "pending h ms"
  shows "linked h' r [] \<and> shape h' = shape h"
  using assms
proof (induction ms arbitrary: h)
  case (Cons m ms)
  then obtain h1 where 1: "addLinkableModule r m h = Inr h1" "foldr_res (addLinkableModule r) ms h1 = Inr h'"
    by (auto simp: rbind_Inr_iff)
  note k = add_module_linked [OF 1(1) Cons.prems(2,3)]
  show ?case using Cons.IH [OF 1(2) k(1,2)] k(3) by simp
qed simp

end
