(* ===== verification/Link_Resolve.thy ===== *)
theory Link_Resolve imports Link_Merge begin

text \<open>
  \<open>resolveSymbols\<close> on the merged module, and \<open>link\<close> as a whole: afterwards no action of the result
  refers to an undefined symbol, so the finalized program can be written.
\<close>

section \<open>The last resolution\<close>

text \<open>Names and definedness of all symbols stay.\<close>

definition same_syms :: "store \<Rightarrow> store \<Rightarrow> bool" where
  "same_syms h h' \<longleftrightarrow> (\<forall>s. y_name (sym h' s) = y_name (sym h s) \<and> y_type (sym h' s) = y_type (sym h s) \<and>
     y_section (sym h' s) = y_section (sym h s))"

lemma same_syms_refl [simp]: "same_syms h h"
  by (simp add: same_syms_def)

lemma same_syms_trans: "same_syms h h1 \<Longrightarrow> same_syms h1 h2 \<Longrightarrow> same_syms h h2"
  by (simp add: same_syms_def)

lemma same_syms_defined: "same_syms h h' \<Longrightarrow> isDefined (sym h' s) = isDefined (sym h s)"
  by (simp add: same_syms_def isDefined_def)

abbreviation refs :: "store \<Rightarrow> sec_ref \<Rightarrow> sym_ref list" where
  "refs h a \<equiv> referenceSymbols (c_body (sec h a))"

text \<open>What a step of the last resolution does: it may replace references by defined symbols.\<close>

definition resolving :: "store \<Rightarrow> store \<Rightarrow> bool" where
  "resolving h h' \<longleftrightarrow> views h' = views h \<and> same_syms h h' \<and> (\<forall>b. is_action h b \<longrightarrow> is_action h' b) \<and>
     (\<forall>b. \<not> isUnresolved h b \<longrightarrow> \<not> isUnresolved h' b)"

lemma resolving_refl [simp]: "resolving h h"
  by (simp add: resolving_def)

lemma resolving_trans: "resolving h h1 \<Longrightarrow> resolving h1 h2 \<Longrightarrow> resolving h h2"
  unfolding resolving_def by (auto intro: same_syms_trans)

lemma foldr_res_resolving:
  assumes "foldr_res f xs h = Inr h'"
    and "\<And>x h1 h2. x \<in> set xs \<Longrightarrow> resolving h h1 \<Longrightarrow> f x h1 = Inr h2 \<Longrightarrow> resolving h1 h2"
  shows "resolving h h'"
  by (rule foldr_res_invariant [OF assms(1)]) (use assms(2) resolving_trans in \<open>simp, blast\<close>)

lemma getSymbol_linked:
  assumes "linked h r []" "getSymbol h r name = Some t"
  shows "y_name (sym h t) = name" "isDefined (sym h t)"
proof -
  have "(name, t) \<in> set (tables h ! r)"
    using assms by (auto simp: getSymbol_def linked_def view_nth dest: map_of_SomeD)
  then have "entry_ok h r [] name t" using assms(1) by (auto simp: linked_def)
  then show "y_name (sym h t) = name" "isDefined (sym h t)"
    by (auto simp: entry_ok_def view_nth isDefined_kinds)
qed

lemma refs_on_action: "refs (on_action a f h) b = (if b = a \<and> a < length (st_secs h) then f (refs h a) else refs h b)"
  by (auto simp: on_action_def sec_upd_sec)

lemma resolve_found:
  assumes "is_action h a" "isDefined (sym h t)"
  defines "h' \<equiv> addUsedIn t a (replaceReferenceSymbol a t h)"
  shows "resolving h h'"
    "a < length (st_secs h) \<Longrightarrow> refs h' a = map (\<lambda>s. if y_name (sym h s) = y_name (sym h t) then t else s) (refs h a)"
proof -
  let ?f = "map (\<lambda>s. if y_name (sym h s) = y_name (sym h t) then t else s)"
  have v: "views h' = views h"
    using on_action_views [OF assms(1)]
    by (simp add: h'_def replaceReferenceSymbol_def views_parts shape_parts view_simps)
  have ss: "same_syms h h'"
    by (simp add: h'_def same_syms_def addUsedIn_def sym_upd_sym replaceReferenceSymbol_def on_action_def)
  have r: "refs h' b = (if b = a \<and> a < length (st_secs h) then ?f (refs h a) else refs h b)" for b
    using refs_on_action [of a ?f h b] by (simp add: h'_def replaceReferenceSymbol_def addUsedIn_def)
  then show "a < length (st_secs h) \<Longrightarrow> refs h' a = ?f (refs h a)" by simp
  have "is_action h' b" if "is_action h b" for b
    using on_action_is_action [OF that] by (simp add: h'_def replaceReferenceSymbol_def is_action_def addUsedIn_def)
  moreover have "\<not> isUnresolved h' b" if "\<not> isUnresolved h b" for b
    using that r [of b] assms(2) same_syms_defined [OF ss] by (auto simp: isUnresolved_def list_all_iff)
  ultimately show "resolving h h'" using v ss by (simp add: resolving_def)
qed

text \<open>The references of an action that are still to be resolved are among the names of the list.\<close>

lemma resolve_list:
  assumes "foldr_res (resolve_symbol True a) us h = Inr h'" "is_action h a" "a < length (st_secs h)" "linked h r []"
    "owners h ! a = r" "\<forall>s\<in>set (refs h a). isDefined (sym h s) \<or> y_name (sym h s) \<in> (\<lambda>u. y_name (sym h u)) ` set us"
  shows "resolving h h' \<and> \<not> isUnresolved h' a"
  using assms
proof (induction us arbitrary: h)
  case Nil
  then show ?case by (simp add: isUnresolved_def list_all_iff)
next
  case (Cons u us)
  have m: "c_linkableModule (sec h a) = r" using Cons.prems(3,5) by (simp add: view_nth)
  obtain h0 where h0: "resolve_symbol True a u h = Inr h0" and rest0: "foldr_res (resolve_symbol True a) us h0 = Inr h'"
    using Cons.prems(1) by (auto simp: rbind_Inr_iff)
  obtain t where t: "getSymbol h r (y_name (sym h u)) = Some t" and "h0 = addUsedIn t a (replaceReferenceSymbol a t h)"
    using h0 m by (auto simp: resolve_symbol_def split: option.splits)
  then have rest: "foldr_res (resolve_symbol True a) us (addUsedIn t a (replaceReferenceSymbol a t h)) = Inr h'"
    using rest0 by simp
  define h1 where "h1 = addUsedIn t a (replaceReferenceSymbol a t h)"
  note g = getSymbol_linked [OF Cons.prems(4) t]
  note f = resolve_found [OF Cons.prems(2) g(2), folded h1_def]
  have v: "views h1 = views h" "same_syms h h1" "is_action h1 a" using f(1) Cons.prems(2) by (simp_all add: resolving_def)
  have l: "length (st_secs h1) = length (st_secs h)" using views_lengths [OF v(1)] by simp
  have d: "isDefined (sym h1 s) = isDefined (sym h s)" "y_name (sym h1 s) = y_name (sym h s)" for s
    using v(2) same_syms_defined by (auto simp: same_syms_def)
  have "resolving h1 h' \<and> \<not> isUnresolved h' a"
  proof (rule Cons.IH [OF rest [folded h1_def] v(3)])
    show "a < length (st_secs h1)" using Cons.prems(3) l by simp
    show "linked h1 r []" using linked_views [OF v(1)] Cons.prems(4) by simp
    show "owners h1 ! a = r" using v(1) Cons.prems(5) by (simp add: views_parts)
    show "\<forall>s\<in>set (refs h1 a). isDefined (sym h1 s) \<or> y_name (sym h1 s) \<in> (\<lambda>u. y_name (sym h1 u)) ` set us"
      using Cons.prems(6) g f(2) [OF Cons.prems(3)] unfolding d by auto
  qed
  then show ?case using f(1) resolving_trans by blast
qed

lemma resolve_action:
  assumes "action_assignSymbols True True a h = Inr h'" "a < length (st_secs h)" "linked h r []" "owners h ! a = r"
  shows "resolving h h' \<and> \<not> isUnresolved h' a"
proof -
  have i: "is_action h a" and f: "foldr_res (resolve_symbol True a) (getUnresolvedSymbols h a) h = Inr h'"
    using assms(1) by (auto simp: action_assignSymbols_def is_action_def rbind_Inr_iff split: body.splits)
  show ?thesis by (rule resolve_list [OF f i assms(2-4)]) (auto simp: getUnresolvedSymbols_def)
qed

lemma resolving_linked:
  assumes "resolving h h'"
  shows "linked h' r ms = linked h r ms" "length (st_secs h') = length (st_secs h)" "owners h' = owners h"
    "act_lists h' = act_lists h" "tables h' = tables h"
  using assms linked_views [of h' h] views_lengths [of h' h] by (auto simp: resolving_def views_parts shape_parts)

lemma resolve_actions:
  assumes "foldr_res (action_assignSymbols True True) as h = Inr h'"
    "\<forall>a\<in>set as. a < length (st_secs h) \<and> owners h ! a = r" "linked h r []"
  shows "resolving h h' \<and> (\<forall>a\<in>set as. \<not> isUnresolved h' a)"
  using assms
proof (induction as arbitrary: h)
  case Nil
  then show ?case by simp
next
  case (Cons a as)
  obtain h1 where 1: "action_assignSymbols True True a h = Inr h1"
    and 2: "foldr_res (action_assignSymbols True True) as h1 = Inr h'"
    using Cons.prems(1) by (auto simp: rbind_Inr_iff)
  have r: "resolving h h1" "\<not> isUnresolved h1 a" using resolve_action [OF 1] Cons.prems(2,3) by auto
  note l = resolving_linked [OF r(1)]
  have "resolving h1 h' \<and> (\<forall>a\<in>set as. \<not> isUnresolved h' a)"
    by (rule Cons.IH [OF 2]) (use Cons.prems l in auto)
  then show ?case using r resolving_trans by (auto simp: resolving_def)
qed

text \<open>The actions of a symbol\<close>

definition all_resolved :: "store \<Rightarrow> sym_ref \<Rightarrow> bool" where
  "all_resolved h s \<longleftrightarrow> (\<forall>c. has_actions (sym h s) \<longrightarrow> y_section (sym h s) = Some c \<longrightarrow>
     (\<forall>a\<in>set (act_lists h ! c). \<not> isUnresolved h a))"

lemma resolving_all_resolved:
  assumes "resolving h h'" "all_resolved h s"
  shows "all_resolved h' s"
  using assms resolving_linked(4) [OF assms(1)] unfolding all_resolved_def has_actions_def resolving_def same_syms_def
  by simp

lemma resolve_one_resolved:
  assumes "resolve_one True True s h = Inr h'" "linked h r []" "s \<in> snd ` set (tables h ! r)"
  shows "resolving h h' \<and> all_resolved h' s"
proof (cases "has_actions (sym h s)")
  case False
  then show ?thesis using assms(1) by (auto simp: resolve_one_def all_resolved_def)
next
  case True
  obtain k where "entry_ok h r [] k s" using assms(2,3) by (force simp: linked_def)
  then obtain c where s: "s < length (st_syms h)" and c: "y_section (sym h s) = Some c" "c < length (st_secs h)"
    and ow: "owners h ! c = r" and a: "\<forall>a\<in>set (act_lists h ! c). a < length (st_secs h) \<and> owners h ! a = r"
    using True by (auto simp: entry_ok_def view_nth(1) acting_def has_actions_def)
  have g: "assignSymbols True True c h = Inr h'"
    using assms(1) True c(1) by (auto simp: resolve_one_def rbind_Inr_iff section_of_Inr)
  have act: "section_actions (c_body (sec h c)) = act_lists h ! c" using c(2) by (simp add: view_nth)
  have "resolving h h' \<and> (\<forall>a\<in>set (act_lists h ! c). \<not> isUnresolved h' a)"
    using g a act resolve_actions [OF _ _ assms(2)] resolve_action [OF _ c(2) assms(2) ow] by (auto simp: assignSymbols_def section_actions_def split: body.splits)
  then show ?thesis using c(1) resolving_linked(4) [of h h'] by (auto simp: all_resolved_def resolving_def same_syms_def)
qed


lemma resolve_all:
  assumes "foldr_res (resolve_one True True) xs h = Inr h'" "linked h r []" "set xs \<subseteq> snd ` set (tables h ! r)"
  shows "resolving h h' \<and> (\<forall>s\<in>set xs. all_resolved h' s)"
  using assms
proof (induction xs arbitrary: h)
  case Nil
  then show ?case by simp
next
  case (Cons s xs)
  obtain h1 where 1: "resolve_one True True s h = Inr h1" and 2: "foldr_res (resolve_one True True) xs h1 = Inr h'"
    using Cons.prems(1) by (auto simp: rbind_Inr_iff)
  have r: "resolving h h1" "all_resolved h1 s" using resolve_one_resolved [OF 1 Cons.prems(2)] Cons.prems(3) by auto
  note l = resolving_linked [OF r(1)]
  have "resolving h1 h' \<and> (\<forall>s\<in>set xs. all_resolved h' s)"
    by (rule Cons.IH [OF 2]) (use Cons.prems l in auto)
  then show ?case using r resolving_trans resolving_all_resolved by (metis set_ConsD)
qed

lemma last_resolution:
  assumes "resolveSymbols True True r h = Inr h'" "linked h r []"
  shows "resolving h h'" "linked h' r []" "\<forall>s\<in>snd ` set (tables h' ! r). all_resolved h' s"
proof -
  have m: "r < length (st_mods h)" using assms(2) by (simp add: linked_def)
  have "collapseNullStates r h = Inr h"
    using assms m by (auto simp: resolveSymbols_def collapseNullStates_def rbind_Inr_iff linked_def view_nth split: option.splits)
  then have f: "foldr_res (resolve_one True True) (symbols h r) h = Inr h'"
    using assms(1) by (simp add: resolveSymbols_def)
  have sy: "set (symbols h r) = snd ` set (tables h ! r)" using m by (simp add: symbols_def view_nth)
  note r = resolve_all [OF f assms(2)]
  then show "resolving h h'" using sy by simp
  note l = resolving_linked [OF this]
  show "linked h' r []" using l assms(2) by simp
  show "\<forall>s\<in>snd ` set (tables h' ! r). all_resolved h' s" using r sy l by simp
qed

section \<open>Loading and linking\<close>

definition empty_store :: store where
  "empty_store = \<lparr>st_syms = [], st_secs = [], st_mods = []\<rparr>"

text \<open>A linker with its modules loaded, as \<open>linkerMain\<close> makes it\<close>

definition loaded :: "string \<Rightarrow> base_addr \<Rightarrow> efa_class list \<Rightarrow> efa_linker \<Rightarrow> store \<Rightarrow> bool" where
  "loaded output base classes l h \<longleftrightarrow> loadSymbols classes (EFAlinker output base empty_store) = Inr (l, h) \<and>
     (\<forall>c\<in>set classes. \<forall>p\<in>set (ec_programs c). api_program p)"

lemma loaded_ok:
  assumes "loaded output base classes l h"
  shows "l_resultLinkableModule l = 0" "l_linkableModules l = [1..<length (st_mods h)]" "store_ok h"
    "linked h 0 (l_linkableModules l)" "pending h (l_linkableModules l)" "tables h ! 0 = []"
proof -
  obtain m h0 where n: "new_module output empty_store = (m, h0)" by fastforce
  note v = new_module_views [OF n]
  have e: "store_ok empty_store" by (simp add: store_ok_def sizes_zero_def kinds_def empty_store_def)
  have m: "m = 0" "length (st_mods h0) = 1" using v by (simp_all add: empty_store_def)
  have ok: "store_ok h0" by (rule new_module_ok(3) [OF n e])
  define l0 where "l0 = \<lparr>l_linkableModules = [], l_resultLinkableModule = m, l_base_address = base\<rparr>"
  have "loadSymbols classes (l0, h0) = Inr (l, h)"
    using assms n by (simp add: loaded_def EFAlinker_def l0_def)
  from loadSymbols_ok [OF this ok] assms
  have h: "store_ok h" "l = l0\<lparr>l_linkableModules := l_linkableModules l0 @ [1..<length (st_mods h)]\<rparr>"
    "1 \<le> length (st_mods h)" "tables h ! 0 = tables h0 ! 0" "nulls h ! 0 = nulls h0 ! 0"
    using m by (auto simp: loaded_def)
  show "l_resultLinkableModule l = 0" using h(2) m by (simp add: l0_def)
  show ms: "l_linkableModules l = [1..<length (st_mods h)]" using h(2) by (simp add: l0_def)
  show "store_ok h" by (rule h(1))
  show "tables h ! 0 = []" using h(4) v(9) by (simp add: empty_store_def tables_def)
  moreover have "nulls h ! 0 = None" using h(5) v(10) by (simp add: empty_store_def nulls_def)
  moreover have "0 < length (st_mods h)" using h(3) by linarith
  ultimately show "linked h 0 (l_linkableModules l)" using ms by (simp add: linked_def)
  show "pending h (l_linkableModules l)" using h(1) ms by (auto simp: pending_def store_ok_def)
qed

lemma link_ok:
  assumes "loaded output base classes l h" "link True l h = Inr h'"
  shows "linked h' 0 []" "\<forall>s\<in>snd ` set (tables h' ! 0). all_resolved h' s" "shape h' = shape h"
proof -
  note k = loaded_ok [OF assms(1)]
  obtain h1 where 1: "foldr_res (addLinkableModule 0) (l_linkableModules l) h = Inr h1"
    and 2: "resolveSymbols True True 0 h1 = Inr h'"
    using assms(2) k(1) by (auto simp: link_def rbind_Inr_iff)
  have h1: "linked h1 0 []" "shape h1 = shape h" using add_modules_linked [OF 1 k(4,5)] by simp_all
  note r = last_resolution [OF 2 h1(1)]
  then show "linked h' 0 []" "\<forall>s\<in>snd ` set (tables h' ! 0). all_resolved h' s" by simp_all
  show "shape h' = shape h" using r(1) h1(2) by (simp add: resolving_def views_parts)
qed


section \<open>Writing the program\<close>

text \<open>Results that are not the exception of \<open>finalize\<close>\<close>

definition calm :: "'a res \<Rightarrow> bool" where
  "calm m \<longleftrightarrow> m \<noteq> Inl RaisedException"

lemma calm_simps [simp]: "calm (Inr x)" "calm (Inl e) \<longleftrightarrow> e \<noteq> RaisedException" "calm (rmap f m) \<longleftrightarrow> calm m"
  by (cases m; simp add: calm_def)+

lemma calm_rbind: "calm m \<Longrightarrow> (\<And>x. m = Inr x \<Longrightarrow> calm (f x)) \<Longrightarrow> calm (rbind m f)"
  by (cases m) simp_all

lemma calm_seq: "(\<And>m. m \<in> set ms \<Longrightarrow> calm m) \<Longrightarrow> calm (seq_res ms)"
  by (induction ms) (auto simp: seq_res.simps intro!: calm_rbind)

lemma calm_concat: "(\<And>m. m \<in> set ms \<Longrightarrow> calm m) \<Longrightarrow> calm (concat_res ms)"
  by (simp add: concat_res_def calm_seq)

lemma calm_foldr: "(\<And>x s. x \<in> set xs \<Longrightarrow> calm (f x s)) \<Longrightarrow> calm (foldr_res f xs s)"
  by (induction xs arbitrary: s) (auto intro!: calm_rbind)

lemma calm_section_of [simp]: "calm (section_of h s)"
  by (simp add: section_of_def)

lemma calm_isEvent [simp]: "calm (isEventTransition h c)"
  by (simp add: isEventTransition_def section_isNullState_def split: body.splits option.splits prod.splits)

lemma calm_state_symbol [simp]: "calm (state_symbol h c)"
  by (simp add: state_symbol_def split: option.splits)

lemma calm_dump_action: "\<not> isUnresolved h a \<Longrightarrow> calm (dump_action True h call a)"
  by (simp add: dump_action_def finalize_def)

text \<open>A symbol whose actions are resolved is printed.\<close>

lemma calm_dump_transition:
  assumes "\<And>c a. section_of h s = Inr c \<Longrightarrow> a \<in> set (section_actions (c_body (sec h c))) \<Longrightarrow> \<not> isUnresolved h a"
  shows "calm (dump_transition True h s)" "calm (dump_block True h s)"
  unfolding dump_transition_def dump_block_def
  using assms
  by (auto intro!: calm_rbind calm_concat calm_dump_action simp: section_actions_def Let_def split: body.splits)

text \<open>IDs and addresses leave everything but the IDs as it is.\<close>

definition same_but_ids :: "store \<Rightarrow> store \<Rightarrow> bool" where
  "same_but_ids h h' \<longleftrightarrow> st_secs h' = st_secs h \<and> st_mods h' = st_mods h \<and> length (st_syms h') = length (st_syms h) \<and>
     (\<forall>s. \<exists>i. sym h' s = (sym h s)\<lparr>y_id := i\<rparr>)"

lemma own_id [simp]: "\<exists>i. y = y\<lparr>y_id := i\<rparr>"
  by (rule exI [of _ "y_id y"]) simp

lemma same_but_ids_refl [simp]: "same_but_ids h h"
  by (simp add: same_but_ids_def)

lemma same_but_ids_trans: "same_but_ids h h1 \<Longrightarrow> same_but_ids h1 h2 \<Longrightarrow> same_but_ids h h2"
  unfolding same_but_ids_def by (metis symbol.surjective symbol.update_convs(5))

lemma same_but_ids_setID [simp]: "same_but_ids h (setID s i h)"
  unfolding same_but_ids_def setID_def by (auto simp: sym_upd_sym)

lemma same_but_ids_sym:
  assumes "same_but_ids h h'"
  shows "y_type (sym h' s) = y_type (sym h s)" "y_name (sym h' s) = y_name (sym h s)"
    "y_section (sym h' s) = y_section (sym h s)" "y_size (sym h' s) = y_size (sym h s)"
    "y_is_init_null_state (sym h' s) = y_is_init_null_state (sym h s)" "isDefined (sym h' s) = isDefined (sym h s)"
    "section_of h' s = section_of h s" "isEventTransition h' c = isEventTransition h c" "symbols h' m = symbols h m"
proof -
  have e: "\<exists>i. sym h' s = (sym h s)\<lparr>y_id := i\<rparr>" for s using assms by (simp add: same_but_ids_def)
  then show "y_type (sym h' s) = y_type (sym h s)" "y_name (sym h' s) = y_name (sym h s)"
    "y_section (sym h' s) = y_section (sym h s)" "y_size (sym h' s) = y_size (sym h s)"
    "isDefined (sym h' s) = isDefined (sym h s)" "section_of h' s = section_of h s"
    by (metis isDefined_def section_of_def symbol.select_convs symbol.surjective symbol.update_convs(5))+
  have n: "y_is_init_null_state (sym h' s) = y_is_init_null_state (sym h s)" for s
    using e [of s] by (metis symbol.select_convs(4) symbol.surjective symbol.update_convs(5))
  then show "y_is_init_null_state (sym h' s) = y_is_init_null_state (sym h s)" .
  show "isEventTransition h' c = isEventTransition h c" "symbols h' m = symbols h m"
    using assms n by (simp_all add: isEventTransition_def section_isNullState_def same_but_ids_def symbols_def split: body.splits option.splits)
qed


lemma assign_id_same:
  "assign_id s (h, i, j) = Inr (h', i', j') \<Longrightarrow> same_but_ids h h'"
  by (auto simp: assign_id_def Let_def rbind_Inr_iff rmap_Inr_iff split: symbol_type.splits if_splits)

lemma assign_ids_same:
  "foldr_res assign_id xs (h, i, j) = Inr (h', i', j') \<Longrightarrow> same_but_ids h h'"
proof (induction xs arbitrary: h i j)
  case (Cons s xs)
  then obtain h1 i1 j1 where "assign_id s (h, i, j) = Inr (h1, i1, j1)" "foldr_res assign_id xs (h1, i1, j1) = Inr (h', i', j')"
    by (auto simp: rbind_Inr_iff)
  then show ?case using Cons.IH assign_id_same same_but_ids_trans by blast
qed simp

lemma assignIDs_same: "assignIDs m h = Inr h' \<Longrightarrow> same_but_ids h h'"
  using assign_ids_same by (auto simp: assignIDs_def rmap_Inr_iff)

lemma allocate_one_data:
  assumes g: "allocate_one s (h, b) = Inr (h', b')" and y: "y_type (sym h s) = STATIC_DATA"
  obtains c n ty a where "section_of h s = Inr c" "c_body (sec h c) = StaticDataSection n ty"
    "region_addr ty b = Some a" "h' = setID s (LInt a) h" "b' = set_region ty (a + y_size (sym h s)) b"
proof -
  obtain c where c: "section_of h s = Inr c"
    and g2: "(case c_body (sec h c) of StaticDataSection _ ty \<Rightarrow>
               (case region_addr ty b of None \<Rightarrow> Inl TypeError
                | Some a \<Rightarrow> Inr (setID s (LInt a) h, set_region ty (a + y_size (sym h s)) b))
           | _ \<Rightarrow> Inl AttributeError) = Inr (h', b')"
    using g y by (auto simp: allocate_one_def rbind_Inr_iff)
  show thesis
  proof (cases "c_body (sec h c)")
    case (StaticDataSection n ty)
    then show thesis using g2 that [OF c] by (cases "region_addr ty b") auto
  qed (use g2 in simp_all)
qed

lemma allocate_one_other: "y_type (sym h s) \<noteq> STATIC_DATA \<Longrightarrow> allocate_one s (h, b) = Inr (h, b)"
  by (simp add: allocate_one_def)

lemma allocate_one_same:
  assumes "allocate_one s (h, b) = Inr (h', b')"
  shows "same_but_ids h h'"
proof (cases "y_type (sym h s) = STATIC_DATA")
  case True
  then show ?thesis by (rule allocate_one_data [OF assms]) simp
qed (use assms allocate_one_other in simp)

lemma allocates_same: "foldr_res allocate_one xs (h, b) = Inr (h', b') \<Longrightarrow> same_but_ids h h'"
proof (induction xs arbitrary: h b)
  case (Cons s xs)
  then obtain h1 b1 where "allocate_one s (h, b) = Inr (h1, b1)" "foldr_res allocate_one xs (h1, b1) = Inr (h', b')"
    by (auto simp: rbind_Inr_iff)
  then show ?case using Cons.IH allocate_one_same same_but_ids_trans by blast
qed simp

lemma allocate_same: "allocateStaticMemory b m h = Inr h' \<Longrightarrow> same_but_ids h h'"
  using allocates_same by (auto simp: allocateStaticMemory_def rmap_Inr_iff)

lemma calm_assign: "calm (assignIDs m h)" "calm (allocateStaticMemory b m h)"
  unfolding assignIDs_def allocateStaticMemory_def
  by (auto intro!: calm_foldr calm_rbind simp: assign_id_def allocate_one_def Let_def
      split: symbol_type.splits body.splits option.splits prod.splits)

lemma same_but_ids_unresolved:
  assumes "same_but_ids h h'"
  shows "isUnresolved h' a = isUnresolved h a" "sec h' c = sec h c"
  using same_but_ids_sym(6) [OF assms] assms by (simp_all add: isUnresolved_def same_but_ids_def)

lemma calm_dump:
  assumes "\<And>s c a. s \<in> set (symbols h m) \<Longrightarrow> has_actions (sym h s) \<Longrightarrow> section_of h s = Inr c \<Longrightarrow>
    a \<in> set (section_actions (c_body (sec h c))) \<Longrightarrow> \<not> isUnresolved h a"
  shows "calm (dumpPython True h m)"
proof -
  have "calm (dump_transition True h s)" if "s \<in> set (symbols_of TRANSITION h m)" for s
    using that assms by (intro calm_dump_transition) (auto simp: symbols_of_def has_actions_def)
  moreover have "calm (dump_block True h s)" if "s \<in> set (symbols_of SHARED_BLOCK h m)" for s
    using that assms by (intro calm_dump_transition) (auto simp: symbols_of_def has_actions_def)
  moreover have "calm (dump_state True h s)" "calm (dump_static_data True h s)" "calm (dump_event_name True h s)" for s
    by (auto simp: dump_state_def dump_static_data_def dump_event_name_def alphabet_of_def section_type_def
        intro!: calm_rbind split: body.splits)
  ultimately show ?thesis
    unfolding dumpPython_def Let_def by (auto intro!: calm_concat)
qed

lemma link_actions_resolved:
  assumes "loaded output base classes l h" "link True l h = Inr h'" "s \<in> set (symbols h' (l_resultLinkableModule l))"
    "has_actions (sym h' s)" "section_of h' s = Inr c" "a \<in> set (section_actions (c_body (sec h' c)))"
  shows "\<not> isUnresolved h' a"
proof -
  note k = link_ok [OF assms(1,2)] and r = loaded_ok(1) [OF assms(1)]
  have "0 < length (st_mods h')" using k(1) by (simp add: linked_def)
  then have "s \<in> snd ` set (tables h' ! 0)" using assms(3) r by (simp add: symbols_def view_nth)
  then obtain k where "(k, s) \<in> set (tables h' ! 0)" by auto
  then have "entry_ok h' 0 [] k s" "all_resolved h' s" using k by (force simp: linked_def)+
  then show ?thesis
    using assms(4-6) by (auto simp: all_resolved_def section_of_Inr entry_ok_def view_nth(1) view_nth(4))
qed

lemma linked_dump_calm:
  assumes "loaded output base classes l h" "link True l h = Inr h'"
  shows "calm (linker_dumpPython True l h')"
  unfolding linker_dumpPython_def Let_def
proof (rule calm_rbind)
  show "calm (if True then rbind (allocateStaticMemory (l_base_address l) (l_resultLinkableModule l) h')
      (assignIDs (l_resultLinkableModule l)) else Inr h')"
    by (auto intro!: calm_rbind calm_assign)
  fix h3 assume "(if True then rbind (allocateStaticMemory (l_base_address l) (l_resultLinkableModule l) h')
      (assignIDs (l_resultLinkableModule l)) else Inr h') = Inr h3"
  then obtain h2 where "allocateStaticMemory (l_base_address l) (l_resultLinkableModule l) h' = Inr h2"
    "assignIDs (l_resultLinkableModule l) h2 = Inr h3"
    by (auto simp: rbind_Inr_iff)
  then have s: "same_but_ids h' h3" using allocate_same assignIDs_same same_but_ids_trans by blast
  have "calm (dumpPython True h3 (l_resultLinkableModule l))"
    by (rule calm_dump)
      (use link_actions_resolved [OF assms] same_but_ids_sym [OF s] same_but_ids_unresolved [OF s] in
        \<open>auto simp: has_actions_def\<close>)
  then show "calm (rmap (\<lambda>text. (text, h3)) (dumpPython True h3 (l_resultLinkableModule l)))" by simp
qed

end
