(* ===== verification/Link_Ids.thy ===== *)
theory Link_Ids imports Link_Resolve begin

text \<open>
  \<open>assignIDs\<close> numbers the states and the events of the result without gaps, and
  \<open>allocateStaticMemory\<close> places each datum behind those of its region that come before it.
\<close>

section \<open>IDs\<close>

text \<open>The symbols of a list that get a number: states, and transitions that are events\<close>

definition is_state :: "store \<Rightarrow> sym_ref \<Rightarrow> bool" where
  "is_state h s = (y_type (sym h s) = STATE)"

definition is_event :: "store \<Rightarrow> sym_ref \<Rightarrow> bool" where
  "is_event h s = (y_type (sym h s) = TRANSITION \<and> (\<exists>c. section_of h s = Inr c \<and> isEventTransition h c = Inr True))"

lemma same_but_ids_kind:
  assumes "same_but_ids h h'"
  shows "is_state h' s = is_state h s" "is_event h' s = is_event h s"
  using same_but_ids_sym [OF assms] by (simp_all add: is_state_def is_event_def)

lemma y_id_setID: "s < length (st_syms h) \<Longrightarrow> y_id (sym (setID s i h) t) = (if t = s then i else y_id (sym h t))"
  by (simp add: setID_def sym_upd_sym)

lemma assign_id_cases:
  assumes "assign_id s (h, i, j) = Inr (h', i', j')" "s < length (st_syms h)"
  shows "i' = (if is_state h s then i + 1 else i)" "j' = (if is_event h s then j + 1 else j)"
    "is_state h s \<Longrightarrow> y_id (sym h' s) = LInt i" "is_event h s \<Longrightarrow> y_id (sym h' s) = LInt j"
    "t \<noteq> s \<Longrightarrow> y_id (sym h' t) = y_id (sym h t)"
  using assms
  by (auto simp: assign_id_def is_state_def is_event_def y_id_setID rbind_Inr_iff rmap_Inr_iff Let_def
      split: symbol_type.splits if_splits)

lemma assign_ids_others:
  assumes "foldr_res assign_id xs (h, i, j) = Inr (h', i', j')" "set xs \<subseteq> {..<length (st_syms h)}" "t \<notin> set xs"
  shows "y_id (sym h' t) = y_id (sym h t)"
  using assms
proof (induction xs arbitrary: h i j)
  case (Cons s xs)
  obtain h1 i1 j1 where 1: "assign_id s (h, i, j) = Inr (h1, i1, j1)" and 2: "foldr_res assign_id xs (h1, i1, j1) = Inr (h', i', j')"
    using Cons.prems(1) by (auto simp: rbind_Inr_iff)
  have s: "s < length (st_syms h)" "t \<noteq> s" using Cons.prems(2,3) by auto
  have "length (st_syms h1) = length (st_syms h)" using assign_id_same [OF 1] by (simp add: same_but_ids_def)
  then have "y_id (sym h' t) = y_id (sym h1 t)" using Cons.IH [OF 2] Cons.prems(2,3) by simp
  then show ?case using assign_id_cases(5) [OF 1 s] by simp
qed simp

definition ids_from :: "int \<Rightarrow> nat \<Rightarrow> lval list" where
  "ids_from i n = map (\<lambda>k. LInt (i + int k)) [0..<n]"

lemma ids_from_Suc: "ids_from i (Suc n) = LInt i # ids_from (i + 1) n"
  by (auto simp: ids_from_def upt_conv_Cons map_Suc_upt [symmetric] simp del: upt_Suc)

lemma ids_from_0 [simp]: "ids_from i 0 = []"
  by (simp add: ids_from_def)

lemma assign_ids_numbers:
  assumes "foldr_res assign_id xs (h, i, j) = Inr (h', i', j')" "set xs \<subseteq> {..<length (st_syms h)}" "distinct xs"
  shows "map (\<lambda>s. y_id (sym h' s)) (filter (is_state h) xs) = ids_from i (length (filter (is_state h) xs)) \<and>
    map (\<lambda>s. y_id (sym h' s)) (filter (is_event h) xs) = ids_from j (length (filter (is_event h) xs))"
  using assms
proof (induction xs arbitrary: h i j)
  case (Cons s xs)
  obtain h1 i1 j1 where 1: "assign_id s (h, i, j) = Inr (h1, i1, j1)" and 2: "foldr_res assign_id xs (h1, i1, j1) = Inr (h', i', j')"
    using Cons.prems(1) by (auto simp: rbind_Inr_iff)
  have s: "s < length (st_syms h)" "s \<notin> set xs" "distinct xs" "set xs \<subseteq> {..<length (st_syms h)}"
    using Cons.prems(2,3) by auto
  note q = assign_id_same [OF 1]
  have l: "length (st_syms h1) = length (st_syms h)" using q by (simp add: same_but_ids_def)
  have f: "is_state h1 = is_state h" "is_event h1 = is_event h" using same_but_ids_kind [OF q] by (auto simp: fun_eq_iff)
  have "y_id (sym h' s) = y_id (sym h1 s)" using assign_ids_others [OF 2 _ s(2)] s(4) l by simp
  then show ?case using Cons.IH [OF 2 _ s(3)] s(4) l assign_id_cases(1-4) [OF 1 s(1)] f
    by (auto simp: ids_from_Suc is_state_def is_event_def)
qed simp

text \<open>The symbols in the table of the result are distinct.\<close>

lemma linked_symbols:
  assumes "linked h r ms"
  shows "distinct (symbols h r)" "set (symbols h r) \<subseteq> {..<length (st_syms h)}"
    "s \<in> set (symbols h r) \<Longrightarrow> isDefined (sym h s)"
proof -
  have r: "symbols h r = map snd (tables h ! r)" using assms by (simp add: symbols_def linked_def view_nth)
  have "keyed h r" using assms by (auto simp: keyed_def linked_def entry_ok_def)
  then show "distinct (symbols h r)" using keyed_distinct r by simp
  have e: "\<exists>k. entry_ok h r ms k s" if "s \<in> set (symbols h r)" for s using that assms r by (force simp: linked_def)
  show "set (symbols h r) \<subseteq> {..<length (st_syms h)}" using e by (auto simp: entry_ok_def)
  show "s \<in> set (symbols h r) \<Longrightarrow> isDefined (sym h s)" using e [of s] isDefined_kinds by (auto simp: entry_ok_def)
qed

lemma same_but_ids_linked: "same_but_ids h h' \<Longrightarrow> linked h' r ms = linked h r ms"
proof -
  assume s: "same_but_ids h h'"
  then have "kinds h' = kinds h" "names h' = names h"
    using same_but_ids_sym [OF s] by (auto simp: same_but_ids_def kinds_def names_def intro!: nth_equalityI)
  moreover have "st_secs h' = st_secs h" "st_mods h' = st_mods h" using s by (simp_all add: same_but_ids_def)
  ultimately have "views h' = views h"
    by (simp add: views_def shape_def owners_def act_lists_def tables_def nulls_def modnames_def)
  then show ?thesis by (rule linked_views)
qed

lemma isEvent_result:
  assumes "foldr_res assign_id xs (h, i, j) = Inr (h', i', j')" "s \<in> set xs" "y_type (sym h s) = TRANSITION"
  shows "\<exists>c b. section_of h s = Inr c \<and> isEventTransition h c = Inr b"
  using assms
proof (induction xs arbitrary: h i j)
  case (Cons x xs)
  obtain h1 i1 j1 where 1: "assign_id x (h, i, j) = Inr (h1, i1, j1)" and 2: "foldr_res assign_id xs (h1, i1, j1) = Inr (h', i', j')"
    using Cons.prems(1) by (auto simp: rbind_Inr_iff)
  note q = same_but_ids_sym [OF assign_id_same [OF 1]]
  show ?case
  proof (cases "s = x")
    case True
    then show ?thesis using 1 Cons.prems(3) by (auto simp: assign_id_def rbind_Inr_iff rmap_Inr_iff)
  next
    case False
    then show ?thesis using Cons.IH [OF 2] Cons.prems(2,3) q by simp
  qed
qed simp

lemma events_filter:
  assumes "\<And>s. s \<in> set xs \<Longrightarrow> \<exists>c b. section_of h s = Inr c \<and> isEventTransition h c = Inr b"
    "\<And>s. s \<in> set xs \<Longrightarrow> y_type (sym h s) = TRANSITION"
  shows "foldr_res (\<lambda>s acc. rbind (section_of h s) (\<lambda>c. rmap (\<lambda>b. if b then acc @ [s] else acc) (isEventTransition h c))) xs acc
    = Inr (acc @ filter (is_event h) xs)"
  using assms
proof (induction xs arbitrary: acc)
  case (Cons s xs)
  obtain c b where "section_of h s = Inr c" "isEventTransition h c = Inr b" using Cons.prems(1) [of s] by auto
  moreover have "is_event h s = b" using calculation Cons.prems(2) [of s] by (simp add: is_event_def)
  ultimately show ?case using Cons by simp
qed simp

lemma filter_types: "filter (is_event h) (filter (\<lambda>s. y_type (sym h s) = TRANSITION) xs) = filter (is_event h) xs"
  by (auto simp: is_event_def intro: filter_cong)

lemma assignIDs_numbers:
  assumes "assignIDs r h = Inr h'" "linked h r ms"
  shows "map (\<lambda>s. y_id (sym h' s)) (symbols_of STATE h' r) = ids_from 0 (length (symbols_of STATE h' r)) \<and>
    (\<exists>es. eventTransitionSymbols h' r = Inr es \<and> map (\<lambda>s. y_id (sym h' s)) es = ids_from 0 (length es) \<and>
      set es = {s \<in> set (symbols h' r). is_event h' s})"
proof -
  obtain i j where f: "foldr_res assign_id (symbols h r) (h, 0, 0) = Inr (h', i, j)"
    using assms(1) by (auto simp: assignIDs_def rmap_Inr_iff)
  note q = assign_ids_same [OF f]
  note n = assign_ids_numbers [OF f linked_symbols(2) [OF assms(2)] linked_symbols(1) [OF assms(2)]]
  have k: "is_state h' = is_state h" "is_event h' = is_event h" using same_but_ids_kind [OF q] by (auto simp: fun_eq_iff)
  have y: "symbols h' r = symbols h r" by (rule same_but_ids_sym(9) [OF q])
  have s: "symbols_of STATE h' r = filter (is_state h) (symbols h r)"
    using y k by (simp add: symbols_of_def is_state_def [symmetric] eta_contract_eq)
  have "\<exists>c b. section_of h' x = Inr c \<and> isEventTransition h' c = Inr b" if "x \<in> set (symbols_of TRANSITION h' r)" for x
  proof -
    have "x \<in> set (symbols h r)" "y_type (sym h x) = TRANSITION"
      using that y same_but_ids_sym(1) [OF q, of x] by (simp_all add: symbols_of_def)
    then show ?thesis unfolding same_but_ids_sym(7,8) [OF q] by (rule isEvent_result [OF f])
  qed
  note ev = this
  have "eventTransitionSymbols h' r = Inr ([] @ filter (is_event h') (symbols_of TRANSITION h' r))"
    unfolding eventTransitionSymbols_def by (rule events_filter, rule ev, assumption) (simp add: symbols_of_def)
  also have "[] @ filter (is_event h') (symbols_of TRANSITION h' r) = filter (is_event h') (symbols_of TRANSITION h' r)" by simp
  also have "filter (is_event h') (symbols_of TRANSITION h' r) = filter (is_event h) (symbols h r)"
    unfolding symbols_of_def same_but_ids_sym(1) [OF q] filter_types y k .. 
  finally show ?thesis using n s y k by auto
qed


section \<open>Addresses\<close>

text \<open>The region of a static datum\<close>

definition region_of :: "store \<Rightarrow> sym_ref \<Rightarrow> staticDataType option" where
  "region_of h s =
     (if y_type (sym h s) = STATIC_DATA then
        (case section_of h s of Inr c \<Rightarrow> (case c_body (sec h c) of StaticDataSection n ty \<Rightarrow> Some ty | _ \<Rightarrow> None)
         | Inl _ \<Rightarrow> None)
      else None)"

lemma same_but_ids_region:
  assumes "same_but_ids h h'"
  shows "region_of h' s = region_of h s"
  unfolding region_of_def same_but_ids_sym(1,7) [OF assms] same_but_ids_unresolved(2) [OF assms] ..

lemma region_addr_set [simp]: "region_addr ty (set_region ty' a b) = (if ty = ty' then Some a else region_addr ty b)"
  by (cases ty; cases ty'; simp add: region_addr_def set_region_def)

lemma allocate_one_addr:
  assumes "allocate_one s (h, b) = Inr (h', b')" "s < length (st_syms h)"
  shows "region_of h s = Some ty \<Longrightarrow> \<exists>a. region_addr ty b = Some a \<and> y_id (sym h' s) = LInt a \<and>
      region_addr ty b' = Some (a + y_size (sym h s))"
    "region_of h s \<noteq> Some ty \<Longrightarrow> region_addr ty b' = region_addr ty b"
    "t \<noteq> s \<Longrightarrow> y_id (sym h' t) = y_id (sym h t)"
proof -
  have "(region_of h s = Some ty \<longrightarrow> (\<exists>a. region_addr ty b = Some a \<and> y_id (sym h' s) = LInt a \<and>
      region_addr ty b' = Some (a + y_size (sym h s)))) \<and>
    (region_of h s \<noteq> Some ty \<longrightarrow> region_addr ty b' = region_addr ty b) \<and> (t \<noteq> s \<longrightarrow> y_id (sym h' t) = y_id (sym h t))"
  proof (cases "y_type (sym h s) = STATIC_DATA")
    case True
    then show ?thesis by (rule allocate_one_data [OF assms(1)]) (auto simp: region_of_def y_id_setID assms(2) True)
  next
    case False
    then show ?thesis using assms(1) allocate_one_other by (simp add: region_of_def)
  qed
  then show "region_of h s = Some ty \<Longrightarrow> \<exists>a. region_addr ty b = Some a \<and> y_id (sym h' s) = LInt a \<and>
      region_addr ty b' = Some (a + y_size (sym h s))"
    "region_of h s \<noteq> Some ty \<Longrightarrow> region_addr ty b' = region_addr ty b"
    "t \<noteq> s \<Longrightarrow> y_id (sym h' t) = y_id (sym h t)" by blast+
qed

lemma allocates_others:
  assumes "foldr_res allocate_one xs (h, b) = Inr (h', b')" "set xs \<subseteq> {..<length (st_syms h)}" "t \<notin> set xs"
  shows "y_id (sym h' t) = y_id (sym h t)"
  using assms
proof (induction xs arbitrary: h b)
  case (Cons s xs)
  obtain h1 b1 where 1: "allocate_one s (h, b) = Inr (h1, b1)" and 2: "foldr_res allocate_one xs (h1, b1) = Inr (h', b')"
    using Cons.prems(1) by (auto simp: rbind_Inr_iff)
  have "length (st_syms h1) = length (st_syms h)" using allocate_one_same [OF 1] by (simp add: same_but_ids_def)
  then have "y_id (sym h' t) = y_id (sym h1 t)" using Cons.IH [OF 2] Cons.prems(2,3) by simp
  then show ?case using allocate_one_addr(3) [OF 1] Cons.prems(2,3) by simp
qed simp

text \<open>The sizes that come before a symbol in its region\<close>

definition before :: "store \<Rightarrow> staticDataType \<Rightarrow> sym_ref list \<Rightarrow> int" where
  "before h ty xs = sum_list (map (\<lambda>x. y_size (sym h x)) (filter (\<lambda>x. region_of h x = Some ty) xs))"

lemma before_simps [simp]:
  "before h ty [] = 0"
  "before h ty (x # xs) = (if region_of h x = Some ty then y_size (sym h x) else 0) + before h ty xs"
  by (simp_all add: before_def)

lemma before_same: "same_but_ids h h' \<Longrightarrow> before h' ty xs = before h ty xs"
  using same_but_ids_sym(4) [of h h'] same_but_ids_region [of h h'] by (simp add: before_def)

lemma allocates_addr:
  assumes "foldr_res allocate_one (ys @ s # zs) (h, b) = Inr (h', b')" "set (ys @ s # zs) \<subseteq> {..<length (st_syms h)}"
    "distinct (ys @ s # zs)" "region_of h s = Some ty"
  shows "\<exists>a. region_addr ty b = Some a \<and> y_id (sym h' s) = LInt (a + before h ty ys)"
  using assms
proof (induction ys arbitrary: h b)
  case Nil
  obtain h1 b1 where 1: "allocate_one s (h, b) = Inr (h1, b1)" and 2: "foldr_res allocate_one zs (h1, b1) = Inr (h', b')"
    using Nil.prems(1) by (auto simp: rbind_Inr_iff)
  have "length (st_syms h1) = length (st_syms h)" using allocate_one_same [OF 1] by (simp add: same_but_ids_def)
  then have "y_id (sym h' s) = y_id (sym h1 s)" using allocates_others [OF 2] Nil.prems(2,3) by simp
  then show ?case using allocate_one_addr(1) [OF 1 _ Nil.prems(4)] Nil.prems(2) by auto
next
  case (Cons x ys)
  obtain h1 b1 where 1: "allocate_one x (h, b) = Inr (h1, b1)"
    and 2: "foldr_res allocate_one (ys @ s # zs) (h1, b1) = Inr (h', b')"
    using Cons.prems(1) by (auto simp: rbind_Inr_iff)
  note q = allocate_one_same [OF 1]
  have l: "length (st_syms h1) = length (st_syms h)" using q by (simp add: same_but_ids_def)
  obtain a where a: "region_addr ty b1 = Some a" "y_id (sym h' s) = LInt (a + before h ty ys)"
    using Cons.IH [OF 2] Cons.prems(2-4) l same_but_ids_region [OF q] before_same [OF q] by auto
  have x: "x < length (st_syms h)" using Cons.prems(2) by simp
  show ?case
  proof (cases "region_of h x = Some ty")
    case True
    then show ?thesis using allocate_one_addr(1) [OF 1 x True] a by auto
  next
    case False
    then show ?thesis using allocate_one_addr(2) [OF 1 x False] a by auto
  qed
qed

lemma allocate_addresses:
  assumes "allocateStaticMemory b r h = Inr h'" "linked h r ms" "symbols h r = ys @ s # zs" "region_of h s = Some ty"
  shows "\<exists>a. region_addr ty b = Some a \<and> y_id (sym h' s) = LInt (a + before h ty ys)"
proof -
  obtain b' where "foldr_res allocate_one (ys @ s # zs) (h, b) = Inr (h', b')"
    using assms(1,3) by (auto simp: allocateStaticMemory_def rmap_Inr_iff)
  then show ?thesis using allocates_addr [OF _ _ _ assms(4)] linked_symbols(1,2) [OF assms(2)] assms(3) by simp
qed

text \<open>Nothing in the linker sets the size of a symbol, so every datum of a region gets its start.\<close>

lemma linked_sizes_zero:
  assumes "loaded output base classes l h" "link mr l h = Inr h'" "mr"
  shows "sizes_zero h'"
  using loaded_ok(3) [OF assms(1)] link_ok(3) [OF assms(1)] assms(2,3)
  by (simp add: store_ok_def sizes_zero_def shape_parts)

lemma before_zero:
  assumes "sizes_zero h" "set xs \<subseteq> {..<length (st_syms h)}"
  shows "before h ty xs = 0"
proof -
  have "y_size (sym h x) = 0" if "x < length (st_syms h)" for x
    using assms(1) that view_nth(1) [OF that] nth_mem [of x "kinds h"] by (force simp: sizes_zero_def)
  then show ?thesis using assms(2) by (induction xs) (auto simp: subset_iff)
qed

lemma all_at_base:
  assumes "loaded output base classes l h" "link True l h = Inr h'" "allocateStaticMemory (l_base_address l) (l_resultLinkableModule l) h' = Inr h''"
    "s \<in> set (symbols h' (l_resultLinkableModule l))" "region_of h' s = Some ty"
  shows "map_option LInt (region_addr ty (l_base_address l)) = Some (y_id (sym h'' s))"
proof -
  let ?r = "l_resultLinkableModule l"
  have k: "linked h' ?r []" using link_ok(1) [OF assms(1,2)] loaded_ok(1) [OF assms(1)] by simp
  obtain ys zs where y: "symbols h' ?r = ys @ s # zs" using assms(4) by (metis split_list)
  have "before h' ty ys = 0"
    using before_zero [OF linked_sizes_zero [OF assms(1,2)]] linked_symbols(2) [OF k] y by simp
  then show ?thesis using allocate_addresses [OF assms(3) k y assms(5)] by auto
qed

end
