(* ===== verification/Link_Refine.thy ===== *)
theory Link_Refine imports Link_Ids
begin

text \<open>
  What a merge of the linker promises, stated on the map from names to symbols that a module is for
  its clients, and the proof that addLinkableModule of LinkableModule.py implements it.
\<close>

section \<open>What a merge does to the symbols\<close>

lemma setLabelName_syms: "setLabelName c name h = Inr h' \<Longrightarrow> st_syms h' = st_syms h"
  by (auto simp: setLabelName_def Let_def rmap_Inr_iff split: body.splits if_splits)

lemma renameSymbol_syms: "renameSymbol old new a h = Inr h' \<Longrightarrow> st_syms h' = st_syms h"
  by (auto simp: renameSymbol_def split: body.splits)

lemma setName_syms:
  assumes "setName s name h = Inr h'"
  shows "st_syms h' = (st_syms h)[s := (sym h s)\<lparr>y_name := name\<rparr>]"
proof -
  define h1 where "h1 = upd_sym s (\<lambda>y. y\<lparr>y_name := name\<rparr>) h"
  obtain h2 where 2: "(case y_section (sym h1 s) of None \<Rightarrow> Inr h1 | Some c \<Rightarrow> setLabelName c name h1) = Inr h2"
    and 3: "foldr_res (renameSymbol (y_name (sym h s)) name) (y_used_in (sym h2 s)) h2 = Inr h'"
    using assms unfolding setName_def Let_def rbind_Inr_iff h1_def [symmetric] by blast
  have "st_syms h2 = st_syms h1" using 2 setLabelName_syms by (auto split: option.splits)
  moreover have "st_syms h' = st_syms h2" using foldr_res_keeps [OF 3] renameSymbol_syms by blast
  ultimately show ?thesis by (simp add: h1_def upd_sym_def)
qed

lemma set_module_syms [simp]: "st_syms (set_module m c h) = st_syms h"
  by (simp add: set_module_def Let_def)

lemma setLinkableModule_syms [simp]: "st_syms (setLinkableModule m c h) = st_syms h"
proof -
  have "st_syms (fold (set_module m) cs h) = st_syms h" for cs h by (induction cs arbitrary: h) simp_all
  then show ?thesis by (simp add: setLinkableModule_def Let_def)
qed

section \<open>The specification of a merge\<close>

text \<open>
  Seen from outside, a module is a map from names to symbols. It exports its defined symbols but the
  null state: a public one under its name, a private one under a name that has \<open>module_\<close> in it, which is
  put in front when the name has it nowhere. A merge adds them to the map of the result, a later export
  of a name replacing an earlier one.
\<close>

definition export_name :: "string \<Rightarrow> symbol \<Rightarrow> string" where
  "export_name modname y =
     (if y_private y \<and> (\<nexists>a b. y_name y = a @ modname @ ''_'' @ b) then modname @ ''_'' @ y_name y else y_name y)"

lemma starts_with_iff: "starts_with p s \<longleftrightarrow> (\<exists>b. s = p @ b)"
proof
  assume "starts_with p s"
  then have "s = p @ drop (length p) s" by (metis append_take_drop_id starts_with_def)
  then show "\<exists>b. s = p @ b" ..
qed (auto simp: starts_with_def)

lemma contains_str_iff: "contains_str p s \<longleftrightarrow> (\<exists>a b. s = a @ p @ b)"
proof (induction s)
  case (Cons c s)
  have "(\<exists>a b. c # s = a @ p @ b) \<longleftrightarrow> (\<exists>b. c # s = p @ b) \<or> (\<exists>a b. s = a @ p @ b)"
    by (metis append_Cons append_Nil list.inject neq_Nil_conv)
  then show ?case using Cons by (simp add: starts_with_iff)
qed auto

lemma mangled_export: "mangled modname y = export_name modname y"
  by (simp add: mangled_def export_name_def contains_str_iff)

definition is_null :: "store \<Rightarrow> mod_ref \<Rightarrow> sym_ref \<Rightarrow> bool" where
  "is_null h m s = (case nullState h m of None \<Rightarrow> False | Some t \<Rightarrow> symbol_eq (sym h s) (sym h t))"

definition export_of :: "store \<Rightarrow> mod_ref \<Rightarrow> sym_ref list \<Rightarrow> (string \<times> sym_ref) list" where
  "export_of h m xs =
     map (\<lambda>s. (export_name (m_name (modl h m)) (sym h s), s)) (filter (\<lambda>s. isDefined (sym h s) \<and> \<not> is_null h m s) xs)"

definition symbol_map :: "store \<Rightarrow> mod_ref \<Rightarrow> string \<Rightarrow> sym_ref option" where
  "symbol_map h m = map_of (m_symbols (modl h m))"

definition exports :: "store \<Rightarrow> mod_ref \<Rightarrow> string \<Rightarrow> sym_ref option" where
  "exports h m = map_of (rev (export_of h m (symbols h m)))"

lemma add_symbol_effect:
  assumes g: "add_module_symbol r m s h = Inr h'" and b: "r < length (st_mods h)" "m < length (st_mods h)"
    "s < length (st_syms h)"
  shows "x \<noteq> s \<or> is_null h m s \<Longrightarrow> sym h' x = sym h x"
    "nulls h' = nulls h" "nullState h' m = nullState h m" "m_name (modl h' m) = m_name (modl h m)"
    "length (st_mods h') = length (st_mods h)" "length (st_syms h') = length (st_syms h)"
    "symbol_map h' r = (if isDefined (sym h s) \<and> \<not> is_null h m s
       then (symbol_map h r)(export_name (m_name (modl h m)) (sym h s) \<mapsto> s) else symbol_map h r)"
proof -
  let ?name = "export_name (m_name (modl h m)) (sym h s)"
  have "(x \<noteq> s \<or> is_null h m s \<longrightarrow> sym h' x = sym h x) \<and> shape h' = shape h \<and> nulls h' = nulls h \<and>
    tables h' = (if isDefined (sym h s) \<and> \<not> is_null h m s then (tables h)[r := dict_set ?name s (tables h ! r)] else tables h)"
  proof (cases "is_null h m s")
    case True
    then have "h' = h" using g by (simp add: add_module_symbol_def is_null_def)
    then show ?thesis using True by simp
  next
    case False
    obtain h1 where 1: "shape h1 = shape h" "tables h1 = tables h" "nulls h1 = nulls h" "x \<noteq> s \<Longrightarrow> sym h1 x = sym h x"
      "isDefined (sym h1 s) = isDefined (sym h s)"
      and rest: "(if isDefined (sym h1 s) then
               rmap (\<lambda>c. setLinkableModule r c (upd_symbols r (dict_set ?name s) h1)) (section_of h1 s)
             else Inr h1) = Inr h'"
    proof (cases "?name = y_name (sym h s)")
      case True
      then show thesis using that [of h] g False
        by (simp add: add_module_symbol_def is_null_def [symmetric] mangled_export Let_def cong del: if_weak_cong)
    next
      case neq: False
      then obtain h1 where 1: "setName s ?name h = Inr h1" and "(if isDefined (sym h1 s) then
               rmap (\<lambda>c. setLinkableModule r c (upd_symbols r (dict_set ?name s) h1)) (section_of h1 s)
             else Inr h1) = Inr h'"
        using g False by (auto simp: add_module_symbol_def is_null_def [symmetric] mangled_export Let_def rbind_Inr_iff split: if_splits)
      then show thesis using that [of h1] setName_views [OF 1] setName_syms [OF 1] b(3) by (simp add: isDefined_def)
    qed
    show ?thesis
    proof (cases "isDefined (sym h s)")
      case True
      then obtain c where "h' = setLinkableModule r c (upd_symbols r (dict_set ?name s) h1)"
        using rest 1(5) by (auto simp: rmap_Inr_iff)
      then show ?thesis using 1 True False
        by (simp add: setLinkableModule_views view_simps shape_parts) (simp add: upd_symbols_def)
    next
      case undef: False
      then show ?thesis using rest 1 False by simp
    qed
  qed
  then have e: "x \<noteq> s \<or> is_null h m s \<longrightarrow> sym h' x = sym h x" "shape h' = shape h" "nulls h' = nulls h"
    "tables h' = (if isDefined (sym h s) \<and> \<not> is_null h m s then (tables h)[r := dict_set ?name s (tables h ! r)] else tables h)"
    by blast+
  note l = shape_lengths [OF e(2)]
  show "x \<noteq> s \<or> is_null h m s \<Longrightarrow> sym h' x = sym h x" using e(1) by blast
  show "length (st_mods h') = length (st_mods h)" "length (st_syms h') = length (st_syms h)" using l by simp_all
  show "nulls h' = nulls h" by (rule e(3))
  have "nullState h' m = nullState h m" using e(3) b(2) l nullState_nulls by simp
  then show "nullState h' m = nullState h m" .
  have "modnames h' = modnames h" using e(2) by (simp add: shape_parts)
  then show "m_name (modl h' m) = m_name (modl h m)" using view_nth(7) [of m h] view_nth(7) [of m h'] b(2) l by simp
  have "map_of (tables h' ! r) = (if isDefined (sym h s) \<and> \<not> is_null h m s
       then (map_of (tables h ! r))(?name \<mapsto> s) else map_of (tables h ! r))"
    using e(4) b(1) by simp
  then show "symbol_map h' r = (if isDefined (sym h s) \<and> \<not> is_null h m s
       then (symbol_map h r)(?name \<mapsto> s) else symbol_map h r)"
    using b(1) l(3) by (simp add: symbol_map_def view_nth cong: if_cong)
qed

lemma add_symbols_exports:
  assumes "foldr_res (add_module_symbol r m) xs h = Inr h'" "r < length (st_mods h)" "m < length (st_mods h)"
    "set xs \<subseteq> {..<length (st_syms h)}" "distinct xs"
  shows "symbol_map h' r = symbol_map h r ++ map_of (rev (export_of h m xs)) \<and> nulls h' = nulls h"
  using assms
proof (induction xs arbitrary: h)
  case Nil
  then show ?case by (simp add: export_of_def)
next
  case (Cons s xs)
  obtain h1 where 1: "add_module_symbol r m s h = Inr h1" and 2: "foldr_res (add_module_symbol r m) xs h1 = Inr h'"
    using Cons.prems(1) by (auto simp: rbind_Inr_iff)
  have s: "s < length (st_syms h)" "s \<notin> set xs" using Cons.prems(4,5) by simp_all
  note e = add_symbol_effect [OF 1 Cons.prems(2,3) s(1)]
  have null: "is_null h1 m x = is_null h m x" if "x \<in> set xs" for x
  proof (cases "nullState h m")
    case None
    then show ?thesis using e(3) by (simp add: is_null_def)
  next
    case (Some t)
    have "sym h1 t = sym h t" using e(1) [of t] Some by (cases "t = s") (auto simp: is_null_def symbol_eq_def)
    moreover have "sym h1 x = sym h x" by (rule e(1)) (use that s(2) in auto)
    ultimately show ?thesis using e(3) Some by (simp add: is_null_def)
  qed
  have "sym h1 x = sym h x" if "x \<in> set xs" for x
    by (rule e(1)) (use that s(2) in auto)
  then have "export_of h1 m xs = export_of h m xs"
    unfolding export_of_def using null e(4) by (auto intro!: map_cong filter_cong)
  moreover have "symbol_map h' r = symbol_map h1 r ++ map_of (rev (export_of h1 m xs)) \<and> nulls h' = nulls h1"
    by (rule Cons.IH [OF 2]) (use Cons.prems e(5,6) in auto)
  moreover have "symbol_map h r ++ map_of (rev (export_of h m (s # xs))) = symbol_map h1 r ++ map_of (rev (export_of h m xs))"
  proof (cases "isDefined (sym h s) \<and> \<not> is_null h m s")
    case True
    then have "export_of h m (s # xs) = (export_name (m_name (modl h m)) (sym h s), s) # export_of h m xs"
      by (simp add: export_of_def)
    then show ?thesis using True e(7) by (simp add: map_add_def fun_eq_iff split: option.splits)
  next
    case False
    then have "export_of h m (s # xs) = export_of h m xs" by (auto simp: export_of_def)
    moreover have "symbol_map h1 r = symbol_map h r" by (rule trans [OF e(7) if_not_P [OF False]])
    ultimately show ?thesis by simp
  qed
  ultimately show ?case using e(2) by simp
qed

lemma merge_refines:
  assumes "addLinkableModule r m h = Inr h'" "linked h r (m # ms)" "pending h (m # ms)"
  shows "\<exists>h1. merge_null_state r m h = Inr h1 \<and> symbol_map h' r = symbol_map h1 r ++ exports h1 m \<and> nulls h' = nulls h1"
proof -
  obtain h1 where n: "merge_null_state r m h = Inr h1" and a: "foldr_res (add_module_symbol r m) (symbols h1 m) h1 = Inr h'"
    using assms(1) by (auto simp: addLinkableModule_def rbind_Inr_iff)
  obtain t where s: "shape h1 = shape h" and o: "\<And>n. n \<noteq> r \<Longrightarrow> tables h1 ! n = tables h ! n \<and> nulls h1 ! n = nulls h ! n"
    by (rule merge_null_linked [OF n assms(2,3)]) blast
  have m: "m < length (st_mods h)" "m \<noteq> r" "r < length (st_mods h)" "module_ok h m" "distinct (map snd (tables h ! m))"
    using assms(2,3) by (auto simp: linked_def pending_def module_ok_def)
  note len = shape_lengths [OF s]
  have sy: "symbols h1 m = map snd (tables h ! m)" using m(1,2) o len view_nth(5) [of m h1] by (simp add: symbols_def)
  have "set (symbols h1 m) \<subseteq> {..<length (st_syms h1)}" using m(4) sy len by (auto simp: module_ok_def sym_ok_def)
  then show ?thesis using n add_symbols_exports [OF a] m sy len by (simp add: exports_def)
qed

text \<open>The null state of the first module that has one becomes the null state of the result.\<close>

definition null_entry :: "store \<Rightarrow> mod_ref \<Rightarrow> mod_ref \<Rightarrow> string \<Rightarrow> sym_ref option" where
  "null_entry h r m =
     (case (nullState h r, nullState h m) of (None, Some t) \<Rightarrow> [NULL_STATE_NAME \<mapsto> t] | _ \<Rightarrow> Map.empty)"

text \<open>A result without a null state is empty.\<close>

definition fresh :: "store \<Rightarrow> mod_ref \<Rightarrow> bool" where
  "fresh h r \<longleftrightarrow> (nulls h ! r = None \<longrightarrow> tables h ! r = [])"

lemma merge_null_symbols:
  assumes g: "merge_null_state r m h = Inr h1" and l: "linked h r (m # ms)" "pending h (m # ms)" and f: "fresh h r"
  shows "symbol_map h1 r = symbol_map h r ++ null_entry h r m" "nulls h1 ! r \<noteq> None"
proof -
  have r: "r < length (st_mods h)" "m < length (st_mods h)" "module_ok h m"
    using l by (auto simp: linked_def pending_def module_ok_def)
  obtain t where t: "nullState h m = Some t" using g by (auto simp: merge_null_state_def split: option.splits)
  have "symbol_map h1 r = symbol_map h r ++ null_entry h r m \<and> nulls h1 ! r \<noteq> None"
  proof (cases "nullState h r")
    case None
    have tl: "t < length (st_syms h)" using last_null_ok [OF t r(3)] by (simp add: sym_ok_def)
    have "setNullState r t h = Inr h1" using g t None by (simp add: merge_null_state_def)
    note v = setNullState_views [OF this r(1) tl]
    have e: "tables h ! r = []" using f None r(1) by (simp add: fresh_def nullState_nulls)
    have "map_of (tables h1 ! r) = [NULL_STATE_NAME \<mapsto> t]" using v(5) r(1) e by (simp add: Let_def dict_set_def dict_del_def)
    moreover have "m_symbols (modl h1 r) = tables h1 ! r" "m_symbols (modl h r) = []"
      using r(1) e shape_lengths(3) [OF v(1)] view_nth(5) [of r h] view_nth(5) [of r h1] by simp_all
    ultimately show ?thesis using v(4) None t r(1) by (simp add: symbol_map_def null_entry_def)
  next
    case (Some q)
    then have vv: "views h1 = views h" using g t combine_symbols_views by (simp add: merge_null_state_def)
    have v: "tables h1 = tables h" "nulls h1 = nulls h" "length (st_mods h1) = length (st_mods h)"
      using vv views_lengths(3) [OF vv] by (simp_all add: views_parts)
    have "null_entry h r m = Map.empty" using Some by (simp add: null_entry_def)
    moreover have "nulls h ! r \<noteq> None" using Some r(1) by (auto simp: nullState_nulls)
    moreover have "m_symbols (modl h1 r) = m_symbols (modl h r)" using v r(1) view_nth(5) [of r h] view_nth(5) [of r h1] by simp
    ultimately show ?thesis using v(2) by (simp add: symbol_map_def)
  qed
  then show "symbol_map h1 r = symbol_map h r ++ null_entry h r m" "nulls h1 ! r \<noteq> None" by simp_all
qed

lemma merge_symbols:
  assumes "addLinkableModule r m h = Inr h'" "linked h r (m # ms)" "pending h (m # ms)" "fresh h r"
  shows "\<exists>h1. merge_null_state r m h = Inr h1 \<and> symbol_map h' r = symbol_map h r ++ null_entry h r m ++ exports h1 m"
    "fresh h' r"
proof -
  obtain h1 where h1: "merge_null_state r m h = Inr h1" "symbol_map h' r = symbol_map h1 r ++ exports h1 m" "nulls h' = nulls h1"
    using merge_refines [OF assms(1-3)] by blast
  note n = merge_null_symbols [OF h1(1) assms(2-4)]
  show "fresh h' r" unfolding fresh_def h1(3) using n(2) by blast
  show "\<exists>h1. merge_null_state r m h = Inr h1 \<and> symbol_map h' r = symbol_map h r ++ null_entry h r m ++ exports h1 m"
    using h1 n(1) by metis
qed

lemma merges_linked:
  assumes "foldr_res (addLinkableModule r) ms1 h = Inr h'" "linked h r (ms1 @ ms2)" "pending h (ms1 @ ms2)" "fresh h r"
  shows "linked h' r ms2 \<and> pending h' ms2 \<and> fresh h' r"
  using assms
proof (induction ms1 arbitrary: h)
  case (Cons m ms)
  then obtain h1 where 1: "addLinkableModule r m h = Inr h1" "foldr_res (addLinkableModule r) ms h1 = Inr h'"
    by (auto simp: rbind_Inr_iff)
  have p: "linked h r (m # ms @ ms2)" "pending h (m # ms @ ms2)" using Cons.prems by simp_all
  show ?case using Cons.IH [OF 1(2)] add_module_linked [OF 1(1) p] merge_symbols(2) [OF 1(1) p Cons.prems(4)] by blast
qed simp

text \<open>Every merge of a link\<close>

lemma link_merge:
  assumes l: "loaded output base classes l h" and ms: "l_linkableModules l = ms1 @ m # ms2"
    and a: "foldr_res (addLinkableModule (l_resultLinkableModule l)) ms1 h = Inr ha"
    and g: "addLinkableModule (l_resultLinkableModule l) m ha = Inr hb"
  shows "\<exists>h1. merge_null_state (l_resultLinkableModule l) m ha = Inr h1 \<and> symbol_map hb (l_resultLinkableModule l) =
    symbol_map ha (l_resultLinkableModule l) ++ null_entry ha (l_resultLinkableModule l) m ++ exports h1 m"
proof -
  note k = loaded_ok [OF l]
  have "linked ha 0 (m # ms2) \<and> pending ha (m # ms2) \<and> fresh ha 0"
    by (rule merges_linked [OF a [unfolded k(1)]]) (use k(4-6) ms in \<open>simp_all add: fresh_def\<close>)
  then show ?thesis using merge_symbols(1) [OF g [unfolded k(1)]] k(1) by metis
qed

end
