(* ===== verification/Link_Demo.thy ===== *)
theory Link_Demo imports Link_Refine begin

text \<open>
  A small run of the linker, from the calls of two programs to the numbers and addresses of the
  result: the input at which the properties of the linker are shown to apply.
\<close>

section \<open>Programs of calls\<close>

text \<open>What only adds objects: the views of the old ones are prefixes of those of the new.\<close>

definition grows :: "store \<Rightarrow> store \<Rightarrow> bool" where
  "grows h h' \<longleftrightarrow> (\<exists>ks os. kinds h' = kinds h @ ks \<and> owners h' = owners h @ os)"

lemma own_views:
  "own m h s \<longleftrightarrow> s < length (kinds h) \<and>
     (case fst (snd (kinds h ! s)) of None \<Rightarrow> False | Some c \<Rightarrow> c < length (owners h) \<and> owners h ! c = m)"
  by (auto simp: own_def view_nth split: option.splits)

lemma grows_own: "grows h h' \<Longrightarrow> own m h s \<Longrightarrow> own m h' s"
  by (auto simp: grows_def own_views nth_append simp del: view_lengths split: option.splits)

lemma grows_trans: "grows h1 h2 \<Longrightarrow> grows h2 h3 \<Longrightarrow> grows h1 h3"
  by (auto simp: grows_def)

lemma views_grows: "kinds h' = kinds h \<Longrightarrow> owners h' = owners h \<Longrightarrow> grows h h'"
  by (simp add: grows_def)

lemma add_with_section_grows:
  assumes "add_with_section m nm ty p c h = (s, h')"
  shows "grows h h'" "s = length (kinds h)" "length (kinds h') = Suc s" "kinds h' ! s = (ty, Some c, 0)"
proof -
  obtain h1 where 1: "new_symbol nm ty (Some c) h = (s, h1)" "h' = addSymbol m s (setPrivate s p h1)"
    using assms by (auto simp: add_with_section_def split: prod.splits)
  note v = new_symbol_views [OF 1(1)]
  have "kinds h' = kinds h1" "owners h' = owners h1"
    using 1(2) by (simp_all add: addSymbol_def setPrivate_def view_simps kinds_upd_sym upd_symbols_def)
  then show "grows h h'" "s = length (kinds h)" "length (kinds h') = Suc s" "kinds h' ! s = (ty, Some c, 0)"
    using v by (simp_all add: grows_def nth_append)
qed

lemma section_addAction_same:
  assumes "section_addAction c a h = Inr h'"
  shows "kinds h' = kinds h" "owners h' = owners h"
proof -
  obtain b where "set_parent a c (upd_body c (\<lambda>_. b) h) = Inr h'"
    using assms by (auto simp: section_addAction_def split: body.splits)
  then have "views h' = views (upd_body c (\<lambda>_. b) h)" by (rule set_parent_views)
  then show "kinds h' = kinds h" "owners h' = owners h"
    by (simp_all add: views_def shape_def view_simps owners_upd_sec)
qed

lemma addAction_grows:
  assumes "addAction m label (Some s) h = Inr h'"
  shows "grows h h'"
proof -
  obtain a h1 c h2 where 1: "new_action_section label m h = Inr (a, h1)" "section_addAction c a h1 = Inr h2"
    and 2: "h' = (case getTargetLabel label of None \<Rightarrow> h2 | Some l \<Rightarrow> snd (add_with_section m l BRANCH_LABEL True a h2))"
    using assms by (auto simp: addAction_def rbind_Inr_iff rmap_Inr_iff split: if_splits)
  obtain b where "new_section m (LStr []) b h = (a, h1)" using 1(1) by (auto simp: new_action_section_def rmap_Inr_iff)
  then have "grows h h1" by (simp add: grows_def new_section_views)
  moreover have "grows h1 h2" by (rule views_grows [OF section_addAction_same [OF 1(2)]])
  moreover have "grows h2 h'"
    unfolding 2 using add_with_section_grows(1) [OF prod.collapse [symmetric]] views_grows [OF refl refl]
    by (cases "getTargetLabel label") simp_all
  ultimately show ?thesis using grows_trans by blast
qed

lemma addTransition_own:
  assumes "addTransition m ty s t label h = Inr (tr, h')"
  shows "own m h' tr"
proof -
  obtain c d sec1 h1 nm p where 1: "new_transition_section ty c d label m h = Inr (sec1, h1)"
    and 2: "add_with_section m nm TRANSITION p sec1 h1 = (tr, h')"
    using assms by (auto simp: addTransition_def Let_def rbind_Inr_iff rmap_Inr_iff split: option.splits prod.splits)
  obtain h2 h3 where n: "new_section m label (TransitionSection [] c d ty) h = (sec1, h2)"
    and o: "addOutTransition c sec1 h2 = Inr h3" and i: "addInTransition d sec1 h3 = Inr h1"
    using 1 by (auto simp: new_transition_section_def rbind_Inr_iff rmap_Inr_iff split: prod.splits)
  have "views h3 = views h2" "views h1 = views h3"
    using o i on_state_views by (auto simp: addOutTransition_def addInTransition_def section_actions_def)
  then have w: "owners h1 = owners h @ [m]" "sec1 = length (owners h)"
    using new_section_views [OF n] by (simp_all add: views_def)
  note g = add_with_section_grows [OF 2]
  then show ?thesis using w by (auto simp: own_views grows_def nth_append simp del: view_lengths)
qed

lemma writeAction_call: "own m h s \<Longrightarrow> writeAction m s act h = Inr h' \<Longrightarrow> program_call m h h' \<and> own m h' s"
  unfolding writeAction_def using grows_own [OF addAction_grows] call_addAction by blast

lemma writeTransition_call:
  assumes "writeTransition m ty source target label h = Inr (t, h')"
  shows "program_call m h h'" "own m h' t"
  using assms by (auto simp: writeTransition_def rbind_Inr_iff addTransition_own intro: call_writeTransition)

section \<open>Code equations\<close>

lemma registersList_code [code]:
  "registersList = [
    ''X0'', ''X1'', ''X2'', ''X3'', ''X4'', ''X5'', ''X6'', ''X7'', ''X8'', ''X9'', ''X10'', ''X11'',
    ''X12'', ''X13'', ''X14'', ''X15'', ''X16'', ''X17'', ''X18'', ''X19'', ''X20'', ''X21'', ''X22'',
    ''X23'', ''X24'', ''X25'', ''X26'', ''X27'', ''X28'', ''X29'', ''X30'', ''X31'', ''UDPR_0'', ''UDPR_1'',
    ''UDPR_2'', ''UDPR_3'', ''UDPR_4'', ''UDPR_5'', ''UDPR_6'', ''UDPR_7'', ''UDPR_8'', ''UDPR_9'',
    ''UDPR_10'', ''UDPR_11'', ''UDPR_12'', ''UDPR_13'', ''UDPR_14'', ''UDPR_15'', ''UDPR_16'', ''UDPR_17'',
    ''UDPR_18'', ''UDPR_19'', ''UDPR_20'', ''UDPR_21'', ''UDPR_22'', ''UDPR_23'', ''UDPR_24'', ''UDPR_25'',
    ''UDPR_26'', ''UDPR_27'', ''UDPR_28'', ''UDPR_29'', ''UDPR_30'', ''UDPR_31'', ''SBP'', ''NWID'', ''LID'',
    ''SBPB'', ''EQT'', ''TS'', ''TID'', ''SBCR'', ''SBP'', ''SBPB'', ''SBCR'', ''OB0'', ''OB1'', ''OB2'',
    ''OB3'', ''OB4'', ''OB5'', ''OB6'', ''OB7'', ''OB8'', ''OB9'']"
  by code_simp

text \<open>The same steps by case distinction, for evaluation one step after the other\<close>

lemma load_class_code [code]:
  "load_class c (l, h) =
     (case foldr_res (\<lambda>program. program (length (st_mods h))) (ec_programs c) (snd (new_module (ec_name c) h)) of
        Inl e \<Rightarrow> Inl e
      | Inr h1 \<Rightarrow>
          (case resolveSymbols False True (length (st_mods h)) h1 of
             Inl e \<Rightarrow> Inl e
           | Inr h2 \<Rightarrow>
               (case cleanSymbols (length (st_mods h)) h2 of
                  Inl e \<Rightarrow> Inl e
                | Inr h3 \<Rightarrow> Inr (l\<lparr>l_linkableModules := l_linkableModules l @ [length (st_mods h)]\<rparr>, h3))))"
  by (auto simp: load_class_def new_module_def split: sum.splits)

section \<open>Two small modules\<close>

text \<open>A program whose event calls the event of another module, after a label that looks like a
  number, with two data of a lane; and the program of the other module\<close>

definition initial :: "mod_ref \<Rightarrow> store \<Rightarrow> (state_arg \<times> store) res" where
  "initial m h =
     (case StateCall m (Some ''init'') h of
        Inl e \<Rightarrow> Inl e
      | Inr (st, h) \<Rightarrow> (case add_initId m st h of Inl e \<Rightarrow> Inl e | Inr h \<Rightarrow> Inr (st, h)))"

definition event_with :: "mod_ref \<Rightarrow> string \<Rightarrow> string list \<Rightarrow> store \<Rightarrow> store res" where
  "event_with m label acts h =
     (case initial m h of
        Inl e \<Rightarrow> Inl e
      | Inr (st, h) \<Rightarrow>
          (case writeTransition m ''eventCarry'' st st (LStr label) h of
             Inl e \<Rightarrow> Inl e | Inr (t, h) \<Rightarrow> foldr_res (writeAction m t) acts h))"

definition caller :: "mod_ref \<Rightarrow> store \<Rightarrow> store res" where
  "caller m h =
     event_with m ''main'' [''evi X7 X8 work'', ''top: bne X16 X17 top'']
       (snd (addStaticData m ''b'' 16 LANE_PRIVATE (snd (addStaticData m ''a'' 8 LANE_PRIVATE h))))"

definition callee :: "mod_ref \<Rightarrow> store \<Rightarrow> store res" where
  "callee m h = event_with m ''work'' [''yield''] h"

lemma initial_calls:
  assumes "initial m h = Inr (st, h')"
  shows "(program_call m)\<^sup>*\<^sup>* h h'"
proof -
  obtain h1 where "StateCall m (Some ''init'') h = Inr (st, h1)" "add_initId m st h1 = Inr h'"
    using assms by (auto simp: initial_def split: sum.splits)
  then have "program_call m h h1" "program_call m h1 h'" by (blast intro: call_State call_initId)+
  then show ?thesis by simp
qed

lemma writeActions_calls:
  "foldr_res (writeAction m t) acts h = Inr h' \<Longrightarrow> own m h t \<Longrightarrow> (program_call m)\<^sup>*\<^sup>* h h'"
proof (induction acts arbitrary: h)
  case (Cons a acts)
  obtain h1 where 1: "writeAction m t a h = Inr h1" and 2: "foldr_res (writeAction m t) acts h1 = Inr h'"
    using Cons.prems(1) by (auto simp: rbind_Inr_iff)
  show ?case
    using writeAction_call [OF Cons.prems(2) 1] Cons.IH [OF 2] by (blast intro: converse_rtranclp_into_rtranclp)
qed simp

lemma event_with_calls:
  assumes "event_with m label acts h = Inr h'"
  shows "(program_call m)\<^sup>*\<^sup>* h h'"
proof -
  obtain st h1 t h2 where 1: "initial m h = Inr (st, h1)" "writeTransition m ''eventCarry'' st st (LStr label) h1 = Inr (t, h2)"
    "foldr_res (writeAction m t) acts h2 = Inr h'"
    using assms by (auto simp: event_with_def split: sum.splits)
  note t = writeTransition_call [OF 1(2)]
  have "(program_call m)\<^sup>*\<^sup>* h h2" using initial_calls [OF 1(1)] t(1) by (rule rtranclp.rtrancl_into_rtrancl)
  then show ?thesis using writeActions_calls [OF 1(3) t(2)] by (rule rtranclp_trans)
qed

lemma static_call: "program_call m h (snd (addStaticData m name n ty h))"
  by (rule call_addStaticData [OF prod.collapse [symmetric]])

lemma demo_programs: "api_program caller" "api_program callee"
proof -
  have "(program_call m)\<^sup>*\<^sup>* h h'" if "caller m h = Inr h'" for m h h'
    by (rule converse_rtranclp_into_rtranclp [OF _ converse_rtranclp_into_rtranclp
          [OF _ event_with_calls [OF that [unfolded caller_def]]]]) (rule static_call)+
  then show "api_program caller" by (simp add: api_program_def)
  show "api_program callee" using event_with_calls by (simp add: api_program_def callee_def)
qed

definition demo_classes :: "efa_class list" where
  "demo_classes = [\<lparr>ec_name = ''A'', ec_programs = [caller]\<rparr>, \<lparr>ec_name = ''B'', ec_programs = [callee]\<rparr>]"

definition demo_base :: base_addr where
  "demo_base = \<lparr>lane_private = Some 64, updown_private = Some 0, dram_shared = Some 0\<rparr>"

definition demo_run :: "(efa_linker \<times> store \<times> store \<times> store \<times> store) option" where
  "demo_run =
     (case loadSymbols demo_classes (EFAlinker ''out'' demo_base empty_store) of
        Inl e \<Rightarrow> None
      | Inr (l, h) \<Rightarrow>
          (case link True l h of
             Inl e \<Rightarrow> None
           | Inr h1 \<Rightarrow>
               (case allocateStaticMemory demo_base (l_resultLinkableModule l) h1 of
                  Inl e \<Rightarrow> None
                | Inr h2 \<Rightarrow>
                    (case assignIDs (l_resultLinkableModule l) h2 of
                       Inl e \<Rightarrow> None | Inr h3 \<Rightarrow> Some (l, h, h1, h2, h3)))))"

end
