(* ===== verification/Link_Rename.thy ===== *)
theory Link_Rename imports Link_Text begin

text \<open>
  What \<open>renameSymbol\<close> does to the text of an action: the expression \<open>\b\<close> on both sides of the old
  name makes it replace whole words only.
\<close>

section \<open>Words of a text\<close>

text \<open>A text as its maximal runs of word characters and, between them, its other characters\<close>

function word_pieces :: "string \<Rightarrow> string list" where
  "word_pieces [] = []"
| "word_pieces (c # cs) =
     (if word_char c then (c # takeWhile word_char cs) # word_pieces (dropWhile word_char cs)
      else [c] # word_pieces cs)"
  by pat_completeness auto
termination
  by (relation "measure length") (auto simp: length_dropWhile_le less_Suc_eq_le)

definition whole_word :: "string \<Rightarrow> bool" where
  "whole_word s = (s \<noteq> [] \<and> list_all word_char s)"

lemma concat_word_pieces: "concat (word_pieces s) = s"
  by (induction s rule: word_pieces.induct) auto

lemma word_next_simps [simp]: "word_next [] \<longleftrightarrow> False" "word_next (c # cs) \<longleftrightarrow> word_char c"
  by (simp_all add: word_next_def)

section \<open>Renaming word by word\<close>

lemma sub_word_skip:
  "k < length s \<Longrightarrow> sub_word old new p (Suc k) s = sub_word old new (word_char (s ! k)) 0 (drop (Suc k) s)"
proof (induction k arbitrary: p s)
  case 0
  then show ?case by (cases s) auto
next
  case (Suc k)
  then show ?case by (cases s) auto
qed

lemma sub_word_inside:
  assumes "list_all word_char w"
  shows "sub_word old new True 0 (w @ s) = w @ sub_word old new True 0 s"
  using assms by (induction w) (auto simp: at_word_def)

lemma sub_word_between:
  assumes "whole_word old" and "\<not> word_char c"
  shows "sub_word old new p 0 (c # cs) = c # sub_word old new False 0 cs"
proof -
  have "\<not> starts_with old (c # cs)"
    using assms by (cases old) (auto simp: starts_with_def whole_word_def)
  then show ?thesis using assms by (simp add: at_word_def)
qed

lemma sub_word_after:
  assumes "whole_word old" and "\<not> word_next s"
  shows "sub_word old new p 0 s = sub_word old new False 0 s"
proof (cases s)
  case Nil
  then show ?thesis using assms by (auto simp: whole_word_def)
next
  case (Cons c cs)
  then show ?thesis using assms sub_word_between by simp
qed

lemma at_word_whole:
  assumes "whole_word old" and "whole_word w" and "\<not> word_next s"
  shows "at_word old False (w @ s) \<longleftrightarrow> w = old"
proof
  assume a: "at_word old False (w @ s)"
  let ?n = "length old"
  have p: "take ?n (w @ s) = old" "\<not> word_next (drop ?n (w @ s))"
    using a assms(1) by (auto simp: at_word_def starts_with_def whole_word_def list_all_iff)
  have "?n \<le> length w"
  proof (rule ccontr)
    assume "\<not> ?n \<le> length w"
    then have "word_char (old ! length w)" "old ! length w = s ! 0" "s \<noteq> []"
      using assms(1) arg_cong [OF p(1), of "\<lambda>x. x ! length w"] arg_cong [OF p(1), of length]
      by (auto simp: whole_word_def list_all_length nth_append)
    then show False using assms(3) by (cases s) auto
  qed
  moreover have "\<not> ?n < length w"
  proof
    assume n: "?n < length w"
    then have "drop ?n w \<noteq> []" "word_char (hd (drop ?n w))"
      using assms(2) by (auto simp: whole_word_def list_all_length hd_drop_conv_nth)
    then show False using p(2) n by (cases "drop ?n w") auto
  qed
  ultimately show "w = old" using p(1) by simp
next
  assume "w = old"
  then show "at_word old False (w @ s)"
    using assms by (cases old) (auto simp: at_word_def starts_with_def whole_word_def list_all_iff)
qed

lemma sub_word_word:
  assumes "whole_word old" and "whole_word w" and "\<not> word_next s"
  shows "sub_word old new False 0 (w @ s) = (if w = old then new else w) @ sub_word old new False 0 s"
proof -
  obtain c cs where w: "w = c # cs" using assms(2) by (cases w) (auto simp: whole_word_def)
  have c: "word_char c" "list_all word_char cs" using assms(2) w by (auto simp: whole_word_def)
  show ?thesis
  proof (cases "w = old")
    case False
    then have "sub_word old new False 0 (w @ s) = c # sub_word old new True 0 (cs @ s)"
      using at_word_whole [OF assms] w c by simp
    then show ?thesis using False sub_word_inside [OF c(2)] sub_word_after [OF assms(1,3)] w by simp
  next
    case True
    then have a: "sub_word old new False 0 (w @ s) = new @ sub_word old new True (length cs) (cs @ s)"
      using at_word_whole [OF assms] w c by auto
    have "sub_word old new True (length cs) (cs @ s) = sub_word old new True 0 s"
    proof (cases "length cs")
      case (Suc k)
      then show ?thesis
        using sub_word_skip [of k "cs @ s" old new True] c(2) by (auto simp: list_all_length nth_append)
    qed simp
    then show ?thesis using a True sub_word_after [OF assms(1,3)] by simp
  qed
qed

lemma rename_words:
  assumes "whole_word old"
  shows "rename_action old new s = concat (map (\<lambda>w. if w = old then new else w) (word_pieces s))"
  unfolding rename_action_def
proof (induction s rule: word_pieces.induct)
  case 1
  then show ?case using assms by (auto simp: whole_word_def)
next
  case (2 c cs)
  show ?case
  proof (cases "word_char c")
    case True
    let ?w = "c # takeWhile word_char cs" and ?s = "dropWhile word_char cs"
    have s: "c # cs = ?w @ ?s" by simp
    have "whole_word ?w" "\<not> word_next ?s"
      using True by (auto simp: whole_word_def list_all_iff dest: set_takeWhileD)
        (metis hd_dropWhile word_next_def)
    then have "sub_word old new False 0 (c # cs) = (if ?w = old then new else ?w) @ sub_word old new False 0 ?s"
      using sub_word_word [OF assms] s by metis
    then show ?thesis using 2(1) [OF True] True by (simp del: sub_word.simps)
  next
    case False
    then have "[c] \<noteq> old" using assms by (auto simp: whole_word_def)
    then show ?thesis using False 2(2) [OF False] sub_word_between [OF assms False] by simp
  qed
qed

end
