(* ===== verification/Link_Correct.thy ===== *)
theory Link_Correct imports Link_Demo Link_Rename begin

text \<open>
  The properties of the linker: what a loaded and linked program promises, what a merge does to the
  symbols, where data are placed, and how names are recognised and replaced in actions.
\<close>

section \<open>Labels that look like numbers\<close>

definition hex_char :: "char \<Rightarrow> bool" where
  "hex_char c = (is_digit c \<or> c \<in> set ''abcdef'')"

lemma hd_split_on: "\<forall>x\<in>set w. x \<noteq> d \<Longrightarrow> hd (split_on d (w @ d # s)) = w"
proof (induction w)
  case (Cons c w)
  then show ?case using split_on_nonempty [of d "w @ d # s"] by (auto split: list.splits simp del: split_on_nonempty)
qed simp

lemma hex_char_digit:
  assumes "hex_char c"
  shows "base_digit 16 c \<noteq> None" "label_char c" "c \<noteq> CHR ''_''" "\<not> is_space c" "c \<noteq> CHR '':''"
proof -
  let ?P = "\<lambda>c. base_digit 16 c \<noteq> None \<and> label_char c \<and> c \<noteq> CHR ''_'' \<and> \<not> is_space c \<and> c \<noteq> CHR '':''"
  have "?P c" if "is_digit c"
    using that by (auto simp: base_digit_def label_char_def word_char_def is_digit_def digit_val_def is_space_def Let_def)
  moreover have "\<forall>c\<in>set ''abcdef''. ?P c" by code_simp
  ultimately have "?P c" using assms unfolding hex_char_def by blast
  then show "base_digit 16 c \<noteq> None" "label_char c" "c \<noteq> CHR ''_''" "\<not> is_space c" "c \<noteq> CHR '':''" by blast+
qed

lemma hex_digits: "list_all hex_char cs \<Longrightarrow> base_digits 16 n cs \<noteq> None"
proof (induction cs arbitrary: n)
  case (Cons c cs)
  then show ?case using hex_char_digit(1,3) [of c] by auto
qed simp

lemma hex_number:
  assumes "c \<in> set ''abcdef''" "list_all hex_char cs"
  shows "isNumericLiteral (c # cs) \<noteq> None"
proof -
  have h: "hex_char c" using assms(1) by (auto simp: hex_char_def)
  have l: "hex_char (last (c # cs))" using h assms(2) by (auto simp: list_all_iff)
  have s: "strip (c # cs) = c # cs" using hex_char_digit(4) [OF h] hex_char_digit(4) [OF l] by (intro strip_no_space) simp_all
  have "c \<noteq> CHR ''0''" "c \<noteq> CHR ''-''" "c \<noteq> CHR ''+''" using assms(1) by auto
  moreover obtain v where v: "base_digit 16 c = Some v" using hex_char_digit(1) [OF h] by blast
  ultimately have "base_nat 16 ''xX'' (c # cs) \<noteq> None" using hex_digits [OF assms(2), of v] by (simp add: base_nat_def Let_def)
  then have "int_base 16 ''xX'' (c # cs) \<noteq> None"
    using s \<open>c \<noteq> CHR ''-''\<close> \<open>c \<noteq> CHR ''+''\<close> by (simp add: int_base_def Let_def)
  then show ?thesis by (auto simp: isNumericLiteral_def split: sum.splits option.splits)
qed

lemma hex_label:
  assumes "c \<in> set ''abcdef''" "list_all hex_char cs"
  shows "getTargetLabel ((c # cs) @ CHR '':'' # rest) = Some (c # cs)" "isSymbol insts (c # cs) = Inr (c # cs \<notin> insts)"
proof -
  have h: "list_all hex_char (c # cs)" using assms by (auto simp: hex_char_def)
  have st: "label_start c" "\<not> is_digit c" using assms(1) by (auto simp: label_start_def is_alpha_def is_digit_def)
  have a: "\<forall>x\<in>set cs. label_char x" using h hex_char_digit(2) by (auto simp: list_all_iff)
  have "dropWhile label_char (cs @ CHR '':'' # rest) = CHR '':'' # rest"
    using a by (subst dropWhile_append2) (auto simp: label_char_def word_char_def is_alpha_def is_digit_def)
  then have t: "hasTargetLabel ((c # cs) @ CHR '':'' # rest)" using st by (simp add: hasTargetLabel_def)
  have l: "hex_char (last (c # cs))" using h by (auto simp: list_all_iff)
  have s: "strip (c # cs) = c # cs"
    using h hex_char_digit(4) [OF l] hex_char_digit(4) [of c] by (intro strip_no_space) simp_all
  have "hd (split_on CHR '':'' ((c # cs) @ CHR '':'' # rest)) = c # cs"
    using h hex_char_digit(5) by (intro hd_split_on) (auto simp: list_all_iff)
  then show "getTargetLabel ((c # cs) @ CHR '':'' # rest) = Some (c # cs)" using t s by (simp add: getTargetLabel_def)
  have "dropWhile label_char cs = []" using a by (simp add: dropWhile_eq_Nil_conv)
  then show "isSymbol insts (c # cs) = Inr (c # cs \<notin> insts)" using st by (simp add: isSymbol_def)
qed

section \<open>The run of the two modules\<close>

lemma demo_evaluated:
  "case demo_run of None \<Rightarrow> False | Some (l, h, h1, h2, h3) \<Rightarrow>
     l_resultLinkableModule l = 0 \<and> l_base_address l = demo_base \<and> l_linkableModules l = [1, 2] \<and>
     symbols h1 0 = [2, 0, 1, 3, 4, 7] \<and> region_of h1 1 = Some LANE_PRIVATE \<and>
     map (\<lambda>s. y_name (sym h1 s)) (symbols h1 0) = [''init_null_state'', ''a'', ''b'', ''main'', ''A_top'', ''work''] \<and>
     (case addLinkableModule 0 1 h of Inl e \<Rightarrow> False | Inr ha \<Rightarrow>
        (case addLinkableModule 0 2 ha of Inl e \<Rightarrow> False | Inr hb \<Rightarrow> True))"
  by code_simp

lemma demo_facts:
  obtains l h h1 h2 h3 where "loaded ''out'' demo_base demo_classes l h" "link True l h = Inr h1"
    "allocateStaticMemory (l_base_address l) (l_resultLinkableModule l) h1 = Inr h2" "assignIDs (l_resultLinkableModule l) h2 = Inr h3"
    "l_resultLinkableModule l = 0" "l_base_address l = demo_base" "l_linkableModules l = [1, 2]"
    "symbols h1 0 = [2, 0, 1, 3, 4, 7]" "region_of h1 1 = Some LANE_PRIVATE"
    "\<exists>ha hb. addLinkableModule 0 1 h = Inr ha \<and> addLinkableModule 0 2 ha = Inr hb"
proof -
  obtain l h h1 h2 h3 where d: "demo_run = Some (l, h, h1, h2, h3)" using demo_evaluated by (cases demo_run) auto
  then have r: "loadSymbols demo_classes (EFAlinker ''out'' demo_base empty_store) = Inr (l, h)" "link True l h = Inr h1"
    "allocateStaticMemory demo_base (l_resultLinkableModule l) h1 = Inr h2" "assignIDs (l_resultLinkableModule l) h2 = Inr h3"
    by (simp_all add: demo_run_def split: sum.splits prod.splits)
  have "loaded ''out'' demo_base demo_classes l h" using r(1) demo_programs by (simp add: loaded_def demo_classes_def)
  then show thesis
    using that [of l h h1 h2 h3] r(2-4) demo_evaluated [unfolded d] by (auto split: sum.splits)
qed

section \<open>Properties of the linker\<close>

text \<open>C3: Once modules that programs built with the calls of the interface are loaded and linked with
  every symbol required, writing the result never meets an unresolved symbol: \<open>finalize\<close> raises its
  exception for no action of the linked program.\<close>

theorem linked_program_resolved:
  assumes "loaded output base classes l h" and "link True l h = Inr h1"
  shows "linker_dumpPython True l h1 \<noteq> Inl RaisedException"
  using linked_dump_calm [OF assms] by (simp add: calm_def)

theorem linked_program_resolved_witness:
  "\<exists>l h h1. loaded ''out'' demo_base demo_classes l h \<and> link True l h = Inr h1 \<and>
     linker_dumpPython True l h1 \<noteq> Inl RaisedException"
  by (rule demo_facts) (use linked_program_resolved in blast)

text \<open>C13: In the linked program the states, in the order of the symbol table, have the IDs 0, 1, 2 and
  so on without a gap, and so have the events, which are exactly the transitions out of the null state.\<close>

theorem linked_ids:
  assumes "loaded output base classes l h" and "link True l h = Inr h1"
    and "allocateStaticMemory (l_base_address l) (l_resultLinkableModule l) h1 = Inr h2"
    and "assignIDs (l_resultLinkableModule l) h2 = Inr h3"
  shows "map (\<lambda>s. y_id (sym h3 s)) (symbols_of STATE h3 (l_resultLinkableModule l)) =
      map (\<lambda>k. LInt (int k)) [0..<length (symbols_of STATE h3 (l_resultLinkableModule l))] \<and>
    (\<exists>es. eventTransitionSymbols h3 (l_resultLinkableModule l) = Inr es \<and>
      map (\<lambda>s. y_id (sym h3 s)) es = map (\<lambda>k. LInt (int k)) [0..<length es] \<and>
      set es = {s \<in> set (symbols h3 (l_resultLinkableModule l)). is_event h3 s})"
proof -
  have "linked h2 (l_resultLinkableModule l) []"
    using link_ok(1) [OF assms(1,2)] loaded_ok(1) [OF assms(1)] same_but_ids_linked [OF allocate_same [OF assms(3)]] by simp
  from assignIDs_numbers [OF assms(4) this] show ?thesis by (simp add: ids_from_def)
qed

theorem linked_ids_witness:
  "\<exists>l h h1 h2 h3. loaded ''out'' demo_base demo_classes l h \<and> link True l h = Inr h1 \<and>
     allocateStaticMemory (l_base_address l) (l_resultLinkableModule l) h1 = Inr h2 \<and>
     assignIDs (l_resultLinkableModule l) h2 = Inr h3 \<and>
     map (\<lambda>s. y_id (sym h3 s)) (symbols_of STATE h3 (l_resultLinkableModule l)) =
      map (\<lambda>k. LInt (int k)) [0..<length (symbols_of STATE h3 (l_resultLinkableModule l))]"
  by (rule demo_facts) (use linked_ids in blast)

text \<open>C7: Every merge of a link implements its specification on symbol maps. The result gains the
  symbols that the module defines, without its null state, a later one replacing an earlier one of the
  same name. A public symbol has its own name there; a private one has the name of the module and an
  underscore in front of its own, unless these are already somewhere in it, at the front or not. A
  result that had no null state gains the one of the module, under the name of null states.\<close>

theorem merge_implements_export:
  assumes "loaded output base classes l h" and "l_linkableModules l = ms1 @ m # ms2"
    and "foldr_res (addLinkableModule (l_resultLinkableModule l)) ms1 h = Inr ha"
    and "addLinkableModule (l_resultLinkableModule l) m ha = Inr hb"
  shows "\<exists>h1. merge_null_state (l_resultLinkableModule l) m ha = Inr h1 \<and> symbol_map hb (l_resultLinkableModule l) =
    symbol_map ha (l_resultLinkableModule l) ++ null_entry ha (l_resultLinkableModule l) m ++
    map_of (rev (map
      (\<lambda>s. (let y = sym h1 s; modname = m_name (modl h1 m)
            in if y_private y \<and> (\<nexists>a b. y_name y = a @ modname @ ''_'' @ b) then modname @ ''_'' @ y_name y
               else y_name y, s))
      (filter (\<lambda>s. isDefined (sym h1 s) \<and> \<not> is_null h1 m s) (symbols h1 m))))"
  using link_merge [OF assms] unfolding exports_def export_of_def export_name_def Let_def .

theorem merge_implements_export_witness:
  "\<exists>l h ha hb h1. loaded ''out'' demo_base demo_classes l h \<and> addLinkableModule 0 1 h = Inr ha \<and>
     addLinkableModule 0 2 ha = Inr hb \<and> merge_null_state 0 2 ha = Inr h1 \<and>
     symbol_map hb 0 = symbol_map ha 0 ++ null_entry ha 0 2 ++ exports h1 2"
proof (rule demo_facts)
  fix l h h1 h2 h3
  assume l: "loaded ''out'' demo_base demo_classes l h" "l_resultLinkableModule l = 0" "l_linkableModules l = [1, 2]"
    and "\<exists>ha hb. addLinkableModule 0 1 h = Inr ha \<and> addLinkableModule 0 2 ha = Inr hb"
  then obtain ha hb where m: "addLinkableModule 0 1 h = Inr ha" "addLinkableModule 0 2 ha = Inr hb" by blast
  have "\<exists>h1. merge_null_state 0 2 ha = Inr h1 \<and> symbol_map hb 0 = symbol_map ha 0 ++ null_entry ha 0 2 ++ exports h1 2"
    unfolding exports_def export_of_def export_name_def
    using merge_implements_export [of "''out''" demo_base demo_classes l h "[1]" 2 "[]" ha hb, unfolded Let_def] l m by simp
  then show ?thesis using l(1) m by blast
qed

text \<open>A static datum of the linked program gets the base address of its region, advanced by the
  sizes of the symbols of this region that come before it in the table.\<close>

theorem static_data_addresses:
  assumes "loaded output base classes l h" and "link True l h = Inr h1"
    and "allocateStaticMemory (l_base_address l) (l_resultLinkableModule l) h1 = Inr h2"
    and "symbols h1 (l_resultLinkableModule l) = ys @ s # zs" and "region_of h1 s = Some ty"
  shows "\<exists>a. region_addr ty (l_base_address l) = Some a \<and>
    y_id (sym h2 s) = LInt (a + (\<Sum>x\<leftarrow>filter (\<lambda>x. region_of h1 x = Some ty) ys. y_size (sym h1 x)))"
proof -
  have "linked h1 (l_resultLinkableModule l) []" using link_ok(1) [OF assms(1,2)] loaded_ok(1) [OF assms(1)] by simp
  from allocate_addresses [OF assms(3) this assms(4,5)] show ?thesis by (simp add: before_def)
qed

theorem static_data_addresses_witness:
  "\<exists>l h h1 h2. loaded ''out'' demo_base demo_classes l h \<and> link True l h = Inr h1 \<and>
     allocateStaticMemory demo_base 0 h1 = Inr h2 \<and> y_id (sym h2 1) =
       LInt (64 + (\<Sum>x\<leftarrow>filter (\<lambda>x. region_of h1 x = Some LANE_PRIVATE) [2, 0]. y_size (sym h1 x)))"
proof (rule demo_facts)
  fix l h h1 h2 h3
  assume l: "loaded ''out'' demo_base demo_classes l h" "link True l h = Inr h1"
    "allocateStaticMemory (l_base_address l) (l_resultLinkableModule l) h1 = Inr h2"
    "l_resultLinkableModule l = 0" "l_base_address l = demo_base" "symbols h1 0 = [2, 0, 1, 3, 4, 7]"
    "region_of h1 1 = Some LANE_PRIVATE"
  from static_data_addresses [OF l(1-3), of "[2, 0]" 1 "[3, 4, 7]" LANE_PRIVATE] l
  have "y_id (sym h2 1) = LInt (64 + (\<Sum>x\<leftarrow>filter (\<lambda>x. region_of h1 x = Some LANE_PRIVATE) [2, 0]. y_size (sym h1 x)))"
    by (simp add: region_addr_def demo_base_def del: filter.simps)
  then show ?thesis using l(1-5) unfolding l(4,5) by blast
qed

text \<open>C32: All static data of one region of the linked program get the same address, the base of the
  region: the linker never sets the size of a symbol, by which it means to advance the address.\<close>

theorem static_data_overlap:
  assumes "loaded output base classes l h" and "link True l h = Inr h1"
    and "allocateStaticMemory (l_base_address l) (l_resultLinkableModule l) h1 = Inr h2"
    and "s \<in> set (symbols h1 (l_resultLinkableModule l))" and "region_of h1 s = Some ty"
  shows "Some (y_id (sym h2 s)) = map_option LInt (region_addr ty (l_base_address l))"
  by (rule all_at_base [OF assms, symmetric])

theorem static_data_overlap_witness:
  "\<exists>l h h1 h2. loaded ''out'' demo_base demo_classes l h \<and> link True l h = Inr h1 \<and>
     allocateStaticMemory demo_base 0 h1 = Inr h2 \<and> y_id (sym h2 1) = LInt 64"
proof (rule demo_facts)
  fix l h h1 h2 h3
  assume l: "loaded ''out'' demo_base demo_classes l h" "link True l h = Inr h1"
    "allocateStaticMemory (l_base_address l) (l_resultLinkableModule l) h1 = Inr h2"
    "l_resultLinkableModule l = 0" "l_base_address l = demo_base" "symbols h1 0 = [2, 0, 1, 3, 4, 7]"
    "region_of h1 1 = Some LANE_PRIVATE"
  from static_data_overlap [OF l(1-3), of 1 LANE_PRIVATE] l
  have "y_id (sym h2 1) = LInt 64" by (simp add: region_addr_def demo_base_def)
  then show ?thesis using l by auto
qed

text \<open>C34: Renaming a symbol whose name consists of word characters (letters, digits and underscores) in
  the text of an action replaces exactly the words that are its name: the text is cut into its maximal
  runs of word characters and its other characters, and every run that equals the old name becomes the
  new one. A name with another character in it is not covered.\<close>

theorem renaming_by_words:
  assumes "whole_word old"
  shows "rename_action old new s = concat (map (\<lambda>w. if w = old then new else w) (word_pieces s))"
  by (rule rename_words [OF assms])

theorem renaming_by_words_witness:
  "rename_action ''top'' ''A_top'' ''top: bne X1 X2 topmost'' =
     concat (map (\<lambda>w. if w = ''top'' then ''A_top'' else w) (word_pieces ''top: bne X1 X2 topmost''))"
  by (rule renaming_by_words) code_simp

text \<open>A label of letters and digits of hexadecimal numbers that starts with a letter, such as
  \<open>bad\<close>, is a label where it is defined and passes \<open>isSymbol\<close>, but as an operand it is taken for a
  number, so its uses are no symbols, while its definition is renamed like any other.\<close>

theorem hexadecimal_label_not_detected:
  assumes "c \<in> set ''abcdef''" and "list_all hex_char cs"
  shows "is_symbol_operand (c # cs) = Inr False \<and> getTargetLabel ((c # cs) @ CHR '':'' # rest) = Some (c # cs) \<and>
    isSymbol insts (c # cs) = Inr (c # cs \<notin> insts)"
  using hex_number [OF assms] hex_label [OF assms] by (simp add: is_symbol_operand_def)

theorem hexadecimal_label_not_detected_witness:
  "is_symbol_operand ''bad'' = Inr False \<and> getTargetLabel (''bad'' @ '': bne X16 X17 bad'') = Some ''bad'' \<and>
    isSymbol {''bne''} ''bad'' = Inr True"
proof -
  have "list_all hex_char ''ad''" by code_simp
  then show ?thesis using hexadecimal_label_not_detected [of "CHR ''b''" "''ad''" "'' bne X16 X17 bad''" "{''bne''}"] by simp
qed

end
