(* ===== verification/Udw_Types.thy ===== *)
theory Udw_Types imports Prelude "HOL-Library.Word" begin

unbundle bit_operations_syntax

text \<open>
  \<open>src/updown/udweave/Weave/WeaveIRenums.py\<close>, \<open>Weave/helper.py\<close> and the operators of
  \<open>frontend/ASTweaveEnums.py\<close>: the data types of the compiler's intermediate representation with
  their sizes, the qualifiers, the kinds of operation of each class of instruction, and the
  choice of an operation for an operator of the language.
\<close>

section \<open>Data types\<close>

datatype wtype = i8 | i16 | i32 | i64 | bf16 | float_t | double_t | ptr_t | void_t | struct_t | union_t
  | c8 | c16 | c32 | c64 | unknown_t

definition isInteger :: "wtype \<Rightarrow> bool" where
  "isInteger t = (t \<in> {i8, i16, i32, i64})"

definition isFloatingPoint :: "wtype \<Rightarrow> bool" where
  "isFloatingPoint t = (t \<in> {bf16, float_t, double_t})"

definition isPointer :: "wtype \<Rightarrow> bool" where
  "isPointer t = (t = ptr_t)"

definition isStruct :: "wtype \<Rightarrow> bool" where
  "isStruct t = (t = struct_t)"

definition isUnion :: "wtype \<Rightarrow> bool" where
  "isUnion t = (t = union_t)"

fun getSize :: "wtype \<Rightarrow> int res" where
  "getSize i8 = Inr 1" | "getSize i16 = Inr 2" | "getSize i32 = Inr 4" | "getSize i64 = Inr 8"
| "getSize bf16 = Inr 2" | "getSize float_t = Inr 4" | "getSize double_t = Inr 8" | "getSize ptr_t = Inr 8"
| "getSize struct_t = Inr 0" | "getSize union_t = Inr 0"
| "getSize c8 = Inr 1" | "getSize c16 = Inr 2" | "getSize c32 = Inr 4" | "getSize c64 = Inr 8"
| "getSize void_t = Inl SysExit" | "getSize unknown_t = Inl SysExit"

fun getScale :: "wtype \<Rightarrow> int res" where
  "getScale i8 = Inr 0" | "getScale i16 = Inr 1" | "getScale i32 = Inr 2" | "getScale i64 = Inr 3"
| "getScale bf16 = Inr 2" | "getScale float_t = Inr 2" | "getScale double_t = Inr 3" | "getScale ptr_t = Inr 3"
| "getScale struct_t = Inr 0" | "getScale union_t = Inr 0"
| "getScale c8 = Inr 0" | "getScale c16 = Inr 1" | "getScale c32 = Inr 2" | "getScale c64 = Inr 3"
| "getScale void_t = Inl SysExit" | "getScale unknown_t = Inl SysExit"

fun mapToInstrName :: "wtype \<Rightarrow> string" where
  "mapToInstrName i64 = ''i64''" | "mapToInstrName i32 = ''i32''" | "mapToInstrName i16 = ''i16''"
| "mapToInstrName i8 = ''i8''" | "mapToInstrName double_t = ''64''" | "mapToInstrName float_t = ''32''"
| "mapToInstrName bf16 = ''b16''" | "mapToInstrName c64 = ''i64''" | "mapToInstrName c32 = ''i32''"
| "mapToInstrName c16 = ''i16''" | "mapToInstrName c8 = ''i8''" | "mapToInstrName _ = ''''"

text \<open>The signs are parameters that the source takes and does not read.\<close>

definition checkCast :: "wtype \<Rightarrow> wtype \<Rightarrow> bool \<Rightarrow> bool \<Rightarrow> bool" where
  "checkCast t u thisSigned otherSigned =
     (\<not> (isStruct t \<or> isUnion t
        \<or> isInteger t \<and> isInteger u \<or> isPointer t \<and> isPointer u
        \<or> isFloatingPoint t \<and> isFloatingPoint u \<and> t = u
        \<or> isPointer t \<and> isInteger u \<or> isPointer u \<and> isInteger t))"

section \<open>Qualifiers and operations\<close>

datatype wqual = unsigned_q | signed_q | const_q | spmem_q | static_q | private_q | constexp_q | unknown_q

datatype wreg_type = gpr | opbuff | control | unknown_reg

datatype arith_type = IADDITION | FADDITION | ISUBTRACTION | FSUBTRACTION | IMULT | FMULT | IDIVIDE
  | FDIVIDE | FSQRT | FEXP | FMULTADD | MODULO | UNKNOWN_ARITH

definition arith_isCommutative :: "arith_type \<Rightarrow> bool" where
  "arith_isCommutative t = (t \<in> {IADDITION, FADDITION, IMULT, FMULT})"

definition isFP :: "arith_type \<Rightarrow> bool" where
  "isFP t = (t \<in> {FADDITION, FSUBTRACTION, FMULT, FDIVIDE, FEXP, FSQRT, FMULTADD})"

datatype bitwise_type = SHFTLFT | LSHFTRGT | ASHFTRGT | BWOR | BWAND | BWXOR | UNKNOWN_BITWISE

definition bitwise_isCommutative :: "bitwise_type \<Rightarrow> bool" where
  "bitwise_isCommutative t = (t \<in> {BWOR, BWAND, BWXOR})"

datatype compare_type = EQUAL | NOTEQUAL | UGREAT | UGREATEQ | ULESS | ULESSEQ | SGREAT | SGREATEQ
  | SLESS | SLESSEQ | UNKNOWN_COMPARE

definition compare_isCommutative :: "compare_type \<Rightarrow> bool" where
  "compare_isCommutative t = (t \<in> {EQUAL, NOTEQUAL})"

datatype branch_type = UNCONDITIONAL | CONDITIONALNEQ | CONDITIONALEQ | CONDITIONALGT | CONDITIONALLT
  | CONDITIONALGE | CONDITIONALLE | UNKNOWN_BRANCH

fun negateCondition :: "branch_type \<Rightarrow> branch_type res" where
  "negateCondition UNCONDITIONAL = Inl SysExit"
| "negateCondition CONDITIONALNEQ = Inr CONDITIONALEQ"
| "negateCondition CONDITIONALEQ = Inr CONDITIONALNEQ"
| "negateCondition CONDITIONALGT = Inr CONDITIONALLE"
| "negateCondition CONDITIONALLT = Inr CONDITIONALGE"
| "negateCondition CONDITIONALGE = Inr CONDITIONALLT"
| "negateCondition CONDITIONALLE = Inr CONDITIONALGT"
| "negateCondition UNKNOWN_BRANCH = Inl (KeyError ''UNKNOWN'')"

datatype memory_type = LOAD | LOADLOCAL | STORELOCAL | UNKNOWN_MEMORY

definition isLocal :: "memory_type \<Rightarrow> bool" where
  "isLocal t = (t \<in> {LOADLOCAL, STORELOCAL})"

section \<open>Operators of the language\<close>

datatype binary_op = PLUS_op | MINUS_op | TIMES_op | DIVIDE_op | MODULO_op | SHFTLFT_op | SHFTRGT_op
  | LESSTHAN_op | LESSEQTO_op | GREATERTHAN_op | GREATEREQTO_op | AND_op | OR_op | BWOR_op | BWAND_op
  | BWXOR_op | EQUAL_op | DIFFERENT_op | MEMORY_DEREF_op | STRUCT_ELEMENT_ACCESS_op

definition op_isCommutative :: "binary_op \<Rightarrow> bool" where
  "op_isCommutative p =
     (p \<in> {PLUS_op, TIMES_op, AND_op, OR_op, BWAND_op, BWOR_op, BWXOR_op, EQUAL_op, DIFFERENT_op})"

definition convertASTarithOp :: "binary_op \<Rightarrow> wtype \<Rightarrow> arith_type" where
  "convertASTarithOp p t =
     (let d = (if isInteger t then
                 [(PLUS_op, IADDITION), (MINUS_op, ISUBTRACTION), (TIMES_op, IMULT), (DIVIDE_op, IDIVIDE),
                  (MODULO_op, MODULO)]
               else if isFloatingPoint t then
                 [(PLUS_op, FADDITION), (MINUS_op, FSUBTRACTION), (TIMES_op, FMULT), (DIVIDE_op, FDIVIDE),
                  (MODULO_op, MODULO)]
               else if isPointer t then [(PLUS_op, IADDITION), (MINUS_op, ISUBTRACTION)] else [])
      in case map_of d p of None \<Rightarrow> UNKNOWN_ARITH | Some a \<Rightarrow> a)"

definition convertASTbitwiseOp :: "binary_op \<Rightarrow> wqual list \<Rightarrow> bitwise_type" where
  "convertASTbitwiseOp p quals =
     (let d = [(SHFTLFT_op, SHFTLFT), (BWOR_op, BWOR), (OR_op, BWOR), (BWAND_op, BWAND), (AND_op, BWAND),
               (BWXOR_op, BWXOR), (SHFTRGT_op, if signed_q \<in> set quals then ASHFTRGT else LSHFTRGT)]
      in case map_of d p of None \<Rightarrow> UNKNOWN_BITWISE | Some b \<Rightarrow> b)"

definition convertASTcompareOp :: "binary_op \<Rightarrow> wqual list \<Rightarrow> compare_type" where
  "convertASTcompareOp p quals =
     (let d = [(EQUAL_op, EQUAL), (DIFFERENT_op, NOTEQUAL)]
              @ (if signed_q \<in> set quals
                 then [(GREATERTHAN_op, SGREAT), (GREATEREQTO_op, SGREATEQ), (LESSTHAN_op, SLESS),
                       (LESSEQTO_op, SLESSEQ)]
                 else [(GREATERTHAN_op, UGREAT), (GREATEREQTO_op, UGREATEQ), (LESSTHAN_op, ULESS),
                       (LESSEQTO_op, ULESSEQ)])
      in case map_of d p of None \<Rightarrow> UNKNOWN_COMPARE | Some c \<Rightarrow> c)"

section \<open>Powers of two\<close>

text \<open>\<open>isPowerOfTwo\<close> returns \<open>x\<close> itself when it is 0, which every caller reads as false.\<close>

definition isPowerOfTwo :: "int \<Rightarrow> bool" where
  "isPowerOfTwo x = (x \<noteq> 0 \<and> x AND (x - 1) = 0)"

text \<open>\<open>int.bit_length\<close>\<close>

fun nat_bits :: "nat \<Rightarrow> nat" where
  [simp del]: "nat_bits n = (if n = 0 then 0 else Suc (nat_bits (n div 2)))"

definition bit_length :: "int \<Rightarrow> int" where
  "bit_length x = int (nat_bits (nat \<bar>x\<bar>))"

definition log2 :: "int \<Rightarrow> int" where
  "log2 x = bit_length (x AND - x) - 1"

subsection \<open>They are what their names say\<close>

lemma nat_bits_exp: "nat_bits (2 ^ k) = Suc k"
  by (induction k) (subst nat_bits.simps, simp add: nat_bits.simps [of 0])+

lemma and_minus_1_double: "(2 * x) AND (2 * x - 1) = 2 * (x AND (x - 1))" for x :: int
proof -
  have "2 * x - 1 = 2 * (x - 1) + (1 :: int)" by simp
  then have "(2 * x - 1) div 2 = x - 1" by presburger
  then show ?thesis by (subst and_int.rec) simp
qed

lemma and_minus_1_odd: "(2 * x + 1) AND (2 * x) = 2 * x" for x :: int
  by (subst and_int.rec) simp

lemma power_of_two_exp:
  assumes "0 < (x :: int)" "x AND (x - 1) = 0"
  shows "\<exists>k. x = 2 ^ k"
  using assms
proof (induction "nat x" arbitrary: x rule: less_induct)
  case less
  show ?case
  proof (cases "even x")
    case True
    then obtain y where y: "x = 2 * y" by blast
    with less.prems have "0 < y" "y AND (y - 1) = 0" by (auto simp: and_minus_1_double)
    with less.hyps [of y] y obtain k where "y = 2 ^ k" by auto
    then have "x = 2 ^ Suc k" using y by simp
    then show ?thesis ..
  next
    case False
    then obtain y where y: "x = 2 * y + 1" by (blast elim: oddE)
    with less.prems and_minus_1_odd [of y] have "x = 2 ^ 0" by simp
    then show ?thesis ..
  qed
qed

lemma and_uminus_exp: "(2 ^ k) AND - (2 ^ k) = (2 ^ k :: int)"
proof -
  have "(- (2 ^ k) :: int) = NOT (mask k)" by (simp add: mask_eq_exp_minus_1 not_int_def)
  moreover have "bit (2 ^ k AND NOT (mask k :: int)) n = bit (2 ^ k :: int) n" for n
    by (auto simp: bit_and_iff bit_not_iff bit_mask_iff bit_exp_iff)
  ultimately show ?thesis by (metis bit_eqI)
qed

lemma isPowerOfTwo_iff: "isPowerOfTwo \<bar>x :: int\<bar> \<longleftrightarrow> (\<exists>k. x = 2 ^ k \<or> x = - (2 ^ k))"
proof
  assume "isPowerOfTwo \<bar>x\<bar>"
  then have "0 < \<bar>x\<bar>" "\<bar>x\<bar> AND (\<bar>x\<bar> - 1) = 0" by (simp_all add: isPowerOfTwo_def)
  from power_of_two_exp [OF this] obtain k where "\<bar>x\<bar> = 2 ^ k" ..
  then have "x = 2 ^ k \<or> x = - (2 ^ k)" by arith
  then show "\<exists>k. x = 2 ^ k \<or> x = - (2 ^ k)" ..
next
  assume "\<exists>k. x = 2 ^ k \<or> x = - (2 ^ k)"
  then obtain k where "\<bar>x\<bar> = 2 ^ k" by auto
  moreover have "(2 ^ k) AND (2 ^ k - 1) = (0 :: int)"
    by (simp flip: mask_eq_exp_minus_1 take_bit_eq_mask)
  ultimately show "isPowerOfTwo \<bar>x\<bar>" by (simp add: isPowerOfTwo_def)
qed

lemma log2_exp [simp]: "log2 (2 ^ k) = int k" "log2 (- (2 ^ k)) = int k"
  by (simp_all add: log2_def bit_length_def and_uminus_exp and.commute [of "- (2 ^ k)"] nat_power_eq nat_bits_exp)

end
