(* ===== verification/Udw_IR.thy ===== *)
theory Udw_IR imports Udw_Types Py_Str begin

text \<open>
  \<open>src/updown/udweave/Weave/WeaveIR.py\<close>: virtual registers, declarations, immediates, the
  instructions that the optimizer rewrites, basic blocks, events and scopes. An instruction is a
  value with an identity \<open>n_id\<close>; what is shared and changed through a reference lives in a state
  \<open>wstate\<close>: the counters, the declarations with their registers and the scopes with their
  declarations. Immediates are values, and so are lists of qualifiers. File locations and
  messages are left out, and types of structures and unions keep only their kind.
\<close>

section \<open>Registers, immediates, operands\<close>

text \<open>\<open>r_decl\<close> is the position of the declaration.\<close>

record wreg =
  r_num :: int
  r_type :: wreg_type
  r_dtype :: wtype
  r_quals :: "wqual list"
  r_decl :: "nat option"
  r_temp :: bool
  r_init :: bool

record wimm =
  i_orig :: int
  i_value :: int
  i_dtype :: wtype
  i_quals :: "wqual list"
  i_loop :: bool

text \<open>\<open>OInst r\<close> is an instruction used as operand; \<open>r\<close> is its return register.\<close>

datatype opnd = OReg wreg | OImm wimm | OSym string | OInst wreg | ODecl nat

text \<open>\<open>WeaveIRregister.__eq__\<close>\<close>

definition same_reg :: "wreg \<Rightarrow> wreg \<Rightarrow> bool" where
  "same_reg a b = (r_num a = r_num b \<and> r_type a = r_type b)"

definition reg_name :: "wreg \<Rightarrow> string" where
  "reg_name r = (if r_type r = opbuff then ''%ob_'' @ py_str (r_num r) else ''%'' @ py_str (r_num r))"

definition isSigned :: "wqual list \<Rightarrow> bool" where
  "isSigned quals = (signed_q \<in> set quals)"

definition addQualifier :: "wqual \<Rightarrow> wqual list \<Rightarrow> wqual list" where
  "addQualifier q quals =
     (let quals = (if q = unsigned_q then remove1 signed_q quals
                   else if q = signed_q then remove1 unsigned_q quals else quals)
      in if q \<in> set quals then quals else quals @ [q])"

subsection \<open>Immediates\<close>

text \<open>
  \<open>setValue\<close> for a type that is not a floating-point type: the value that \<open>getValue\<close> reads back
  from the packed bytes.
\<close>

definition in_range :: "int \<Rightarrow> int \<Rightarrow> int \<Rightarrow> int res" where
  "in_range lo hi v = (if lo \<le> v \<and> v < hi then Inr v else Inl SysExit)"

definition packed_value :: "wtype \<Rightarrow> bool \<Rightarrow> int \<Rightarrow> int res" where
  "packed_value t sgd v =
     (if t = i32 then
        (if sgd then in_range (- (2 ^ 31)) (2 ^ 31) v
         else in_range 0 (2 ^ 32) (if v = -1 then 0xffffffff else v))
      else if t = i64 then
        (if sgd then in_range (- (2 ^ 63)) (2 ^ 63) v
         else in_range 0 (2 ^ 64) (if v < 0 then 0x10000000000000000 + v else v))
      else Inr v)"

definition setValue :: "int \<Rightarrow> wimm \<Rightarrow> wimm res" where
  "setValue v m = rmap (\<lambda>x. m\<lparr>i_orig := v, i_value := x\<rparr>) (packed_value (i_dtype m) (isSigned (i_quals m)) v)"

definition inferQuals :: "int \<Rightarrow> wqual list" where
  "inferQuals v = addQualifier (if v < 0 then signed_q else unsigned_q) []"

definition inferType :: "int \<Rightarrow> wtype" where
  "inferType v = (if drop_bit 32 v = 0 then i32 else i64)"

text \<open>
  \<open>WeaveIRimmediate\<close> for an integer; an optimization never runs while a declaration is the
  instruction of the context, so type and qualifiers are inferred from the value.
\<close>

definition immediate :: "int \<Rightarrow> wtype option \<Rightarrow> wqual list \<Rightarrow> wimm res" where
  "immediate v t quals =
     setValue v \<lparr>i_orig = v, i_value = v, i_dtype = (case t of None \<Rightarrow> inferType v | Some t \<Rightarrow> t),
                 i_quals = (if quals = [] then inferQuals v else quals), i_loop = False\<rparr>"

section \<open>Instructions\<close>

text \<open>The scopes of the context, innermost first, and the names that a declaration must not take.\<close>

record wctx =
  c_scopes :: "nat list"
  c_params :: "string list"
  c_events :: "string list"

datatype arith_or_bitwise = ArithOp arith_type | BitwiseOp bitwise_type

text \<open>
  \<open>Compare\<close> has the branch that it may be merged with, \<open>Branch\<close> the name of the block it goes to,
  \<open>ShiftArith\<close> the kinds of its two instructions and the right operand of the second.
\<close>

datatype wclass =
    Arith arith_type
  | Bitwise bitwise_type
  | Compare compare_type "nat option"
  | Branch branch_type nat
  | Memory memory_type
  | ShiftArith bitwise_type arith_or_bitwise "opnd option"
  | Phi nat
  | Comment
  | Other string

record winst =
  n_id :: nat
  n_class :: wclass
  n_dtype :: wtype
  n_quals :: "wqual list"
  n_ops :: "opnd option list"
  n_ret :: "wreg option"
  n_ctx :: wctx

text \<open>\<open>WeaveIRbinaryOps\<close> is the base of five classes.\<close>

fun isBinaryOps :: "wclass \<Rightarrow> bool" where
  "isBinaryOps (Arith _) = True"
| "isBinaryOps (Bitwise _) = True"
| "isBinaryOps (Compare _ _) = True"
| "isBinaryOps (Branch _ _) = True"
| "isBinaryOps (ShiftArith _ _ _) = True"
| "isBinaryOps _ = False"

text \<open>\<open>left\<close> and \<open>right\<close>: an instruction stands for its return register.\<close>

fun as_operand :: "opnd option \<Rightarrow> opnd option" where
  "as_operand (Some (OInst r)) = Some (OReg r)"
| "as_operand x = x"

definition left_op :: "winst \<Rightarrow> opnd option" where
  "left_op i = as_operand (n_ops i ! 0)"

definition right_op :: "winst \<Rightarrow> opnd option" where
  "right_op i = as_operand (n_ops i ! 1)"

fun opnd_quals :: "opnd \<Rightarrow> wqual list" where
  "opnd_quals (OReg r) = r_quals r"
| "opnd_quals (OInst r) = r_quals r"
| "opnd_quals (OImm m) = i_quals m"
| "opnd_quals _ = []"

fun opnd_dtype :: "opnd \<Rightarrow> wtype" where
  "opnd_dtype (OReg r) = r_dtype r"
| "opnd_dtype (OInst r) = r_dtype r"
| "opnd_dtype (OImm m) = i_dtype m"
| "opnd_dtype (OSym _) = ptr_t"
| "opnd_dtype (ODecl _) = unknown_t"

definition sign_qual :: "opnd \<Rightarrow> wqual" where
  "sign_qual x = (if isSigned (opnd_quals x) then signed_q else unsigned_q)"

definition setQualifierBasedOnOperands :: "winst \<Rightarrow> winst" where
  "setQualifierBasedOnOperands i =
     (let q = (case (left_op i, right_op i) of
                 (Some l, Some r) \<Rightarrow>
                   addQualifier (if sign_qual l = signed_q \<or> sign_qual r = signed_q then signed_q
                                 else unsigned_q) (n_quals i)
               | (None, Some r) \<Rightarrow> addQualifier (sign_qual r) (n_quals i)
               | (Some l, None) \<Rightarrow> addQualifier (sign_qual l) (n_quals i)
               | (None, None) \<Rightarrow> remove1 unsigned_q (remove1 signed_q (n_quals i)))
      in i\<lparr>n_quals := (if (case left_op i of None \<Rightarrow> False | Some l \<Rightarrow> spmem_q \<in> set (opnd_quals l))
                         \<or> (case right_op i of None \<Rightarrow> False | Some r \<Rightarrow> spmem_q \<in> set (opnd_quals r))
                      then addQualifier spmem_q q else q)\<rparr>)"

text \<open>The type of a branch follows its operands.\<close>

definition branch_type_of :: "winst \<Rightarrow> wtype res" where
  "branch_type_of i =
     (case (left_op i, right_op i) of
        (Some l, Some r) \<Rightarrow>
          rbind (getSize (opnd_dtype l)) (\<lambda>a. rbind (getSize (opnd_dtype r)) (\<lambda>b.
            Inr (if isInteger (opnd_dtype l) \<and> isInteger (opnd_dtype r)
                 then (if max a b \<le> 4 then i32 else i64)
                 else if isFloatingPoint (opnd_dtype l) \<and> isFloatingPoint (opnd_dtype r)
                 then (if max a b \<le> 4 then float_t else double_t) else n_dtype i)))
      | (Some l, None) \<Rightarrow> Inr (opnd_dtype l)
      | (None, Some r) \<Rightarrow> Inr (opnd_dtype r)
      | (None, None) \<Rightarrow> Inr (n_dtype i))"

definition set_op :: "nat \<Rightarrow> opnd option \<Rightarrow> winst \<Rightarrow> winst res" where
  "set_op k x i =
     (let i = setQualifierBasedOnOperands (i\<lparr>n_ops := (n_ops i)[k := x]\<rparr>)
      in case n_class i of
           Branch _ _ \<Rightarrow> rmap (\<lambda>t. i\<lparr>n_dtype := t\<rparr>) (branch_type_of i)
         | _ \<Rightarrow> Inr i)"

definition setLeft :: "opnd option \<Rightarrow> winst \<Rightarrow> winst res" where
  "setLeft = set_op 0"

definition setRight :: "opnd option \<Rightarrow> winst \<Rightarrow> winst res" where
  "setRight = set_op 1"

definition getValueToStore :: "winst \<Rightarrow> opnd option" where
  "getValueToStore i =
     (if n_class i \<in> {Memory STORELOCAL, Memory LOAD} then n_ops i ! 6 else None)"

text \<open>\<open>getInOps\<close>; a phi node has the registers of its declaration, which are in the state.\<close>

definition getInOps :: "winst \<Rightarrow> opnd option list" where
  "getInOps i =
     (case n_class i of
        Memory t \<Rightarrow>
          (let loc = isLocal t
           in [if loc then n_ops i ! 0 else None, if loc then n_ops i ! 1 else None,
               if loc then n_ops i ! 2 else None, if loc then n_ops i ! 3 else None,
               n_ops i ! 4, if loc \<and> t = LOADLOCAL then n_ops i ! 5 else None, getValueToStore i,
               if t = LOAD then map_option OReg (n_ret i) else None])
      | _ \<Rightarrow> n_ops i)"

definition isInstruction :: "winst \<Rightarrow> bool" where
  "isInstruction i = (n_class i \<noteq> Comment)"

section \<open>Declarations and scopes\<close>

record wdecl =
  d_name :: string
  d_dtype :: wtype
  d_quals :: "wqual list"
  d_regs :: "wreg list"
  d_init :: bool
  d_temp :: bool

text \<open>
  \<open>w_reg\<close> is \<open>WeaveIRscope.cur_reg_number\<close>, \<open>w_inst\<close> the next identity of an instruction,
  \<open>w_scopes\<close> the declarations of every scope, \<open>w_globals\<close> the names declared in the program,
  \<open>w_branches\<close> the branches that compare instructions point to.
\<close>

record wstate =
  w_reg :: int
  w_inst :: nat
  w_decls :: "wdecl list"
  w_scopes :: "nat list list"
  w_globals :: "string list"
  w_branches :: "winst list"

definition curReg :: "wdecl \<Rightarrow> wreg option" where
  "curReg d = (if d_regs d = [] then None else Some (last (d_regs d)))"

text \<open>\<open>WeaveIRDecl.addReg\<close> on a register without an unknown type\<close>

definition addReg :: "nat \<Rightarrow> wreg \<Rightarrow> wstate \<Rightarrow> wstate" where
  "addReg d r w =
     (let x = w_decls w ! d
      in if (\<exists>s\<in>set (d_regs x). same_reg s r) then w
         else let r = (if r_dtype r = unknown_t then r\<lparr>r_dtype := d_dtype x, r_quals := d_quals x\<rparr> else r)
              in w\<lparr>w_decls := (w_decls w)[d := x\<lparr>d_regs := d_regs x @ [r\<lparr>r_init := d_init x, r_decl := Some d\<rparr>]\<rparr>]\<rparr>)"

text \<open>\<open>getTempRegister\<close>: the new register is the current one of the declaration.\<close>

definition temp_register :: "int \<Rightarrow> nat \<Rightarrow> wdecl \<Rightarrow> wreg" where
  "temp_register n d x =
     \<lparr>r_num = n, r_type = gpr, r_dtype = d_dtype x, r_quals = d_quals x, r_decl = Some d, r_temp = True,
      r_init = d_init x\<rparr>"

definition getTempRegister :: "nat \<Rightarrow> wstate \<Rightarrow> wreg \<times> wstate" where
  "getTempRegister d w =
     (let n = w_reg w + 1; r = temp_register n d (w_decls w ! d)
      in (r, addReg d r (w\<lparr>w_reg := n\<rparr>)))"

definition declExists :: "wctx \<Rightarrow> string \<Rightarrow> wstate \<Rightarrow> bool" where
  "declExists c name w =
     ((\<exists>s\<in>set (c_scopes c). \<exists>d\<in>set (w_scopes w ! s). d_name (w_decls w ! d) = name)
      \<or> name \<in> set (c_params c) \<or> name \<in> set (w_globals w))"

definition addDeclaration :: "wctx \<Rightarrow> nat \<Rightarrow> wstate \<Rightarrow> wstate res" where
  "addDeclaration c d w =
     (let name = d_name (w_decls w ! d); s = hd (c_scopes c)
      in if name \<in> set (c_events c) \<or> declExists c name w then Inl SysExit
         else Inr (w\<lparr>w_scopes := (w_scopes w)[s := w_scopes w ! s @ [d]]\<rparr>))"

definition getTempDeclaration :: "wctx \<Rightarrow> wtype \<Rightarrow> wqual list \<Rightarrow> wstate \<Rightarrow> (nat \<times> wstate) res" where
  "getTempDeclaration c t quals w =
     rbind (getSize t) (\<lambda>_.
       let n = w_reg w + 1; d = length (w_decls w);
           x = \<lparr>d_name = ''__temp_'' @ py_str n, d_dtype = t,
                d_quals = (if quals = [] then [signed_q] else quals), d_regs = [], d_init = True, d_temp = True\<rparr>
       in rbind (addDeclaration c d (w\<lparr>w_reg := n, w_decls := w_decls w @ [x]\<rparr>)) (\<lambda>w.
            Inr (d, snd (getTempRegister d w))))"

text \<open>\<open>declLookup\<close>, for registers of declarations that are no structures\<close>

fun declLookup_in :: "nat list \<Rightarrow> wreg \<Rightarrow> wstate \<Rightarrow> nat option" where
  "declLookup_in [] r w = None"
| "declLookup_in (s # ss) r w =
     (case find (\<lambda>d. \<exists>q\<in>set (d_regs (w_decls w ! d)). same_reg q r) (w_scopes w ! s) of
        Some d \<Rightarrow> Some d | None \<Rightarrow> declLookup_in ss r w)"

definition declLookup :: "wctx \<Rightarrow> wreg option \<Rightarrow> wstate \<Rightarrow> nat option" where
  "declLookup c r w = (case r of None \<Rightarrow> None | Some r \<Rightarrow> declLookup_in (c_scopes c) r w)"

section \<open>New instructions\<close>

definition new_inst :: "wclass \<Rightarrow> wtype \<Rightarrow> opnd option list \<Rightarrow> wctx \<Rightarrow> wstate \<Rightarrow> winst \<times> wstate" where
  "new_inst k t ops c w =
     (\<lparr>n_id = w_inst w, n_class = k, n_dtype = t, n_quals = [], n_ops = ops, n_ret = None, n_ctx = c\<rparr>,
      w\<lparr>w_inst := w_inst w + 1\<rparr>)"

text \<open>\<open>WeaveIRarith\<close> and \<open>WeaveIRbitwise\<close>, with the return register that is set next\<close>

definition binary_inst ::
  "wclass \<Rightarrow> wtype \<Rightarrow> opnd option \<Rightarrow> opnd option \<Rightarrow> wreg option \<Rightarrow> wctx \<Rightarrow> wstate \<Rightarrow> (winst \<times> wstate) res" where
  "binary_inst k t l r ret c w =
     (let (i, w) = new_inst k t [None, None] c w
      in rbind (setLeft l i) (\<lambda>i. rbind (setRight r i) (\<lambda>i. Inr (i\<lparr>n_ret := ret\<rparr>, w))))"

text \<open>\<open>WeaveIRmemory\<close> with one operand, a move to a register\<close>

definition load_inst :: "wtype \<Rightarrow> opnd option \<Rightarrow> wreg option \<Rightarrow> wctx \<Rightarrow> wstate \<Rightarrow> winst \<times> wstate" where
  "load_inst t x ret c w =
     (let (i, w) = new_inst (Memory LOAD) t (replicate 6 None @ [x]) c w in (i\<lparr>n_ret := ret\<rparr>, w))"

section \<open>Basic blocks and events\<close>

record wblock =
  b_name :: string
  b_insts :: "winst list"
  b_out :: "nat list"
  b_in :: "nat list"
  b_refs :: "nat list"

text \<open>
  The basic blocks of an event are named by their place in \<open>e_table\<close>; \<open>e_blocks\<close> is their order.
\<close>

record wevent =
  e_name :: string
  e_scopes :: "nat list"
  e_table :: "wblock list"
  e_blocks :: "nat list"
  e_labels :: int

definition block :: "wevent \<Rightarrow> nat \<Rightarrow> wblock" where
  "block e b = e_table e ! b"

definition upd_block :: "nat \<Rightarrow> (wblock \<Rightarrow> wblock) \<Rightarrow> wevent \<Rightarrow> wevent" where
  "upd_block b f e = e\<lparr>e_table := (e_table e)[b := f (e_table e ! b)]\<rparr>"

definition event_insts :: "wevent \<Rightarrow> winst list" where
  "event_insts e = concat (map (\<lambda>b. b_insts (block e b)) (e_blocks e))"

text \<open>\<open>getUses\<close> of an event, and of a scope, which sees the events that lie in it\<close>

definition inst_uses :: "wreg \<Rightarrow> winst \<Rightarrow> winst list" where
  "inst_uses r i =
     (if isInstruction i
      then concat (map (\<lambda>x. case x of Some (OReg q) \<Rightarrow> (if same_reg q r then [i] else []) | _ \<Rightarrow> []) (getInOps i))
      else [])"

definition event_getUses :: "wevent \<Rightarrow> wreg \<Rightarrow> winst list" where
  "event_getUses e r = concat (map (inst_uses r) (event_insts e))"

definition scope_getUses :: "wctx \<Rightarrow> wevent list \<Rightarrow> wreg \<Rightarrow> winst list" where
  "scope_getUses c es r =
     concat (map (\<lambda>e. event_getUses e r) (filter (\<lambda>e. hd (c_scopes c) \<in> set (e_scopes e)) es))"

end
