(* ===== verification/Udw_Gen.thy ===== *)
theory Udw_Gen imports Udw_IR begin

text \<open>
  \<open>src/updown/udweave/backend/pythonGen.py\<close>: the assembly actions of the instructions of the
  intermediate representation. \<open>alloc\<close> is \<open>getAllocation\<close>, the physical register of a virtual
  one, \<open>temp\<close> the scratch registers of \<open>getTempReg\<close>, \<open>label\<close> the name of a basic block. An action is
  kept as its opcode and operands; \<open>create_inst_format\<close> is its text.
\<close>

section \<open>Actions\<close>

datatype gop = GReg string | GImm int | GSym string

type_synonym action = "string \<times> gop list"

fun gop_text :: "gop \<Rightarrow> string" where
  "gop_text (GReg r) = r"
| "gop_text (GImm v) = py_str v"
| "gop_text (GSym s) = s"

fun sep_text :: "string \<Rightarrow> string list \<Rightarrow> string" where
  "sep_text d [] = []"
| "sep_text d [s] = s"
| "sep_text d (s # ss) = s @ d @ sep_text d ss"

definition create_inst_format :: "action \<Rightarrow> string" where
  "create_inst_format a = fst a @ '' '' @ sep_text '' '' (map gop_text (snd a))"

section \<open>Operands\<close>

datatype ops_type = REG_IMM | REG_REG

fun op_alloc :: "(wreg \<Rightarrow> string) \<Rightarrow> opnd option \<Rightarrow> gop res" where
  "op_alloc alloc (Some (OReg r)) = Inr (GReg (alloc r))"
| "op_alloc alloc _ = Inl AttributeError"

text \<open>The name of an immediate or a symbol\<close>

fun const_name :: "opnd option \<Rightarrow> gop option" where
  "const_name (Some (OImm m)) = Some (GImm (i_value m))"
| "const_name (Some (OSym s)) = Some (GSym s)"
| "const_name _ = None"

fun is_immediate :: "opnd option \<Rightarrow> bool" where
  "is_immediate (Some (OImm _)) = True"
| "is_immediate _ = False"

definition ret_ops :: "(wreg \<Rightarrow> string) \<Rightarrow> winst \<Rightarrow> gop list" where
  "ret_ops alloc i = (case n_ret i of None \<Rightarrow> [] | Some r \<Rightarrow> [GReg (alloc r)])"

definition get_ops_binaryInst :: "(wreg \<Rightarrow> string) \<Rightarrow> winst \<Rightarrow> (gop list \<times> ops_type) res" where
  "get_ops_binaryInst alloc i =
     (let l = left_op i; r = right_op i
      in if is_immediate l \<and> is_immediate r then Inl SysExit
         else case const_name l of
           Some c \<Rightarrow> rmap (\<lambda>x. (x # ret_ops alloc i @ [c], REG_IMM)) (op_alloc alloc r)
         | None \<Rightarrow>
             (case const_name r of
                Some c \<Rightarrow> rmap (\<lambda>x. (x # ret_ops alloc i @ [c], REG_IMM)) (op_alloc alloc l)
              | None \<Rightarrow>
                  rbind (op_alloc alloc l) (\<lambda>x.
                    rbind (case r of None \<Rightarrow> Inr [] | Some _ \<Rightarrow> rmap (\<lambda>y. [y]) (op_alloc alloc r)) (\<lambda>ys.
                      Inr (x # ys @ ret_ops alloc i, REG_REG)))))"

section \<open>Arithmetic and bitwise instructions\<close>

text \<open>The opcode with an immediate and the one with two registers; \<open>None\<close> stops the program.\<close>

fun arith_opcode :: "arith_type \<Rightarrow> ops_type \<Rightarrow> string res" where
  "arith_opcode IADDITION t = Inr (if t = REG_IMM then ''addi'' else ''add'')"
| "arith_opcode ISUBTRACTION t = Inr (if t = REG_IMM then ''subi'' else ''sub'')"
| "arith_opcode IMULT t = Inr (if t = REG_IMM then ''muli'' else ''mul'')"
| "arith_opcode IDIVIDE t = Inr (if t = REG_IMM then ''divi'' else ''div'')"
| "arith_opcode MODULO t = Inr (if t = REG_IMM then ''modi'' else ''mod'')"
| "arith_opcode FADDITION t = (if t = REG_IMM then Inl SysExit else Inr ''fadd'')"
| "arith_opcode FSUBTRACTION t = (if t = REG_IMM then Inl SysExit else Inr ''fsub'')"
| "arith_opcode FMULT t = (if t = REG_IMM then Inl SysExit else Inr ''fmul'')"
| "arith_opcode FDIVIDE t = (if t = REG_IMM then Inl SysExit else Inr ''fdiv'')"
| "arith_opcode FMULTADD t = (if t = REG_IMM then Inl SysExit else Inr ''fmadd'')"
| "arith_opcode FSQRT t = (if t = REG_IMM then Inl SysExit else Inr ''fsqrt'')"
| "arith_opcode FEXP t = (if t = REG_IMM then Inl SysExit else Inr ''fexp'')"
| "arith_opcode UNKNOWN_ARITH t = Inl SysExit"

definition translate_arith :: "(wreg \<Rightarrow> string) \<Rightarrow> arith_type \<Rightarrow> winst \<Rightarrow> action list res" where
  "translate_arith alloc k i =
     rbind (get_ops_binaryInst alloc i) (\<lambda>(ops, t). rbind (arith_opcode k t) (\<lambda>opc.
       Inr [(if isFP k then opc @ ''.'' @ mapToInstrName (n_dtype i) else opc, ops)]))"

fun bitwise_opcode :: "bitwise_type \<Rightarrow> ops_type \<Rightarrow> string res" where
  "bitwise_opcode SHFTLFT t = Inr (if t = REG_IMM then ''sli'' else ''sl'')"
| "bitwise_opcode LSHFTRGT t = Inr (if t = REG_IMM then ''sri'' else ''sr'')"
| "bitwise_opcode ASHFTRGT t = Inr (if t = REG_IMM then ''sari'' else ''sar'')"
| "bitwise_opcode BWOR t = Inr (if t = REG_IMM then ''ori'' else ''or'')"
| "bitwise_opcode BWAND t = Inr (if t = REG_IMM then ''andi'' else ''and'')"
| "bitwise_opcode BWXOR t = Inr (if t = REG_IMM then ''xori'' else ''xor'')"
| "bitwise_opcode UNKNOWN_BITWISE t = Inl SysExit"

definition translate_bitwise :: "(wreg \<Rightarrow> string) \<Rightarrow> bitwise_type \<Rightarrow> winst \<Rightarrow> action list res" where
  "translate_bitwise alloc k i =
     rbind (get_ops_binaryInst alloc i) (\<lambda>(ops, t). rbind (bitwise_opcode k t) (\<lambda>opc. Inr [(opc, ops)]))"

definition combined_opcode :: "bitwise_type \<Rightarrow> arith_or_bitwise \<Rightarrow> opnd option \<Rightarrow> string res" where
  "combined_opcode b k x =
     rbind (if b = SHFTLFT then Inr ''sl'' else if b = LSHFTRGT then Inr ''sr'' else Inl SysExit) (\<lambda>s.
     rbind (if k = BitwiseOp BWOR then Inr (if is_immediate x then ''orii'' else ''ori'')
            else if k = BitwiseOp BWAND then Inr (if is_immediate x then ''andii'' else ''andi'')
            else if k = ArithOp IADDITION then Inr ''addii''
            else if k = ArithOp ISUBTRACTION then Inr ''subii'' else Inl SysExit) (\<lambda>t. Inr (s @ t)))"

fun imm_or_alloc :: "(wreg \<Rightarrow> string) \<Rightarrow> opnd option \<Rightarrow> gop res" where
  "imm_or_alloc alloc (Some (OImm m)) = Inr (GImm (i_value m))"
| "imm_or_alloc alloc x = op_alloc alloc x"

definition translate_combined ::
  "(wreg \<Rightarrow> string) \<Rightarrow> bitwise_type \<Rightarrow> arith_or_bitwise \<Rightarrow> opnd option \<Rightarrow> winst \<Rightarrow> action list res" where
  "translate_combined alloc b k x i =
     rbind (combined_opcode b k x) (\<lambda>opc.
     rbind (seq_res (map (imm_or_alloc alloc) (getInOps i))) (\<lambda>ops.
     case n_ret i of
       None \<Rightarrow> Inl AttributeError
     | Some r \<Rightarrow> Inr [(opc, take 1 ops @ GReg (alloc r) # drop 1 ops)]))"

section \<open>Branches\<close>

text \<open>The ISA has no branch on two registers for less and for greater or equal: they are swapped.\<close>

definition branch_opcode :: "branch_type \<Rightarrow> ops_type \<Rightarrow> gop list \<Rightarrow> (string \<times> gop list) res" where
  "branch_opcode k t ops =
     (case k of
        CONDITIONALEQ \<Rightarrow> Inr (if t = REG_IMM then ''beqi'' else ''beq'', ops)
      | CONDITIONALNEQ \<Rightarrow> Inr (if t = REG_IMM then ''bnei'' else ''bne'', ops)
      | CONDITIONALLT \<Rightarrow> Inr (if t = REG_IMM then (''blti'', ops) else (''bgt'', [ops ! 1, ops ! 0]))
      | CONDITIONALGT \<Rightarrow> Inr (if t = REG_IMM then ''bgti'' else ''bgt'', ops)
      | CONDITIONALGE \<Rightarrow> Inr (if t = REG_IMM then (''bgei'', ops) else (''ble'', [ops ! 1, ops ! 0]))
      | CONDITIONALLE \<Rightarrow> Inr (if t = REG_IMM then ''blei'' else ''ble'', ops)
      | _ \<Rightarrow> Inl SysExit)"

definition translate_condition ::
  "(wreg \<Rightarrow> string) \<Rightarrow> branch_type \<Rightarrow> string \<Rightarrow> winst \<Rightarrow> action list res" where
  "translate_condition alloc k target i =
     rbind (get_ops_binaryInst alloc i) (\<lambda>(ops, t). rbind (branch_opcode k t ops) (\<lambda>(opc, ops).
       Inr [(if isSigned (n_quals i) then opc else opc @ ''u'', ops @ [GSym target])]))"

text \<open>
  Floating-point values are subtracted, and the difference is compared to 0. Without a temporary
  register among the operands the scratch register is already a string, which has no name.
\<close>

definition fp_temp :: "winst \<Rightarrow> wreg option" where
  "fp_temp i =
     (case (left_op i, right_op i) of
        (_, Some (OReg r)) \<Rightarrow> if r_temp r then Some r else
          (case left_op i of Some (OReg l) \<Rightarrow> if r_temp l then Some l else None | _ \<Rightarrow> None)
      | (Some (OReg l), _) \<Rightarrow> if r_temp l then Some l else None
      | _ \<Rightarrow> None)"

definition fp_operand ::
  "(wreg \<Rightarrow> string) \<Rightarrow> (nat \<Rightarrow> string) \<Rightarrow> wreg option \<Rightarrow> opnd option \<Rightarrow> (action list \<times> gop) res" where
  "fp_operand alloc temp t x =
     (case x of
        Some (OImm m) \<Rightarrow>
          (if t = None then Inl AttributeError
           else Inr ([(''movir'', [GReg (temp 1), GImm (i_value m)])], GReg (temp 1)))
      | _ \<Rightarrow> rmap (Pair []) (op_alloc alloc x))"

definition translate_fp_branch ::
  "(wreg \<Rightarrow> string) \<Rightarrow> (nat \<Rightarrow> string) \<Rightarrow> branch_type \<Rightarrow> string \<Rightarrow> winst \<Rightarrow> action list res" where
  "translate_fp_branch alloc temp k target i =
     (let t = fp_temp i; tr = (case t of None \<Rightarrow> temp 0 | Some r \<Rightarrow> alloc r)
      in rbind (fp_operand alloc temp t (left_op i)) (\<lambda>(as, l).
         rbind (fp_operand alloc temp t (right_op i)) (\<lambda>(bs, r).
         case (left_op i, right_op i) of
           (Some (OReg q), Some x) \<Rightarrow>
             rbind (immediate 0 (Some (opnd_dtype x)) []) (\<lambda>zero.
             rbind (setRight (Some (OImm zero)) i) (\<lambda>i.
             rbind (translate_condition (alloc(q := tr)) k target i) (\<lambda>bra.
             Inr (as @ bs @ (if n_dtype i = float_t then ''fsub.32'' else ''fsub.64'', [l, r, GReg tr]) # bra))))
         | _ \<Rightarrow> Inl AttributeError)))"

definition translate_branch ::
  "(wreg \<Rightarrow> string) \<Rightarrow> (nat \<Rightarrow> string) \<Rightarrow> branch_type \<Rightarrow> string \<Rightarrow> winst \<Rightarrow> action list res" where
  "translate_branch alloc temp k target i =
     (if k = UNCONDITIONAL then Inr [(''jmp'', [GSym target])]
      else if n_dtype i \<in> {float_t, double_t}
              \<and> \<not> (case right_op i of Some (OImm m) \<Rightarrow> i_value m = 0 | _ \<Rightarrow> False)
      then translate_fp_branch alloc temp k target i
      else translate_condition alloc k target i)"

section \<open>Comparisons\<close>

definition compare_opcode :: "compare_type \<Rightarrow> ops_type \<Rightarrow> string" where
  "compare_opcode k t =
     (if k \<in> {EQUAL, NOTEQUAL} then (if t = REG_IMM then ''ceqi'' else ''ceq'')
      else if k \<in> {UGREAT, ULESSEQ, SGREAT, SLESSEQ} then (if t = REG_IMM then ''cgti'' else ''cgt'')
      else if k \<in> {ULESS, UGREATEQ, SLESS, SGREATEQ} then (if t = REG_IMM then ''clti'' else ''clt'')
      else '''')"

definition negated_compare :: "compare_type \<Rightarrow> bool" where
  "negated_compare k = (k \<in> {UGREATEQ, ULESSEQ, SGREATEQ, SLESSEQ, NOTEQUAL})"

definition translate_compare :: "(wreg \<Rightarrow> string) \<Rightarrow> compare_type \<Rightarrow> winst \<Rightarrow> action list res" where
  "translate_compare alloc k i =
     rbind (get_ops_binaryInst alloc i) (\<lambda>(ops, t).
     case (left_op i, right_op i) of
       (Some l, Some r) \<Rightarrow>
         if \<not> (isInteger (opnd_dtype l) \<and> isInteger (opnd_dtype r)
               \<or> isPointer (opnd_dtype l) \<and> isPointer (opnd_dtype r)) then Inl SysExit
         else if negated_compare k then
           (case n_ret i of
              None \<Rightarrow> Inl AttributeError
            | Some d \<Rightarrow> Inr [(compare_opcode k t, ops), (''xori'', [GReg (alloc d), GReg (alloc d), GImm 1])])
         else Inr [(compare_opcode k t, ops)]
     | _ \<Rightarrow> Inl AttributeError)"

section \<open>Moves\<close>

definition translate_load :: "(wreg \<Rightarrow> string) \<Rightarrow> winst \<Rightarrow> action list res" where
  "translate_load alloc i =
     (case n_ret i of
        None \<Rightarrow> Inl AttributeError
      | Some d \<Rightarrow>
          (case const_name (getValueToStore i) of
             Some c \<Rightarrow> Inr [(''movir'', [GReg (alloc d), c])]
           | None \<Rightarrow> rmap (\<lambda>x. [(''addi'', [x, GReg (alloc d), GImm 0])]) (op_alloc alloc (getValueToStore i))))"

section \<open>Translation\<close>

text \<open>The classes of instruction that the optimizer produces; the others are not translated here.\<close>

definition instructionTranslate ::
  "(wreg \<Rightarrow> string) \<Rightarrow> (nat \<Rightarrow> string) \<Rightarrow> (nat \<Rightarrow> string) \<Rightarrow> winst \<Rightarrow> action list res" where
  "instructionTranslate alloc temp label i =
     (case n_class i of
        Memory LOAD \<Rightarrow> translate_load alloc i
      | Arith k \<Rightarrow> translate_arith alloc k i
      | Bitwise k \<Rightarrow> translate_bitwise alloc k i
      | ShiftArith b k x \<Rightarrow> translate_combined alloc b k x i
      | Branch k b \<Rightarrow> translate_branch alloc temp k (label b) i
      | Compare k _ \<Rightarrow> translate_compare alloc k i
      | Phi _ \<Rightarrow> Inl SysExit
      | _ \<Rightarrow> Inr [])"

end
