(* ===== verification/Udw_Isa.thy ===== *)
theory Udw_Isa imports Udw_Gen Asm_Bits "HOL-Library.Signed_Division" begin

text \<open>
  What the actions of the compiler do: the integer and bitwise instructions of the UpDown machine
  (\<open>src/updown/udbasim/isa/src/int_arith_inst.cpp\<close>, \<open>bitwise_inst.cpp\<close>, \<open>int_cmp_inst.cpp\<close>,
  \<open>ctrl_flow_inst.cpp\<close>, \<open>dat_mov_inst.cpp\<close>) on 64-bit registers. An immediate is what the simulator
  reads from the field that the assembler makes of it, so the range and the sign of every field are
  those of the two programs.
\<close>

section \<open>Immediate fields\<close>

text \<open>Sign extension of 16 and 21 bits, zero extension of 16, the six bits of a shift\<close>

definition simm16 :: "int \<Rightarrow> 64 word res" where
  "simm16 v = rmap (\<lambda>s. word_of_int (signed_val s)) (encode_immediate16 v)"

definition uimm16 :: "int \<Rightarrow> 64 word res" where
  "uimm16 v = rmap (\<lambda>s. word_of_int (unsigned_val s)) (encode_immediate16 v)"

definition simm21 :: "int \<Rightarrow> 64 word res" where
  "simm21 v = rmap (\<lambda>s. word_of_int (signed_val s)) (encode_immediate_LI v)"

definition shift6 :: "int \<Rightarrow> nat res" where
  "shift6 v = rmap (\<lambda>s. nat (unsigned_val s mod 64)) (encode_immediate16 v)"

text \<open>Branches have five bits, shifts with a second operation four and twelve.\<close>

definition simm5 :: "int \<Rightarrow> int res" where
  "simm5 v = rmap signed_val (encode_immediate5 v)"

definition uimm5 :: "int \<Rightarrow> int res" where
  "uimm5 v = rmap unsigned_val (encode_immediate5 v)"

definition shift4 :: "int \<Rightarrow> nat res" where
  "shift4 v = rmap (\<lambda>s. nat (unsigned_val s)) (encode_immediate4 v)"

definition uimm12 :: "int \<Rightarrow> 64 word res" where
  "uimm12 v = rmap (\<lambda>s. word_of_int (unsigned_val s)) (encode_immediate12 v)"

section \<open>Instructions\<close>

text \<open>Division truncates; a divisor of 0 ends the simulation.\<close>

definition div64 :: "64 word \<Rightarrow> 64 word \<Rightarrow> 64 word res" where
  "div64 x y = (if y = 0 then Inl SysExit else Inr (word_of_int (sint x sdiv sint y)))"

definition mod64 :: "64 word \<Rightarrow> 64 word \<Rightarrow> 64 word res" where
  "mod64 x y = (if y = 0 then Inl SysExit else Inr (word_of_int (sint x smod sint y)))"

definition bool64 :: "bool \<Rightarrow> 64 word" where
  "bool64 b = (if b then 1 else 0)"

definition exec_imm :: "string \<Rightarrow> 64 word \<Rightarrow> int \<Rightarrow> 64 word res" where
  "exec_imm opc x v =
     (if opc = ''addi'' then rmap (\<lambda>y. x + y) (simm16 v)
      else if opc = ''subi'' then rmap (\<lambda>y. x - y) (simm16 v)
      else if opc = ''muli'' then rmap (\<lambda>y. x * y) (simm16 v)
      else if opc = ''divi'' then rbind (simm16 v) (div64 x)
      else if opc = ''modi'' then rbind (simm16 v) (mod64 x)
      else if opc = ''clti'' then rmap (\<lambda>y. bool64 (sint x < sint y)) (simm16 v)
      else if opc = ''cgti'' then rmap (\<lambda>y. bool64 (sint y < sint x)) (simm16 v)
      else if opc = ''ceqi'' then rmap (\<lambda>y. bool64 (x = y)) (simm16 v)
      else if opc = ''andi'' then rmap (\<lambda>y. x AND y) (uimm16 v)
      else if opc = ''ori'' then rmap (\<lambda>y. x OR y) (uimm16 v)
      else if opc = ''xori'' then rmap (\<lambda>y. x XOR y) (uimm16 v)
      else if opc = ''sli'' then rmap (\<lambda>n. push_bit n x) (shift6 v)
      else if opc = ''sri'' then rmap (\<lambda>n. drop_bit n x) (shift6 v)
      else if opc = ''sari'' then rmap (\<lambda>n. signed_drop_bit n x) (shift6 v)
      else Inl (KeyError opc))"

definition exec_reg :: "string \<Rightarrow> 64 word \<Rightarrow> 64 word \<Rightarrow> 64 word res" where
  "exec_reg opc x y =
     (if opc = ''add'' then Inr (x + y)
      else if opc = ''sub'' then Inr (x - y)
      else if opc = ''mul'' then Inr (x * y)
      else if opc = ''div'' then div64 x y
      else if opc = ''mod'' then mod64 x y
      else if opc = ''clt'' then Inr (bool64 (sint x < sint y))
      else if opc = ''cgt'' then Inr (bool64 (sint y < sint x))
      else if opc = ''ceq'' then Inr (bool64 (x = y))
      else if opc = ''and'' then Inr (x AND y)
      else if opc = ''or'' then Inr (x OR y)
      else if opc = ''xor'' then Inr (x XOR y)
      else if opc = ''sl'' then Inr (if 63 < y then 0 else push_bit (unat y) x)
      else if opc = ''sr'' then Inr (if 63 < y then 0 else drop_bit (unat y) x)
      else if opc = ''sar'' then
        Inr (if 63 < y then (if bit x 63 then - 1 else 0) else signed_drop_bit (unat y) x)
      else Inl (KeyError opc))"

text \<open>A shift, then an operation with the 12-bit immediate\<close>

definition exec_combined :: "string \<Rightarrow> 64 word \<Rightarrow> int \<Rightarrow> int \<Rightarrow> 64 word res" where
  "exec_combined opc x sh v =
     rbind (shift4 sh) (\<lambda>n. rbind (uimm12 v) (\<lambda>y.
       if opc = ''sladdii'' then Inr (push_bit n x + y)
       else if opc = ''slsubii'' then Inr (push_bit n x - y)
       else if opc = ''sraddii'' then Inr (drop_bit n x + y)
       else if opc = ''srsubii'' then Inr (drop_bit n x - y)
       else if opc = ''slorii'' then Inr (push_bit n x OR y)
       else if opc = ''srorii'' then Inr (drop_bit n x OR y)
       else if opc = ''slandii'' then Inr (push_bit n x AND y)
       else if opc = ''srandii'' then Inr (drop_bit n x AND y)
       else Inl (KeyError opc)))"

type_synonym regs = "string \<Rightarrow> 64 word"

fun exec_action :: "action \<Rightarrow> regs \<Rightarrow> regs res" where
  "exec_action (opc, [GReg d, GImm v]) s =
     (if opc = ''movir'' then rmap (\<lambda>x. s(d := x)) (simm21 v) else Inl (KeyError opc))"
| "exec_action (opc, [GReg a, GReg d, GImm v]) s = rmap (\<lambda>x. s(d := x)) (exec_imm opc (s a) v)"
| "exec_action (opc, [GReg a, GReg b, GReg d]) s = rmap (\<lambda>x. s(d := x)) (exec_reg opc (s a) (s b))"
| "exec_action (opc, [GReg a, GReg d, GImm sh, GImm v]) s =
     rmap (\<lambda>x. s(d := x)) (exec_combined opc (s a) sh v)"
| "exec_action (opc, _) s = Inl (KeyError opc)"

definition exec_actions :: "action list \<Rightarrow> regs \<Rightarrow> regs res" where
  "exec_actions = foldr_res exec_action"

subsection \<open>Branches\<close>

definition branch_signed :: "string \<Rightarrow> int \<Rightarrow> int \<Rightarrow> bool res" where
  "branch_signed opc x y =
     (if opc = ''bne'' then Inr (x \<noteq> y) else if opc = ''beq'' then Inr (x = y)
      else if opc = ''bgt'' then Inr (y < x) else if opc = ''ble'' then Inr (x \<le> y)
      else if opc = ''blt'' then Inr (x < y) else if opc = ''bge'' then Inr (y \<le> x)
      else Inl (KeyError opc))"

text \<open>
  Whether a branch is taken. The opcode ends in \<open>i\<close> for an immediate and in \<open>u\<close> for an unsigned
  comparison; on two registers there are only four comparisons.
\<close>

definition branch_taken :: "action \<Rightarrow> regs \<Rightarrow> bool res" where
  "branch_taken a s =
     (case a of
        (opc, [GReg x, GReg y, GSym _]) \<Rightarrow>
          if opc \<in> {''bne'', ''beq'', ''bgt'', ''ble''} then branch_signed opc (sint (s x)) (sint (s y))
          else if opc \<in> {''bneu'', ''bequ'', ''bgtu'', ''bleu''}
          then branch_signed (butlast opc) (uint (s x)) (uint (s y))
          else Inl (KeyError opc)
      | (opc, [GReg x, GImm v, GSym _]) \<Rightarrow>
          if opc \<in> {''bnei'', ''beqi'', ''bgti'', ''blei'', ''blti'', ''bgei''}
          then rbind (simm5 v) (branch_signed (butlast opc) (sint (s x)))
          else if opc \<in> {''bneiu'', ''beqiu'', ''bgtiu'', ''bleiu'', ''bltiu'', ''bgeiu''}
          then rbind (uimm5 v) (branch_signed (butlast (butlast opc)) (uint (s x)))
          else Inl (KeyError opc)
      | (opc, _) \<Rightarrow> Inl (KeyError opc))"

section \<open>Code\<close>

text \<open>The actions of a list of instructions, and a run of them\<close>

definition code_of :: "(wreg \<Rightarrow> string) \<Rightarrow> winst list \<Rightarrow> action list res" where
  "code_of alloc is =
     rmap concat (seq_res (map (instructionTranslate alloc (\<lambda>_. '''') (\<lambda>_. '''')) is))"

definition run :: "(wreg \<Rightarrow> string) \<Rightarrow> winst list \<Rightarrow> regs \<Rightarrow> regs res" where
  "run alloc is s = rbind (code_of alloc is) (\<lambda>as. exec_actions as s)"

end
