(* ===== verification/Udw_Subst.thy ===== *)
theory Udw_Subst imports Udw_IR begin

text \<open>
  \<open>OperandSubstitution\<close> of \<open>src/updown/udweave/Weave/optimizer.py\<close>: multiplications, divisions and
  remainders by powers of two become shifts, shifts by too much become constants, a shift and an
  addition become one instruction. Every step takes the instruction, its place and the list of
  instructions of the basic block, and says whether it changed the list.
\<close>

section \<open>Helpers\<close>

definition ret_of :: "winst \<Rightarrow> wreg res" where
  "ret_of i = (case n_ret i of None \<Rightarrow> Inl AttributeError | Some r \<Rightarrow> Inr r)"

text \<open>\<open>op.getDecl()\<close>, which only registers have\<close>

definition decl_of :: "opnd option \<Rightarrow> nat option res" where
  "decl_of x = (case x of Some (OReg r) \<Rightarrow> Inr (r_decl r) | _ \<Rightarrow> Inl AttributeError)"

definition inst_getDecl :: "winst \<Rightarrow> wstate \<Rightarrow> (nat \<times> wstate) res" where
  "inst_getDecl i w =
     rbind (ret_of i) (\<lambda>r.
       case r_decl r of
         None \<Rightarrow> getTempDeclaration (n_ctx i) (n_dtype i) (n_quals i) w
       | Some d \<Rightarrow> Inr (d, snd (getTempRegister d w)))"

definition replaceInstr :: "nat \<Rightarrow> nat \<Rightarrow> winst list \<Rightarrow> winst list \<Rightarrow> winst list" where
  "replaceInstr index n new insts = take index insts @ new @ drop (index + n) insts"

text \<open>A move of a constant into a register, and one of the operations with a constant\<close>

definition load_const :: "winst \<Rightarrow> int \<Rightarrow> wreg option \<Rightarrow> wstate \<Rightarrow> (winst \<times> wstate) res" where
  "load_const i v ret w =
     rbind (immediate v None []) (\<lambda>m. Inr (load_inst (n_dtype i) (Some (OImm m)) ret (n_ctx i) w))"

definition bitwise_const ::
  "winst \<Rightarrow> bitwise_type \<Rightarrow> opnd option \<Rightarrow> int \<Rightarrow> wreg option \<Rightarrow> wstate \<Rightarrow> (winst \<times> wstate) res" where
  "bitwise_const i k l v ret w =
     rbind (immediate v None []) (\<lambda>m.
       binary_inst (Bitwise k) (n_dtype i) l (Some (OImm m)) ret (n_ctx i) w)"

type_synonym rewriting = "(bool \<times> wstate \<times> winst list) res"

section \<open>Shifts\<close>

definition optimizeShift :: "winst \<Rightarrow> nat \<Rightarrow> wstate \<Rightarrow> winst list \<Rightarrow> rewriting" where
  "optimizeShift i index w insts =
     (case (n_class i, right_op i) of
        (Bitwise k, Some (OImm m)) \<Rightarrow>
          rbind (getSize (n_dtype i)) (\<lambda>size.
            if size * 8 \<le> i_value m \<and> k \<in> {SHFTLFT, LSHFTRGT} then
              rbind (load_const i 0 (n_ret i) w) (\<lambda>(new, w). Inr (True, w, replaceInstr index 1 [new] insts))
            else if size * 8 \<le> i_value m \<and> k = ASHFTRGT then
              rbind (load_const i (if 0 \<le> i_orig m then 0 else -1) (n_ret i) w) (\<lambda>(new, w).
                Inr (True, w, replaceInstr index 1 [new] insts))
            else Inr (False, w, insts))
      | _ \<Rightarrow> Inr (False, w, insts))"

text \<open>A shift by a negative constant turns around; the instruction changes in place.\<close>

definition checkNegShift :: "winst \<Rightarrow> winst res" where
  "checkNegShift i =
     (case (n_class i, right_op i) of
        (Bitwise k, Some (OImm m)) \<Rightarrow>
          if k \<in> {SHFTLFT, LSHFTRGT, ASHFTRGT} \<and> i_orig m < 0 then
            rbind (setValue \<bar>i_orig m\<bar> m) (\<lambda>m.
              if k = SHFTLFT then
                Inr (i\<lparr>n_class := Bitwise LSHFTRGT, n_ops := (n_ops i)[1 := Some (OImm m)]\<rparr>)
              else if k = LSHFTRGT then
                Inr (i\<lparr>n_class := Bitwise SHFTLFT, n_ops := (n_ops i)[1 := Some (OImm m)]\<rparr>)
              else Inl SysExit)
          else Inr i
      | _ \<Rightarrow> Inr i)"

text \<open>\<open>ImmediateType\<close> of \<open>SplitImmediates\<close>: the widths of immediate fields\<close>

definition LongI :: nat where "LongI = 21"
definition I :: nat where "I = 16"
definition ShortI :: nat where "ShortI = 12"
definition SmallI :: nat where "SmallI = 6"
definition TinyI :: nat where "TinyI = 5"
definition TiniestI :: nat where "TiniestI = 4"

fun second_kind :: "wclass \<Rightarrow> arith_or_bitwise option" where
  "second_kind (Arith a) = Some (ArithOp a)"
| "second_kind (Bitwise b) = Some (BitwiseOp b)"
| "second_kind _ = None"

fun kind_isCommutative :: "arith_or_bitwise \<Rightarrow> bool" where
  "kind_isCommutative (ArithOp a) = arith_isCommutative a"
| "kind_isCommutative (BitwiseOp b) = bitwise_isCommutative b"

definition merged_kinds :: "arith_or_bitwise list" where
  "merged_kinds = [ArithOp IADDITION, ArithOp ISUBTRACTION, BitwiseOp BWOR, BitwiseOp BWAND]"

text \<open>The other operand of the second instruction, when the first one's result is an operand of it\<close>

definition merged_right :: "winst \<Rightarrow> arith_or_bitwise \<Rightarrow> winst \<Rightarrow> opnd option res" where
  "merged_right shift k second =
     (case right_op second of
        Some (OReg q) \<Rightarrow>
          rmap (\<lambda>r. if r_decl r = r_decl q \<and> kind_isCommutative k then left_op second else None) (ret_of shift)
      | _ \<Rightarrow> Inr None)"

definition merged_operand :: "winst \<Rightarrow> arith_or_bitwise \<Rightarrow> winst \<Rightarrow> opnd option res" where
  "merged_operand shift k second =
     (case left_op second of
        Some (OReg q) \<Rightarrow>
          rbind (ret_of shift) (\<lambda>r.
            if r_decl r = r_decl q then Inr (right_op second) else merged_right shift k second)
      | _ \<Rightarrow> merged_right shift k second)"

definition optimizeShiftAndArith ::
  "(winst list \<Rightarrow> wctx \<Rightarrow> wreg \<Rightarrow> winst list) \<Rightarrow> winst \<Rightarrow> winst \<Rightarrow> nat \<Rightarrow> wstate \<Rightarrow> winst list \<Rightarrow> rewriting" where
  "optimizeShiftAndArith uses shift second index w insts =
     (case (n_class shift, second_kind (n_class second), right_op shift) of
        (Bitwise b, Some k, Some (OImm sm)) \<Rightarrow>
          if b \<in> {SHFTLFT, LSHFTRGT} \<and> k \<in> set merged_kinds \<and> n_dtype shift = n_dtype second then
            rbind (merged_operand shift k second) (\<lambda>x.
              case x of
                Some (OImm am) \<Rightarrow>
                  if i_value am < 0 \<or> i_value sm < 0 \<or> 2 ^ ShortI \<le> i_value am \<or> 2 ^ TiniestI \<le> i_value sm
                  then Inr (False, w, insts)
                  else rbind (ret_of shift) (\<lambda>r.
                    let us = uses insts (n_ctx shift) r
                    in if length us \<noteq> 1 \<or> n_id (hd us) \<noteq> n_id second then Inr (False, w, insts)
                       else let (new, w) = new_inst (ShiftArith b k (right_op second)) (n_dtype shift)
                                  [left_op shift, Some (OImm sm), Some (OImm am)] (n_ctx shift) w
                            in Inr (True, w, replaceInstr index 2 [new\<lparr>n_ret := n_ret second\<rparr>] insts))
              | _ \<Rightarrow> Inr (False, w, insts))
          else Inr (False, w, insts)
      | _ \<Rightarrow> Inr (False, w, insts))"

section \<open>Remainders and divisions\<close>

text \<open>\<open>n + (n < 0 ? 2^m - 1 : 0)\<close> in the last register of the declaration\<close>

definition getRemainder :: "nat \<Rightarrow> winst \<Rightarrow> int \<Rightarrow> wstate \<Rightarrow> (winst list \<times> wstate) res" where
  "getRemainder d i v w =
     rbind (getSize (n_dtype i)) (\<lambda>size.
     rbind (bitwise_const i ASHFTRGT (left_op i) (size * 8 - 1) (curReg (w_decls w ! d)) w) (\<lambda>(sign, w).
     rbind (bitwise_const i LSHFTRGT (map_option OReg (n_ret sign)) (size * 8 - log2 v) None w) (\<lambda>(mask, w).
     let (t, w) = getTempRegister d w; mask = mask\<lparr>n_ret := Some t\<rparr>
     in rbind (binary_inst (Arith IADDITION) (n_dtype i) (Some (OReg t)) (left_op i) None (n_ctx i) w) (\<lambda>(add, w).
        let (t, w) = getTempRegister d w
        in Inr ([sign, mask, add\<lparr>n_ret := Some t\<rparr>], w)))))"

definition optimizeModI :: "winst \<Rightarrow> nat \<Rightarrow> wstate \<Rightarrow> winst list \<Rightarrow> rewriting" where
  "optimizeModI i index w insts =
     (case (n_class i, right_op i) of
        (Arith MODULO, Some (OImm m)) \<Rightarrow>
          (let v = i_value m
           in if v = 0 then Inl SysExit
              else if \<bar>v\<bar> = 1 then
                rbind (load_const i 0 (n_ret i) w) (\<lambda>(new, w). Inr (True, w, replaceInstr index 1 [new] insts))
              else if isPowerOfTwo \<bar>v\<bar> then
                if \<not> isSigned (n_quals i) \<and> 0 < v then
                  rbind (bitwise_const i BWAND (left_op i) (v - 1) (n_ret i) w) (\<lambda>(new, w).
                    Inr (True, w, replaceInstr index 1 [new] insts))
                else
                  rbind (inst_getDecl i w) (\<lambda>(d, w).
                  rbind (getRemainder d i v w) (\<lambda>(is, w).
                  rbind (bitwise_const i BWAND (map_option OReg (curReg (w_decls w ! d))) (- v) None w) (\<lambda>(md, w).
                  let (t, w) = getTempRegister d w
                  in rbind (binary_inst (Arith ISUBTRACTION) (n_dtype i) (left_op i) (Some (OReg t)) (n_ret i)
                              (n_ctx i) w) (\<lambda>(sub, w).
                     Inr (True, w, replaceInstr index 1 (is @ [md\<lparr>n_ret := Some t\<rparr>, sub]) insts)))))
              else Inr (False, w, insts))
      | _ \<Rightarrow> Inr (False, w, insts))"

text \<open>\<open>0 - x\<close> for the operand \<open>x\<close>; the zero is in the current register of the declaration.\<close>

definition negated :: "nat \<Rightarrow> winst \<Rightarrow> opnd option \<Rightarrow> wstate \<Rightarrow> (winst list \<times> wstate) res" where
  "negated d i x w =
     rbind (load_const i 0 (curReg (w_decls w ! d)) w) (\<lambda>(zero, w).
     rbind (binary_inst (Arith ISUBTRACTION) (n_dtype i) (map_option OReg (n_ret zero)) x (n_ret i) (n_ctx i) w)
       (\<lambda>(sub, w). Inr ([zero, sub], w)))"

definition signed_division :: "winst \<Rightarrow> int \<Rightarrow> wstate \<Rightarrow> (winst list \<times> wstate) res" where
  "signed_division i v w =
     rbind (inst_getDecl i w) (\<lambda>(d, w).
     rbind (getRemainder d i v w) (\<lambda>(is, w).
     rbind (bitwise_const i ASHFTRGT (map_option OReg (n_ret i)) (log2 v) None w) (\<lambda>(dv, w).
     if v < 0 then
       (let (t, w) = getTempRegister d w; w = addReg d t w; dv = dv\<lparr>n_ret := curReg (w_decls w ! d)\<rparr>
        in rbind (negated d i (map_option OReg (n_ret dv)) (snd (getTempRegister d w))) (\<lambda>(ns, w).
           Inr (is @ dv # ns, w)))
     else Inr (is @ [dv\<lparr>n_ret := n_ret i\<rparr>], w))))"

definition optimizeDivI :: "winst \<Rightarrow> nat \<Rightarrow> wstate \<Rightarrow> winst list \<Rightarrow> rewriting" where
  "optimizeDivI i index w insts =
     (if n_class i \<noteq> Arith IDIVIDE then Inr (False, w, insts)
      else if (case left_op i of Some (OImm l) \<Rightarrow> i_orig l = 0 | _ \<Rightarrow> False) then
        rbind (load_const i 0 (n_ret i) w) (\<lambda>(new, w). Inr (True, w, replaceInstr index 1 [new] insts))
      else case right_op i of
        Some (OImm m) \<Rightarrow>
          (let v = i_value m
           in if v = 0 then Inl SysExit
              else if v = 1 then
                rbind (decl_of (left_op i)) (\<lambda>a. rbind (ret_of i) (\<lambda>r.
                  if a = r_decl r then Inr (True, w, replaceInstr index 1 [] insts)
                  else let (new, w) = load_inst (n_dtype i) (left_op i) (n_ret i) (n_ctx i) w
                       in Inr (True, w, replaceInstr index 1 [new] insts)))
              else if v = -1 then
                rbind (inst_getDecl i w) (\<lambda>(d, w). rbind (negated d i (left_op i) w) (\<lambda>(ns, w).
                  Inr (True, w, replaceInstr index 1 ns insts)))
              else if isPowerOfTwo \<bar>v\<bar> then
                if \<not> isSigned (n_quals i) then
                  rbind (bitwise_const i ASHFTRGT (left_op i) (log2 v) (n_ret i) w) (\<lambda>(new, w).
                    Inr (True, w, replaceInstr index 1 [new] insts))
                else rbind (signed_division i v w) (\<lambda>(ns, w). Inr (True, w, replaceInstr index 1 ns insts))
              else Inr (False, w, insts))
      | _ \<Rightarrow> Inr (False, w, insts))"

section \<open>Multiplications\<close>

fun is_imm :: "opnd option \<Rightarrow> bool" where
  "is_imm (Some (OImm _)) = True"
| "is_imm _ = False"

definition other_operand :: "winst \<Rightarrow> opnd option" where
  "other_operand i = (if is_imm (left_op i) then right_op i else left_op i)"

definition mul_immediate :: "winst \<Rightarrow> wimm option" where
  "mul_immediate i =
     (case left_op i of
        Some (OImm m) \<Rightarrow> Some m
      | _ \<Rightarrow> (case right_op i of Some (OImm m) \<Rightarrow> Some m | _ \<Rightarrow> None))"

text \<open>
  The operand is compared to the return register. When it is no register, Python asks the method of
  registers with the operands exchanged, which looks for a hash that only registers have.
\<close>

definition operand_is_ret :: "winst \<Rightarrow> bool res" where
  "operand_is_ret i =
     (case other_operand i of
        Some (OReg r) \<Rightarrow> rmap (same_reg r) (ret_of i)
      | x \<Rightarrow> (case n_ret i of None \<Rightarrow> Inr (x = None) | Some _ \<Rightarrow> Inl AttributeError))"

definition optimizeMulI :: "winst \<Rightarrow> nat \<Rightarrow> wstate \<Rightarrow> winst list \<Rightarrow> rewriting" where
  "optimizeMulI i index w insts =
     (case (n_class i, mul_immediate i) of
        (Arith IMULT, Some m) \<Rightarrow>
          (let v = i_value m
           in if v = 0 then
                rbind (load_const i 0 (n_ret i) w) (\<lambda>(new, w). Inr (True, w, replaceInstr index 1 [new] insts))
              else if v = 1 then
                rbind (operand_is_ret i) (\<lambda>same.
                  if same then Inr (True, w, replaceInstr index 1 [] insts)
                  else let (new, w) = load_inst (n_dtype i) (other_operand i) (n_ret i) (n_ctx i) w
                       in Inr (True, w, replaceInstr index 1 [new] insts))
              else
                rbind (inst_getDecl i w) (\<lambda>(d, w).
                  if v = -1 then
                    rbind (negated d i (other_operand i) w) (\<lambda>(ns, w).
                      Inr (True, w, replaceInstr index 1 ns insts))
                  else if isPowerOfTwo \<bar>v\<bar> then
                    rbind (bitwise_const i SHFTLFT (other_operand i) (log2 v) None w) (\<lambda>(shift, w).
                      if v < 0 then
                        (let shift = shift\<lparr>n_ret := curReg (w_decls w ! d)\<rparr>
                         in rbind (negated d i (map_option OReg (n_ret shift)) (snd (getTempRegister d w)))
                              (\<lambda>(ns, w). Inr (True, w, replaceInstr index 1 (shift # ns) insts)))
                      else Inr (True, w, replaceInstr index 1 [shift\<lparr>n_ret := n_ret i\<rparr>] insts))
                  else Inr (False, w, insts)))
      | _ \<Rightarrow> Inr (False, w, insts))"

section \<open>The pass\<close>

text \<open>
  The instructions of a block from the last to the first. \<open>next\<close> is the instruction behind the
  current one; the last instruction has none and is left alone. The instruction that a negative
  shift changes in place is in the list only if it was not replaced before.
\<close>

definition subst_inst ::
  "(winst list \<Rightarrow> wctx \<Rightarrow> wreg \<Rightarrow> winst list) \<Rightarrow> winst \<Rightarrow> winst \<Rightarrow> nat \<Rightarrow> wstate \<Rightarrow> winst list \<Rightarrow> rewriting" where
  "subst_inst uses i nxt index w insts =
     rbind (optimizeShift i index w insts) (\<lambda>(c1, w, insts).
     rbind (optimizeMulI i index w insts) (\<lambda>(c2, w, insts).
     rbind (optimizeDivI i index w insts) (\<lambda>(c3, w, insts).
     rbind (optimizeModI i index w insts) (\<lambda>(c4, w, insts).
     rbind (checkNegShift i) (\<lambda>i.
     let replaced = c1 \<or> c2 \<or> c3 \<or> c4; insts = (if replaced then insts else insts[index := i])
     in rbind (optimizeShiftAndArith uses i nxt index w insts) (\<lambda>(c5, w, insts).
        Inr (replaced \<or> c5, w, insts)))))))"

fun subst_insts ::
  "(winst list \<Rightarrow> wctx \<Rightarrow> wreg \<Rightarrow> winst list) \<Rightarrow> (nat \<times> winst) list \<Rightarrow> winst option \<Rightarrow> wstate \<Rightarrow> winst list
   \<Rightarrow> rewriting" where
  "subst_insts uses [] nxt w insts = Inr (False, w, insts)"
| "subst_insts uses ((index, i) # is) nxt w insts =
     (case nxt of
        None \<Rightarrow> subst_insts uses is (Some i) w insts
      | Some n \<Rightarrow>
          rbind (subst_inst uses i n index w insts) (\<lambda>(c, w, insts).
          rbind (subst_insts uses is (Some (insts ! index)) w insts) (\<lambda>(d, w, insts).
            Inr (c \<or> d, w, insts))))"

type_synonym wprogram = "wevent list"

definition set_insts :: "nat \<Rightarrow> nat \<Rightarrow> winst list \<Rightarrow> wprogram \<Rightarrow> wprogram" where
  "set_insts e b insts es = es[e := upd_block b (\<lambda>x. x\<lparr>b_insts := insts\<rparr>) (es ! e)]"

definition get_insts :: "nat \<Rightarrow> nat \<Rightarrow> wprogram \<Rightarrow> winst list" where
  "get_insts e b es = b_insts (block (es ! e) b)"

definition program_blocks :: "wprogram \<Rightarrow> (nat \<times> nat) list" where
  "program_blocks es = concat (map (\<lambda>e. map (Pair e) (e_blocks (es ! e))) [0..<length es])"

definition subst_block :: "nat \<times> nat \<Rightarrow> bool \<times> wstate \<times> wprogram \<Rightarrow> (bool \<times> wstate \<times> wprogram) res" where
  "subst_block eb s =
     (let (e, b) = eb; (c, w, es) = s; insts = get_insts e b es;
          uses = (\<lambda>insts cx r. scope_getUses cx (set_insts e b insts es) r)
      in rbind (subst_insts uses (rev (enumerate 0 insts)) None w insts) (\<lambda>(d, w, insts).
           Inr (c \<or> d, w, set_insts e b insts es)))"

definition subst_sweep :: "wstate \<times> wprogram \<Rightarrow> (bool \<times> wstate \<times> wprogram) res" where
  "subst_sweep s = foldr_res subst_block (program_blocks (snd s)) (False, s)"

text \<open>The \<open>while True\<close> loop; \<open>None\<close> would be a loop that does not end.\<close>

partial_function (option) OperandSubstitution :: "wstate \<times> wprogram \<Rightarrow> (wstate \<times> wprogram) res option" where
  "OperandSubstitution s =
     (case subst_sweep s of
        Inl e \<Rightarrow> Some (Inl e)
      | Inr (c, s) \<Rightarrow> if c then OperandSubstitution s else Some (Inr s))"

end
