(* ===== verification/Udw_Split.thy ===== *)
theory Udw_Split imports Udw_Subst begin

text \<open>
  \<open>SplitImmediates\<close> of \<open>src/updown/udweave/Weave/optimizer.py\<close>: an immediate that does not fit the
  field of its instruction is built in a register, by a move, by shifting ones out of a word, or
  from chunks of 16 bits.
\<close>

section \<open>Field sizes\<close>

definition getImmediateFieldSize :: "winst \<Rightarrow> nat res" where
  "getImmediateFieldSize i =
     (case n_class i of
        Arith _ \<Rightarrow> Inr (I - 1)
      | Bitwise b \<Rightarrow> Inr (if b \<in> {SHFTLFT, LSHFTRGT, ASHFTRGT} then SmallI else I)
      | Compare _ _ \<Rightarrow> Inr (I - 1)
      | Branch _ _ \<Rightarrow> Inr (if isSigned (n_quals i) then TinyI - 1 else TinyI)
      | Memory _ \<Rightarrow> Inr (LongI - 1)
      | ShiftArith _ _ _ \<Rightarrow> Inr ShortI
      | _ \<Rightarrow> Inl SysExit)"

section \<open>Building an immediate\<close>

fun isMemory :: "wclass \<Rightarrow> bool" where
  "isMemory (Memory _) = True"
| "isMemory _ = False"

text \<open>The register of a new declaration, or a further one of the declaration that is assigned\<close>

definition load_decl :: "wimm \<Rightarrow> winst \<Rightarrow> nat option \<Rightarrow> wstate \<Rightarrow> (nat \<times> wstate) res" where
  "load_decl m i decl w =
     (case (decl, isMemory (n_class i)) of
        (Some d, True) \<Rightarrow> Inr (d, snd (getTempRegister d w))
      | _ \<Rightarrow> getTempDeclaration (n_ctx i) (i_dtype m) (n_quals i) w)"

definition createLoadImmediate ::
  "wimm \<Rightarrow> winst \<Rightarrow> wtype \<Rightarrow> nat option \<Rightarrow> int option \<Rightarrow> wstate \<Rightarrow> (nat \<times> winst \<times> wstate) res" where
  "createLoadImmediate m i t decl shiftInValue w =
     rbind (load_decl m i decl w) (\<lambda>(d, w).
     rbind (case shiftInValue of None \<Rightarrow> Inr m | Some v \<Rightarrow> immediate v (Some t) (i_quals m)) (\<lambda>x.
     let (load, w) = load_inst (i_dtype m) (Some (OImm x)) (curReg (w_decls w ! d)) (n_ctx i) w
     in Inr (d, load, w)))"

text \<open>A bitwise operation on the result of an instruction, into a new register of the declaration\<close>

definition next_bitwise ::
  "bitwise_type \<Rightarrow> wtype \<Rightarrow> winst \<Rightarrow> wimm \<Rightarrow> nat \<Rightarrow> winst \<Rightarrow> wstate \<Rightarrow> (winst \<times> wstate) res" where
  "next_bitwise k t prev m d i w =
     rbind (binary_inst (Bitwise k) t (map_option OReg (n_ret prev)) (Some (OImm m)) None (n_ctx i) w) (\<lambda>(new, w).
     let (r, w) = getTempRegister d w in Inr (new\<lparr>n_ret := Some r\<rparr>, w))"

definition ones64 :: int where
  "ones64 = 0xffffffffffffffff"

definition checkEquality ::
  "nat \<Rightarrow> bitwise_type \<Rightarrow> winst \<Rightarrow> nat option \<Rightarrow> wstate \<Rightarrow> (nat \<times> winst list \<times> wstate) res" where
  "checkEquality index k i decl w =
     rbind (immediate (-1) (Some i64) [signed_q]) (\<lambda>m.
     rbind (createLoadImmediate m i i64 (if isMemory (n_class i) then decl else None) None w) (\<lambda>(d, load, w).
     if index = 0 then Inr (d, [load], w)
     else rbind (immediate (int index) (Some i64) [unsigned_q]) (\<lambda>x.
          rbind (next_bitwise k i64 load x d i w) (\<lambda>(sh, w). Inr (d, [load, sh], w)))))"

definition tryShiftingIn ::
  "wimm \<Rightarrow> winst \<Rightarrow> nat option \<Rightarrow> wstate \<Rightarrow> (nat \<times> winst list \<times> wstate) option res" where
  "tryShiftingIn m i decl w =
     (case find (\<lambda>n. drop_bit n ones64 = i_value m) [0..<44] of
        Some n \<Rightarrow> rmap Some (checkEquality n LSHFTRGT i decl w)
      | None \<Rightarrow>
          (case find (\<lambda>n. push_bit n ones64 AND ones64 = i_value m) [0..<64] of
             Some n \<Rightarrow> rmap Some (checkEquality n SHFTLFT i decl w)
           | None \<Rightarrow> Inr None))"

subsection \<open>Chunks of 16 bits\<close>

text \<open>\<open>range(size - 16, -1, -16)\<close>\<close>

definition chunk_parts :: "int \<Rightarrow> nat list" where
  "chunk_parts sz = map (\<lambda>k. nat sz - I * Suc k) [0..<nat (sz div int I)]"

text \<open>
  What the loop has: the instructions, and the declaration once something is in its register
  (\<open>currentValueIsZero\<close> is that there is none).
\<close>

type_synonym chunk_state = "winst list \<times> nat option \<times> wstate"

definition last_inst :: "winst list \<Rightarrow> winst res" where
  "last_inst is = (if is = [] then Inl IndexError else Inr (last is))"

definition insert_chunk :: "wimm \<Rightarrow> winst \<Rightarrow> wtype \<Rightarrow> nat option \<Rightarrow> nat \<Rightarrow> chunk_state \<Rightarrow> chunk_state res" where
  "insert_chunk m i t decl part s =
     (let (is, d, w) = s; v = drop_bit part (i_value m)
      in if v AND 0xFFFF = 0 then Inr s
         else case d of
           None \<Rightarrow> rbind (createLoadImmediate m i t decl (Some v) w) (\<lambda>(d, load, w).
                     Inr (is @ [load], Some d, w))
         | Some d \<Rightarrow> rbind (last_inst is) (\<lambda>l.
                     rbind (immediate (v AND 0xFFFF) (Some t) []) (\<lambda>x.
                     rbind (next_bitwise BWOR t l x d i w) (\<lambda>(new, w). Inr (is @ [new], Some d, w)))))"

text \<open>A shift behind a shift is added to it.\<close>

definition widen_shift :: "winst \<Rightarrow> winst res" where
  "widen_shift l =
     (case right_op l of
        Some (OImm x) \<Rightarrow> rmap (\<lambda>x. l\<lparr>n_ops := (n_ops l)[1 := Some (OImm x)]\<rparr>) (setValue (i_orig x + int I) x)
      | _ \<Rightarrow> Inl AttributeError)"

definition shift_chunk :: "winst \<Rightarrow> wtype \<Rightarrow> nat \<Rightarrow> chunk_state \<Rightarrow> chunk_state res" where
  "shift_chunk i t part s =
     (let (is, d, w) = s
      in case d of
           None \<Rightarrow> Inr s
         | Some d' \<Rightarrow>
             if part = 0 then Inr s
             else rbind (last_inst is) (\<lambda>l.
               if n_class l = Bitwise SHFTLFT then
                 rbind (widen_shift l) (\<lambda>l. Inr (butlast is @ [l], d, w))
               else rbind (immediate (int I) (Some t) []) (\<lambda>x.
                    rbind (next_bitwise SHFTLFT t l x d' i w) (\<lambda>(new, w). Inr (is @ [new], d, w)))))"

definition chunk_step :: "wimm \<Rightarrow> winst \<Rightarrow> wtype \<Rightarrow> nat option \<Rightarrow> nat \<Rightarrow> chunk_state \<Rightarrow> chunk_state res" where
  "chunk_step m i t decl part s = rbind (insert_chunk m i t decl part s) (shift_chunk i t part)"

section \<open>Splitting\<close>

text \<open>The instructions that are put before the instruction, and the operand that it gets\<close>

definition splitImmediate :: "wimm \<Rightarrow> winst \<Rightarrow> wstate \<Rightarrow> (opnd \<times> winst list \<times> wstate) res" where
  "splitImmediate m i w =
     rbind (getSize (i_dtype m)) (\<lambda>bytes.
     let v = i_value m; sz = bytes * 8; t = (if sz = 32 then i32 else i64);
         decl = declLookup (n_ctx i) (n_ret i) w
     in if 2 ^ nat sz \<le> \<bar>v\<bar> then Inl SysExit
        else rbind (getImmediateFieldSize i) (\<lambda>field.
          if \<bar>v\<bar> < 2 ^ field then Inr (OImm m, [], w)
          else rbind
                 (if \<bar>v\<bar> < 2 ^ (LongI - 1)
                  then rmap (\<lambda>(d, load, w). ([load], w)) (createLoadImmediate m i t decl None w)
                  else rbind (tryShiftingIn m i decl w) (\<lambda>x.
                         case x of
                           Some (d, is, w) \<Rightarrow> Inr (is, w)
                         | None \<Rightarrow> rmap (\<lambda>(is, d, w). (is, w))
                             (foldr_res (chunk_step m i t decl) (chunk_parts sz) ([], None, w))))
                 (\<lambda>(is, w). rbind (last_inst is) (\<lambda>l. rbind (ret_of l) (\<lambda>r. Inr (OReg r, is, w))))))"

text \<open>
  One operand of an instruction with two operands; the new instructions come before those of the
  other operand.
\<close>

definition split_operand ::
  "(winst \<Rightarrow> opnd option) \<Rightarrow> (opnd option \<Rightarrow> winst \<Rightarrow> winst res) \<Rightarrow> winst list \<times> winst \<times> wstate
   \<Rightarrow> (winst list \<times> winst \<times> wstate) res" where
  "split_operand get set_to s =
     (let (is, i, w) = s
      in case get i of
           Some (OImm m) \<Rightarrow>
             rbind (splitImmediate m i w) (\<lambda>(x, new, w). rmap (\<lambda>i. (new @ is, i, w)) (set_to (Some x) i))
         | _ \<Rightarrow> Inr s)"

text \<open>What replaces an instruction; a move that was split is dropped.\<close>

definition split_inst :: "winst \<Rightarrow> wstate \<Rightarrow> (winst list \<times> wstate) res" where
  "split_inst i w =
     (if isBinaryOps (n_class i) then
        rbind (split_operand left_op setLeft ([], i, w)) (\<lambda>s.
        rbind (split_operand right_op setRight s) (\<lambda>(is, i, w). Inr (is @ [i], w)))
      else if n_class i = Memory LOAD then
        (case getValueToStore i of
           Some (OImm m) \<Rightarrow>
             rbind (splitImmediate m i w) (\<lambda>(x, new, w). Inr (if new = [] then [i] else new, w))
         | _ \<Rightarrow> Inr ([i], w))
      else Inr ([i], w))"

section \<open>The pass\<close>

text \<open>The instructions of a block from the last to the first\<close>

fun split_insts :: "winst list \<Rightarrow> wstate \<Rightarrow> (winst list \<times> wstate) res" where
  "split_insts [] w = Inr ([], w)"
| "split_insts (i # is) w =
     rbind (split_insts is w) (\<lambda>(js, w). rbind (split_inst i w) (\<lambda>(ks, w). Inr (ks @ js, w)))"

definition split_block :: "nat \<times> nat \<Rightarrow> wstate \<times> wprogram \<Rightarrow> (wstate \<times> wprogram) res" where
  "split_block eb s =
     (let (e, b) = eb; (w, es) = s
      in rbind (split_insts (get_insts e b es) w) (\<lambda>(insts, w). Inr (w, set_insts e b insts es)))"

definition SplitImmediates :: "wstate \<times> wprogram \<Rightarrow> (wstate \<times> wprogram) res" where
  "SplitImmediates s = foldr_res split_block (program_blocks (snd s)) s"

end
