(* ===== verification/Udw_Runs.thy ===== *)
theory Udw_Runs imports Udw_Isa Udw_Split begin

text \<open>
  Runs of the code of an instruction list, and what the constructors of the optimizer make: the lemmas
  that the proofs about its passes share.
\<close>

unbundle bit_operations_syntax

section \<open>Runs\<close>

named_theorems udw_run \<open>what the code of an instruction does\<close>

lemma run_Nil [simp]: "run alloc [] s = Inr s"
  by (simp add: run_def code_of_def exec_actions_def rmap_def seq_res.simps)

lemma code_of_append:
  "code_of alloc (is @ js) = rbind (code_of alloc is) (\<lambda>as. rmap (append as) (code_of alloc js))"
proof (induction "is")
  case Nil
  show ?case by (cases "code_of alloc js") (simp_all add: code_of_def rmap_def seq_res.simps)
next
  case (Cons i "is")
  then show ?case
    by (cases "instructionTranslate alloc (\<lambda>_. '''') (\<lambda>_. '''') i";
        cases "seq_res (map (instructionTranslate alloc (\<lambda>_. '''') (\<lambda>_. '''')) is)";
        cases "seq_res (map (instructionTranslate alloc (\<lambda>_. '''') (\<lambda>_. '''')) (is @ js))";
        cases "seq_res (map (instructionTranslate alloc (\<lambda>_. '''') (\<lambda>_. '''')) js)")
      (simp_all add: code_of_def rmap_def seq_res.simps)
qed

lemma run_append:
  assumes "run alloc is s = Inr t"
  shows "run alloc (is @ js) s = run alloc js t"
proof -
  from assms obtain as where "code_of alloc is = Inr as" "exec_actions as s = Inr t"
    by (auto simp: run_def rbind_Inr_iff)
  then show ?thesis
    by (cases "code_of alloc js") (simp_all add: run_def code_of_append rmap_def exec_actions_def foldr_res_append)
qed

lemma run_Cons: "run alloc [i] s = Inr t \<Longrightarrow> run alloc (i # is) s = run alloc is t"
  using run_append [of alloc "[i]" s t "is"] by simp

text \<open>Two operands and a result, as the compiler makes them\<close>

definition ops_are :: "wclass \<Rightarrow> opnd option \<Rightarrow> opnd option \<Rightarrow> wreg option \<Rightarrow> winst \<Rightarrow> bool" where
  "ops_are k l r ret i = (n_class i = k \<and> n_ops i = [l, r] \<and> n_ret i = ret)"

lemma ops_are_ret [simp]: "ops_are k l r ret (i\<lparr>n_ret := t\<rparr>) \<longleftrightarrow> n_class i = k \<and> n_ops i = [l, r] \<and> t = ret"
  by (simp add: ops_are_def)

lemma run_single:
  "instructionTranslate alloc (\<lambda>_. '''') (\<lambda>_. '''') i = Inr [a] \<Longrightarrow> run alloc [i] s = exec_action a s"
  by (cases "exec_action a s") (simp_all add: run_def code_of_def rmap_def exec_actions_def seq_res.simps)

lemma run_bitwise_imm [udw_run]:
  assumes "ops_are (Bitwise k) (Some (OReg a)) (Some (OImm m)) (Some d) i" "bitwise_opcode k REG_IMM = Inr opc"
  shows "run alloc [i] s = rmap (\<lambda>x. s(alloc d := x)) (exec_imm opc (s (alloc a)) (i_value m))"
  by (rule run_single [THEN trans], use assms in \<open>simp add: ops_are_def instructionTranslate_def translate_bitwise_def get_ops_binaryInst_def left_op_def
       right_op_def ret_ops_def rmap_def\<close>)
    (simp add: rmap_def)

lemma run_arith_reg [udw_run]:
  assumes "ops_are (Arith k) (Some (OReg a)) (Some (OReg b)) (Some d) i" "arith_opcode k REG_REG = Inr opc"
    "\<not> isFP k"
  shows "run alloc [i] s = rmap (\<lambda>x. s(alloc d := x)) (exec_reg opc (s (alloc a)) (s (alloc b)))"
  by (rule run_single [THEN trans], use assms in \<open>simp add: ops_are_def instructionTranslate_def translate_arith_def get_ops_binaryInst_def left_op_def
       right_op_def ret_ops_def rmap_def\<close>)
    (simp add: rmap_def)

text \<open>A move of an operand to a register\<close>

definition load_is :: "opnd option \<Rightarrow> wreg option \<Rightarrow> winst \<Rightarrow> bool" where
  "load_is x ret i = (n_class i = Memory LOAD \<and> n_ops i = replicate 6 None @ [x] \<and> n_ret i = ret)"

lemma run_load_imm [udw_run]:
  assumes "load_is (Some (OImm m)) (Some d) i"
  shows "run alloc [i] s = rmap (\<lambda>x. s(alloc d := x)) (simm21 (i_value m))"
  by (rule run_single [THEN trans], use assms in \<open>simp add: load_is_def instructionTranslate_def translate_load_def getValueToStore_def numeral_nat\<close>)
    (simp add: rmap_def)

lemma run_load_reg [udw_run]:
  assumes "load_is (Some (OReg a)) (Some d) i"
  shows "run alloc [i] s = rmap (\<lambda>x. s(alloc d := x)) (exec_imm ''addi'' (s (alloc a)) 0)"
  by (rule run_single [THEN trans], use assms in \<open>simp add: load_is_def instructionTranslate_def translate_load_def getValueToStore_def numeral_nat rmap_def\<close>)
    (simp add: rmap_def)

text \<open>The result of a step of the optimizer that put \<open>new\<close> in the place of an instruction\<close>

definition rewritten :: "nat \<Rightarrow> winst list \<Rightarrow> winst list \<Rightarrow> wstate \<Rightarrow> rewriting" where
  "rewritten index new insts w = Inr (True, w, replaceInstr index 1 new insts)"

section \<open>Fields\<close>

lemma rmap_Inr_eq: "rmap f m = Inr y \<Longrightarrow> rmap (g \<circ> f) m = Inr (g y)"
  by (cases m) (simp_all add: rmap_def)

lemma inbinary_total: "v < 2 ^ 16 \<Longrightarrow> \<exists>s. inbinary16 v = Inr s" "v < 2 ^ 21 \<Longrightarrow> \<exists>s. inbinary21 v = Inr s"
  using b16.enc_ok [of v] b21.enc_ok [of v] by simp_all

lemma simm16_eq: "- (2 ^ 15) \<le> v \<Longrightarrow> v < 2 ^ 15 \<Longrightarrow> simm16 v = Inr (word_of_int v)"
  using inbinary_total(1) [of v] b16.roundtrip_signed [of v]
  by (auto simp: simm16_def encode_immediate16_def rmap_def)

lemma simm21_eq: "- (2 ^ 20) \<le> v \<Longrightarrow> v < 2 ^ 20 \<Longrightarrow> simm21 v = Inr (word_of_int v)"
  using inbinary_total(2) [of v] b21.roundtrip_signed [of v]
  by (auto simp: simm21_def encode_immediate_LI_def rmap_def)

lemma uimm16_eq: "0 \<le> v \<Longrightarrow> v < 2 ^ 16 \<Longrightarrow> uimm16 v = Inr (word_of_int v)"
  using inbinary_total(1) [of v] b16.roundtrip_unsigned [of v]
  by (auto simp: uimm16_def encode_immediate16_def rmap_def)

lemma uimm16_neg: "v < 0 \<Longrightarrow> uimm16 v = Inr (word_of_int (2 ^ 15 + v mod 2 ^ 15))"
  using inbinary_total(1) [of v] b16.enc_wraps [of v]
  by (auto simp: uimm16_def encode_immediate16_def rmap_def)

lemma shift6_eq: "0 \<le> v \<Longrightarrow> v < 64 \<Longrightarrow> shift6 v = Inr (nat v)"
  using inbinary_total(1) [of v] b16.roundtrip_unsigned [of v]
  by (auto simp: shift6_def encode_immediate16_def rmap_def)

lemma exec_imm_shifts:
  assumes "n < 64"
  shows "exec_imm ''sli'' x (int n) = Inr (push_bit n x)" "exec_imm ''sri'' x (int n) = Inr (drop_bit n x)"
    "exec_imm ''sari'' x (int n) = Inr (signed_drop_bit n x)"
  using assms by (simp_all add: exec_imm_def shift6_eq rmap_def)


section \<open>New values\<close>

lemma immediate_ok:
  assumes "- (2 ^ 63) \<le> v" "v < 2 ^ 64"
  obtains m where "immediate v None [] = Inr m" "i_value m = v" "i_orig m = v"
proof -
  have d: "drop_bit 32 v = v div 4294967296" by (simp add: drop_bit_eq_div)
  have "\<exists>m. immediate v None [] = Inr m \<and> i_value m = v \<and> i_orig m = v"
    using assms
    by (auto simp: immediate_def setValue_def packed_value_def in_range_def inferType_def inferQuals_def
          addQualifier_def isSigned_def rmap_def d)
  then show thesis using that by blast
qed

lemma binary_inst_ok:
  assumes "k \<in> range Arith \<union> range Bitwise"
  obtains i where "binary_inst k t l r ret c w = Inr (i, w\<lparr>w_inst := w_inst w + 1\<rparr>)"
    "ops_are k l r ret i"
proof -
  have "\<exists>i. binary_inst k t l r ret c w = Inr (i, w\<lparr>w_inst := w_inst w + 1\<rparr>) \<and> ops_are k l r ret i"
    using assms
    by (auto simp: binary_inst_def new_inst_def setLeft_def setRight_def set_op_def
          setQualifierBasedOnOperands_def Let_def ops_are_def)
  then show thesis using that by blast
qed

lemma bitwise_const_ok:
  assumes "- (2 ^ 63) \<le> v" "v < 2 ^ 64"
  obtains m new where "bitwise_const i k l v ret w = Inr (new, w\<lparr>w_inst := w_inst w + 1\<rparr>)"
    "ops_are (Bitwise k) l (Some (OImm m)) ret new" "i_value m = v"
proof -
  from assms obtain m where m: "immediate v None [] = Inr m" "i_value m = v" by (rule immediate_ok)
  obtain new where "binary_inst (Bitwise k) (n_dtype i) l (Some (OImm m)) ret (n_ctx i) w
      = Inr (new, w\<lparr>w_inst := w_inst w + 1\<rparr>)" "ops_are (Bitwise k) l (Some (OImm m)) ret new"
    by (rule binary_inst_ok [of "Bitwise k"]) auto
  with m show thesis by (intro that) (simp_all add: bitwise_const_def)
qed

lemma load_const_ok:
  assumes "- (2 ^ 63) \<le> v" "v < 2 ^ 64"
  obtains m new where "load_const i v ret w = Inr (new, w\<lparr>w_inst := w_inst w + 1\<rparr>)"
    "load_is (Some (OImm m)) ret new" "i_value m = v"
proof -
  from assms obtain m where m: "immediate v None [] = Inr m" "i_value m = v" by (rule immediate_ok)
  show thesis
    using m by (intro that [of _ m]) (auto simp: load_const_def load_inst_def new_inst_def load_is_def Let_def)
qed

text \<open>The registers of a declaration know it.\<close>

definition decl_ok :: "wstate \<Rightarrow> nat \<Rightarrow> bool" where
  "decl_ok w d = (d < length (w_decls w) \<and> (\<forall>r\<in>set (d_regs (w_decls w ! d)). r_decl r = Some d))"

lemma decl_ok_inst [simp]: "decl_ok (w\<lparr>w_inst := n\<rparr>) d = decl_ok w d"
  by (simp add: decl_ok_def)

lemma decl_ok_addReg:
  assumes "decl_ok w d" "r_decl r = Some d"
  shows "decl_ok (addReg d r w) d" "d_regs (w_decls (addReg d r w) ! d) \<noteq> []"
  using assms by (auto simp: decl_ok_def addReg_def Let_def)

lemma curReg_decl:
  assumes "decl_ok w d" "d_regs (w_decls w ! d) \<noteq> []"
  obtains t where "curReg (w_decls w ! d) = Some t" "r_decl t = Some d"
  using assms by (auto simp: curReg_def decl_ok_def intro: that)

lemma getTempRegister_ok:
  assumes "decl_ok w d" "getTempRegister d w = (t, w')"
  shows "decl_ok w' d" "d_regs (w_decls w' ! d) \<noteq> []" "r_decl t = Some d"
proof -
  have "decl_ok (w\<lparr>w_reg := n\<rparr>) d" for n using assms(1) by (simp add: decl_ok_def)
  then show "decl_ok w' d" "d_regs (w_decls w' ! d) \<noteq> []" "r_decl t = Some d"
    using assms(2) decl_ok_addReg [of "w\<lparr>w_reg := w_reg w + 1\<rparr>" d "temp_register (w_reg w + 1) d (w_decls w ! d)"]
    by (auto simp: getTempRegister_def Let_def temp_register_def)
qed

lemma getTempRegister_obtain:
  assumes "decl_ok w d"
  obtains t c w' where "getTempRegister d w = (t, w')" "r_decl t = Some d" "decl_ok w' d"
    "curReg (w_decls w' ! d) = Some c" "r_decl c = Some d"
proof -
  obtain t w' where t: "getTempRegister d w = (t, w')" by fastforce
  from getTempRegister_ok [OF assms t] curReg_decl [of w' d] t that show thesis by metis
qed

text \<open>Every virtual register of the declaration \<open>d\<close> is in the physical register \<open>X\<close>.\<close>

definition one_register :: "(wreg \<Rightarrow> string) \<Rightarrow> nat \<Rightarrow> string \<Rightarrow> bool" where
  "one_register alloc d X = (\<forall>r. r_decl r = Some d \<longrightarrow> alloc r = X)"

lemma one_registerD [simp]: "one_register alloc d X \<Longrightarrow> r_decl r = Some d \<Longrightarrow> alloc r = X"
  by (simp add: one_register_def)

lemma inst_getDecl_ok:
  assumes "n_ret i = Some r" "r_decl r = Some d" "decl_ok w d"
  obtains c w' where "inst_getDecl i w = Inr (d, w')" "decl_ok w' d" "curReg (w_decls w' ! d) = Some c"
    "r_decl c = Some d"
  using assms getTempRegister_obtain [OF assms(3)] by (auto simp: inst_getDecl_def ret_of_def) (metis snd_conv that)

text \<open>\<open>0 - x\<close>, in code: the zero overwrites an operand that is in the same register.\<close>

lemma negated_ok:
  assumes "curReg (w_decls w ! d) = Some c" "n_ret i = Some r"
  obtains new w' where "negated d i (Some (OReg a)) w = Inr (new, w')"
    "\<And>alloc s. run alloc new s = Inr (s(alloc c := 0, alloc r := - (s(alloc c := 0)) (alloc a)))"
proof -
  obtain m zero where z: "load_const i 0 (Some c) w = Inr (zero, w\<lparr>w_inst := w_inst w + 1\<rparr>)"
    "load_is (Some (OImm m)) (Some c) zero" "i_value m = 0"
    by (rule load_const_ok [of 0]) auto
  define w1 where "w1 = w\<lparr>w_inst := w_inst w + 1\<rparr>"
  obtain sub where s: "binary_inst (Arith ISUBTRACTION) (n_dtype i) (Some (OReg c)) (Some (OReg a)) (Some r) (n_ctx i) w1
      = Inr (sub, w1\<lparr>w_inst := w_inst w1 + 1\<rparr>)"
    "ops_are (Arith ISUBTRACTION) (Some (OReg c)) (Some (OReg a)) (Some r) sub"
    by (rule binary_inst_ok [of "Arith ISUBTRACTION"]) auto
  have "run alloc [zero, sub] s = Inr (s(alloc c := 0, alloc r := - (s(alloc c := 0)) (alloc a)))" for alloc s
  proof -
    have "run alloc [zero] s = Inr (s(alloc c := 0))"
      by (simp add: run_load_imm [OF z(2)] z(3) simm21_eq rmap_def)
    then show ?thesis
      by (simp add: run_Cons run_arith_reg [OF s(2)] isFP_def exec_reg_def rmap_def)
  qed
  moreover have "negated d i (Some (OReg a)) w = Inr ([zero, sub], w1\<lparr>w_inst := w_inst w1 + 1\<rparr>)"
    using assms z s(1) by (simp add: negated_def w1_def load_is_def)
  ultimately show thesis using that by blast
qed

section \<open>An example\<close>

text \<open>
  Two variables of 64 bits in the registers X16 and X17, and an instruction that computes the
  first one from the second one and a constant
\<close>

definition demo_reg :: "int \<Rightarrow> nat \<Rightarrow> wreg" where
  "demo_reg n d = \<lparr>r_num = n, r_type = gpr, r_dtype = i64, r_quals = [signed_q], r_decl = Some d, r_temp = False,
                   r_init = True\<rparr>"

definition demo_imm :: "int \<Rightarrow> wimm" where
  "demo_imm v = \<lparr>i_orig = v, i_value = v, i_dtype = i64, i_quals = [signed_q], i_loop = False\<rparr>"

definition demo_inst :: "wclass \<Rightarrow> wtype \<Rightarrow> wqual list \<Rightarrow> nat \<Rightarrow> int \<Rightarrow> winst" where
  "demo_inst k t quals d v =
     \<lparr>n_id = 0, n_class = k, n_dtype = t, n_quals = quals, n_ops = [Some (OReg (demo_reg (int d) d)), Some (OImm (demo_imm v))],
      n_ret = Some (demo_reg 0 0), n_ctx = \<lparr>c_scopes = [0], c_params = [], c_events = []\<rparr>\<rparr>"

definition demo_decl :: "nat \<Rightarrow> wdecl" where
  "demo_decl d = \<lparr>d_name = ''x'' @ py_str (int d), d_dtype = i64, d_quals = [signed_q], d_regs = [demo_reg (int d) d],
                  d_init = True, d_temp = False\<rparr>"

definition demo_state :: wstate where
  "demo_state = \<lparr>w_reg = 1, w_inst = 1, w_decls = [demo_decl 0, demo_decl 1], w_scopes = [[0, 1]], w_globals = [],
                 w_branches = []\<rparr>"

definition demo_alloc :: "wreg \<Rightarrow> string" where
  "demo_alloc r = (if r_decl r = Some 0 then ''X16'' else ''X17'')"

lemma demo [simp]:
  "n_class (demo_inst k t q d v) = k" "left_op (demo_inst k t q d v) = Some (OReg (demo_reg (int d) d))"
  "right_op (demo_inst k t q d v) = Some (OImm (demo_imm v))" "n_ret (demo_inst k t q d v) = Some (demo_reg 0 0)"
  "n_quals (demo_inst k t q d v) = q" "n_dtype (demo_inst k t q d v) = t" "r_decl (demo_reg n d) = Some d"
  "i_value (demo_imm v) = v" "decl_ok demo_state 0" "one_register demo_alloc 0 ''X16''"
  "demo_alloc (demo_reg n d) = (if d = 0 then ''X16'' else ''X17'')"
  by (simp_all add: demo_inst_def demo_reg_def demo_imm_def demo_state_def demo_decl_def demo_alloc_def left_op_def
      right_op_def decl_ok_def one_register_def)

end
