(* ===== verification/Udw_Mul.thy ===== *)
theory Udw_Mul imports Udw_Runs begin

text \<open>
  Multiplications by a constant: what the code of \<open>optimizeMulI\<close> computes.
\<close>

unbundle bit_operations_syntax

definition register_and_immediate :: "winst \<Rightarrow> wreg \<Rightarrow> wimm \<Rightarrow> bool" where
  "register_and_immediate i a m =
     (left_op i = Some (OReg a) \<and> right_op i = Some (OImm m) \<or>
      left_op i = Some (OImm m) \<and> right_op i = Some (OReg a))"

lemma register_and_immediateD:
  "register_and_immediate i a m \<Longrightarrow> mul_immediate i = Some m \<and> other_operand i = Some (OReg a)"
  by (auto simp: register_and_immediate_def mul_immediate_def other_operand_def)

text \<open>Registers with one number are one register.\<close>

definition alloc_ok :: "(wreg \<Rightarrow> string) \<Rightarrow> bool" where
  "alloc_ok alloc = (\<forall>a b. same_reg a b \<longrightarrow> alloc a = alloc b)"

lemma word_of_power: "word_of_int (2 ^ k) = (2 ^ k :: 64 word)"
  by simp

lemma word_mult_power: "push_bit k x = x * word_of_int (2 ^ k)" for x :: "64 word"
  by (simp add: push_bit_eq_mult)

lemma not_special_power: "1 \<le> k \<Longrightarrow> (2 ^ k :: int) \<noteq> 0 \<and> (2 ^ k :: int) \<noteq> 1 \<and> (2 ^ k :: int) \<noteq> -1"
proof -
  assume "1 \<le> k"
  then have "(2 :: int) ^ 1 \<le> 2 ^ k" by (rule power_increasing) simp
  then show ?thesis by simp
qed

text \<open>C17: A multiplication by 0 or by a power of two below 2^64, on either side, is replaced by a move or a
  shift, and the code of the replacement leaves the product modulo 2^64 in the result register, also
  when the result replaces the operand.\<close>

theorem product_by_constant:
  assumes "n_class i = Arith IMULT" "register_and_immediate i a m" "n_ret i = Some r" "r_decl r = Some d"
    and "decl_ok w d" "alloc_ok alloc" "i_value m = 0 \<or> (\<exists>k<64. i_value m = 2 ^ k)"
  shows "\<exists>new w'. optimizeMulI i index w insts = rewritten index new insts w' \<and>
           (\<forall>s. run alloc new s = Inr (s(alloc r := s (alloc a) * word_of_int (i_value m))))"
proof -
  note ops = register_and_immediateD [OF assms(2)]
  consider "i_value m = 0" | "i_value m = 1" | k where "1 \<le> k" "k < 64" "i_value m = 2 ^ k"
    using assms(7) by (metis One_nat_def Suc_leI gr0I power_0)
  then show ?thesis
  proof cases
    case 1
    obtain z new where new: "load_const i 0 (Some r) w = Inr (new, w\<lparr>w_inst := w_inst w + 1\<rparr>)"
      "load_is (Some (OImm z)) (Some r) new" "i_value z = 0"
      by (rule load_const_ok [of 0]) auto
    have "run alloc [new] s = Inr (s(alloc r := 0))" for s
      by (simp add: run_load_imm [OF new(2)] new(3) simm21_eq rmap_def)
    then show ?thesis using assms(1,3) ops new(1) 1 by (auto simp: optimizeMulI_def rewritten_def)
  next
    case 2
    show ?thesis
    proof (cases "same_reg a r")
      case True
      then have "alloc a = alloc r" using assms(6) by (simp add: alloc_ok_def)
      then have "run alloc [] s = Inr (s(alloc r := s (alloc a)))" for s by simp
      then show ?thesis using assms(1,3) ops 2 True
        by (auto simp: optimizeMulI_def rewritten_def operand_is_ret_def ret_of_def rmap_def)
    next
      case False
      define new where "new = fst (load_inst (n_dtype i) (Some (OReg a)) (Some r) (n_ctx i) w)"
      have new: "load_is (Some (OReg a)) (Some r) new"
        by (simp add: new_def load_inst_def new_inst_def load_is_def)
      have "run alloc [new] s = Inr (s(alloc r := s (alloc a)))" for s
        by (simp add: run_load_reg [OF new] exec_imm_def simm16_eq rmap_def)
      moreover obtain w' where "load_inst (n_dtype i) (Some (OReg a)) (Some r) (n_ctx i) w = (new, w')"
        by (simp add: new_def load_inst_def new_inst_def)
      ultimately show ?thesis using assms(1,3) ops 2 False
        by (auto simp: optimizeMulI_def rewritten_def operand_is_ret_def ret_of_def rmap_def)
    qed
  next
    case 3
    obtain c w1 where w1: "inst_getDecl i w = Inr (d, w1)"
      using inst_getDecl_ok [OF assms(3-5)] by metis
    obtain x new where new: "bitwise_const i SHFTLFT (Some (OReg a)) (int k) None w1
        = Inr (new, w1\<lparr>w_inst := w_inst w1 + 1\<rparr>)"
      "ops_are (Bitwise SHFTLFT) (Some (OReg a)) (Some (OImm x)) None new" "i_value x = int k"
      by (rule bitwise_const_ok [of "int k"]) (use 3 in auto)
    have "ops_are (Bitwise SHFTLFT) (Some (OReg a)) (Some (OImm x)) (Some r) (new\<lparr>n_ret := Some r\<rparr>)"
      using new(2) by (simp add: ops_are_def)
    then have "run alloc [new\<lparr>n_ret := Some r\<rparr>] s = Inr (s(alloc r := s (alloc a) * word_of_int (2 ^ k)))" for s
      using 3 by (simp add: run_bitwise_imm new(3) exec_imm_shifts rmap_def word_mult_power)
    moreover have "isPowerOfTwo \<bar>2 ^ k\<bar>" using isPowerOfTwo_iff [of "2 ^ k"] by auto
    ultimately show ?thesis using assms(1,3) ops 3 w1 new(1) not_special_power [of k]
      by (auto simp: optimizeMulI_def rewritten_def)
  qed
qed

theorem product_by_constant_witness:
  "\<exists>new w'. optimizeMulI (demo_inst (Arith IMULT) i64 [signed_q] 1 8) 0 demo_state [] = rewritten 0 new [] w' \<and>
     (\<forall>s. run (\<lambda>r. if r_num r = 1 then ''X17'' else ''X16'') new s
        = Inr (s(''X16'' := s ''X17'' * word_of_int 8)))"
  using product_by_constant [of "demo_inst (Arith IMULT) i64 [signed_q] 1 8" "demo_reg 1 1" "demo_imm 8" "demo_reg 0 0" 0
      demo_state "\<lambda>r. if r_num r = 1 then ''X17'' else ''X16''"]
    exI [of "\<lambda>k. k < 64 \<and> 2 ^ k = (8 :: int)" 3]
  by (simp add: register_and_immediate_def alloc_ok_def same_reg_def demo_reg_def)

lemma negated_product_is_zero:
  assumes "n_class i = Arith IMULT" "register_and_immediate i a m" "n_ret i = Some r" "r_decl r = Some d"
    and "decl_ok w d" "one_register alloc d X" "i_value m = - (2 ^ k)" "1 \<le> k" "k < 64"
  shows "\<exists>new w'. optimizeMulI i index w insts = rewritten index new insts w' \<and>
           (\<forall>s. run alloc new s = Inr (s(X := 0)))"
proof -
  note ops = register_and_immediateD [OF assms(2)]
  obtain c w1 where w1: "inst_getDecl i w = Inr (d, w1)" "decl_ok w1 d" "curReg (w_decls w1 ! d) = Some c"
    "r_decl c = Some d"
    using inst_getDecl_ok [OF assms(3-5)] by metis
  define w2 where "w2 = w1\<lparr>w_inst := w_inst w1 + 1\<rparr>"
  obtain x sh where sh: "bitwise_const i SHFTLFT (Some (OReg a)) (int k) None w1 = Inr (sh, w2)"
    "ops_are (Bitwise SHFTLFT) (Some (OReg a)) (Some (OImm x)) None sh" "i_value x = int k"
    unfolding w2_def by (rule bitwise_const_ok [of "int k"]) (use assms in auto)
  have "decl_ok w2 d" "w_decls w2 = w_decls w1" using w1(2) by (simp_all add: w2_def)
  then obtain t w3 e where t: "getTempRegister d w2 = (t, w3)" "curReg (w_decls w3 ! d) = Some e" "r_decl e = Some d"
    using getTempRegister_obtain [of w2 d] by metis
  obtain ns w4 where ns: "negated d i (Some (OReg c)) w3 = Inr (ns, w4)"
    "\<And>alloc s. run alloc ns s = Inr (s(alloc e := 0, alloc r := - (s(alloc e := 0)) (alloc c)))"
    by (rule negated_ok [OF t(2) assms(3)]) blast
  have "ops_are (Bitwise SHFTLFT) (Some (OReg a)) (Some (OImm x)) (Some c) (sh\<lparr>n_ret := Some c\<rparr>)"
    using sh(2) by (simp add: ops_are_def)
  then have "run alloc (sh\<lparr>n_ret := Some c\<rparr> # ns) s = Inr (s(X := 0))" for s
    using assms w1(4) t(3) by (simp add: run_Cons run_bitwise_imm sh(3) exec_imm_shifts rmap_def ns(2))
  moreover have "isPowerOfTwo \<bar>- (2 ^ k)\<bar>" using isPowerOfTwo_iff [of "- (2 ^ k)"] by auto
  moreover have "- (2 ^ k) < (0 :: int)" by simp
  ultimately show ?thesis
    using assms(1,3,7) ops w1(1,3) sh(1) t(1) ns(1) not_special_power [OF assms(8)] \<open>w_decls w2 = w_decls w1\<close>
    by (intro exI [of _ "sh\<lparr>n_ret := Some c\<rparr> # ns"] exI [of _ w4])
      (simp add: optimizeMulI_def rewritten_def Let_def)
qed

lemma product_by_minus_one:
  assumes "n_class i = Arith IMULT" "register_and_immediate i a m" "n_ret i = Some r" "r_decl r = Some d"
    and "decl_ok w d" "one_register alloc d X" "i_value m = -1"
  shows "\<exists>new w'. optimizeMulI i index w insts = rewritten index new insts w' \<and>
           (\<forall>s. run alloc new s = Inr (s(X := if alloc a = X then 0 else - s (alloc a))))"
proof -
  note ops = register_and_immediateD [OF assms(2)]
  obtain c w1 where w1: "inst_getDecl i w = Inr (d, w1)" "curReg (w_decls w1 ! d) = Some c" "r_decl c = Some d"
    using inst_getDecl_ok [OF assms(3-5)] by metis
  obtain ns w2 where ns: "negated d i (Some (OReg a)) w1 = Inr (ns, w2)"
    "\<And>alloc s. run alloc ns s = Inr (s(alloc c := 0, alloc r := - (s(alloc c := 0)) (alloc a)))"
    by (rule negated_ok [OF w1(2) assms(3)]) blast
  have "run alloc ns s = Inr (s(X := if alloc a = X then 0 else - s (alloc a)))" for s
    using assms(4,6) w1(3) by (simp add: ns(2))
  then show ?thesis using assms(1,3,7) ops w1(1) ns(1)
    by (intro exI [of _ ns] exI [of _ w2]) (simp add: optimizeMulI_def rewritten_def Let_def)
qed

text \<open>C30: A multiplication by \<open>-(2^k)\<close> is replaced by code that leaves 0 in the result register: the
  shift writes the register of the declaration, and the zero that is to be negated from is loaded
  into the same register before the subtraction. Only for the factor -1 and an operand in another
  register is the result the product.\<close>

theorem negative_factor:
  assumes "n_class i = Arith IMULT" "register_and_immediate i a m" "n_ret i = Some r" "r_decl r = Some d"
    and "decl_ok w d" "one_register alloc d X" "i_value m = - (2 ^ k)" "k < 64"
  shows "\<exists>new w'. optimizeMulI i index w insts = rewritten index new insts w' \<and>
           (\<forall>s. run alloc new s = Inr (s(X := if k = 0 \<and> alloc a \<noteq> X then - s (alloc a) else 0)))"
proof (cases "k = 0")
  case True
  then have "i_value m = -1" using assms(7) by simp
  moreover have e: "(if k = 0 \<and> alloc a \<noteq> X then - s (alloc a) else 0) = (if alloc a = X then 0 else - s (alloc a))" for s
    using True by simp
  ultimately show ?thesis unfolding e using product_by_minus_one [OF assms(1-6)] by blast
next
  case False
  then show ?thesis using negated_product_is_zero [OF assms(1-7)] assms(8) by simp
qed

theorem negative_factor_witness:
  "\<exists>new w'. optimizeMulI (demo_inst (Arith IMULT) i64 [signed_q] 1 (-8)) 0 demo_state [] = rewritten 0 new [] w' \<and>
     (\<forall>s. run demo_alloc new s = Inr (s(''X16'' := 0)))"
  using negative_factor [of "demo_inst (Arith IMULT) i64 [signed_q] 1 (-8)" "demo_reg 1 1" "demo_imm (-8)" "demo_reg 0 0" 0
      demo_state demo_alloc "''X16''" 3]
  by (simp add: register_and_immediate_def)

end
