(* ===== verification/Udw_Div.thy ===== *)
theory Udw_Div imports Udw_Runs begin

text \<open>
  Divisions by a power of two: what the code of \<open>optimizeDivI\<close> computes, on types of every width.
\<close>

unbundle bit_operations_syntax

lemma sint_range64: "- (2 ^ 63) \<le> sint x" "sint x < 2 ^ 63" for x :: "64 word"
  using sint_ge [of x] sint_lt [of x] by simp_all

lemma sint_word_of_int64: "- (2 ^ 63) \<le> v \<Longrightarrow> v < 2 ^ 63 \<Longrightarrow> sint (word_of_int v :: 64 word) = v"
  by (simp add: sint_sbintrunc' signed_take_bit_int_eq_self)

lemma sint_eqD: "sint x = v \<Longrightarrow> x = word_of_int v" for x :: "64 word"
  by auto

lemma sint_signed_drop_bit: "sint (signed_drop_bit k x) = sint x div 2 ^ k" for x :: "64 word"
  by (simp only: sint_signed_drop_bit_eq drop_bit_eq_div)

text \<open>The values of a signed type of \<open>n\<close> bits\<close>

definition in_type :: "nat \<Rightarrow> 64 word \<Rightarrow> bool" where
  "in_type n x = (- (2 ^ (n - 1)) \<le> sint x \<and> sint x < 2 ^ (n - 1))"

lemma sign_word: "in_type n x \<Longrightarrow> signed_drop_bit (n - 1) x = (if sint x < 0 then - 1 else 0)"
proof -
  assume n: "in_type n x"
  have "sint x div 2 ^ (n - 1) = (if sint x < 0 then - 1 else 0)"
  proof (cases "sint x < 0")
    case True
    have "sint x div 2 ^ (n - 1) = - 1"
      by (rule int_div_pos_eq [of _ _ _ "sint x + 2 ^ (n - 1)"]) (use True n in \<open>simp_all add: in_type_def\<close>)
    then show ?thesis using True by simp
  qed (use n in \<open>simp add: in_type_def\<close>)
  then show ?thesis using sint_eqD [of "signed_drop_bit (n - 1) x"] unfolding sint_signed_drop_bit
    by (cases "sint x < 0") (simp_all only: if_True if_False, simp_all)
qed

lemma low_ones: "j \<le> 64 \<Longrightarrow> drop_bit j (- 1 :: 64 word) = mask (64 - j)"
  by (rule bit_eqI) (auto simp: bit_simps)

definition remainder_mask :: "nat \<Rightarrow> nat \<Rightarrow> 64 word \<Rightarrow> 64 word" where
  "remainder_mask n k x = drop_bit (n - k) (signed_drop_bit (n - 1) x)"

lemma remainder_mask_eq:
  assumes "in_type n x" "n \<le> 64" "k \<le> n"
  shows "remainder_mask n k x = word_of_int (if sint x < 0 then 2 ^ (64 - n + k) - 1 else 0)"
proof -
  have "(mask (64 - n + k) :: 64 word) = word_of_int (2 ^ (64 - n + k) - 1)" by (simp add: mask_eq_exp_minus_1)
  moreover have "64 - (n - k) = 64 - n + k" using assms by simp
  ultimately show ?thesis using assms low_ones [of "n - k"] unfolding remainder_mask_def sign_word [OF assms(1)]
    by (cases "sint x < 0") simp_all
qed

lemma rounding:
  assumes "in_type n x" "n \<le> 64" "k < n - 1"
  shows "sint (remainder_mask n k x + x) = sint x + (if sint x < 0 then 2 ^ (64 - n + k) - 1 else 0)"
proof -
  have eq: "remainder_mask n k x + x = word_of_int (sint x + (if sint x < 0 then 2 ^ (64 - n + k) - 1 else 0))"
    using assms by (simp add: remainder_mask_eq)
  have "(2 :: int) ^ (64 - n + k) \<le> 2 ^ 63" "(1 :: int) \<le> 2 ^ (64 - n + k)"
    using assms power_increasing [of "64 - n + k" 63 "2 :: int"] by auto
  moreover note sint_range64 [of x]
  ultimately show ?thesis
    unfolding eq by (intro sint_word_of_int64) (cases "sint x < 0"; simp only: if_True if_False; linarith)+
qed

lemma neg_div_up: "0 < d \<Longrightarrow> - ((- x) div d) = (x + d - 1) div d" for x :: int
proof -
  assume d: "0 < d"
  have "x + d - 1 = d * - ((- x) div d) + (d - 1 - (- x) mod d)"
    using mult_div_mod_eq [of d "- x"] by (simp add: algebra_simps)
  then have "(x + d - 1) div d = - ((- x) div d)"
    by (rule int_div_pos_eq) (use d pos_mod_bound [of d "- x"] pos_mod_sign [of d "- x"] in linarith)+
  then show ?thesis by simp
qed

lemma sdiv_power: "x sdiv 2 ^ k = (x + (if x < 0 then 2 ^ k - 1 else 0)) div 2 ^ k" for x :: int
  using neg_div_up [of "2 ^ k" x] by (simp add: signed_divide_int_def sgn_if algebra_simps)

definition signed_type :: "winst \<Rightarrow> nat \<Rightarrow> bool" where
  "signed_type i n = (isSigned (n_quals i) \<and> (\<exists>b. getSize (n_dtype i) = Inr (int b) \<and> n = 8 * b \<and> b \<le> 8))"

lemma getRemainder_ok:
  assumes "decl_ok w d" "curReg (w_decls w ! d) = Some c" "r_decl c = Some d" "left_op i = Some (OReg a)"
    and "getSize (n_dtype i) = Inr (int b)" "8 * b \<le> 64" "1 \<le> k" "k < 8 * b" "log2 v = int k"
    and "one_register alloc d X"
  obtains "is" w' where "getRemainder d i v w = Inr (is, w')" "decl_ok w' d" "d_regs (w_decls w' ! d) \<noteq> []"
    "\<And>s. run alloc is s = Inr (s(X := remainder_mask (8 * b) k (s (alloc a)) +
                 (if alloc a = X then remainder_mask (8 * b) k (s X) else s (alloc a))))"
proof -
  define w1 where "w1 = w\<lparr>w_inst := w_inst w + 1\<rparr>"
  define w2 where "w2 = w1\<lparr>w_inst := w_inst w1 + 1\<rparr>"
  obtain m1 sg where sg: "bitwise_const i ASHFTRGT (Some (OReg a)) (int b * 8 - 1) (Some c) w = Inr (sg, w1)"
    "ops_are (Bitwise ASHFTRGT) (Some (OReg a)) (Some (OImm m1)) (Some c) sg" "i_value m1 = int b * 8 - 1"
    unfolding w1_def by (rule bitwise_const_ok [of "int b * 8 - 1"]) (use assms in auto)
  obtain m2 mk where mk: "bitwise_const i LSHFTRGT (Some (OReg c)) (int b * 8 - int k) None w1 = Inr (mk, w2)"
    "ops_are (Bitwise LSHFTRGT) (Some (OReg c)) (Some (OImm m2)) None mk" "i_value m2 = int b * 8 - int k"
    unfolding w2_def by (rule bitwise_const_ok [of "int b * 8 - int k"]) (use assms in auto)
  have "decl_ok w2 d" using assms(1) by (simp add: w2_def w1_def)
  then obtain t w3 where t: "getTempRegister d w2 = (t, w3)" "r_decl t = Some d" "decl_ok w3 d"
    using getTempRegister_obtain by metis
  define w4 where "w4 = w3\<lparr>w_inst := w_inst w3 + 1\<rparr>"
  obtain ad where ad: "binary_inst (Arith IADDITION) (n_dtype i) (Some (OReg t)) (Some (OReg a)) None (n_ctx i) w3
      = Inr (ad, w4)" "ops_are (Arith IADDITION) (Some (OReg t)) (Some (OReg a)) None ad"
    unfolding w4_def by (rule binary_inst_ok [of "Arith IADDITION"]) auto
  have "decl_ok w4 d" using t(3) by (simp add: w4_def)
  then obtain u w5 where u: "getTempRegister d w4 = (u, w5)" "r_decl u = Some d" "decl_ok w5 d"
    "d_regs (w_decls w5 ! d) \<noteq> []"
    using getTempRegister_ok [of w4 d] by (metis surj_pair)
  let ?is = "[sg, mk\<lparr>n_ret := Some t\<rparr>, ad\<lparr>n_ret := Some u\<rparr>]"
  have "getRemainder d i v w = Inr (?is, w5)"
    using assms sg mk t(1) ad u(1) by (simp add: getRemainder_def ops_are_def algebra_simps)
  moreover have "run alloc ?is s = Inr (s(X := remainder_mask (8 * b) k (s (alloc a)) +
      (if alloc a = X then remainder_mask (8 * b) k (s X) else s (alloc a))))" for s
  proof -
    have i1: "int b * 8 - 1 = int (8 * b - 1)" and i2: "int b * 8 - int k = int (8 * b - k)"
      using assms(7,8) by linarith+
    have regs: "alloc c = X" "alloc t = X" "alloc u = X" using assms(3,10) t(2) u(2) by auto
    have 1: "run alloc [sg] s = Inr (s(X := signed_drop_bit (8 * b - 1) (s (alloc a))))"
      unfolding run_bitwise_imm [OF sg(2), of "''sari''", simplified] sg(3) i1 regs
      by (subst exec_imm_shifts) (use assms(6-8) in \<open>simp_all add: rmap_def\<close>)
    have mk2: "ops_are (Bitwise LSHFTRGT) (Some (OReg c)) (Some (OImm m2)) (Some t) (mk\<lparr>n_ret := Some t\<rparr>)"
      using mk(2) by (simp add: ops_are_def)
    have 2: "run alloc [mk\<lparr>n_ret := Some t\<rparr>] s' = Inr (s'(X := drop_bit (8 * b - k) (s' X)))" for s'
      unfolding run_bitwise_imm [OF mk2, of "''sri''", simplified] mk(3) i2 regs
      by (subst exec_imm_shifts) (use assms(6-8) in \<open>simp_all add: rmap_def\<close>)
    have ad2: "ops_are (Arith IADDITION) (Some (OReg t)) (Some (OReg a)) (Some u) (ad\<lparr>n_ret := Some u\<rparr>)"
      using ad(2) by (simp add: ops_are_def)
    have 3: "run alloc [ad\<lparr>n_ret := Some u\<rparr>] s' = Inr (s'(X := s' X + s' (alloc a)))" for s'
      using run_arith_reg [OF ad2, of "''add''"] by (simp add: isFP_def exec_reg_def rmap_def regs)
    show ?thesis by (auto simp: run_Cons 1 2 3 remainder_mask_def)
  qed
  ultimately show thesis using that u(3,4) by blast
qed

lemma division_run:
  assumes "n_class i = Arith IDIVIDE" "left_op i = Some (OReg a)" "right_op i = Some (OImm m)" "n_ret i = Some r"
    and "r_decl r = Some d" "decl_ok w d" "one_register alloc d X" "signed_type i n"
    and "i_value m = 2 ^ k" "1 \<le> k" "k < n"
  obtains new w' where "optimizeDivI i index w insts = rewritten index new insts w'"
    "\<And>s. run alloc new s = Inr (s(X := signed_drop_bit k (remainder_mask n k (s (alloc a)) +
            (if alloc a = X then remainder_mask n k (s X) else s (alloc a)))))"
proof -
  obtain b where b: "getSize (n_dtype i) = Inr (int b)" "n = 8 * b" "b \<le> 8"
    using assms(8) by (auto simp: signed_type_def)
  obtain c w1 where w1: "inst_getDecl i w = Inr (d, w1)" "decl_ok w1 d" "curReg (w_decls w1 ! d) = Some c"
    "r_decl c = Some d"
    using inst_getDecl_ok [OF assms(4-6)] by metis
  obtain "is" w2 where rem: "getRemainder d i (2 ^ k) w1 = Inr (is, w2)"
    "\<And>s. run alloc is s = Inr (s(X := remainder_mask n k (s (alloc a)) +
                 (if alloc a = X then remainder_mask n k (s X) else s (alloc a))))"
    using getRemainder_ok [OF w1(2-4) assms(2) b(1), where k = k and v = "2 ^ k" and alloc = alloc and X = X]
      b assms by auto metis
  obtain x dv where dv: "bitwise_const i ASHFTRGT (Some (OReg r)) (int k) None w2
      = Inr (dv, w2\<lparr>w_inst := w_inst w2 + 1\<rparr>)"
    "ops_are (Bitwise ASHFTRGT) (Some (OReg r)) (Some (OImm x)) None dv" "i_value x = int k"
    by (rule bitwise_const_ok [of "int k"]) (use assms(11) b in auto)
  have dv2: "ops_are (Bitwise ASHFTRGT) (Some (OReg r)) (Some (OImm x)) (Some r) (dv\<lparr>n_ret := Some r\<rparr>)"
    using dv(2) by (simp add: ops_are_def)
  have k: "k < 64" using assms(11) b by simp
  have r: "alloc r = X" using assms(5,7) by simp
  have "run alloc [dv\<lparr>n_ret := Some r\<rparr>] s = Inr (s(X := signed_drop_bit k (s X)))" for s
    using exec_imm_shifts(3) [OF k] run_bitwise_imm [OF dv2, of "''sari''"] dv(3) r by (simp add: rmap_def)
  then have run: "run alloc (is @ [dv\<lparr>n_ret := Some r\<rparr>]) s = Inr (s(X := signed_drop_bit k (remainder_mask n k (s (alloc a)) +
            (if alloc a = X then remainder_mask n k (s X) else s (alloc a)))))" for s
    by (simp only: run_append [OF rem(2)]) simp
  have p: "isPowerOfTwo \<bar>2 ^ k\<bar>" using isPowerOfTwo_iff [of "2 ^ k"] by auto
  have "(2 :: int) ^ 1 \<le> 2 ^ k" using assms(10) by (rule power_increasing) simp
  then have "optimizeDivI i index w insts = rewritten index (is @ [dv\<lparr>n_ret := Some r\<rparr>]) insts (w2\<lparr>w_inst := w_inst w2 + 1\<rparr>)"
    using assms w1(1) rem(1) dv(1) p
    by (simp add: optimizeDivI_def rewritten_def signed_division_def signed_type_def)
  then show thesis using run by (rule that)
qed

text \<open>C22: A signed 64-bit division by \<open>2^k\<close> into another register is replaced by shifts and an addition
  whose result is the quotient truncated towards 0, for every dividend.\<close>

theorem signed_division_truncates:
  assumes "n_class i = Arith IDIVIDE" "left_op i = Some (OReg a)" "right_op i = Some (OImm m)" "n_ret i = Some r"
    and "r_decl r = Some d" "decl_ok w d" "one_register alloc d X" "signed_type i 64"
    and "i_value m = 2 ^ k" "1 \<le> k" "k < 63" "alloc a \<noteq> X"
  shows "\<exists>new w'. optimizeDivI i index w insts = rewritten index new insts w' \<and>
           (\<forall>s. \<exists>t. run alloc new s = Inr (s(X := t)) \<and> sint t = sint (s (alloc a)) sdiv 2 ^ k)"
proof -
  obtain new w' where new: "optimizeDivI i index w insts = rewritten index new insts w'"
    "\<And>s. run alloc new s = Inr (s(X := signed_drop_bit k (remainder_mask 64 k (s (alloc a)) +
            (if alloc a = X then remainder_mask 64 k (s X) else s (alloc a)))))"
    by (rule division_run [OF assms(1-10)]) (use assms(11) in auto)
  have "in_type 64 x" for x using sint_range64 [of x] by (simp add: in_type_def)
  then have "sint (signed_drop_bit k (remainder_mask 64 k x + x)) = sint x sdiv 2 ^ k" for x
    using rounding [of 64 x k] assms(11) by (simp add: sint_signed_drop_bit sdiv_power)
  then show ?thesis using new assms(12) by auto
qed

text \<open>C29: For a signed type of less than 64 bits the same code shifts by the width of the type, although
  the registers have 64 bits: a negative dividend of that type gives a positive result.\<close>

theorem narrow_division_of_negatives:
  assumes "n_class i = Arith IDIVIDE" "left_op i = Some (OReg a)" "right_op i = Some (OImm m)" "n_ret i = Some r"
    and "r_decl r = Some d" "decl_ok w d" "one_register alloc d X" "signed_type i n" "n < 64"
    and "i_value m = 2 ^ k" "1 \<le> k" "k < n - 1" "alloc a \<noteq> X"
    and "in_type n (s (alloc a))" "sint (s (alloc a)) < 0"
  shows "\<exists>new w' t. optimizeDivI i index w insts = rewritten index new insts w' \<and>
           run alloc new s = Inr (s(X := t)) \<and> 0 < sint t \<and> sint (s (alloc a)) sdiv 2 ^ k \<le> 0"
proof -
  define x where "x = s (alloc a)"
  obtain new w' where new: "optimizeDivI i index w insts = rewritten index new insts w'"
    "\<And>s. run alloc new s = Inr (s(X := signed_drop_bit k (remainder_mask n k (s (alloc a)) +
            (if alloc a = X then remainder_mask n k (s X) else s (alloc a)))))"
    by (rule division_run [OF assms(1-8,10,11)]) (use assms(12) in auto)
  let ?t = "signed_drop_bit k (remainder_mask n k x + x)"
  have t: "sint ?t = (sint x + (2 ^ (64 - n + k) - 1)) div 2 ^ k"
    using rounding [of n x k] assms x_def by (simp add: sint_signed_drop_bit)
  have "n \<le> 32" using assms(8,9) by (cases "n_dtype i") (auto simp: signed_type_def)
  then have "(2 :: int) ^ (32 + k) \<le> 2 ^ (64 - n + k)" "(2 :: int) ^ (n - 1) \<le> 2 ^ 31"
    by (intro power_increasing; simp)+
  moreover have "(2 :: int) ^ (32 + k) = 4294967296 * 2 ^ k" "(2 :: int) ^ 31 = 2147483648" "(1 :: int) \<le> 2 ^ k" by (simp_all add: power_add)
  moreover have "- (2 ^ (n - 1)) \<le> sint x" using assms(14) by (simp add: in_type_def x_def)
  ultimately have "2 ^ k \<le> sint x + (2 ^ (64 - n + k) - 1)" by linarith
  then have "0 < sint ?t" unfolding t by (simp add: pos_imp_zdiv_pos_iff)
  moreover have "sint x sdiv 2 ^ k \<le> 0"
    using assms(15) zdiv_mono1 [of "sint x + (2 ^ k - 1)" "2 ^ k - 1" "2 ^ k"] by (simp add: sdiv_power x_def)
  ultimately show ?thesis using new assms(13) x_def by fastforce
qed

lemma division_run_negative:
  assumes "n_class i = Arith IDIVIDE" "left_op i = Some (OReg a)" "right_op i = Some (OImm m)" "n_ret i = Some r"
    and "r_decl r = Some d" "decl_ok w d" "one_register alloc d X" "signed_type i n"
    and "i_value m = - (2 ^ k)" "1 \<le> k" "k < n"
  obtains new w' where "optimizeDivI i index w insts = rewritten index new insts w'"
    "\<And>s. run alloc new s = Inr (s(X := 0))"
proof -
  obtain b where b: "getSize (n_dtype i) = Inr (int b)" "n = 8 * b" "b \<le> 8"
    using assms(8) by (auto simp: signed_type_def)
  obtain c w1 where w1: "inst_getDecl i w = Inr (d, w1)" "decl_ok w1 d" "curReg (w_decls w1 ! d) = Some c"
    "r_decl c = Some d"
    using inst_getDecl_ok [OF assms(4-6)] by metis
  obtain "is" w2 where rem: "getRemainder d i (- (2 ^ k)) w1 = Inr (is, w2)" "decl_ok w2 d"
    "\<And>s. \<exists>t. run alloc is s = Inr (s(X := t))"
    using getRemainder_ok [OF w1(2-4) assms(2) b(1), where k = k and v = "- (2 ^ k)" and alloc = alloc and X = X]
      b assms by auto metis
  define w3 where "w3 = w2\<lparr>w_inst := w_inst w2 + 1\<rparr>"
  obtain x dv where dv: "bitwise_const i ASHFTRGT (Some (OReg r)) (int k) None w2 = Inr (dv, w3)"
    "ops_are (Bitwise ASHFTRGT) (Some (OReg r)) (Some (OImm x)) None dv" "i_value x = int k"
    unfolding w3_def by (rule bitwise_const_ok [of "int k"]) (use assms(11) b in auto)
  obtain t w4 where t: "getTempRegister d w3 = (t, w4)" "decl_ok w4 d" "r_decl t = Some d"
    using getTempRegister_obtain [of w3 d] rem(2) by (metis decl_ok_inst w3_def)
  define w5 where "w5 = addReg d t w4"
  have w5: "decl_ok w5 d" "d_regs (w_decls w5 ! d) \<noteq> []"
    unfolding w5_def using decl_ok_addReg [OF t(2,3)] by auto
  obtain e where e: "curReg (w_decls w5 ! d) = Some e" "r_decl e = Some d"
    using curReg_decl [OF w5] by metis
  obtain u w6 f where u: "getTempRegister d w5 = (u, w6)" "curReg (w_decls w6 ! d) = Some f" "r_decl f = Some d"
    using getTempRegister_obtain [OF w5(1)] by metis
  obtain ns w7 where ns: "negated d i (Some (OReg e)) w6 = Inr (ns, w7)"
    "\<And>alloc s. run alloc ns s = Inr (s(alloc f := 0, alloc r := - (s(alloc f := 0)) (alloc e)))"
    by (rule negated_ok [OF u(2) assms(4)]) blast
  have dv2: "ops_are (Bitwise ASHFTRGT) (Some (OReg r)) (Some (OImm x)) (Some e) (dv\<lparr>n_ret := Some e\<rparr>)"
    using dv(2) by (simp add: ops_are_def)
  have k: "k < 64" using assms(11) b by simp
  have regs: "alloc r = X" "alloc e = X" "alloc f = X" using assms(5,7) e u by simp_all
  have "run alloc [dv\<lparr>n_ret := Some e\<rparr>] s = Inr (s(X := signed_drop_bit k (s X)))" for s
    using exec_imm_shifts(3) [OF k] run_bitwise_imm [OF dv2, of "''sari''"] dv(3) regs by (simp add: rmap_def)
  then have "run alloc (dv\<lparr>n_ret := Some e\<rparr> # ns) s = Inr (s(X := 0))" for s
    by (simp add: run_Cons ns(2) regs)
  then have run: "run alloc (is @ dv\<lparr>n_ret := Some e\<rparr> # ns) s = Inr (s(X := 0))" for s
    using rem(3) [of s] by (auto simp: run_append)
  have p: "isPowerOfTwo \<bar>- (2 ^ k)\<bar>" using isPowerOfTwo_iff [of "- (2 ^ k)"] by auto
  have "(2 :: int) ^ 1 \<le> 2 ^ k" "- (2 ^ k) < (0 :: int)" using assms(10) by (rule power_increasing) simp_all
  then have "optimizeDivI i index w insts = rewritten index (is @ dv\<lparr>n_ret := Some e\<rparr> # ns) insts w7"
    using assms w1(1) rem(1) dv(1) p t(1) e u ns(1)
    by (simp add: optimizeDivI_def rewritten_def signed_division_def signed_type_def w5_def)
  then show thesis using run by (rule that)
qed

lemma in_type64: "in_type 64 x"
  using sint_range64 [of x] by (simp add: in_type_def)

lemma doubled_mask:
  assumes "1 \<le> k" "k < 63"
  shows "signed_drop_bit k (remainder_mask 64 k x + remainder_mask 64 k x) = (if sint x < 0 then 1 else 0)"
proof (cases "sint x < 0")
  case True
  have m: "remainder_mask 64 k x + remainder_mask 64 k x = word_of_int (2 ^ (k + 1) - 2)"
    using True assms by (simp add: remainder_mask_eq [OF in_type64])
  have p: "(2 :: int) ^ (k + 1) \<le> 2 ^ 63" using assms by (intro power_increasing) simp_all
  have q: "(2 :: int) ^ 1 \<le> 2 ^ k" using assms(1) by (rule power_increasing) simp
  have "sint (remainder_mask 64 k x + remainder_mask 64 k x) = 2 ^ (k + 1) - 2"
    unfolding m by (rule sint_word_of_int64) (use p q in simp_all)
  moreover have "(2 ^ (k + 1) - 2) div 2 ^ k = (1 :: int)"
    by (rule int_div_pos_eq [of _ _ _ "2 ^ k - 2"]) (use q in simp_all)
  ultimately have "sint (signed_drop_bit k (remainder_mask 64 k x + remainder_mask 64 k x)) = 1"
    by (simp add: sint_signed_drop_bit)
  then show ?thesis using True sint_eqD by fastforce
next
  case False
  then show ?thesis using assms by (simp add: remainder_mask_eq [OF in_type64])
qed

text \<open>C24: When the result of a signed 64-bit division by \<open>2^k\<close>, for \<open>k\<close> from 1 to 62, replaces the
  dividend, the code of the replacement overwrites the dividend first, and the result is 1 for a negative
  dividend and 0 for any other, whatever the quotient is. For a signed 64-bit division by \<open>-(2^k)\<close>, with
  the same \<open>k\<close>, the result is 0 in any register.\<close>

theorem quotient_lost:
  assumes "n_class i = Arith IDIVIDE" "left_op i = Some (OReg a)" "right_op i = Some (OImm m)" "n_ret i = Some r"
    and "r_decl r = Some d" "decl_ok w d" "one_register alloc d X" "signed_type i 64"
    and "i_value m = - (2 ^ k) \<or> i_value m = 2 ^ k \<and> alloc a = X" "1 \<le> k" "k < 63"
  shows "\<exists>new w'. optimizeDivI i index w insts = rewritten index new insts w' \<and>
           (\<forall>s. run alloc new s = Inr (s(X := if 0 < i_value m \<and> sint (s X) < 0 then 1 else 0)))"
  using assms(9)
proof
  assume m: "i_value m = - (2 ^ k)"
  obtain new w' where "optimizeDivI i index w insts = rewritten index new insts w'"
    "\<And>s. run alloc new s = Inr (s(X := 0))"
    by (rule division_run_negative [OF assms(1-8) m assms(10)]) (use assms(11) in auto)
  moreover have "\<not> 0 < - (2 ^ k :: int)" by simp
  ultimately show ?thesis using m by auto
next
  assume m: "i_value m = 2 ^ k \<and> alloc a = X"
  obtain new w' where new: "optimizeDivI i index w insts = rewritten index new insts w'"
    "\<And>s. run alloc new s = Inr (s(X := signed_drop_bit k (remainder_mask 64 k (s (alloc a)) +
            (if alloc a = X then remainder_mask 64 k (s X) else s (alloc a)))))"
    by (rule division_run [OF assms(1-8) conjunct1 [OF m] assms(10)]) (use assms(11) in auto)
  then show ?thesis using m doubled_mask [OF assms(10,11)] by auto
qed


lemma signed_type_demo [simp]: "signed_type (demo_inst k i64 [signed_q] d v) 64" "signed_type (demo_inst k i32 [signed_q] d v) 32"
  by (auto simp: signed_type_def isSigned_def intro: exI [of _ 4])

theorem signed_division_truncates_witness:
  "\<exists>new w'. optimizeDivI (demo_inst (Arith IDIVIDE) i64 [signed_q] 1 8) 0 demo_state [] = rewritten 0 new [] w' \<and>
     (\<forall>s. \<exists>t. run demo_alloc new s = Inr (s(''X16'' := t)) \<and> sint t = sint (s ''X17'') sdiv 2 ^ 3)"
  using signed_division_truncates [of "demo_inst (Arith IDIVIDE) i64 [signed_q] 1 8" "demo_reg 1 1" "demo_imm 8" "demo_reg 0 0" 0
      demo_state demo_alloc "''X16''" 3]
  by simp

theorem narrow_division_of_negatives_witness:
  "\<exists>new w' t. optimizeDivI (demo_inst (Arith IDIVIDE) i32 [signed_q] 1 8) 0 demo_state [] = rewritten 0 new [] w' \<and>
     run demo_alloc new (\<lambda>_. - 100) = Inr ((\<lambda>_. - 100)(''X16'' := t)) \<and> 0 < sint t \<and> sint (- 100 :: 64 word) sdiv 2 ^ 3 \<le> 0"
  using narrow_division_of_negatives [of "demo_inst (Arith IDIVIDE) i32 [signed_q] 1 8" "demo_reg 1 1" "demo_imm 8" "demo_reg 0 0" 0
      demo_state demo_alloc "''X16''" 32 3 "\<lambda>_. - 100"]
  by (simp add: in_type_def)

theorem quotient_lost_witness:
  "\<exists>new w'. optimizeDivI (demo_inst (Arith IDIVIDE) i64 [signed_q] 0 8) 0 demo_state [] = rewritten 0 new [] w' \<and>
     (\<forall>s. run demo_alloc new s = Inr (s(''X16'' := if sint (s ''X16'') < 0 then 1 else 0)))"
  using quotient_lost [of "demo_inst (Arith IDIVIDE) i64 [signed_q] 0 8" "demo_reg 0 0" "demo_imm 8" "demo_reg 0 0" 0
      demo_state demo_alloc "''X16''" 3]
  by simp

end
