(* ===== verification/Udw_Rem.thy ===== *)
theory Udw_Rem imports Udw_Div begin

text \<open>
  Remainders, and quotients of unsigned types: what the code of \<open>optimizeModI\<close> and
  \<open>optimizeDivI\<close> computes.
\<close>

section \<open>Remainders\<close>

lemma exp_le: "k \<le> n \<Longrightarrow> (2 :: int) ^ k \<le> 2 ^ n"
  by (rule power_increasing) simp_all

lemma exp_range:
  assumes "k \<le> 16"
  shows "- (2 ^ 63) \<le> - (2 ^ k :: int)" "- (2 ^ k) < (2 ^ 64 :: int)" "- (2 ^ 63) \<le> (2 ^ k - 1 :: int)"
    "2 ^ k - 1 < (2 ^ 64 :: int)" "0 \<le> (2 ^ k - 1 :: int)" "2 ^ k - 1 < (2 ^ 16 :: int)"
proof -
  obtain p :: int where p: "p = 2 ^ k" "0 < p" "p \<le> 2 ^ 16" using exp_le [OF assms] by simp
  show "- (2 ^ 63) \<le> - (2 ^ k :: int)" "- (2 ^ k) < (2 ^ 64 :: int)" "- (2 ^ 63) \<le> (2 ^ k - 1 :: int)"
    "2 ^ k - 1 < (2 ^ 64 :: int)" "0 \<le> (2 ^ k - 1 :: int)" "2 ^ k - 1 < (2 ^ 16 :: int)"
    unfolding p(1) [symmetric] using p(2,3) by simp_all
qed

unbundle bit_operations_syntax

lemma and_high_low: "x AND (word_of_int (2 ^ n - 2 ^ k)) = take_bit n x - take_bit k x"
  if "k \<le> n" for x :: "64 word"
proof -
  have "(word_of_int (2 ^ n - 2 ^ k) :: 64 word) = mask n - mask k"
    by (simp add: mask_eq_exp_minus_1)
  also have "\<dots> = mask n AND NOT (mask k)"
    by (rule disjunctive_diff_eq_and_not) (use that in \<open>auto simp: bit_eq_iff bit_simps\<close>)
  also have "x AND \<dots> = take_bit n x AND NOT (take_bit k x)"
    by (auto simp: bit_eq_iff bit_simps)
  also have "\<dots> = take_bit n x - take_bit k x"
    by (rule disjunctive_diff_eq_and_not [symmetric]) (use that in \<open>auto simp: bit_eq_iff bit_simps\<close>)
  finally show ?thesis .
qed

lemma word_take_bit: "x = word_of_int v \<Longrightarrow> take_bit n x = word_of_int (v mod 2 ^ n)" for x :: "64 word"
  by (simp only: take_bit_eq_mod [symmetric] take_bit_of_int)

lemma negative_mask:
  assumes "1 \<le> k" "k \<le> 15"
  shows "uimm16 (- (2 ^ k)) = Inr (word_of_int (2 ^ 16 - 2 ^ k))"
proof -
  have "(2 :: int) ^ k \<le> 2 ^ 15" using assms(2) by (rule power_increasing) simp
  then have "- (2 ^ k) mod 2 ^ 15 = (if k = 15 then 0 else 2 ^ 15 - 2 ^ k :: int)"
    using assms power_strict_increasing [of k 15 "2 :: int"] by (auto simp: zmod_zminus1_eq_if)
  then show ?thesis by (subst uimm16_neg) auto
qed

text \<open>C26: A signed 64-bit remainder by \<open>2^k\<close>, for \<open>k\<close> from 1 to 15, into another register than that of
  the dividend is replaced by code that masks with the constant \<open>-(2^k)\<close>; the field of the mask has 16
  bits without a sign, so for a dividend \<open>x\<close> that is not negative the result is
  \<open>x - x mod 2^16 + x mod 2^k\<close>, the remainder only below \<open>2^16\<close>.\<close>

theorem signed_remainder:
  assumes "n_class i = Arith MODULO" "left_op i = Some (OReg a)" "right_op i = Some (OImm m)" "n_ret i = Some r"
    and "r_decl r = Some d" "decl_ok w d" "one_register alloc d X" "signed_type i 64"
    and "i_value m = 2 ^ k" "1 \<le> k" "k \<le> 15" "alloc a \<noteq> X"
  shows "\<exists>new w'. optimizeModI i index w insts = rewritten index new insts w' \<and>
           (\<forall>s. 0 \<le> sint (s (alloc a)) \<longrightarrow> (\<exists>t. run alloc new s = Inr (s(X := t)) \<and>
             sint t = sint (s (alloc a)) - sint (s (alloc a)) mod 2 ^ 16 + sint (s (alloc a)) mod 2 ^ k))"
proof -
  obtain b where b: "getSize (n_dtype i) = Inr (int b)" "64 = 8 * b" "b \<le> 8"
    using assms(8) by (auto simp: signed_type_def)
  obtain c w1 where w1: "inst_getDecl i w = Inr (d, w1)" "decl_ok w1 d" "curReg (w_decls w1 ! d) = Some c"
    "r_decl c = Some d"
    using inst_getDecl_ok [OF assms(4-6)] by metis
  obtain "is" w2 where rem: "getRemainder d i (2 ^ k) w1 = Inr (is, w2)" "decl_ok w2 d" "d_regs (w_decls w2 ! d) \<noteq> []"
    "\<And>s. run alloc is s = Inr (s(X := remainder_mask 64 k (s (alloc a)) + s (alloc a)))"
    using getRemainder_ok [OF w1(2-4) assms(2) b(1), where k = k and v = "2 ^ k" and alloc = alloc and X = X]
      b assms by auto
  obtain e where e: "curReg (w_decls w2 ! d) = Some e" "r_decl e = Some d"
    using curReg_decl [OF rem(2,3)] by metis
  define w3 where "w3 = w2\<lparr>w_inst := w_inst w2 + 1\<rparr>"
  have k16: "k \<le> 16" using assms(11) by simp
  obtain x md where md: "bitwise_const i BWAND (Some (OReg e)) (- (2 ^ k)) None w2 = Inr (md, w3)"
    "ops_are (Bitwise BWAND) (Some (OReg e)) (Some (OImm x)) None md" "i_value x = - (2 ^ k)"
    unfolding w3_def by (rule bitwise_const_ok [OF exp_range(1) [OF k16] exp_range(2) [OF k16]])
  obtain t w4 where t: "getTempRegister d w3 = (t, w4)" "r_decl t = Some d"
    using getTempRegister_obtain [of w3 d] rem(2) by (metis decl_ok_inst w3_def)
  obtain sb where sb: "binary_inst (Arith ISUBTRACTION) (n_dtype i) (Some (OReg a)) (Some (OReg t)) (Some r) (n_ctx i) w4
      = Inr (sb, w4\<lparr>w_inst := w_inst w4 + 1\<rparr>)" "ops_are (Arith ISUBTRACTION) (Some (OReg a)) (Some (OReg t)) (Some r) sb"
    by (rule binary_inst_ok [of "Arith ISUBTRACTION"]) auto
  have regs: "alloc r = X" "alloc e = X" "alloc t = X" using assms(5,7) e t by simp_all
  have md2: "ops_are (Bitwise BWAND) (Some (OReg e)) (Some (OImm x)) (Some t) (md\<lparr>n_ret := Some t\<rparr>)"
    using md(2) by (simp add: ops_are_def)
  have 1: "run alloc [md\<lparr>n_ret := Some t\<rparr>] s = Inr (s(X := s X AND word_of_int (2 ^ 16 - 2 ^ k)))" for s
    using run_bitwise_imm [OF md2, of "''andi''"] md(3) regs
    by (simp add: exec_imm_def negative_mask [OF assms(10,11)] rmap_def)
  have 2: "run alloc [sb] s = Inr (s(X := s (alloc a) - s X))" for s
    using run_arith_reg [OF sb(2), of "''sub''"] regs by (simp add: isFP_def exec_reg_def rmap_def)
  let ?new = "is @ [md\<lparr>n_ret := Some t\<rparr>, sb]"
  have result: "\<exists>t. run alloc ?new s = Inr (s(X := t)) \<and>
             sint t = sint (s (alloc a)) - sint (s (alloc a)) mod 2 ^ 16 + sint (s (alloc a)) mod 2 ^ k"
    if "0 \<le> sint (s (alloc a))" for s
  proof -
    define y where "y = s (alloc a)"
    have y: "0 \<le> sint y" using that by (simp add: y_def)
    have "remainder_mask 64 k y = 0"
      using y assms(11) by (simp add: remainder_mask_eq [OF in_type64])
    then have "run alloc ?new s = Inr (s(X := y - (y AND word_of_int (2 ^ 16 - 2 ^ k))))"
      using assms(12) by (simp add: run_append [OF rem(4)] run_Cons 1 2 y_def)
    moreover have "y - (y AND word_of_int (2 ^ 16 - 2 ^ k)) = word_of_int (sint y - sint y mod 2 ^ 16 + sint y mod 2 ^ k)"
      unfolding and_high_low [OF k16] using word_take_bit [of y "sint y"] by simp
    moreover have "sint (word_of_int (sint y - sint y mod 2 ^ 16 + sint y mod 2 ^ k) :: 64 word)
        = sint y - sint y mod 2 ^ 16 + sint y mod 2 ^ k"
    proof (rule sint_word_of_int64)
      have "sint y mod 2 ^ k = (sint y mod 2 ^ 16) mod 2 ^ k"
        using assms(11) by (intro mod_mod_cancel [symmetric] le_imp_power_dvd) simp
      then have "sint y mod 2 ^ k \<le> sint y mod 2 ^ 16" by (simp add: zmod_le_nonneg_dividend)
      then show "sint y - sint y mod 2 ^ 16 + sint y mod 2 ^ k < 2 ^ 63" using sint_range64 [of y] by linarith
      have "sint y mod 2 ^ 16 \<le> sint y" "0 \<le> sint y mod 2 ^ k" "- (2 ^ 63) \<le> (0 :: int)"
        using y by (simp_all add: zmod_le_nonneg_dividend)
      then show "- (2 ^ 63) \<le> sint y - sint y mod 2 ^ 16 + sint y mod 2 ^ k" by linarith
    qed
    ultimately show ?thesis unfolding y_def by metis
  qed
  have "isPowerOfTwo \<bar>2 ^ k\<bar>" using isPowerOfTwo_iff [of "2 ^ k"] by auto
  moreover have "(2 :: int) ^ 1 \<le> 2 ^ k" using assms(10) by (rule power_increasing) simp
  ultimately have "optimizeModI i index w insts = rewritten index ?new insts (w4\<lparr>w_inst := w_inst w4 + 1\<rparr>)"
    using assms w1(1) rem(1) md(1) t(1) sb(1) e(1)
    by (simp add: optimizeModI_def rewritten_def signed_type_def)
  then show ?thesis using result by blast
qed

section \<open>Unsigned types\<close>

lemma uimm16_mask: "k \<le> 16 \<Longrightarrow> uimm16 (2 ^ k - 1) = Inr (mask k)"
proof -
  assume k: "k \<le> 16"
  have "uimm16 (2 ^ k - 1) = Inr (word_of_int (2 ^ k - 1))" by (intro uimm16_eq exp_range k)
  then show ?thesis by (simp add: mask_eq_exp_minus_1)
qed

text \<open>C38: An unsigned remainder by \<open>2^k\<close> up to \<open>2^16\<close> is replaced by a mask, which gives the remainder
  of every 64-bit dividend.\<close>

theorem unsigned_remainder:
  assumes "n_class i = Arith MODULO" "left_op i = Some (OReg a)" "right_op i = Some (OImm m)" "n_ret i = Some r"
    and "\<not> isSigned (n_quals i)" "i_value m = 2 ^ k" "1 \<le> k" "k \<le> 16"
  shows "\<exists>new w'. optimizeModI i index w insts = rewritten index new insts w' \<and>
           (\<forall>s. run alloc new s = Inr (s(alloc r := s (alloc a) mod 2 ^ k)))"
proof -
  obtain x new where new: "bitwise_const i BWAND (Some (OReg a)) (2 ^ k - 1) (Some r) w
      = Inr (new, w\<lparr>w_inst := w_inst w + 1\<rparr>)"
    "ops_are (Bitwise BWAND) (Some (OReg a)) (Some (OImm x)) (Some r) new" "i_value x = 2 ^ k - 1"
    by (rule bitwise_const_ok [OF exp_range(3) [OF assms(8)] exp_range(4) [OF assms(8)]])
  have "run alloc [new] s = Inr (s(alloc r := s (alloc a) mod 2 ^ k))" for s
    using run_bitwise_imm [OF new(2), of "''andi''"] new(3) assms(8)
    by (simp add: exec_imm_def uimm16_mask rmap_def flip: take_bit_eq_mask take_bit_eq_mod)
  moreover have "isPowerOfTwo \<bar>2 ^ k\<bar>" using isPowerOfTwo_iff [of "2 ^ k"] by auto
  moreover have "(2 :: int) ^ 1 \<le> 2 ^ k" using assms(7) by (rule power_increasing) simp
  ultimately show ?thesis
    using assms new(1) by (auto simp: optimizeModI_def rewritten_def)
qed

lemma sint_uint64: "sint y = (if uint y < 2 ^ 63 then uint y else uint y - 2 ^ 64)" for y :: "64 word"
proof (cases "uint y < 2 ^ 63")
  case True
  then have "sint (word_of_int (uint y) :: 64 word) = uint y"
    using uint_ge_0 [of y] by (intro sint_word_of_int64) linarith+
  then show ?thesis using True by simp
next
  case False
  have "(word_of_int (uint y - 2 ^ 64) :: 64 word) = y" by (simp add: word_of_int_eq_iff)
  moreover have "sint (word_of_int (uint y - 2 ^ 64) :: 64 word) = uint y - 2 ^ 64"
    using False uint_lt2p [of y] by (intro sint_word_of_int64) simp_all
  ultimately show ?thesis using False by (simp only: if_False)
qed

lemma negative_word: "sint z < 0 \<Longrightarrow> 2 ^ 63 \<le> uint z" for z :: "64 word"
  using sint_uint64 [of z] uint_ge_0 [of z] by (cases "uint z < 2 ^ 63") simp_all

lemma arithmetic_shift:
  fixes y :: "64 word"
  assumes "1 \<le> k"
  shows "uint (signed_drop_bit k y) = uint y div 2 ^ k \<longleftrightarrow> uint y < 2 ^ 63"
proof -
  have q: "(2 :: int) ^ 1 \<le> 2 ^ k" using assms by (rule power_increasing) simp
  have t: "sint (signed_drop_bit k y) = sint y div 2 ^ k" by (rule sint_signed_drop_bit)
  show ?thesis
  proof (cases "uint y < 2 ^ 63")
    case True
    have "0 \<le> uint y div 2 ^ k" by (simp add: pos_imp_zdiv_nonneg_iff)
    then show ?thesis using True t uint_ge_0 [of "signed_drop_bit k y"] uint_lt2p [of "signed_drop_bit k y"]
      unfolding sint_uint64 by (auto split: if_splits)
  next
    case False
    then have "sint (signed_drop_bit k y) < 0"
      unfolding t using sint_uint64 [of y] uint_lt2p [of y] by (simp add: pos_imp_zdiv_neg_iff)
    then have "2 ^ 63 \<le> uint (signed_drop_bit k y)" by (rule negative_word)
    moreover have "uint y div 2 ^ k \<le> uint y div 2 ^ 1"
      using q by (intro zdiv_mono2) simp_all
    ultimately show ?thesis using False uint_lt2p [of y] by simp
  qed
qed

text \<open>C37: An unsigned division by \<open>2^k\<close> is replaced by an arithmetic shift to the right, which gives the
  quotient exactly for the dividends below \<open>2^63\<close>.\<close>

theorem unsigned_quotient:
  assumes "n_class i = Arith IDIVIDE" "left_op i = Some (OReg a)" "right_op i = Some (OImm m)" "n_ret i = Some r"
    and "\<not> isSigned (n_quals i)" "i_value m = 2 ^ k" "1 \<le> k" "k < 64"
  shows "\<exists>new w'. optimizeDivI i index w insts = rewritten index new insts w' \<and>
           (\<forall>s. \<exists>t. run alloc new s = Inr (s(alloc r := t)) \<and>
             (uint t = uint (s (alloc a)) div 2 ^ k \<longleftrightarrow> uint (s (alloc a)) < 2 ^ 63))"
proof -
  obtain x new where new: "bitwise_const i ASHFTRGT (Some (OReg a)) (int k) (Some r) w
      = Inr (new, w\<lparr>w_inst := w_inst w + 1\<rparr>)"
    "ops_are (Bitwise ASHFTRGT) (Some (OReg a)) (Some (OImm x)) (Some r) new" "i_value x = int k"
    by (rule bitwise_const_ok [of "int k"]) (use assms(8) in auto)
  have run: "run alloc [new] s = Inr (s(alloc r := signed_drop_bit k (s (alloc a))))" for s
    using run_bitwise_imm [OF new(2), of "''sari''"] new(3) exec_imm_shifts(3) [OF assms(8)] by (simp add: rmap_def)
  have p: "isPowerOfTwo \<bar>2 ^ k\<bar>" using isPowerOfTwo_iff [of "2 ^ k"] by auto
  have q: "(2 :: int) ^ 1 \<le> 2 ^ k" using assms(7) by (rule power_increasing) simp
  have "uint (signed_drop_bit k y) = uint y div 2 ^ k \<longleftrightarrow> uint y < 2 ^ 63" for y :: "64 word"
    using assms(7) by (rule arithmetic_shift)
  then show ?thesis
    using assms new(1) run p q by (intro exI [of _ "[new]"]) (auto simp: optimizeDivI_def rewritten_def)
qed

section \<open>Examples\<close>

theorem signed_remainder_witness:
  "\<exists>new w'. optimizeModI (demo_inst (Arith MODULO) i64 [signed_q] 1 8) 0 demo_state [] = rewritten 0 new [] w' \<and>
     (\<forall>s. 0 \<le> sint (s ''X17'') \<longrightarrow> (\<exists>t. run demo_alloc new s = Inr (s(''X16'' := t)) \<and>
        sint t = sint (s ''X17'') - sint (s ''X17'') mod 2 ^ 16 + sint (s ''X17'') mod 2 ^ 3))"
  using signed_remainder [of "demo_inst (Arith MODULO) i64 [signed_q] 1 8" "demo_reg 1 1" "demo_imm 8" "demo_reg 0 0" 0
      demo_state demo_alloc "''X16''" 3]
  by simp

theorem unsigned_remainder_witness:
  "\<exists>new w'. optimizeModI (demo_inst (Arith MODULO) i64 [unsigned_q] 1 8) 0 demo_state [] = rewritten 0 new [] w' \<and>
     (\<forall>s. run demo_alloc new s = Inr (s(''X16'' := s ''X17'' mod 2 ^ 3)))"
  using unsigned_remainder [of "demo_inst (Arith MODULO) i64 [unsigned_q] 1 8" "demo_reg 1 1" "demo_imm 8" "demo_reg 0 0" 3
      0 demo_state "[]" demo_alloc]
  by (simp add: isSigned_def)

theorem unsigned_quotient_witness:
  "\<exists>new w'. optimizeDivI (demo_inst (Arith IDIVIDE) i64 [unsigned_q] 1 8) 0 demo_state [] = rewritten 0 new [] w' \<and>
     (\<forall>s. \<exists>t. run demo_alloc new s = Inr (s(''X16'' := t)) \<and>
        (uint t = uint (s ''X17'') div 2 ^ 3 \<longleftrightarrow> uint (s ''X17'') < 2 ^ 63))"
  using unsigned_quotient [of "demo_inst (Arith IDIVIDE) i64 [unsigned_q] 1 8" "demo_reg 1 1" "demo_imm 8" "demo_reg 0 0" 3
      0 demo_state "[]" demo_alloc]
  by (simp add: isSigned_def)

end
