(* ===== verification/Udw_Build.thy ===== *)
theory Udw_Build imports Udw_Runs begin

text \<open>
  What \<open>SplitImmediates\<close> builds: the loop over chunks of 16 bits with its invariant, and the value
  that is in the register in the end.
\<close>

unbundle bit_operations_syntax

section \<open>Temporary declarations\<close>

definition free_name :: "wctx \<Rightarrow> wstate \<Rightarrow> bool" where
  "free_name c w =
     (let n = ''__temp_'' @ py_str (w_reg w + 1)
      in n \<notin> set (c_events c) \<and> \<not> declExists c n w \<and>
         (\<forall>s\<in>set (c_scopes c). \<forall>d\<in>set (w_scopes w ! s). d < length (w_decls w)))"

lemma addReg_new: "d_regs (w_decls w ! d) = [] \<Longrightarrow> d < length (w_decls w) \<Longrightarrow> r_dtype r \<noteq> unknown_t \<Longrightarrow>
    d_regs (w_decls (addReg d r w) ! d) = [r\<lparr>r_init := d_init (w_decls w ! d), r_decl := Some d\<rparr>]"
  by (simp add: addReg_def Let_def)

lemma getTempDeclaration_ok:
  assumes "free_name c w" "getSize t = Inr b"
  obtains w' e where "getTempDeclaration c t q w = Inr (length (w_decls w), w')" "decl_ok w' (length (w_decls w))"
    "curReg (w_decls w' ! length (w_decls w)) = Some e" "r_decl e = Some (length (w_decls w))"
proof -
  define n where "n = w_reg w + 1"
  define x where "x = \<lparr>d_name = ''__temp_'' @ py_str n, d_dtype = t, d_quals = (if q = [] then [signed_q] else q),
      d_regs = [], d_init = True, d_temp = True\<rparr>"
  define d where "d = length (w_decls w)"
  define w1 where "w1 = w\<lparr>w_reg := n, w_decls := w_decls w @ [x]\<rparr>"
  define w2 where "w2 = w1\<lparr>w_scopes := (w_scopes w1)[hd (c_scopes c) := w_scopes w1 ! hd (c_scopes c) @ [d]]\<rparr>"
  have "\<not> declExists c (d_name x) w1"
    using assms(1) by (auto simp: free_name_def declExists_def w1_def x_def n_def Let_def nth_append)
  then have add: "addDeclaration c d w1 = Inr w2"
    using assms(1) by (auto simp: addDeclaration_def w1_def w2_def x_def d_def free_name_def n_def Let_def)
  have "decl_ok w2 d" by (simp add: decl_ok_def w2_def w1_def d_def x_def)
  then obtain r e w3 where r: "getTempRegister d w2 = (r, w3)" "decl_ok w3 d" "curReg (w_decls w3 ! d) = Some e"
    "r_decl e = Some d"
    using getTempRegister_obtain by metis
  have "getTempDeclaration c t q w = Inr (d, w3)"
    using assms(2) add r(1) by (simp add: getTempDeclaration_def x_def n_def w1_def d_def Let_def)
  with r show thesis using that unfolding d_def by blast
qed

section \<open>Immediates\<close>

definition imm_ok :: "wimm \<Rightarrow> nat \<Rightarrow> bool" where
  "imm_ok m sz =
     ((i_dtype m = i32 \<and> sz = 32 \<or> i_dtype m = i64 \<and> sz = 64) \<and>
      (if isSigned (i_quals m) then - (2 ^ (sz - 1)) \<le> i_value m \<and> i_value m < 2 ^ (sz - 1)
       else 0 \<le> i_value m \<and> i_value m < 2 ^ sz))"

lemma imm_ok_range: "imm_ok m sz \<Longrightarrow> - (2 ^ (sz - 1)) \<le> i_value m \<and> i_value m < 2 ^ sz \<and> (sz = 32 \<or> sz = 64)"
  by (auto simp: imm_ok_def split: if_splits)

lemma imm_ok_size: "imm_ok m sz \<Longrightarrow> getSize (i_dtype m) = Inr (int sz div 8)"
  by (auto simp: imm_ok_def)

definition small_imm :: "wimm \<Rightarrow> nat \<Rightarrow> bool" where
  "small_imm x v = (i_orig x = int v \<and> i_value x = int v \<and> i_dtype x \<in> {i32, i64} \<and> \<not> isSigned (i_quals x))"

lemma small_immediate:
  assumes "v < 2 ^ 16" "t \<in> {i32, i64}" "q = [] \<or> q = [unsigned_q]"
  obtains x where "immediate (int v) (Some t) q = Inr x" "small_imm x v"
proof -
  have "\<exists>x. immediate (int v) (Some t) q = Inr x \<and> small_imm x v"
    using assms by (auto simp: immediate_def setValue_def packed_value_def in_range_def inferQuals_def
          addQualifier_def isSigned_def rmap_def small_imm_def)
  then show thesis using that by blast
qed

lemma small_setValue: "small_imm x v \<Longrightarrow> v + 16 < 2 ^ 16 \<Longrightarrow> \<exists>y. setValue (i_orig x + int I) x = Inr y \<and> small_imm y (v + 16)"
  by (auto simp: small_imm_def setValue_def packed_value_def in_range_def rmap_def I_def)

lemma chunk_immediate:
  assumes "- (2 ^ 15) \<le> v" "v < 2 ^ 16" "isSigned q \<or> 0 \<le> v" "t \<in> {i32, i64}"
  obtains x where "immediate v (Some t) q = Inr x" "i_value x = v"
proof -
  have "\<exists>x. immediate v (Some t) q = Inr x \<and> i_value x = v"
    using assms by (auto simp: immediate_def setValue_def packed_value_def in_range_def inferQuals_def
          addQualifier_def isSigned_def rmap_def)
  then show thesis using that by blast
qed

section \<open>Loads and operations on the value\<close>

definition loads :: "(wreg \<Rightarrow> string) \<Rightarrow> winst list \<Rightarrow> string \<Rightarrow> int \<Rightarrow> bool" where
  "loads alloc is X v = (\<forall>s. run alloc is s = Inr (s(X := word_of_int v)))"

lemma loads_snoc:
  assumes "loads alloc is X u" "\<And>s. s X = word_of_int u \<Longrightarrow> run alloc [i] s = Inr (s(X := word_of_int v))"
  shows "loads alloc (is @ [i]) X v"
  using assms(1) by (simp add: loads_def run_append assms(2))

text \<open>\<open>h\<close> is the declaration that gets the value: the one that is assigned, or a new one.\<close>

definition target_ok :: "winst \<Rightarrow> nat option \<Rightarrow> nat \<Rightarrow> wstate \<Rightarrow> bool" where
  "target_ok i decl h w =
     (case (decl, isMemory (n_class i)) of
        (Some d, True) \<Rightarrow> h = d \<and> decl_ok w d
      | _ \<Rightarrow> h = length (w_decls w) \<and> free_name (n_ctx i) w)"

text \<open>The value of the instructions is in the register of the last of them.\<close>

definition in_decl :: "nat \<Rightarrow> winst \<Rightarrow> bool" where
  "in_decl d l = (case n_ret l of None \<Rightarrow> False | Some r \<Rightarrow> r_decl r = Some d)"

lemma in_declE: "in_decl d l \<Longrightarrow> (\<And>r. n_ret l = Some r \<Longrightarrow> r_decl r = Some d \<Longrightarrow> P) \<Longrightarrow> P"
  by (auto simp: in_decl_def split: option.splits)

lemma load_decl_ok:
  assumes "target_ok i decl h w" "getSize (i_dtype m) = Inr b"
  obtains w' e where "load_decl m i decl w = Inr (h, w')" "decl_ok w' h" "curReg (w_decls w' ! h) = Some e"
    "r_decl e = Some h"
proof (cases "\<exists>d. decl = Some d \<and> isMemory (n_class i)")
  case True
  then have d: "decl = Some h" "isMemory (n_class i)" "decl_ok w h"
    using assms(1) by (auto simp: target_ok_def)
  obtain t e w' where t: "getTempRegister h w = (t, w')" "decl_ok w' h" "curReg (w_decls w' ! h) = Some e"
    "r_decl e = Some h"
    using getTempRegister_obtain [OF d(3)] by metis
  have "load_decl m i decl w = Inr (h, w')" using d t(1) by (simp add: load_decl_def)
  then show thesis using t(2-4) by (rule that)
next
  case False
  then have "free_name (n_ctx i) w" "h = length (w_decls w)"
    and l: "load_decl m i decl w = getTempDeclaration (n_ctx i) (i_dtype m) (n_quals i) w"
    using assms(1) by (auto simp: target_ok_def load_decl_def split: option.splits bool.splits)
  then show thesis using getTempDeclaration_ok [OF _ assms(2)] that by metis
qed

lemma load_ok:
  assumes "target_ok i decl h w" "getSize (i_dtype m) = Inr b"
    and "(case sv of None \<Rightarrow> Inr m | Some v \<Rightarrow> immediate v (Some t) (i_quals m)) = Inr x"
    and "- (2 ^ 20) \<le> i_value x" "i_value x < 2 ^ 20"
  obtains l w' where "createLoadImmediate m i t decl sv w = Inr (h, l, w')" "decl_ok w' h" "in_decl h l"
    "n_class l = Memory LOAD" "\<And>alloc X. one_register alloc h X \<Longrightarrow> loads alloc [l] X (i_value x)"
proof -
  obtain w1 e where d: "load_decl m i decl w = Inr (h, w1)" "decl_ok w1 h" "curReg (w_decls w1 ! h) = Some e"
    "r_decl e = Some h"
    using load_decl_ok [OF assms(1,2)] by metis
  define l where "l = fst (load_inst (i_dtype m) (Some (OImm x)) (Some e) (n_ctx i) w1)"
  have l: "load_is (Some (OImm x)) (Some e) l" "load_inst (i_dtype m) (Some (OImm x)) (Some e) (n_ctx i) w1
      = (l, w1\<lparr>w_inst := w_inst w1 + 1\<rparr>)"
    by (simp_all add: l_def load_inst_def new_inst_def load_is_def)
  have "loads alloc [l] X (i_value x)" if "one_register alloc h X" for alloc X
    using that d(4) assms(4,5) by (simp add: loads_def run_load_imm [OF l(1)] simm21_eq rmap_def)
  moreover have "createLoadImmediate m i t decl sv w = Inr (h, l, w1\<lparr>w_inst := w_inst w1 + 1\<rparr>)"
    using d(1,3) assms(3) l(2) by (simp add: createLoadImmediate_def)
  ultimately show thesis using that d(2,4) l(1) by (simp add: load_is_def in_decl_def)
qed

lemma next_bitwise_ok:
  assumes "n_ret prev = Some q" "decl_ok w d"
  obtains new w' r where "next_bitwise k t prev m d i w = Inr (new, w')" "decl_ok w' d" "r_decl r = Some d"
    "ops_are (Bitwise k) (Some (OReg q)) (Some (OImm m)) (Some r) new"
proof -
  define w1 where "w1 = w\<lparr>w_inst := w_inst w + 1\<rparr>"
  obtain new where new: "binary_inst (Bitwise k) t (Some (OReg q)) (Some (OImm m)) None (n_ctx i) w = Inr (new, w1)"
    "ops_are (Bitwise k) (Some (OReg q)) (Some (OImm m)) None new"
    unfolding w1_def by (rule binary_inst_ok [of "Bitwise k"]) auto
  have "decl_ok w1 d" using assms(2) by (simp add: w1_def)
  then obtain r w2 where r: "getTempRegister d w1 = (r, w2)" "r_decl r = Some d" "decl_ok w2 d"
    using getTempRegister_obtain by metis
  have "ops_are (Bitwise k) (Some (OReg q)) (Some (OImm m)) (Some r) (new\<lparr>n_ret := Some r\<rparr>)"
    using new(2) by (simp add: ops_are_def)
  moreover have "next_bitwise k t prev m d i w = Inr (new\<lparr>n_ret := Some r\<rparr>, w2)"
    using assms(1) new(1) r(1) by (simp add: next_bitwise_def)
  ultimately show thesis using that r(2,3) by blast
qed

section \<open>Chunks\<close>

text \<open>
  Before and after every step: the instructions build \<open>v\<close> in the register of the declaration; a shift
  that ends them, by at most \<open>a\<close> places, may be widened.
\<close>

definition shift_of :: "(wreg \<Rightarrow> string) \<Rightarrow> nat \<Rightarrow> string \<Rightarrow> int \<Rightarrow> nat \<Rightarrow> winst list \<Rightarrow> winst \<Rightarrow> bool" where
  "shift_of alloc d X v a is l =
     (\<exists>q r x n u. ops_are (Bitwise SHFTLFT) (Some (OReg q)) (Some (OImm x)) (Some r) l \<and> r_decl q = Some d \<and>
        small_imm x n \<and> n \<le> a \<and> loads alloc is X u \<and> v = u * 2 ^ n)"

definition chunks :: "(wreg \<Rightarrow> string) \<Rightarrow> string \<Rightarrow> int \<Rightarrow> nat \<Rightarrow> nat \<Rightarrow> winst list \<Rightarrow> wstate \<Rightarrow> bool" where
  "chunks alloc X v a d is w =
     (decl_ok w d \<and> (\<exists>is' l. is = is' @ [l] \<and> in_decl d l \<and> loads alloc is X v \<and>
        (n_class l = Bitwise SHFTLFT \<longrightarrow> shift_of alloc d X v a is' l)))"

definition chunk_inv :: "(wreg \<Rightarrow> string) \<Rightarrow> string \<Rightarrow> winst \<Rightarrow> nat option \<Rightarrow> nat \<Rightarrow> bool \<Rightarrow> int \<Rightarrow> nat \<Rightarrow> chunk_state \<Rightarrow> bool" where
  "chunk_inv alloc X i decl h zero v a s =
     (case s of
        (is, None, w) \<Rightarrow> is = [] \<and> zero \<and> target_ok i decl h w
      | (is, Some d, w) \<Rightarrow> d = h \<and> chunks alloc X v a d is w)"

lemma chunk_arith: "drop_bit p v = 2 ^ 16 * drop_bit (p + 16) v + (drop_bit p v AND 0xFFFF)" for v :: int
proof -
  have "0xFFFF = (mask 16 :: int)" by (simp add: mask_eq_exp_minus_1)
  then have "drop_bit p v AND 0xFFFF = drop_bit p v mod 2 ^ 16" by (simp only: take_bit_eq_mask [symmetric] take_bit_eq_mod)
  moreover have "drop_bit (p + 16) v = drop_bit p v div 2 ^ 16"
    by (simp add: drop_bit_eq_div power_add div_mult2_eq [symmetric] zdiv_zmult2_eq)
  ultimately show ?thesis by simp
qed

lemma chunk_bounds: "0 \<le> drop_bit p v AND 0xFFFF \<and> drop_bit p v AND 0xFFFF < 2 ^ 16" for v :: int
proof -
  have "0xFFFF = (mask 16 :: int)" by (simp add: mask_eq_exp_minus_1)
  then have "drop_bit p v AND 0xFFFF = drop_bit p v mod 2 ^ 16" by (simp only: take_bit_eq_mask [symmetric] take_bit_eq_mod)
  then show ?thesis by simp
qed

lemma first_chunk:
  assumes "imm_ok m sz" "p + 16 \<le> sz" "drop_bit (p + 16) (i_value m) = 0 \<or> p + 16 = sz"
  shows "- (2 ^ 15) \<le> drop_bit p (i_value m) \<and> drop_bit p (i_value m) < 2 ^ 16 \<and>
         (isSigned (i_quals m) \<or> 0 \<le> drop_bit p (i_value m))"
proof (cases "p + 16 = sz")
  case True
  then have p: "p = 16 \<and> sz = 32 \<or> p = 48 \<and> sz = 64" using imm_ok_range [OF assms(1)] by auto
  have r: "- (2 ^ (sz - 1)) \<le> i_value m" "i_value m < 2 ^ sz" "isSigned (i_quals m) \<or> 0 \<le> i_value m"
    using assms(1) imm_ok_range [OF assms(1)] by (auto simp: imm_ok_def split: if_splits)
  show ?thesis using p r by (auto simp: drop_bit_eq_div)
next
  case False
  define c where "c = drop_bit p (i_value m) AND 0xFFFF"
  have "drop_bit p (i_value m) = c"
    using chunk_arith [of p "i_value m"] assms(3) False by (simp add: c_def)
  moreover have "0 \<le> c" "c < 2 ^ 16" using chunk_bounds [of p "i_value m"] by (simp_all add: c_def)
  ultimately show ?thesis by simp
qed

lemma or_chunk:
  assumes "y < 2 ^ 16"
  shows "word_of_int (u * 2 ^ 16) OR word_of_int (int y) = (word_of_int (u * 2 ^ 16 + int y) :: 64 word)"
proof -
  have "(word_of_int (u * 2 ^ 16) :: 64 word) = push_bit 16 (word_of_int u)" by (simp add: push_bit_eq_mult)
  moreover have "(word_of_int (int y) :: 64 word) = take_bit 16 (word_of_int (int y))"
    using take_bit_of_int [of 16 "int y", where ?'a = "64 word"] assms by (simp add: take_bit_int_eq_self)
  moreover have "push_bit 16 w AND take_bit 16 z = 0" for w z :: "64 word"
    by (rule bit_eqI) (auto simp: bit_simps)
  ultimately have "word_of_int (u * 2 ^ 16) OR word_of_int (int y) = (word_of_int (u * 2 ^ 16) + word_of_int (int y) :: 64 word)"
    by (metis disjunctive_add_eq_or)
  then show ?thesis by (simp only: of_int_add)
qed

lemma insert_chunk_ok:
  assumes m: "imm_ok m sz" "t \<in> {i32, i64}" "p + 16 \<le> sz" and phys: "one_register alloc h X"
    and inv: "chunk_inv alloc X i decl h (drop_bit (p + 16) (i_value m) = 0 \<or> p + 16 = sz)
                (drop_bit (p + 16) (i_value m) * 2 ^ 16) a s"
  shows "\<exists>s'. insert_chunk m i t decl p s = Inr s' \<and>
           chunk_inv alloc X i decl h (drop_bit p (i_value m) = 0) (drop_bit p (i_value m)) a s'"
proof -
  define v where "v = drop_bit p (i_value m)"
  define u where "u = drop_bit (p + 16) (i_value m)"
  have v: "v = 2 ^ 16 * u + (v AND 0xFFFF)" using chunk_arith [of p "i_value m"] by (simp add: u_def v_def)
  obtain "is" D w where s: "s = (is, D, w)" by (cases s)
  show ?thesis
  proof (cases "v AND 0xFFFF = 0")
    case True
    have "D = None \<Longrightarrow> v = 0"
      using first_chunk [OF m(1,3)] inv s True v by (auto simp: chunk_inv_def u_def v_def)
    moreover have "v = u * 2 ^ 16" using True v by simp
    ultimately have "chunk_inv alloc X i decl h (v = 0) v a s"
      using inv s by (auto simp: chunk_inv_def u_def split: option.splits)
    then show ?thesis using s True by (simp add: insert_chunk_def v_def Let_def)
  next
    case False
    show ?thesis
    proof (cases D)
      case None
      then have first: "- (2 ^ 15) \<le> v" "v < 2 ^ 16" "isSigned (i_quals m) \<or> 0 \<le> v" "is = []" "target_ok i decl h w"
        using first_chunk [OF m(1,3)] inv s by (auto simp: chunk_inv_def v_def)
      obtain x where x: "immediate v (Some t) (i_quals m) = Inr x" "i_value x = v"
        using chunk_immediate [OF first(1-3) m(2)] by metis
      obtain l w' where l: "createLoadImmediate m i t decl (Some v) w = Inr (h, l, w')" "decl_ok w' h" "in_decl h l"
        "n_class l = Memory LOAD" "\<And>alloc X. one_register alloc h X \<Longrightarrow> loads alloc [l] X (i_value x)"
        by (rule load_ok [OF first(5) imm_ok_size [OF m(1)], where sv = "Some v" and t = t and x = x]) (use x first in simp_all)
      have "chunks alloc X v a h [l] w'"
        using l phys x(2) by (auto simp: chunks_def)
      then show ?thesis using s None False first(4) l(1)
        by (simp add: insert_chunk_def v_def Let_def chunk_inv_def)
    next
      case (Some d)
      then obtain is' l where c: "d = h" "decl_ok w d" "is = is' @ [l]" "in_decl d l" "loads alloc is X (u * 2 ^ 16)"
        using inv s by (auto simp: chunk_inv_def chunks_def u_def)
      obtain q where q: "n_ret l = Some q" "r_decl q = Some d" using c(4) by (rule in_declE)
      define y where "y = nat (v AND 0xFFFF)"
      have y: "v AND 0xFFFF = int y" "y < 2 ^ 16"
        using chunk_bounds [of p "i_value m"] by (simp_all add: y_def v_def nat_less_iff)
      obtain x where x: "immediate (v AND 0xFFFF) (Some t) [] = Inr x" "small_imm x y"
        unfolding y(1) using small_immediate [OF y(2) m(2)] by metis
      obtain new w' r where new: "next_bitwise BWOR t l x d i w = Inr (new, w')" "decl_ok w' d" "r_decl r = Some d"
        "ops_are (Bitwise BWOR) (Some (OReg q)) (Some (OImm x)) (Some r) new"
        by (rule next_bitwise_ok [OF q(1) c(2)])
      have "loads alloc (is @ [new]) X v"
      proof (rule loads_snoc [OF c(5)])
        fix s' assume "s' X = (word_of_int (u * 2 ^ 16) :: 64 word)"
        moreover have "word_of_int (u * 2 ^ 16) OR word_of_int (int y) = (word_of_int v :: 64 word)"
          using or_chunk [OF y(2), of u] v y(1) by (simp add: ac_simps)
        ultimately show "run alloc [new] s' = Inr (s'(X := word_of_int v))"
          using run_bitwise_imm [OF new(4), of "''ori''"] x(2) y(2) phys c(1) q(2) new(3)
          by (simp add: exec_imm_def uimm16_eq small_imm_def rmap_def)
      qed
      then have "chunks alloc X v a d (is @ [new]) w'"
        using new(2-4) by (auto simp: chunks_def in_decl_def ops_are_def)
      then show ?thesis using s Some False c(1,3) x(1) new(1)
        by (simp add: insert_chunk_def v_def Let_def chunk_inv_def last_inst_def)
    qed
  qed
qed

lemma run_shift:
  assumes "ops_are (Bitwise SHFTLFT) (Some (OReg q)) (Some (OImm x)) (Some r) l" "small_imm x n" "n < 64"
    and "one_register alloc d X" "r_decl q = Some d" "r_decl r = Some d" "loads alloc is X u"
  shows "loads alloc (is @ [l]) X (u * 2 ^ n)"
proof (rule loads_snoc [OF assms(7)])
  fix s assume "s X = (word_of_int u :: 64 word)"
  moreover have "push_bit n (word_of_int u) = (word_of_int (u * 2 ^ n) :: 64 word)"
    by (simp add: push_bit_eq_mult)
  ultimately show "run alloc [l] s = Inr (s(X := word_of_int (u * 2 ^ n)))"
    using run_bitwise_imm [OF assms(1), of "''sli''"] assms by (simp add: exec_imm_shifts small_imm_def rmap_def)
qed

lemma shift_chunk_ok:
  assumes t: "t \<in> {i32, i64}" and a: "p \<noteq> 0 \<Longrightarrow> a + 16 < 64" and phys: "one_register alloc h X"
    and inv: "chunk_inv alloc X i decl h zero v a s"
  shows "\<exists>s'. shift_chunk i t p s = Inr s' \<and>
           chunk_inv alloc X i decl h zero (if p = 0 then v else v * 2 ^ 16) (if p = 0 then a else a + 16) s'"
proof -
  obtain "is" D w where s: "s = (is, D, w)" by (cases s)
  show ?thesis
  proof (cases "D = None \<or> p = 0")
    case True
    then show ?thesis using inv s by (cases D) (simp_all add: shift_chunk_def chunk_inv_def)
  next
    case False
    then obtain d where d: "D = Some d" "p \<noteq> 0" by auto
    have h: "d = h" and phys: "one_register alloc d X" using phys inv s d by (auto simp: chunk_inv_def)
    obtain is' l where c: "decl_ok w d" "is = is' @ [l]" "in_decl d l" "loads alloc is X v"
      "n_class l = Bitwise SHFTLFT \<Longrightarrow> shift_of alloc d X v a is' l"
      using inv s d by (auto simp: chunk_inv_def chunks_def)
    show ?thesis
    proof (cases "n_class l = Bitwise SHFTLFT")
      case True
      obtain q r x n u where o: "ops_are (Bitwise SHFTLFT) (Some (OReg q)) (Some (OImm x)) (Some r) l"
        "r_decl q = Some d" "small_imm x n" "n \<le> a" "loads alloc is' X u" "v = u * 2 ^ n"
        using c(5) [OF True] by (auto simp: shift_of_def)
      obtain y where y: "setValue (i_orig x + int I) x = Inr y" "small_imm y (n + 16)"
        using small_setValue [OF o(3)] o(4) a d(2) by auto
      define l' where "l' = l\<lparr>n_ops := (n_ops l)[1 := Some (OImm y)]\<rparr>"
      have l': "ops_are (Bitwise SHFTLFT) (Some (OReg q)) (Some (OImm y)) (Some r) l'" "in_decl d l'"
        using o(1) c(3) by (simp_all add: l'_def ops_are_def in_decl_def)
      have r: "r_decl r = Some d" using c(3) o(1) by (simp add: in_decl_def ops_are_def)
      have "widen_shift l = Inr l'"
        using o(1) y(1) by (simp add: widen_shift_def right_op_def ops_are_def l'_def rmap_def)
      moreover have "loads alloc (is' @ [l']) X (v * 2 ^ 16)"
        using run_shift [OF l'(1) y(2) _ phys o(2) r o(5)] o(4,6) a d(2) by (simp add: power_add mult.assoc)
      moreover have "shift_of alloc d X (v * 2 ^ 16) (a + 16) is' l'"
        unfolding shift_of_def using l'(1) o(2,4,5,6) y(2)
        by (intro exI [of _ q] exI [of _ r] exI [of _ y] exI [of _ "n + 16"] exI [of _ u]) (simp add: power_add)
      ultimately show ?thesis
        using s d h c(1,2) l'(2) True by (auto simp: shift_chunk_def last_inst_def chunk_inv_def chunks_def)
    next
      case False
      obtain q where q: "n_ret l = Some q" "r_decl q = Some d" using c(3) by (rule in_declE)
      obtain x where x: "immediate (int I) (Some t) [] = Inr x" "small_imm x 16"
        using small_immediate [of 16 t "[]"] t by (auto simp: I_def)
      obtain new w' r where new: "next_bitwise SHFTLFT t l x d i w = Inr (new, w')" "decl_ok w' d" "r_decl r = Some d"
        "ops_are (Bitwise SHFTLFT) (Some (OReg q)) (Some (OImm x)) (Some r) new"
        by (rule next_bitwise_ok [OF q(1) c(1)])
      have "loads alloc (is @ [new]) X (v * 2 ^ 16)"
        by (rule run_shift [OF new(4) x(2) _ phys q(2) new(3) c(4)]) simp
      moreover have "shift_of alloc d X (v * 2 ^ 16) (a + 16) is new"
        unfolding shift_of_def using new(4) q(2) x(2) c(4)
        by (intro exI [of _ q] exI [of _ r] exI [of _ x] exI [of _ 16] exI [of _ v]) simp
      ultimately show ?thesis
        using s d h c(1,2) x(1) new False
        by (auto simp: shift_chunk_def last_inst_def chunk_inv_def chunks_def in_decl_def ops_are_def)
    qed
  qed
qed

lemma chunk_inv_mono:
  "chunk_inv alloc X i decl h zero v a s \<Longrightarrow> (zero \<Longrightarrow> zero') \<Longrightarrow> a \<le> a' \<Longrightarrow> chunk_inv alloc X i decl h zero' v a' s"
  by (cases s rule: prod_cases3) (fastforce simp: chunk_inv_def chunks_def shift_of_def split: option.splits)

lemma chunk_step_ok:
  assumes m: "imm_ok m sz" "t \<in> {i32, i64}" "p + 16 \<le> sz" "16 dvd p" and phys: "one_register alloc h X"
    and inv: "chunk_inv alloc X i decl h (drop_bit (p + 16) (i_value m) = 0 \<or> p + 16 = sz)
                (drop_bit (p + 16) (i_value m) * 2 ^ 16) (sz - (p + 16)) s"
  shows "\<exists>s'. chunk_step m i t decl p s = Inr s' \<and>
           chunk_inv alloc X i decl h (drop_bit p (i_value m) = 0)
             (if p = 0 then i_value m else drop_bit p (i_value m) * 2 ^ 16) (sz - p) s'"
proof -
  obtain s1 where s1: "insert_chunk m i t decl p s = Inr s1"
    "chunk_inv alloc X i decl h (drop_bit p (i_value m) = 0) (drop_bit p (i_value m)) (sz - (p + 16)) s1"
    using insert_chunk_ok [OF m(1-3) phys inv] by auto
  have a: "p \<noteq> 0 \<Longrightarrow> sz - (p + 16) + 16 < 64"
    using imm_ok_range [OF m(1)] m(3,4) by (auto elim!: dvdE)
  obtain s2 where s2: "shift_chunk i t p s1 = Inr s2" "chunk_inv alloc X i decl h (drop_bit p (i_value m) = 0)
      (if p = 0 then drop_bit p (i_value m) else drop_bit p (i_value m) * 2 ^ 16)
      (if p = 0 then sz - (p + 16) else sz - (p + 16) + 16) s2"
    using shift_chunk_ok [OF m(2) a phys s1(2)] by blast
  have "chunk_inv alloc X i decl h (drop_bit p (i_value m) = 0)
      (if p = 0 then i_value m else drop_bit p (i_value m) * 2 ^ 16) (sz - p) s2"
    by (rule chunk_inv_mono [where zero = "drop_bit p (i_value m) = 0" and a = "if p = 0 then sz - (p + 16) else sz - (p + 16) + 16"])
      (use s2(2) m(3) in \<open>auto split: if_splits\<close>)
  then show ?thesis using s1(1) s2(1) by (simp add: chunk_step_def)
qed

lemma chunk_steps_ok:
  assumes m: "imm_ok m sz" "t \<in> {i32, i64}" and phys: "one_register alloc h X"
  shows "16 * j \<le> sz \<Longrightarrow>
    chunk_inv alloc X i decl h (drop_bit (16 * j) (i_value m) = 0 \<or> 16 * j = sz)
      (if j = 0 then i_value m else drop_bit (16 * j) (i_value m) * 2 ^ 16) (sz - 16 * j) s \<Longrightarrow>
    \<exists>s'. foldr_res (chunk_step m i t decl) (rev (map ((*) 16) [0..<j])) s = Inr s' \<and>
         chunk_inv alloc X i decl h (i_value m = 0) (i_value m) sz s'"
proof (induction j arbitrary: s)
  case 0
  moreover have "sz \<noteq> 0" using imm_ok_range [OF m(1)] by auto
  ultimately show ?case by simp
next
  case (Suc j)
  have inv: "chunk_inv alloc X i decl h (drop_bit (16 * j + 16) (i_value m) = 0 \<or> 16 * j + 16 = sz)
                (drop_bit (16 * j + 16) (i_value m) * 2 ^ 16) (sz - (16 * j + 16)) s"
    using Suc.prems(2) by (simp add: add.commute)
  have j: "16 * j + 16 \<le> sz" using Suc.prems(1) by simp
  obtain s1 where s1: "chunk_step m i t decl (16 * j) s = Inr s1"
    "chunk_inv alloc X i decl h (drop_bit (16 * j) (i_value m) = 0)
       (if 16 * j = 0 then i_value m else drop_bit (16 * j) (i_value m) * 2 ^ 16) (sz - 16 * j) s1"
    using chunk_step_ok [OF m j _ phys inv] by auto
  have "chunk_inv alloc X i decl h (drop_bit (16 * j) (i_value m) = 0 \<or> 16 * j = sz)
      (if j = 0 then i_value m else drop_bit (16 * j) (i_value m) * 2 ^ 16) (sz - 16 * j) s1"
    by (rule chunk_inv_mono [where zero = "drop_bit (16 * j) (i_value m) = 0" and a = "sz - 16 * j"])
      (use s1(2) in \<open>auto split: if_splits\<close>)
  then show ?case using Suc.IH [of s1] j s1(1) by simp
qed

lemma chunk_loop:
  assumes m: "imm_ok m sz" "t \<in> {i32, i64}" and phys: "one_register alloc h X"
    and target: "target_ok i decl h w"
  shows "\<exists>s'. foldr_res (chunk_step m i t decl) (chunk_parts (int sz)) ([], None, w) = Inr s' \<and>
           chunk_inv alloc X i decl h (i_value m = 0) (i_value m) sz s'"
proof -
  have "chunk_parts (int sz) = rev (map ((*) 16) [0..<sz div 16])" "16 * (sz div 16) = sz"
    using imm_ok_range [OF m(1)] by (auto simp: chunk_parts_def I_def upt_conv_Cons)
  moreover have "chunk_inv alloc X i decl h True v a ([], None, w)" for v a
    using target by (simp add: chunk_inv_def)
  ultimately show ?thesis using chunk_steps_ok [OF m phys, of "sz div 16"] by simp
qed

section \<open>Ones shifted in\<close>

lemma ones_word: "(word_of_int ones64 :: 64 word) = - 1"
  by (simp add: ones64_def)

lemma shifted_ones:
  "word_of_int (drop_bit n ones64) = drop_bit n (- 1 :: 64 word)"
  "word_of_int (push_bit n ones64 AND ones64) = push_bit n (- 1 :: 64 word)"
proof -
  have o: "ones64 = mask 64" by (simp add: ones64_def mask_eq_exp_minus_1)
  show "word_of_int (drop_bit n ones64) = drop_bit n (- 1 :: 64 word)"
    unfolding o by (rule bit_eqI) (auto simp: bit_simps)
  show "word_of_int (push_bit n ones64 AND ones64) = push_bit n (- 1 :: 64 word)"
    unfolding o by (rule bit_eqI) (auto simp: bit_simps)
qed

lemma checkEquality_ok:
  assumes "target_ok i decl h w" "k \<in> {SHFTLFT, LSHFTRGT}" "n < 64" and phys: "one_register alloc h X"
  shows "\<exists>is w'. checkEquality n k i decl w = Inr (h, is, w') \<and> is \<noteq> [] \<and> in_decl h (last is) \<and>
           loads alloc is X (if k = SHFTLFT then push_bit n ones64 AND ones64 else drop_bit n ones64)"
proof -
  let ?v = "if k = SHFTLFT then push_bit n ones64 AND ones64 else drop_bit n ones64"
  obtain m where m: "immediate (- 1) (Some i64) [signed_q] = Inr m" "i_value m = - 1" "i_dtype m = i64"
    by (auto simp: immediate_def setValue_def packed_value_def in_range_def isSigned_def rmap_def)
  have "target_ok i (if isMemory (n_class i) then decl else None) h w"
    using assms(1) by (auto simp: target_ok_def split: option.splits bool.splits)
  then obtain l w1 where l: "createLoadImmediate m i i64 (if isMemory (n_class i) then decl else None) None w = Inr (h, l, w1)"
    "decl_ok w1 h" "in_decl h l" "\<And>alloc X. one_register alloc h X \<Longrightarrow> loads alloc [l] X (i_value m)"
    by (rule load_ok [where sv = None and t = i64 and x = m and m = m and b = 8]) (use m in auto)
  have word: "(word_of_int ?v :: 64 word) = (if k = SHFTLFT then push_bit n (- 1) else drop_bit n (- 1))"
    using shifted_ones [of n] by simp
  show ?thesis
  proof (cases "n = 0")
    case True
    then have "loads alloc [l] X ?v"
      using l(4) [OF phys] m(2) word by (simp add: loads_def)
    then show ?thesis using True m(1) l by (simp add: checkEquality_def)
  next
    case False
    obtain x where x: "immediate (int n) (Some i64) [unsigned_q] = Inr x" "small_imm x n"
      using small_immediate [of n i64 "[unsigned_q]"] assms(3) by auto
    obtain q where q: "n_ret l = Some q" "r_decl q = Some h" using l(3) by (rule in_declE)
    obtain new w2 r where new: "next_bitwise k i64 l x h i w1 = Inr (new, w2)" "decl_ok w2 h" "r_decl r = Some h"
      "ops_are (Bitwise k) (Some (OReg q)) (Some (OImm x)) (Some r) new"
      by (rule next_bitwise_ok [OF q(1) l(2)])
    have "loads alloc ([l] @ [new]) X ?v"
    proof (rule loads_snoc [OF l(4) [OF phys]])
      fix s assume s: "s X = (word_of_int (i_value m) :: 64 word)"
      have regs: "alloc q = X" "alloc r = X" using phys q(2) new(3) by simp_all
      show "run alloc [new] s = Inr (s(X := word_of_int ?v))"
        unfolding word using run_bitwise_imm [OF new(4), of "if k = SHFTLFT then ''sli'' else ''sri''"] assms(2,3) x(2) s m(2)
        by (auto simp: regs exec_imm_shifts small_imm_def rmap_def)
    qed
    then show ?thesis using False m(1) l(1) x(1) new
      by (auto simp: checkEquality_def in_decl_def ops_are_def)
  qed
qed

lemma tryShiftingIn_ok:
  assumes "target_ok i decl h w" and phys: "one_register alloc h X"
  shows "tryShiftingIn m i decl w = Inr None \<or>
    (\<exists>is w'. tryShiftingIn m i decl w = Inr (Some (h, is, w')) \<and> is \<noteq> [] \<and> in_decl h (last is) \<and>
       loads alloc is X (i_value m))"
proof -
  consider n where "find (\<lambda>n. drop_bit n ones64 = i_value m) [0..<44] = Some n"
    | n where "find (\<lambda>n. drop_bit n ones64 = i_value m) [0..<44] = None"
        "find (\<lambda>n. push_bit n ones64 AND ones64 = i_value m) [0..<64] = Some n"
    | "find (\<lambda>n. drop_bit n ones64 = i_value m) [0..<44] = None"
        "find (\<lambda>n. push_bit n ones64 AND ones64 = i_value m) [0..<64] = None"
    by fastforce
  then show ?thesis
  proof cases
    case 1
    then have "n < 64" "drop_bit n ones64 = i_value m" by (auto simp: find_Some_iff)
    then show ?thesis using checkEquality_ok [OF assms(1) _ _ phys, of LSHFTRGT n] 1
      by (auto simp: tryShiftingIn_def rmap_def)
  next
    case 2
    then have "n < 64" "push_bit n ones64 AND ones64 = i_value m" by (auto simp: find_Some_iff)
    then show ?thesis using checkEquality_ok [OF assms(1) _ _ phys, of SHFTLFT n] 2
      by (auto simp: tryShiftingIn_def rmap_def)
  next
    case 3
    then show ?thesis by (simp add: tryShiftingIn_def)
  qed
qed

section \<open>The value that is built\<close>

text \<open>C2: An immediate of up to 64 bits that is too large for the field of its instruction is replaced by a
  register, and the inserted instructions (a move, ones that are shifted, or chunks of 16 bits) leave
  exactly its value, modulo \<open>2^64\<close>, in that register and change no other register.\<close>

theorem split_builds_value:
  assumes "imm_ok m sz" "target_ok i (declLookup (n_ctx i) (n_ret i) w) h w"
    and "getImmediateFieldSize i = Inr field" "2 ^ field \<le> \<bar>i_value m\<bar>" and phys: "one_register alloc h X"
  shows "\<exists>r new w'. r_decl r = Some h \<and> splitImmediate m i w = Inr (OReg r, new, w') \<and> new \<noteq> [] \<and>
           (\<forall>s. run alloc new s = Inr (s(alloc r := word_of_int (i_value m))))"
proof -
  define decl where "decl = declLookup (n_ctx i) (n_ret i) w"
  define t where "t = (if int sz = 32 then i32 else i64)"
  have t: "t \<in> {i32, i64}" by (simp add: t_def)
  have target: "target_ok i decl h w" using assms(2) by (simp add: decl_def)
  let ?build = "if \<bar>i_value m\<bar> < 2 ^ (LongI - 1)
      then rmap (\<lambda>(d, load, w). ([load], w)) (createLoadImmediate m i t decl None w)
      else rbind (tryShiftingIn m i decl w) (\<lambda>x. case x of Some (d, is, w) \<Rightarrow> Inr (is, w)
         | None \<Rightarrow> rmap (\<lambda>(is, d, w). (is, w)) (foldr_res (chunk_step m i t decl) (chunk_parts (int sz)) ([], None, w)))"
  have "\<exists>is w'. ?build = Inr (is, w') \<and> is \<noteq> [] \<and> in_decl h (last is) \<and> loads alloc is X (i_value m)"
  proof (cases "\<bar>i_value m\<bar> < 2 ^ (LongI - 1)")
    case True
    obtain l w' where "createLoadImmediate m i t decl None w = Inr (h, l, w')" "in_decl h l"
      "\<And>alloc X. one_register alloc h X \<Longrightarrow> loads alloc [l] X (i_value m)"
      by (rule load_ok [OF target imm_ok_size [OF assms(1)], where sv = None and t = t and x = m])
        (use True in \<open>simp_all add: LongI_def\<close>)
    then show ?thesis using True phys by (auto simp: rmap_def)
  next
    case False
    from tryShiftingIn_ok [OF target phys, of m] show ?thesis
    proof (elim disjE exE conjE)
      assume none: "tryShiftingIn m i decl w = Inr None"
      obtain s' where s': "foldr_res (chunk_step m i t decl) (chunk_parts (int sz)) ([], None, w) = Inr s'"
        "chunk_inv alloc X i decl h (i_value m = 0) (i_value m) sz s'"
        using chunk_loop [OF assms(1) t phys target] by blast
      obtain "is" D w' where s: "s' = (is, D, w')" by (cases s')
      have "i_value m \<noteq> 0" using False by auto
      then obtain is' l where "D = Some h" "is = is' @ [l]" "in_decl h l" "loads alloc is X (i_value m)"
        using s'(2) s by (cases D) (auto simp: chunk_inv_def chunks_def)
      then show ?thesis using False none s'(1) s by (auto simp: rmap_def)
    next
      fix "is" w'
      assume "tryShiftingIn m i decl w = Inr (Some (h, is, w'))" "is \<noteq> []" "in_decl h (last is)"
        "loads alloc is X (i_value m)"
      then show ?thesis using False by auto
    qed
  qed
  then obtain "is" w' where b: "?build = Inr (is, w')" "is \<noteq> []" "in_decl h (last is)" "loads alloc is X (i_value m)"
    by blast
  obtain r where r: "n_ret (last is) = Some r" "r_decl r = Some h" using b(3) by (rule in_declE)
  have "\<bar>i_value m\<bar> < 2 ^ sz" using imm_ok_range [OF assms(1)] by auto
  then have "splitImmediate m i w = Inr (OReg r, is, w')"
    using assms(3,4) b(1,2) r(1) imm_ok_size [OF assms(1)] imm_ok_range [OF assms(1)]
    by (auto simp: splitImmediate_def Let_def last_inst_def ret_of_def t_def decl_def)
  moreover have "alloc r = X" using phys r(2) by simp
  ultimately show ?thesis using b(2,4) r(2) by (auto simp: loads_def)
qed

end
