(* ===== verification/Udw_Constants.thy ===== *)
theory Udw_Constants imports Udw_Build begin

text \<open>
  Instructions with a constant of any size, as \<open>SplitImmediates\<close> leaves them, and a shift that is merged
  with the operation behind it: what their code computes.
\<close>

unbundle bit_operations_syntax

section \<open>Instructions with a constant\<close>

lemma run_arith_imm:
  assumes "ops_are (Arith k) (Some (OReg a)) (Some (OImm m)) (Some d) i" "arith_opcode k REG_IMM = Inr opc"
    "\<not> isFP k"
  shows "run alloc [i] s = rmap (\<lambda>x. s(alloc d := x)) (exec_imm opc (s (alloc a)) (i_value m))"
  by (rule run_single [THEN trans], use assms in \<open>simp add: ops_are_def instructionTranslate_def translate_arith_def
       get_ops_binaryInst_def left_op_def right_op_def ret_ops_def rmap_def\<close>)
    (simp add: rmap_def)

lemma run_bitwise_reg:
  assumes "ops_are (Bitwise k) (Some (OReg a)) (Some (OReg b)) (Some d) i" "bitwise_opcode k REG_REG = Inr opc"
  shows "run alloc [i] s = rmap (\<lambda>x. s(alloc d := x)) (exec_reg opc (s (alloc a)) (s (alloc b)))"
  by (rule run_single [THEN trans], use assms in \<open>simp add: ops_are_def instructionTranslate_def translate_bitwise_def
       get_ops_binaryInst_def left_op_def right_op_def ret_ops_def rmap_def\<close>)
    (simp add: rmap_def)

lemma setRight_ok:
  assumes "ops_are k l r ret i" "k \<in> range Arith \<union> range Bitwise"
  obtains j where "setRight x i = Inr j" "ops_are k l x ret j"
  using assms that by (auto simp: setRight_def set_op_def setQualifierBasedOnOperands_def Let_def ops_are_def)

text \<open>The value of the return register\<close>

definition returned :: "(wreg \<Rightarrow> string) \<Rightarrow> winst list \<Rightarrow> wreg \<Rightarrow> regs \<Rightarrow> 64 word res" where
  "returned alloc is r s = rmap (\<lambda>t. t (alloc r)) (run alloc is s)"

lemma read_back [simp]: "rmap (\<lambda>t. t X) (rmap (\<lambda>x. s(X := x)) m) = m"
  by (cases m) (simp_all add: rmap_def)

lemma split_inst_binary:
  assumes i: "ops_are k (Some (OReg a)) (Some (OImm m)) (Some r) i" "k \<in> range Arith \<union> range Bitwise"
    and m: "imm_ok m sz" "free_name (n_ctx i) w" "one_register alloc (length (w_decls w)) T" "alloc a \<noteq> T"
    and field: "getImmediateFieldSize i = Inr field"
    and imm: "\<bar>i_value m\<bar> < 2 ^ field \<Longrightarrow> (\<And>j s. ops_are k (Some (OReg a)) (Some (OImm m)) (Some r) j \<Longrightarrow>
                returned alloc [j] r s = f (s (alloc a)) c)"
    and c: "2 ^ field \<le> \<bar>i_value m\<bar> \<Longrightarrow> word_of_int (i_value m) = c"
    and reg: "2 ^ field \<le> \<bar>i_value m\<bar> \<Longrightarrow> (\<And>b j s. ops_are k (Some (OReg a)) (Some (OReg b)) (Some r) j \<Longrightarrow>
                returned alloc [j] r s = f (s (alloc a)) (s (alloc b)))"
  shows "\<exists>new w'. split_inst i w = Inr (new, w') \<and>
           (\<forall>s. returned alloc new r s = f (s (alloc a)) c)"
proof -
  have k: "isBinaryOps (n_class i)" "left_op i = Some (OReg a)" "right_op i = Some (OImm m)"
    "\<not> isMemory (n_class i)"
    using i by (auto simp: ops_are_def left_op_def right_op_def)
  show ?thesis
  proof (cases "\<bar>i_value m\<bar> < 2 ^ field")
    case True
    obtain j where j: "setRight (Some (OImm m)) i = Inr j" "ops_are k (Some (OReg a)) (Some (OImm m)) (Some r) j"
      using setRight_ok [OF i] by metis
    have "\<bar>i_value m\<bar> < 2 ^ sz" using imm_ok_range [OF m(1)] by auto
    then have "splitImmediate m i w = Inr (OImm m, [], w)"
      using True field imm_ok_size [OF m(1)] imm_ok_range [OF m(1)] by (auto simp: splitImmediate_def Let_def)
    then have "split_inst i w = Inr ([j], w)"
      using k j(1) by (simp add: split_inst_def split_operand_def rmap_def)
    then show ?thesis using imm [OF True j(2)] by auto
  next
    case False
    have "target_ok i (declLookup (n_ctx i) (n_ret i) w) (length (w_decls w)) w"
      using m(2) k(4) by (simp add: target_ok_def split: option.splits)
    then obtain b new w' where b: "r_decl b = Some (length (w_decls w))" "splitImmediate m i w = Inr (OReg b, new, w')"
      "\<And>s. run alloc new s = Inr (s(alloc b := word_of_int (i_value m)))"
      using split_builds_value [OF m(1) _ field _ m(3)] False by (metis linorder_not_less)
    obtain j where j: "setRight (Some (OReg b)) i = Inr j" "ops_are k (Some (OReg a)) (Some (OReg b)) (Some r) j"
      using setRight_ok [OF i] by metis
    have "split_inst i w = Inr (new @ [j], w')"
      using k j(1) b(2) by (simp add: split_inst_def split_operand_def rmap_def)
    moreover have "alloc b = T" using m(3) b(1) by simp
    ultimately show ?thesis
      using reg [OF _ j(2)] c False m(4) b(3) by (auto simp: returned_def run_append)
  qed
qed

lemma exec_both:
  "simm16 v = Inr y \<Longrightarrow> exec_imm ''addi'' x v = exec_reg ''add'' x y"
  "simm16 v = Inr y \<Longrightarrow> exec_imm ''subi'' x v = exec_reg ''sub'' x y"
  "simm16 v = Inr y \<Longrightarrow> exec_imm ''muli'' x v = exec_reg ''mul'' x y"
  "simm16 v = Inr y \<Longrightarrow> exec_imm ''divi'' x v = exec_reg ''div'' x y"
  "simm16 v = Inr y \<Longrightarrow> exec_imm ''modi'' x v = exec_reg ''mod'' x y"
  "uimm16 v = Inr y \<Longrightarrow> exec_imm ''andi'' x v = exec_reg ''and'' x y"
  "uimm16 v = Inr y \<Longrightarrow> exec_imm ''ori'' x v = exec_reg ''or'' x y"
  "uimm16 v = Inr y \<Longrightarrow> exec_imm ''xori'' x v = exec_reg ''xor'' x y"
  by (simp_all add: exec_imm_def exec_reg_def rmap_def)

lemma arith_both:
  assumes "arith_opcode k REG_REG = Inr opc" "\<not> isFP k"
  obtains opi where "arith_opcode k REG_IMM = Inr opi"
    "\<And>x v y. simm16 v = Inr y \<Longrightarrow> exec_imm opi x v = exec_reg opc x y"
  using assms that by (cases k) (auto simp: exec_both isFP_def)

lemma bitwise_both:
  assumes "bitwise_opcode k REG_REG = Inr opc" "k \<in> {BWAND, BWOR, BWXOR}"
  obtains opi where "bitwise_opcode k REG_IMM = Inr opi"
    "\<And>x v y. uimm16 v = Inr y \<Longrightarrow> exec_imm opi x v = exec_reg opc x y"
  using assms that by (cases k) (auto simp: exec_both)

text \<open>C6: An integer operation with an immediate of any size becomes code that gives what the operation
  with two registers gives on the operand and the constant, whether the immediate stays in the
  instruction or is built in a register; the two also agree on a division by 0.\<close>

theorem arithmetic_with_constant:
  assumes "ops_are (Arith k) (Some (OReg a)) (Some (OImm m)) (Some r) i" "arith_opcode k REG_REG = Inr opc" "\<not> isFP k"
    and "imm_ok m sz" "free_name (n_ctx i) w" "one_register alloc (length (w_decls w)) T" "alloc a \<noteq> T"
  shows "\<exists>new w'. split_inst i w = Inr (new, w') \<and>
           (\<forall>s. returned alloc new r s = exec_reg opc (s (alloc a)) (word_of_int (i_value m)))"
proof (rule split_inst_binary [OF assms(1) _ assms(4-7), where field = 15])
  show "getImmediateFieldSize i = Inr 15"
    using assms(1) by (simp add: getImmediateFieldSize_def ops_are_def I_def)
  fix j s assume small: "\<bar>i_value m\<bar> < 2 ^ 15" and j: "ops_are (Arith k) (Some (OReg a)) (Some (OImm m)) (Some r) j"
  have f: "simm16 (i_value m) = Inr (word_of_int (i_value m))" using small by (intro simm16_eq) auto
  show "returned alloc [j] r s = exec_reg opc (s (alloc a)) (word_of_int (i_value m))"
    by (rule arith_both [OF assms(2,3)]) (simp add: returned_def run_arith_imm [OF j _ assms(3)] f)
next
  fix b j s assume j: "ops_are (Arith k) (Some (OReg a)) (Some (OReg b)) (Some r) j"
  show "returned alloc [j] r s = exec_reg opc (s (alloc a)) (s (alloc b))"
    by (simp add: returned_def run_arith_reg [OF j assms(2,3)])
qed simp_all

text \<open>What the 16 bits of the field of a bitwise instruction stand for\<close>

definition bitwise_field :: "int \<Rightarrow> int" where
  "bitwise_field v = (if - (2 ^ 16) < v \<and> v < 0 then 2 ^ 15 + v mod 2 ^ 15 else v)"

text \<open>C33: A bitwise operation with an immediate of any size gives what the operation with two registers
  gives on the operand and \<open>bitwise_field\<close> of the constant. This is the constant unless it lies
  between \<open>-(2^16)\<close> and 0: such an immediate is left in a field of 16 bits that has no sign.\<close>

theorem bitwise_with_constant:
  assumes "ops_are (Bitwise k) (Some (OReg a)) (Some (OImm m)) (Some r) i" "bitwise_opcode k REG_REG = Inr opc"
    and "k \<in> {BWAND, BWOR, BWXOR}"
    and "imm_ok m sz" "free_name (n_ctx i) w" "one_register alloc (length (w_decls w)) T" "alloc a \<noteq> T"
  shows "\<exists>new w'. split_inst i w = Inr (new, w') \<and>
           (\<forall>s. returned alloc new r s = exec_reg opc (s (alloc a)) (word_of_int (bitwise_field (i_value m))))"
proof (rule split_inst_binary [OF assms(1) _ assms(4-7), where field = 16])
  show "getImmediateFieldSize i = Inr 16"
    using assms(1,3) by (auto simp: getImmediateFieldSize_def ops_are_def I_def)
  fix j s assume small: "\<bar>i_value m\<bar> < 2 ^ 16" and j: "ops_are (Bitwise k) (Some (OReg a)) (Some (OImm m)) (Some r) j"
  have f: "uimm16 (i_value m) = Inr (word_of_int (bitwise_field (i_value m)))"
    using small by (cases "i_value m < 0") (simp_all add: uimm16_eq uimm16_neg bitwise_field_def)
  show "returned alloc [j] r s = exec_reg opc (s (alloc a)) (word_of_int (bitwise_field (i_value m)))"
    by (rule bitwise_both [OF assms(2,3)]) (simp add: returned_def run_bitwise_imm [OF j] f)
next
  fix b j s assume j: "ops_are (Bitwise k) (Some (OReg a)) (Some (OReg b)) (Some r) j"
  show "returned alloc [j] r s = exec_reg opc (s (alloc a)) (s (alloc b))"
    by (simp add: returned_def run_bitwise_reg [OF j assms(2)])
qed (auto simp: bitwise_field_def)

section \<open>A shift and an operation\<close>

lemma run_combined:
  assumes "n_class i = ShiftArith b k x" "n_ops i = [Some (OReg a), Some (OImm sm), Some (OImm am)]" "n_ret i = Some d"
    and "combined_opcode b k x = Inr opc"
  shows "run alloc [i] s = rmap (\<lambda>y. s(alloc d := y)) (exec_combined opc (s (alloc a)) (i_value sm) (i_value am))"
  by (rule run_single [THEN trans], use assms in \<open>simp add: instructionTranslate_def translate_combined_def getInOps_def rmap_def
      seq_res.simps\<close>) (simp add: rmap_def)

lemma inbinary_total4: "v < 2 ^ 4 \<Longrightarrow> \<exists>s. inbinary4 v = Inr s" "v < 2 ^ 12 \<Longrightarrow> \<exists>s. inbinary12 v = Inr s"
  using b4.enc_ok [of v] b12.enc_ok [of v] by simp_all

lemma shift4_eq: "0 \<le> v \<Longrightarrow> v < 16 \<Longrightarrow> shift4 v = Inr (nat v)"
  using inbinary_total4(1) [of v] b4.roundtrip_unsigned [of v]
  by (auto simp: shift4_def encode_immediate4_def rmap_def)

lemma uimm12_eq: "0 \<le> v \<Longrightarrow> v < 2 ^ 12 \<Longrightarrow> uimm12 v = Inr (word_of_int v)"
  using inbinary_total4(2) [of v] b12.roundtrip_unsigned [of v]
  by (auto simp: uimm12_def encode_immediate12_def rmap_def)

lemma merged_kinds_cases:
  assumes "k \<in> set merged_kinds"
  obtains "k = ArithOp IADDITION" | "k = ArithOp ISUBTRACTION" | "k = BitwiseOp BWOR" | "k = BitwiseOp BWAND"
  using assms by (auto simp: merged_kinds_def)

lemma run_second:
  assumes "ops_are c (Some (OReg t)) (Some (OImm am)) (Some d) i" "second_kind c = Some k" "k \<in> set merged_kinds"
    and "0 \<le> i_value am" "i_value am < 2 ^ 12"
  shows "run alloc [i] s = Inr (s(alloc d :=
     (let x = s (alloc t); y = word_of_int (i_value am)
      in if k = ArithOp IADDITION then x + y else if k = ArithOp ISUBTRACTION then x - y
         else if k = BitwiseOp BWOR then x OR y else x AND y)))"
proof -
  have f: "simm16 (i_value am) = Inr (word_of_int (i_value am))" "uimm16 (i_value am) = Inr (word_of_int (i_value am))"
    using assms(4,5) by (auto intro!: simm16_eq uimm16_eq)
  have c: "c = (case k of ArithOp x \<Rightarrow> Arith x | BitwiseOp y \<Rightarrow> Bitwise y)"
    using assms(2) by (cases c) auto
  note runs = run_arith_imm [of IADDITION t am d i "''addi''" alloc s] run_arith_imm [of ISUBTRACTION t am d i "''subi''" alloc s]
      run_bitwise_imm [of BWOR t am d i "''ori''" alloc s] run_bitwise_imm [of BWAND t am d i "''andi''" alloc s]
  show ?thesis
    by (rule merged_kinds_cases [OF assms(3)], use assms(1) runs in \<open>simp_all add: c isFP_def exec_imm_def f rmap_def Let_def\<close>)
qed

text \<open>A constant on the left is printed like one on the right.\<close>

lemma translate_constant_left:
  assumes "ops_are c (Some (OImm m)) (Some (OReg t)) r i" "second_kind c = Some k"
  shows "instructionTranslate alloc f g (i\<lparr>n_ops := [Some (OReg t), Some (OImm m)]\<rparr>) = instructionTranslate alloc f g i"
  using assms by (cases c) (simp_all add: ops_are_def instructionTranslate_def translate_arith_def translate_bitwise_def get_ops_binaryInst_def
      left_op_def right_op_def ret_ops_def cong del: if_weak_cong)

lemma run_second_either:
  assumes "ops_are c x y (Some d) i" "(x, y) = (Some (OReg t), Some (OImm am)) \<or> (x, y) = (Some (OImm am), Some (OReg t))"
    and "second_kind c = Some k" "k \<in> set merged_kinds" "0 \<le> i_value am" "i_value am < 2 ^ 12"
  shows "run alloc [i] s = Inr (s(alloc d :=
     (let x = s (alloc t); y = word_of_int (i_value am)
      in if k = ArithOp IADDITION then x + y else if k = ArithOp ISUBTRACTION then x - y
         else if k = BitwiseOp BWOR then x OR y else x AND y)))"
  using assms(2)
proof
  assume "(x, y) = (Some (OReg t), Some (OImm am))"
  then show ?thesis using run_second [OF _ assms(3-6)] assms(1) by simp
next
  assume e: "(x, y) = (Some (OImm am), Some (OReg t))"
  let ?j = "i\<lparr>n_ops := [Some (OReg t), Some (OImm am)]\<rparr>"
  have "ops_are c (Some (OReg t)) (Some (OImm am)) (Some d) ?j" using assms(1) by (simp add: ops_are_def)
  from run_second [OF this assms(3-6), of alloc s] show ?thesis
    using translate_constant_left [of c am t "Some d" i k alloc "\<lambda>_. ''''" "\<lambda>_. ''''"] assms(1,3) e
    by (simp add: run_def code_of_def)
qed

text \<open>C14: A shift of a register by a constant and the operation behind it on its result and another constant are
  merged to one instruction, which takes their place in the block. It leaves the same value in the result register
  from every state when the other constant is the right operand, or for an addition on either side.
  With the constant on the left of \<open>|\<close> or \<open>&\<close> the printed opcode lacks the \<open>i\<close> of the form with two
  immediates: it is that of the instruction on two registers, with both constants behind it.\<close>

theorem shift_and_operation_merged:
  assumes "ops_are (Bitwise b) (Some (OReg a)) (Some (OImm sm)) (Some t) shift"
    and "ops_are c x y (Some d) second"
    and "(x, y) = (Some (OReg t), Some (OImm am)) \<or> (x, y) = (Some (OImm am), Some (OReg t))"
    and "optimizeShiftAndArith uses shift second index w insts = Inr (True, w', insts')"
  shows "\<exists>new. insts' = replaceInstr index 2 [new] insts \<and>
           (if x = Some (OImm am) \<and> c \<noteq> Arith IADDITION
            then code_of alloc [new] = Inr
              [((if b = SHFTLFT then ''sl'' else ''sr'') @ (if c = Bitwise BWOR then ''ori'' else ''andi''),
                [GReg (alloc a), GReg (alloc d), GImm (i_value sm), GImm (i_value am)])]
            else \<forall>s. returned alloc [new] d s = returned alloc [shift, second] d s)"
proof -
  have o: "n_class shift = Bitwise b" "right_op shift = Some (OImm sm)" "left_op shift = Some (OReg a)" "n_ret shift = Some t"
    "n_class second = c" "left_op second = x" "right_op second = y" "n_ret second = Some d"
    using assms(1-3) by (auto simp: ops_are_def left_op_def right_op_def)
  obtain k where k: "second_kind c = Some k"
    using assms(4) o by (cases "second_kind c") (simp_all add: optimizeShiftAndArith_def)
  define new where "new = (fst (new_inst (ShiftArith b k y) (n_dtype shift)
      [Some (OReg a), Some (OImm sm), Some (OImm am)] (n_ctx shift) w))\<lparr>n_ret := Some d\<rparr>"
  have r: "b \<in> {SHFTLFT, LSHFTRGT}" "k \<in> set merged_kinds" "0 \<le> i_value am" "i_value am < 2 ^ 12" "0 \<le> i_value sm"
    "i_value sm < 16" "insts' = replaceInstr index 2 [new] insts" "x = Some (OImm am) \<Longrightarrow> kind_isCommutative k"
    using assms(3,4) o k
    by (auto simp: optimizeShiftAndArith_def merged_operand_def merged_right_def ret_of_def ShortI_def TiniestI_def Let_def new_def
        new_inst_def split: if_splits)
  obtain n where n: "i_value sm = int n" "n < 16" using r(5,6) by (metis nonneg_int_cases of_nat_less_iff of_nat_numeral)
  let ?x = "\<lambda>s. if b = SHFTLFT then push_bit n (s (alloc a)) else drop_bit n (s (alloc a) :: 64 word)"
  have "run alloc [shift] s = Inr (s(alloc t := ?x s))" for s
    using run_bitwise_imm [OF assms(1), of "if b = SHFTLFT then ''sli'' else ''sri''"] r(1) n
    by (auto simp: exec_imm_shifts rmap_def)
  then have two: "returned alloc [shift, second] d s =
     (let x = ?x s; y = word_of_int (i_value am)
      in Inr (if k = ArithOp IADDITION then x + y else if k = ArithOp ISUBTRACTION then x - y
         else if k = BitwiseOp BWOR then x OR y else x AND y))" for s
    by (simp add: returned_def run_Cons run_second_either [OF assms(2,3) k r(2-4)] rmap_def Let_def)
  have c: "c = (case k of ArithOp x \<Rightarrow> Arith x | BitwiseOp y \<Rightarrow> Bitwise y)" using k by (cases c) auto
  show ?thesis
  proof (cases "x = Some (OImm am) \<and> c \<noteq> Arith IADDITION")
    case True
    then have kb: "k = BitwiseOp BWOR \<or> k = BitwiseOp BWAND"
      using r(2,8) by (auto elim!: merged_kinds_cases simp: c arith_isCommutative_def)
    have y: "y = Some (OReg t)" using True assms(3) by auto
    have "code_of alloc [new] = Inr
        [((if b = SHFTLFT then ''sl'' else ''sr'') @ (if c = Bitwise BWOR then ''ori'' else ''andi''),
          [GReg (alloc a), GReg (alloc d), GImm (i_value sm), GImm (i_value am)])]"
      using r(1) kb by (auto simp: code_of_def c new_def new_inst_def y instructionTranslate_def translate_combined_def
          combined_opcode_def getInOps_def seq_res.simps rmap_def)
    then show ?thesis using True r(7) by auto
  next
    case False
    then have p: "y = Some (OImm am) \<or> k = ArithOp IADDITION" using assms(3) by (auto simp: c split: arith_or_bitwise.splits)
    have "returned alloc [new] d s = returned alloc [shift, second] d s" for s
    proof -
      obtain opc where opc: "combined_opcode b k y = Inr opc"
        "exec_combined opc (s (alloc a)) (i_value sm) (i_value am) = returned alloc [shift, second] d s"
        unfolding two using r(1,2) n r(3,4) p
        by (auto elim!: merged_kinds_cases simp: combined_opcode_def exec_combined_def shift4_eq uimm12_eq Let_def)
      have "run alloc [new] s = rmap (\<lambda>y. s(alloc d := y)) (exec_combined opc (s (alloc a)) (i_value sm) (i_value am))"
        by (rule run_combined [OF _ _ _ opc(1)]) (simp_all add: new_def new_inst_def)
      then show ?thesis using opc(2) by (simp add: returned_def)
    qed
    then show ?thesis using False r(7) by auto
  qed
qed

section \<open>Examples\<close>

lemma ops_are_demo [simp]: "ops_are k (Some (OReg (demo_reg (int d) d))) (Some (OImm (demo_imm v))) (Some (demo_reg 0 0)) (demo_inst k t q d v)"
  by (simp add: ops_are_def demo_inst_def)

lemma imm_ok_demo [simp]: "imm_ok (demo_imm v) 64 \<longleftrightarrow> - (2 ^ 63) \<le> v \<and> v < 2 ^ 63"
  by (simp add: imm_ok_def demo_imm_def isSigned_def)

lemma free_name_demo [simp]: "free_name (n_ctx (demo_inst k t q d v)) demo_state"
  by (simp add: free_name_def demo_inst_def demo_state_def demo_decl_def declExists_def py_str_def Let_def)

lemma demo_decls [simp]: "length (w_decls demo_state) = 2"
  by (simp add: demo_state_def)

definition demo_alloc3 :: "wreg \<Rightarrow> string" where
  "demo_alloc3 r = (if r_decl r = Some 0 then ''X16'' else if r_decl r = Some 1 then ''X17'' else ''X18'')"

lemma demo_alloc3 [simp]: "one_register demo_alloc3 2 ''X18''" "demo_alloc3 (demo_reg n d) =
    (if d = 0 then ''X16'' else if d = 1 then ''X17'' else ''X18'')"
  by (simp_all add: one_register_def demo_alloc3_def)

theorem arithmetic_with_constant_witness:
  "\<exists>new w'. split_inst (demo_inst (Arith IADDITION) i64 [signed_q] 1 0x123456789ABCDEF) demo_state = Inr (new, w') \<and>
     (\<forall>s. returned demo_alloc3 new (demo_reg 0 0) s = exec_reg ''add'' (s ''X17'') (word_of_int 0x123456789ABCDEF))"
  using arithmetic_with_constant [of IADDITION "demo_reg 1 1" "demo_imm 0x123456789ABCDEF" "demo_reg 0 0"
      "demo_inst (Arith IADDITION) i64 [signed_q] 1 0x123456789ABCDEF" "''add''" 64 demo_state demo_alloc3 "''X18''"]
    ops_are_demo [of "Arith IADDITION" 1]
  by (simp add: isFP_def)

theorem bitwise_with_constant_witness:
  "\<exists>new w'. split_inst (demo_inst (Bitwise BWAND) i64 [signed_q] 1 (- 2)) demo_state = Inr (new, w') \<and>
     (\<forall>s. returned demo_alloc3 new (demo_reg 0 0) s = exec_reg ''and'' (s ''X17'') (word_of_int 0xFFFE))"
  using bitwise_with_constant [of BWAND "demo_reg 1 1" "demo_imm (- 2)" "demo_reg 0 0"
      "demo_inst (Bitwise BWAND) i64 [signed_q] 1 (- 2)" "''and''" 64 demo_state demo_alloc3 "''X18''"]
    ops_are_demo [of "Bitwise BWAND" 1]
  by (simp add: bitwise_field_def)

theorem split_builds_value_witness:
  "\<exists>r new w'. r_decl r = Some 2 \<and>
     splitImmediate (demo_imm 0x123456789ABCDEF) (demo_inst (Arith IADDITION) i64 [signed_q] 1 0) demo_state
       = Inr (OReg r, new, w') \<and> new \<noteq> [] \<and>
     (\<forall>s. run demo_alloc3 new s = Inr (s(demo_alloc3 r := word_of_int 0x123456789ABCDEF)))"
proof -
  have "target_ok (demo_inst (Arith IADDITION) i64 [signed_q] 1 0) d 2 demo_state" for d
    by (simp add: target_ok_def split: option.split)
  then show ?thesis
    using split_builds_value [of "demo_imm 0x123456789ABCDEF" 64 "demo_inst (Arith IADDITION) i64 [signed_q] 1 0" demo_state 2 15
        demo_alloc3 "''X18''"]
    by (simp add: getImmediateFieldSize_def I_def)
qed

text \<open>A shift by two places and a sum of 12; the result of the shift has no other use.\<close>

definition demo_shift :: winst where
  "demo_shift = (demo_inst (Bitwise SHFTLFT) i64 [signed_q] 1 2)\<lparr>n_ret := Some (demo_reg 2 2)\<rparr>"

definition demo_sum :: winst where
  "demo_sum = (demo_inst (Arith IADDITION) i64 [signed_q] 2 12)\<lparr>n_id := 1\<rparr>"

definition demo_or :: winst where
  "demo_or = (demo_inst (Bitwise BWOR) i64 [signed_q] 2 12)
     \<lparr>n_id := 1, n_ops := [Some (OImm (demo_imm 12)), Some (OReg (demo_reg 2 2))]\<rparr>"

theorem shift_and_operation_merged_witness:
  "\<exists>w' insts' new w2 insts2 new2.
     optimizeShiftAndArith (\<lambda>_ _ _. [demo_sum]) demo_shift demo_sum 0 demo_state [demo_shift, demo_sum]
       = Inr (True, w', insts') \<and> insts' = replaceInstr 0 2 [new] [demo_shift, demo_sum] \<and>
     (\<forall>s. returned demo_alloc3 [new] (demo_reg 0 0) s = returned demo_alloc3 [demo_shift, demo_sum] (demo_reg 0 0) s) \<and>
     optimizeShiftAndArith (\<lambda>_ _ _. [demo_or]) demo_shift demo_or 0 demo_state [demo_shift, demo_or]
       = Inr (True, w2, insts2) \<and> insts2 = replaceInstr 0 2 [new2] [demo_shift, demo_or] \<and>
     code_of demo_alloc3 [new2] = Inr [(''slori'', [GReg ''X17'', GReg ''X16'', GImm 2, GImm 12])]"
proof -
  have ops: "ops_are (Bitwise SHFTLFT) (Some (OReg (demo_reg 1 1))) (Some (OImm (demo_imm 2))) (Some (demo_reg 2 2)) demo_shift"
    "ops_are (Arith IADDITION) (Some (OReg (demo_reg 2 2))) (Some (OImm (demo_imm 12))) (Some (demo_reg 0 0)) demo_sum"
    "ops_are (Bitwise BWOR) (Some (OImm (demo_imm 12))) (Some (OReg (demo_reg 2 2))) (Some (demo_reg 0 0)) demo_or"
    using ops_are_demo [of "Bitwise SHFTLFT" 1 2 i64 "[signed_q]"] ops_are_demo [of "Arith IADDITION" 2 12 i64 "[signed_q]"]
    by (simp_all add: demo_shift_def demo_sum_def demo_or_def ops_are_def demo_inst_def)
  note defs = optimizeShiftAndArith_def ops_are_def left_op_def right_op_def merged_kinds_def merged_operand_def merged_right_def
    ret_of_def ShortI_def TiniestI_def demo_inst_def case_prod_beta
  obtain w' insts' where r: "optimizeShiftAndArith (\<lambda>_ _ _. [demo_sum]) demo_shift demo_sum 0 demo_state [demo_shift, demo_sum]
       = Inr (True, w', insts')"
    using ops by (auto simp: defs demo_shift_def demo_sum_def)
  obtain w2 insts2 where r2: "optimizeShiftAndArith (\<lambda>_ _ _. [demo_or]) demo_shift demo_or 0 demo_state [demo_shift, demo_or]
       = Inr (True, w2, insts2)"
    using ops by (auto simp: defs demo_shift_def demo_or_def bitwise_isCommutative_def)
  obtain new where "insts' = replaceInstr 0 2 [new] [demo_shift, demo_sum]"
    "\<And>s. returned demo_alloc3 [new] (demo_reg 0 0) s = returned demo_alloc3 [demo_shift, demo_sum] (demo_reg 0 0) s"
    using shift_and_operation_merged [OF ops(1,2) _ r, where alloc = demo_alloc3 and am = "demo_imm 12"] by auto
  moreover obtain new2 where "insts2 = replaceInstr 0 2 [new2] [demo_shift, demo_or]"
    "code_of demo_alloc3 [new2] = Inr [(''slori'', [GReg ''X17'', GReg ''X16'', GImm 2, GImm 12])]"
    using shift_and_operation_merged [OF ops(1,3) _ r2, where alloc = demo_alloc3 and am = "demo_imm 12"] by auto
  ultimately show ?thesis using r r2 by blast
qed

end
