(* ===== verification/Udw_Ends.thy ===== *)
theory Udw_Ends imports Udw_Runs begin

text \<open>
  The loop of \<open>OperandSubstitution\<close> ends: a size of programs that every change of a block makes smaller.
\<close>

section \<open>The size of a program\<close>

definition shift_kinds :: "bitwise_type set" where
  "shift_kinds = {SHFTLFT, LSHFTRGT, ASHFTRGT}"

definition shift_open :: "winst \<Rightarrow> bool" where
  "shift_open i =
     (case right_op i of
        Some (OImm m) \<Rightarrow> i_orig m < 0 \<or> (case getSize (n_dtype i) of Inr b \<Rightarrow> b * 8 \<le> i_value m | Inl _ \<Rightarrow> False)
      | _ \<Rightarrow> False)"

definition inst_size :: "winst \<Rightarrow> nat" where
  "inst_size i =
     (case n_class i of
        Arith k \<Rightarrow> if k \<in> {IMULT, IDIVIDE, MODULO} then 100 else 1
      | Bitwise k \<Rightarrow> if k \<in> shift_kinds \<and> shift_open i then 10 else 1
      | _ \<Rightarrow> 1)"

definition insts_size :: "winst list \<Rightarrow> nat" where
  "insts_size is = sum_list (map inst_size is)"

lemma insts_size_simps [simp]: "insts_size [] = 0" "insts_size (i # is) = inst_size i + insts_size is"
  "insts_size (is @ js) = insts_size is + insts_size js"
  by (simp_all add: insts_size_def)

fun class_bound :: "wclass \<Rightarrow> nat" where
  "class_bound (Arith k) = (if k \<in> {IMULT, IDIVIDE, MODULO} then 100 else 1)"
| "class_bound (Bitwise _) = 10"
| "class_bound _ = 1"

lemma size_bound: "inst_size i \<le> class_bound (n_class i)"
  by (cases "n_class i") (simp_all add: inst_size_def)

lemma size_pos: "1 \<le> inst_size i"
  by (cases "n_class i") (simp_all add: inst_size_def)

lemma size_class: "n_class i = c \<Longrightarrow> class_bound c = n \<Longrightarrow> inst_size i \<le> n"
  using size_bound [of i] by simp

lemma insts_bound: "sum_list (map class_bound (map n_class is)) \<le> n \<Longrightarrow> insts_size is \<le> n"
proof -
  assume "sum_list (map class_bound (map n_class is)) \<le> n"
  moreover have "insts_size is \<le> sum_list (map class_bound (map n_class is))"
    unfolding insts_size_def by (induction "is") (simp_all add: add_mono size_bound)
  ultimately show ?thesis by simp
qed

section \<open>New instructions\<close>

lemma set_op_class: "set_op k x i = Inr j \<Longrightarrow> n_class j = n_class i"
  by (auto simp: set_op_def Let_def setQualifierBasedOnOperands_def rmap_def rbind_Inr_iff split: wclass.splits)

lemma binary_inst_class: "binary_inst c t l r ret cx w = Inr (i, w') \<Longrightarrow> n_class i = c"
  by (auto simp: binary_inst_def new_inst_def setLeft_def setRight_def rbind_Inr_iff dest!: set_op_class)

lemma bitwise_const_class: "bitwise_const i k l v ret w = Inr (j, w') \<Longrightarrow> n_class j = Bitwise k"
  by (auto simp: bitwise_const_def rbind_Inr_iff dest!: binary_inst_class)

lemma load_const_class: "load_const i v ret w = Inr (j, w') \<Longrightarrow> n_class j = Memory LOAD"
  by (auto simp: load_const_def rbind_Inr_iff load_inst_def new_inst_def)

lemma load_inst_class: "load_inst t x ret c w = (j, w') \<Longrightarrow> n_class j = Memory LOAD"
  by (auto simp: load_inst_def new_inst_def)

lemma inst_size_ret [simp]: "inst_size (i\<lparr>n_ret := r\<rparr>) = inst_size i"
proof -
  have "shift_open (i\<lparr>n_ret := r\<rparr>) = shift_open i"
    by (simp add: shift_open_def right_op_def split: option.split opnd.split)
  then show ?thesis by (cases "n_class i") (simp_all add: inst_size_def)
qed

lemma bitwise_const_size: "bitwise_const i k l v ret w = Inr (j, w') \<Longrightarrow> inst_size j \<le> 10"
  by (drule bitwise_const_class) (use size_bound [of j] in simp)

lemma load_const_size: "load_const i v ret w = Inr (j, w') \<Longrightarrow> inst_size j \<le> 1"
  by (drule load_const_class) (use size_bound [of j] in simp)

lemma load_inst_size: "load_inst t x ret c w = (j, w') \<Longrightarrow> inst_size j \<le> 1"
  by (drule load_inst_class) (use size_bound [of j] in simp)

lemma load_inst_fst [simp]: "inst_size (fst (load_inst t x ret c w)) = 1"
  by (simp add: load_inst_def new_inst_def inst_size_def)

lemma sum_size: "binary_inst (Arith IADDITION) t l r ret cx w = Inr (j, w') \<Longrightarrow> inst_size j \<le> 1"
    "binary_inst (Arith ISUBTRACTION) t l r ret cx w = Inr (j, w') \<Longrightarrow> inst_size j \<le> 1"
  by (drule binary_inst_class, use size_bound [of j] in simp)+

lemma negated_size: "negated d i x w = Inr (is, w') \<Longrightarrow> insts_size is \<le> 2"
  by (auto simp: negated_def rbind_Inr_iff dest!: load_const_size sum_size)

lemma getRemainder_size: "getRemainder d i v w = Inr (is, w') \<Longrightarrow> insts_size is \<le> 21"
  by (auto simp: getRemainder_def rbind_Inr_iff Let_def case_prod_beta dest!: bitwise_const_size sum_size)

lemmas new_sizes = bitwise_const_size load_const_size load_inst_size sum_size negated_size getRemainder_size

section \<open>Steps\<close>

definition smaller :: "winst \<Rightarrow> nat \<Rightarrow> winst list \<Rightarrow> winst list \<Rightarrow> bool" where
  "smaller i index insts insts' = (\<exists>new. insts' = replaceInstr index 1 new insts \<and> insts_size new < inst_size i)"

lemma smallerI: "insts_size new < inst_size i \<Longrightarrow> smaller i index insts (replaceInstr index 1 new insts)"
  by (auto simp: smaller_def)

definition shrinks :: "winst \<Rightarrow> nat \<Rightarrow> winst list \<Rightarrow> rewriting \<Rightarrow> bool" where
  "shrinks i index insts m =
     (\<forall>c w' insts'. m = Inr (c, w', insts') \<longrightarrow> (if c then smaller i index insts insts' else insts' = insts))"

lemma product_size: "n_class i = Arith k \<Longrightarrow> k \<in> {IMULT, IDIVIDE, MODULO} \<Longrightarrow> inst_size i = 100"
  by (auto simp: inst_size_def)

lemma optimizeMulI_shrinks: "shrinks i index insts (optimizeMulI i index w insts)"
  unfolding shrinks_def optimizeMulI_def
  by (auto simp: rbind_Inr_iff Let_def product_size case_prod_beta split: wclass.splits arith_type.splits option.splits if_splits
      dest!: new_sizes intro!: smallerI simp del: One_nat_def)

lemma optimizeDivI_shrinks: "shrinks i index insts (optimizeDivI i index w insts)"
  unfolding shrinks_def optimizeDivI_def signed_division_def
  by (auto simp: rbind_Inr_iff Let_def product_size case_prod_beta split: wclass.splits arith_type.splits option.splits
      opnd.splits if_splits dest!: new_sizes intro!: smallerI simp del: One_nat_def)

lemma optimizeModI_shrinks: "shrinks i index insts (optimizeModI i index w insts)"
  unfolding shrinks_def optimizeModI_def
  by (auto simp: rbind_Inr_iff Let_def product_size case_prod_beta split: wclass.splits arith_type.splits option.splits
      opnd.splits if_splits dest!: new_sizes intro!: smallerI simp del: One_nat_def)

lemma open_shift_size:
  "n_class i = Bitwise k \<Longrightarrow> k \<in> shift_kinds \<Longrightarrow> right_op i = Some (OImm m) \<Longrightarrow> getSize (n_dtype i) = Inr b \<Longrightarrow>
   b * 8 \<le> i_value m \<Longrightarrow> inst_size i = 10"
  by (simp add: inst_size_def shift_open_def)

lemma optimizeShift_shrinks: "shrinks i index insts (optimizeShift i index w insts)"
  unfolding shrinks_def optimizeShift_def
  by (auto simp: rbind_Inr_iff Let_def open_shift_size shift_kinds_def case_prod_beta split: wclass.splits option.splits
      opnd.splits if_splits dest!: new_sizes intro!: smallerI simp del: One_nat_def)

lemma checkNegShift_size:
  assumes "checkNegShift i = Inr j"
  shows "inst_size j \<le> inst_size i"
proof (cases "j = i")
  case False
  obtain k m where k: "n_class i = Bitwise k" "right_op i = Some (OImm m)" "k \<in> shift_kinds" "i_orig m < 0"
    using assms False by (auto simp: checkNegShift_def shift_kinds_def split: wclass.splits option.splits opnd.splits if_splits)
  then have "inst_size i = 10" by (simp add: inst_size_def shift_open_def)
  moreover have "\<exists>l. n_class j = Bitwise l"
    using assms k by (auto simp: checkNegShift_def shift_kinds_def rbind_Inr_iff split: if_splits)
  ultimately show ?thesis using size_bound [of j] by auto
qed simp

lemma checkNegShift_class:
  assumes "checkNegShift i = Inr j" "n_class j = Bitwise k"
  shows "\<exists>l. n_class i = Bitwise l"
  using assms by (auto simp: checkNegShift_def rbind_Inr_iff split: wclass.splits option.splits opnd.splits if_splits)

section \<open>One instruction\<close>

lemma size_at: "index < length insts \<Longrightarrow> insts_size insts =
    insts_size (take index insts) + inst_size (insts ! index) + insts_size (drop (Suc index) insts)"
  by (metis add.assoc id_take_nth_drop insts_size_simps(2,3))

lemma smaller_size:
  assumes "smaller i index insts insts'" "insts ! index = i" "index < length insts"
  shows "insts_size insts' < insts_size insts \<and> take index insts' = take index insts \<and> length insts \<le> Suc (length insts')"
proof -
  obtain new where "insts' = take index insts @ new @ drop (Suc index) insts" "insts_size new < inst_size i"
    using assms(1) by (auto simp: smaller_def replaceInstr_def)
  then show ?thesis using assms(2,3) size_at [OF assms(3)] by simp
qed

lemma optimizeShiftAndArith_result:
  assumes "optimizeShiftAndArith uses i nxt index w insts = Inr (c, w', insts')"
  shows "\<not> c \<and> insts' = insts \<or>
    c \<and> (\<exists>b k x ops. n_class i = Bitwise b \<and> insts' = replaceInstr index 2
            [(fst (new_inst (ShiftArith b k x) (n_dtype i) ops (n_ctx i) w))\<lparr>n_ret := n_ret nxt\<rparr>] insts)"
proof (cases "\<exists>b k sm. n_class i = Bitwise b \<and> second_kind (n_class nxt) = Some k \<and> right_op i = Some (OImm sm)")
  case False
  then show ?thesis
    using assms by (auto simp: optimizeShiftAndArith_def split: wclass.splits option.splits opnd.splits)
next
  case True
  then obtain b k sm where o: "n_class i = Bitwise b" "second_kind (n_class nxt) = Some k" "right_op i = Some (OImm sm)"
    by blast
  show ?thesis
  proof (cases "b \<in> {SHFTLFT, LSHFTRGT} \<and> k \<in> set merged_kinds \<and> n_dtype i = n_dtype nxt")
    case False
    then show ?thesis using assms by (auto simp: optimizeShiftAndArith_def o)
  next
    case True
    then obtain x where x: "merged_operand i k nxt = Inr x"
      using assms by (cases "merged_operand i k nxt") (auto simp: optimizeShiftAndArith_def o)
    show ?thesis
    proof (cases "\<exists>am. x = Some (OImm am)")
      case False
      then show ?thesis using assms True x
        by (auto simp: optimizeShiftAndArith_def o split: option.splits opnd.splits)
    next
      case am: True
      then show ?thesis using assms True x
        by (auto simp: optimizeShiftAndArith_def o rbind_Inr_iff Let_def case_prod_beta split: if_splits; blast)
    qed
  qed
qed

lemma merge_shrinks:
  assumes "optimizeShiftAndArith uses i nxt index w insts = Inr (c, w', insts')" "Suc index < length insts"
  shows "(if c then insts_size insts' < insts_size insts else insts' = insts) \<and> take index insts' = take index insts \<and>
         index < length insts' \<and> (c \<longrightarrow> (\<exists>k. n_class i = Bitwise k))"
  using optimizeShiftAndArith_result [OF assms(1)]
proof (elim disjE conjE exE)
  fix b k x ops
  let ?new = "(fst (new_inst (ShiftArith b k x) (n_dtype i) ops (n_ctx i) w))\<lparr>n_ret := n_ret nxt\<rparr>"
  assume new: c "n_class i = Bitwise b" "insts' = replaceInstr index 2 [?new] insts"
  have "inst_size ?new = 1" by (simp add: new_inst_def inst_size_def)
  moreover have "drop (Suc index) insts = insts ! Suc index # drop (Suc (Suc index)) insts"
    using assms(2) by (simp add: Cons_nth_drop_Suc)
  then have "insts_size insts = insts_size (take index insts) + inst_size (insts ! index) + inst_size (insts ! Suc index)
      + insts_size (drop (Suc (Suc index)) insts)"
    using size_at [of index insts] assms(2) by simp
  ultimately show ?thesis
    using new assms(2) size_pos [of "insts ! index"] size_pos [of "insts ! Suc index"]
    by (simp add: replaceInstr_def numeral_2_eq_2 del: inst_size_ret)
qed (use assms(2) in auto)

text \<open>What a step does to the list: the part in front stays, and the list gets smaller when it changes.\<close>

definition step_ok :: "nat \<Rightarrow> winst list \<Rightarrow> bool \<Rightarrow> winst list \<Rightarrow> bool" where
  "step_ok index insts c insts' =
     (take index insts' = take index insts \<and> index < length insts' \<and> insts_size insts' \<le> insts_size insts \<and>
      (c \<longrightarrow> insts_size insts' < insts_size insts))"

lemma shrinksE:
  assumes "shrinks i index insts m" "m = Inr (c, w', insts')"
  obtains "c" "smaller i index insts insts'" | "\<not> c" "insts' = insts"
  using assms by (auto simp: shrinks_def split: if_splits)

lemma smaller_step:
  assumes "smaller i index insts insts'" "insts ! index = i" "Suc index < length insts"
  shows "step_ok index insts c insts'"
  using smaller_size [OF assms(1,2)] assms(3) by (auto simp: step_ok_def)

lemma other_class:
  "n_class i \<noteq> Arith IMULT \<Longrightarrow> optimizeMulI i index w insts = Inr (False, w, insts)"
  "n_class i \<noteq> Arith IDIVIDE \<Longrightarrow> optimizeDivI i index w insts = Inr (False, w, insts)"
  "n_class i \<noteq> Arith MODULO \<Longrightarrow> optimizeModI i index w insts = Inr (False, w, insts)"
  "\<nexists>k. n_class i = Bitwise k \<Longrightarrow> optimizeShift i index w insts = Inr (False, w, insts)"
  by (auto simp: optimizeMulI_def optimizeDivI_def optimizeModI_def optimizeShift_def
      split: wclass.splits arith_type.splits option.splits)

text \<open>At most one of the first four steps changes the list.\<close>

lemma four_steps:
  assumes "rbind (optimizeShift i index w insts) (\<lambda>(c1, w, insts).
     rbind (optimizeMulI i index w insts) (\<lambda>(c2, w, insts).
     rbind (optimizeDivI i index w insts) (\<lambda>(c3, w, insts).
     rbind (optimizeModI i index w insts) (\<lambda>(c4, w, insts). Inr (c1 \<or> c2 \<or> c3 \<or> c4, w, insts))))) = Inr (c, w', insts')"
  shows "if c then smaller i index insts insts' else insts' = insts"
proof -
  consider "n_class i = Arith IMULT" | "n_class i = Arith IDIVIDE" | "n_class i = Arith MODULO" | k where "n_class i = Bitwise k"
    | "n_class i \<noteq> Arith IMULT" "n_class i \<noteq> Arith IDIVIDE" "n_class i \<noteq> Arith MODULO" "\<nexists>k. n_class i = Bitwise k"
    by blast
  then show ?thesis
  proof cases
    case 1
    then show ?thesis using assms optimizeMulI_shrinks [of i index insts w] by (auto simp: other_class rbind_Inr_iff shrinks_def)
  next
    case 2
    then show ?thesis using assms optimizeDivI_shrinks [of i index insts w] by (auto simp: other_class rbind_Inr_iff shrinks_def)
  next
    case 3
    then show ?thesis using assms optimizeModI_shrinks [of i index insts w] by (auto simp: other_class rbind_Inr_iff shrinks_def)
  next
    case 4
    then show ?thesis using assms optimizeShift_shrinks [of i index insts w] by (auto simp: other_class rbind_Inr_iff shrinks_def)
  next
    case 5
    then show ?thesis using assms by (auto simp: other_class)
  qed
qed

lemma optimizeShift_length:
  assumes "optimizeShift i index w insts = Inr (c, w', insts')" "index < length insts"
  shows "length insts' = length insts"
  using assms by (auto simp: optimizeShift_def rbind_Inr_iff replaceInstr_def case_prod_beta
      split: wclass.splits option.splits opnd.splits if_splits)

lemma update_step:
  assumes "index < length insts" "inst_size j \<le> inst_size (insts ! index)"
  shows "step_ok index insts False (insts[index := j])"
proof -
  have "insts_size (insts[index := j]) = insts_size (take index insts) + inst_size j + insts_size (drop (Suc index) insts)"
    using assms(1) by (simp add: upd_conv_take_nth_drop)
  then have "insts_size (insts[index := j]) \<le> insts_size insts" unfolding size_at [OF assms(1)] using assms(2) by linarith
  then show ?thesis using assms(1) by (simp add: step_ok_def)
qed

lemma subst_inst_ok:
  assumes "subst_inst uses i nxt index w insts = Inr (c, w', insts')" "insts ! index = i" "Suc index < length insts"
  shows "step_ok index insts c insts'"
proof -
  obtain c1 w1 l1 where s1: "optimizeShift i index w insts = Inr (c1, w1, l1)"
    using assms(1) by (cases "optimizeShift i index w insts") (auto simp: subst_inst_def)
  obtain c2 w2 l2 where s2: "optimizeMulI i index w1 l1 = Inr (c2, w2, l2)"
    using assms(1) s1 by (cases "optimizeMulI i index w1 l1") (auto simp: subst_inst_def)
  obtain c3 w3 l3 where s3: "optimizeDivI i index w2 l2 = Inr (c3, w3, l3)"
    using assms(1) s1 s2 by (cases "optimizeDivI i index w2 l2") (auto simp: subst_inst_def)
  obtain c4 w4 l4 where s4: "optimizeModI i index w3 l3 = Inr (c4, w4, l4)"
    using assms(1) s1 s2 s3 by (cases "optimizeModI i index w3 l3") (auto simp: subst_inst_def)
  obtain j where s5: "checkNegShift i = Inr j"
    using assms(1) s1 s2 s3 s4 by (cases "checkNegShift i") (auto simp: subst_inst_def)
  let ?l = "if c1 \<or> c2 \<or> c3 \<or> c4 then l4 else l4[index := j]"
  obtain c5 where s6: "optimizeShiftAndArith uses j nxt index w4 ?l = Inr (c5, w', insts')" "c = (c1 \<or> c2 \<or> c3 \<or> c4 \<or> c5)"
    using assms(1) s1 s2 s3 s4 s5 by (cases "optimizeShiftAndArith uses j nxt index w4 ?l") (auto simp: subst_inst_def Let_def)
  note s = s1 s2 s3 s4 s5 s6
  define r where "r = (c1 \<or> c2 \<or> c3 \<or> c4)"
  have four: "if r then smaller i index insts l4 else l4 = insts"
    unfolding r_def by (rule four_steps [of i index w insts _ w4]) (simp add: s)
  define l where "l = (if r then l4 else l4[index := j])"
  have merge: "optimizeShiftAndArith uses j nxt index w4 l = Inr (c5, w', insts')" using s(6) by (simp add: l_def r_def)
  have "step_ok index insts r l"
  proof (cases r)
    case True
    then have "smaller i index insts l" using four by (simp add: l_def)
    then show ?thesis by (rule smaller_step [OF _ assms(2,3)])
  next
    case False
    then have "l = insts[index := j]" using four by (simp add: l_def)
    moreover have "inst_size j \<le> inst_size (insts ! index)" using checkNegShift_size [OF s(5)] assms(2) by simp
    ultimately show ?thesis using False assms(3) by (simp add: update_step)
  qed
  moreover have "step_ok index l c5 insts'"
  proof (cases "\<exists>k. n_class j = Bitwise k")
    case True
    then obtain k where "n_class i = Bitwise k" using checkNegShift_class [OF s(5)] by auto
    then have "l4 = l1" using s(2-4) by (simp add: other_class)
    then have "Suc index < length l"
      using optimizeShift_length [OF s(1)] assms(3) by (simp add: l_def)
    from merge_shrinks [OF merge this] show ?thesis by (cases c5) (auto simp: step_ok_def)
  next
    case False
    then have "\<not> c5 \<and> insts' = l" using optimizeShiftAndArith_result [OF merge] by auto
    then show ?thesis using \<open>step_ok index insts r l\<close> by (simp add: step_ok_def)
  qed
  moreover have "c = (r \<or> c5)" using s(7) by (simp add: r_def)
  ultimately show ?thesis unfolding step_ok_def by auto
qed

section \<open>A block\<close>

lemma subst_insts_ok:
  assumes "subst_insts uses (rev (enumerate 0 (take n insts))) nxt w insts = Inr (c, w', insts')" "n \<le> length insts"
    and "nxt = None \<longleftrightarrow> n = length insts"
  shows "insts_size insts' \<le> insts_size insts \<and> (c \<longrightarrow> insts_size insts' < insts_size insts)"
  using assms
proof (induction n arbitrary: nxt w insts c w' insts')
  case (Suc n)
  have e: "rev (enumerate 0 (take (Suc n) insts)) = (n, insts ! n) # rev (enumerate 0 (take n insts))"
    using Suc.prems(2) by (simp add: take_Suc_conv_app_nth enumerate_append_eq min_def)
  show ?case
  proof (cases nxt)
    case None
    have "subst_insts uses (rev (enumerate 0 (take n insts))) (Some (insts ! n)) w insts = Inr (c, w', insts')"
      using Suc.prems(1) None by (simp add: e)
    then show ?thesis using Suc.IH Suc.prems(2,3) None by force
  next
    case (Some x)
    obtain c1 w1 l1 c2 where s: "subst_inst uses (insts ! n) x n w insts = Inr (c1, w1, l1)"
      "subst_insts uses (rev (enumerate 0 (take n insts))) (Some (l1 ! n)) w1 l1 = Inr (c2, w', insts')" "c = (c1 \<or> c2)"
      using Suc.prems(1) Some by (auto simp: e rbind_Inr_iff)
    have n: "Suc n < length insts" using Suc.prems(2,3) Some by auto
    have ok: "step_ok n insts c1 l1" using subst_inst_ok [OF s(1) refl n] .
    then have "take n l1 = take n insts" "n < length l1" by (simp_all add: step_ok_def)
    then have "insts_size insts' \<le> insts_size l1 \<and> (c2 \<longrightarrow> insts_size insts' < insts_size l1)"
      using Suc.IH [of l1 "Some (l1 ! n)" w1 c2 w' insts'] s(2) by simp
    then show ?thesis using ok s(3) by (auto simp: step_ok_def)
  qed
qed simp

lemma subst_block_size:
  assumes "subst_insts uses (rev (enumerate 0 insts)) None w insts = Inr (c, w', insts')"
  shows "insts_size insts' \<le> insts_size insts \<and> (c \<longrightarrow> insts_size insts' < insts_size insts)"
  using subst_insts_ok [of uses "length insts" insts None w c w' insts'] assms by simp

section \<open>The program\<close>

definition event_size :: "wevent \<Rightarrow> nat" where
  "event_size e = sum_list (map (\<lambda>b. insts_size (b_insts b)) (e_table e))"

definition program_size :: "wprogram \<Rightarrow> nat" where
  "program_size es = sum_list (map event_size es)"

definition blocks_ok :: "wprogram \<Rightarrow> bool" where
  "blocks_ok es = (\<forall>e\<in>set es. \<forall>b\<in>set (e_blocks e). b < length (e_table e))"

lemma sum_list_smaller:
  fixes f :: "'a \<Rightarrow> nat"
  assumes "k < length xs" "f y \<le> f (xs ! k)"
  shows "sum_list (map f (xs[k := y])) \<le> sum_list (map f xs) \<and>
         (f y < f (xs ! k) \<longrightarrow> sum_list (map f (xs[k := y])) < sum_list (map f xs))"
proof -
  have "sum_list (map f xs) = sum_list (map f (take k xs)) + f (xs ! k) + sum_list (map f (drop (Suc k) xs))"
    by (subst id_take_nth_drop [OF assms(1)]) simp
  then show ?thesis using assms by (simp add: upd_conv_take_nth_drop)
qed

lemma set_insts_size:
  assumes "e < length es" "b < length (e_table (es ! e))" "insts_size insts \<le> insts_size (get_insts e b es)"
  shows "program_size (set_insts e b insts es) \<le> program_size es \<and>
         (insts_size insts < insts_size (get_insts e b es) \<longrightarrow> program_size (set_insts e b insts es) < program_size es)"
proof -
  let ?e = "upd_block b (\<lambda>x. x\<lparr>b_insts := insts\<rparr>) (es ! e)"
  have "event_size ?e \<le> event_size (es ! e) \<and>
      (insts_size insts < insts_size (get_insts e b es) \<longrightarrow> event_size ?e < event_size (es ! e))"
    using sum_list_smaller [OF assms(2), of "\<lambda>b. insts_size (b_insts b)" "(e_table (es ! e) ! b)\<lparr>b_insts := insts\<rparr>"] assms(3)
    by (simp add: event_size_def upd_block_def get_insts_def block_def)
  then show ?thesis
    using sum_list_smaller [OF assms(1), of event_size ?e] by (auto simp: program_size_def set_insts_def)
qed

text \<open>The blocks of every event, which no step of the pass changes\<close>

definition shape :: "wprogram \<Rightarrow> (nat list \<times> nat) list" where
  "shape es = map (\<lambda>e. (e_blocks e, length (e_table e))) es"

lemma shape_set [simp]: "shape (set_insts e b insts es) = shape es"
proof (rule nth_equalityI)
  fix i assume "i < length (shape (set_insts e b insts es))"
  then show "shape (set_insts e b insts es) ! i = shape es ! i"
    by (cases "i = e") (simp_all add: shape_def set_insts_def upd_block_def)
qed (simp add: shape_def set_insts_def)

definition block_of :: "wprogram \<Rightarrow> nat \<times> nat \<Rightarrow> bool" where
  "block_of es eb = (fst eb < length es \<and> snd eb < length (e_table (es ! fst eb)))"

lemma block_of_shape: "shape es = shape es' \<Longrightarrow> block_of es eb = block_of es' eb"
proof -
  assume a: "shape es = shape es'"
  then have l: "length es = length es'" unfolding shape_def by (metis length_map)
  moreover have "fst eb < length es \<Longrightarrow> snd (shape es ! fst eb) = length (e_table (es ! fst eb))"
    by (simp add: shape_def)
  moreover have "fst eb < length es \<Longrightarrow> snd (shape es' ! fst eb) = length (e_table (es' ! fst eb))"
    using l by (simp add: shape_def)
  ultimately show ?thesis using a by (auto simp: block_of_def)
qed

lemma subst_block_ok:
  assumes "subst_block eb (c, w, es) = Inr (c', w', es')" "block_of es eb"
  shows "shape es' = shape es \<and> program_size es' \<le> program_size es \<and> (c \<or> program_size es' < program_size es \<or> \<not> c')"
proof -
  obtain e b where eb: "eb = (e, b)" by (cases eb)
  obtain d insts' where s: "subst_insts (\<lambda>insts cx r. scope_getUses cx (set_insts e b insts es) r)
      (rev (enumerate 0 (get_insts e b es))) None w (get_insts e b es) = Inr (d, w', insts')"
    "c' = (c \<or> d)" "es' = set_insts e b insts' es"
    using assms(1) eb by (auto simp: subst_block_def rbind_Inr_iff Let_def)
  have "insts_size insts' \<le> insts_size (get_insts e b es) \<and> (d \<longrightarrow> insts_size insts' < insts_size (get_insts e b es))"
    by (rule subst_block_size [OF s(1)])
  then show ?thesis
    using set_insts_size [of e es b insts'] assms(2) s(2,3) eb by (auto simp: block_of_def)
qed

lemma subst_blocks_ok:
  assumes "foldr_res subst_block bs (c, w, es) = Inr (c', w', es')" "\<forall>eb\<in>set bs. block_of es eb"
  shows "shape es' = shape es \<and> program_size es' \<le> program_size es \<and> (c \<or> program_size es' < program_size es \<or> \<not> c')"
  using assms
proof (induction bs arbitrary: c w es)
  case (Cons eb bs)
  obtain c1 w1 es1 where s: "subst_block eb (c, w, es) = Inr (c1, w1, es1)" "foldr_res subst_block bs (c1, w1, es1) = Inr (c', w', es')"
    using Cons.prems(1) by (auto simp: rbind_Inr_iff)
  have 1: "shape es1 = shape es \<and> program_size es1 \<le> program_size es \<and> (c \<or> program_size es1 < program_size es \<or> \<not> c1)"
    using subst_block_ok [OF s(1)] Cons.prems(2) by simp
  then have "\<forall>eb\<in>set bs. block_of es1 eb" using Cons.prems(2) block_of_shape [of es1 es] by simp
  from Cons.IH [OF s(2) this] 1 show ?case by auto
qed simp

lemma program_blocks_of: "blocks_ok es \<Longrightarrow> \<forall>eb\<in>set (program_blocks es). block_of es eb"
  by (auto simp: program_blocks_def blocks_ok_def block_of_def)

lemma blocks_ok_shape: "blocks_ok es \<longleftrightarrow> (\<forall>(bs, n)\<in>set (shape es). \<forall>b\<in>set bs. b < n)"
  by (auto simp: blocks_ok_def shape_def)

text \<open>C10: The loop of the operand substitution, which runs over the whole program until nothing changes,
  ends for every program whose blocks exist, with a program or with an error: every change makes a
  size of the program smaller.\<close>

theorem OperandSubstitution_ends:
  assumes "blocks_ok es"
  shows "\<exists>m. OperandSubstitution (w, es) = Some m"
  using assms
proof (induction "program_size es" arbitrary: w es rule: less_induct)
  case less
  show ?case
  proof (cases "subst_sweep (w, es)")
    case (Inl x)
    then show ?thesis by (simp add: OperandSubstitution.simps)
  next
    case (Inr r)
    obtain c w' es' where r: "r = (c, w', es')" by (cases r)
    have ok: "shape es' = shape es \<and> program_size es' \<le> program_size es \<and> (program_size es' < program_size es \<or> \<not> c)"
      using subst_blocks_ok [of "program_blocks es" False w es c w' es'] program_blocks_of [OF less.prems] Inr r
      by (simp add: subst_sweep_def)
    show ?thesis
    proof (cases c)
      case True
      then have "program_size es' < program_size es" "blocks_ok es'"
        using ok less.prems blocks_ok_shape by auto
      then obtain m where "OperandSubstitution (w', es') = Some m" using less.hyps by blast
      then show ?thesis using Inr r True by (subst OperandSubstitution.simps) simp
    next
      case False
      then show ?thesis using Inr r by (subst OperandSubstitution.simps) simp
    qed
  qed
qed

text \<open>A program with a product, a shift by a negative number and a move\<close>

definition demo_program :: wprogram where
  "demo_program = [\<lparr>e_name = ''ev'', e_scopes = [0],
     e_table = [\<lparr>b_name = ''b'', b_insts = [demo_inst (Arith IMULT) i64 [signed_q] 1 8,
                   demo_inst (Bitwise SHFTLFT) i64 [signed_q] 1 (- 3), demo_inst (Memory LOAD) i64 [signed_q] 1 0],
                 b_out = [], b_in = [], b_refs = []\<rparr>],
     e_blocks = [0], e_labels = 1\<rparr>]"

theorem OperandSubstitution_ends_witness: "\<exists>m. OperandSubstitution (demo_state, demo_program) = Some m"
  by (rule OperandSubstitution_ends) (simp add: blocks_ok_def demo_program_def)

end
