(* ===== verification/Udw_Passes.thy ===== *)
theory Udw_Passes imports Udw_Subst begin

text \<open>
  The other passes of \<open>src/updown/udweave/Weave/optimizer.py\<close>: comparisons and branches that become
  one instruction, empty blocks, jumps, unused instructions, unused variables and phi nodes.
  A branch is known by its identity \<open>n_id\<close>: it may lie in a block or, while a comparison points to
  it, in \<open>w_branches\<close>.
\<close>

section \<open>Passes over the blocks\<close>

text \<open>A pass that rewrites the instructions of every block\<close>

definition on_block ::
  "(winst list \<Rightarrow> wstate \<Rightarrow> (winst list \<times> wstate) res) \<Rightarrow> nat \<times> nat \<Rightarrow> wstate \<times> wprogram \<Rightarrow> (wstate \<times> wprogram) res" where
  "on_block f eb s =
     (let (e, b) = eb; (w, es) = s
      in rmap (\<lambda>(insts, w). (w, set_insts e b insts es)) (f (get_insts e b es) w))"

definition on_blocks ::
  "(winst list \<Rightarrow> wstate \<Rightarrow> (winst list \<times> wstate) res) \<Rightarrow> wstate \<times> wprogram \<Rightarrow> (wstate \<times> wprogram) res" where
  "on_blocks f s = foldr_res (on_block f) (program_blocks (snd s)) s"

section \<open>Comparisons and branches\<close>

text \<open>The branch skips what the comparison guards, so it is taken when the comparison is false.\<close>

fun branch_for :: "compare_type \<Rightarrow> branch_type \<Rightarrow> branch_type" where
  "branch_for EQUAL t = CONDITIONALNEQ"
| "branch_for NOTEQUAL t = CONDITIONALEQ"
| "branch_for UGREAT t = CONDITIONALLE" | "branch_for SGREAT t = CONDITIONALLE"
| "branch_for ULESS t = CONDITIONALGE" | "branch_for SLESS t = CONDITIONALGE"
| "branch_for UGREATEQ t = CONDITIONALLT" | "branch_for SGREATEQ t = CONDITIONALLT"
| "branch_for ULESSEQ t = CONDITIONALGT" | "branch_for SLESSEQ t = CONDITIONALGT"
| "branch_for UNKNOWN_COMPARE t = t"

definition setOpType :: "branch_type \<Rightarrow> winst \<Rightarrow> winst" where
  "setOpType t i = (case n_class i of Branch _ b \<Rightarrow> i\<lparr>n_class := Branch t b\<rparr> | _ \<Rightarrow> i)"

definition branch_kind :: "winst \<Rightarrow> branch_type" where
  "branch_kind i = (case n_class i of Branch t _ \<Rightarrow> t | _ \<Rightarrow> UNKNOWN_BRANCH)"

definition merge_compare :: "winst \<Rightarrow> wstate \<Rightarrow> winst res" where
  "merge_compare i w =
     (case n_class i of
        Compare k (Some b) \<Rightarrow>
          (let br = w_branches w ! b; br = setOpType (branch_for k (branch_kind br)) br
           in rbind (setLeft (left_op i) br) (setRight (right_op i)))
      | _ \<Rightarrow> Inr i)"

definition IfCmpBranchMerging :: "wstate \<times> wprogram \<Rightarrow> (wstate \<times> wprogram) res" where
  "IfCmpBranchMerging =
     on_blocks (\<lambda>insts w. rmap (\<lambda>is. (is, w)) (seq_res (map (\<lambda>i. merge_compare i w) insts)))"

section \<open>Empty blocks\<close>

definition change_dest :: "nat \<Rightarrow> nat \<Rightarrow> winst \<Rightarrow> winst" where
  "change_dest ref b i =
     (case n_class i of Branch t _ \<Rightarrow> if n_id i = ref then i\<lparr>n_class := Branch t b\<rparr> else i | _ \<Rightarrow> i)"

type_synonym flow = "winst list \<times> wevent"

text \<open>\<open>ref.changeDestBlock(bb); bb.addRef(ref)\<close>\<close>

definition move_ref :: "nat \<Rightarrow> nat \<Rightarrow> flow \<Rightarrow> flow" where
  "move_ref b ref s =
     (let (brs, e) = s;
          e = e\<lparr>e_table := map (\<lambda>x. x\<lparr>b_insts := map (change_dest ref b) (b_insts x)\<rparr>) (e_table e)\<rparr>
      in (map (change_dest ref b) brs, upd_block b (\<lambda>x. x\<lparr>b_refs := b_refs x @ [ref]\<rparr>) e))"

text \<open>\<open>inb.removeOutEdge(bb_to_merge)\<close> raises when the edge is missing.\<close>

definition move_edge :: "nat \<Rightarrow> nat \<Rightarrow> nat \<Rightarrow> flow \<Rightarrow> flow res" where
  "move_edge b0 b inb s =
     (let (brs, e) = s
      in if b0 \<notin> set (b_out (block e inb)) then Inl ValueError
         else let e = upd_block inb (\<lambda>x. x\<lparr>b_out := remove1 b0 (b_out x) @ [b]\<rparr>) e
              in Inr (brs, upd_block b (\<lambda>x. x\<lparr>b_in := b_in x @ [inb]\<rparr>) e))"

definition merge_into :: "nat \<Rightarrow> nat \<Rightarrow> flow \<Rightarrow> flow res" where
  "merge_into b0 b s =
     (let s = fold (move_ref b) (b_refs (block (snd s) b0)) s
      in rmap (\<lambda>(brs, e). (brs, upd_block b (\<lambda>x. x\<lparr>b_in := remove1 b0 (b_in x)\<rparr>) e))
           (foldr_res (move_edge b0 b) (b_in (block (snd s) b0)) s))"

definition is_empty_block :: "wevent \<Rightarrow> nat \<Rightarrow> bool" where
  "is_empty_block e b = (filter (\<lambda>i. n_class i \<noteq> Comment) (b_insts (block e b)) = [])"

fun merge_empty :: "nat list \<Rightarrow> nat option \<Rightarrow> flow \<Rightarrow> (nat list \<times> flow) res" where
  "merge_empty [] prev s = Inr ([], s)"
| "merge_empty (b # bs) prev s =
     rbind (case prev of None \<Rightarrow> Inr s | Some b0 \<Rightarrow> merge_into b0 b s) (\<lambda>s.
       if is_empty_block (snd s) b then rmap (\<lambda>(rs, s). (b # rs, s)) (merge_empty bs (Some b) s)
       else merge_empty bs None s)"

definition merge_event :: "flow \<Rightarrow> flow res" where
  "merge_event s =
     rbind (merge_empty (e_blocks (snd s)) None s) (\<lambda>(rs, brs, e).
       let e = e\<lparr>e_blocks := fold remove1 rs (e_blocks e)\<rparr>
       in case e_blocks e of
            [] \<Rightarrow> Inl IndexError
          | b # _ \<Rightarrow> Inr (brs, if b_name (block e b) = '''' then upd_block b (\<lambda>x. x\<lparr>b_name := ''__entry''\<rparr>) e else e))"

definition on_event :: "(flow \<Rightarrow> flow res) \<Rightarrow> nat \<Rightarrow> wstate \<times> wprogram \<Rightarrow> (wstate \<times> wprogram) res" where
  "on_event f e s =
     rmap (\<lambda>(brs, ev). ((fst s)\<lparr>w_branches := brs\<rparr>, (snd s)[e := ev])) (f (w_branches (fst s), snd s ! e))"

definition EmptyBasicBlockMerging :: "wstate \<times> wprogram \<Rightarrow> (wstate \<times> wprogram) res" where
  "EmptyBasicBlockMerging s = foldr_res (on_event merge_event) [0..<length (snd s)] s"

section \<open>Branches around a jump\<close>

definition jump_target :: "winst \<Rightarrow> nat option" where
  "jump_target i = (case n_class i of Branch UNCONDITIONAL b \<Rightarrow> Some b | _ \<Rightarrow> None)"

text \<open>The block at the end of an outgoing edge that has only a jump, and where it jumps to\<close>

definition jump_block :: "wevent \<Rightarrow> nat \<Rightarrow> nat \<Rightarrow> nat option" where
  "jump_block e dest x =
     (case b_insts (block e x) of [j] \<Rightarrow> (if x \<noteq> dest then jump_target j else None) | _ \<Rightarrow> None)"

fun first_jump :: "wevent \<Rightarrow> nat \<Rightarrow> nat list \<Rightarrow> (nat \<times> nat) option" where
  "first_jump e dest [] = None"
| "first_jump e dest (x # xs) =
     (case jump_block e dest x of Some t \<Rightarrow> Some (x, t) | None \<Rightarrow> first_jump e dest xs)"

definition merge_jump :: "nat \<Rightarrow> nat \<Rightarrow> wevent \<Rightarrow> wevent res" where
  "merge_jump b pos e =
     (let i = b_insts (block e b) ! pos
      in case n_class i of
           Branch t dest \<Rightarrow>
             (case first_jump e dest (b_out (block e b)) of
                None \<Rightarrow> Inr e
              | Some (x, target) \<Rightarrow>
                  let e = upd_block target (\<lambda>y. y\<lparr>b_in := remove1 x (b_in y)\<rparr>) e;
                      e = upd_block x (\<lambda>y. y\<lparr>b_out := [], b_insts := []\<rparr>) e
                  in rmap (\<lambda>n. upd_block b (\<lambda>y. y\<lparr>b_insts := (b_insts y)[pos := i\<lparr>n_class := Branch n target\<rparr>]\<rparr>) e)
                       (negateCondition t))
         | _ \<Rightarrow> Inr e)"

text \<open>
  A jump block may lie anywhere, also behind the current one; the instructions of a block are
  visited from the last to the first.
\<close>

definition merge_jumps_of :: "nat \<Rightarrow> wevent \<Rightarrow> wevent res" where
  "merge_jumps_of b e =
     foldr_res (\<lambda>pos e. if pos < length (b_insts (block e b)) then merge_jump b pos e else Inr e)
       (rev [0..<length (b_insts (block e b))]) e"

definition BranchJumpMerging :: "wprogram \<Rightarrow> wprogram res" where
  "BranchJumpMerging es = seq_res (map (\<lambda>e. foldr_res merge_jumps_of (e_blocks e) e) es)"

section \<open>Multiplications and additions\<close>

definition reg_decl :: "opnd option \<Rightarrow> nat option" where
  "reg_decl x = (case x of Some (OReg r) \<Rightarrow> r_decl r | _ \<Rightarrow> None)"

definition is_reg :: "opnd option \<Rightarrow> bool" where
  "is_reg x = (case x of Some (OReg r) \<Rightarrow> True | _ \<Rightarrow> False)"

definition sum_in_place :: "winst \<Rightarrow> bool res" where
  "sum_in_place i =
     (if n_class i = Arith FADDITION \<and> is_reg (left_op i) \<and> is_reg (right_op i) then
        rmap (\<lambda>r. r_decl r = reg_decl (left_op i) \<or> r_decl r = reg_decl (right_op i)) (ret_of i)
      else Inr False)"

fun isArith :: "wclass \<Rightarrow> bool" where
  "isArith (Arith _) = True"
| "isArith _ = False"

text \<open>
  The instructions from the last to the first. The addition that waits is taken out of what was
  already passed when its product is found.
\<close>

fun merge_fmadd :: "winst list \<Rightarrow> winst option \<Rightarrow> winst list \<Rightarrow> winst list res" where
  "merge_fmadd [] prev done = Inr done"
| "merge_fmadd (i # is) prev done =
     (if \<not> isArith (n_class i) then merge_fmadd is None (i # done)
      else case prev of
        None \<Rightarrow> rbind (sum_in_place i) (\<lambda>c. merge_fmadd is (if c then Some i else None) (i # done))
      | Some p \<Rightarrow>
          if n_class i = Arith FMULT then
            rbind (ret_of i) (\<lambda>r.
              if r_decl r = reg_decl (left_op p) \<or> r_decl r = reg_decl (right_op p) then
                merge_fmadd is None (i\<lparr>n_class := Arith FMULTADD, n_ret := n_ret p\<rparr> # remove1 p done)
              else merge_fmadd is prev (i # done))
          else merge_fmadd is None (i # done))"

definition FaddFmulMerging :: "wstate \<times> wprogram \<Rightarrow> (wstate \<times> wprogram) res" where
  "FaddFmulMerging = on_blocks (\<lambda>insts w. rmap (\<lambda>is. (is, w)) (merge_fmadd (rev insts) None []))"

section \<open>Unused instructions\<close>

definition is_unused :: "wprogram \<Rightarrow> winst \<Rightarrow> bool" where
  "is_unused es i =
     ((isBinaryOps (n_class i) \<or> (case n_class i of Memory _ \<Rightarrow> True | _ \<Rightarrow> False)) \<and>
      (case n_ret i of None \<Rightarrow> False | Some r \<Rightarrow> scope_getUses (n_ctx i) es r = []))"

definition remove_at :: "nat \<Rightarrow> 'a list \<Rightarrow> 'a list" where
  "remove_at k xs = take k xs @ drop (Suc k) xs"

fun remove_unused :: "nat \<Rightarrow> nat \<Rightarrow> nat list \<Rightarrow> wprogram \<Rightarrow> wprogram" where
  "remove_unused e b [] es = es"
| "remove_unused e b (k # ks) es =
     (let is = get_insts e b es
      in remove_unused e b ks (if is_unused es (is ! k) then set_insts e b (remove_at k is) es else es))"

definition UnusedInstrRemoval :: "wprogram \<Rightarrow> wprogram" where
  "UnusedInstrRemoval es =
     fold (\<lambda>(e, b) es. remove_unused e b (rev [0..<length (get_insts e b es)]) es) (program_blocks es) es"

section \<open>Unused variables\<close>

text \<open>What the pass looks at in a declaration\<close>

record usage =
  u_param :: bool
  u_read :: bool
  u_written :: bool

definition decl_unused :: "usage \<Rightarrow> bool" where
  "decl_unused d =
     (if u_param d then \<not> u_read d
      else \<not> u_read d \<and> \<not> u_written d \<or> \<not> u_read d \<and> u_written d)"

text \<open>
  The \<open>for\<close> loop runs over the list that \<open>removeDeclaration\<close> shortens, so the declaration behind one
  that is removed takes its place and is not visited. \<open>k\<close> is the position of the loop.
\<close>

fun check_decls :: "nat \<Rightarrow> nat \<Rightarrow> (nat \<times> usage) list \<Rightarrow> (nat \<times> usage) list" where
  "check_decls 0 k ds = ds"
| "check_decls (Suc fuel) k ds =
     (if length ds \<le> k then ds
      else if decl_unused (snd (ds ! k)) then check_decls fuel (Suc k) (remove_at k ds)
      else check_decls fuel (Suc k) ds)"

definition checkDeclarations :: "(nat \<times> usage) list \<Rightarrow> (nat \<times> usage) list" where
  "checkDeclarations ds = check_decls (length ds) 0 ds"

datatype scope_tree = Scope (scope_decls: "(nat \<times> usage) list") (scope_children: "scope_tree list")

fun findScope :: "scope_tree \<Rightarrow> scope_tree" where
  "findScope (Scope ds cs) = Scope (checkDeclarations ds) (map findScope cs)"

definition RemoveUnusedVariables :: "scope_tree list \<Rightarrow> scope_tree list" where
  "RemoveUnusedVariables = map findScope"

section \<open>Phi nodes\<close>

definition is_phi :: "winst \<Rightarrow> bool" where
  "is_phi i = (case n_class i of Phi _ \<Rightarrow> True | _ \<Rightarrow> False)"

definition PhiNodeRemoval :: "wstate \<times> wprogram \<Rightarrow> (wstate \<times> wprogram) res" where
  "PhiNodeRemoval = on_blocks (\<lambda>insts w. Inr (filter (\<lambda>i. \<not> is_phi i) insts, w))"

end
