(* ===== verification/Udw_Flow.thy ===== *)
theory Udw_Flow imports Udw_Passes Udw_Runs begin

text \<open>
  Comparisons and branches, before and after they are merged; branches that are moved twice; variables that
  are removed while a loop runs over them.
\<close>

unbundle bit_operations_syntax

section \<open>Comparisons\<close>

definition compare_holds :: "compare_type \<Rightarrow> int \<Rightarrow> int \<Rightarrow> bool" where
  "compare_holds k x y =
     (case k of EQUAL \<Rightarrow> x = y | NOTEQUAL \<Rightarrow> x \<noteq> y | UGREAT \<Rightarrow> y < x | SGREAT \<Rightarrow> y < x
      | UGREATEQ \<Rightarrow> y \<le> x | SGREATEQ \<Rightarrow> y \<le> x | ULESS \<Rightarrow> x < y | SLESS \<Rightarrow> x < y
      | ULESSEQ \<Rightarrow> x \<le> y | SLESSEQ \<Rightarrow> x \<le> y | UNKNOWN_COMPARE \<Rightarrow> False)"

lemma ceq_both: "sint x = sint y \<longleftrightarrow> x = y" for x y :: "64 word"
  by (auto intro: signed_word_eqI)

lemma ueq_both: "uint x = uint y \<longleftrightarrow> x = y" for x y :: "64 word"
  by (simp add: word_uint_eq_iff)

lemma not_bool: "bool64 b XOR 1 = bool64 (\<not> b)"
  by (simp add: bool64_def)

lemma run_actions:
  assumes "instructionTranslate alloc (\<lambda>_. '''') (\<lambda>_. '''') i = Inr acts"
  shows "run alloc [i] s = exec_actions acts s"
  using assms by (simp add: run_def code_of_def rmap_def seq_res.simps)

definition int_regs :: "wreg \<Rightarrow> wreg \<Rightarrow> bool" where
  "int_regs a b = (isInteger (r_dtype a) \<and> isInteger (r_dtype b))"

theorem comparison_ignores_sign:
  assumes "ops_are (Compare k n) (Some (OReg a)) (Some (OReg b)) (Some d) i" "int_regs a b" "k \<noteq> UNKNOWN_COMPARE"
  shows "run alloc [i] s = Inr (s(alloc d := bool64 (compare_holds k (sint (s (alloc a))) (sint (s (alloc b))))))"
proof -
  let ?first = "(compare_opcode k REG_REG, [GReg (alloc a), GReg (alloc b), GReg (alloc d)])"
  have t: "instructionTranslate alloc (\<lambda>_. '''') (\<lambda>_. '''') i =
      Inr (if negated_compare k then [?first, (''xori'', [GReg (alloc d), GReg (alloc d), GImm 1])] else [?first])"
    using assms by (simp add: instructionTranslate_def translate_compare_def get_ops_binaryInst_def left_op_def right_op_def
        ops_are_def int_regs_def ret_ops_def rmap_def)
  have u: "uimm16 1 = Inr 1" using uimm16_eq [of 1] by simp
  show ?thesis
    unfolding run_actions [OF t] using assms(3)
    by (cases k) (simp_all add: exec_actions_def compare_opcode_def negated_compare_def exec_reg_def exec_imm_def rmap_def u
        compare_holds_def not_bool ceq_both not_less not_le)
qed

section \<open>Merged comparisons\<close>

definition operand_value :: "winst \<Rightarrow> 64 word \<Rightarrow> int" where
  "operand_value i x = (if isSigned (n_quals i) then sint x else uint x)"

text \<open>The branch of a condition, as it is made: it compares the condition with 0.\<close>

definition condition_branch :: "branch_type \<Rightarrow> nat \<Rightarrow> winst \<Rightarrow> bool" where
  "condition_branch t target i =
     (n_class i = Branch t target \<and> n_ret i = None \<and>
      (\<exists>c z. n_ops i = [c, Some (OImm z)] \<and> isInteger (i_dtype z)))"

lemma branch_dtype:
  assumes "left_op i = Some l" "right_op i = Some r" "isInteger (opnd_dtype l)" "isInteger (opnd_dtype r)"
  obtains t where "branch_type_of i = Inr t" "t \<in> {i32, i64}"
proof -
  have "\<exists>t. branch_type_of i = Inr t \<and> t \<in> {i32, i64}"
    using assms by (cases "opnd_dtype l"; cases "opnd_dtype r") (simp_all add: isInteger_def branch_type_of_def)
  then show thesis using that by blast
qed

lemma qualifier_fields [simp]:
  "n_class (setQualifierBasedOnOperands i) = n_class i" "n_ops (setQualifierBasedOnOperands i) = n_ops i"
  "n_ret (setQualifierBasedOnOperands i) = n_ret i" "left_op (setQualifierBasedOnOperands i) = left_op i"
  "right_op (setQualifierBasedOnOperands i) = right_op i"
  by (simp_all add: setQualifierBasedOnOperands_def Let_def left_op_def right_op_def)

lemma set_op_branch:
  assumes "n_class i = Branch t b" "n_ops i = [x, y]" "n_ret i = None" "[as_operand x, as_operand y][k := z] = [Some l, Some r]"
    and "[x, y][k := z] = [x', y']" "as_operand z = z" "k < 2" "isInteger (opnd_dtype l)" "isInteger (opnd_dtype r)"
  obtains j where "set_op k z i = Inr j" "n_class j = Branch t b" "n_ops j = [x', y']" "n_dtype j \<in> {i32, i64}" "n_ret j = None"
proof -
  let ?i = "setQualifierBasedOnOperands (i\<lparr>n_ops := (n_ops i)[k := z]\<rparr>)"
  have "left_op ?i = Some l" "right_op ?i = Some r"
    using assms by (auto simp: left_op_def right_op_def less_Suc_eq numeral_2_eq_2)
  then obtain ty where "branch_type_of ?i = Inr ty" "ty \<in> {i32, i64}"
    using branch_dtype assms(8,9) by metis
  moreover have "set_op k z i = rmap (\<lambda>t. ?i\<lparr>n_dtype := t\<rparr>) (branch_type_of ?i)"
    by (simp add: set_op_def Let_def assms(1))
  ultimately show thesis
    using assms(1-3,5) that [of "?i\<lparr>n_dtype := ty\<rparr>"] by (simp add: rmap_def)
qed

text \<open>C20: A comparison of two integer variables that is merged with the branch of its condition becomes one
  branch instruction, and the branch is taken exactly when the comparison does not hold on the values
  of the registers, signed or unsigned as the merged branch is.\<close>

theorem merged_branch:
  assumes "ops_are (Compare k (Some n)) (Some (OReg a)) (Some (OReg b)) ret i" "int_regs a b" "k \<noteq> UNKNOWN_COMPARE"
    and "condition_branch t target (w_branches w ! n)"
  shows "\<exists>j act. merge_compare i w = Inr j \<and> instructionTranslate alloc temp label j = Inr [act] \<and>
           (\<forall>s. branch_taken act s = Inr (\<not> compare_holds k (operand_value j (s (alloc a))) (operand_value j (s (alloc b)))))"
proof -
  define br where "br = setOpType (branch_for k t) (w_branches w ! n)"
  obtain c z where br: "n_class br = Branch (branch_for k t) target" "n_ops br = [c, Some (OImm z)]" "n_ret br = None"
    "isInteger (i_dtype z)"
    using assms(4) by (auto simp: br_def setOpType_def condition_branch_def)
  obtain j1 where j1: "set_op 0 (Some (OReg a)) br = Inr j1" "n_class j1 = Branch (branch_for k t) target"
    "n_ops j1 = [Some (OReg a), Some (OImm z)]" "n_ret j1 = None"
    by (rule set_op_branch [OF br(1-3), where k = 0 and z = "Some (OReg a)" and l = "OReg a" and r = "OImm z"])
      (use br(4) assms(2) in \<open>auto simp: int_regs_def\<close>)
  obtain j where j: "set_op 1 (Some (OReg b)) j1 = Inr j" "n_class j = Branch (branch_for k t) target"
    "n_ops j = [Some (OReg a), Some (OReg b)]" "n_dtype j \<in> {i32, i64}" "n_ret j = None"
    by (rule set_op_branch [OF j1(2-4), where k = 1 and z = "Some (OReg b)" and l = "OReg a" and r = "OReg b"])
      (use assms(2) in \<open>auto simp: int_regs_def\<close>)
  have merge: "merge_compare i w = Inr j"
    using assms(1,4) br_def j1(1) j(1)
    by (simp add: merge_compare_def ops_are_def left_op_def right_op_def setLeft_def setRight_def branch_kind_def condition_branch_def)
  have ops: "get_ops_binaryInst alloc j = Inr ([GReg (alloc a), GReg (alloc b)], REG_REG)"
    by (simp add: get_ops_binaryInst_def left_op_def right_op_def j(3,5) ret_ops_def rmap_def)
  have fp: "n_dtype j \<noteq> float_t" "n_dtype j \<noteq> double_t" using j(4) by auto
  have t: "branch_for k t \<noteq> UNCONDITIONAL" using assms(3) by (cases k) simp_all
  have trans: "instructionTranslate alloc temp label j =
      rbind (branch_opcode (branch_for k t) REG_REG [GReg (alloc a), GReg (alloc b)]) (\<lambda>(opc, ops).
        Inr [(if isSigned (n_quals j) then opc else opc @ ''u'', ops @ [GSym (label target)])])"
    using j(2) fp t by (simp add: instructionTranslate_def translate_branch_def translate_condition_def ops)
  have "\<exists>act. instructionTranslate alloc temp label j = Inr [act] \<and>
      (\<forall>s. branch_taken act s = Inr (\<not> compare_holds k (operand_value j (s (alloc a))) (operand_value j (s (alloc b)))))"
    using assms(3) unfolding trans
    by (cases k; cases "isSigned (n_quals j)")
      (simp_all add: branch_opcode_def branch_taken_def branch_signed_def compare_holds_def operand_value_def not_less not_le)
  then show ?thesis using merge by blast
qed

text \<open>A comparison of two variables and the branch of its condition\<close>

definition demo_compare :: "compare_type \<Rightarrow> winst" where
  "demo_compare k = (demo_inst (Compare k (Some 0)) i64 [signed_q] 1 0)\<lparr>n_ops := [Some (OReg (demo_reg 1 1)), Some (OReg (demo_reg 0 0))]\<rparr>"

definition demo_branches :: wstate where
  "demo_branches = demo_state\<lparr>w_branches := [(demo_inst (Branch CONDITIONALEQ 2) i64 [signed_q] 1 0)\<lparr>n_ret := None\<rparr>]\<rparr>"

theorem comparison_ignores_sign_witness:
  "\<forall>s. run demo_alloc [demo_compare ULESS] s = Inr (s(''X16'' := bool64 (compare_holds ULESS (sint (s ''X17'')) (sint (s ''X16'')))))"
  using comparison_ignores_sign [of ULESS "Some 0" "demo_reg 1 1" "demo_reg 0 0" "demo_reg 0 0" "demo_compare ULESS" demo_alloc]
  by (simp add: demo_compare_def ops_are_def int_regs_def demo_inst_def isInteger_def demo_reg_def demo_alloc_def)

theorem merged_branch_witness:
  "\<exists>j act. merge_compare (demo_compare SLESS) demo_branches = Inr j \<and>
     instructionTranslate demo_alloc (\<lambda>_. '''') (\<lambda>_. ''post'') j = Inr [act] \<and>
     (\<forall>s. branch_taken act s = Inr (\<not> compare_holds SLESS (operand_value j (s ''X17'')) (operand_value j (s ''X16''))))"
  using merged_branch [of SLESS 0 "demo_reg 1 1" "demo_reg 0 0" "Some (demo_reg 0 0)" "demo_compare SLESS" CONDITIONALEQ 2
      demo_branches demo_alloc "\<lambda>_. ''''" "\<lambda>_. ''post''"]
  by (simp add: demo_compare_def demo_branches_def ops_are_def int_regs_def demo_inst_def isInteger_def demo_reg_def
      demo_imm_def demo_alloc_def condition_branch_def)

section \<open>Jumps that are merged, then empty blocks\<close>

definition inst_at :: "wevent \<Rightarrow> nat \<Rightarrow> nat \<Rightarrow> winst" where
  "inst_at e b pos = b_insts (block e b) ! pos"

definition has_inst :: "wevent \<Rightarrow> nat \<Rightarrow> nat \<Rightarrow> bool" where
  "has_inst e b pos = (b < length (e_table e) \<and> pos < length (b_insts (block e b)))"

lemma block_upd: "b < length (e_table e) \<Longrightarrow> block (upd_block b f e) c = (if c = b then f (block e b) else block e c)"
  by (simp add: block_def upd_block_def)

lemma block_upd_any: "block (upd_block b f e) c = (if c = b \<and> b < length (e_table e) then f (block e b) else block e c)"
  by (cases "b < length (e_table e)") (auto simp: block_def upd_block_def list_update_beyond)

lemma table_upd [simp]: "length (e_table (upd_block b f e)) = length (e_table e)"
  by (simp add: upd_block_def)

lemma first_jump_block:
  "first_jump e dest xs = Some (x, target) \<Longrightarrow> x \<in> set xs \<and> x \<noteq> dest \<and> (\<exists>j. b_insts (block e x) = [j] \<and> jump_target j = Some target)"
  by (induction xs) (auto simp: jump_block_def split: option.splits list.splits if_splits)

text \<open>The branch that was moved to the target of the jump keeps its place and its identity.\<close>

lemma merge_jump_branch:
  assumes "merge_jump b pos e = Inr e1" "n_class (inst_at e b pos) = Branch t dest" "t \<noteq> UNCONDITIONAL" "has_inst e b pos"
  shows "has_inst e1 b pos \<and> n_id (inst_at e1 b pos) = n_id (inst_at e b pos) \<and>
         (\<exists>k u. n_class (inst_at e1 b pos) = Branch k u) \<and> (\<forall>c. b_refs (block e1 c) = b_refs (block e c))"
proof (cases "first_jump e dest (b_out (block e b))")
  case None
  then show ?thesis using assms by (auto simp: merge_jump_def inst_at_def)
next
  case (Some xt)
  obtain x target where xt: "xt = (x, target)" by (cases xt)
  obtain j where j: "b_insts (block e x) = [j]" "jump_target j = Some target"
    using first_jump_block Some xt by metis
  have "x \<noteq> b"
  proof
    assume "x = b"
    then have "inst_at e b pos = j" using j(1) assms(4) by (simp add: inst_at_def has_inst_def)
    then show False using j(2) assms(2,3) by (auto simp: jump_target_def split: wclass.splits branch_type.splits)
  qed
  obtain n where n: "negateCondition t = Inr n"
    using assms(1,2) Some xt by (cases "negateCondition t") (auto simp: merge_jump_def inst_at_def rmap_def Let_def)
  have e1: "e1 = upd_block b (\<lambda>y. y\<lparr>b_insts := (b_insts y)[pos := (inst_at e b pos)\<lparr>n_class := Branch n target\<rparr>]\<rparr>)
      (upd_block x (\<lambda>y. y\<lparr>b_out := [], b_insts := []\<rparr>) (upd_block target (\<lambda>y. y\<lparr>b_in := remove1 x (b_in y)\<rparr>) e))"
    using assms(1,2) Some xt n by (simp add: merge_jump_def inst_at_def rmap_def Let_def)
  show ?thesis
    using assms(4) \<open>x \<noteq> b\<close> unfolding e1 by (auto simp: has_inst_def inst_at_def block_upd_any)
qed

definition goes_to :: "wevent \<Rightarrow> nat \<Rightarrow> nat \<Rightarrow> nat \<Rightarrow> nat \<Rightarrow> bool" where
  "goes_to e b pos ref u = (has_inst e b pos \<and> n_id (inst_at e b pos) = ref \<and> (\<exists>k. n_class (inst_at e b pos) = Branch k u))"

lemma move_ref_goes:
  assumes "goes_to (snd s) b pos ref u"
  shows "goes_to (snd (move_ref n r s)) b pos ref (if r = ref then n else u)"
proof -
  obtain brs e where s: "s = (brs, e)" by (cases s)
  let ?e = "e\<lparr>e_table := map (\<lambda>x. x\<lparr>b_insts := map (change_dest r n) (b_insts x)\<rparr>) (e_table e)\<rparr>"
  have "goes_to ?e b pos ref (if r = ref then n else u)"
    using assms s by (auto simp: goes_to_def has_inst_def inst_at_def block_def change_dest_def)
  then show ?thesis
    using s by (auto simp: move_ref_def Let_def goes_to_def has_inst_def inst_at_def block_upd_any)
qed

lemma move_refs_goes:
  "goes_to (snd s) b pos ref u \<Longrightarrow> goes_to (snd (fold (move_ref n) rs s)) b pos ref (if ref \<in> set rs then n else u)"
proof (induction rs arbitrary: s u)
  case (Cons r rs)
  from Cons.IH [OF move_ref_goes [OF Cons.prems, of n r]] show ?case by (auto split: if_splits)
qed simp

lemma move_edge_goes:
  assumes "move_edge b0 n inb s = Inr s'" "goes_to (snd s) b pos ref u"
  shows "goes_to (snd s') b pos ref u"
  using assms by (cases s) (auto simp: move_edge_def Let_def goes_to_def has_inst_def inst_at_def block_upd_any split: if_splits)

lemma merge_into_goes:
  assumes "merge_into b0 n s = Inr s'" "goes_to (snd s) b pos ref u"
  shows "goes_to (snd s') b pos ref (if ref \<in> set (b_refs (block (snd s) b0)) then n else u)"
proof -
  let ?s = "fold (move_ref n) (b_refs (block (snd s) b0)) s"
  let ?v = "if ref \<in> set (b_refs (block (snd s) b0)) then n else u"
  have "goes_to (snd ?s) b pos ref ?v" using assms(2) by (rule move_refs_goes)
  moreover obtain s1 where s1: "foldr_res (move_edge b0 n) (b_in (block (snd ?s) b0)) ?s = Inr s1"
    "s' = (fst s1, upd_block n (\<lambda>x. x\<lparr>b_in := remove1 b0 (b_in x)\<rparr>) (snd s1))"
    using assms(1) by (auto simp: merge_into_def rmap_def rbind_Inr_iff Let_def split: prod.splits)
  ultimately have "goes_to (snd s1) b pos ref ?v"
    using foldr_res_invariant [where P = "\<lambda>s. goes_to (snd s) b pos ref ?v", OF s1(1)] move_edge_goes by blast
  then show ?thesis unfolding s1(2) by (auto simp: goes_to_def has_inst_def inst_at_def block_upd_any)
qed

text \<open>C35: When a conditional branch takes over the jump behind it, it stays in the list of references of the
  block it pointed to. If that block is empty and merged into the block behind it, the branch is sent
  there, and the jump is lost.\<close>

theorem merged_jump_redirected:
  assumes "has_inst e b pos" "n_class (inst_at e b pos) = Branch t post" "t \<noteq> UNCONDITIONAL"
    and "n_id (inst_at e b pos) \<in> set (b_refs (block e post))"
    and "merge_jump b pos e = Inr e1" "merge_into post n (brs, e1) = Inr s"
  shows "\<exists>k. n_class (inst_at (snd s) b pos) = Branch k n"
proof -
  obtain k u where "goes_to e1 b pos (n_id (inst_at e b pos)) u"
    using merge_jump_branch [OF assms(5,2,3,1)] by (auto simp: goes_to_def)
  moreover have "n_id (inst_at e b pos) \<in> set (b_refs (block e1 post))"
    using merge_jump_branch [OF assms(5,2,3,1)] assms(4) by simp
  ultimately show ?thesis
    using merge_into_goes [OF assms(6), of b pos "n_id (inst_at e b pos)" u] by (auto simp: goes_to_def)
qed

text \<open>
  A condition with a \<open>break\<close> at the end of a loop body: block 1 has only the jump out of the loop to
  block 4, block 2 is the empty block behind the condition.
\<close>

definition branch_inst :: "nat \<Rightarrow> branch_type \<Rightarrow> nat \<Rightarrow> winst" where
  "branch_inst n t b = (demo_inst (Branch t b) i64 [signed_q] 1 0)\<lparr>n_id := n, n_ret := None\<rparr>"

definition flow_block :: "string \<Rightarrow> winst list \<Rightarrow> nat list \<Rightarrow> nat list \<Rightarrow> nat list \<Rightarrow> wblock" where
  "flow_block n is succs preds refs = \<lparr>b_name = n, b_insts = is, b_out = succs, b_in = preds, b_refs = refs\<rparr>"

definition break_event :: "nat list \<Rightarrow> wevent" where
  "break_event preds = \<lparr>e_name = ''ev'', e_scopes = [0],
     e_table = [flow_block ''cond'' [branch_inst 0 CONDITIONALEQ 2] [1, 2] [] [],
                flow_block ''true'' [branch_inst 1 UNCONDITIONAL 4] [4, 2] [0] [],
                flow_block ''post'' [] [3] preds [0],
                flow_block ''rest'' [branch_inst 2 UNCONDITIONAL 0] [0] [2] [],
                flow_block ''exit'' [demo_inst (Arith IADDITION) i64 [signed_q] 1 1] [] [1] [1]],
     e_blocks = [0, 1, 2, 3, 4], e_labels = 4\<rparr>"

lemmas flow_eval = break_event_def merge_jump_def flow_block_def branch_inst_def demo_inst_def block_def upd_block_def
  jump_block_def jump_target_def rmap_def merge_into_def move_ref_def move_edge_def change_dest_def has_inst_def inst_at_def

theorem merged_jump_redirected_witness:
  "\<exists>e1 s. merge_jump 0 0 (break_event [0]) = Inr e1 \<and> n_class (inst_at e1 0 0) = Branch CONDITIONALNEQ 4 \<and>
     merge_into 2 3 ([], e1) = Inr s \<and> (\<exists>k. n_class (inst_at (snd s) 0 0) = Branch k 3)"
proof -
  obtain e1 where e1: "merge_jump 0 0 (break_event [0]) = Inr e1" "n_class (inst_at e1 0 0) = Branch CONDITIONALNEQ 4"
    by (simp add: flow_eval)
  then obtain s where s: "merge_into 2 3 ([], e1) = Inr s" by (auto simp: flow_eval)
  have "\<exists>k. n_class (inst_at (snd s) 0 0) = Branch k 3"
    by (rule merged_jump_redirected [of "break_event [0]" 0 0 CONDITIONALEQ 2 e1 3 "[]"]) (use e1 s in \<open>simp_all add: flow_eval\<close>)
  then show ?thesis using e1 s by blast
qed

text \<open>Both passes over the whole event: the jump out of the loop is gone.\<close>

theorem break_lost:
  "\<exists>e1 w e2. BranchJumpMerging [break_event [1, 0]] = Inr [e1] \<and>
     EmptyBasicBlockMerging (demo_state, [e1]) = Inr (w, [e2]) \<and> e_blocks e2 = [0, 3, 4] \<and>
     n_class (inst_at e2 0 0) = Branch CONDITIONALNEQ 3"
  by (simp add: flow_eval BranchJumpMerging_def merge_jumps_of_def EmptyBasicBlockMerging_def on_event_def merge_event_def
      is_empty_block_def seq_res.simps)

section \<open>Unused variables\<close>

text \<open>What the loop does: the declaration behind one that is removed stays.\<close>

fun every_other :: "(nat \<times> usage) list \<Rightarrow> (nat \<times> usage) list" where
  "every_other [] = []"
| "every_other [d] = (if decl_unused (snd d) then [] else [d])"
| "every_other (d # d' # ds) = (if decl_unused (snd d) then d' # every_other ds else d # every_other (d' # ds))"

lemma check_decls_append:
  "length ds \<le> fuel \<Longrightarrow> check_decls fuel (length xs) (xs @ ds) = xs @ every_other ds"
proof (induction ds arbitrary: fuel xs rule: every_other.induct)
  case 1
  then show ?case by (cases fuel) simp_all
next
  case (2 d)
  then obtain f where "fuel = Suc f" by (cases fuel) auto
  then show ?case using check_decls.simps by (cases f) (simp_all add: remove_at_def)
next
  case (3 d d' ds)
  then obtain f where f: "fuel = Suc f" by (cases fuel) auto
  show ?case
  proof (cases "decl_unused (snd d)")
    case True
    have "check_decls f (length (xs @ [d'])) ((xs @ [d']) @ ds) = (xs @ [d']) @ every_other ds"
      using 3(1) [OF True, of f "xs @ [d']"] 3(3) f by simp
    then show ?thesis using True f by (simp add: remove_at_def)
  next
    case False
    have "check_decls f (length (xs @ [d])) ((xs @ [d]) @ d' # ds) = (xs @ [d]) @ every_other (d' # ds)"
      using 3(2) [OF False, of f "xs @ [d]"] 3(3) f by simp
    then show ?thesis using False f by simp
  qed
qed

lemma checkDeclarations_eq: "checkDeclarations ds = every_other ds"
  using check_decls_append [of ds "length ds" "[]"] by (simp add: checkDeclarations_def)

text \<open>C39: The loop that removes unused declarations shortens the list it runs over: an unused
  declaration that stands directly behind a removed one is not visited and stays.\<close>

theorem checkDeclarations_skips: "checkDeclarations ds = every_other ds"
  by (rule checkDeclarations_eq)

theorem half_of_the_unused_stay:
  "\<forall>d\<in>set ds. decl_unused (snd d) \<Longrightarrow> length (checkDeclarations ds) = length ds div 2"
  unfolding checkDeclarations_eq by (induction ds rule: every_other.induct) auto

end
