(* ===== verification/Udw_Alloc.thy ===== *)
theory Udw_Alloc imports Udw_Subst begin

text \<open>
  \<open>src/updown/udweave/backend/registerAllocator.py\<close>: \<open>WeaveLifetimeRegAlloc\<close>, which gives a physical
  register to a declaration from the instruction that writes it first to the last one that reads it.
  A physical register is its number, a virtual one is known by number and kind. Warnings, inline
  assembly, structures and unions are left out; an instruction used as an operand has two operands.
\<close>

section \<open>Physical registers\<close>

definition all_regs :: "nat list" where
  "all_regs = [16..<32]"

text \<open>The registers of event operands; X3 holds a ninth one.\<close>

definition all_op_regs :: "nat list" where
  "all_op_regs = [8..<16] @ [3]"

definition preg_name :: "nat \<Rightarrow> string" where
  "preg_name p = ''X'' @ py_str (int p)"

type_synonym vreg = "int \<times> wreg_type"

definition vreg_of :: "wreg \<Rightarrow> vreg" where
  "vreg_of r = (r_num r, r_type r)"

text \<open>
  \<open>ra_last\<close> is \<open>_lastUsedInstr\<close> of a physical register, \<open>ra_unused\<close> the free registers of an event as
  they are remembered for the code generation, \<open>ra_virt\<close> the allocation of a virtual register,
  \<open>ra_phys\<close> the register that a declaration has now.
\<close>

record ra_state =
  ra_notUsed :: "nat list"
  ra_used :: "nat list"
  ra_last :: "nat \<Rightarrow> nat option"
  ra_ops :: "nat list"
  ra_unused :: "nat \<Rightarrow> nat list option"
  ra_virt :: "vreg \<Rightarrow> nat option"
  ra_phys :: "nat \<Rightarrow> nat option"

definition new_allocator :: ra_state where
  "new_allocator = \<lparr>ra_notUsed = all_regs, ra_used = [], ra_last = \<lambda>_. None, ra_ops = all_op_regs,
     ra_unused = \<lambda>_. None, ra_virt = \<lambda>_. None, ra_phys = \<lambda>_. None\<rparr>"

text \<open>The number of a control register is its place in \<open>WeaveIRcontrolRegs\<close>.\<close>

definition getControlReg :: "wreg \<Rightarrow> nat res" where
  "getControlReg r =
     (if r_type r \<noteq> control then Inl SysExit
      else if r_num r = 1 then Inr 1
      else if r_num r = 2 then Inr 2
      else if r_num r = 0 then Inr 0
      else if r_num r = 3 then Inr 7
      else Inl SysExit)"

definition getGPR :: "nat \<Rightarrow> ra_state \<Rightarrow> (nat \<times> ra_state) res" where
  "getGPR e s =
     (case ra_notUsed s of
        [] \<Rightarrow> Inl SysExit
      | p # ps \<Rightarrow> Inr (p, s\<lparr>ra_notUsed := ps, ra_used := ra_used s @ [p], ra_unused := (ra_unused s)(e := Some ps)\<rparr>))"

text \<open>It is called with a register of the list of used ones.\<close>

definition putGPR :: "nat \<Rightarrow> ra_state \<Rightarrow> ra_state" where
  "putGPR p s = s\<lparr>ra_notUsed := p # ra_notUsed s, ra_used := remove1 p (ra_used s)\<rparr>"

definition getTempReg :: "nat \<Rightarrow> nat \<Rightarrow> ra_state \<Rightarrow> nat res" where
  "getTempReg n e s =
     (case ra_unused s e of
        None \<Rightarrow> Inl SysExit
      | Some ps \<Rightarrow> if length ps \<le> n then Inl SysExit else Inr (ps ! n))"

definition updateVirtualRegs :: "nat \<Rightarrow> wreg list \<Rightarrow> nat \<Rightarrow> ra_state \<Rightarrow> ra_state" where
  "updateVirtualRegs d rs p s =
     s\<lparr>ra_phys := (ra_phys s)(d := Some p),
       ra_virt := (\<lambda>v. if v \<in> vreg_of ` set rs \<and> snd v \<in> {gpr, opbuff} then Some p else ra_virt s v)\<rparr>"

definition setLastUsedInstr :: "nat \<Rightarrow> nat option \<Rightarrow> ra_state \<Rightarrow> ra_state" where
  "setLastUsedInstr p i s = s\<lparr>ra_last := (ra_last s)(p := i)\<rparr>"

section \<open>Live ranges\<close>

text \<open>The operands of an instruction; a phi node reads all registers of its declaration.\<close>

definition in_ops :: "wstate \<Rightarrow> winst \<Rightarrow> opnd option list" where
  "in_ops w i =
     (case n_class i of
        Phi d \<Rightarrow> map (\<lambda>r. Some (OReg r)) (d_regs (w_decls w ! d))
      | _ \<Rightarrow> getInOps i)"

text \<open>The instructions from one to another; with \<open>incl\<close> the first one belongs to them.\<close>

fun range_from :: "bool \<Rightarrow> nat \<Rightarrow> nat \<Rightarrow> bool \<Rightarrow> winst list \<Rightarrow> winst list" where
  "range_from active start stop incl [] = []"
| "range_from active start stop incl (i # is) =
     (if n_id i = start \<and> \<not> incl then range_from True start stop incl is
      else if active \<or> n_id i = start then
        (if n_id i = stop then [i] else i # range_from True start stop incl is)
      else range_from active start stop incl is)"

definition getInstrRange :: "nat \<Rightarrow> nat \<Rightarrow> bool \<Rightarrow> winst list \<Rightarrow> winst list" where
  "getInstrRange = range_from False"

text \<open>
  The first operand that belongs to the declaration, as the new values of \<open>lastInstructionWrite\<close> and
  \<open>hasBeenRead\<close>. An instruction that is not a memory access leaves both as they are when it reads the
  declaration from a register.
\<close>

fun op_reads :: "nat \<Rightarrow> wclass \<Rightarrow> bool \<Rightarrow> opnd option list \<Rightarrow> (bool \<times> bool) option" where
  "op_reads d k wr [] = None"
| "op_reads d k wr (x # xs) =
     (case x of
        Some (OReg r) \<Rightarrow>
          if r_decl r = Some d then
            Some (case k of Memory t \<Rightarrow> (if t = LOADLOCAL then (True, False) else (False, True)) | _ \<Rightarrow> (wr, False))
          else op_reads d k wr xs
      | Some (OInst r) \<Rightarrow> if r_decl r = Some d then Some (False, True) else op_reads d k wr xs
      | Some (ODecl d') \<Rightarrow> if d' = d then Some (False, True) else op_reads d k wr xs
      | _ \<Rightarrow> op_reads d k wr xs)"

definition writes :: "nat \<Rightarrow> winst \<Rightarrow> bool" where
  "writes d i = (case n_ret i of None \<Rightarrow> False | Some r \<Rightarrow> r_decl r = Some d)"

text \<open>
  The last instruction that uses the declaration, and whether it counts as a write; not set is false.
  The last instruction of the event itself is not looked at.
\<close>

fun last_use :: "wstate \<Rightarrow> nat \<Rightarrow> nat \<Rightarrow> winst list \<Rightarrow> winst option \<Rightarrow> bool \<Rightarrow> winst option \<times> bool" where
  "last_use w d lower [] l wr = (l, wr)"
| "last_use w d lower (i # is) l wr =
     (if \<not> isInstruction i then last_use w d lower is l wr
      else if n_id i = lower then (l, wr)
      else if n_class i = Phi d then last_use w d lower is (Some i) False
      else case op_reads d (n_class i) wr (in_ops w i) of
             Some (wr', rd) \<Rightarrow> last_use w d lower is (Some i) wr'
           | None \<Rightarrow>
               if writes d i \<and> l = None then last_use w d lower is (Some i) True
               else last_use w d lower is l wr)"

definition lastInstruction :: "wstate \<Rightarrow> nat \<Rightarrow> winst \<Rightarrow> winst list \<Rightarrow> winst option \<times> bool" where
  "lastInstruction w d i insts =
     (let lower = n_id (last insts) in last_use w d lower (getInstrRange (n_id i) lower False insts) None False)"

definition has_reg :: "wreg list \<Rightarrow> wreg \<Rightarrow> bool" where
  "has_reg rs r = (\<exists>q\<in>set rs. same_reg r q)"

definition op_regs_of :: "wstate \<Rightarrow> nat \<Rightarrow> opnd option \<Rightarrow> wreg list" where
  "op_regs_of w d x =
     (let rs = d_regs (w_decls w ! d)
      in case x of
           Some (OReg r) \<Rightarrow> if has_reg rs r then [r] else []
         | Some (OInst r) \<Rightarrow> if has_reg rs r then [r] else []
         | Some (ODecl d') \<Rightarrow> if d' = d then (case curReg (w_decls w ! d) of None \<Rightarrow> [] | Some r \<Rightarrow> [r]) else []
         | _ \<Rightarrow> [])"

definition inst_regs_of :: "wstate \<Rightarrow> nat \<Rightarrow> winst \<Rightarrow> wreg list" where
  "inst_regs_of w d i =
     (if \<not> isInstruction i then []
      else (case n_ret i of None \<Rightarrow> [] | Some r \<Rightarrow> if has_reg (d_regs (w_decls w ! d)) r then [r] else [])
           @ concat (map (op_regs_of w d) (in_ops w i)))"

definition getVirtualRegistersForRange :: "wstate \<Rightarrow> nat \<Rightarrow> winst \<Rightarrow> winst \<Rightarrow> winst list \<Rightarrow> wreg list" where
  "getVirtualRegistersForRange w d i l insts =
     concat (map (inst_regs_of w d) (getInstrRange (n_id i) (n_id l) True insts))"

section \<open>The instructions of an event\<close>

text \<open>A register whose last use is this instruction goes back, and its declaration has none.\<close>

definition release_one :: "nat \<Rightarrow> nat list \<Rightarrow> nat \<Rightarrow> ra_state \<Rightarrow> ra_state" where
  "release_one i decls p s =
     (if ra_last s p = None \<or> ra_last s p = Some i then
        (let s = putGPR p s
         in case find (\<lambda>d. ra_phys s d = Some p) decls of
              None \<Rightarrow> s
            | Some d \<Rightarrow> s\<lparr>ra_phys := (ra_phys s)(d := None)\<rparr>)
      else s)"

definition releaseUsedRegisters :: "nat \<Rightarrow> nat list \<Rightarrow> ra_state \<Rightarrow> ra_state" where
  "releaseUsedRegisters i decls s = fold (release_one i decls) (rev (ra_used s)) s"

text \<open>A declaration that is written gets a register, unless nothing reads it.\<close>

definition allocate_return :: "wstate \<Rightarrow> nat \<Rightarrow> winst list \<Rightarrow> winst \<Rightarrow> wreg \<Rightarrow> ra_state \<Rightarrow> ra_state res" where
  "allocate_return w e insts i r s =
     (if ra_virt s (vreg_of r) \<noteq> None then Inr s
      else case r_decl r of
        None \<Rightarrow> Inr s
      | Some d \<Rightarrow>
          if ra_phys s d \<noteq> None then Inr s
          else case lastInstruction w d i insts of
            (Some l, False) \<Rightarrow>
              rbind (getGPR e s) (\<lambda>(p, s).
                Inr (updateVirtualRegs d (getVirtualRegistersForRange w d i l insts) p
                       (setLastUsedInstr p (Some (n_id l)) s)))
          | _ \<Rightarrow> Inr s)"

text \<open>An operand without a register, of an instruction that returns nothing\<close>

definition allocate_operand :: "nat \<Rightarrow> winst \<Rightarrow> opnd option \<Rightarrow> ra_state \<Rightarrow> ra_state res" where
  "allocate_operand e i x s =
     (case x of
        Some (OReg r) \<Rightarrow>
          if ra_virt s (vreg_of r) \<noteq> None then Inr s
          else case r_decl r of
            None \<Rightarrow> (case getGPR e s of Inl err \<Rightarrow> Inl err | Inr _ \<Rightarrow> Inl AttributeError)
          | Some d \<Rightarrow>
              rbind (getGPR e s) (\<lambda>(p, s). Inr (updateVirtualRegs d [r] p (setLastUsedInstr p (Some (n_id i)) s)))
      | _ \<Rightarrow> Inr s)"

definition allocate_inst :: "wstate \<Rightarrow> nat \<Rightarrow> nat list \<Rightarrow> winst list \<Rightarrow> winst \<Rightarrow> ra_state \<Rightarrow> ra_state res" where
  "allocate_inst w e decls insts i s =
     (if \<not> isInstruction i then Inr s
      else case n_ret i of
        Some r \<Rightarrow> allocate_return w e insts i r (releaseUsedRegisters (n_id i) decls s)
      | None \<Rightarrow>
          rbind (foldr_res (allocate_operand e i) (in_ops w i) s) (\<lambda>s.
            Inr (releaseUsedRegisters (n_id i) decls s)))"

definition allocateRegsForEvent :: "wstate \<Rightarrow> nat \<Rightarrow> nat list \<Rightarrow> winst list \<Rightarrow> ra_state \<Rightarrow> ra_state res" where
  "allocateRegsForEvent w e decls insts s = foldr_res (allocate_inst w e decls insts) insts s"

section \<open>Parameters\<close>

definition allocate_param :: "wstate \<Rightarrow> nat \<Rightarrow> nat list \<times> ra_state \<Rightarrow> (nat list \<times> ra_state) res" where
  "allocate_param w d us =
     (let (used, s) = us
      in if ra_phys s d \<noteq> None then Inr us
         else case ra_ops s of
           [] \<Rightarrow> Inl SysExit
         | p # ps \<Rightarrow> Inr (used @ [p], updateVirtualRegs d (d_regs (w_decls w ! d)) p (s\<lparr>ra_ops := ps\<rparr>)))"

definition allocateRegsForParams :: "wstate \<Rightarrow> nat list \<Rightarrow> ra_state \<Rightarrow> ra_state res" where
  "allocateRegsForParams w params s =
     rbind (foldr_res (allocate_param w) params ([], s)) (\<lambda>(used, s). Inr (s\<lparr>ra_ops := used @ ra_ops s\<rparr>))"

section \<open>What is left\<close>

text \<open>
  An operand that was never written. \<open>ctx_of\<close> is the context of a register, in which a declaration is
  made when the instruction returns nothing; a memory access builds its list of operands anew, so
  the replacement does not reach it.
\<close>

definition uninitialized :: "nat \<Rightarrow> wstate \<Rightarrow> wstate" where
  "uninitialized d w =
     (let x = w_decls w ! d
      in w\<lparr>w_decls := (w_decls w)[d := x\<lparr>d_init := False, d_regs := map (\<lambda>r. r\<lparr>r_init := False\<rparr>) (d_regs x)\<rparr>]\<rparr>)"

definition replace_operand :: "nat \<Rightarrow> wreg \<Rightarrow> winst \<Rightarrow> winst" where
  "replace_operand k r i =
     (case n_class i of Memory _ \<Rightarrow> i | _ \<Rightarrow> i\<lparr>n_ops := (n_ops i)[k := Some (OReg r)]\<rparr>)"

definition search_operand ::
  "(wreg \<Rightarrow> wctx) \<Rightarrow> nat \<Rightarrow> nat \<times> opnd option \<Rightarrow> winst \<times> wstate \<times> ra_state \<Rightarrow> (winst \<times> wstate \<times> ra_state) res" where
  "search_operand ctx_of e ix t =
     (let (k, x) = ix; (i, w, s) = t
      in case x of
        Some (OReg r) \<Rightarrow>
          if ra_virt s (vreg_of r) \<noteq> None then Inr t
          else if r_type r = control then
            rbind (getControlReg r) (\<lambda>p. Inr (i, w, s\<lparr>ra_virt := (ra_virt s)(vreg_of r := Some p)\<rparr>))
          else if r_type r = gpr then
            (case n_ret i of
               Some _ \<Rightarrow>
                 rbind (getTempReg 0 e s) (\<lambda>p.
                   Inr (i, w, (setLastUsedInstr p None s)\<lparr>ra_virt := (ra_virt s)(vreg_of r := Some p)\<rparr>))
             | None \<Rightarrow>
                 rbind (getTempDeclaration (ctx_of r) (r_dtype r) (r_quals r) w) (\<lambda>(d, w).
                 rbind (getTempReg 0 e s) (\<lambda>p.
                   case curReg (w_decls (uninitialized d w) ! d) of
                     None \<Rightarrow> Inl AttributeError
                   | Some q \<Rightarrow>
                       Inr (replace_operand k q i, uninitialized d w,
                            s\<lparr>ra_virt := (ra_virt s)(vreg_of q := Some p)\<rparr>))))
          else Inr t
      | _ \<Rightarrow> Inr t)"

definition search_inst ::
  "(wreg \<Rightarrow> wctx) \<Rightarrow> nat \<Rightarrow> winst \<Rightarrow> wstate \<times> ra_state \<Rightarrow> (winst \<times> wstate \<times> ra_state) res" where
  "search_inst ctx_of e i ws =
     (if \<not> isInstruction i \<or> (case n_class i of Phi _ \<Rightarrow> True | _ \<Rightarrow> False) then Inr (i, ws)
      else foldr_res (search_operand ctx_of e) (enumerate 0 (in_ops (fst ws) i)) (i, ws))"

fun search_insts ::
  "(wreg \<Rightarrow> wctx) \<Rightarrow> nat \<Rightarrow> winst list \<Rightarrow> wstate \<times> ra_state \<Rightarrow> (winst list \<times> wstate \<times> ra_state) res" where
  "search_insts ctx_of e [] ws = Inr ([], ws)"
| "search_insts ctx_of e (i # is) ws =
     rbind (search_inst ctx_of e i ws) (\<lambda>(i, ws).
     rbind (search_insts ctx_of e is ws) (\<lambda>(is, ws). Inr (i # is, ws)))"

text \<open>All used registers are released after every block.\<close>

definition release_all :: "ra_state \<Rightarrow> ra_state" where
  "release_all s = fold putGPR (rev (ra_used s)) s"

type_synonym alloc_program = "wstate \<times> ra_state \<times> wprogram"

definition search_block :: "(wreg \<Rightarrow> wctx) \<Rightarrow> nat \<Rightarrow> nat \<Rightarrow> alloc_program \<Rightarrow> alloc_program res" where
  "search_block ctx_of e b t =
     (let (w, s, es) = t
      in rbind (search_insts ctx_of e (get_insts e b es) (w, s)) (\<lambda>(is, w, s).
           Inr (w, release_all s, set_insts e b is es)))"

definition searchUnallocatedOperands :: "(wreg \<Rightarrow> wctx) \<Rightarrow> nat \<Rightarrow> alloc_program \<Rightarrow> alloc_program res" where
  "searchUnallocatedOperands ctx_of e t =
     foldr_res (search_block ctx_of e) (e_blocks (snd (snd t) ! e)) t"

text \<open>Instructions whose result has no register are removed, then the phi nodes.\<close>

definition is_dead :: "ra_state \<Rightarrow> winst \<Rightarrow> bool" where
  "is_dead s i =
     (isInstruction i \<and> (case n_ret i of None \<Rightarrow> False | Some r \<Rightarrow> ra_virt s (vreg_of r) = None))"

definition is_phi_node :: "winst \<Rightarrow> bool" where
  "is_phi_node i = (case n_class i of Phi _ \<Rightarrow> True | _ \<Rightarrow> False)"

definition filter_blocks :: "(winst \<Rightarrow> bool) \<Rightarrow> nat \<Rightarrow> wprogram \<Rightarrow> wprogram" where
  "filter_blocks P e es = fold (\<lambda>b es. set_insts e b (filter P (get_insts e b es)) es) (e_blocks (es ! e)) es"

definition deadCodeRemoval :: "ra_state \<Rightarrow> nat \<Rightarrow> wprogram \<Rightarrow> wprogram" where
  "deadCodeRemoval s = filter_blocks (\<lambda>i. \<not> is_dead s i)"

definition removePhiNodes :: "nat \<Rightarrow> wprogram \<Rightarrow> wprogram" where
  "removePhiNodes = filter_blocks (\<lambda>i. \<not> is_phi_node i)"

text \<open>This loop runs over the list that it shortens; \<open>k\<close> is its position.\<close>

fun release_event :: "nat \<Rightarrow> nat \<Rightarrow> ra_state \<Rightarrow> ra_state" where
  "release_event 0 k s = s"
| "release_event (Suc fuel) k s =
     (if length (ra_used s) \<le> k then s else release_event fuel (Suc k) (putGPR (ra_used s ! k) s))"

definition releaseEventRegisters :: "ra_state \<Rightarrow> ra_state" where
  "releaseEventRegisters s = release_event (length (ra_used s)) 0 s"

section \<open>Events and scopes\<close>

datatype decl_scope = DeclScope "nat list" "decl_scope list"

fun getAllNestedDeclarations :: "decl_scope \<Rightarrow> nat list" where
  "getAllNestedDeclarations (DeclScope ds cs) = ds @ concat (map getAllNestedDeclarations cs)"

text \<open>Which declarations belong to the thread, the parameters and the scope of every event\<close>

record alloc_info =
  v_thread :: "nat \<Rightarrow> bool"
  v_params :: "nat \<Rightarrow> nat list"
  v_scope :: "nat \<Rightarrow> decl_scope"
  v_ctx :: "wreg \<Rightarrow> wctx"

definition allocateEventRegisters :: "alloc_info \<Rightarrow> nat \<Rightarrow> alloc_program \<Rightarrow> alloc_program res" where
  "allocateEventRegisters v e t =
     (let (w, s, es) = t; s = s\<lparr>ra_unused := (ra_unused s)(e := Some (ra_notUsed s))\<rparr>
      in rbind (allocateRegsForParams w (v_params v e) s) (\<lambda>s.
         rbind (allocateRegsForEvent w e (getAllNestedDeclarations (v_scope v e)) (event_insts (es ! e)) s) (\<lambda>s.
         rbind (searchUnallocatedOperands (v_ctx v) e (w, s, es)) (\<lambda>(w, s, es).
           Inr (w, releaseEventRegisters s, removePhiNodes e (deadCodeRemoval s e es))))))"

definition allocate_thread_decl :: "alloc_info \<Rightarrow> wstate \<Rightarrow> nat \<Rightarrow> ra_state \<Rightarrow> ra_state res" where
  "allocate_thread_decl v w d s =
     (if v_thread v d \<and> ra_phys s d = None then
        (case ra_notUsed s of
           [] \<Rightarrow> Inl IndexError
         | p # ps \<Rightarrow> Inr (updateVirtualRegs d (d_regs (w_decls w ! d)) p (s\<lparr>ra_notUsed := ps\<rparr>)))
      else Inr s)"

datatype alloc_scope = AllocScope "nat list" "alloc_body list"
  and alloc_body = ThreadBody "alloc_section list" | EventBody nat | OtherBody
  and alloc_section = ScopeSection alloc_scope | EventSection nat | OtherSection

lemma foldr_res_cong [fundef_cong]:
  assumes "xs = ys" "s = t" "\<And>x u. x \<in> set ys \<Longrightarrow> f x u = g x u"
  shows "foldr_res f xs s = foldr_res g ys t"
  unfolding assms(1,2) using assms(3)
proof (induction ys arbitrary: t)
  case (Cons y ys)
  then show ?case by (cases "g y t") simp_all
qed simp

fun allocate :: "alloc_info \<Rightarrow> alloc_scope \<Rightarrow> alloc_program \<Rightarrow> alloc_program res"
  and allocate_body :: "alloc_info \<Rightarrow> alloc_body \<Rightarrow> alloc_program \<Rightarrow> alloc_program res"
  and allocate_section :: "alloc_info \<Rightarrow> alloc_section \<Rightarrow> alloc_program \<Rightarrow> alloc_program res" where
  "allocate v (AllocScope ds bs) (w, s, es) =
     rbind (foldr_res (allocate_thread_decl v w) ds (s\<lparr>ra_used := [], ra_notUsed := all_regs\<rparr>)) (\<lambda>s.
     rbind (foldr_res (allocate_body v) bs (w, s, es)) (\<lambda>(w, s, es).
       Inr (w, s\<lparr>ra_used := [], ra_notUsed := all_regs\<rparr>, es)))"
| "allocate_body v (ThreadBody ss) t = foldr_res (allocate_section v) ss t"
| "allocate_body v (EventBody e) t = allocateEventRegisters v e t"
| "allocate_body v OtherBody t = Inr t"
| "allocate_section v (ScopeSection sc) t = allocate v sc t"
| "allocate_section v (EventSection e) t = allocateEventRegisters v e t"
| "allocate_section v OtherSection t = Inr t"

text \<open>What the code generation asks for\<close>

definition getAllocation :: "ra_state \<Rightarrow> wreg \<Rightarrow> string" where
  "getAllocation s r = (case ra_virt s (vreg_of r) of None \<Rightarrow> '''' | Some p \<Rightarrow> preg_name p)"

end
