(* ===== verification/Udw_Pool.thy ===== *)
theory Udw_Pool imports Udw_Alloc Udw_Runs "HOL-Library.Multiset" begin

text \<open>
  The pool of physical registers: what a release does, and that no register is lost or handed out
  twice.
\<close>

section \<open>Releasing registers\<close>

text \<open>A register stays when its last use is another instruction.\<close>

definition stays :: "nat \<Rightarrow> ra_state \<Rightarrow> nat \<Rightarrow> bool" where
  "stays i s p = (ra_last s p \<noteq> None \<and> ra_last s p \<noteq> Some i)"

lemma release_one_fields [simp]:
  "ra_last (release_one i decls p s) = ra_last s" "ra_ops (release_one i decls p s) = ra_ops s"
  "ra_unused (release_one i decls p s) = ra_unused s" "ra_virt (release_one i decls p s) = ra_virt s"
  by (simp_all add: release_one_def putGPR_def Let_def split: option.split)

lemma release_one_lists:
  "ra_used (release_one i decls p s) = (if stays i s p then ra_used s else remove1 p (ra_used s))"
  "ra_notUsed (release_one i decls p s) = (if stays i s p then ra_notUsed s else p # ra_notUsed s)"
  by (auto simp: release_one_def putGPR_def stays_def Let_def split: option.split)

lemma release_one_phys:
  "ra_phys (release_one i decls p s) =
     (if stays i s p then ra_phys s
      else case find (\<lambda>d. ra_phys s d = Some p) decls of None \<Rightarrow> ra_phys s | Some d \<Rightarrow> (ra_phys s)(d := None))"
  by (auto simp: release_one_def putGPR_def stays_def Let_def split: option.split)

lemma stays_release [simp]: "stays i (release_one i' decls q s) = stays i s"
  by (simp add: stays_def fun_eq_iff)

lemma release_fields:
  "ra_last (fold (release_one i decls) ps s) = ra_last s \<and> ra_ops (fold (release_one i decls) ps s) = ra_ops s \<and>
   ra_unused (fold (release_one i decls) ps s) = ra_unused s \<and> ra_virt (fold (release_one i decls) ps s) = ra_virt s"
  by (induction ps arbitrary: s) simp_all

lemma release_lists:
  assumes "ra_used s = ps @ qs" "distinct (ps @ qs)"
  shows "ra_used (fold (release_one i decls) (rev ps) s) = filter (stays i s) ps @ qs \<and>
         ra_notUsed (fold (release_one i decls) (rev ps) s) = filter (\<lambda>p. \<not> stays i s p) ps @ ra_notUsed s"
  using assms
proof (induction ps arbitrary: s qs rule: rev_induct)
  case (snoc p ps)
  show ?case
  proof (cases "stays i s p")
    case True
    then show ?thesis using snoc.IH [of "release_one i decls p s" "p # qs"] snoc.prems by (simp add: release_one_lists)
  next
    case False
    then have "ra_used (release_one i decls p s) = ps @ qs"
      using snoc.prems by (simp add: release_one_lists remove1_append)
    then show ?thesis using False snoc.IH [of "release_one i decls p s" qs] snoc.prems by (simp add: release_one_lists)
  qed
qed simp

lemma releaseUsedRegisters_fields [simp]:
  "ra_last (releaseUsedRegisters i decls s) = ra_last s" "ra_ops (releaseUsedRegisters i decls s) = ra_ops s"
  "ra_unused (releaseUsedRegisters i decls s) = ra_unused s" "ra_virt (releaseUsedRegisters i decls s) = ra_virt s"
  by (simp_all add: releaseUsedRegisters_def release_fields)

lemma releaseUsedRegisters_lists:
  assumes "distinct (ra_used s)"
  shows "ra_used (releaseUsedRegisters i decls s) = filter (stays i s) (ra_used s)"
    "ra_notUsed (releaseUsedRegisters i decls s) = filter (\<lambda>p. \<not> stays i s p) (ra_used s) @ ra_notUsed s"
  using release_lists [of s "ra_used s" "[]"] assms by (simp_all add: releaseUsedRegisters_def)

text \<open>The declaration of a register that stays keeps it; the owner of a register that goes loses it.\<close>

lemma fold_release_None: "ra_phys s d = None \<Longrightarrow> ra_phys (fold (release_one i decls) ps s) d = None"
  by (induction ps arbitrary: s) (auto simp: release_one_phys split: option.split)

lemma fold_release_phys_le:
  "ra_phys (fold (release_one i decls) ps s) d = Some p \<Longrightarrow> ra_phys s d = Some p"
proof (induction ps arbitrary: s)
  case (Cons q ps)
  then have "ra_phys (release_one i decls q s) d = Some p" by simp
  then show ?case by (auto simp: release_one_phys split: if_splits option.splits)
qed simp

lemma fold_release_keeps:
  assumes "ra_phys s d = Some p" "p \<in> set ps \<Longrightarrow> stays i s p"
  shows "ra_phys (fold (release_one i decls) ps s) d = Some p"
  using assms
proof (induction ps arbitrary: s)
  case (Cons q ps)
  have "ra_phys (release_one i decls q s) d = Some p"
    using Cons.prems by (auto simp: release_one_phys find_Some_iff split: option.split)
  then show ?case using Cons.IH [of "release_one i decls q s"] Cons.prems(2) by simp
qed simp

lemma fold_release_drops:
  assumes "ra_phys s d = Some p" "p \<in> set ps" "\<not> stays i s p" "d \<in> set decls"
    "\<And>d'. ra_phys s d' = Some p \<Longrightarrow> d' = d"
  shows "ra_phys (fold (release_one i decls) ps s) d = None"
  using assms
proof (induction ps arbitrary: s)
  case Nil
  from Nil(2) show ?case by simp
next
  case (Cons q ps)
  show ?case
  proof (cases "q = p")
    case True
    obtain d' where "find (\<lambda>d. ra_phys s d = Some p) decls = Some d'"
      using Cons.prems(1,4) by (cases "find (\<lambda>d. ra_phys s d = Some p) decls") (auto simp: find_None_iff)
    moreover from this have "d' = d" using Cons.prems(5) by (auto simp: find_Some_iff)
    ultimately have "ra_phys (release_one i decls q s) d = None"
      using True Cons.prems(3) by (simp add: release_one_phys)
    then show ?thesis by (simp add: fold_release_None)
  next
    case False
    have "ra_phys (release_one i decls q s) d = Some p"
      using Cons.prems(1) False by (auto simp: release_one_phys find_Some_iff split: option.split)
    moreover have "d' = d" if "ra_phys (release_one i decls q s) d' = Some p" for d'
      using that Cons.prems(5) by (auto simp: release_one_phys split: if_splits option.splits)
    moreover have "p \<in> set ps" "\<not> stays i (release_one i decls q s) p" using Cons.prems(2,3) False by simp_all
    ultimately have "ra_phys (fold (release_one i decls) ps (release_one i decls q s)) d = None"
      using Cons.IH Cons.prems(4) by blast
    then show ?thesis by simp
  qed
qed

lemma release_None: "ra_phys s d = None \<Longrightarrow> ra_phys (releaseUsedRegisters i decls s) d = None"
  by (simp add: releaseUsedRegisters_def fold_release_None)

lemma release_phys_le: "ra_phys (releaseUsedRegisters i decls s) d = Some p \<Longrightarrow> ra_phys s d = Some p"
  unfolding releaseUsedRegisters_def by (rule fold_release_phys_le)

lemma release_keeps:
  "ra_phys s d = Some p \<Longrightarrow> (p \<in> set (ra_used s) \<Longrightarrow> stays i s p) \<Longrightarrow>
   ra_phys (releaseUsedRegisters i decls s) d = Some p"
  unfolding releaseUsedRegisters_def by (rule fold_release_keeps) simp_all

lemma release_drops:
  assumes "ra_phys s d = Some p" "p \<in> set (ra_used s)" "\<not> stays i s p" "d \<in> set decls"
    "\<And>d'. ra_phys s d' = Some p \<Longrightarrow> d' = d"
  shows "ra_phys (releaseUsedRegisters i decls s) d = None"
  unfolding releaseUsedRegisters_def by (rule fold_release_drops [OF assms(1) _ assms(3-5)]) (use assms(2) in simp)

section \<open>The pool of registers\<close>

text \<open>No register is in both lists, and together they are always the same registers.\<close>

definition pool_ok :: "nat multiset \<Rightarrow> ra_state \<Rightarrow> bool" where
  "pool_ok ps s = (distinct (ra_used s @ ra_notUsed s) \<and> mset (ra_used s @ ra_notUsed s) = ps)"

lemma pool_ok_fields [simp]:
  "pool_ok ps (setLastUsedInstr p i s) = pool_ok ps s" "pool_ok ps (updateVirtualRegs d rs p s) = pool_ok ps s"
  by (simp_all add: pool_ok_def setLastUsedInstr_def updateVirtualRegs_def)

lemma pool_ok_release: "pool_ok ps s \<Longrightarrow> pool_ok ps (releaseUsedRegisters i decls s)"
proof -
  assume a: "pool_ok ps s"
  then have d: "distinct (ra_used s)" by (simp add: pool_ok_def)
  have "mset (filter (stays i s) (ra_used s)) + mset (filter (\<lambda>p. \<not> stays i s p) (ra_used s)) = mset (ra_used s)"
    by simp
  then show ?thesis using a releaseUsedRegisters_lists [OF d, of i decls]
    by (auto simp: pool_ok_def simp flip: union_assoc)
qed

lemma getGPR_ok:
  assumes "getGPR e s = Inr (p, s')" "pool_ok ps s"
  shows "pool_ok ps s' \<and> p \<in> set (ra_used s') \<and> p \<in> set (ra_notUsed s) \<and> p \<notin> set (ra_used s)"
  using assms by (auto simp: getGPR_def pool_ok_def split: list.splits)

lemma pool_ok_return:
  assumes "allocate_return w e insts i r s = Inr s'" "pool_ok ps s"
  shows "pool_ok ps s'"
  using assms getGPR_ok by (auto simp: allocate_return_def rbind_Inr_iff split: if_splits option.splits prod.splits bool.splits)

lemma pool_ok_operand:
  assumes "allocate_operand e i x s = Inr s'" "pool_ok ps s"
  shows "pool_ok ps s'"
  using assms getGPR_ok by (auto simp: allocate_operand_def rbind_Inr_iff split: if_splits option.splits opnd.splits sum.splits)

lemma pool_ok_operands: "foldr_res (allocate_operand e i) xs s = Inr s' \<Longrightarrow> pool_ok ps s \<Longrightarrow> pool_ok ps s'"
  using foldr_res_invariant [where P = "pool_ok ps"] pool_ok_operand by blast

lemma pool_ok_inst:
  assumes "allocate_inst w e decls insts i s = Inr s'" "pool_ok ps s"
  shows "pool_ok ps s'"
proof (cases "n_ret i")
  case None
  then show ?thesis
    using assms pool_ok_operands by (auto simp: allocate_inst_def rbind_Inr_iff pool_ok_release split: if_splits)
next
  case (Some r)
  then show ?thesis
    using assms pool_ok_return pool_ok_release by (auto simp: allocate_inst_def split: if_splits)
qed

lemma pool_ok_event: "allocateRegsForEvent w e decls insts s = Inr s' \<Longrightarrow> pool_ok ps s \<Longrightarrow> pool_ok ps s'"
  unfolding allocateRegsForEvent_def using foldr_res_invariant [where P = "pool_ok ps"] pool_ok_inst by blast

lemma pool_ok_params: "allocateRegsForParams w params s = Inr s' \<Longrightarrow> ra_used s' = ra_used s \<and> ra_notUsed s' = ra_notUsed s"
proof -
  have "ra_used (snd u) = ra_used s \<and> ra_notUsed (snd u) = ra_notUsed s"
    if "foldr_res (allocate_param w) params ([], s) = Inr u" for u
    by (rule foldr_res_invariant [where P = "\<lambda>u. ra_used (snd u) = ra_used s \<and> ra_notUsed (snd u) = ra_notUsed s", OF that])
      (auto simp: allocate_param_def updateVirtualRegs_def split: prod.splits if_splits list.splits)
  then show "allocateRegsForParams w params s = Inr s' \<Longrightarrow> ra_used s' = ra_used s \<and> ra_notUsed s' = ra_notUsed s"
    by (force simp: allocateRegsForParams_def rbind_Inr_iff split: prod.splits)
qed

subsection \<open>The rest of an event\<close>

lemma fold_putGPR:
  assumes "ra_used s = ps" "distinct ps"
  shows "fold putGPR (rev ps) s = s\<lparr>ra_used := [], ra_notUsed := ps @ ra_notUsed s\<rparr>"
proof -
  have "fold putGPR (rev ps) s = s\<lparr>ra_used := qs, ra_notUsed := ps @ ra_notUsed s\<rparr>"
    if "ra_used s = ps @ qs" "distinct (ps @ qs)" for s qs
    using that
  proof (induction ps arbitrary: s qs rule: rev_induct)
    case (snoc p ps)
    have "ra_used (putGPR p s) = ps @ qs" using snoc.prems by (simp add: putGPR_def remove1_append)
    then show ?case using snoc.IH [of "putGPR p s" qs] snoc.prems by (simp add: putGPR_def)
  qed simp
  then show ?thesis using assms by simp
qed

lemma release_all_eq: "distinct (ra_used s) \<Longrightarrow> release_all s = s\<lparr>ra_used := [], ra_notUsed := ra_used s @ ra_notUsed s\<rparr>"
  by (simp add: release_all_def fold_putGPR)

lemma search_operand_pool:
  assumes "search_operand ctx_of e ix (i, w, s) = Inr (i', w', s')"
  shows "ra_used s' = ra_used s \<and> ra_notUsed s' = ra_notUsed s"
  using assms
  by (auto simp: search_operand_def setLastUsedInstr_def rbind_Inr_iff Let_def split: prod.splits option.splits opnd.splits if_splits)

lemma search_inst_pool:
  assumes "search_inst ctx_of e i (w, s) = Inr (i', w', s')"
  shows "ra_used s' = ra_used s \<and> ra_notUsed s' = ra_notUsed s"
proof -
  have "ra_used (snd (snd t)) = ra_used s \<and> ra_notUsed (snd (snd t)) = ra_notUsed s"
    if "foldr_res (search_operand ctx_of e) ixs (i, w, s) = Inr t" for t ixs
    by (rule foldr_res_invariant [where P = "\<lambda>t. ra_used (snd (snd t)) = ra_used s \<and> ra_notUsed (snd (snd t)) = ra_notUsed s", OF that])
      (use search_operand_pool in \<open>auto split: prod.splits\<close>)
  then show ?thesis using assms by (force simp: search_inst_def split: if_splits)
qed

lemma search_insts_pool:
  "search_insts ctx_of e is (w, s) = Inr (is', w', s') \<Longrightarrow> ra_used s' = ra_used s \<and> ra_notUsed s' = ra_notUsed s"
proof (induction "is" arbitrary: w s is')
  case (Cons i "is")
  then show ?case using search_inst_pool by (fastforce simp: rbind_Inr_iff)
qed simp

lemma search_block_pool:
  assumes "search_block ctx_of e b (w, s, es) = Inr (w', s', es')" "pool_ok ps s"
  shows "pool_ok ps s' \<and> ra_used s' = []"
proof -
  obtain "is" w1 s1 where s1: "search_insts ctx_of e (get_insts e b es) (w, s) = Inr (is, w1, s1)" "s' = release_all s1"
    using assms(1) by (auto simp: search_block_def rbind_Inr_iff)
  have "distinct (ra_used s1)" "pool_ok ps s1" using search_insts_pool [OF s1(1)] assms(2) by (simp_all add: pool_ok_def)
  then show ?thesis unfolding s1(2) by (simp add: release_all_eq pool_ok_def)
qed

lemma search_blocks_pool:
  "foldr_res (search_block ctx_of e) bs (w, s, es) = Inr (w', s', es') \<Longrightarrow> pool_ok ps s \<Longrightarrow>
   pool_ok ps s' \<and> (bs \<noteq> [] \<longrightarrow> ra_used s' = [])"
proof (induction bs arbitrary: w s es)
  case (Cons b bs)
  obtain w1 s1 es1 where b: "search_block ctx_of e b (w, s, es) = Inr (w1, s1, es1)"
    "foldr_res (search_block ctx_of e) bs (w1, s1, es1) = Inr (w', s', es')"
    using Cons.prems(1) by (auto simp: rbind_Inr_iff)
  have 1: "pool_ok ps s1" "ra_used s1 = []" using search_block_pool [OF b(1) Cons.prems(2)] by simp_all
  then show ?case using Cons.IH [OF b(2) 1(1)] b(2) by (cases "bs = []") auto
qed simp

text \<open>C36: An event gives all registers back: when none is in use before \<open>allocateEventRegisters\<close>, none is
  in use afterwards, and the free registers are those of before, each once, whatever was allocated,
  released and searched in between.\<close>

theorem event_returns_registers:
  assumes "allocateEventRegisters v e (w, s, es) = Inr (w', s', es')" "ra_used s = []" "distinct (ra_notUsed s)"
    and "e_blocks (es ! e) \<noteq> []"
  shows "ra_used s' = [] \<and> distinct (ra_notUsed s') \<and> mset (ra_notUsed s') = mset (ra_notUsed s)"
proof -
  let ?ps = "mset (ra_notUsed s)"
  obtain s1 s2 w3 s3 es3 where a: "allocateRegsForParams w (v_params v e) (s\<lparr>ra_unused := (ra_unused s)(e := Some (ra_notUsed s))\<rparr>) = Inr s1"
    "allocateRegsForEvent w e (getAllNestedDeclarations (v_scope v e)) (event_insts (es ! e)) s1 = Inr s2"
    "searchUnallocatedOperands (v_ctx v) e (w, s2, es) = Inr (w3, s3, es3)" "s' = releaseEventRegisters s3"
    using assms(1) by (auto simp: allocateEventRegisters_def rbind_Inr_iff Let_def)
  have "pool_ok ?ps s1" using pool_ok_params [OF a(1)] assms(2,3) by (simp add: pool_ok_def)
  then have "pool_ok ?ps s2" by (rule pool_ok_event [OF a(2)])
  then have "pool_ok ?ps s3" "ra_used s3 = []"
    using search_blocks_pool [OF a(3) [unfolded searchUnallocatedOperands_def]] assms(4) by simp_all
  then show ?thesis unfolding a(4) by (simp add: releaseEventRegisters_def pool_ok_def)
qed

section \<open>An example\<close>

text \<open>
  Two variables are loaded, a constant is stored in local memory between the second load and the last
  use of both, a third one follows.
\<close>

definition ex_inst :: "nat \<Rightarrow> wclass \<Rightarrow> opnd option list \<Rightarrow> wreg option \<Rightarrow> winst" where
  "ex_inst n k ops ret = (demo_inst k i64 [signed_q] 0 0)\<lparr>n_id := n, n_ops := ops, n_ret := ret\<rparr>"

definition ex_load :: "nat \<Rightarrow> int \<Rightarrow> nat \<Rightarrow> winst" where
  "ex_load n v d = ex_inst n (Memory LOAD) (replicate 6 None @ [Some (OImm (demo_imm v))]) (Some (demo_reg (int d) d))"

definition ex_insts :: "winst list" where
  "ex_insts =
     [ex_load 0 5 0, ex_load 1 6 1,
      ex_inst 2 (Memory STORELOCAL)
        [Some (ODecl 0), Some (OReg (demo_reg 0 0)), None, Some (OImm (demo_imm 0)), None, None, Some (OImm (demo_imm 7))] None,
      ex_inst 3 (Other ''send'') [Some (OReg (demo_reg 0 0)), Some (OReg (demo_reg 1 1))] None,
      ex_load 4 1 2, ex_inst 5 (Other ''send'') [Some (OReg (demo_reg 2 2))] None,
      ex_inst 6 (Other ''yield'') [] None]"

definition ex_event :: wevent where
  "ex_event = \<lparr>e_name = ''ev'', e_scopes = [0],
     e_table = [\<lparr>b_name = ''b'', b_insts = ex_insts, b_out = [], b_in = [], b_refs = []\<rparr>], e_blocks = [0], e_labels = 1\<rparr>"

definition ex_state :: wstate where
  "ex_state = demo_state\<lparr>w_decls := [demo_decl 0, demo_decl 1, demo_decl 2]\<rparr>"

definition ex_info :: alloc_info where
  "ex_info = \<lparr>v_thread = \<lambda>_. False, v_params = \<lambda>_. [], v_scope = \<lambda>_. DeclScope [0, 1, 2] [],
     v_ctx = \<lambda>_. \<lparr>c_scopes = [0], c_params = [], c_events = []\<rparr>\<rparr>"


lemmas alloc_defs = allocateEventRegisters_def allocateRegsForParams_def allocateRegsForEvent_def allocate_inst_def allocate_return_def
  allocate_operand_def releaseUsedRegisters_def release_one_def putGPR_def getGPR_def updateVirtualRegs_def setLastUsedInstr_def
  searchUnallocatedOperands_def search_block_def search_inst_def search_operand_def release_all_def releaseEventRegisters_def
  deadCodeRemoval_def removePhiNodes_def filter_blocks_def is_dead_def is_phi_node_def isInstruction_def in_ops_def event_insts_def
  get_insts_def set_insts_def block_def lastInstruction_def getInstrRange_def getVirtualRegistersForRange_def inst_regs_of_def op_regs_of_def
  has_reg_def same_reg_def writes_def curReg_def getInOps_def vreg_of_def

lemmas ex_defs = ex_info_def ex_event_def ex_insts_def ex_load_def ex_inst_def ex_state_def demo_inst_def demo_reg_def demo_imm_def demo_decl_def new_allocator_def all_regs_def


text \<open>
  The first two variables have X16 and X17, and the register that the code generation takes as a
  scratch register, for the constant of the store, is X17: the free registers are remembered as they
  were at the last allocation, when both variables were dead.
\<close>

lemma scratch_register_taken:
  "\<exists>w s es. allocateEventRegisters ex_info 0 (ex_state, new_allocator, [ex_event]) = Inr (w, s, es) \<and>
     map (\<lambda>d. ra_virt s (d, gpr)) [0, 1, 2] = [Some 16, Some 17, Some 16] \<and> getTempReg 0 0 s = Inr 17 \<and>
     map n_id (event_insts (es ! 0)) = [0, 1, 2, 3, 4, 5, 6]"
  by (simp add: alloc_defs ex_defs getTempReg_def isLocal_def Let_def getValueToStore_def nth_append upd_block_def)

theorem event_returns_registers_witness:
  "\<exists>w s es. allocateEventRegisters ex_info 0 (ex_state, new_allocator, [ex_event]) = Inr (w, s, es) \<and>
     ra_used s = [] \<and> mset (ra_notUsed s) = mset all_regs"
proof -
  obtain w s es where a: "allocateEventRegisters ex_info 0 (ex_state, new_allocator, [ex_event]) = Inr (w, s, es)"
    using scratch_register_taken by blast
  have "ra_used new_allocator = []" "distinct (ra_notUsed new_allocator)" "ra_notUsed new_allocator = all_regs"
    "e_blocks ([ex_event] ! 0) \<noteq> []"
    by (simp_all add: new_allocator_def all_regs_def ex_event_def)
  then show ?thesis using event_returns_registers [OF a] a by auto
qed

end
