(* ===== verification/Spec2Isabelle.thy ===== *)
theory Spec2Isabelle
  imports Asm_Decode Asm_Regions Asm_Binary Asm_Transitions Link_Correct Udw_Mul Udw_Rem Udw_Constants Udw_Ends Udw_Flow Udw_Pool
begin

text \<open>
  A verification library for the Python tool chain of the UpDown machine. A program of the
  machine is a set of EFAs (extended finite automata): states, transitions between them and the
  actions that a transition runs. The tool chain has three parts: the compiler of the language
  UDWeave (\<open>src/updown/udweave\<close>) prints Python that builds the objects of an EFA, the linker
  (\<open>src/updown/linker\<close>) joins such modules to one program, and the assembler
  (\<open>src/updown/udbasim/assembler\<close>) gives the states, actions and events of that program their
  addresses and writes the words of the machine into a binary file. The assembler (theories Asm), the
  linker (theories Link) and of the compiler its optimizer and the part of its code generation that
  the optimizer feeds (theories Udw) are modelled here.

  \<^bold>\<open>Theories and the code they model\<close>

  \<^item> Prelude: results \<open>'a res\<close> (a Python exception or a value; \<open>exit()\<close> is \<open>SysExit\<close>), ordered
    dicts as association lists, sequencing over lists, lookup lemmas shared by all parts.
    Py_Str, Py_Value, Py_Float: the Python text functions that the parser uses (\<open>split\<close>,
    \<open>strip\<close>, \<open>replace\<close>, \<open>int\<close>, \<open>str\<close>), the values that a field of an action may hold, and the
    IEEE bits of \<open>struct.pack\<close>.
  \<^item> Isa_Encodings: the tables of \<open>isa_encodings.py\<close>, one constant for each table, and the
    computation of the masks in \<open>enc_gen.py\<close>.
  \<^item> Asm_Action: \<open>EfaUtil_v2.ParseAction\<close> (one line of text to an action), \<open>Operand\<close>,
    \<open>register_map\<close>, and \<open>EFA_v2.GetAction\<close> with the constructors of the action classes.
  \<^item> Asm_Bits, Asm_Encode: \<open>inbinaryN\<close>, the field encoders and the instruction formats of
    \<open>UpDown_Assembler.py\<close>, \<open>change2newISA\<close>, \<open>resolve_branch_targets\<close>, \<open>encode_action_block\<close>.
    Asm_Words proves the shape of the words, Asm_Decode reads their fields back with the shifts
    and masks of the tables.
  \<^item> Asm_Memory: the class \<open>MemoryManager\<close> of \<open>UpDown_Assembler_helper.py\<close>, with the locale
    \<open>word_store\<close> as the interface of its words.
  \<^item> Asm_EFA: \<open>EFA_v2.State\<close>, \<open>Transition\<close> and \<open>EFA\<close>. The objects live in a \<open>world\<close>, a heap of
    states and one of transitions addressed by number, because states and transitions refer to
    each other and are shared; an operation of an object is a function from worlds to worlds.
  \<^item> Asm_Pseudo, Asm_Rewrite: \<open>change_pseudo_instr\<close> and \<open>update_event_labels\<close>, which replace
    pseudo instructions and event labels, and what the replacement keeps.
  \<^item> Asm_Layout, Asm_Color: the walk over the states that numbers the EFAs
    (\<open>color_EFAs\<close>, \<open>traverse_EFA_states\<close>, \<open>color_sharedblocks\<close>) and the addresses of the shared
    blocks. Asm_Place, Asm_Slots: \<open>set_state_bitmap\<close> with its search for free slots.
  \<^item> Asm_Event, Asm_Program: \<open>encode_event_instr\<close>, \<open>encode_EFA_transition_instr\<close> and
    \<open>assemble_program\<close> up to the memory image; Asm_Regions: the regions of that image do not
    overlap. Asm_Transitions: the word of a transition. Asm_Binary: \<open>generate_binaryfile\<close> as a
    list of bytes, the symbol table text, and a reader that gets the image back.

  \<^item> Link_Text, Link_Rename: the text functions of the linker (\<open>common/helper.py\<close>,
    \<open>common/instructions.py\<close>, \<open>interpretAddress\<close>, \<open>nameCleanUp\<close>, \<open>loadConstants\<close>) and renaming in
    actions as a replacement of whole words.
  \<^item> Link_Store, Link_Module, Link_Program: symbols, sections and modules refer to each other in
    cycles, so they live in a \<open>store\<close> of three lists and are named by their positions. The methods
    of \<open>Symbol\<close>, of the sections, of \<open>LinkableModule\<close> and of \<open>EFAProgram\<close> are functions on stores. A
    program is a Python method that makes calls on its module: \<open>program_call\<close> is one call, as an
    inductive relation between stores, and \<open>api_program\<close> says that a method only makes such calls.
  \<^item> Link_Output, Link_Main: the texts of \<open>dumpPython\<close> and \<open>dumpHeader\<close>, the class \<open>EFAlinker\<close> and
    \<open>linkerMain\<close>.
  \<^item> Link_Views, Link_Frame: the store as a few lists (kinds, names, owners, action lists, tables,
    null states), what every operation does to them, and the frame of a module: what a program or the
    first resolution of its symbols leaves alone. Link_Load, Link_Merge, Link_Resolve carry the
    invariants from loading over merging to the final resolution; Link_Ids has the numbers and
    addresses, Link_Refine the specification of a merge on symbol maps, Link_Demo a run of two small
    modules, Link_Correct the properties.

  \<^item> Udw_Types, Udw_IR: the data types, qualifiers and operations of
    \<open>Weave/WeaveIRenums.py\<close> and the virtual registers, immediates, declarations, instructions, basic
    blocks and events of \<open>Weave/WeaveIR.py\<close>. What objects of the compiler share and change is the
    record \<open>wstate\<close>: the counters, the declarations with their registers, the scopes.
  \<^item> Udw_Subst, Udw_Split, Udw_Passes: the passes of \<open>Weave/optimizer.py\<close>. \<open>OperandSubstitution\<close>
    replaces products, quotients, remainders and shifts by constants and merges a shift with the
    operation behind it, \<open>SplitImmediates\<close> builds large constants in registers, the others merge
    comparisons, branches and blocks or remove what is not used.
  \<^item> Udw_Gen: the assembly actions that \<open>backend/pythonGen.py\<close> prints for these instructions.
    Udw_Isa: what the actions do to 64-bit registers, from the C++ simulator
    (\<open>src/updown/udbasim/isa/src\<close>), with immediates as the assembler encodes them (Asm_Bits).
  \<^item> Udw_Runs: \<open>run\<close>, the execution of a list of instructions through both, for an assignment of
    physical registers. Udw_Mul, Udw_Div, Udw_Rem: the code of products, quotients and remainders.
    Udw_Build, Udw_Constants: constants of any size, and merged shifts. Udw_Ends: the loop of the
    operand substitution ends. Udw_Flow: comparisons, branches, and variables that are removed.
  \<^item> Udw_Alloc: the register allocator of \<open>backend/registerAllocator.py\<close>, which gives a declaration
    a physical register from its first write to its last read. Udw_Pool: its pool of registers.

  \<^bold>\<open>What the lemmas show\<close>

  The encoder gives one word of 32 binary digits for every action of a block, its fields are
  those of the action, and branches hold the distance to their label, unless that is 512 actions or more. The memory manager takes
  exactly the slots that it was asked for. A replaced block has no pseudo instruction left and
  never needs more words than were reserved for it. The numbering of EFAs ends, and no transition
  leaves an EFA. A block of slots is placed by an exact first fit. The image has disjoint regions
  and the binary file gives them back.

  The result of a link with every symbol required has no unresolved symbol left in an action. A merge
  adds the exported symbols of a module to the symbol map of the result; what it exports is specified
  without the functions of the code. States and events have the numbers from 0 on, and static data their
  addresses by a sum of sizes, which is always 0 because nothing sets the size of a symbol.

  A constant of up to 64 bits that is built in a register is that constant, and an arithmetic
  instruction with it computes what the instruction with two registers computes. A product by a power of
  two is the product; a signed 64-bit quotient into another register is the truncated quotient. Where
  the replacement is wrong, the lemmas say what is computed instead: products by negative powers are 0,
  a quotient in place is lost, types of less than 64 bits get the wrong sign, a signed remainder is
  right only below \<open>2^16\<close>, negative constants of bitwise operations lose their upper bits,
  and a merged shift with its constant on the left of \<open>|\<close> or \<open>&\<close> has the wrong
  opcode. The register allocator gives all registers back. All of this assumes that the registers of one
  declaration are one physical register (\<open>one_register\<close>), as the register allocator assigns
  them, and, where stated, that the operand is in another one.

  \<^bold>\<open>Bounds and fuel\<close>

  \<^item> \<open>traverse_EFA_states\<close> recurses as deep as a path of unmarked states; its fuel is the number
    of states plus one, which is enough because every call marks a state (theorem
    \<open>colouring_ends\<close>). Python's own recursion limit is not modelled.
  \<^item> \<open>find_free\<close>: the loop over the 4096 slots has fuel 4097, which is enough (\<open>search_ends\<close>).
  \<^item> Bitmaps are Python integers and stay \<open>int\<close>; the fields of instructions are strings of
    digits as in the source, with the wrap-around of \<open>inbinaryN\<close> written out.
  \<^item> The loops of the linker are over finite lists and need no fuel.
  \<^item> \<open>OperandSubstitution\<close> is a partial function; its value exists for every program (theorem
    \<open>OperandSubstitution_ends\<close>), by a weight of instructions that every change makes smaller. The loop
    over the declarations of a scope has the number of declarations as fuel, one for each visit.

  \<^bold>\<open>Not modelled\<close>

  Printed messages, the opening of files and directories, the command lines, the execution
  counters, \<open>Event\<close> queues and \<open>printOut\<close> methods that only the Python simulator uses, and
  \<open>calculate_defmaj_offset\<close>, which reads undefined names and is called nowhere. The set of block
  labels in \<open>find_input_term_label\<close> is visited in program order, where Python leaves the order
  open. Of the linker: \<open>dump\<close>, \<open>__str__\<close> and debug messages, the import of Python files and the
  random names of classes, \<open>EFAloader.py\<close> (stubs), replacement texts with a backslash in \<open>re.sub\<close>,
  characters outside ASCII. Of the compiler: the parser (PLY) and the syntax
  tree, intrinsics and idioms, sends (with \<open>Reg2ImmSendInstruction\<close>), casts, local memory, inline
  assembly, structures and unions, floating-point immediates, and the frame
  of the printed program. Registers are known by their number and immediates are values, so an
  immediate object that two instructions share is not seen. Generated programs, the rest of the C++ simulators,
  libraries of templates and the GPU scripts are outside.
\<close>

end
